(* ===== verification/Prelude.thy ===== *)
theory Prelude
  imports Main "HOL-Library.Word" "HOL-Library.Monad_Syntax"
begin

text \<open>
  Shared vocabulary of the development: the machine integers of the firmware, the reading of
  Rust's panics and \<open>Result\<close>s, checked arithmetic, slices, and the generic lemmas on lists,
  options and words that the component theories use.

  A definition that can panic returns an \<open>option\<close>: \<open>None\<close> is the panic (the firmware is built
  with \<^verbatim>\<open>panic = "abort"\<close> and \<^verbatim>\<open>overflow-checks = true\<close>, so an arithmetic overflow, a failed
  assertion and an out-of-range index all end there). A Rust \<open>Result<T, E>\<close> is the sum
  \<open>'e + 'a\<close>, with \<open>Inl\<close> for \<open>Err\<close>.
\<close>

unbundle bit_operations_syntax

named_theorems panic_simps \<open>rules that decide when a checked operation returns\<close>

type_synonym u8 = "8 word"
type_synonym u16 = "16 word"
type_synonym u32 = "32 word"
type_synonym u64 = "64 word"
type_synonym i32 = "32 word"

section \<open>Panics and checked operations\<close>

definition assert_that :: "bool \<Rightarrow> unit option" where
  "assert_that b = (if b then Some () else None)"

definition checked_index :: "'a list \<Rightarrow> nat \<Rightarrow> 'a option" where
  "checked_index xs i = (if i < length xs then Some (xs ! i) else None)"

definition checked_update :: "'a list \<Rightarrow> nat \<Rightarrow> 'a \<Rightarrow> 'a list option" where
  "checked_update xs i v = (if i < length xs then Some (xs[i := v]) else None)"

definition checked_minus :: "nat \<Rightarrow> nat \<Rightarrow> nat option" where
  "checked_minus a b = (if b \<le> a then Some (a - b) else None)"

text \<open>\<open>ArrayVec::push\<close>: a vector of fixed capacity, pushing beyond it panics.\<close>

definition array_push :: "nat \<Rightarrow> 'a list \<Rightarrow> 'a \<Rightarrow> 'a list option" where
  "array_push cap xs x = (if length xs < cap then Some (xs @ [x]) else None)"

lemma assert_that_True [panic_simps]: "b \<Longrightarrow> assert_that b = Some ()"
  by (simp add: assert_that_def)

lemma assert_that_simps [simp]: "assert_that True = Some ()" "assert_that False = None"
  by (simp_all add: assert_that_def)

lemma assert_that_Some_iff [simp]: "assert_that b = Some u \<longleftrightarrow> b"
  by (simp add: assert_that_def)

lemma assert_that_None_iff [simp]: "assert_that b = None \<longleftrightarrow> \<not> b"
  by (simp add: assert_that_def)

lemma checked_index_Some [panic_simps]: "i < length xs \<Longrightarrow> checked_index xs i = Some (xs ! i)"
  by (simp add: checked_index_def)

lemma checked_index_Some_iff [simp]:
  "checked_index xs i = Some v \<longleftrightarrow> i < length xs \<and> xs ! i = v"
  by (auto simp: checked_index_def)

lemma checked_update_Some [panic_simps]:
  "i < length xs \<Longrightarrow> checked_update xs i v = Some (xs[i := v])"
  by (simp add: checked_update_def)

lemma checked_update_Some_iff [simp]:
  "checked_update xs i v = Some ys \<longleftrightarrow> i < length xs \<and> ys = xs[i := v]"
  by (auto simp: checked_update_def)

lemma checked_minus_Some [panic_simps]: "b \<le> a \<Longrightarrow> checked_minus a b = Some (a - b)"
  by (simp add: checked_minus_def)

lemma checked_minus_Some_iff [simp]: "checked_minus a b = Some c \<longleftrightarrow> b \<le> a \<and> c = a - b"
  by (auto simp: checked_minus_def)

lemma array_push_Some [panic_simps]: "length xs < cap \<Longrightarrow> array_push cap xs x = Some (xs @ [x])"
  by (simp add: array_push_def)

lemma array_push_Some_iff [simp]:
  "array_push cap xs x = Some ys \<longleftrightarrow> length xs < cap \<and> ys = xs @ [x]"
  by (auto simp: array_push_def)

section \<open>Half-open index ranges\<close>

type_synonym idx_range = "nat \<times> nat"

definition range_is_empty :: "idx_range \<Rightarrow> bool" where
  "range_is_empty r \<longleftrightarrow> \<not> fst r < snd r"

definition range_contains :: "idx_range \<Rightarrow> nat \<Rightarrow> bool" where
  "range_contains r i \<longleftrightarrow> fst r \<le> i \<and> i < snd r"

section \<open>Lists\<close>

text \<open>\<open>Iterator::rposition\<close> on a slice: the last index whose element satisfies the predicate.\<close>

fun rposition :: "('a \<Rightarrow> bool) \<Rightarrow> 'a list \<Rightarrow> nat option" where
  "rposition P [] = None"
| "rposition P (x # xs) =
     (case rposition P xs of Some i \<Rightarrow> Some (Suc i) | None \<Rightarrow> if P x then Some 0 else None)"

lemma rposition_None_iff: "rposition P xs = None \<longleftrightarrow> (\<forall>x \<in> set xs. \<not> P x)"
  by (induction xs) (auto split: option.splits)

lemma rposition_SomeD:
  "rposition P xs = Some i \<Longrightarrow>
     i < length xs \<and> P (xs ! i) \<and> (\<forall>j. i < j \<and> j < length xs \<longrightarrow> \<not> P (xs ! j))"
proof (induction xs arbitrary: i)
  case Nil
  then show ?case by simp
next
  case (Cons x xs)
  show ?case
  proof (cases "rposition P xs")
    case None
    with Cons.prems have "P x" "i = 0" by (auto split: if_splits)
    moreover have "\<forall>y \<in> set xs. \<not> P y" using None by (simp add: rposition_None_iff)
    ultimately show ?thesis by (auto simp: nth_Cons split: nat.splits)
  next
    case (Some k)
    with Cons.prems have i: "i = Suc k" by simp
    have hyp: "k < length xs \<and> P (xs ! k) \<and> (\<forall>j. k < j \<and> j < length xs \<longrightarrow> \<not> P (xs ! j))"
      using Cons.IH [OF Some] .
    have "\<not> P ((x # xs) ! j)" if "i < j" "j < length (x # xs)" for j
      using that hyp i by (cases j) auto
    then show ?thesis using hyp i by simp
  qed
qed

lemma rposition_SomeI:
  "i < length xs \<Longrightarrow> P (xs ! i) \<Longrightarrow> (\<And>j. i < j \<Longrightarrow> j < length xs \<Longrightarrow> \<not> P (xs ! j)) \<Longrightarrow>
     rposition P xs = Some i"
  by (metis (no_types, lifting) linorder_neqE_nat nth_mem option.exhaust rposition_None_iff
      rposition_SomeD)

lemma Min_set_le: "x \<in> set xs \<Longrightarrow> Min (set xs) \<le> (x::'a::linorder)"
  by simp

text \<open>Writing a list of indexed values back into an array, as dropping a list of lock guards does.\<close>

fun write_back :: "(nat \<times> 'a) list \<Rightarrow> 'a list \<Rightarrow> 'a list" where
  "write_back [] xs = xs"
| "write_back ((i, v) # ps) xs = write_back ps (xs[i := v])"

lemma length_write_back [simp]: "length (write_back ps xs) = length xs"
  by (induction ps arbitrary: xs) auto

lemma write_back_other: "i \<notin> fst ` set ps \<Longrightarrow> write_back ps xs ! i = xs ! i"
  by (induction ps arbitrary: xs) auto

lemma write_back_mem:
  "distinct (map fst ps) \<Longrightarrow> (i, v) \<in> set ps \<Longrightarrow> i < length xs \<Longrightarrow> write_back ps xs ! i = v"
proof (induction ps arbitrary: xs)
  case Nil
  then show ?case by simp
next
  case (Cons p ps)
  obtain j w where p: "p = (j, w)" by (cases p)
  show ?case
  proof (cases "(i, v) = p")
    case True
    with Cons.prems p show ?thesis by (auto simp: write_back_other)
  next
    case False
    with Cons.prems have "(i, v) \<in> set ps" by simp
    with Cons.prems p show ?thesis by (simp add: Cons.IH)
  qed
qed

section \<open>Bit fields of words\<close>

text \<open>The masks of the firmware are runs of ones; the constants are written as numerals.\<close>

lemma bit_and_field: "bit (x AND push_bit s (mask w)) n \<longleftrightarrow> bit x n \<and> s \<le> n \<and> n < s + w"
  for x :: "'a::len word"
  using bit_imp_le_length [of x n] by (auto simp: bit_simps)

lemma and_field_eq_0_iff:
  "x AND push_bit s (mask w) = 0 \<longleftrightarrow> (\<forall>n. s \<le> n \<and> n < s + w \<longrightarrow> \<not> bit x n)"
  for x :: "'a::len word"
  by (auto simp: bit_eq_iff bit_and_field dest: bit_imp_le_length)

lemma and_bit_eq_0_iff: "x AND push_bit n 1 = 0 \<longleftrightarrow> \<not> bit x n" for x :: "'a::len word"
  using and_field_eq_0_iff [of x n 1] by (auto simp: le_less_Suc_eq)

end
