(* ===== verification/Power_Domain_Tree.thy ===== *)
theory Power_Domain_Tree
  imports Prelude
begin

text \<open>
  The power domain tree of the PSCI service, \<^verbatim>\<open>src/src/services/psci/power_domain_tree.rs\<close>:
  the CPU and non-CPU power nodes, the list of locked ancestors of a CPU, and the tree itself with
  its construction from a topology in breadth-first order.

  The const generics and the associated constants of \<open>PlatformPowerStateInterface\<close> and
  \<open>NodeIndexInterface\<close> are the record \<open>psci_cfg\<close>; the platform's power state is a type variable of
  class \<open>linorder\<close>, as the source asks for \<open>Ord\<close>. Node indices are naturals whose conversions and
  additions are checked against \<open>NODE_INDEX_MAX\<close>. A list of locked nodes is a list of pairs of an
  index and the node taken out of the array; \<open>write_back\<close> is the release of the guards. Locking a
  node whose guard is already held never returns in the source, and is \<open>None\<close> here.
\<close>

section \<open>Power states\<close>

datatype PowerStateType = PowerDownType | StandbyOrRetentionType | RunType

record 'ps psci_cfg =
  CPU_DOMAIN_COUNT :: nat
  NON_CPU_DOMAIN_COUNT :: nat
  MAX_POWER_LEVEL :: nat
  NODE_INDEX_MAX :: nat
  PS_OFF :: 'ps
  PS_RUN :: 'ps
  power_state_type :: "'ps \<Rightarrow> PowerStateType"

definition CPU_POWER_LEVEL :: nat where
  "CPU_POWER_LEVEL = 0"

text \<open>
  The contract of \<open>PlatformPowerStateInterface\<close>: the order ascends from the running state to the
  power-down state, and the type of a state follows the order.
\<close>

locale power_state_laws =
  fixes cfg :: "'ps::linorder psci_cfg"
  assumes run_least: "PS_RUN cfg \<le> s"
    and off_greatest: "s \<le> PS_OFF cfg"
    and type_run: "power_state_type cfg s = RunType \<longleftrightarrow> s = PS_RUN cfg"
    and type_off: "power_state_type cfg (PS_OFF cfg) = PowerDownType"
    and power_down_upwards:
      "power_state_type cfg s = PowerDownType \<Longrightarrow> s \<le> s' \<Longrightarrow> power_state_type cfg s' = PowerDownType"
begin

lemma le_run_iff: "s \<le> PS_RUN cfg \<longleftrightarrow> s = PS_RUN cfg"
  using run_least antisym by auto

lemma off_le_iff: "PS_OFF cfg \<le> s \<longleftrightarrow> s = PS_OFF cfg"
  using off_greatest antisym by auto

lemma off_not_run: "PS_OFF cfg \<noteq> PS_RUN cfg"
  using type_off type_run [of "PS_OFF cfg"] by auto

end

text \<open>Checked addition and conversion of \<open>NodeIndex\<close> values.\<close>

definition index_add :: "'ps psci_cfg \<Rightarrow> nat \<Rightarrow> nat \<Rightarrow> nat option" where
  "index_add cfg a b = (if a + b \<le> NODE_INDEX_MAX cfg then Some (a + b) else None)"

definition index_try_into :: "'ps psci_cfg \<Rightarrow> nat \<Rightarrow> nat option" where
  "index_try_into cfg a = (if a \<le> NODE_INDEX_MAX cfg then Some a else None)"

section \<open>Non-CPU power nodes\<close>

record 'ps NonCpuPowerNode =
  nc_parent :: "nat option"
  nc_local_state :: 'ps
  cpu_range :: idx_range
  non_cpu_range :: idx_range
  requested_states :: "'ps list"
  suspend_states :: "'ps option list"
  non_cpu_states :: "'ps list"

definition NonCpuPowerNode_new :: "'ps psci_cfg \<Rightarrow> nat option \<Rightarrow> 'ps NonCpuPowerNode" where
  "NonCpuPowerNode_new cfg parent =
     \<lparr>nc_parent = parent, nc_local_state = PS_OFF cfg, cpu_range = (0, 0), non_cpu_range = (0, 0),
      requested_states = [], suspend_states = [], non_cpu_states = []\<rparr>"

definition assign_cpu ::
  "'ps psci_cfg \<Rightarrow> 'ps NonCpuPowerNode \<Rightarrow> nat \<Rightarrow> 'ps NonCpuPowerNode option" where
  "assign_cpu cfg node cpu_index =
     do {
       r \<leftarrow> (if range_is_empty (cpu_range node)
            then do { e \<leftarrow> index_add cfg cpu_index 1; Some (cpu_index, e) }
            else do {
              assert_that (snd (cpu_range node) = cpu_index);
              e \<leftarrow> index_add cfg (snd (cpu_range node)) 1;
              Some (fst (cpu_range node), e) });
       rs \<leftarrow> array_push (CPU_DOMAIN_COUNT cfg) (requested_states node) (PS_OFF cfg);
       ss \<leftarrow> array_push (CPU_DOMAIN_COUNT cfg) (suspend_states node) None;
       Some (node\<lparr>cpu_range := r, requested_states := rs, suspend_states := ss\<rparr>)
     }"

definition assign_non_cpu ::
  "'ps psci_cfg \<Rightarrow> 'ps NonCpuPowerNode \<Rightarrow> nat \<Rightarrow> 'ps NonCpuPowerNode option" where
  "assign_non_cpu cfg node non_cpu_index =
     do {
       r \<leftarrow> (if range_is_empty (non_cpu_range node)
            then do { e \<leftarrow> index_add cfg non_cpu_index 1; Some (non_cpu_index, e) }
            else do {
              assert_that (snd (non_cpu_range node) = non_cpu_index);
              e \<leftarrow> index_add cfg (snd (non_cpu_range node)) 1;
              Some (fst (non_cpu_range node), e) });
       ns \<leftarrow> array_push (NON_CPU_DOMAIN_COUNT cfg) (non_cpu_states node) (PS_OFF cfg);
       Some (node\<lparr>non_cpu_range := r, non_cpu_states := ns\<rparr>)
     }"

definition set_requested_power_state ::
  "'ps NonCpuPowerNode \<Rightarrow> nat \<Rightarrow> 'ps \<Rightarrow> 'ps NonCpuPowerNode option" where
  "set_requested_power_state node cpu_index state =
     do {
       assert_that (range_contains (cpu_range node) cpu_index);
       rs \<leftarrow> checked_update (requested_states node) (cpu_index - fst (cpu_range node)) state;
       Some (node\<lparr>requested_states := rs\<rparr>)
     }"

definition set_suspend_state ::
  "'ps NonCpuPowerNode \<Rightarrow> nat \<Rightarrow> 'ps \<Rightarrow> 'ps NonCpuPowerNode option" where
  "set_suspend_state node cpu_index state =
     do {
       assert_that (range_contains (cpu_range node) cpu_index);
       ss \<leftarrow> checked_update (suspend_states node) (cpu_index - fst (cpu_range node)) (Some state);
       Some (node\<lparr>suspend_states := ss\<rparr>)
     }"

definition clear_suspend_state ::
  "'ps NonCpuPowerNode \<Rightarrow> nat \<Rightarrow> 'ps NonCpuPowerNode option" where
  "clear_suspend_state node cpu_index =
     do {
       assert_that (range_contains (cpu_range node) cpu_index);
       ss \<leftarrow> checked_update (suspend_states node) (cpu_index - fst (cpu_range node)) None;
       Some (node\<lparr>suspend_states := ss\<rparr>)
     }"

definition set_non_cpu_state ::
  "'ps NonCpuPowerNode \<Rightarrow> nat \<Rightarrow> 'ps \<Rightarrow> 'ps NonCpuPowerNode option" where
  "set_non_cpu_state node non_cpu_index state =
     do {
       assert_that (range_contains (non_cpu_range node) non_cpu_index);
       ns \<leftarrow> checked_update (non_cpu_states node) (non_cpu_index - fst (non_cpu_range node)) state;
       Some (node\<lparr>non_cpu_states := ns\<rparr>)
     }"

text \<open>The pairs of requested and suspend states, without the entry of one CPU.\<close>

definition states ::
  "'ps NonCpuPowerNode \<Rightarrow> nat \<Rightarrow> ('ps \<times> 'ps option) list option" where
  "states node skip_cpu_index =
     do {
       skip \<leftarrow> checked_minus skip_cpu_index (fst (cpu_range node));
       Some (map snd (filter (\<lambda>(index, _). index \<noteq> skip)
         (enumerate 0 (zip (requested_states node) (suspend_states node)))))
     }"

fun min_cpu_state ::
  "'ps::linorder psci_cfg \<Rightarrow> 'ps \<Rightarrow> ('ps \<times> 'ps option) list \<Rightarrow> 'ps option" where
  "min_cpu_state cfg acc [] = Some acc"
| "min_cpu_state cfg acc ((state, suspend_state) # rest) =
     (if state \<noteq> PS_RUN cfg
      then do {
        assert_that (suspend_state = None);
        min_cpu_state cfg (min acc state) rest }
      else min_cpu_state cfg
        (min acc (case suspend_state of None \<Rightarrow> PS_RUN cfg | Some s \<Rightarrow> s)) rest)"

definition get_osi_minimal_allowed_state_without_core ::
  "'ps::linorder psci_cfg \<Rightarrow> 'ps NonCpuPowerNode \<Rightarrow> nat \<Rightarrow> nat option \<Rightarrow> 'ps option" where
  "get_osi_minimal_allowed_state_without_core cfg node cpu_index non_cpu_index =
     do {
       others \<leftarrow> states node cpu_index;
       m \<leftarrow> min_cpu_state cfg (PS_OFF cfg) others;
       Some (case non_cpu_index of
               None \<Rightarrow> m
             | Some nci \<Rightarrow>
                 fold (\<lambda>(state, i) acc. if i \<noteq> nci then min acc state else acc)
                   (zip (non_cpu_states node)
                     [fst (non_cpu_range node) ..< snd (non_cpu_range node)]) m)
     }"

definition is_last_cpu_to_idle ::
  "'ps::linorder psci_cfg \<Rightarrow> 'ps NonCpuPowerNode \<Rightarrow> nat \<Rightarrow> nat option \<Rightarrow> bool option" where
  "is_last_cpu_to_idle cfg node cpu_index non_cpu_index =
     do {
       m \<leftarrow> get_osi_minimal_allowed_state_without_core cfg node cpu_index non_cpu_index;
       Some (m \<noteq> PS_RUN cfg)
     }"

definition set_minimal_allowed_state ::
  "'ps::linorder NonCpuPowerNode \<Rightarrow> 'ps NonCpuPowerNode option" where
  "set_minimal_allowed_state node =
     (if requested_states node = [] then None
      else Some (node\<lparr>nc_local_state := Min (set (requested_states node))\<rparr>))"

definition set_local_state :: "'ps NonCpuPowerNode \<Rightarrow> 'ps \<Rightarrow> 'ps NonCpuPowerNode" where
  "set_local_state node state = node\<lparr>nc_local_state := state\<rparr>"

section \<open>CPU power nodes\<close>

datatype AffinityInfo = On | Off | OnPending

datatype EntryPoint = Entry32 u32 u32 | Entry64 u64 u64

record 'ps CpuPowerNode =
  cpu_parent :: nat
  affinity_info :: AffinityInfo
  cpu_local_state :: 'ps
  entry_point :: "EntryPoint option"

definition CpuPowerNode_new :: "'ps psci_cfg \<Rightarrow> nat \<Rightarrow> 'ps CpuPowerNode" where
  "CpuPowerNode_new cfg parent =
     \<lparr>cpu_parent = parent, affinity_info = Off, cpu_local_state = PS_OFF cfg, entry_point = None\<rparr>"

definition set_affinity_info :: "'ps CpuPowerNode \<Rightarrow> AffinityInfo \<Rightarrow> 'ps CpuPowerNode" where
  "set_affinity_info cpu info = cpu\<lparr>affinity_info := info\<rparr>"

definition cpu_set_local_state :: "'ps CpuPowerNode \<Rightarrow> 'ps \<Rightarrow> 'ps CpuPowerNode" where
  "cpu_set_local_state cpu state = cpu\<lparr>cpu_local_state := state\<rparr>"

definition set_entry_point :: "'ps CpuPowerNode \<Rightarrow> EntryPoint \<Rightarrow> 'ps CpuPowerNode option" where
  "set_entry_point cpu ep =
     do { assert_that (entry_point cpu = None); Some (cpu\<lparr>entry_point := Some ep\<rparr>) }"

definition pop_entry_point :: "'ps CpuPowerNode \<Rightarrow> EntryPoint option \<times> 'ps CpuPowerNode" where
  "pop_entry_point cpu = (entry_point cpu, cpu\<lparr>entry_point := None\<rparr>)"

section \<open>Locked ancestors\<close>

type_synonym 'ps ancestors = "(nat \<times> 'ps NonCpuPowerNode) list"

function lock_ancestors ::
  "'ps psci_cfg \<Rightarrow> 'ps NonCpuPowerNode list \<Rightarrow> nat \<Rightarrow> nat list \<Rightarrow> nat option \<Rightarrow> nat \<Rightarrow>
     'ps ancestors option" where
  "lock_ancestors cfg mutexes max_level held parent level =
     (case parent of
        None \<Rightarrow> Some []
      | Some index \<Rightarrow>
          if \<not> level \<le> MAX_POWER_LEVEL cfg then None
          else if level > max_level then Some []
          else if \<not> index < length mutexes \<or> index \<in> set held then None
          else (let locked = mutexes ! index in
                do {
                  rest \<leftarrow> lock_ancestors cfg mutexes max_level (index # held)
                    (nc_parent locked) (Suc level);
                  Some ((index, locked) # rest)
                }))"
  by pat_completeness auto
termination
  by (relation "measure (\<lambda>(cfg, _, _, _, _, level). Suc (MAX_POWER_LEVEL cfg) - level)") auto

declare lock_ancestors.simps [simp del]

definition new_with_max_level ::
  "'ps psci_cfg \<Rightarrow> nat \<Rightarrow> nat \<Rightarrow> 'ps NonCpuPowerNode list \<Rightarrow> 'ps ancestors option" where
  "new_with_max_level cfg index max_level mutexes =
     lock_ancestors cfg mutexes max_level [] (Some index) (CPU_POWER_LEVEL + 1)"

fun set_running_from ::
  "'ps psci_cfg \<Rightarrow> nat \<Rightarrow> nat option \<Rightarrow> 'ps ancestors \<Rightarrow> 'ps ancestors option" where
  "set_running_from cfg cpu_index child_index [] = Some []"
| "set_running_from cfg cpu_index child_index ((i, node) # rest) =
     do {
       n1 \<leftarrow> set_requested_power_state node cpu_index (PS_RUN cfg);
       n2 \<leftarrow> clear_suspend_state n1 cpu_index;
       let n3 = set_local_state n2 (PS_RUN cfg);
       n4 \<leftarrow> (case child_index of
               Some ci \<Rightarrow> set_non_cpu_state n3 ci (PS_RUN cfg)
             | None \<Rightarrow> Some n3);
       rest' \<leftarrow> set_running_from cfg cpu_index (Some i) rest;
       Some ((i, n4) # rest')
     }"

definition set_running :: "'ps psci_cfg \<Rightarrow> 'ps ancestors \<Rightarrow> nat \<Rightarrow> 'ps ancestors option" where
  "set_running cfg ancestors cpu_index = set_running_from cfg cpu_index None ancestors"

definition is_last_cpu_to_idle_at_power_level ::
  "'ps::linorder psci_cfg \<Rightarrow> 'ps ancestors \<Rightarrow> nat \<Rightarrow> nat \<Rightarrow> bool option" where
  "is_last_cpu_to_idle_at_power_level cfg ancestors cpu_index end_power_level =
     (if end_power_level = CPU_POWER_LEVEL then Some True
      else do {
        child_non_cpu_index \<leftarrow>
          (if end_power_level \<ge> 2
           then do {
             a \<leftarrow> checked_index ancestors (end_power_level - 2);
             Some (Some (fst a)) }
           else Some None);
        top \<leftarrow> checked_index ancestors (end_power_level - 1);
        is_last_cpu_to_idle cfg (snd top) cpu_index child_non_cpu_index
      })"

section \<open>The tree\<close>

record 'ps PowerDomainTree =
  non_cpu_power_nodes :: "'ps NonCpuPowerNode list"
  cpu_power_nodes :: "'ps CpuPowerNode list"

text \<open>
  The construction. \<open>new_children\<close> is the innermost loop over \<open>(&mut node_index).take(child_count)\<close>,
  \<open>new_level\<close> the loop over the nodes of one level, \<open>new_levels\<close> the loop over the levels.
\<close>

fun new_children ::
  "'ps psci_cfg \<Rightarrow> nat option \<Rightarrow> nat \<Rightarrow> nat \<Rightarrow> 'ps NonCpuPowerNode list \<Rightarrow>
     (nat \<times> 'ps NonCpuPowerNode list) option" where
  "new_children cfg parent_node 0 index nodes = Some (index, nodes)"
| "new_children cfg parent_node (Suc n) index nodes =
     (if index < NON_CPU_DOMAIN_COUNT cfg
      then do {
        nodes1 \<leftarrow> array_push (NON_CPU_DOMAIN_COUNT cfg) nodes (NonCpuPowerNode_new cfg parent_node);
        nodes2 \<leftarrow>
          (case parent_node of
             None \<Rightarrow> Some nodes1
           | Some parent_index \<Rightarrow> do {
               p \<leftarrow> checked_index nodes1 parent_index;
               i \<leftarrow> index_try_into cfg index;
               p' \<leftarrow> assign_non_cpu cfg p i;
               checked_update nodes1 parent_index p' });
        new_children cfg parent_node n (Suc index) nodes2 }
      else Some (index, nodes))"

fun new_level ::
  "'ps psci_cfg \<Rightarrow> nat list \<Rightarrow> nat \<Rightarrow>
     nat \<times> 'ps NonCpuPowerNode list \<times> nat \<times> nat \<times> nat option \<Rightarrow>
     (nat \<times> 'ps NonCpuPowerNode list \<times> nat \<times> nat \<times> nat option) option" where
  "new_level cfg topology 0 st = Some st"
| "new_level cfg topology (Suc n) (index, nodes, next_count, parent_node_index, parent_node) =
     do {
       child_count \<leftarrow> checked_index topology parent_node_index;
       (index', nodes') \<leftarrow> new_children cfg parent_node child_count index nodes;
       next_index \<leftarrow> index_add cfg parent_node_index 1;
       new_level cfg topology n
         (index', nodes', next_count + child_count, next_index, Some parent_node_index)
     }"

fun new_levels ::
  "'ps psci_cfg \<Rightarrow> nat list \<Rightarrow> nat \<Rightarrow> nat \<Rightarrow>
     nat \<times> 'ps NonCpuPowerNode list \<times> nat \<times> nat option \<Rightarrow>
     (nat \<times> 'ps NonCpuPowerNode list \<times> nat) option" where
  "new_levels cfg topology 0 node_count (index, nodes, parent_node_index, parent_node) =
     Some (index, nodes, parent_node_index)"
| "new_levels cfg topology (Suc n) node_count (index, nodes, parent_node_index, parent_node) =
     do {
       (index', nodes', next_count, parent_node_index', parent_node') \<leftarrow>
         new_level cfg topology node_count (index, nodes, 0, parent_node_index, parent_node);
       new_levels cfg topology n next_count (index', nodes', parent_node_index', parent_node')
     }"

text \<open>\<open>PowerDomainTree::assign_cpu\<close>: the guards of the nodes below are held during the recursion.\<close>

function tree_assign_cpu ::
  "'ps psci_cfg \<Rightarrow> 'ps NonCpuPowerNode list \<Rightarrow> nat list \<Rightarrow> nat \<Rightarrow> nat \<Rightarrow>
     'ps NonCpuPowerNode list option" where
  "tree_assign_cpu cfg nodes held parent_index cpu_index =
     (if \<not> parent_index < length nodes \<or> parent_index \<in> set held then None
      else (case assign_cpu cfg (nodes ! parent_index) cpu_index of
              None \<Rightarrow> None
            | Some node' \<Rightarrow>
                (case nc_parent node' of
                   None \<Rightarrow> Some (nodes[parent_index := node'])
                 | Some grandparent \<Rightarrow>
                     tree_assign_cpu cfg (nodes[parent_index := node']) (parent_index # held)
                       grandparent cpu_index)))"
  by pat_completeness auto
termination
proof (relation "measure (\<lambda>(_, nodes, held, _, _). card ({..<length nodes} - set held))", goal_cases)
  case 1
  show ?case by simp
next
  case (2 cfg nodes held p c node' g)
  then have "{..<length nodes} - set (p # held) \<subset> {..<length nodes} - set held" by auto
  then show ?case by (simp add: psubset_card_mono)
qed

declare tree_assign_cpu.simps [simp del]

fun new_cpu_children ::
  "'ps psci_cfg \<Rightarrow> nat \<Rightarrow> nat \<Rightarrow> nat \<Rightarrow> 'ps CpuPowerNode list \<Rightarrow> 'ps NonCpuPowerNode list \<Rightarrow>
     (nat \<times> 'ps CpuPowerNode list \<times> 'ps NonCpuPowerNode list) option" where
  "new_cpu_children cfg parent 0 index cpus nodes = Some (index, cpus, nodes)"
| "new_cpu_children cfg parent (Suc n) index cpus nodes =
     (if index < CPU_DOMAIN_COUNT cfg
      then do {
        cpus' \<leftarrow> array_push (CPU_DOMAIN_COUNT cfg) cpus (CpuPowerNode_new cfg parent);
        i \<leftarrow> index_try_into cfg index;
        nodes' \<leftarrow> tree_assign_cpu cfg nodes [] parent i;
        new_cpu_children cfg parent n (Suc index) cpus' nodes' }
      else Some (index, cpus, nodes))"

fun new_cpus ::
  "'ps psci_cfg \<Rightarrow> nat list \<Rightarrow> nat \<Rightarrow> nat \<Rightarrow> 'ps CpuPowerNode list \<Rightarrow> 'ps NonCpuPowerNode list \<Rightarrow>
     (nat \<times> 'ps CpuPowerNode list \<times> 'ps NonCpuPowerNode list) option" where
  "new_cpus cfg [] parent_node_index index cpus nodes = Some (index, cpus, nodes)"
| "new_cpus cfg (num_children # rest) parent_node_index index cpus nodes =
     do {
       (index', cpus', nodes') \<leftarrow>
         (if num_children = 0 \<or> \<not> index < CPU_DOMAIN_COUNT cfg then Some (index, cpus, nodes)
          else do {
            parent \<leftarrow> checked_minus parent_node_index 1;
            new_cpu_children cfg parent num_children index cpus nodes });
       next_index \<leftarrow> index_add cfg parent_node_index 1;
       new_cpus cfg rest next_index index' cpus' nodes'
     }"

definition PowerDomainTree_new ::
  "'ps psci_cfg \<Rightarrow> nat list \<Rightarrow> 'ps PowerDomainTree option" where
  "PowerDomainTree_new cfg topology =
     do {
       assert_that (NODE_INDEX_MAX cfg \<ge> CPU_DOMAIN_COUNT cfg);
       assert_that (NODE_INDEX_MAX cfg \<ge> NON_CPU_DOMAIN_COUNT cfg);
       (index, nodes, parent_node_index) \<leftarrow>
         new_levels cfg topology (MAX_POWER_LEVEL cfg - CPU_POWER_LEVEL) 1 (0, [], 0, None);
       assert_that (\<not> index < NON_CPU_DOMAIN_COUNT cfg);
       assert_that (parent_node_index \<le> length topology);
       (cpu_index, cpus, nodes') \<leftarrow>
         new_cpus cfg (drop parent_node_index topology) parent_node_index 0 [] nodes;
       assert_that (\<not> cpu_index < CPU_DOMAIN_COUNT cfg);
       Some \<lparr>non_cpu_power_nodes = nodes', cpu_power_nodes = cpus\<rparr>
     }"

text \<open>\<open>is_last_cpu\<close>: the assertion is only reached when every CPU before it is off.\<close>

fun is_last_cpu_from :: "nat \<Rightarrow> nat \<Rightarrow> 'ps CpuPowerNode list \<Rightarrow> bool option" where
  "is_last_cpu_from cpu_index index [] = Some True"
| "is_last_cpu_from cpu_index index (cpu # cpus) =
     (if index = cpu_index
      then do {
        assert_that (affinity_info cpu = On);
        is_last_cpu_from cpu_index (Suc index) cpus }
      else if affinity_info cpu = Off then is_last_cpu_from cpu_index (Suc index) cpus
      else Some False)"

definition is_last_cpu :: "'ps PowerDomainTree \<Rightarrow> nat \<Rightarrow> bool option" where
  "is_last_cpu tree cpu_index = is_last_cpu_from cpu_index 0 (cpu_power_nodes tree)"

definition are_all_cpus_on :: "'ps PowerDomainTree \<Rightarrow> bool" where
  "are_all_cpus_on tree = list_all (\<lambda>cpu. affinity_info cpu = On) (cpu_power_nodes tree)"

definition locked_cpu_node :: "'ps PowerDomainTree \<Rightarrow> nat \<Rightarrow> 'ps CpuPowerNode option" where
  "locked_cpu_node tree cpu_index = checked_index (cpu_power_nodes tree) cpu_index"

text \<open>
  Releasing the guard of a CPU node, and running a closure with the ancestors locked. The closure
  gets the CPU node and the locked ancestors and returns its result with both updated.
\<close>

definition unlock_cpu_node ::
  "'ps PowerDomainTree \<Rightarrow> nat \<Rightarrow> 'ps CpuPowerNode \<Rightarrow> 'ps PowerDomainTree" where
  "unlock_cpu_node tree cpu_index cpu =
     tree\<lparr>cpu_power_nodes := (cpu_power_nodes tree)[cpu_index := cpu]\<rparr>"

definition with_ancestors_locked_to_max_level ::
  "'ps psci_cfg \<Rightarrow> 'ps PowerDomainTree \<Rightarrow> 'ps CpuPowerNode \<Rightarrow> nat \<Rightarrow>
     ('ps CpuPowerNode \<Rightarrow> 'ps ancestors \<Rightarrow> ('r \<times> 'ps CpuPowerNode \<times> 'ps ancestors) option) \<Rightarrow>
     ('r \<times> 'ps CpuPowerNode \<times> 'ps PowerDomainTree) option" where
  "with_ancestors_locked_to_max_level cfg tree cpu max_level f =
     do {
       lock_list \<leftarrow> new_with_max_level cfg (cpu_parent cpu) max_level (non_cpu_power_nodes tree);
       (r, cpu', lock_list') \<leftarrow> f cpu lock_list;
       Some (r, cpu',
         tree\<lparr>non_cpu_power_nodes := write_back lock_list' (non_cpu_power_nodes tree)\<rparr>)
     }"

definition with_ancestors_locked ::
  "'ps psci_cfg \<Rightarrow> 'ps PowerDomainTree \<Rightarrow> 'ps CpuPowerNode \<Rightarrow>
     ('ps CpuPowerNode \<Rightarrow> 'ps ancestors \<Rightarrow> ('r \<times> 'ps CpuPowerNode \<times> 'ps ancestors) option) \<Rightarrow>
     ('r \<times> 'ps CpuPowerNode \<times> 'ps PowerDomainTree) option" where
  "with_ancestors_locked cfg tree cpu f =
     with_ancestors_locked_to_max_level cfg tree cpu (MAX_POWER_LEVEL cfg) f"

end
