(* ===== verification/Composite_State.thy ===== *)
theory Composite_State
  imports Power_Domain_Tree
begin

text \<open>
  \<open>PsciCompositePowerState\<close> of \<^verbatim>\<open>src/src/services/psci.rs\<close>: one local state for each power level,
  the platform-coordinated and the OS-initiated ways of bringing it to the power domain tree, and
  the validation of a suspend request. The array of \<open>STATE_COUNT = MAX_POWER_LEVEL + 1\<close> states is a
  list; the slices of the source are checked against its length.
\<close>

datatype ErrorCode =
  NotSupported | InvalidParameters | Denied | AlreadyOn | OnPendingError | InternalFailure
  | InvalidAddress

record 'ps PsciCompositePowerState =
  cs_states :: "'ps list"
  last_at_power_level :: "nat option"

definition composite_OFF :: "'ps psci_cfg \<Rightarrow> 'ps PsciCompositePowerState" where
  "composite_OFF cfg =
     \<lparr>cs_states = replicate (MAX_POWER_LEVEL cfg + 1) (PS_OFF cfg), last_at_power_level = None\<rparr>"

definition composite_RUN :: "'ps psci_cfg \<Rightarrow> 'ps PsciCompositePowerState" where
  "composite_RUN cfg =
     \<lparr>cs_states = replicate (MAX_POWER_LEVEL cfg + 1) (PS_RUN cfg), last_at_power_level = None\<rparr>"

definition composite_new :: "'ps list \<Rightarrow> 'ps PsciCompositePowerState" where
  "composite_new sts = \<lparr>cs_states = sts, last_at_power_level = None\<rparr>"

definition new_with_last_power_level :: "'ps list \<Rightarrow> nat \<Rightarrow> 'ps PsciCompositePowerState" where
  "new_with_last_power_level sts l = \<lparr>cs_states = sts, last_at_power_level = Some l\<rparr>"

definition cpu_level_state :: "'ps PsciCompositePowerState \<Rightarrow> 'ps option" where
  "cpu_level_state cs = checked_index (cs_states cs) CPU_POWER_LEVEL"

definition highest_level_state :: "'ps PsciCompositePowerState \<Rightarrow> 'ps option" where
  "highest_level_state cs = checked_index (cs_states cs) (length (cs_states cs) - 1)"

definition find_highest_non_run_level ::
  "'ps psci_cfg \<Rightarrow> 'ps PsciCompositePowerState \<Rightarrow> nat option" where
  "find_highest_non_run_level cfg cs =
     rposition (\<lambda>state. power_state_type cfg state \<noteq> RunType) (cs_states cs)"

definition find_highest_power_down_level ::
  "'ps psci_cfg \<Rightarrow> 'ps PsciCompositePowerState \<Rightarrow> nat option" where
  "find_highest_power_down_level cfg cs =
     rposition (\<lambda>state. power_state_type cfg state = PowerDownType) (cs_states cs)"

text \<open>The two halves of copying local states between a composite state and the nodes.\<close>

fun copy_states :: "'ps ancestors \<Rightarrow> 'ps list \<Rightarrow> 'ps list" where
  "copy_states ((_, node) # ancestors) (_ # sts) = nc_local_state node # copy_states ancestors sts"
| "copy_states _ sts = sts"

definition set_local_states_from_nodes ::
  "'ps PsciCompositePowerState \<Rightarrow> 'ps CpuPowerNode \<Rightarrow> 'ps ancestors \<Rightarrow>
     'ps PsciCompositePowerState option" where
  "set_local_states_from_nodes cs cpu ancestors =
     do {
       sts \<leftarrow> checked_update (cs_states cs) CPU_POWER_LEVEL (cpu_local_state cpu);
       Some (cs\<lparr>cs_states := take (CPU_POWER_LEVEL + 1) sts
         @ copy_states ancestors (drop (CPU_POWER_LEVEL + 1) sts)\<rparr>)
     }"

fun set_nodes_from ::
  "(nat \<times> 'ps) option \<Rightarrow> 'ps ancestors \<Rightarrow> 'ps list \<Rightarrow>
     ((nat \<times> 'ps) option \<times> 'ps ancestors) option" where
  "set_nodes_from child_state ((node_index, node) # ancestors) (state # sts) =
     do {
       let n1 = set_local_state node state;
       n2 \<leftarrow> (case child_state of
               Some (non_cpu_index, s) \<Rightarrow> set_non_cpu_state n1 non_cpu_index s
             | None \<Rightarrow> Some n1);
       (last_child, rest) \<leftarrow> set_nodes_from (Some (node_index, state)) ancestors sts;
       Some (last_child, (node_index, n2) # rest)
     }"
| "set_nodes_from child_state ancestors sts = Some (child_state, ancestors)"

definition set_nodes_from_local_states ::
  "'ps psci_cfg \<Rightarrow> 'ps PsciCompositePowerState \<Rightarrow> nat \<Rightarrow> 'ps CpuPowerNode \<Rightarrow> 'ps ancestors \<Rightarrow>
     ('ps CpuPowerNode \<times> 'ps ancestors) option" where
  "set_nodes_from_local_states cfg cs highest_affected_level cpu ancestors =
     do {
       s0 \<leftarrow> cpu_level_state cs;
       let cpu' = cpu_set_local_state cpu s0;
       if highest_affected_level > CPU_POWER_LEVEL
       then do {
         assert_that (highest_affected_level < length (cs_states cs));
         (child_state, lower) \<leftarrow>
           set_nodes_from None (take highest_affected_level ancestors)
             (take highest_affected_level (drop (CPU_POWER_LEVEL + 1) (cs_states cs)));
         let ancestors' = lower @ drop highest_affected_level ancestors;
         if highest_affected_level < MAX_POWER_LEVEL cfg
            \<and> highest_affected_level < length ancestors'
         then (case child_state of
                 Some (non_cpu_index, state) \<Rightarrow> do {
                   l \<leftarrow> set_non_cpu_state (snd (ancestors' ! highest_affected_level))
                     non_cpu_index state;
                   Some (cpu', ancestors'
                     [highest_affected_level := (fst (ancestors' ! highest_affected_level), l)]) }
               | None \<Rightarrow> Some (cpu', ancestors'))
         else Some (cpu', ancestors')
       }
       else Some (cpu', ancestors)
     }"

fun set_suspend_states ::
  "nat \<Rightarrow> 'ps ancestors \<Rightarrow> 'ps list \<Rightarrow> 'ps ancestors option" where
  "set_suspend_states cpu_index ((i, node) # ancestors) (requested_state # sts) =
     do {
       n \<leftarrow> set_suspend_state node cpu_index requested_state;
       rest \<leftarrow> set_suspend_states cpu_index ancestors sts;
       Some ((i, n) # rest)
     }"
| "set_suspend_states cpu_index ancestors sts = Some ancestors"

definition apply_coordinated_state_to_power_domain_tree ::
  "'ps psci_cfg \<Rightarrow> 'ps PsciCompositePowerState \<Rightarrow> nat \<Rightarrow> 'ps CpuPowerNode \<Rightarrow> 'ps ancestors \<Rightarrow>
     nat \<Rightarrow> 'ps PsciCompositePowerState \<Rightarrow> ('ps CpuPowerNode \<times> 'ps ancestors) option" where
  "apply_coordinated_state_to_power_domain_tree cfg cs highest_affected_level cpu ancestors
       cpu_index resolved_state =
     do {
       ancestors1 \<leftarrow> set_suspend_states cpu_index ancestors
         (drop (CPU_POWER_LEVEL + 1) (cs_states resolved_state));
       set_nodes_from_local_states cfg cs highest_affected_level cpu ancestors1
     }"

fun coordinate_from ::
  "'ps::linorder psci_cfg \<Rightarrow> nat \<Rightarrow> bool \<Rightarrow> (nat \<times> 'ps) option \<Rightarrow> 'ps ancestors \<Rightarrow> 'ps list \<Rightarrow>
     ('ps ancestors \<times> 'ps list) option" where
  "coordinate_from cfg cpu_index higher_levels_are_run child_state
       ((node_index, node) # ancestors) (state # sts) =
     do {
       n1 \<leftarrow> set_requested_power_state node cpu_index state;
       (n2, state', higher') \<leftarrow>
         (if \<not> higher_levels_are_run
          then do {
            n \<leftarrow> set_minimal_allowed_state n1;
            Some (n, nc_local_state n, power_state_type cfg (nc_local_state n) = RunType) }
          else Some (n1, PS_RUN cfg, higher_levels_are_run));
       n3 \<leftarrow> (case child_state of
               Some (child_index, s) \<Rightarrow> set_non_cpu_state n2 child_index s
             | None \<Rightarrow> Some n2);
       (ancestors', sts') \<leftarrow>
         coordinate_from cfg cpu_index higher' (Some (node_index, state')) ancestors sts;
       Some ((node_index, n3) # ancestors', state' # sts')
     }"
| "coordinate_from cfg cpu_index higher_levels_are_run child_state ancestors sts =
     Some (ancestors, sts)"

definition coordinate_state ::
  "'ps::linorder psci_cfg \<Rightarrow> 'ps PsciCompositePowerState \<Rightarrow> nat \<Rightarrow> 'ps ancestors \<Rightarrow>
     ('ps PsciCompositePowerState \<times> 'ps ancestors) option" where
  "coordinate_state cfg cs cpu_index ancestors =
     do {
       (ancestors', sts') \<leftarrow> coordinate_from cfg cpu_index False None ancestors
         (drop (CPU_POWER_LEVEL + 1) (cs_states cs));
       Some (cs\<lparr>cs_states := take (CPU_POWER_LEVEL + 1) (cs_states cs) @ sts'\<rparr>, ancestors')
     }"

definition create_highest_affected_level_resolved_state ::
  "'ps PsciCompositePowerState \<Rightarrow> nat \<Rightarrow> 'ps PsciCompositePowerState option" where
  "create_highest_affected_level_resolved_state cs highest_affected_level =
     do {
       s \<leftarrow> checked_index (cs_states cs) highest_affected_level;
       Some (cs\<lparr>cs_states := take highest_affected_level (cs_states cs)
         @ replicate (length (cs_states cs) - highest_affected_level) s\<rparr>)
     }"

fun validate_levels ::
  "'ps::linorder psci_cfg \<Rightarrow> nat \<Rightarrow> nat option \<Rightarrow> 'ps ancestors \<Rightarrow> 'ps list \<Rightarrow>
     (ErrorCode + unit) option" where
  "validate_levels cfg cpu_index child_index ((node_index, node) # ancestors) (requested # sts) =
     do {
       shallowest \<leftarrow> get_osi_minimal_allowed_state_without_core cfg node cpu_index child_index;
       if requested > shallowest
       then Some (Inl (if shallowest = PS_RUN cfg then Denied else InvalidParameters))
       else validate_levels cfg cpu_index (Some node_index) ancestors sts
     }"
| "validate_levels cfg cpu_index child_index ancestors sts = Some (Inr ())"

definition validate_state_coordination ::
  "'ps::linorder psci_cfg \<Rightarrow> 'ps PsciCompositePowerState \<Rightarrow> nat \<Rightarrow> nat \<Rightarrow> 'ps ancestors \<Rightarrow>
     (ErrorCode + unit) option" where
  "validate_state_coordination cfg cs cpu_index highest_affected_level ancestors =
     (case last_at_power_level cs of
        None \<Rightarrow> Some (Inl InvalidParameters)
      | Some last_level \<Rightarrow> do {
          is_last \<leftarrow> is_last_cpu_to_idle_at_power_level cfg ancestors cpu_index last_level;
          if \<not> is_last then Some (Inl Denied)
          else if highest_affected_level = CPU_POWER_LEVEL then Some (Inr ())
          else do {
            assert_that (highest_affected_level < length (cs_states cs));
            validate_levels cfg cpu_index None (take highest_affected_level ancestors)
              (take highest_affected_level (drop (CPU_POWER_LEVEL + 1) (cs_states cs)))
          }
        })"

definition is_valid_suspend_request ::
  "'ps::linorder psci_cfg \<Rightarrow> 'ps PsciCompositePowerState \<Rightarrow> bool \<Rightarrow> bool" where
  "is_valid_suspend_request cfg cs is_power_down_state =
     (if find_highest_non_run_level cfg cs = None then False
      else if \<not> successively (\<ge>) (cs_states cs) then False
      else if (case last_at_power_level cs of
                 Some l \<Rightarrow> l > MAX_POWER_LEVEL cfg
               | None \<Rightarrow> False) then False
      else if is_power_down_state then find_highest_power_down_level cfg cs \<noteq> None
      else find_highest_power_down_level cfg cs = None)"

end
