(* ===== verification/Psci.thy ===== *)
theory Psci
  imports Composite_State
begin

text \<open>
  The PSCI service of \<^verbatim>\<open>src/src/services/psci.rs\<close>: the state behind \<open>Psci\<close>, one definition for each
  call it handles, the boot of a CPU, and the dispatch of an SMC.

  The types of the \<open>arm_psci\<close> crate are datatypes with the constructors the source names; the
  crate's conversions are the record \<open>arm_psci\<close>, a parameter. The platform is two records: \<open>plat\<close>
  for its constants and pure functions and \<open>env\<close> for what it answers during one call. An optional
  platform function that is not implemented panics, and is \<open>None\<close>. Calls with effects outside the
  service are appended to \<open>trace\<close> in program order.

  A call that reaches a wait for interrupts is split there: the first part ends in an outcome that
  says where the core waits, and \<open>cpu_standby_resume\<close>, \<open>cpu_suspend_resume\<close> and \<open>cpu_off_resume\<close> are
  the code after the wait. Other cores run in between. Each part holds the lock of the core's own
  node and of the ancestors it changes from its first access to its last.
\<close>

section \<open>Types of the PSCI crate\<close>

datatype PowerState = StandbyOrRetention u32 | PowerDown u32

datatype SuspendMode = PlatformCoordinated | OsInitiated

datatype HwState = HwOn | HwOff

type_synonym Mpidr = u64
type_synonym Cookie = u64
type_synonym SystemOff2Type = u32
type_synonym ResetType = u32
type_synonym MemProtectRange = "u64 \<times> u64"

datatype FunctionId =
  FPsciVersion | FCpuSuspend32 | FCpuSuspend64 | FCpuOff | FCpuOn32 | FCpuOn64
  | FAffinityInfo32 | FAffinityInfo64 | FMigrate32 | FMigrate64 | FMigrateInfoType
  | FMigrateInfoUpCpu32 | FMigrateInfoUpCpu64 | FSystemOff | FSystemOff232 | FSystemOff264
  | FSystemReset | FSystemReset232 | FSystemReset264 | FMemProtect | FMemProtectCheckRange32
  | FMemProtectCheckRange64 | FPsciFeatures | FCpuFreeze | FCpuDefaultSuspend32
  | FCpuDefaultSuspend64 | FNodeHwState32 | FNodeHwState64 | FSystemSuspend32 | FSystemSuspend64
  | FPsciSetSuspendMode | FPsciStatResidency32 | FPsciStatResidency64 | FPsciStatCount32
  | FPsciStatCount64

datatype PsciFeature = PsciFunction FunctionId | SmcccVersion

datatype Function =
  Version
  | CpuSuspend PowerState EntryPoint
  | CpuOff
  | CpuOn Mpidr EntryPoint
  | AffinityInfoCall Mpidr u32
  | Migrate
  | MigrateInfoType
  | MigrateInfoUpCpu
  | SystemOff
  | SystemOff2 SystemOff2Type Cookie
  | SystemReset
  | SystemReset2 ResetType Cookie
  | MemProtect bool
  | MemProtectCheckRange MemProtectRange
  | Features PsciFeature
  | CpuFreeze
  | CpuDefaultSuspend EntryPoint
  | NodeHwState Mpidr u32
  | SystemSuspend EntryPoint
  | SetSuspendMode SuspendMode
  | StatResidency
  | StatCount

record arm_psci =
  function_try_from :: "u64 list \<Rightarrow> ErrorCode + Function"
  error_code_bits :: "ErrorCode \<Rightarrow> u64"
  version_bits :: "nat \<Rightarrow> nat \<Rightarrow> u32"
  affinity_info_bits :: "AffinityInfo \<Rightarrow> u32"
  migration_not_required_bits :: u32
  hw_state_bits :: "HwState \<Rightarrow> u32"
  EXTENDED_POWER_STATE :: u32
  OS_INITIATED_MODE_FLAG :: u32
  HIBERNATE_OFF :: u32

section \<open>Platform interface\<close>

definition SYSTEM_OFF2 :: u64 where "SYSTEM_OFF2 = 1"
definition SYSTEM_RESET2 :: u64 where "SYSTEM_RESET2 = 2"
definition MEM_PROTECT :: u64 where "MEM_PROTECT = 4"
definition MEM_PROTECT_CHECK_RANGE :: u64 where "MEM_PROTECT_CHECK_RANGE = 8"
definition CPU_FREEZE :: u64 where "CPU_FREEZE = 16"
definition CPU_DEFAULT_SUSPEND :: u64 where "CPU_DEFAULT_SUSPEND = 32"
definition NODE_HW_STATE :: u64 where "NODE_HW_STATE = 64"
definition SYSTEM_SUSPEND :: u64 where "SYSTEM_SUSPEND = 128"
definition OS_INITIATED_MODE :: u64 where "OS_INITIATED_MODE = 256"

lemmas feature_flag_defs =
  SYSTEM_OFF2_def SYSTEM_RESET2_def MEM_PROTECT_def MEM_PROTECT_CHECK_RANGE_def CPU_FREEZE_def
  CPU_DEFAULT_SUSPEND_def NODE_HW_STATE_def SYSTEM_SUSPEND_def OS_INITIATED_MODE_def

record 'ps psci_platform =
  POWER_DOMAIN_COUNT :: nat
  FEATURES :: u64
  topology :: "nat list"
  try_parse_power_state :: "PowerState \<Rightarrow> 'ps PsciCompositePowerState option"
  cpu_default_suspend_power_state :: "PowerState option"
  sys_suspend_power_state :: "'ps PsciCompositePowerState option"
  is_valid_ns_entrypoint :: "EntryPoint \<Rightarrow> bool"
  implements_cpu_freeze :: bool
  from_psci_mpidr :: "Mpidr \<Rightarrow> u64"
  mpidr_is_valid :: "u64 \<Rightarrow> bool"
  core_position :: "u64 \<Rightarrow> nat"

record 'ps psci_env =
  has_pending_interrupts :: bool
  power_domain_validate_suspend :: "'ps PsciCompositePowerState \<Rightarrow> (ErrorCode + unit) option"
  power_domain_off_early :: "'ps PsciCompositePowerState \<Rightarrow> ErrorCode + unit"
  power_domain_on :: "Mpidr \<Rightarrow> ErrorCode + unit"
  plat_system_off2 :: "SystemOff2Type \<Rightarrow> Cookie \<Rightarrow> (ErrorCode + unit) option"
  plat_system_reset2 :: "ResetType \<Rightarrow> Cookie \<Rightarrow> (ErrorCode + unit) option"
  plat_mem_protect :: "bool \<Rightarrow> (ErrorCode + bool) option"
  plat_mem_protect_check_range :: "MemProtectRange \<Rightarrow> (ErrorCode + unit) option"
  plat_node_hw_state :: "Mpidr \<Rightarrow> u32 \<Rightarrow> (ErrorCode + HwState) option"

definition has_feature :: "'ps psci_platform \<Rightarrow> u64 \<Rightarrow> bool" where
  "has_feature plat feature \<longleftrightarrow> FEATURES plat AND feature = feature"

datatype 'ps event =
  ForwardPsciRequest Function
  | NotifyCpuOff
  | NotifySuspendAbandoned
  | CpuPowerDown nat
  | PowerDomainSuspend "'ps PsciCompositePowerState"
  | PowerDomainSuspendFinish "'ps PsciCompositePowerState"
  | PowerDomainOff "'ps PsciCompositePowerState"
  | PowerDomainPowerDown "'ps PsciCompositePowerState"
  | PowerDomainOn Mpidr
  | PowerDomainOnFinish "'ps PsciCompositePowerState"
  | CpuStandby 'ps
  | SaveExtensionContext
  | DsbSy
  | PowerDownAbandon
  | PlatSystemOff
  | PlatSystemReset
  | PlatSystemOff2 SystemOff2Type Cookie
  | PlatSystemReset2 ResetType Cookie
  | PlatMemProtect bool
  | PlatCpuFreeze

section \<open>State\<close>

record 'ps Psci =
  power_domain_tree :: "'ps PowerDomainTree"
  suspend_mode :: SuspendMode
  trace :: "'ps event list"

definition emit :: "'ps event list \<Rightarrow> 'ps Psci \<Rightarrow> 'ps Psci" where
  "emit evs s = s\<lparr>trace := trace s @ evs\<rparr>"

datatype WakeUpReason = WakeCpuOn EntryPoint | WakeSuspendFinished EntryPoint

text \<open>Where a call leaves its core: back at the caller, waiting for an interrupt, or gone.\<close>

datatype ('ps, 'r) outcome =
  Returned "ErrorCode + 'r"
  | InStandby
  | InSuspend "'ps PsciCompositePowerState" bool
  | PoweredOff
  | Frozen
  | SystemDown

definition is_in_osi_mode :: "'ps psci_platform \<Rightarrow> SuspendMode \<Rightarrow> bool" where
  "is_in_osi_mode plat mode =
     (if \<not> has_feature plat OS_INITIATED_MODE then False else mode = OsInitiated)"

definition Psci_new ::
  "'ps psci_cfg \<Rightarrow> 'ps psci_platform \<Rightarrow> nat \<Rightarrow> 'ps Psci option" where
  "Psci_new cfg plat cpu_index =
     do {
       assert_that (CPU_DOMAIN_COUNT cfg \<le> POWER_DOMAIN_COUNT plat
         \<and> NON_CPU_DOMAIN_COUNT cfg = POWER_DOMAIN_COUNT plat - CPU_DOMAIN_COUNT cfg);
       tree \<leftarrow> PowerDomainTree_new cfg (topology plat);
       i \<leftarrow> index_try_into cfg cpu_index;
       cpu \<leftarrow> locked_cpu_node tree i;
       (_, cpu', tree') \<leftarrow> with_ancestors_locked cfg tree cpu
         (\<lambda>cpu ancestors. do {
            let cpu1 = cpu_set_local_state (set_affinity_info cpu On) (PS_RUN cfg);
            ancestors' \<leftarrow> set_running cfg ancestors i;
            Some ((), cpu1, ancestors') });
       Some \<lparr>power_domain_tree = unlock_cpu_node tree' i cpu',
             suspend_mode = PlatformCoordinated, trace = []\<rparr>
     }"

definition try_get_cpu_index_by_mpidr ::
  "'ps psci_cfg \<Rightarrow> 'ps psci_platform \<Rightarrow> Mpidr \<Rightarrow> nat option option" where
  "try_get_cpu_index_by_mpidr cfg plat psci_mpidr =
     (let mpidr = from_psci_mpidr plat psci_mpidr in
      if mpidr_is_valid plat mpidr
      then do { i \<leftarrow> index_try_into cfg (core_position plat mpidr); Some (Some i) }
      else Some None)"

section \<open>Suspend\<close>

text \<open>The closure of \<open>cpu_suspend_start\<close> that runs with the ancestors locked.\<close>

definition suspend_power_down_events ::
  "'ps psci_cfg \<Rightarrow> PowerState option \<Rightarrow> EntryPoint \<Rightarrow> 'ps PsciCompositePowerState \<Rightarrow>
     'ps CpuPowerNode \<Rightarrow> ('ps CpuPowerNode \<times> 'ps event list) option" where
  "suspend_power_down_events cfg power_state entry cs cpu =
     do {
       let fwd = (case power_state of
                    Some state \<Rightarrow> ForwardPsciRequest (CpuSuspend state entry)
                  | None \<Rightarrow> ForwardPsciRequest (SystemSuspend entry));
       cpu' \<leftarrow> set_entry_point cpu entry;
       level \<leftarrow> find_highest_power_down_level cfg cs;
       Some (cpu', [fwd, CpuPowerDown level])
     }"

definition cpu_suspend_closure ::
  "'ps::linorder psci_cfg \<Rightarrow> 'ps psci_platform \<Rightarrow> 'ps psci_env \<Rightarrow> SuspendMode \<Rightarrow> nat \<Rightarrow>
     PowerState option \<Rightarrow> EntryPoint \<Rightarrow> nat \<Rightarrow> 'ps PsciCompositePowerState \<Rightarrow> bool \<Rightarrow>
     'ps CpuPowerNode \<Rightarrow> 'ps ancestors \<Rightarrow>
     ((ErrorCode + (bool \<times> 'ps PsciCompositePowerState \<times> 'ps event list))
        \<times> 'ps CpuPowerNode \<times> 'ps ancestors) option" where
  "cpu_suspend_closure cfg plat env mode cpu_index power_state entry highest_affected_level cs
       is_power_down_state cpu ancestors =
     (if has_pending_interrupts env then Some (Inr (True, cs, []), cpu, ancestors)
      else do {
        coordinated \<leftarrow>
          (if is_in_osi_mode plat mode
           then do {
             resolved \<leftarrow> create_highest_affected_level_resolved_state cs highest_affected_level;
             v \<leftarrow> validate_state_coordination cfg resolved cpu_index highest_affected_level ancestors;
             (case v of
                Inl e \<Rightarrow> Some (Inl e)
              | Inr _ \<Rightarrow> do {
                  pv \<leftarrow> power_domain_validate_suspend env cs;
                  (case pv of
                     Inl e \<Rightarrow> Some (Inl e)
                   | Inr _ \<Rightarrow> do {
                       (cpu', ancestors') \<leftarrow> apply_coordinated_state_to_power_domain_tree cfg cs
                         highest_affected_level cpu ancestors cpu_index resolved;
                       Some (Inr (cs, cpu', ancestors')) }) })
           }
           else do {
             (cs', ancestors') \<leftarrow> coordinate_state cfg cs cpu_index ancestors;
             s0 \<leftarrow> cpu_level_state cs';
             Some (Inr (cs', cpu_set_local_state cpu s0, ancestors'))
           });
        (case coordinated of
           Inl e \<Rightarrow> Some (Inl e, cpu, ancestors)
         | Inr (cs', cpu1, ancestors') \<Rightarrow> do {
             (cpu2, evs) \<leftarrow>
               (if is_power_down_state
                then suspend_power_down_events cfg power_state entry cs' cpu1
                else Some (cpu1, []));
             Some (Inr (False, cs', evs @ [PowerDomainSuspend cs']), cpu2, ancestors')
           })
      })"

text \<open>
  \<open>cpu_suspend_start\<close> up to the wait. The source reads the suspend mode once to choose the levels to
  lock and again inside the closure: the second reading is the argument \<open>mode2\<close>.
\<close>

definition cpu_suspend_start ::
  "'ps::linorder psci_cfg \<Rightarrow> 'ps psci_platform \<Rightarrow> 'ps psci_env \<Rightarrow> SuspendMode \<Rightarrow> 'ps Psci \<Rightarrow> nat \<Rightarrow>
     PowerState option \<Rightarrow> EntryPoint \<Rightarrow> nat \<Rightarrow> 'ps PsciCompositePowerState \<Rightarrow> bool \<Rightarrow>
     (('ps, unit) outcome \<times> 'ps Psci) option" where
  "cpu_suspend_start cfg plat env mode2 s cpu_index power_state entry highest_affected_level cs
       is_power_down_state =
     do {
       cpu \<leftarrow> locked_cpu_node (power_domain_tree s) cpu_index;
       let level_to_lock_to =
         (if is_in_osi_mode plat (suspend_mode s) then MAX_POWER_LEVEL cfg
          else highest_affected_level);
       (r, cpu', tree') \<leftarrow>
         with_ancestors_locked_to_max_level cfg (power_domain_tree s) cpu level_to_lock_to
           (cpu_suspend_closure cfg plat env mode2 cpu_index power_state entry
             highest_affected_level cs is_power_down_state);
       let s' = s\<lparr>power_domain_tree := unlock_cpu_node tree' cpu_index cpu'\<rparr>;
       Some (case r of
               Inl e \<Rightarrow> (Returned (Inl e), s')
             | Inr (pending, cs', evs) \<Rightarrow>
                 if pending then (Returned (Inr ()), s')
                 else if is_power_down_state
                 then (InSuspend cs' True,
                       emit (evs @ [SaveExtensionContext, PowerDomainPowerDown cs', DsbSy]) s')
                 else (InSuspend cs' False, emit evs s'))
     }"

text \<open>The rest of \<open>cpu_suspend_start\<close>: retention ended, or the power-down was abandoned.\<close>

definition cpu_suspend_resume ::
  "'ps psci_cfg \<Rightarrow> 'ps Psci \<Rightarrow> nat \<Rightarrow> 'ps PsciCompositePowerState \<Rightarrow> bool \<Rightarrow> 'ps Psci option" where
  "cpu_suspend_resume cfg s cpu_index cs is_power_down_state =
     do {
       cpu \<leftarrow> locked_cpu_node (power_domain_tree s) cpu_index;
       (evs, cpu', tree') \<leftarrow> with_ancestors_locked cfg (power_domain_tree s) cpu
         (\<lambda>cpu ancestors. do {
            cs' \<leftarrow> set_local_states_from_nodes cs cpu ancestors;
            let (evs, cpu1) =
              (if is_power_down_state
               then ([PowerDomainSuspendFinish cs', NotifySuspendAbandoned],
                     snd (pop_entry_point cpu))
               else ([PowerDomainSuspendFinish cs'], cpu));
            let cpu2 = cpu_set_local_state cpu1 (PS_RUN cfg);
            ancestors' \<leftarrow> set_running cfg ancestors cpu_index;
            Some (evs, cpu2, ancestors') });
       Some (emit ((if is_power_down_state then [PowerDownAbandon] else []) @ evs)
         (s\<lparr>power_domain_tree := unlock_cpu_node tree' cpu_index cpu'\<rparr>))
     }"

definition set_cpu_local_state ::
  "'ps Psci \<Rightarrow> nat \<Rightarrow> 'ps \<Rightarrow> 'ps Psci option" where
  "set_cpu_local_state s cpu_index state =
     do {
       cpu \<leftarrow> locked_cpu_node (power_domain_tree s) cpu_index;
       Some (s\<lparr>power_domain_tree := unlock_cpu_node (power_domain_tree s) cpu_index
         (cpu_set_local_state cpu state)\<rparr>)
     }"

definition cpu_suspend ::
  "'ps::linorder psci_cfg \<Rightarrow> 'ps psci_platform \<Rightarrow> 'ps psci_env \<Rightarrow> SuspendMode \<Rightarrow> 'ps Psci \<Rightarrow> nat \<Rightarrow>
     PowerState \<Rightarrow> EntryPoint \<Rightarrow> (('ps, unit) outcome \<times> 'ps Psci) option" where
  "cpu_suspend cfg plat env mode2 s cpu_index power_state entry =
     (case try_parse_power_state plat power_state of
        None \<Rightarrow> Some (Returned (Inl InvalidParameters), s)
      | Some cs \<Rightarrow> do {
          let is_power_down_state = (case power_state of PowerDown _ \<Rightarrow> True | _ \<Rightarrow> False);
          assert_that (is_valid_suspend_request cfg cs is_power_down_state);
          highest_affected_level \<leftarrow> find_highest_non_run_level cfg cs;
          if \<not> is_power_down_state \<and> highest_affected_level = CPU_POWER_LEVEL
          then do {
            cpu_pd_state \<leftarrow> cpu_level_state cs;
            s' \<leftarrow> set_cpu_local_state s cpu_index cpu_pd_state;
            Some (InStandby, emit [CpuStandby cpu_pd_state] s')
          }
          else if is_power_down_state \<and> \<not> is_valid_ns_entrypoint plat entry
          then Some (Returned (Inl InvalidAddress), s)
          else cpu_suspend_start cfg plat env mode2 s cpu_index (Some power_state) entry
            highest_affected_level cs is_power_down_state
        })"

definition cpu_standby_resume ::
  "'ps psci_cfg \<Rightarrow> 'ps Psci \<Rightarrow> nat \<Rightarrow> 'ps Psci option" where
  "cpu_standby_resume cfg s cpu_index = set_cpu_local_state s cpu_index (PS_RUN cfg)"

section \<open>Off, on and boot\<close>

definition cpu_off ::
  "'ps::linorder psci_cfg \<Rightarrow> 'ps psci_env \<Rightarrow> 'ps Psci \<Rightarrow> nat \<Rightarrow>
     (('ps, unit) outcome \<times> 'ps Psci) option" where
  "cpu_off cfg env s cpu_index =
     do {
       cpu \<leftarrow> locked_cpu_node (power_domain_tree s) cpu_index;
       (case power_domain_off_early env (composite_OFF cfg) of
          Inl e \<Rightarrow> Some (Returned (Inl e), s)
        | Inr _ \<Rightarrow> do {
            ((cs', evs), cpu', tree') \<leftarrow> with_ancestors_locked cfg (power_domain_tree s) cpu
              (\<lambda>cpu ancestors. do {
                 let cpu1 = cpu_set_local_state cpu (PS_OFF cfg);
                 (cs', ancestors') \<leftarrow> coordinate_state cfg (composite_OFF cfg) cpu_index ancestors;
                 level \<leftarrow> find_highest_power_down_level cfg cs';
                 Some ((cs', [ForwardPsciRequest CpuOff, NotifyCpuOff, CpuPowerDown level,
                              PowerDomainOff cs']), cpu1, ancestors') });
            let cpu2 = set_affinity_info cpu' Off;
            Some (PoweredOff,
              emit (evs @ [PowerDomainPowerDown cs', DsbSy])
                (s\<lparr>power_domain_tree := unlock_cpu_node tree' cpu_index cpu2\<rparr>)) })
     }"

definition CPU_OFF_WFI_RETRY_COUNT :: nat where
  "CPU_OFF_WFI_RETRY_COUNT = 32"

text \<open>The end of \<open>cpu_off\<close>: the code panics once that many waits have returned.\<close>

definition cpu_off_resume :: "nat \<Rightarrow> unit option" where
  "cpu_off_resume finished_waits = assert_that (finished_waits < CPU_OFF_WFI_RETRY_COUNT)"

definition cpu_on ::
  "'ps psci_cfg \<Rightarrow> 'ps psci_platform \<Rightarrow> 'ps psci_env \<Rightarrow> 'ps Psci \<Rightarrow> Mpidr \<Rightarrow> EntryPoint \<Rightarrow>
     ((ErrorCode + unit) \<times> 'ps Psci) option" where
  "cpu_on cfg plat env s target_cpu entry =
     do {
       idx \<leftarrow> try_get_cpu_index_by_mpidr cfg plat target_cpu;
       (case idx of
          None \<Rightarrow> Some (Inl InvalidParameters, s)
        | Some cpu_index \<Rightarrow>
            if \<not> is_valid_ns_entrypoint plat entry then Some (Inl InvalidAddress, s)
            else do {
              cpu \<leftarrow> locked_cpu_node (power_domain_tree s) cpu_index;
              (case affinity_info cpu of
                 On \<Rightarrow> Some (Inl AlreadyOn, s)
               | OnPending \<Rightarrow> Some (Inl OnPendingError, s)
               | Off \<Rightarrow> do {
                   let cpu1 = set_affinity_info cpu OnPending;
                   let s1 = emit [PowerDomainOn target_cpu] s;
                   (case power_domain_on env target_cpu of
                      Inr _ \<Rightarrow> do {
                        cpu2 \<leftarrow> set_entry_point cpu1 entry;
                        Some (Inr (), s1\<lparr>power_domain_tree :=
                          unlock_cpu_node (power_domain_tree s) cpu_index cpu2\<rparr>) }
                    | Inl error \<Rightarrow>
                        Some (Inl error, s1\<lparr>power_domain_tree :=
                          unlock_cpu_node (power_domain_tree s) cpu_index
                            (set_affinity_info cpu1 Off)\<rparr>)) })
            })
     }"

definition handle_cpu_boot ::
  "'ps psci_cfg \<Rightarrow> 'ps Psci \<Rightarrow> nat \<Rightarrow> (WakeUpReason \<times> 'ps Psci) option" where
  "handle_cpu_boot cfg s cpu_index =
     do {
       cpu \<leftarrow> locked_cpu_node (power_domain_tree s) cpu_index;
       let info = affinity_info cpu;
       assert_that (info \<noteq> Off);
       ((wake_from_suspend, evs), cpu', tree') \<leftarrow>
         with_ancestors_locked cfg (power_domain_tree s) cpu
           (\<lambda>cpu ancestors. do {
              cs \<leftarrow> set_local_states_from_nodes (composite_RUN cfg) cpu ancestors;
              (wake, evs, cpu1) \<leftarrow>
                (if info = OnPending
                 then Some (False, [PowerDomainOnFinish cs], set_affinity_info cpu On)
                 else do {
                   assert_that (info = On);
                   s0 \<leftarrow> cpu_level_state cs;
                   assert_that (power_state_type cfg s0 = PowerDownType);
                   Some (True, [PowerDomainSuspendFinish cs], cpu) });
              let cpu2 = cpu_set_local_state cpu1 (PS_RUN cfg);
              ancestors' \<leftarrow> set_running cfg ancestors cpu_index;
              Some ((wake, evs), cpu2, ancestors') });
       let (ep, cpu3) = pop_entry_point cpu';
       let s' = emit evs (s\<lparr>power_domain_tree := unlock_cpu_node tree' cpu_index cpu3\<rparr>);
       entry \<leftarrow> ep;
       Some (if wake_from_suspend then WakeSuspendFinished entry else WakeCpuOn entry, s')
     }"

section \<open>The other calls\<close>

definition affinity_info_call ::
  "'ps psci_cfg \<Rightarrow> 'ps psci_platform \<Rightarrow> 'ps Psci \<Rightarrow> Mpidr \<Rightarrow> u32 \<Rightarrow>
     (ErrorCode + AffinityInfo) option" where
  "affinity_info_call cfg plat s target_affinity lowest_affinity_level =
     do {
       idx \<leftarrow> try_get_cpu_index_by_mpidr cfg plat target_affinity;
       (case idx of
          None \<Rightarrow> Some (Inl InvalidParameters)
        | Some cpu_index \<Rightarrow>
            if unat lowest_affinity_level > CPU_POWER_LEVEL then Some (Inl InvalidParameters)
            else do {
              cpu \<leftarrow> locked_cpu_node (power_domain_tree s) cpu_index;
              Some (Inr (affinity_info cpu)) })
     }"

definition system_off :: "'ps Psci \<Rightarrow> ('ps, unit) outcome \<times> 'ps Psci" where
  "system_off s = (SystemDown, emit [ForwardPsciRequest SystemOff, PlatSystemOff] s)"

definition system_reset :: "'ps Psci \<Rightarrow> ('ps, unit) outcome \<times> 'ps Psci" where
  "system_reset s = (SystemDown, emit [ForwardPsciRequest SystemReset, PlatSystemReset] s)"

definition system_off2 ::
  "'ps psci_platform \<Rightarrow> 'ps psci_env \<Rightarrow> 'ps Psci \<Rightarrow> SystemOff2Type \<Rightarrow> Cookie \<Rightarrow>
     ((ErrorCode + unit) \<times> 'ps Psci) option" where
  "system_off2 plat env s off_type cookie =
     (if \<not> has_feature plat SYSTEM_OFF2 then Some (Inl NotSupported, s)
      else do {
        r \<leftarrow> plat_system_off2 env off_type cookie;
        Some (r, emit [ForwardPsciRequest (SystemOff2 off_type cookie),
                       PlatSystemOff2 off_type cookie] s) })"

definition system_reset2 ::
  "'ps psci_platform \<Rightarrow> 'ps psci_env \<Rightarrow> 'ps Psci \<Rightarrow> ResetType \<Rightarrow> Cookie \<Rightarrow>
     ((ErrorCode + unit) \<times> 'ps Psci) option" where
  "system_reset2 plat env s reset_type cookie =
     (if \<not> has_feature plat SYSTEM_RESET2 then Some (Inl NotSupported, s)
      else do {
        r \<leftarrow> plat_system_reset2 env reset_type cookie;
        Some (r, emit [ForwardPsciRequest (SystemReset2 reset_type cookie),
                       PlatSystemReset2 reset_type cookie] s) })"

definition mem_protect ::
  "'ps psci_platform \<Rightarrow> 'ps psci_env \<Rightarrow> 'ps Psci \<Rightarrow> bool \<Rightarrow>
     ((ErrorCode + bool) \<times> 'ps Psci) option" where
  "mem_protect plat env s enabled =
     (if \<not> has_feature plat MEM_PROTECT then Some (Inl NotSupported, s)
      else do { r \<leftarrow> plat_mem_protect env enabled; Some (r, emit [PlatMemProtect enabled] s) })"

definition mem_protect_check_range ::
  "'ps psci_platform \<Rightarrow> 'ps psci_env \<Rightarrow> MemProtectRange \<Rightarrow> (ErrorCode + unit) option" where
  "mem_protect_check_range plat env mem_range =
     (if \<not> has_feature plat MEM_PROTECT_CHECK_RANGE then Some (Inl NotSupported)
      else plat_mem_protect_check_range env mem_range)"

definition check_optional_feature :: "'ps psci_platform \<Rightarrow> u64 \<Rightarrow> ErrorCode + u64" where
  "check_optional_feature plat feature =
     (if has_feature plat feature then Inr 0 else Inl NotSupported)"

fun handle_features ::
  "arm_psci \<Rightarrow> 'ps psci_platform \<Rightarrow> PsciFeature \<Rightarrow> ErrorCode + u64" where
  "handle_features psci plat (PsciFunction f) =
     (case f of
        FPsciVersion \<Rightarrow> Inr 0
      | FCpuOff \<Rightarrow> Inr 0
      | FCpuOn32 \<Rightarrow> Inr 0
      | FCpuOn64 \<Rightarrow> Inr 0
      | FAffinityInfo32 \<Rightarrow> Inr 0
      | FAffinityInfo64 \<Rightarrow> Inr 0
      | FSystemOff \<Rightarrow> Inr 0
      | FSystemReset \<Rightarrow> Inr 0
      | FPsciFeatures \<Rightarrow> Inr 0
      | FCpuSuspend32 \<Rightarrow> Inr (ucast (EXTENDED_POWER_STATE psci
          OR (if has_feature plat OS_INITIATED_MODE then OS_INITIATED_MODE_FLAG psci else 0)))
      | FCpuSuspend64 \<Rightarrow> Inr (ucast (EXTENDED_POWER_STATE psci
          OR (if has_feature plat OS_INITIATED_MODE then OS_INITIATED_MODE_FLAG psci else 0)))
      | FMigrate32 \<Rightarrow> Inl NotSupported
      | FMigrate64 \<Rightarrow> Inl NotSupported
      | FMigrateInfoUpCpu32 \<Rightarrow> Inl NotSupported
      | FMigrateInfoUpCpu64 \<Rightarrow> Inl NotSupported
      | FMigrateInfoType \<Rightarrow> Inr 0
      | FSystemOff232 \<Rightarrow>
          if has_feature plat SYSTEM_OFF2 then Inr (ucast (HIBERNATE_OFF psci)) else Inl NotSupported
      | FSystemOff264 \<Rightarrow>
          if has_feature plat SYSTEM_OFF2 then Inr (ucast (HIBERNATE_OFF psci)) else Inl NotSupported
      | FSystemReset232 \<Rightarrow> check_optional_feature plat SYSTEM_RESET2
      | FSystemReset264 \<Rightarrow> check_optional_feature plat SYSTEM_RESET2
      | FMemProtect \<Rightarrow> check_optional_feature plat MEM_PROTECT
      | FMemProtectCheckRange32 \<Rightarrow> check_optional_feature plat MEM_PROTECT_CHECK_RANGE
      | FMemProtectCheckRange64 \<Rightarrow> check_optional_feature plat MEM_PROTECT_CHECK_RANGE
      | FCpuFreeze \<Rightarrow> check_optional_feature plat CPU_FREEZE
      | FCpuDefaultSuspend32 \<Rightarrow> check_optional_feature plat CPU_DEFAULT_SUSPEND
      | FCpuDefaultSuspend64 \<Rightarrow> check_optional_feature plat CPU_DEFAULT_SUSPEND
      | FNodeHwState32 \<Rightarrow> check_optional_feature plat NODE_HW_STATE
      | FNodeHwState64 \<Rightarrow> check_optional_feature plat NODE_HW_STATE
      | FSystemSuspend32 \<Rightarrow> check_optional_feature plat SYSTEM_SUSPEND
      | FSystemSuspend64 \<Rightarrow> check_optional_feature plat SYSTEM_SUSPEND
      | FPsciSetSuspendMode \<Rightarrow> check_optional_feature plat OS_INITIATED_MODE
      | FPsciStatResidency32 \<Rightarrow> Inl NotSupported
      | FPsciStatResidency64 \<Rightarrow> Inl NotSupported
      | FPsciStatCount32 \<Rightarrow> Inl NotSupported
      | FPsciStatCount64 \<Rightarrow> Inl NotSupported)"
| "handle_features psci plat SmcccVersion = Inr 0"

definition cpu_freeze ::
  "'ps psci_platform \<Rightarrow> 'ps Psci \<Rightarrow> (('ps, unit) outcome \<times> 'ps Psci) option" where
  "cpu_freeze plat s =
     (if \<not> has_feature plat CPU_FREEZE then Some (Returned (Inl NotSupported), s)
      else do {
        assert_that (implements_cpu_freeze plat);
        Some (Frozen, emit [PlatCpuFreeze] s) })"

definition cpu_default_suspend ::
  "'ps::linorder psci_cfg \<Rightarrow> 'ps psci_platform \<Rightarrow> 'ps psci_env \<Rightarrow> SuspendMode \<Rightarrow> 'ps Psci \<Rightarrow> nat \<Rightarrow>
     EntryPoint \<Rightarrow> (('ps, unit) outcome \<times> 'ps Psci) option" where
  "cpu_default_suspend cfg plat env mode2 s cpu_index entry =
     (if \<not> has_feature plat CPU_DEFAULT_SUSPEND then Some (Returned (Inl NotSupported), s)
      else do {
        power_state \<leftarrow> cpu_default_suspend_power_state plat;
        cpu_suspend cfg plat env mode2 s cpu_index power_state entry })"

definition node_hw_state ::
  "'ps psci_cfg \<Rightarrow> 'ps psci_platform \<Rightarrow> 'ps psci_env \<Rightarrow> Mpidr \<Rightarrow> u32 \<Rightarrow>
     (ErrorCode + HwState) option" where
  "node_hw_state cfg plat env target_cpu power_level =
     (if \<not> has_feature plat NODE_HW_STATE then Some (Inl NotSupported)
      else do {
        idx \<leftarrow> try_get_cpu_index_by_mpidr cfg plat target_cpu;
        if idx = None \<or> unat power_level > MAX_POWER_LEVEL cfg
        then Some (Inl InvalidParameters)
        else plat_node_hw_state env target_cpu power_level })"

definition system_suspend ::
  "'ps::linorder psci_cfg \<Rightarrow> 'ps psci_platform \<Rightarrow> 'ps psci_env \<Rightarrow> SuspendMode \<Rightarrow> 'ps Psci \<Rightarrow> nat \<Rightarrow>
     EntryPoint \<Rightarrow> (('ps, unit) outcome \<times> 'ps Psci) option" where
  "system_suspend cfg plat env mode2 s cpu_index entry =
     (if \<not> has_feature plat SYSTEM_SUSPEND then Some (Returned (Inl NotSupported), s)
      else do {
        is_last \<leftarrow> is_last_cpu (power_domain_tree s) cpu_index;
        if \<not> is_last then Some (Returned (Inl Denied), s)
        else if \<not> is_valid_ns_entrypoint plat entry then Some (Returned (Inl InvalidAddress), s)
        else do {
          cs \<leftarrow> sys_suspend_power_state plat;
          if find_highest_non_run_level cfg cs \<noteq> Some (MAX_POWER_LEVEL cfg)
          then Some (Returned (Inl Denied), s)
          else do {
            assert_that (is_valid_suspend_request cfg cs True);
            top \<leftarrow> highest_level_state cs;
            assert_that (power_state_type cfg top = PowerDownType);
            cpu_suspend_start cfg plat env mode2 s cpu_index None entry (MAX_POWER_LEVEL cfg) cs
              True } } })"

definition set_suspend_mode ::
  "'ps psci_platform \<Rightarrow> 'ps Psci \<Rightarrow> nat \<Rightarrow> SuspendMode \<Rightarrow>
     ((ErrorCode + u64) \<times> 'ps Psci) option" where
  "set_suspend_mode plat s cpu_index mode =
     (if \<not> has_feature plat OS_INITIATED_MODE then Some (Inl NotSupported, s)
      else if suspend_mode s = mode then Some (Inr 0, s)
      else do {
        allowed \<leftarrow>
          (case mode of
             PlatformCoordinated \<Rightarrow> is_last_cpu (power_domain_tree s) cpu_index
           | OsInitiated \<Rightarrow>
               if are_all_cpus_on (power_domain_tree s) then Some True
               else is_last_cpu (power_domain_tree s) cpu_index);
        if allowed then Some (Inr 0, s\<lparr>suspend_mode := mode\<rparr>)
        else Some (Inl Denied, s) })"

section \<open>Dispatch\<close>

definition returned :: "(ErrorCode + u64) \<times> 'ps Psci \<Rightarrow> ('ps, u64) outcome \<times> 'ps Psci" where
  "returned = (\<lambda>(r, s). (Returned r, s))"

definition success_of :: "ErrorCode + unit \<Rightarrow> ErrorCode + u64" where
  "success_of r = map_sum id (\<lambda>_. 0) r"

definition outcome_success :: "('ps, unit) outcome \<Rightarrow> ('ps, u64) outcome" where
  "outcome_success o' = map_outcome (\<lambda>_. 0) o'"

fun handle_function ::
  "arm_psci \<Rightarrow> 'ps::linorder psci_cfg \<Rightarrow> 'ps psci_platform \<Rightarrow> 'ps psci_env \<Rightarrow> SuspendMode \<Rightarrow>
     'ps Psci \<Rightarrow> nat \<Rightarrow> Function \<Rightarrow> (('ps, u64) outcome \<times> 'ps Psci) option" where
  "handle_function psci cfg plat env mode2 s c Version =
     Some (Returned (Inr (ucast (version_bits psci 1 3))), s)"
| "handle_function psci cfg plat env mode2 s c (CpuSuspend state entry) =
     map_option (apfst outcome_success) (cpu_suspend cfg plat env mode2 s c state entry)"
| "handle_function psci cfg plat env mode2 s c CpuOff =
     map_option (apfst outcome_success) (cpu_off cfg env s c)"
| "handle_function psci cfg plat env mode2 s c (CpuOn target_cpu entry) =
     map_option (returned \<circ> apfst success_of) (cpu_on cfg plat env s target_cpu entry)"
| "handle_function psci cfg plat env mode2 s c (AffinityInfoCall mpidr lowest) =
     map_option (\<lambda>r. (Returned (map_sum id (\<lambda>a. ucast (affinity_info_bits psci a)) r), s))
       (affinity_info_call cfg plat s mpidr lowest)"
| "handle_function psci cfg plat env mode2 s c Migrate = Some (Returned (Inl NotSupported), s)"
| "handle_function psci cfg plat env mode2 s c MigrateInfoType =
     Some (Returned (Inr (ucast (migration_not_required_bits psci))), s)"
| "handle_function psci cfg plat env mode2 s c MigrateInfoUpCpu =
     Some (Returned (Inl NotSupported), s)"
| "handle_function psci cfg plat env mode2 s c SystemOff =
     Some (apfst outcome_success (system_off s))"
| "handle_function psci cfg plat env mode2 s c (SystemOff2 off_type cookie) =
     map_option (returned \<circ> apfst success_of) (system_off2 plat env s off_type cookie)"
| "handle_function psci cfg plat env mode2 s c SystemReset =
     Some (apfst outcome_success (system_reset s))"
| "handle_function psci cfg plat env mode2 s c (SystemReset2 reset_type cookie) =
     map_option (returned \<circ> apfst success_of) (system_reset2 plat env s reset_type cookie)"
| "handle_function psci cfg plat env mode2 s c (MemProtect enabled) =
     map_option (returned \<circ> apfst (map_sum id (\<lambda>previous. if previous then 1 else 0)))
       (mem_protect plat env s enabled)"
| "handle_function psci cfg plat env mode2 s c (MemProtectCheckRange mem_range) =
     map_option (\<lambda>r. (Returned (success_of r), s)) (mem_protect_check_range plat env mem_range)"
| "handle_function psci cfg plat env mode2 s c (Features feature) =
     Some (Returned (handle_features psci plat feature), s)"
| "handle_function psci cfg plat env mode2 s c CpuFreeze =
     map_option (apfst outcome_success) (cpu_freeze plat s)"
| "handle_function psci cfg plat env mode2 s c (CpuDefaultSuspend entry) =
     map_option (apfst outcome_success) (cpu_default_suspend cfg plat env mode2 s c entry)"
| "handle_function psci cfg plat env mode2 s c (NodeHwState target_cpu power_level) =
     map_option (\<lambda>r. (Returned (map_sum id (\<lambda>h. ucast (hw_state_bits psci h)) r), s))
       (node_hw_state cfg plat env target_cpu power_level)"
| "handle_function psci cfg plat env mode2 s c (SystemSuspend entry) =
     map_option (apfst outcome_success) (system_suspend cfg plat env mode2 s c entry)"
| "handle_function psci cfg plat env mode2 s c (SetSuspendMode mode) =
     map_option returned (set_suspend_mode plat s c mode)"
| "handle_function psci cfg plat env mode2 s c StatResidency =
     Some (Returned (Inl NotSupported), s)"
| "handle_function psci cfg plat env mode2 s c StatCount = Some (Returned (Inl NotSupported), s)"

definition handle_smc_inner ::
  "arm_psci \<Rightarrow> 'ps::linorder psci_cfg \<Rightarrow> 'ps psci_platform \<Rightarrow> 'ps psci_env \<Rightarrow> SuspendMode \<Rightarrow>
     'ps Psci \<Rightarrow> nat \<Rightarrow> u64 list \<Rightarrow> (('ps, u64) outcome \<times> 'ps Psci) option" where
  "handle_smc_inner psci cfg plat env mode2 s c regs =
     (case function_try_from psci regs of
        Inl e \<Rightarrow> Some (Returned (Inl e), s)
      | Inr function \<Rightarrow> handle_function psci cfg plat env mode2 s c function)"

end
