(* ===== verification/Tree_Shape.thy ===== *)
theory Tree_Shape
  imports Composite_State
begin

text \<open>
  The static structure of a power domain tree: the path from a CPU to the root, well-formedness,
  and the effect of the node operations seen through accessors indexed by CPU and by child. Every
  operation on locked ancestors turns out to be an instance of one pure update, \<open>put_all\<close>.
\<close>

section \<open>Accessors\<close>

definition in_cpus :: "'ps NonCpuPowerNode \<Rightarrow> nat \<Rightarrow> bool" where
  "in_cpus n c \<longleftrightarrow> range_contains (cpu_range n) c"

definition in_kids :: "'ps NonCpuPowerNode \<Rightarrow> nat \<Rightarrow> bool" where
  "in_kids n j \<longleftrightarrow> range_contains (non_cpu_range n) j"

definition req :: "'ps NonCpuPowerNode \<Rightarrow> nat \<Rightarrow> 'ps" where
  "req n c = requested_states n ! (c - fst (cpu_range n))"

definition sus :: "'ps NonCpuPowerNode \<Rightarrow> nat \<Rightarrow> 'ps option" where
  "sus n c = suspend_states n ! (c - fst (cpu_range n))"

definition nst :: "'ps NonCpuPowerNode \<Rightarrow> nat \<Rightarrow> 'ps" where
  "nst n j = non_cpu_states n ! (j - fst (non_cpu_range n))"

definition wf_node :: "'ps NonCpuPowerNode \<Rightarrow> bool" where
  "wf_node n \<longleftrightarrow>
     length (requested_states n) = snd (cpu_range n) - fst (cpu_range n) \<and>
     length (suspend_states n) = snd (cpu_range n) - fst (cpu_range n) \<and>
     length (non_cpu_states n) = snd (non_cpu_range n) - fst (non_cpu_range n)"

definition same_shape :: "'ps NonCpuPowerNode \<Rightarrow> 'ps NonCpuPowerNode \<Rightarrow> bool" where
  "same_shape n n' \<longleftrightarrow>
     nc_parent n' = nc_parent n \<and> cpu_range n' = cpu_range n \<and>
     non_cpu_range n' = non_cpu_range n \<and>
     length (requested_states n') = length (requested_states n) \<and>
     length (suspend_states n') = length (suspend_states n) \<and>
     length (non_cpu_states n') = length (non_cpu_states n)"

lemma same_shape_refl [simp]: "same_shape n n"
  by (simp add: same_shape_def)

lemma same_shapeD:
  assumes "same_shape n n'"
  shows "nc_parent n' = nc_parent n" "in_cpus n' = in_cpus n" "in_kids n' = in_kids n"
    "wf_node n' = wf_node n" "cpu_range n' = cpu_range n" "non_cpu_range n' = non_cpu_range n"
  using assms by (auto simp: same_shape_def in_cpus_def in_kids_def wf_node_def fun_eq_iff)

lemma node_update_ranges [simp]:
  "in_cpus (n\<lparr>requested_states := rs\<rparr>) = in_cpus n" "in_kids (n\<lparr>requested_states := rs\<rparr>) = in_kids n"
  "in_cpus (n\<lparr>suspend_states := ss\<rparr>) = in_cpus n" "in_kids (n\<lparr>suspend_states := ss\<rparr>) = in_kids n"
  "in_cpus (n\<lparr>non_cpu_states := ns\<rparr>) = in_cpus n" "in_kids (n\<lparr>non_cpu_states := ns\<rparr>) = in_kids n"
  "in_cpus (n\<lparr>nc_local_state := l\<rparr>) = in_cpus n" "in_kids (n\<lparr>nc_local_state := l\<rparr>) = in_kids n"
  by (auto simp: in_cpus_def in_kids_def fun_eq_iff)

lemma node_update_wf [simp]:
  "wf_node (n\<lparr>nc_local_state := l\<rparr>) = wf_node n"
  "length rs = length (requested_states n) \<Longrightarrow> wf_node (n\<lparr>requested_states := rs\<rparr>) = wf_node n"
  "length ss = length (suspend_states n) \<Longrightarrow> wf_node (n\<lparr>suspend_states := ss\<rparr>) = wf_node n"
  "length ns = length (non_cpu_states n) \<Longrightarrow> wf_node (n\<lparr>non_cpu_states := ns\<rparr>) = wf_node n"
  by (auto simp: wf_node_def)

text \<open>One update of a node on behalf of a CPU; the child state is written where there is a child.\<close>

definition node_put ::
  "'ps NonCpuPowerNode \<Rightarrow> nat \<Rightarrow> 'ps \<Rightarrow> 'ps option \<Rightarrow> 'ps \<Rightarrow> (nat \<times> 'ps) option \<Rightarrow>
     'ps NonCpuPowerNode" where
  "node_put n c r s l ch =
     n\<lparr>nc_local_state := l,
       requested_states := (requested_states n)[c - fst (cpu_range n) := r],
       suspend_states := (suspend_states n)[c - fst (cpu_range n) := s],
       non_cpu_states := (case ch of
           None \<Rightarrow> non_cpu_states n
         | Some (j, x) \<Rightarrow> (non_cpu_states n)[j - fst (non_cpu_range n) := x])\<rparr>"

lemma node_put_shape [simp]: "same_shape n (node_put n c r s l ch)"
  by (auto simp: same_shape_def node_put_def split: option.splits)

lemma node_put_local [simp]: "nc_local_state (node_put n c r s l ch) = l"
  by (simp add: node_put_def)

lemma node_put_req:
  "wf_node n \<Longrightarrow> in_cpus n c \<Longrightarrow> in_cpus n c' \<Longrightarrow>
     req (node_put n c r s l ch) c' = (if c' = c then r else req n c')"
  by (auto simp: req_def node_put_def in_cpus_def range_contains_def wf_node_def nth_list_update)

lemma node_put_sus:
  "wf_node n \<Longrightarrow> in_cpus n c \<Longrightarrow> in_cpus n c' \<Longrightarrow>
     sus (node_put n c r s l ch) c' = (if c' = c then s else sus n c')"
  by (auto simp: sus_def node_put_def in_cpus_def range_contains_def wf_node_def nth_list_update)

lemma node_put_nst_None [simp]: "nst (node_put n c r s l None) j = nst n j"
  by (simp add: nst_def node_put_def)

lemma node_put_nst_Some:
  "wf_node n \<Longrightarrow> in_kids n j \<Longrightarrow> in_kids n j' \<Longrightarrow>
     nst (node_put n c r s l (Some (j, x))) j' = (if j' = j then x else nst n j')"
  by (auto simp: nst_def node_put_def in_kids_def range_contains_def wf_node_def nth_list_update)

lemma node_put_same:
  assumes "wf_node n" and "in_cpus n c" and "\<And>j x. ch = Some (j, x) \<Longrightarrow> in_kids n j \<and> nst n j = x"
  shows "node_put n c (req n c) (sus n c) (nc_local_state n) ch = n"
  using assms by (cases ch) (auto simp: node_put_def req_def sus_def nst_def)

section \<open>Node operations on well-formed nodes\<close>

text \<open>Each checked setter returns on a well-formed node and is a pure update.\<close>

lemma node_index_bounds:
  assumes "wf_node n"
  shows "in_cpus n c \<Longrightarrow> c - fst (cpu_range n) < length (requested_states n)"
    and "in_cpus n c \<Longrightarrow> c - fst (cpu_range n) < length (suspend_states n)"
    and "in_kids n j \<Longrightarrow> j - fst (non_cpu_range n) < length (non_cpu_states n)"
  using assms by (auto simp: wf_node_def in_cpus_def in_kids_def range_contains_def)

lemma set_requested_power_state_Some:
  "wf_node n \<Longrightarrow> in_cpus n c \<Longrightarrow>
     set_requested_power_state n c s =
       Some (n\<lparr>requested_states := (requested_states n)[c - fst (cpu_range n) := s]\<rparr>)"
  by (simp add: set_requested_power_state_def panic_simps node_index_bounds)
    (simp add: in_cpus_def)

lemma set_suspend_state_Some:
  "wf_node n \<Longrightarrow> in_cpus n c \<Longrightarrow>
     set_suspend_state n c s =
       Some (n\<lparr>suspend_states := (suspend_states n)[c - fst (cpu_range n) := Some s]\<rparr>)"
  by (simp add: set_suspend_state_def panic_simps node_index_bounds) (simp add: in_cpus_def)

lemma clear_suspend_state_Some:
  "wf_node n \<Longrightarrow> in_cpus n c \<Longrightarrow>
     clear_suspend_state n c =
       Some (n\<lparr>suspend_states := (suspend_states n)[c - fst (cpu_range n) := None]\<rparr>)"
  by (simp add: clear_suspend_state_def panic_simps node_index_bounds) (simp add: in_cpus_def)

lemma set_non_cpu_state_Some:
  "wf_node n \<Longrightarrow> in_kids n j \<Longrightarrow>
     set_non_cpu_state n j s =
       Some (n\<lparr>non_cpu_states := (non_cpu_states n)[j - fst (non_cpu_range n) := s]\<rparr>)"
  by (simp add: set_non_cpu_state_def panic_simps node_index_bounds) (simp add: in_kids_def)

lemmas node_setters =
  set_requested_power_state_Some set_suspend_state_Some clear_suspend_state_Some
  set_non_cpu_state_Some

lemma requested_states_nonempty: "wf_node n \<Longrightarrow> in_cpus n c \<Longrightarrow> requested_states n \<noteq> []"
  by (auto simp: wf_node_def in_cpus_def range_contains_def)

lemma set_requested_states_eq:
  assumes "wf_node n"
  shows "set (requested_states n) = req n ` {c. in_cpus n c}"
proof -
  have "x \<in> req n ` {c. in_cpus n c}" if x: "x \<in> set (requested_states n)" for x
  proof -
    obtain k where "k < length (requested_states n)" "requested_states n ! k = x"
      using x by (metis in_set_conv_nth)
    then show ?thesis using assms
      by (intro image_eqI [of _ _ "fst (cpu_range n) + k"])
        (auto simp: req_def in_cpus_def range_contains_def wf_node_def)
  qed
  then show ?thesis
    using assms by (auto simp: req_def in_cpus_def range_contains_def wf_node_def)
qed

section \<open>Paths\<close>

function path :: "'ps NonCpuPowerNode list \<Rightarrow> nat \<Rightarrow> nat list" where
  "path nodes i =
     (if i < length nodes
      then i # (case nc_parent (nodes ! i) of
                  None \<Rightarrow> []
                | Some p \<Rightarrow> if p < i then path nodes p else [])
      else [])"
  by pat_completeness auto
termination
  by (relation "measure snd") auto

declare path.simps [simp del]

definition cpu_path :: "'ps PowerDomainTree \<Rightarrow> nat \<Rightarrow> nat list" where
  "cpu_path t c = path (non_cpu_power_nodes t) (cpu_parent (cpu_power_nodes t ! c))"

definition wf_parents :: "'ps NonCpuPowerNode list \<Rightarrow> bool" where
  "wf_parents nodes \<longleftrightarrow>
     (\<forall>i p. i < length nodes \<longrightarrow> nc_parent (nodes ! i) = Some p \<longrightarrow> p < i)"

lemma path_Cons:
  "wf_parents nodes \<Longrightarrow> i < length nodes \<Longrightarrow>
     path nodes i = i # (case nc_parent (nodes ! i) of None \<Rightarrow> [] | Some p \<Rightarrow> path nodes p)"
  by (subst path.simps) (auto simp: wf_parents_def split: option.splits)

lemma path_bounds: "j \<in> set (path nodes i) \<Longrightarrow> j \<le> i \<and> j < length nodes"
proof (induction nodes i rule: path.induct)
  case (1 nodes i)
  have "j \<in> set (i # (case nc_parent (nodes ! i) of None \<Rightarrow> []
      | Some p \<Rightarrow> if p < i then path nodes p else []))" and "i < length nodes"
    using "1.prems" by (simp_all add: path.simps [of nodes i] split: if_splits)
  then consider "j = i" | p where "nc_parent (nodes ! i) = Some p" "p < i" "j \<in> set (path nodes p)"
    by (cases "nc_parent (nodes ! i)") (auto split: if_splits)
  then show ?case
    using "1.IH" \<open>i < length nodes\<close> by cases (simp, fastforce)
qed

lemma path_sorted: "sorted_wrt (>) (path nodes i)"
proof (induction nodes i rule: path.induct)
  case (1 nodes i)
  have "sorted_wrt (>) (path nodes p)" if "i < length nodes" "nc_parent (nodes ! i) = Some p" "p < i" for p
    using 1 that by blast
  then show ?case
    by (subst path.simps) (auto split: option.splits dest: path_bounds)
qed

lemma sorted_gt_distinct: "sorted_wrt (>) (xs :: nat list) \<Longrightarrow> distinct xs"
  by (induction xs) auto

lemma distinct_path [simp]: "distinct (path nodes i)"
  by (rule sorted_gt_distinct [OF path_sorted])

lemma path_hd: "i < length nodes \<Longrightarrow> path nodes i \<noteq> [] \<and> path nodes i ! 0 = i"
  by (subst (1 2) path.simps) simp

lemma path_next:
  "wf_parents nodes \<Longrightarrow> i < length nodes \<Longrightarrow> k < length (path nodes i) \<Longrightarrow>
     nc_parent (nodes ! (path nodes i ! k)) =
       (if Suc k < length (path nodes i) then Some (path nodes i ! Suc k) else None)"
proof (induction k arbitrary: i)
  case 0
  show ?case
  proof (cases "nc_parent (nodes ! i)")
    case None
    with 0 show ?thesis by (simp add: path_Cons)
  next
    case (Some p)
    with 0 have "p < length nodes" by (auto simp: wf_parents_def)
    with 0 Some path_hd [of p nodes] show ?thesis by (auto simp: path_Cons [of nodes i])
  qed
next
  case (Suc k)
  then obtain p where p: "nc_parent (nodes ! i) = Some p"
    by (cases "nc_parent (nodes ! i)") (auto simp: path_Cons)
  then have "p < length nodes" using Suc.prems by (auto simp: wf_parents_def)
  then show ?case using Suc p by (simp add: path_Cons [of nodes i])
qed

lemma path_parent_mem:
  "wf_parents nodes \<Longrightarrow> i < length nodes \<Longrightarrow> j \<in> set (path nodes i) \<Longrightarrow>
     nc_parent (nodes ! j) = Some p \<Longrightarrow> p \<in> set (path nodes i)"
  by (metis in_set_conv_nth option.distinct(1) option.inject path_next)

lemma path_kid_unique:
  assumes "wf_parents nodes" "i < length nodes"
    and "j \<in> set (path nodes i)" "j' \<in> set (path nodes i)"
    and "nc_parent (nodes ! j) = Some p" "nc_parent (nodes ! j') = Some p"
  shows "j = j'"
proof -
  obtain k k' where "k < length (path nodes i)" "j = path nodes i ! k"
      "k' < length (path nodes i)" "j' = path nodes i ! k'"
    using assms by (metis in_set_conv_nth)
  moreover from this have "Suc k < length (path nodes i)" "Suc k' < length (path nodes i)"
      "path nodes i ! Suc k = path nodes i ! Suc k'"
    using path_next [OF assms(1,2), of k] path_next [OF assms(1,2), of k'] assms(5,6)
    by (simp_all split: if_splits)
  ultimately show ?thesis by (simp add: nth_eq_iff_index_eq)
qed

text \<open>A change that keeps every parent keeps every path.\<close>

lemma path_cong:
  "length nodes' = length nodes \<Longrightarrow>
     (\<And>i. i < length nodes \<Longrightarrow> nc_parent (nodes' ! i) = nc_parent (nodes ! i)) \<Longrightarrow>
     path nodes' i = path nodes i"
proof (induction nodes i rule: path.induct)
  case (1 nodes i)
  then show ?case
    by (subst (1 2) path.simps) (auto split: option.splits)
qed

section \<open>Well-formed trees\<close>

definition wf_tree :: "'ps psci_cfg \<Rightarrow> 'ps PowerDomainTree \<Rightarrow> bool" where
  "wf_tree cfg t \<longleftrightarrow>
     length (cpu_power_nodes t) = CPU_DOMAIN_COUNT cfg \<and>
     length (non_cpu_power_nodes t) = NON_CPU_DOMAIN_COUNT cfg \<and>
     CPU_DOMAIN_COUNT cfg \<le> NODE_INDEX_MAX cfg \<and>
     wf_parents (non_cpu_power_nodes t) \<and>
     (\<forall>i < length (non_cpu_power_nodes t). wf_node (non_cpu_power_nodes t ! i)) \<and>
     (\<forall>p < length (non_cpu_power_nodes t). \<forall>j.
        in_kids (non_cpu_power_nodes t ! p) j \<longleftrightarrow>
        j < length (non_cpu_power_nodes t) \<and> nc_parent (non_cpu_power_nodes t ! j) = Some p) \<and>
     (\<forall>c < length (cpu_power_nodes t).
        cpu_parent (cpu_power_nodes t ! c) < length (non_cpu_power_nodes t) \<and>
        length (cpu_path t c) = MAX_POWER_LEVEL cfg \<and>
        (\<forall>j. \<not> in_kids (non_cpu_power_nodes t ! cpu_parent (cpu_power_nodes t ! c)) j)) \<and>
     (\<forall>i < length (non_cpu_power_nodes t). \<forall>c.
        in_cpus (non_cpu_power_nodes t ! i) c \<longleftrightarrow>
        c < length (cpu_power_nodes t) \<and> i \<in> set (cpu_path t c))"

lemma wf_treeD:
  assumes "wf_tree cfg t"
  shows "length (cpu_power_nodes t) = CPU_DOMAIN_COUNT cfg"
    "length (non_cpu_power_nodes t) = NON_CPU_DOMAIN_COUNT cfg"
    "CPU_DOMAIN_COUNT cfg \<le> NODE_INDEX_MAX cfg"
    "wf_parents (non_cpu_power_nodes t)"
    "i < NON_CPU_DOMAIN_COUNT cfg \<Longrightarrow> wf_node (non_cpu_power_nodes t ! i)"
    "p < NON_CPU_DOMAIN_COUNT cfg \<Longrightarrow> in_kids (non_cpu_power_nodes t ! p) j \<longleftrightarrow>
        j < NON_CPU_DOMAIN_COUNT cfg \<and> nc_parent (non_cpu_power_nodes t ! j) = Some p"
    "c < CPU_DOMAIN_COUNT cfg \<Longrightarrow>
        cpu_parent (cpu_power_nodes t ! c) < NON_CPU_DOMAIN_COUNT cfg"
    "c < CPU_DOMAIN_COUNT cfg \<Longrightarrow> length (cpu_path t c) = MAX_POWER_LEVEL cfg"
    "c < CPU_DOMAIN_COUNT cfg \<Longrightarrow>
        \<not> in_kids (non_cpu_power_nodes t ! cpu_parent (cpu_power_nodes t ! c)) j"
    "i < NON_CPU_DOMAIN_COUNT cfg \<Longrightarrow> in_cpus (non_cpu_power_nodes t ! i) c \<longleftrightarrow>
        c < CPU_DOMAIN_COUNT cfg \<and> i \<in> set (cpu_path t c)"
  using assms unfolding wf_tree_def by auto

end
