(* ===== verification/Tree_Update.thy ===== *)
theory Tree_Update
  imports Tree_Shape
begin

text \<open>
  What the operations on locked ancestors do to a well-formed tree. Locking succeeds and yields the
  path of the CPU; marking a CPU running, platform coordination and the OS-initiated update are
  each \<open>put_all\<close> with different values; and \<open>path_update\<close> states the result for the whole tree.
\<close>

section \<open>Locking\<close>

definition locked :: "'ps NonCpuPowerNode list \<Rightarrow> nat list \<Rightarrow> 'ps ancestors" where
  "locked nodes is = map (\<lambda>i. (i, nodes ! i)) is"

lemma length_locked [simp]: "length (locked nodes is) = length is"
  by (simp add: locked_def)

lemma locked_nth [simp]: "k < length is \<Longrightarrow> locked nodes is ! k = (is ! k, nodes ! (is ! k))"
  by (simp add: locked_def)

lemma lock_ancestors_path:
  assumes "wf_parents nodes"
  shows "i < length nodes \<Longrightarrow> level + length (path nodes i) \<le> Suc (MAX_POWER_LEVEL cfg) \<Longrightarrow>
    set held \<inter> set (path nodes i) = {} \<Longrightarrow>
    lock_ancestors cfg nodes m held (Some i) level =
      Some (locked nodes (take (Suc m - level) (path nodes i)))"
proof (induction i arbitrary: held level rule: less_induct)
  case (less i)
  note pc = path_Cons [OF assms less.prems(1)]
  from less.prems(2) have level: "level \<le> MAX_POWER_LEVEL cfg" by (simp add: pc)
  from less.prems(3) have held: "i \<notin> set held" by (auto simp: pc)
  show ?case
  proof (cases "level > m")
    case True
    with level show ?thesis
      by (subst lock_ancestors.simps) (simp add: locked_def)
  next
    case False
    then have take: "take (Suc m - level) (path nodes i) = i # take (m - level)
        (case nc_parent (nodes ! i) of None \<Rightarrow> [] | Some p \<Rightarrow> path nodes p)"
      by (simp add: pc take_Cons' Suc_diff_le)
    have "lock_ancestors cfg nodes m (i # held) (nc_parent (nodes ! i)) (Suc level) =
        Some (locked nodes (take (m - level)
          (case nc_parent (nodes ! i) of None \<Rightarrow> [] | Some p \<Rightarrow> path nodes p)))"
    proof (cases "nc_parent (nodes ! i)")
      case None
      then show ?thesis by (subst lock_ancestors.simps) (simp add: locked_def)
    next
      case (Some p)
      with assms less.prems(1) have "p < i" by (auto simp: wf_parents_def)
      moreover have "set (i # held) \<inter> set (path nodes p) = {}"
        using less.prems(3) Some \<open>p < i\<close> path_bounds [of i nodes p] by (auto simp: pc)
      ultimately show ?thesis
        using less.IH [of p "Suc level" "i # held"] less.prems Some by (simp add: pc)
    qed
    with False level held less.prems(1) take show ?thesis
      by (subst lock_ancestors.simps) (simp add: locked_def Let_def)
  qed
qed

lemma new_with_max_level_path:
  assumes "wf_tree cfg t" "c < CPU_DOMAIN_COUNT cfg"
  shows "Power_Domain_Tree.new_with_max_level cfg (cpu_parent (cpu_power_nodes t ! c)) m
      (non_cpu_power_nodes t) =
    Some (locked (non_cpu_power_nodes t) (take m (cpu_path t c)))"
  using assms wf_treeD [OF assms(1)]
  by (simp add: new_with_max_level_def CPU_POWER_LEVEL_def lock_ancestors_path cpu_path_def)

section \<open>Chains of locked nodes\<close>

fun linked :: "nat \<Rightarrow> nat option \<Rightarrow> 'ps ancestors \<Rightarrow> bool" where
  "linked c ch [] = True"
| "linked c ch ((i, n) # anc) \<longleftrightarrow>
     wf_node n \<and> in_cpus n c \<and> (case ch of None \<Rightarrow> True | Some j \<Rightarrow> in_kids n j) \<and>
     linked c (Some i) anc"

lemma linked_nth:
  "linked c ch anc \<Longrightarrow> k < length anc \<Longrightarrow>
     wf_node (snd (anc ! k)) \<and> in_cpus (snd (anc ! k)) c \<and>
     (0 < k \<longrightarrow> in_kids (snd (anc ! k)) (fst (anc ! (k - 1))))"
proof (induction c ch anc arbitrary: k rule: linked.induct)
  case (2 c ch i n anc)
  show ?case
  proof (cases k)
    case 0
    with 2 show ?thesis by simp
  next
    case (Suc k')
    with 2(1) [of k'] 2(2,3) show ?thesis by (cases k'; cases anc) auto
  qed
qed simp

lemma linked_take: "linked c ch anc \<Longrightarrow> linked c ch (take m anc)"
proof (induction c ch anc arbitrary: m rule: linked.induct)
  case (2 c ch i n anc)
  then show ?case by (cases m) auto
qed simp

lemma linked_locked:
  assumes "wf_parents nodes"
  shows "i < length nodes \<Longrightarrow>
    \<forall>j \<in> set (path nodes i). wf_node (nodes ! j) \<and> in_cpus (nodes ! j) c \<and>
      (\<forall>p. nc_parent (nodes ! j) = Some p \<longrightarrow> in_kids (nodes ! p) j) \<Longrightarrow>
    (\<And>j. ch = Some j \<Longrightarrow> in_kids (nodes ! i) j) \<Longrightarrow>
    linked c ch (locked nodes (path nodes i))"
proof (induction i arbitrary: ch rule: less_induct)
  case (less i)
  note pc = path_Cons [OF assms less.prems(1)]
  show ?case
  proof (cases "nc_parent (nodes ! i)")
    case None
    with less.prems show ?thesis by (auto simp: pc locked_def split: option.splits)
  next
    case (Some p)
    with assms less.prems(1) have "p < i" by (auto simp: wf_parents_def)
    with less Some show ?thesis by (auto simp: pc locked_def split: option.splits)
  qed
qed

lemma wf_tree_path_facts:
  assumes "wf_tree cfg t" "c < CPU_DOMAIN_COUNT cfg"
  shows "j \<in> set (cpu_path t c) \<Longrightarrow> j < NON_CPU_DOMAIN_COUNT cfg"
    "j \<in> set (cpu_path t c) \<Longrightarrow> in_cpus (non_cpu_power_nodes t ! j) c"
    "j \<in> set (cpu_path t c) \<Longrightarrow> wf_node (non_cpu_power_nodes t ! j)"
    "distinct (cpu_path t c)"
    "Suc k < length (cpu_path t c) \<Longrightarrow>
       nc_parent (non_cpu_power_nodes t ! (cpu_path t c ! k)) = Some (cpu_path t c ! Suc k)"
proof -
  note D = wf_treeD [OF assms(1)]
  show j: "j < NON_CPU_DOMAIN_COUNT cfg" if "j \<in> set (cpu_path t c)" for j
    using path_bounds that D(2) unfolding cpu_path_def by metis
  show "in_cpus (non_cpu_power_nodes t ! j) c" "wf_node (non_cpu_power_nodes t ! j)"
    if "j \<in> set (cpu_path t c)" for j
    using D(10) [OF j [OF that]] D(5) [OF j [OF that]] that assms(2) by simp_all
  show "distinct (cpu_path t c)" by (simp add: cpu_path_def)
  show "nc_parent (non_cpu_power_nodes t ! (cpu_path t c ! k)) = Some (cpu_path t c ! Suc k)"
    if "Suc k < length (cpu_path t c)" for k
    using path_next [OF D(4), of "cpu_parent (cpu_power_nodes t ! c)" k] D(2) D(7) [OF assms(2)] that
    by (simp add: cpu_path_def)
qed

lemma linked_cpu_path:
  assumes "wf_tree cfg t" "c < CPU_DOMAIN_COUNT cfg"
  shows "linked c None (locked (non_cpu_power_nodes t) (take m (cpu_path t c)))"
proof -
  note D = wf_treeD [OF assms(1)]
  note P = wf_tree_path_facts [OF assms]
  have "linked c None (locked (non_cpu_power_nodes t) (cpu_path t c))"
    unfolding cpu_path_def
  proof (rule linked_locked [OF D(4)])
    show "cpu_parent (cpu_power_nodes t ! c) < length (non_cpu_power_nodes t)"
      using D(2) D(7) [OF assms(2)] by simp
    show "\<forall>j \<in> set (path (non_cpu_power_nodes t) (cpu_parent (cpu_power_nodes t ! c))).
        wf_node (non_cpu_power_nodes t ! j) \<and> in_cpus (non_cpu_power_nodes t ! j) c \<and>
        (\<forall>p. nc_parent (non_cpu_power_nodes t ! j) = Some p \<longrightarrow>
             in_kids (non_cpu_power_nodes t ! p) j)"
      using P(1-3) D(6) D(4) D(2)
      unfolding cpu_path_def wf_parents_def by (metis order.strict_trans)
  qed simp
  then show ?thesis
    using linked_take [of c None "locked (non_cpu_power_nodes t) (cpu_path t c)" m]
    by (simp add: locked_def take_map)
qed

section \<open>The pure update of a chain\<close>

fun put_all ::
  "nat \<Rightarrow> (nat \<times> 'ps) option \<Rightarrow> 'ps ancestors \<Rightarrow> ('ps \<times> 'ps option \<times> 'ps) list \<Rightarrow> 'ps ancestors" where
  "put_all c ch ((i, n) # anc) ((r, s, l) # vs) =
     (i, node_put n c r s l ch) # put_all c (Some (i, l)) anc vs"
| "put_all c ch anc vs = anc"

lemma length_put_all [simp]: "length (put_all c ch anc vs) = length anc"
  by (induction c ch anc vs rule: put_all.induct) auto

lemma put_all_nth:
  "k < length anc \<Longrightarrow> length vs = length anc \<Longrightarrow>
     put_all c ch anc vs ! k =
       (fst (anc ! k), node_put (snd (anc ! k)) c (fst (vs ! k)) (fst (snd (vs ! k))) (snd (snd (vs ! k)))
         (if k = 0 then ch else Some (fst (anc ! (k - 1)), snd (snd (vs ! (k - 1))))))"
proof (induction c ch anc vs arbitrary: k rule: put_all.induct)
  case (1 c ch i n anc r s l vs)
  show ?case
  proof (cases k)
    case 0
    then show ?thesis by simp
  next
    case (Suc k')
    with 1 show ?thesis by (cases k') auto
  qed
qed auto

lemma map_fst_put_all [simp]: "map fst (put_all c ch anc vs) = map fst anc"
  by (induction c ch anc vs rule: put_all.induct) auto

text \<open>\<open>set_running\<close> as a pure update.\<close>

lemma set_running_from_put:
  "linked c ch anc \<Longrightarrow>
     set_running_from cfg c ch anc =
       Some (put_all c (map_option (\<lambda>j. (j, PS_RUN cfg)) ch) anc
         (replicate (length anc) (PS_RUN cfg, None, PS_RUN cfg)))"
proof (induction c ch anc rule: linked.induct)
  case (2 c ch i n anc)
  then show ?case
    by (cases ch) (auto simp: node_setters node_put_def set_local_state_def)
qed simp

lemma set_running_put:
  "linked c None anc \<Longrightarrow>
     set_running cfg anc c =
       Some (put_all c None anc (replicate (length anc) (PS_RUN cfg, None, PS_RUN cfg)))"
  by (simp add: set_running_def set_running_from_put)

text \<open>
  Platform coordination. \<open>coord_levels\<close> is the state each level ends in: the minimum of the requests
  while no level below had to run, and running from there on.
\<close>

fun coord_levels ::
  "'ps::linorder psci_cfg \<Rightarrow> nat \<Rightarrow> bool \<Rightarrow> 'ps ancestors \<Rightarrow> 'ps list \<Rightarrow> 'ps list" where
  "coord_levels cfg c run ((i, n) # anc) (st # sts) =
     (let l = (if run then PS_RUN cfg
               else Min (set ((requested_states n)[c - fst (cpu_range n) := st])))
      in l # coord_levels cfg c (l = PS_RUN cfg) anc sts)"
| "coord_levels cfg c run anc sts = []"

definition coord_vals ::
  "nat \<Rightarrow> 'ps ancestors \<Rightarrow> 'ps list \<Rightarrow> 'ps list \<Rightarrow> ('ps \<times> 'ps option \<times> 'ps) list" where
  "coord_vals c anc sts ls = zip sts (zip (map (\<lambda>(i, n). sus n c) anc) ls)"

lemma length_coord_levels [simp]:
  "length (coord_levels cfg c run anc sts) = min (length anc) (length sts)"
  by (induction cfg c run anc sts rule: coord_levels.induct) (auto simp: Let_def)

lemma coord_vals_nth:
  assumes "k < length anc" "length anc \<le> length sts" "length ls = length anc"
  shows "coord_vals c anc sts ls ! k = (sts ! k, sus (snd (anc ! k)) c, ls ! k)"
  using assms by (simp add: coord_vals_def case_prod_unfold)

lemma length_coord_vals [simp]:
  "length anc \<le> length sts \<Longrightarrow> length ls = length anc \<Longrightarrow>
     length (coord_vals c anc sts ls) = length anc"
  by (simp add: coord_vals_def)

text \<open>The OS-initiated update.\<close>

definition suspend_upd :: "nat \<Rightarrow> nat \<times> 'ps NonCpuPowerNode \<Rightarrow> 'ps \<Rightarrow> nat \<times> 'ps NonCpuPowerNode" where
  "suspend_upd c a s =
     (fst a, (snd a)\<lparr>suspend_states :=
       (suspend_states (snd a))[c - fst (cpu_range (snd a)) := Some s]\<rparr>)"

lemma set_suspend_states_map2:
  "linked c ch anc \<Longrightarrow> length anc \<le> length sts \<Longrightarrow>
     set_suspend_states c anc sts = Some (map2 (suspend_upd c) anc sts)"
proof (induction c ch anc arbitrary: sts rule: linked.induct)
  case (2 c ch i n anc)
  then show ?case
    by (cases sts) (auto simp: set_suspend_state_Some suspend_upd_def)
qed simp

lemma linked_suspend_upd:
  "linked c ch anc \<Longrightarrow> linked c ch (map2 (suspend_upd c) anc sts)"
proof (induction c ch anc arbitrary: sts rule: linked.induct)
  case (2 c ch i n anc)
  then show ?case by (cases sts; cases ch) (auto simp: suspend_upd_def)
qed simp

lemma set_nodes_from_put:
  "linked c (map_option fst ch) anc \<Longrightarrow> length sts = length anc \<Longrightarrow>
     set_nodes_from ch anc sts =
       Some (if anc = [] then ch else Some (fst (last anc), last sts),
             put_all c ch anc
               (zip (map (\<lambda>(i, n). req n c) anc) (zip (map (\<lambda>(i, n). sus n c) anc) sts)))"
proof (induction anc arbitrary: ch sts)
  case (Cons a anc)
  obtain i n where a: "a = (i, n)" by (cases a)
  obtain st sts' where sts: "sts = st # sts'" using Cons.prems(2) by (cases sts) auto
  have put: "(case ch of Some (ci, s) \<Rightarrow> set_non_cpu_state (set_local_state n st) ci s
        | None \<Rightarrow> Some (set_local_state n st)) = Some (node_put n c (req n c) (sus n c) st ch)"
    using Cons.prems(1) a
    by (cases ch) (auto simp: set_local_state_def set_non_cpu_state_Some node_put_def req_def sus_def)
  have "set_nodes_from (Some (i, st)) anc sts' =
       Some (if anc = [] then Some (i, st) else Some (fst (last anc), last sts'),
             put_all c (Some (i, st)) anc
               (zip (map (\<lambda>(i, n). req n c) anc) (zip (map (\<lambda>(i, n). sus n c) anc) sts')))"
    using Cons.prems a sts by (intro Cons.IH) auto
  then show ?case using a sts put Cons.prems(2) by auto
qed simp

definition osi_vals ::
  "'ps psci_cfg \<Rightarrow> nat \<Rightarrow> nat \<Rightarrow> 'ps list \<Rightarrow> 'ps list \<Rightarrow> ('ps \<times> 'ps option \<times> 'ps) list" where
  "osi_vals cfg m hal sts rsts =
     map (\<lambda>k. (PS_RUN cfg, Some (rsts ! Suc k), if k < hal then sts ! Suc k else PS_RUN cfg)) [0..<m]"

definition running_chain :: "'ps psci_cfg \<Rightarrow> nat \<Rightarrow> 'ps ancestors \<Rightarrow> bool" where
  "running_chain cfg c anc \<longleftrightarrow>
     (\<forall>k < length anc. req (snd (anc ! k)) c = PS_RUN cfg \<and> sus (snd (anc ! k)) c = None \<and>
        nc_local_state (snd (anc ! k)) = PS_RUN cfg \<and>
        (0 < k \<longrightarrow> nst (snd (anc ! k)) (fst (anc ! (k - 1))) = PS_RUN cfg))"

lemma node_put_suspend_upd:
  assumes "req n c = x"
  shows "n\<lparr>suspend_states := (suspend_states n)[c - fst (cpu_range n) := Some s]\<rparr> =
     node_put n c x (Some s) (nc_local_state n) None"
  using assms by (auto simp: node_put_def req_def)

lemma node_put_put: "node_put (node_put n c r s l None) c r' s' l' ch = node_put n c r' s' l' ch"
  by (auto simp: node_put_def split: option.splits)

lemma node_put_child:
  assumes "nst n j = x"
  shows "node_put n c r s l (Some (j, x)) = node_put n c r s l None"
  using assms by (auto simp: node_put_def nst_def)

lemma set_non_cpu_state_put:
  "wf_node n \<Longrightarrow> in_kids n j \<Longrightarrow>
     set_non_cpu_state (node_put n c r s l None) j x = Some (node_put n c r s l (Some (j, x)))"
  by (subst set_non_cpu_state_Some)
    (auto simp: same_shapeD [OF node_put_shape] node_put_def)

lemma suspended_chain_nth:
  assumes "running_chain cfg c anc" "k < length anc" "length anc \<le> length rs"
  shows "map2 (suspend_upd c) anc rs ! k =
    (fst (anc ! k), node_put (snd (anc ! k)) c (PS_RUN cfg) (Some (rs ! k)) (PS_RUN cfg) None)"
  using assms
  by (auto simp: suspend_upd_def running_chain_def node_put_suspend_upd [of _ c "PS_RUN cfg"])

lemma osi_lower_put:
  assumes linked: "linked c None anc" and run: "running_chain cfg c anc"
    and len: "length anc \<le> length rs" "hal \<le> length anc" "length sts = hal"
  shows "\<exists>lower. set_nodes_from None (take hal (map2 (suspend_upd c) anc rs)) sts =
      Some (if hal = 0 then None else Some (fst (anc ! (hal - 1)), sts ! (hal - 1)), lower) \<and>
    length lower = hal \<and>
    (\<forall>k < hal. lower ! k = (fst (anc ! k),
       node_put (snd (anc ! k)) c (PS_RUN cfg) (Some (rs ! k)) (sts ! k)
         (if k = 0 then None else Some (fst (anc ! (k - 1)), sts ! (k - 1)))))"
proof -
  let ?anc1 = "take hal (map2 (suspend_upd c) anc rs)"
  let ?vs = "zip (map (\<lambda>(i, n). req n c) ?anc1) (zip (map (\<lambda>(i, n). sus n c) ?anc1) sts)"
  have len1: "length ?anc1 = hal" using len by simp
  have nth: "?anc1 ! k =
      (fst (anc ! k), node_put (snd (anc ! k)) c (PS_RUN cfg) (Some (rs ! k)) (PS_RUN cfg) None)"
    if "k < hal" for k
    using that len suspended_chain_nth [OF run, of k rs] by simp
  have vs: "?vs ! k = (PS_RUN cfg, Some (rs ! k), sts ! k)" if "k < hal" for k
    using that len1 len(3) nth [OF that] linked_nth [OF linked, of k] len(1,2)
    by (simp add: case_prod_unfold node_put_req node_put_sus)
  have "set_nodes_from None ?anc1 sts =
      Some (if hal = 0 then None else Some (fst (anc ! (hal - 1)), sts ! (hal - 1)),
            put_all c None ?anc1 ?vs)"
  proof (subst set_nodes_from_put [where c = c])
    show "linked c (map_option fst None) ?anc1"
      using linked_take [OF linked_suspend_upd [OF linked]] by simp
    have "last ?anc1 = ?anc1 ! (hal - 1)" "last sts = sts ! (hal - 1)" if "0 < hal"
      using that len1 len(3) by (metis last_conv_nth length_0_conv less_irrefl)+
    then show "Some (if ?anc1 = [] then None else Some (fst (last ?anc1), last sts),
        put_all c None ?anc1 ?vs) =
      Some (if hal = 0 then None else Some (fst (anc ! (hal - 1)), sts ! (hal - 1)),
        put_all c None ?anc1 ?vs)"
      using len1 nth [of "hal - 1"] by (cases "hal = 0") auto
  qed (use len1 len in simp)
  moreover have "put_all c None ?anc1 ?vs ! k = (fst (anc ! k),
       node_put (snd (anc ! k)) c (PS_RUN cfg) (Some (rs ! k)) (sts ! k)
         (if k = 0 then None else Some (fst (anc ! (k - 1)), sts ! (k - 1))))" if "k < hal" for k
    using that len1 len(3) nth [of k] nth [of "k - 1"] vs [of k] vs [of "k - 1"]
    by (subst put_all_nth) (auto simp: node_put_put)
  ultimately show ?thesis using len1 by auto
qed

lemma apply_coordinated_put:
  assumes linked: "linked c None anc" and run: "running_chain cfg c anc"
    and len: "length (cs_states resolved) = Suc (MAX_POWER_LEVEL cfg)"
      "length (cs_states cs) = Suc (MAX_POWER_LEVEL cfg)"
      "hal \<le> length anc" "length anc \<le> MAX_POWER_LEVEL cfg"
  shows "apply_coordinated_state_to_power_domain_tree cfg cs hal cpu anc c resolved =
     Some (cpu\<lparr>cpu_local_state := cs_states cs ! 0\<rparr>,
       put_all c None anc (osi_vals cfg (length anc) hal (cs_states cs) (cs_states resolved)))"
proof -
  let ?rs = "drop 1 (cs_states resolved)"
  let ?sts = "take hal (drop 1 (cs_states cs))"
  let ?vals = "osi_vals cfg (length anc) hal (cs_states cs) (cs_states resolved)"
  let ?anc1 = "map2 (suspend_upd c) anc ?rs"
  let ?cpu = "cpu\<lparr>cpu_local_state := cs_states cs ! 0\<rparr>"
  have rs: "length anc \<le> length ?rs" using len by simp
  have vals: "length ?vals = length anc"
      "k < length anc \<Longrightarrow> ?vals ! k =
         (PS_RUN cfg, Some (?rs ! k), if k < hal then ?sts ! k else PS_RUN cfg)" for k
    using len by (auto simp: osi_vals_def)
  note anc1 = suspended_chain_nth [OF run _ rs]
  have anc1_eq: "?anc1 ! k = put_all c None anc ?vals ! k" if "hal < k \<or> hal = 0" "k < length anc" for k
    using that anc1 [of k] vals(2) [of k] vals(2) [of "k - 1"] run
    by (subst put_all_nth [OF that(2) vals(1)])
      (auto simp: node_put_child running_chain_def)
  have step1: "apply_coordinated_state_to_power_domain_tree cfg cs hal cpu anc c resolved =
      set_nodes_from_local_states cfg cs hal cpu ?anc1"
    using set_suspend_states_map2 [OF linked rs]
    by (simp add: apply_coordinated_state_to_power_domain_tree_def CPU_POWER_LEVEL_def)
  show ?thesis
  proof (cases "hal = 0")
    case True
    have "?anc1 = put_all c None anc ?vals"
      using True anc1_eq len by (intro nth_equalityI) auto
    with True step1 len show ?thesis
      by (simp add: set_nodes_from_local_states_def cpu_level_state_def CPU_POWER_LEVEL_def
          checked_index_Some cpu_set_local_state_def)
  next
    case False
    obtain lower where lower: "set_nodes_from None (take hal ?anc1) ?sts =
        Some (Some (fst (anc ! (hal - 1)), ?sts ! (hal - 1)), lower)" "length lower = hal"
      "\<forall>k < hal. lower ! k = (fst (anc ! k),
         node_put (snd (anc ! k)) c (PS_RUN cfg) (Some (?rs ! k)) (?sts ! k)
           (if k = 0 then None else Some (fst (anc ! (k - 1)), ?sts ! (k - 1))))"
      using osi_lower_put [OF linked run rs len(3), of ?sts] False len by auto
    have lower_eq: "lower ! k = put_all c None anc ?vals ! k" if "k < hal" for k
      using that lower(3) len vals(2) [of k] vals(2) [of "k - 1"]
      by (subst put_all_nth [OF _ vals(1)]) auto
    let ?anc' = "lower @ drop hal ?anc1"
    have anc': "length ?anc' = length anc" "hal \<le> k \<Longrightarrow> k < length anc \<Longrightarrow> ?anc' ! k = ?anc1 ! k"
        "k < hal \<Longrightarrow> ?anc' ! k = lower ! k" for k
      using lower(2) len by (auto simp: nth_append)
    have body: "set_nodes_from_local_states cfg cs hal cpu ?anc1 =
        (if hal < length anc
         then do {
           l \<leftarrow> set_non_cpu_state (snd (?anc1 ! hal)) (fst (anc ! (hal - 1))) (?sts ! (hal - 1));
           Some (?cpu, ?anc'[hal := (fst (?anc1 ! hal), l)]) }
         else Some (?cpu, ?anc'))"
      using False lower(1) len anc'
      by (auto simp: set_nodes_from_local_states_def cpu_level_state_def CPU_POWER_LEVEL_def
          checked_index_Some cpu_set_local_state_def Let_def)
    show ?thesis
    proof (cases "hal < length anc")
      case True
      let ?n = "snd (anc ! hal)"
      have "set_non_cpu_state (snd (?anc1 ! hal)) (fst (anc ! (hal - 1))) (?sts ! (hal - 1)) =
          Some (snd (put_all c None anc ?vals ! hal))"
        using True False anc1 [OF True] linked_nth [OF linked True] vals(2) [OF True]
          vals(2) [of "hal - 1"]
        by (subst put_all_nth [OF True vals(1)]) (simp add: set_non_cpu_state_put)
      moreover have "?anc'[hal := (fst (?anc1 ! hal), snd (put_all c None anc ?vals ! hal))] =
          put_all c None anc ?vals"
      proof (intro nth_equalityI)
        fix k assume "k < length (?anc'[hal := (fst (?anc1 ! hal), snd (put_all c None anc ?vals ! hal))])"
        then have k: "k < length anc" using anc' by simp
        show "?anc'[hal := (fst (?anc1 ! hal), snd (put_all c None anc ?vals ! hal))] ! k =
            put_all c None anc ?vals ! k"
          using k True anc' lower_eq anc1_eq [of k] anc1 [OF True] put_all_nth [OF True vals(1), of c None]
          by (cases k hal rule: linorder_cases) auto
      qed (use anc' in simp)
      ultimately show ?thesis using step1 body True by simp
    next
      case no: False
      have "?anc' = put_all c None anc ?vals"
        using no len lower(2) lower_eq by (intro nth_equalityI) (auto simp: nth_append)
      with step1 body no show ?thesis by simp
    qed
  qed
qed

context power_state_laws
begin

lemma coordinate_from_put:
  "linked c (map_option fst ch) anc \<Longrightarrow> length anc \<le> length sts \<Longrightarrow>
     \<forall>(i, n) \<in> set anc. nc_local_state n = PS_RUN cfg \<Longrightarrow>
     coordinate_from cfg c run ch anc sts =
       Some (put_all c ch anc (coord_vals c anc sts (coord_levels cfg c run anc sts)),
             coord_levels cfg c run anc sts @ drop (length anc) sts)"
proof (induction anc arbitrary: run ch sts)
  case (Cons a anc)
  obtain i n where a: "a = (i, n)" by (cases a)
  obtain st sts' where sts: "sts = st # sts'" using Cons.prems(2) by (cases sts) auto
  let ?rs = "(requested_states n)[c - fst (cpu_range n) := st]"
  let ?l = "if run then PS_RUN cfg else Min (set ?rs)"
  let ?n2 = "n\<lparr>requested_states := ?rs, nc_local_state := ?l\<rparr>"
  have n: "wf_node n" "in_cpus n c" "nc_local_state n = PS_RUN cfg"
    using Cons.prems a by auto
  have ne: "?rs \<noteq> []" using requested_states_nonempty [OF n(1,2)] by simp
  have mid: "(if \<not> run
          then do {
            n' \<leftarrow> set_minimal_allowed_state (n\<lparr>requested_states := ?rs\<rparr>);
            Some (n', nc_local_state n', power_state_type cfg (nc_local_state n') = RunType) }
          else Some (n\<lparr>requested_states := ?rs\<rparr>, PS_RUN cfg, run)) = Some (?n2, ?l, ?l = PS_RUN cfg)"
    using ne n(3) by (auto simp: set_minimal_allowed_state_def type_run)
  have put: "(case ch of Some (ci, s) \<Rightarrow> set_non_cpu_state ?n2 ci s | None \<Rightarrow> Some ?n2) =
      Some (node_put n c st (sus n c) ?l ch)"
  proof (cases ch)
    case None
    with n show ?thesis by (simp add: node_put_def sus_def)
  next
    case (Some p)
    with Cons.prems(1) a have "in_kids n (fst p)" by simp
    with Some n show ?thesis
      by (cases p) (simp add: set_non_cpu_state_Some node_put_def sus_def)
  qed
  have "coordinate_from cfg c (?l = PS_RUN cfg) (Some (i, ?l)) anc sts' =
      Some (put_all c (Some (i, ?l)) anc
              (coord_vals c anc sts' (coord_levels cfg c (?l = PS_RUN cfg) anc sts')),
            coord_levels cfg c (?l = PS_RUN cfg) anc sts' @ drop (length anc) sts')"
    using Cons.prems a sts by (intro Cons.IH) auto
  then show ?case
    using a sts mid put n(1,2)
    by (simp add: set_requested_power_state_Some coord_vals_def Let_def del: if_image_distrib)
qed simp

end

end
