(* ===== verification/Tree_Invariant.thy ===== *)
theory Tree_Invariant
  imports Tree_Update
begin

text \<open>
  The invariant of the power domain tree and the one theorem behind its preservation: an update of
  the path of one CPU keeps the invariant under pointwise conditions on the values it writes.
\<close>

section \<open>Updates of the path of one CPU\<close>

definition path_update ::
  "'ps PowerDomainTree \<Rightarrow> 'ps PowerDomainTree \<Rightarrow> nat \<Rightarrow> nat \<Rightarrow>
     (nat \<Rightarrow> 'ps) \<Rightarrow> (nat \<Rightarrow> 'ps option) \<Rightarrow> (nat \<Rightarrow> 'ps) \<Rightarrow> bool" where
  "path_update t t' c m R S L \<longleftrightarrow>
     length (non_cpu_power_nodes t') = length (non_cpu_power_nodes t) \<and>
     length (cpu_power_nodes t') = length (cpu_power_nodes t) \<and>
     (\<forall>i < length (non_cpu_power_nodes t).
        same_shape (non_cpu_power_nodes t ! i) (non_cpu_power_nodes t' ! i) \<and>
        (i \<notin> set (cpu_path t c) \<longrightarrow> non_cpu_power_nodes t' ! i = non_cpu_power_nodes t ! i)) \<and>
     (\<forall>k < length (cpu_path t c).
        let n = non_cpu_power_nodes t ! (cpu_path t c ! k);
            n' = non_cpu_power_nodes t' ! (cpu_path t c ! k)
        in nc_local_state n' = L k \<and>
           (\<forall>c'. in_cpus n c' \<longrightarrow>
              req n' c' = (if c' = c then R k else req n c') \<and>
              sus n' c' = (if c' = c then S k else sus n c')) \<and>
           (\<forall>j. in_kids n j \<longrightarrow>
              nst n' j = (if 0 < k \<and> k < m \<and> j = cpu_path t c ! (k - 1) then L (k - 1)
                          else nst n j))) \<and>
     (\<forall>c' < length (cpu_power_nodes t). c' \<noteq> c \<longrightarrow>
        cpu_power_nodes t' ! c' = cpu_power_nodes t ! c') \<and>
     cpu_parent (cpu_power_nodes t' ! c) = cpu_parent (cpu_power_nodes t ! c)"

text \<open>The values a pure update of a prefix of the path leaves at each level.\<close>

definition upd_R :: "'ps PowerDomainTree \<Rightarrow> nat \<Rightarrow> ('ps \<times> 'ps option \<times> 'ps) list \<Rightarrow> nat \<Rightarrow> 'ps" where
  "upd_R t c vs k =
     (if k < length vs then fst (vs ! k) else req (non_cpu_power_nodes t ! (cpu_path t c ! k)) c)"

definition upd_S ::
  "'ps PowerDomainTree \<Rightarrow> nat \<Rightarrow> ('ps \<times> 'ps option \<times> 'ps) list \<Rightarrow> nat \<Rightarrow> 'ps option" where
  "upd_S t c vs k =
     (if k < length vs then fst (snd (vs ! k))
      else sus (non_cpu_power_nodes t ! (cpu_path t c ! k)) c)"

definition upd_L :: "'ps PowerDomainTree \<Rightarrow> nat \<Rightarrow> ('ps \<times> 'ps option \<times> 'ps) list \<Rightarrow> nat \<Rightarrow> 'ps" where
  "upd_L t c vs k =
     (if k < length vs then snd (snd (vs ! k))
      else nc_local_state (non_cpu_power_nodes t ! (cpu_path t c ! k)))"

definition put_tree ::
  "'ps PowerDomainTree \<Rightarrow> nat \<Rightarrow> ('ps \<times> 'ps option \<times> 'ps) list \<Rightarrow> 'ps CpuPowerNode \<Rightarrow>
     'ps PowerDomainTree" where
  "put_tree t c vs cpu =
     unlock_cpu_node (t\<lparr>non_cpu_power_nodes := write_back
       (put_all c None (locked (non_cpu_power_nodes t) (take (length vs) (cpu_path t c))) vs)
       (non_cpu_power_nodes t)\<rparr>) c cpu"

lemma put_tree_nodes:
  assumes "wf_tree cfg t" "c < CPU_DOMAIN_COUNT cfg" "length vs \<le> MAX_POWER_LEVEL cfg"
  shows "i \<notin> set (take (length vs) (cpu_path t c)) \<Longrightarrow>
      non_cpu_power_nodes (put_tree t c vs cpu) ! i = non_cpu_power_nodes t ! i"
    and "k < length vs \<Longrightarrow>
      non_cpu_power_nodes (put_tree t c vs cpu) ! (cpu_path t c ! k) =
        node_put (non_cpu_power_nodes t ! (cpu_path t c ! k)) c
          (upd_R t c vs k) (upd_S t c vs k) (upd_L t c vs k)
          (if k = 0 then None else Some (cpu_path t c ! (k - 1), upd_L t c vs (k - 1)))"
proof -
  let ?is = "take (length vs) (cpu_path t c)"
  let ?anc = "locked (non_cpu_power_nodes t) ?is"
  have len: "length ?is = length vs"
    using wf_treeD(8) [OF assms(1,2)] assms(3) by simp
  have fsts: "map fst (put_all c None ?anc vs) = ?is"
    by (simp add: locked_def comp_def)
  then have dist: "distinct (map fst (put_all c None ?anc vs))"
    using wf_tree_path_facts(4) [OF assms(1,2)] by (simp add: distinct_take)
  show "non_cpu_power_nodes (put_tree t c vs cpu) ! i = non_cpu_power_nodes t ! i"
    if "i \<notin> set ?is"
    using that fsts unfolding put_tree_def unlock_cpu_node_def
    by (simp add: write_back_other flip: set_map)
  show "non_cpu_power_nodes (put_tree t c vs cpu) ! (cpu_path t c ! k) =
        node_put (non_cpu_power_nodes t ! (cpu_path t c ! k)) c
          (upd_R t c vs k) (upd_S t c vs k) (upd_L t c vs k)
          (if k = 0 then None else Some (cpu_path t c ! (k - 1), upd_L t c vs (k - 1)))"
    if k: "k < length vs"
  proof -
    have nth: "put_all c None ?anc vs ! k = (cpu_path t c ! k,
        node_put (non_cpu_power_nodes t ! (cpu_path t c ! k)) c
          (upd_R t c vs k) (upd_S t c vs k) (upd_L t c vs k)
          (if k = 0 then None else Some (cpu_path t c ! (k - 1), upd_L t c vs (k - 1))))"
      using k len by (subst put_all_nth) (auto simp: upd_R_def upd_S_def upd_L_def)
    have "k < length (put_all c None ?anc vs)" using k len by simp
    then have mem: "put_all c None ?anc vs ! k \<in> set (put_all c None ?anc vs)" by (rule nth_mem)
    have "cpu_path t c ! k \<in> set (cpu_path t c)"
      using k assms wf_treeD(8) [OF assms(1,2)] by simp
    then have "cpu_path t c ! k < length (non_cpu_power_nodes t)"
      using wf_tree_path_facts(1) [OF assms(1,2)] wf_treeD(2) [OF assms(1)] by simp
    from write_back_mem [OF dist mem [unfolded nth] this] show ?thesis
      by (simp add: put_tree_def unlock_cpu_node_def)
  qed
qed

lemma path_update_put_tree:
  assumes wf: "wf_tree cfg t" and c: "c < CPU_DOMAIN_COUNT cfg"
    and m: "length vs \<le> MAX_POWER_LEVEL cfg"
    and parent: "cpu_parent cpu = cpu_parent (cpu_power_nodes t ! c)"
  shows "path_update t (put_tree t c vs cpu) c (length vs)
    (upd_R t c vs) (upd_S t c vs) (upd_L t c vs)"
proof -
  let ?t' = "put_tree t c vs cpu" and ?P = "cpu_path t c"
  note D = wf_treeD [OF wf] and P = wf_tree_path_facts [OF wf c]
  note nodes = put_tree_nodes [OF wf c m, of _ cpu]
  have lenP: "length ?P = MAX_POWER_LEVEL cfg" using D(8) [OF c] .
  have idx: "i \<in> set (take (length vs) ?P) \<longleftrightarrow> (\<exists>k < length vs. i = ?P ! k)" for i
    using m lenP by (auto simp: in_set_conv_nth)
  have above: "non_cpu_power_nodes ?t' ! (?P ! k) = non_cpu_power_nodes t ! (?P ! k)"
    if "k < length ?P" "\<not> k < length vs" for k
  proof (rule nodes(1))
    show "?P ! k \<notin> set (take (length vs) ?P)"
      using that P(4) m lenP unfolding idx by (auto simp: nth_eq_iff_index_eq)
  qed
  have kid: "in_kids (non_cpu_power_nodes t ! (?P ! k)) (?P ! (k - 1))" if "k < length ?P" "0 < k" for k
  proof -
    have "?P ! k < NON_CPU_DOMAIN_COUNT cfg" "?P ! (k - 1) < NON_CPU_DOMAIN_COUNT cfg"
      using P(1) that by auto
    then show ?thesis using D(6) P(5) [of "k - 1"] that by simp
  qed
  have level: "let n = non_cpu_power_nodes t ! (?P ! k); n' = non_cpu_power_nodes ?t' ! (?P ! k)
        in nc_local_state n' = upd_L t c vs k \<and>
           (\<forall>c'. in_cpus n c' \<longrightarrow>
              req n' c' = (if c' = c then upd_R t c vs k else req n c') \<and>
              sus n' c' = (if c' = c then upd_S t c vs k else sus n c')) \<and>
           (\<forall>j. in_kids n j \<longrightarrow>
              nst n' j = (if 0 < k \<and> k < length vs \<and> j = ?P ! (k - 1) then upd_L t c vs (k - 1)
                          else nst n j))" if k: "k < length ?P" for k
  proof (cases "k < length vs")
    case True
    have "wf_node (non_cpu_power_nodes t ! (?P ! k))" "in_cpus (non_cpu_power_nodes t ! (?P ! k)) c"
      using P(2,3) k by auto
    then show ?thesis
      using nodes(2) [OF True] True kid [OF k] by (simp add: node_put_req node_put_sus node_put_nst_Some)
  next
    case False
    then show ?thesis using above [OF k] by (simp add: upd_R_def upd_S_def upd_L_def)
  qed
  have shape: "same_shape (non_cpu_power_nodes t ! i) (non_cpu_power_nodes ?t' ! i)" for i
    using nodes(1) [of i] nodes(2) idx [of i] by (cases "i \<in> set (take (length vs) ?P)") auto
  have frame: "i \<notin> set ?P \<Longrightarrow> non_cpu_power_nodes ?t' ! i = non_cpu_power_nodes t ! i" for i
    using nodes(1) in_set_takeD by metis
  show ?thesis
    unfolding path_update_def
    using shape frame level parent c D(1)
    by (auto simp: put_tree_def unlock_cpu_node_def)
qed

text \<open>A path update keeps the static structure.\<close>

lemma path_update_paths:
  assumes "path_update t t' c m R S L"
  shows "c' < length (cpu_power_nodes t) \<Longrightarrow> cpu_path t' c' = cpu_path t c'"
proof -
  assume c': "c' < length (cpu_power_nodes t)"
  have "cpu_parent (cpu_power_nodes t' ! c') = cpu_parent (cpu_power_nodes t ! c')"
    using assms c' by (cases "c' = c") (auto simp: path_update_def)
  moreover have "path (non_cpu_power_nodes t') i = path (non_cpu_power_nodes t) i" for i
    using assms same_shapeD(1) by (intro path_cong) (auto simp: path_update_def)
  ultimately show ?thesis by (simp add: cpu_path_def)
qed

lemma path_update_wf:
  assumes wf: "wf_tree cfg t" and u: "path_update t t' c m R S L"
  shows "wf_tree cfg t'"
proof -
  have len: "length (non_cpu_power_nodes t') = length (non_cpu_power_nodes t)"
      "length (cpu_power_nodes t') = length (cpu_power_nodes t)"
    using u by (simp_all add: path_update_def)
  have shape: "same_shape (non_cpu_power_nodes t ! i) (non_cpu_power_nodes t' ! i)"
    if "i < length (non_cpu_power_nodes t)" for i
    using u that by (simp add: path_update_def)
  note S = same_shapeD [OF shape]
  have parent: "cpu_parent (cpu_power_nodes t' ! c') = cpu_parent (cpu_power_nodes t ! c')"
    if "c' < length (cpu_power_nodes t)" for c'
    using u that by (cases "c' = c") (auto simp: path_update_def)
  show ?thesis
    using wf unfolding wf_tree_def wf_parents_def
    by (simp add: len S parent path_update_paths [OF u] cong: conj_cong)
qed

section \<open>The invariant\<close>

definition vote :: "'ps psci_cfg \<Rightarrow> 'ps NonCpuPowerNode \<Rightarrow> nat \<Rightarrow> 'ps" where
  "vote cfg n c =
     (if req n c \<noteq> PS_RUN cfg then req n c
      else case sus n c of None \<Rightarrow> PS_RUN cfg | Some s \<Rightarrow> s)"

text \<open>The state of one CPU node: its affinity, local state and entry point agree.\<close>

definition cpu_ok :: "'ps psci_cfg \<Rightarrow> 'ps CpuPowerNode \<Rightarrow> bool" where
  "cpu_ok cfg cpu \<longleftrightarrow>
     (case affinity_info cpu of
        Off \<Rightarrow> cpu_local_state cpu = PS_OFF cfg \<and> entry_point cpu = None
      | OnPending \<Rightarrow> cpu_local_state cpu = PS_OFF cfg \<and> entry_point cpu \<noteq> None
      | On \<Rightarrow> entry_point cpu \<noteq> None \<longleftrightarrow>
          power_state_type cfg (cpu_local_state cpu) = PowerDownType)"

text \<open>What one node says about one of its CPUs.\<close>

definition entry_ok ::
  "'ps::linorder psci_cfg \<Rightarrow> 'ps NonCpuPowerNode \<Rightarrow> nat \<Rightarrow> 'ps CpuPowerNode \<Rightarrow> bool" where
  "entry_ok cfg n c cpu \<longleftrightarrow>
     (req n c \<noteq> PS_RUN cfg \<longrightarrow> sus n c = None) \<and> sus n c \<noteq> Some (PS_RUN cfg) \<and>
     nc_local_state n \<le> vote cfg n c \<and> vote cfg n c \<le> cpu_local_state cpu"

text \<open>A parent is never in a deeper state than its child, and never believes the child deeper.\<close>

definition edge_ok :: "'ps::linorder NonCpuPowerNode \<Rightarrow> nat \<Rightarrow> 'ps NonCpuPowerNode \<Rightarrow> bool" where
  "edge_ok p i n \<longleftrightarrow>
     nc_local_state p \<le> nc_local_state n \<and> nst p i \<le> nc_local_state n \<and>
     (\<forall>c. in_cpus n c \<longrightarrow> req p c \<le> req n c)"

text \<open>A node is as deep as its CPUs' requests let it be.\<close>

definition depth_ok :: "'ps::linorder psci_cfg \<Rightarrow> 'ps NonCpuPowerNode \<Rightarrow> bool" where
  "depth_ok cfg n \<longleftrightarrow>
     nc_local_state n = PS_OFF cfg \<or> (\<exists>c. in_cpus n c \<and> req n c \<le> nc_local_state n)"

definition inv_tree :: "'ps::linorder psci_cfg \<Rightarrow> 'ps PowerDomainTree \<Rightarrow> bool" where
  "inv_tree cfg t \<longleftrightarrow>
     wf_tree cfg t \<and>
     (\<forall>c < CPU_DOMAIN_COUNT cfg. cpu_ok cfg (cpu_power_nodes t ! c)) \<and>
     (\<forall>i < NON_CPU_DOMAIN_COUNT cfg.
        depth_ok cfg (non_cpu_power_nodes t ! i) \<and>
        (\<forall>c. in_cpus (non_cpu_power_nodes t ! i) c \<longrightarrow>
           entry_ok cfg (non_cpu_power_nodes t ! i) c (cpu_power_nodes t ! c)) \<and>
        (\<forall>p. nc_parent (non_cpu_power_nodes t ! i) = Some p \<longrightarrow>
           edge_ok (non_cpu_power_nodes t ! p) i (non_cpu_power_nodes t ! i)))"

lemma inv_treeD:
  assumes "inv_tree cfg t"
  shows "wf_tree cfg t"
    "c < CPU_DOMAIN_COUNT cfg \<Longrightarrow> cpu_ok cfg (cpu_power_nodes t ! c)"
    "i < NON_CPU_DOMAIN_COUNT cfg \<Longrightarrow> depth_ok cfg (non_cpu_power_nodes t ! i)"
    "i < NON_CPU_DOMAIN_COUNT cfg \<Longrightarrow> in_cpus (non_cpu_power_nodes t ! i) c \<Longrightarrow>
       entry_ok cfg (non_cpu_power_nodes t ! i) c (cpu_power_nodes t ! c)"
    "i < NON_CPU_DOMAIN_COUNT cfg \<Longrightarrow> nc_parent (non_cpu_power_nodes t ! i) = Some p \<Longrightarrow>
       edge_ok (non_cpu_power_nodes t ! p) i (non_cpu_power_nodes t ! i)"
  using assms by (auto simp: inv_tree_def)

section \<open>Preservation\<close>

definition vote_of :: "'ps psci_cfg \<Rightarrow> 'ps \<Rightarrow> 'ps option \<Rightarrow> 'ps" where
  "vote_of cfg r s =
     (if r \<noteq> PS_RUN cfg then r else case s of None \<Rightarrow> PS_RUN cfg | Some x \<Rightarrow> x)"

lemma vote_eq: "vote cfg n c = vote_of cfg (req n c) (sus n c)"
  by (simp add: vote_def vote_of_def)

text \<open>The conditions on the values written at level \<open>k\<close> of the path.\<close>

definition level_ok ::
  "'ps::linorder psci_cfg \<Rightarrow> 'ps PowerDomainTree \<Rightarrow> nat \<Rightarrow> nat \<Rightarrow>
     (nat \<Rightarrow> 'ps) \<Rightarrow> (nat \<Rightarrow> 'ps option) \<Rightarrow> (nat \<Rightarrow> 'ps) \<Rightarrow> 'ps \<Rightarrow> nat \<Rightarrow> bool" where
  "level_ok cfg t c m R S L s0 k \<longleftrightarrow>
     (let n = non_cpu_power_nodes t ! (cpu_path t c ! k) in
      (R k \<noteq> PS_RUN cfg \<longrightarrow> S k = None) \<and> S k \<noteq> Some (PS_RUN cfg) \<and>
      L k \<le> vote_of cfg (R k) (S k) \<and> vote_of cfg (R k) (S k) \<le> s0 \<and>
      (\<forall>c'. in_cpus n c' \<and> c' \<noteq> c \<longrightarrow> L k \<le> vote cfg n c') \<and>
      (\<forall>j. in_kids n j \<and> (0 < k \<longrightarrow> j \<noteq> cpu_path t c ! (k - 1)) \<longrightarrow>
         L k \<le> nc_local_state (non_cpu_power_nodes t ! j)) \<and>
      (0 < k \<longrightarrow> L k \<le> L (k - 1) \<and> R k \<le> R (k - 1) \<and>
         (m \<le> k \<longrightarrow> nst n (cpu_path t c ! (k - 1)) \<le> L (k - 1))) \<and>
      (L k = PS_OFF cfg \<or>
       (\<exists>c'. in_cpus n c' \<and> (if c' = c then R k else req n c') \<le> L k)))"

lemma wf_tree_parent:
  assumes wf: "wf_tree cfg t" and i: "i < NON_CPU_DOMAIN_COUNT cfg"
    and p: "nc_parent (non_cpu_power_nodes t ! i) = Some p"
  shows "p < NON_CPU_DOMAIN_COUNT cfg" "in_kids (non_cpu_power_nodes t ! p) i"
    "in_cpus (non_cpu_power_nodes t ! i) c \<Longrightarrow> in_cpus (non_cpu_power_nodes t ! p) c"
proof -
  note D = wf_treeD [OF wf]
  show 1: "p < NON_CPU_DOMAIN_COUNT cfg"
    using D(2,4) i p unfolding wf_parents_def by fastforce
  show "in_kids (non_cpu_power_nodes t ! p) i" using D(6) [OF 1] i p by simp
  assume "in_cpus (non_cpu_power_nodes t ! i) c"
  then have c: "c < CPU_DOMAIN_COUNT cfg" "i \<in> set (cpu_path t c)" using D(10) [OF i] by auto
  then have "p \<in> set (cpu_path t c)"
    using path_parent_mem [OF D(4)] D(2) D(7) p unfolding cpu_path_def by metis
  then show "in_cpus (non_cpu_power_nodes t ! p) c" using D(10) [OF 1] c by simp
qed

lemma wf_tree_path_parent:
  assumes wf: "wf_tree cfg t" and c: "c < CPU_DOMAIN_COUNT cfg" and k: "k < MAX_POWER_LEVEL cfg"
    and p: "nc_parent (non_cpu_power_nodes t ! (cpu_path t c ! k)) = Some p"
  shows "Suc k < MAX_POWER_LEVEL cfg" "p = cpu_path t c ! Suc k"
  using path_next [OF wf_treeD(4) [OF wf], of "cpu_parent (cpu_power_nodes t ! c)" k]
    wf_treeD(2) [OF wf] wf_treeD(7,8) [OF wf c] k p
  by (auto simp: cpu_path_def split: if_splits)

lemma path_update_view:
  assumes wf: "wf_tree cfg t" and c: "c < CPU_DOMAIN_COUNT cfg" and u: "path_update t t' c m R S L"
  shows "i < NON_CPU_DOMAIN_COUNT cfg \<Longrightarrow>
      same_shape (non_cpu_power_nodes t ! i) (non_cpu_power_nodes t' ! i)"
    "i < NON_CPU_DOMAIN_COUNT cfg \<Longrightarrow> i \<notin> set (cpu_path t c) \<Longrightarrow>
      non_cpu_power_nodes t' ! i = non_cpu_power_nodes t ! i"
    "c' < CPU_DOMAIN_COUNT cfg \<Longrightarrow> c' \<noteq> c \<Longrightarrow> cpu_power_nodes t' ! c' = cpu_power_nodes t ! c'"
    "k < MAX_POWER_LEVEL cfg \<Longrightarrow> nc_local_state (non_cpu_power_nodes t' ! (cpu_path t c ! k)) = L k"
    "k < MAX_POWER_LEVEL cfg \<Longrightarrow> in_cpus (non_cpu_power_nodes t ! (cpu_path t c ! k)) c' \<Longrightarrow>
      req (non_cpu_power_nodes t' ! (cpu_path t c ! k)) c' =
        (if c' = c then R k else req (non_cpu_power_nodes t ! (cpu_path t c ! k)) c')"
    "k < MAX_POWER_LEVEL cfg \<Longrightarrow> in_cpus (non_cpu_power_nodes t ! (cpu_path t c ! k)) c' \<Longrightarrow>
      sus (non_cpu_power_nodes t' ! (cpu_path t c ! k)) c' =
        (if c' = c then S k else sus (non_cpu_power_nodes t ! (cpu_path t c ! k)) c')"
    "k < MAX_POWER_LEVEL cfg \<Longrightarrow> in_kids (non_cpu_power_nodes t ! (cpu_path t c ! k)) j \<Longrightarrow>
      nst (non_cpu_power_nodes t' ! (cpu_path t c ! k)) j =
        (if 0 < k \<and> k < m \<and> j = cpu_path t c ! (k - 1) then L (k - 1)
         else nst (non_cpu_power_nodes t ! (cpu_path t c ! k)) j)"
  using u wf_treeD(1,2) [OF wf] wf_treeD(8) [OF wf c] unfolding path_update_def Let_def by auto

definition node_ok :: "'ps::linorder psci_cfg \<Rightarrow> 'ps PowerDomainTree \<Rightarrow> nat \<Rightarrow> bool" where
  "node_ok cfg t i \<longleftrightarrow>
     depth_ok cfg (non_cpu_power_nodes t ! i) \<and>
     (\<forall>c. in_cpus (non_cpu_power_nodes t ! i) c \<longrightarrow>
        entry_ok cfg (non_cpu_power_nodes t ! i) c (cpu_power_nodes t ! c)) \<and>
     (\<forall>p. nc_parent (non_cpu_power_nodes t ! i) = Some p \<longrightarrow>
        edge_ok (non_cpu_power_nodes t ! p) i (non_cpu_power_nodes t ! i))"

text \<open>Nodes beside the path: only what their parent says about them can have changed.\<close>

lemma path_update_node_off:
  assumes inv: "inv_tree cfg t" and c: "c < CPU_DOMAIN_COUNT cfg"
    and u: "path_update t t' c m R S L"
    and ok: "\<And>k. k < MAX_POWER_LEVEL cfg \<Longrightarrow> level_ok cfg t c m R S L s0 k"
    and i: "i < NON_CPU_DOMAIN_COUNT cfg" "i \<notin> set (cpu_path t c)"
  shows "node_ok cfg t' i"
proof -
  note wf = inv_treeD(1) [OF inv]
  note V = path_update_view [OF wf c u] and I = inv_treeD [OF inv]
  let ?N = "\<lambda>i. non_cpu_power_nodes t ! i" and ?N' = "\<lambda>i. non_cpu_power_nodes t' ! i"
  have cpus: "c' < CPU_DOMAIN_COUNT cfg" "c' \<noteq> c" if "in_cpus (?N i) c'" for c'
    using wf_treeD(10) [OF wf i(1)] i(2) that by auto
  have "edge_ok (?N' p) i (?N i)" if p: "nc_parent (?N i) = Some p" for p
  proof (cases "p \<in> set (cpu_path t c)")
    case True
    then obtain k where k: "k < MAX_POWER_LEVEL cfg" "p = cpu_path t c ! k"
      using wf_treeD(8) [OF wf c] by (metis in_set_conv_nth)
    note par = wf_tree_parent [OF wf i(1) p]
    have ne: "0 < k \<longrightarrow> i \<noteq> cpu_path t c ! (k - 1)"
      using i(2) k wf_treeD(8) [OF wf c] by (metis less_imp_diff_less nth_mem)
    have "L k \<le> nc_local_state (?N i)"
      using ok [OF k(1)] par(2) ne k(2) unfolding level_ok_def Let_def by blast
    moreover have "nst (?N' p) i = nst (?N p) i"
      using V(7) [OF k(1), of i] par(2) ne k(2) by auto
    moreover have "req (?N' p) c' = req (?N p) c'" if "in_cpus (?N i) c'" for c'
      using V(5) [OF k(1)] par(3) [OF that] cpus [OF that] k(2) by simp
    ultimately show ?thesis
      using I(5) [OF i(1) p] V(4) [OF k(1)] k(2) by (auto simp: edge_ok_def)
  next
    case False
    then show ?thesis using V(2) wf_tree_parent(1) [OF wf i(1) p] I(5) [OF i(1) p] by simp
  qed
  then show ?thesis
    using V(2) [OF i] V(3) I(3) [OF i(1)] I(4) [OF i(1)] cpus by (simp add: node_ok_def)
qed

text \<open>Nodes on the path.\<close>

lemma path_update_node_on:
  assumes inv: "inv_tree cfg t" and c: "c < CPU_DOMAIN_COUNT cfg"
    and u: "path_update t t' c m R S L"
    and ok: "\<And>k. k < MAX_POWER_LEVEL cfg \<Longrightarrow>
      level_ok cfg t c m R S L (cpu_local_state (cpu_power_nodes t' ! c)) k"
    and k: "k < MAX_POWER_LEVEL cfg" and i: "i = cpu_path t c ! k"
  shows "node_ok cfg t' i"
proof -
  note wf = inv_treeD(1) [OF inv]
  note V = path_update_view [OF wf c u] and I = inv_treeD [OF inv]
  let ?N = "\<lambda>i. non_cpu_power_nodes t ! i" and ?N' = "\<lambda>i. non_cpu_power_nodes t' ! i"
  have il: "i < NON_CPU_DOMAIN_COUNT cfg"
    using wf_tree_path_facts(1) [OF wf c] wf_treeD(8) [OF wf c] k i by simp
  note okk = ok [OF k, unfolded level_ok_def Let_def, folded i]
  note S = same_shapeD [OF V(1) [OF il]]
  note Vk = V(4) [OF k, folded i] V(5) [OF k, folded i] V(6) [OF k, folded i]
  have "L k = PS_OFF cfg \<or> (\<exists>c'. in_cpus (?N i) c' \<and> (if c' = c then R k else req (?N i) c') \<le> L k)"
    using okk by blast
  then have depth: "depth_ok cfg (?N' i)"
    using Vk(1,2) S(2) unfolding depth_ok_def by auto
  have entry: "entry_ok cfg (?N' i) c' (cpu_power_nodes t' ! c')" if "in_cpus (?N i) c'" for c'
  proof -
    have "c' < CPU_DOMAIN_COUNT cfg" using wf_treeD(10) [OF wf il] that by simp
    then show ?thesis
      using okk Vk(1) Vk(2,3) [OF that] that I(4) [OF il that] V(3) [of c']
      by (cases "c' = c") (simp_all add: entry_ok_def vote_eq)
  qed
  have edge: "edge_ok (?N' p) i (?N' i)" if p: "nc_parent (?N i) = Some p" for p
  proof -
    note kp = wf_tree_path_parent [OF wf c k p [unfolded i]]
    note par = wf_tree_parent [OF wf il p]
    note ok1 = ok [OF kp(1), unfolded level_ok_def Let_def, folded kp(2)]
    note V1 = V(4) [OF kp(1), folded kp(2)] V(5) [OF kp(1), folded kp(2)] V(7) [OF kp(1), folded kp(2)]
    have "req (?N' p) c' \<le> req (?N' i) c'" if "in_cpus (?N i) c'" for c'
      using V1(2) [OF par(3) [OF that]] Vk(2) [OF that] ok1 I(5) [OF il p] that
      by (auto simp: edge_ok_def)
    moreover have "nst (?N' p) i \<le> nc_local_state (?N' i)"
      using V1(3) [OF par(2)] Vk(1) ok1 i by auto
    ultimately show ?thesis using V1(1) Vk(1) ok1 S(2) by (simp add: edge_ok_def)
  qed
  show ?thesis using depth entry edge S(1,2) by (simp add: node_ok_def)
qed

lemma path_update_inv:
  assumes inv: "inv_tree cfg t" and c: "c < CPU_DOMAIN_COUNT cfg"
    and u: "path_update t t' c m R S L"
    and cpu: "cpu_ok cfg (cpu_power_nodes t' ! c)"
    and ok: "\<And>k. k < MAX_POWER_LEVEL cfg \<Longrightarrow>
      level_ok cfg t c m R S L (cpu_local_state (cpu_power_nodes t' ! c)) k"
  shows "inv_tree cfg t'"
proof -
  note wf = inv_treeD(1) [OF inv]
  have "node_ok cfg t' i" if "i < NON_CPU_DOMAIN_COUNT cfg" for i
    using path_update_node_off [OF inv c u ok that] path_update_node_on [OF inv c u ok]
      wf_treeD(8) [OF wf c] by (metis in_set_conv_nth)
  then show ?thesis
    using path_update_wf [OF wf u] inv_treeD(2) [OF inv] cpu path_update_view(3) [OF wf c u]
    unfolding inv_tree_def node_ok_def by metis
qed

end
