(* ===== verification/Coordination.thy ===== *)
theory Coordination
  imports Tree_Invariant
begin

text \<open>
  The three updates of the tree keep its invariant: a CPU that starts running, platform
  coordination of a request, and a validated OS-initiated request.
\<close>

lemma sorted_desc_nth:
  assumes "successively (\<ge>) (xs :: 'a::linorder list)" "i \<le> j" "j < length xs"
  shows "xs ! j \<le> xs ! i"
proof -
  have "sorted_wrt (\<ge>) xs"
    using assms(1) by (subst (asm) successively_conv_sorted_wrt) (auto simp: transp_def)
  with assms(2,3) show ?thesis by (cases "i = j") (auto simp: sorted_wrt_iff_nth_less)
qed

section \<open>What the coordination computes\<close>

lemma coord_levels_nth:
  "k < length anc \<Longrightarrow> k < length sts \<Longrightarrow>
     coord_levels cfg c run anc sts ! k =
       (if (if k = 0 then run else coord_levels cfg c run anc sts ! (k - 1) = PS_RUN cfg)
        then PS_RUN cfg
        else Min (set ((requested_states (snd (anc ! k)))[c - fst (cpu_range (snd (anc ! k))) := sts ! k])))"
proof (induction cfg c run anc sts arbitrary: k rule: coord_levels.induct)
  case (1 cfg c run i n anc st sts)
  show ?case
  proof (cases k)
    case 0
    then show ?thesis by (simp add: Let_def)
  next
    case (Suc k')
    then show ?thesis
      using 1(1) [OF refl, of k'] 1(2,3) by (cases k') (simp_all add: Let_def)
  qed
qed auto

text \<open>The minimum of the requests of a node once one of them is replaced.\<close>

lemma min_requested:
  fixes n :: "'ps::linorder NonCpuPowerNode" and st :: 'ps
  assumes "wf_node n" "in_cpus n c"
  defines "l \<equiv> Min (set ((requested_states n)[c - fst (cpu_range n) := st]))"
  shows "in_cpus n c' \<Longrightarrow> l \<le> (if c' = c then st else req n c')"
    and "\<exists>c'. in_cpus n c' \<and> (if c' = c then st else req n c') \<le> l"
proof -
  let ?n = "node_put n c st None st None"
  let ?rs = "(requested_states n)[c - fst (cpu_range n) := st]"
  have wf: "wf_node ?n" and cpus: "in_cpus ?n = in_cpus n"
    using assms(1) by (simp_all add: same_shapeD [OF node_put_shape])
  have "requested_states ?n = ?rs" by (simp add: node_put_def)
  then have set: "set ?rs = (\<lambda>c'. if c' = c then st else req n c') ` {c'. in_cpus n c'}"
    using set_requested_states_eq [OF wf] assms(1,2) by (auto simp: cpus node_put_req)
  show "l \<le> (if c' = c then st else req n c')" if "in_cpus n c'"
  proof -
    have "(if c' = c then st else req n c') \<in> set ?rs" unfolding set using that by blast
    then show ?thesis unfolding l_def by (intro Min_le) simp_all
  qed
  have "set ?rs \<noteq> {}" using set assms(2) by auto
  then have "l \<in> set ?rs" unfolding l_def by (intro Min_in) auto
  then obtain c' where "in_cpus n c'" "l = (if c' = c then st else req n c')" unfolding set by blast
  then show "\<exists>c'. in_cpus n c' \<and> (if c' = c then st else req n c') \<le> l" by auto
qed

text \<open>The requests of level \<open>k\<close> once the CPU asks for \<open>st\<close>.\<close>

definition asked :: "'ps PowerDomainTree \<Rightarrow> nat \<Rightarrow> 'ps list \<Rightarrow> nat \<Rightarrow> nat \<Rightarrow> 'ps" where
  "asked t c sts k c' =
     (if c' = c then sts ! k else req (non_cpu_power_nodes t ! (cpu_path t c ! k)) c')"

text \<open>The votes of the other CPUs and the states of the other children allow the request.\<close>

definition osi_allowed :: "'ps::linorder psci_cfg \<Rightarrow> 'ps PowerDomainTree \<Rightarrow> nat \<Rightarrow> nat \<Rightarrow> 'ps list \<Rightarrow> bool" where
  "osi_allowed cfg t c hal sts \<longleftrightarrow>
     (\<forall>k < hal.
        let n = non_cpu_power_nodes t ! (cpu_path t c ! k) in
        (\<forall>c'. in_cpus n c' \<and> c' \<noteq> c \<longrightarrow> sts ! Suc k \<le> vote cfg n c') \<and>
        (\<forall>j. 0 < k \<and> in_kids n j \<and> j \<noteq> cpu_path t c ! (k - 1) \<longrightarrow> sts ! Suc k \<le> nst n j))"

section \<open>What the validation checks\<close>

definition votes_ok :: "'ps psci_cfg \<Rightarrow> 'ps NonCpuPowerNode \<Rightarrow> bool" where
  "votes_ok cfg n \<longleftrightarrow> (\<forall>c. in_cpus n c \<longrightarrow> req n c \<noteq> PS_RUN cfg \<longrightarrow> sus n c = None)"

lemma set_states:
  assumes "wf_node n" "in_cpus n c"
  shows "\<exists>xs. states n c = Some xs \<and>
    set xs = (\<lambda>c'. (req n c', sus n c')) ` {c'. in_cpus n c' \<and> c' \<noteq> c}"
proof -
  let ?a = "fst (cpu_range n)" and ?len = "snd (cpu_range n) - fst (cpu_range n)"
  let ?ps = "enumerate 0 (zip (requested_states n) (suspend_states n))"
  let ?xs = "map snd (filter (\<lambda>(index, _). index \<noteq> c - ?a) ?ps)"
  have c: "?a \<le> c" "c < snd (cpu_range n)" using assms by (auto simp: in_cpus_def range_contains_def)
  have len: "length (requested_states n) = ?len" "length (suspend_states n) = ?len"
    using assms(1) by (auto simp: wf_node_def)
  have mem: "(k, p) \<in> set ?ps \<longleftrightarrow> k < ?len \<and> p = (requested_states n ! k, suspend_states n ! k)" for k p
    using len by (auto simp: in_set_enumerate_eq)
  have "set ?xs = (\<lambda>c'. (req n c', sus n c')) ` {c'. in_cpus n c' \<and> c' \<noteq> c}"
  proof (intro set_eqI iffI)
    fix p assume "p \<in> set ?xs"
    then obtain k where k: "(k, p) \<in> set ?ps" "k \<noteq> c - ?a" by auto
    then show "p \<in> (\<lambda>c'. (req n c', sus n c')) ` {c'. in_cpus n c' \<and> c' \<noteq> c}"
      unfolding mem
      by (intro image_eqI [of _ _ "?a + k"])
        (auto simp: req_def sus_def in_cpus_def range_contains_def)
  next
    fix p assume "p \<in> (\<lambda>c'. (req n c', sus n c')) ` {c'. in_cpus n c' \<and> c' \<noteq> c}"
    then obtain c' where c': "in_cpus n c'" "c' \<noteq> c" "p = (req n c', sus n c')" by auto
    then have "(c' - ?a, p) \<in> set ?ps" "c' - ?a \<noteq> c - ?a"
      unfolding mem using c by (auto simp: req_def sus_def in_cpus_def range_contains_def)
    then show "p \<in> set ?xs" by force
  qed
  then show ?thesis using c by (simp add: states_def panic_simps)
qed

lemma fold_min_le:
  fixes f :: "'b \<Rightarrow> 'a::linorder"
  shows "fold (\<lambda>x acc. if P x then min acc (f x) else acc) xs m \<le> m \<and>
    (\<forall>x \<in> set xs. P x \<longrightarrow> fold (\<lambda>x acc. if P x then min acc (f x) else acc) xs m \<le> f x)"
proof (induction xs arbitrary: m)
  case (Cons x xs)
  then show ?case
    using Cons [of "min m (f x)"] Cons [of m] by auto
qed simp

context power_state_laws
begin

lemma req_le_vote: "req n c \<le> vote cfg n c"
  using run_least by (auto simp: vote_def split: option.splits)

lemma min_cpu_state_le:
  "\<forall>(r, s) \<in> set xs. r \<noteq> PS_RUN cfg \<longrightarrow> s = None \<Longrightarrow>
     \<exists>m. min_cpu_state cfg acc xs = Some m \<and> m \<le> acc \<and> (\<forall>(r, s) \<in> set xs. m \<le> vote_of cfg r s)"
proof (induction xs arbitrary: acc)
  case (Cons x xs)
  obtain r s where x: "x = (r, s)" by (cases x)
  have "min_cpu_state cfg acc (x # xs) = min_cpu_state cfg (min acc (vote_of cfg r s)) xs"
    using Cons.prems x by (auto simp: vote_of_def)
  with Cons.IH [of "min acc (vote_of cfg r s)"] Cons.prems x show ?case by auto
qed simp

lemma osi_minimal:
  assumes "wf_node n" "in_cpus n c" "votes_ok cfg n"
  shows "\<exists>m. get_osi_minimal_allowed_state_without_core cfg n c ch = Some m \<and>
    (\<forall>c'. in_cpus n c' \<and> c' \<noteq> c \<longrightarrow> m \<le> vote cfg n c') \<and>
    (\<forall>j j'. ch = Some j \<longrightarrow> in_kids n j' \<and> j' \<noteq> j \<longrightarrow> m \<le> nst n j')"
proof -
  obtain xs where xs: "states n c = Some xs"
      "set xs = (\<lambda>c'. (req n c', sus n c')) ` {c'. in_cpus n c' \<and> c' \<noteq> c}"
    using set_states [OF assms(1,2)] by blast
  have "\<forall>(r, s) \<in> set xs. r \<noteq> PS_RUN cfg \<longrightarrow> s = None"
    using assms(3) xs(2) by (auto simp: votes_ok_def)
  from min_cpu_state_le [OF this, of "PS_OFF cfg"] obtain m where m:
      "min_cpu_state cfg (PS_OFF cfg) xs = Some m"
      "\<forall>c'. in_cpus n c' \<and> c' \<noteq> c \<longrightarrow> m \<le> vote cfg n c'"
    using xs(2) by (auto simp: vote_eq)
  show ?thesis
  proof (cases ch)
    case None
    with xs(1) m show ?thesis by (simp add: get_osi_minimal_allowed_state_without_core_def)
  next
    case (Some j)
    let ?zs = "zip (non_cpu_states n) [fst (non_cpu_range n) ..< snd (non_cpu_range n)]"
    let ?f = "fold (\<lambda>(state, i) acc. if i \<noteq> j then min acc state else acc) ?zs m"
    have f: "?f = fold (\<lambda>x acc. if snd x \<noteq> j then min acc (fst x) else acc) ?zs m"
      by (simp add: case_prod_unfold)
    have le: "?f \<le> m \<and> (\<forall>x \<in> set ?zs. snd x \<noteq> j \<longrightarrow> ?f \<le> fst x)"
      unfolding f by (rule fold_min_le)
    have "(nst n j', j') \<in> set ?zs" if "in_kids n j'" for j'
    proof -
      have "j' - fst (non_cpu_range n) < length ?zs"
          "?zs ! (j' - fst (non_cpu_range n)) = (nst n j', j')"
        using that assms(1) by (auto simp: in_kids_def range_contains_def wf_node_def nst_def)
      then show ?thesis by (metis nth_mem)
    qed
    with le have "\<forall>j'. in_kids n j' \<and> j' \<noteq> j \<longrightarrow> ?f \<le> nst n j'" by fastforce
    moreover have "\<forall>c'. in_cpus n c' \<and> c' \<noteq> c \<longrightarrow> ?f \<le> vote cfg n c'"
      using le m(2) order_trans by blast
    ultimately show ?thesis
      using Some xs(1) m(1) by (simp add: get_osi_minimal_allowed_state_without_core_def)
  qed
qed

lemma validate_levels_sound:
  assumes "linked c ch anc" "\<forall>(i, n) \<in> set anc. votes_ok cfg n"
  shows "\<exists>r. validate_levels cfg c ch anc sts = Some r \<and>
    (r = Inr () \<longrightarrow> (\<forall>k < length anc. k < length sts \<longrightarrow>
       (\<forall>c'. in_cpus (snd (anc ! k)) c' \<and> c' \<noteq> c \<longrightarrow> sts ! k \<le> vote cfg (snd (anc ! k)) c') \<and>
       (\<forall>j j'. (if k = 0 then ch else Some (fst (anc ! (k - 1)))) = Some j \<longrightarrow>
          in_kids (snd (anc ! k)) j' \<and> j' \<noteq> j \<longrightarrow> sts ! k \<le> nst (snd (anc ! k)) j')))"
  using assms
proof (induction anc arbitrary: ch sts)
  case (Cons a anc)
  obtain i n where a: "a = (i, n)" by (cases a)
  show ?case
  proof (cases sts)
    case Nil
    then show ?thesis by simp
  next
    case (Cons st sts')
    obtain m where m: "get_osi_minimal_allowed_state_without_core cfg n c ch = Some m"
        "\<forall>c'. in_cpus n c' \<and> c' \<noteq> c \<longrightarrow> m \<le> vote cfg n c'"
        "\<forall>j j'. ch = Some j \<longrightarrow> in_kids n j' \<and> j' \<noteq> j \<longrightarrow> m \<le> nst n j'"
      using osi_minimal [of n c ch] Cons.prems a by auto
    show ?thesis
    proof (cases "st > m")
      case True
      then show ?thesis using m(1) a Cons by (simp split: if_splits)
    next
      case False
      have "linked c (Some i) anc" "\<forall>(i, n) \<in> set anc. votes_ok cfg n"
        using Cons.prems a by auto
      from Cons.IH [OF this, of sts'] obtain r where
        r: "validate_levels cfg c (Some i) anc sts' = Some r"
          "r = Inr () \<Longrightarrow> k < length anc \<Longrightarrow> k < length sts' \<Longrightarrow>
             (\<forall>c'. in_cpus (snd (anc ! k)) c' \<and> c' \<noteq> c \<longrightarrow> sts' ! k \<le> vote cfg (snd (anc ! k)) c') \<and>
             (\<forall>j j'. (if k = 0 then Some i else Some (fst (anc ! (k - 1)))) = Some j \<longrightarrow>
                in_kids (snd (anc ! k)) j' \<and> j' \<noteq> j \<longrightarrow> sts' ! k \<le> nst (snd (anc ! k)) j')" for k
        by blast
      have "(\<forall>c'. in_cpus (snd ((a # anc) ! k)) c' \<and> c' \<noteq> c \<longrightarrow>
              (st # sts') ! k \<le> vote cfg (snd ((a # anc) ! k)) c') \<and>
            (\<forall>j j'. (if k = 0 then ch else Some (fst ((a # anc) ! (k - 1)))) = Some j \<longrightarrow>
                in_kids (snd ((a # anc) ! k)) j' \<and> j' \<noteq> j \<longrightarrow>
                (st # sts') ! k \<le> nst (snd ((a # anc) ! k)) j')"
        if "r = Inr ()" "k < Suc (length anc)" "k < Suc (length sts')" for k
      proof (cases k)
        case 0
        then show ?thesis using m(2,3) False a by fastforce
      next
        case (Suc k')
        then show ?thesis using r(2) [OF that(1), of k'] that a by (cases k') auto
      qed
      then show ?thesis using r(1) m(1) a Cons False by simp
    qed
  qed
qed simp

section \<open>The path of a running CPU\<close>

lemma running_path:
  assumes inv: "inv_tree cfg t" and c: "c < CPU_DOMAIN_COUNT cfg"
    and run: "cpu_local_state (cpu_power_nodes t ! c) = PS_RUN cfg" and k: "k < MAX_POWER_LEVEL cfg"
  shows "req (non_cpu_power_nodes t ! (cpu_path t c ! k)) c = PS_RUN cfg"
    "sus (non_cpu_power_nodes t ! (cpu_path t c ! k)) c = None"
    "nc_local_state (non_cpu_power_nodes t ! (cpu_path t c ! k)) = PS_RUN cfg"
    "0 < k \<Longrightarrow> nst (non_cpu_power_nodes t ! (cpu_path t c ! k)) (cpu_path t c ! (k - 1)) = PS_RUN cfg"
proof -
  note wf = inv_treeD(1) [OF inv]
  note P = wf_tree_path_facts [OF wf c]
  have mem: "cpu_path t c ! j \<in> set (cpu_path t c)" if "j \<le> k" for j
    using that k wf_treeD(8) [OF wf c] by simp
  have entry: "entry_ok cfg (non_cpu_power_nodes t ! (cpu_path t c ! j)) c (cpu_power_nodes t ! c)"
    if "j \<le> k" for j
    using inv_treeD(4) [OF inv] P(1,2) [OF mem [OF that]] by simp
  have vote: "vote cfg (non_cpu_power_nodes t ! (cpu_path t c ! j)) c = PS_RUN cfg" if "j \<le> k" for j
    using entry [OF that] run le_run_iff by (simp add: entry_ok_def)
  have local: "nc_local_state (non_cpu_power_nodes t ! (cpu_path t c ! j)) = PS_RUN cfg" if "j \<le> k" for j
    using entry [OF that] vote [OF that] le_run_iff by (simp add: entry_ok_def)
  show "req (non_cpu_power_nodes t ! (cpu_path t c ! k)) c = PS_RUN cfg"
    using req_le_vote vote [of k] le_run_iff by (metis order_refl)
  with entry [of k] vote [of k] show "sus (non_cpu_power_nodes t ! (cpu_path t c ! k)) c = None"
    by (auto simp: entry_ok_def vote_def split: option.splits)
  show "nc_local_state (non_cpu_power_nodes t ! (cpu_path t c ! k)) = PS_RUN cfg" using local by simp
  assume "0 < k"
  then have "nc_parent (non_cpu_power_nodes t ! (cpu_path t c ! (k - 1))) = Some (cpu_path t c ! k)"
    using P(5) [of "k - 1"] k wf_treeD(8) [OF wf c] by simp
  then show "nst (non_cpu_power_nodes t ! (cpu_path t c ! k)) (cpu_path t c ! (k - 1)) = PS_RUN cfg"
    using inv_treeD(5) [OF inv P(1) [OF mem [of "k - 1"]]] local [of "k - 1"] le_run_iff
    by (simp add: edge_ok_def)
qed

lemma running_chain_path:
  assumes "inv_tree cfg t" "c < CPU_DOMAIN_COUNT cfg"
    and "cpu_local_state (cpu_power_nodes t ! c) = PS_RUN cfg" "m \<le> MAX_POWER_LEVEL cfg"
  shows "running_chain cfg c (locked (non_cpu_power_nodes t) (take m (cpu_path t c)))"
  using running_path [OF assms(1-3)] assms(4) wf_treeD(8) [OF inv_treeD(1) [OF assms(1)] assms(2)]
  by (auto simp: running_chain_def)

text \<open>A child that is not on the path of the CPU shares no CPU with it.\<close>

lemma other_kid:
  assumes wf: "wf_tree cfg t" and c: "c < CPU_DOMAIN_COUNT cfg" and k: "k < MAX_POWER_LEVEL cfg"
    and j: "in_kids (non_cpu_power_nodes t ! (cpu_path t c ! k)) j"
      "0 < k \<longrightarrow> j \<noteq> cpu_path t c ! (k - 1)"
  shows "0 < k" "j < NON_CPU_DOMAIN_COUNT cfg"
    "nc_parent (non_cpu_power_nodes t ! j) = Some (cpu_path t c ! k)"
    "\<not> in_cpus (non_cpu_power_nodes t ! j) c"
proof -
  note D = wf_treeD [OF wf] and P = wf_tree_path_facts [OF wf c]
  have lenP: "length (cpu_path t c) = MAX_POWER_LEVEL cfg" using D(8) [OF c] .
  have "cpu_path t c ! 0 = cpu_parent (cpu_power_nodes t ! c)"
    using D(2) D(7) [OF c] by (simp add: cpu_path_def path_hd)
  then show k0: "0 < k" using D(9) [OF c] j(1) by (cases k) auto
  have pk: "cpu_path t c ! k < NON_CPU_DOMAIN_COUNT cfg" using P(1) k lenP by simp
  show jn: "j < NON_CPU_DOMAIN_COUNT cfg"
    and par: "nc_parent (non_cpu_power_nodes t ! j) = Some (cpu_path t c ! k)"
    using D(6) [OF pk] j(1) by auto
  show "\<not> in_cpus (non_cpu_power_nodes t ! j) c"
  proof
    assume "in_cpus (non_cpu_power_nodes t ! j) c"
    then have "j \<in> set (cpu_path t c)" using D(10) [OF jn] by simp
    moreover have "cpu_path t c ! (k - 1) \<in> set (cpu_path t c)"
        "nc_parent (non_cpu_power_nodes t ! (cpu_path t c ! (k - 1))) = Some (cpu_path t c ! k)"
      using P(5) [of "k - 1"] k k0 lenP by simp_all
    ultimately have "j = cpu_path t c ! (k - 1)"
      using path_kid_unique [OF D(4)] D(2) D(7) [OF c] par unfolding cpu_path_def by metis
    with j(2) k0 show False by simp
  qed
qed

section \<open>A CPU starts running\<close>

lemma set_running_inv:
  assumes inv: "inv_tree cfg t" and c: "c < CPU_DOMAIN_COUNT cfg"
    and cpu: "cpu_parent cpu = cpu_parent (cpu_power_nodes t ! c)" "cpu_ok cfg cpu"
      "cpu_local_state cpu = PS_RUN cfg"
  shows "inv_tree cfg
    (put_tree t c (replicate (MAX_POWER_LEVEL cfg) (PS_RUN cfg, None, PS_RUN cfg)) cpu)"
proof -
  let ?vs = "replicate (MAX_POWER_LEVEL cfg) (PS_RUN cfg, None, PS_RUN cfg)"
  note wf = inv_treeD(1) [OF inv]
  have new: "cpu_power_nodes (put_tree t c ?vs cpu) ! c = cpu"
    using c wf_treeD(1) [OF wf] by (simp add: put_tree_def unlock_cpu_node_def)
  have u: "path_update t (put_tree t c ?vs cpu) c (length ?vs)
      (upd_R t c ?vs) (upd_S t c ?vs) (upd_L t c ?vs)"
    using path_update_put_tree [OF wf c _ cpu(1), of ?vs] by simp
  show ?thesis
  proof (rule path_update_inv [OF inv c u])
    fix k assume k: "k < MAX_POWER_LEVEL cfg"
    have "in_cpus (non_cpu_power_nodes t ! (cpu_path t c ! k)) c"
      using wf_tree_path_facts(2) [OF wf c] k wf_treeD(8) [OF wf c] by simp
    then show "level_ok cfg t c (length ?vs) (upd_R t c ?vs) (upd_S t c ?vs) (upd_L t c ?vs)
        (cpu_local_state (cpu_power_nodes (put_tree t c ?vs cpu) ! c)) k"
      using k run_least unfolding new cpu(3)
      by (auto simp: level_ok_def Let_def upd_R_def upd_S_def upd_L_def vote_of_def)
  qed (use new cpu in simp)
qed

section \<open>Platform coordination\<close>

lemma asked_mono:
  assumes inv: "inv_tree cfg t" and c: "c < CPU_DOMAIN_COUNT cfg" and k: "Suc k < MAX_POWER_LEVEL cfg"
    and sts: "length sts = MAX_POWER_LEVEL cfg" "successively (\<ge>) sts"
    and c': "in_cpus (non_cpu_power_nodes t ! (cpu_path t c ! k)) c'"
  shows "in_cpus (non_cpu_power_nodes t ! (cpu_path t c ! Suc k)) c'"
    "asked t c sts (Suc k) c' \<le> asked t c sts k c'"
proof -
  note wf = inv_treeD(1) [OF inv]
  note P = wf_tree_path_facts [OF wf c] and lenP = wf_treeD(8) [OF wf c]
  have par: "nc_parent (non_cpu_power_nodes t ! (cpu_path t c ! k)) = Some (cpu_path t c ! Suc k)"
    using P(5) k lenP by simp
  have i: "cpu_path t c ! k < NON_CPU_DOMAIN_COUNT cfg" using P(1) k lenP by simp
  show "in_cpus (non_cpu_power_nodes t ! (cpu_path t c ! Suc k)) c'"
    by (rule wf_tree_parent(3) [OF wf i par c'])
  show "asked t c sts (Suc k) c' \<le> asked t c sts k c'"
    using inv_treeD(5) [OF inv i par] c' sorted_desc_nth [OF sts(2), of k "Suc k"] k sts(1)
    by (simp add: asked_def edge_ok_def)
qed

lemma coordinate_levels:
  assumes inv: "inv_tree cfg t" and c: "c < CPU_DOMAIN_COUNT cfg"
    and len: "m \<le> MAX_POWER_LEVEL cfg" "length sts = MAX_POWER_LEVEL cfg"
    and sorted: "successively (\<ge>) sts"
    and high: "\<And>k. m \<le> k \<Longrightarrow> k < MAX_POWER_LEVEL cfg \<Longrightarrow> sts ! k = PS_RUN cfg"
  defines "anc \<equiv> locked (non_cpu_power_nodes t) (take m (cpu_path t c))"
  defines "L k \<equiv> if k < m then coord_levels cfg c False anc sts ! k else PS_RUN cfg"
  shows "k < MAX_POWER_LEVEL cfg \<Longrightarrow>
      (\<forall>c'. in_cpus (non_cpu_power_nodes t ! (cpu_path t c ! k)) c' \<longrightarrow> L k \<le> asked t c sts k c') \<and>
      (\<exists>c'. in_cpus (non_cpu_power_nodes t ! (cpu_path t c ! k)) c' \<and> asked t c sts k c' \<le> L k) \<and>
      (0 < k \<longrightarrow> L k \<le> L (k - 1))"
proof (induction k)
  case k: 0
  note wf = inv_treeD(1) [OF inv]
  have lenP: "length (cpu_path t c) = MAX_POWER_LEVEL cfg" using wf_treeD(8) [OF wf c] .
  have n: "wf_node (non_cpu_power_nodes t ! (cpu_path t c ! 0))"
      "in_cpus (non_cpu_power_nodes t ! (cpu_path t c ! 0)) c"
    using wf_tree_path_facts(2,3) [OF wf c] k lenP by auto
  show ?case
  proof (cases "m = 0")
    case True
    with high [of 0] k n run_least show ?thesis by (auto simp: L_def asked_def)
  next
    case False
    then have M: "L 0 = Min (set ((requested_states (non_cpu_power_nodes t ! (cpu_path t c ! 0)))
        [c - fst (cpu_range (non_cpu_power_nodes t ! (cpu_path t c ! 0))) := sts ! 0]))"
      using k len lenP by (simp add: L_def anc_def coord_levels_nth [of 0])
    have "\<forall>c'. in_cpus (non_cpu_power_nodes t ! (cpu_path t c ! 0)) c' \<longrightarrow> L 0 \<le> asked t c sts 0 c'"
      unfolding M asked_def using min_requested(1) [OF n] by blast
    moreover have "\<exists>c'. in_cpus (non_cpu_power_nodes t ! (cpu_path t c ! 0)) c' \<and>
        asked t c sts 0 c' \<le> L 0"
      unfolding M asked_def using min_requested(2) [OF n, of "sts ! 0"] by blast
    ultimately show ?thesis by simp
  qed
next
  case (Suc k)
  note wf = inv_treeD(1) [OF inv]
  have lenP: "length (cpu_path t c) = MAX_POWER_LEVEL cfg" using wf_treeD(8) [OF wf c] .
  let ?n = "non_cpu_power_nodes t ! (cpu_path t c ! Suc k)"
  have n: "wf_node ?n" "in_cpus ?n c"
    using wf_tree_path_facts(2,3) [OF wf c] Suc.prems lenP by auto
  obtain c' where c': "in_cpus (non_cpu_power_nodes t ! (cpu_path t c ! k)) c'"
      "asked t c sts k c' \<le> L k"
    using Suc by auto
  note up = asked_mono [OF inv c Suc.prems len(2) sorted c'(1)]
  show ?case
  proof (cases "Suc k < m")
    case False
    with high [of "Suc k"] Suc.prems n run_least show ?thesis by (auto simp: L_def asked_def)
  next
    case True
    then have L: "L (Suc k) = (if L k = PS_RUN cfg then PS_RUN cfg
        else Min (set ((requested_states ?n)[c - fst (cpu_range ?n) := sts ! Suc k])))"
      using Suc.prems len lenP by (simp add: L_def anc_def coord_levels_nth [of "Suc k"])
    show ?thesis
    proof (cases "L k = PS_RUN cfg")
      case run: True
      with c'(2) up(2) have "asked t c sts (Suc k) c' \<le> PS_RUN cfg" by simp
      with L run up(1) run_least show ?thesis by auto
    next
      case False
      with L have M: "L (Suc k) =
          Min (set ((requested_states ?n)[c - fst (cpu_range ?n) := sts ! Suc k]))" by simp
      have le: "\<forall>c'. in_cpus ?n c' \<longrightarrow> L (Suc k) \<le> asked t c sts (Suc k) c'"
        unfolding M asked_def using min_requested(1) [OF n] by blast
      have ex: "\<exists>c'. in_cpus ?n c' \<and> asked t c sts (Suc k) c' \<le> L (Suc k)"
        unfolding M asked_def using min_requested(2) [OF n, of "sts ! Suc k"] by blast
      have "L (Suc k) \<le> L k" using le [rule_format, OF up(1)] up(2) c'(2) by order
      with le ex show ?thesis by simp
    qed
  qed
qed

lemma coordinate_inv:
  assumes inv: "inv_tree cfg t" and c: "c < CPU_DOMAIN_COUNT cfg"
    and run: "cpu_local_state (cpu_power_nodes t ! c) = PS_RUN cfg"
    and len: "m \<le> MAX_POWER_LEVEL cfg" "length sts = MAX_POWER_LEVEL cfg"
    and sorted: "successively (\<ge>) (cpu_local_state cpu # sts)"
    and high: "\<And>k. m \<le> k \<Longrightarrow> k < MAX_POWER_LEVEL cfg \<Longrightarrow> sts ! k = PS_RUN cfg"
    and cpu: "cpu_parent cpu = cpu_parent (cpu_power_nodes t ! c)" "cpu_ok cfg cpu"
  defines "anc \<equiv> locked (non_cpu_power_nodes t) (take m (cpu_path t c))"
  shows "inv_tree cfg (put_tree t c (coord_vals c anc sts (coord_levels cfg c False anc sts)) cpu)"
proof -
  let ?ls = "coord_levels cfg c False anc sts"
  let ?vs = "coord_vals c anc sts ?ls"
  let ?N = "\<lambda>k. non_cpu_power_nodes t ! (cpu_path t c ! k)"
  let ?L = "\<lambda>k. if k < m then ?ls ! k else PS_RUN cfg"
  note wf = inv_treeD(1) [OF inv]
  have anc: "length anc = m" using len wf_treeD(8) [OF wf c] by (simp add: anc_def)
  have vs: "length ?vs = m" using anc len by simp
  have new: "cpu_power_nodes (put_tree t c ?vs cpu) ! c = cpu"
    using c wf_treeD(1) [OF wf] by (simp add: put_tree_def unlock_cpu_node_def)
  note R = running_path [OF inv c run]
  have vals: "upd_R t c ?vs k = sts ! k" "upd_S t c ?vs k = None" "upd_L t c ?vs k = ?L k"
    if k: "k < MAX_POWER_LEVEL cfg" for k
  proof -
    have "k < m \<Longrightarrow> ?vs ! k = (sts ! k, None, ?ls ! k)"
      using anc len R(2) [OF k] wf_treeD(8) [OF wf c]
      by (subst coord_vals_nth) (auto simp: anc_def)
    then show "upd_R t c ?vs k = sts ! k" "upd_S t c ?vs k = None" "upd_L t c ?vs k = ?L k"
      using R(1-3) [OF k] high k vs by (auto simp: upd_R_def upd_S_def upd_L_def)
  qed
  have sorted': "successively (\<ge>) sts" using sorted by (cases sts) auto
  note lev = coordinate_levels [OF inv c len sorted' high, folded anc_def]
  have u: "path_update t (put_tree t c ?vs cpu) c (length ?vs)
      (upd_R t c ?vs) (upd_S t c ?vs) (upd_L t c ?vs)"
    using path_update_put_tree [OF wf c _ cpu(1), of ?vs] vs len by simp
  show ?thesis
  proof (rule path_update_inv [OF inv c u])
    fix k assume k: "k < MAX_POWER_LEVEL cfg"
    have ck: "in_cpus (?N k) c"
      using wf_tree_path_facts(2) [OF wf c] k wf_treeD(8) [OF wf c] by simp
    have le: "\<forall>c'. in_cpus (?N k) c' \<longrightarrow> ?L k \<le> asked t c sts k c'"
      and ex: "\<exists>c'. in_cpus (?N k) c' \<and> asked t c sts k c' \<le> ?L k"
      and dec: "0 < k \<longrightarrow> ?L k \<le> ?L (k - 1)"
      using lev [OF _ _ k] by blast+
    have s0: "sts ! k \<le> cpu_local_state cpu"
      using sorted_desc_nth [OF sorted, of 0 "Suc k"] k len by simp
    have Rdec: "0 < k \<longrightarrow> sts ! k \<le> sts ! (k - 1)"
      using sorted_desc_nth [OF sorted', of "k - 1" k] k len by simp
    have others: "?L k \<le> vote cfg (?N k) c'" if "in_cpus (?N k) c'" "c' \<noteq> c" for c'
      using le that req_le_vote [of "?N k" c'] order_trans by (fastforce simp: asked_def)
    have kids: "?L k \<le> nc_local_state (non_cpu_power_nodes t ! j)"
      if j: "in_kids (?N k) j" "0 < k \<longrightarrow> j \<noteq> cpu_path t c ! (k - 1)" for j
    proof -
      note ok = other_kid [OF wf c k j]
      consider "nc_local_state (non_cpu_power_nodes t ! j) = PS_OFF cfg"
        | c' where "in_cpus (non_cpu_power_nodes t ! j) c'"
            "req (non_cpu_power_nodes t ! j) c' \<le> nc_local_state (non_cpu_power_nodes t ! j)"
        using inv_treeD(3) [OF inv ok(2)] by (auto simp: depth_ok_def)
      then show ?thesis
      proof cases
        case 1
        then show ?thesis using off_greatest by simp
      next
        case 2
        then have "c' \<noteq> c" "in_cpus (?N k) c'"
          using ok(4) wf_tree_parent(3) [OF wf ok(2,3)] by auto
        then have "?L k \<le> req (?N k) c'" using le by (force simp: asked_def)
        also have "\<dots> \<le> req (non_cpu_power_nodes t ! j) c'"
          using inv_treeD(5) [OF inv ok(2,3)] 2(1) by (simp add: edge_ok_def)
        finally show ?thesis using 2(2) by simp
      qed
    qed
    have vote: "vote_of cfg (sts ! k) None = sts ! k" by (simp add: vote_of_def)
    have "?L k \<le> sts ! k" using le ck by (force simp: asked_def)
    moreover have "\<exists>c'. in_cpus (?N k) c' \<and> (if c' = c then sts ! k else req (?N k) c') \<le> ?L k"
      using ex by (simp add: asked_def)
    moreover have "0 < k \<Longrightarrow> upd_R t c ?vs (k - 1) = sts ! (k - 1)"
        "0 < k \<Longrightarrow> upd_L t c ?vs (k - 1) = ?L (k - 1)"
      using vals [of "k - 1"] k by simp_all
    ultimately show "level_ok cfg t c (length ?vs) (upd_R t c ?vs) (upd_S t c ?vs) (upd_L t c ?vs)
        (cpu_local_state (cpu_power_nodes (put_tree t c ?vs cpu) ! c)) k"
      using vals [OF k] others kids s0 Rdec dec R(4) [OF k] run_least
      unfolding new level_ok_def Let_def by (simp only: vote) simp
  qed (use new cpu in simp)
qed

section \<open>OS-initiated requests\<close>

lemma osi_inv:
  assumes inv: "inv_tree cfg t" and c: "c < CPU_DOMAIN_COUNT cfg"
    and run: "cpu_local_state (cpu_power_nodes t ! c) = PS_RUN cfg"
    and len: "hal \<le> m" "m \<le> MAX_POWER_LEVEL cfg" "length sts = Suc (MAX_POWER_LEVEL cfg)"
    and sorted: "successively (\<ge>) sts"
    and hal: "sts ! hal \<noteq> PS_RUN cfg"
    and rsts: "\<And>k. k \<le> MAX_POWER_LEVEL cfg \<Longrightarrow> rsts ! k = (if k \<le> hal then sts ! k else sts ! hal)"
    and allowed: "osi_allowed cfg t c hal sts"
    and cpu: "cpu_parent cpu = cpu_parent (cpu_power_nodes t ! c)" "cpu_ok cfg cpu"
      "cpu_local_state cpu = sts ! 0"
  shows "inv_tree cfg (put_tree t c (osi_vals cfg m hal sts rsts) cpu)"
proof -
  let ?vs = "osi_vals cfg m hal sts rsts"
  let ?N = "\<lambda>k. non_cpu_power_nodes t ! (cpu_path t c ! k)"
  define S where "S k = (if k < m then Some (rsts ! Suc k) else None)" for k
  define L where "L k = (if k < hal then sts ! Suc k else PS_RUN cfg)" for k
  note wf = inv_treeD(1) [OF inv] and R = running_path [OF inv c run]
  have vs: "length ?vs = m" by (simp add: osi_vals_def)
  have new: "cpu_power_nodes (put_tree t c ?vs cpu) ! c = cpu"
    using c wf_treeD(1) [OF wf] by (simp add: put_tree_def unlock_cpu_node_def)
  have vals: "upd_R t c ?vs k = PS_RUN cfg" "upd_S t c ?vs k = S k" "upd_L t c ?vs k = L k"
    if "k < MAX_POWER_LEVEL cfg" for k
    using R(1-3) [OF that] len by (auto simp: upd_R_def upd_S_def upd_L_def osi_vals_def S_def L_def)
  have u: "path_update t (put_tree t c ?vs cpu) c (length ?vs)
      (upd_R t c ?vs) (upd_S t c ?vs) (upd_L t c ?vs)"
    using path_update_put_tree [OF wf c _ cpu(1), of ?vs] vs len by simp
  have nonrun: "sts ! k \<noteq> PS_RUN cfg" if "k \<le> hal" for k
  proof
    assume "sts ! k = PS_RUN cfg"
    then have "sts ! hal \<le> PS_RUN cfg" using sorted_desc_nth [OF sorted that] len by simp
    with hal le_run_iff show False by blast
  qed
  show ?thesis
  proof (rule path_update_inv [OF inv c u])
    fix k assume k: "k < MAX_POWER_LEVEL cfg"
    have ck: "in_cpus (?N k) c"
      using wf_tree_path_facts(2) [OF wf c] k wf_treeD(8) [OF wf c] by simp
    have r: "rsts ! Suc k \<noteq> PS_RUN cfg" "rsts ! Suc k \<le> sts ! 0"
        "k < hal \<Longrightarrow> rsts ! Suc k = sts ! Suc k"
      using rsts [of "Suc k"] k nonrun hal sorted_desc_nth [OF sorted, of 0] len by auto
    have others: "L k \<le> vote cfg (?N k) c'" if "in_cpus (?N k) c'" "c' \<noteq> c" for c'
      using allowed that run_least by (auto simp: osi_allowed_def Let_def L_def)
    have kids: "L k \<le> nc_local_state (non_cpu_power_nodes t ! j)"
      if j: "in_kids (?N k) j" "0 < k \<longrightarrow> j \<noteq> cpu_path t c ! (k - 1)" for j
    proof (cases "k < hal")
      case True
      note ok = other_kid [OF wf c k j]
      have "sts ! Suc k \<le> nst (?N k) j"
        using allowed True ok(1) j by (simp add: osi_allowed_def Let_def)
      also have "\<dots> \<le> nc_local_state (non_cpu_power_nodes t ! j)"
        using inv_treeD(5) [OF inv ok(2,3)] by (simp add: edge_ok_def)
      finally show ?thesis using True by (simp add: L_def)
    qed (simp add: run_least L_def)
    have dec: "0 < k \<longrightarrow> L k \<le> L (k - 1)"
      using sorted_desc_nth [OF sorted, of k "Suc k"] k len run_least by (auto simp: L_def)
    have vote: "vote_of cfg (PS_RUN cfg) (S k) = (if k < m then rsts ! Suc k else PS_RUN cfg)"
      by (simp add: vote_of_def S_def)
    have "S k \<noteq> Some (PS_RUN cfg)" using r(1) by (simp add: S_def)
    moreover have "L k \<le> vote_of cfg (PS_RUN cfg) (S k)" "vote_of cfg (PS_RUN cfg) (S k) \<le> sts ! 0"
      unfolding vote using r run_least len by (auto simp: L_def)
    moreover have "0 < k \<Longrightarrow> upd_R t c ?vs (k - 1) = PS_RUN cfg"
        "0 < k \<Longrightarrow> upd_L t c ?vs (k - 1) = L (k - 1)"
      using vals [of "k - 1"] k by simp_all
    ultimately show "level_ok cfg t c (length ?vs) (upd_R t c ?vs) (upd_S t c ?vs) (upd_L t c ?vs)
        (cpu_local_state (cpu_power_nodes (put_tree t c ?vs cpu) ! c)) k"
      using vals [OF k] others kids dec R(4) [OF k] run_least ck
      unfolding new cpu(3) level_ok_def Let_def by (simp, intro disjI2 exI [of _ c]) simp
  qed (use new cpu in simp)
qed

end

end
