(* ===== verification/Psci_Handlers.thy ===== *)
theory Psci_Handlers
  imports Psci Coordination
begin

text \<open>
  The PSCI handlers on a tree that satisfies the invariant: none of them panics when a running CPU
  calls it, each keeps the invariant, and each leaves its CPU where its outcome says.
\<close>

section \<open>The platform's contract\<close>

definition power_down_request :: "PowerState \<Rightarrow> bool" where
  "power_down_request ps = (case ps of PowerDown _ \<Rightarrow> True | _ \<Rightarrow> False)"

text \<open>
  A platform parses requests into composite states of the right size that pass
  \<open>is_valid_suspend_request\<close>, offers a power-down state for the whole system where it offers
  \<open>SYSTEM_SUSPEND\<close>, maps valid MPIDRs to cores, and implements the optional features it reports.
\<close>

locale psci_platform_laws = power_state_laws cfg for cfg :: "'ps::linorder psci_cfg" +
  fixes plat :: "'ps psci_platform"
  assumes parse_valid: "try_parse_power_state plat ps = Some cs \<Longrightarrow>
      length (cs_states cs) = Suc (MAX_POWER_LEVEL cfg) \<and>
      is_valid_suspend_request cfg cs (power_down_request ps)"
    and sys_suspend_valid: "has_feature plat SYSTEM_SUSPEND \<Longrightarrow>
      \<exists>cs. sys_suspend_power_state plat = Some cs \<and>
        length (cs_states cs) = Suc (MAX_POWER_LEVEL cfg) \<and>
        is_valid_suspend_request cfg cs True \<and>
        power_state_type cfg (cs_states cs ! MAX_POWER_LEVEL cfg) = PowerDownType"
    and position_valid: "mpidr_is_valid plat mpidr \<Longrightarrow> core_position plat mpidr < CPU_DOMAIN_COUNT cfg"
    and default_suspend: "has_feature plat CPU_DEFAULT_SUSPEND \<Longrightarrow>
      cpu_default_suspend_power_state plat \<noteq> None"
    and freeze: "has_feature plat CPU_FREEZE \<Longrightarrow> implements_cpu_freeze plat"

text \<open>The answers of a platform during one call: optional functions it reports do answer.\<close>

definition env_ok :: "'ps psci_platform \<Rightarrow> 'ps psci_env \<Rightarrow> bool" where
  "env_ok plat env \<longleftrightarrow>
     (has_feature plat OS_INITIATED_MODE \<longrightarrow> (\<forall>cs. power_domain_validate_suspend env cs \<noteq> None)) \<and>
     (has_feature plat SYSTEM_OFF2 \<longrightarrow> (\<forall>a b. plat_system_off2 env a b \<noteq> None)) \<and>
     (has_feature plat SYSTEM_RESET2 \<longrightarrow> (\<forall>a b. plat_system_reset2 env a b \<noteq> None)) \<and>
     (has_feature plat MEM_PROTECT \<longrightarrow> (\<forall>a. plat_mem_protect env a \<noteq> None)) \<and>
     (has_feature plat MEM_PROTECT_CHECK_RANGE \<longrightarrow>
        (\<forall>a. plat_mem_protect_check_range env a \<noteq> None)) \<and>
     (has_feature plat NODE_HW_STATE \<longrightarrow> (\<forall>a b. plat_node_hw_state env a b \<noteq> None))"

section \<open>Running with the ancestors locked\<close>

lemma write_back_locked:
  "write_back (locked nodes is) nodes = nodes"
proof (induction "is")
  case (Cons i "is")
  then show ?case by (simp add: locked_def)
qed (simp add: locked_def)

lemma with_ancestors_locked_to_max_level_wf:
  assumes "wf_tree cfg t" "c < CPU_DOMAIN_COUNT cfg"
    and "cpu_parent cpu = cpu_parent (cpu_power_nodes t ! c)"
  shows "with_ancestors_locked_to_max_level cfg t cpu m f =
    do {
      (r, cpu', lock_list') \<leftarrow> f cpu (locked (non_cpu_power_nodes t) (take m (cpu_path t c)));
      Some (r, cpu', t\<lparr>non_cpu_power_nodes := write_back lock_list' (non_cpu_power_nodes t)\<rparr>)
    }"
  using assms by (simp add: with_ancestors_locked_to_max_level_def new_with_max_level_path)

lemma with_ancestors_locked_wf:
  assumes "wf_tree cfg t" "c < CPU_DOMAIN_COUNT cfg"
    and "cpu_parent cpu = cpu_parent (cpu_power_nodes t ! c)"
  shows "with_ancestors_locked cfg t cpu f =
    do {
      (r, cpu', lock_list') \<leftarrow> f cpu (locked (non_cpu_power_nodes t) (cpu_path t c));
      Some (r, cpu', t\<lparr>non_cpu_power_nodes := write_back lock_list' (non_cpu_power_nodes t)\<rparr>)
    }"
  using assms wf_treeD(8) [OF assms(1,2)]
  by (simp add: with_ancestors_locked_def with_ancestors_locked_to_max_level_wf)

lemma unlock_put_tree:
  assumes "length vs = m"
  shows "unlock_cpu_node (t\<lparr>non_cpu_power_nodes := write_back
      (put_all c None (locked (non_cpu_power_nodes t) (take m (cpu_path t c))) vs)
      (non_cpu_power_nodes t)\<rparr>) c cpu = put_tree t c vs cpu"
  using assms by (simp add: put_tree_def)

lemma unlock_same: "unlock_cpu_node t c (cpu_power_nodes t ! c) = t"
  by (simp add: unlock_cpu_node_def)

lemma put_tree_cpus [simp]:
  "cpu_power_nodes (put_tree t c vs cpu) = (cpu_power_nodes t)[c := cpu]"
  by (simp add: put_tree_def unlock_cpu_node_def)

text \<open>An operation of one CPU does not touch what the nodes hold for the others.\<close>

definition tree_frame :: "'ps PowerDomainTree \<Rightarrow> 'ps PowerDomainTree \<Rightarrow> nat \<Rightarrow> bool" where
  "tree_frame t t' c \<longleftrightarrow>
     length (non_cpu_power_nodes t') = length (non_cpu_power_nodes t) \<and>
     (\<forall>i < length (non_cpu_power_nodes t).
        in_cpus (non_cpu_power_nodes t' ! i) = in_cpus (non_cpu_power_nodes t ! i) \<and>
        (\<forall>c'. c' \<noteq> c \<and> in_cpus (non_cpu_power_nodes t ! i) c' \<longrightarrow>
           req (non_cpu_power_nodes t' ! i) c' = req (non_cpu_power_nodes t ! i) c' \<and>
           sus (non_cpu_power_nodes t' ! i) c' = sus (non_cpu_power_nodes t ! i) c'))"

lemma put_tree_frame:
  assumes wf: "wf_tree cfg t" and c: "c < CPU_DOMAIN_COUNT cfg"
    and m: "length vs \<le> MAX_POWER_LEVEL cfg"
    and parent: "cpu_parent cpu = cpu_parent (cpu_power_nodes t ! c)"
  shows "tree_frame t (put_tree t c vs cpu) c"
proof -
  note u = path_update_put_tree [OF wf c m parent]
  note V = path_update_view [OF wf c u]
  have "req (non_cpu_power_nodes (put_tree t c vs cpu) ! i) c' = req (non_cpu_power_nodes t ! i) c' \<and>
      sus (non_cpu_power_nodes (put_tree t c vs cpu) ! i) c' = sus (non_cpu_power_nodes t ! i) c'"
    if "i < NON_CPU_DOMAIN_COUNT cfg" "c' \<noteq> c" "in_cpus (non_cpu_power_nodes t ! i) c'" for i c'
  proof (cases "i \<in> set (cpu_path t c)")
    case True
    then obtain k where "k < MAX_POWER_LEVEL cfg" "i = cpu_path t c ! k"
      using wf_treeD(8) [OF wf c] by (metis in_set_conv_nth)
    then show ?thesis using V(5,6) [of k c'] that by simp
  next
    case False
    then show ?thesis using V(2) that by simp
  qed
  moreover have "length (non_cpu_power_nodes (put_tree t c vs cpu)) = length (non_cpu_power_nodes t)"
    by (simp add: put_tree_def unlock_cpu_node_def)
  ultimately show ?thesis
    unfolding tree_frame_def
    using same_shapeD(2) [OF V(1)] wf_treeD(2) [OF wf] by auto
qed

text \<open>A CPU that executes: on, and running at its own level.\<close>

definition active :: "'ps psci_cfg \<Rightarrow> 'ps PowerDomainTree \<Rightarrow> nat \<Rightarrow> bool" where
  "active cfg t c \<longleftrightarrow>
     c < CPU_DOMAIN_COUNT cfg \<and> affinity_info (cpu_power_nodes t ! c) = On \<and>
     cpu_local_state (cpu_power_nodes t ! c) = PS_RUN cfg"

text \<open>What a suspend request has to be for \<open>cpu_suspend_start\<close>.\<close>

definition suspend_request ::
  "'ps::linorder psci_cfg \<Rightarrow> 'ps PsciCompositePowerState \<Rightarrow> nat \<Rightarrow> bool \<Rightarrow> bool" where
  "suspend_request cfg cs hal pd \<longleftrightarrow>
     length (cs_states cs) = Suc (MAX_POWER_LEVEL cfg) \<and>
     is_valid_suspend_request cfg cs pd \<and> find_highest_non_run_level cfg cs = Some hal"

text \<open>The CPU node after a suspend request has been accepted.\<close>

definition suspended_cpu :: "'ps CpuPowerNode \<Rightarrow> 'ps \<Rightarrow> bool \<Rightarrow> EntryPoint \<Rightarrow> 'ps CpuPowerNode" where
  "suspended_cpu cpu st pd entry =
     cpu\<lparr>cpu_local_state := st, entry_point := (if pd then Some entry else None)\<rparr>"

text \<open>
  What the closure of \<open>cpu_suspend_start\<close> can do with \<open>m\<close> levels locked: leave everything as it
  was, or suspend the CPU with an update that keeps the invariant.
\<close>

definition closure_result ::
  "'ps::linorder psci_cfg \<Rightarrow> 'ps PowerDomainTree \<Rightarrow> nat \<Rightarrow> nat \<Rightarrow> 'ps PsciCompositePowerState \<Rightarrow> 'ps CpuPowerNode \<Rightarrow>
     ((ErrorCode + (bool \<times> 'ps PsciCompositePowerState \<times> 'ps event list))
        \<times> 'ps CpuPowerNode \<times> 'ps ancestors) option \<Rightarrow> bool" where
  "closure_result cfg t c m cs cpu' result \<longleftrightarrow>
     (let anc = locked (non_cpu_power_nodes t) (take m (cpu_path t c)); cpu = cpu_power_nodes t ! c in
      (\<exists>r. result = Some (r, cpu, anc) \<and> (r = Inr (True, cs, []) \<or> (\<exists>e. r = Inl e))) \<or>
      (\<exists>cs' evs vs. result = Some (Inr (False, cs', evs), cpu', put_all c None anc vs) \<and>
        length vs = m \<and> length (cs_states cs') = Suc (MAX_POWER_LEVEL cfg) \<and>
        cs_states cs' ! 0 = cs_states cs ! 0 \<and> inv_tree cfg (put_tree t c vs cpu')))"

text \<open>
  The end of a suspend request: it returns without having changed anything, or the CPU waits,
  suspended, in a tree that satisfies the invariant.
\<close>

definition suspend_post ::
  "'ps::linorder psci_cfg \<Rightarrow> 'ps Psci \<Rightarrow> nat \<Rightarrow> 'ps PsciCompositePowerState \<Rightarrow> bool \<Rightarrow> EntryPoint \<Rightarrow>
     (('ps, unit) outcome \<times> 'ps Psci) option \<Rightarrow> bool" where
  "suspend_post cfg s c cs pd entry result \<longleftrightarrow>
     (\<exists>r. result = Some (Returned r, s)) \<or>
     (\<exists>cs' s'. result = Some (InSuspend cs' pd, s') \<and> suspend_mode s' = suspend_mode s \<and>
        length (cs_states cs') = Suc (MAX_POWER_LEVEL cfg) \<and>
        cs_states cs' ! 0 = cs_states cs ! 0 \<and>
        inv_tree cfg (power_domain_tree s') \<and>
        tree_frame (power_domain_tree s) (power_domain_tree s') c \<and>
        cpu_power_nodes (power_domain_tree s') =
          (cpu_power_nodes (power_domain_tree s))[c := suspended_cpu
            (cpu_power_nodes (power_domain_tree s) ! c) (cs_states cs ! 0) pd entry])"

text \<open>A CPU that has woken up or booted.\<close>

definition woken :: "'ps psci_cfg \<Rightarrow> 'ps CpuPowerNode \<Rightarrow> 'ps CpuPowerNode" where
  "woken cfg cpu = cpu\<lparr>affinity_info := On, cpu_local_state := PS_RUN cfg, entry_point := None\<rparr>"

definition wake_post :: "'ps::linorder psci_cfg \<Rightarrow> 'ps PowerDomainTree \<Rightarrow> nat \<Rightarrow> 'ps PowerDomainTree \<Rightarrow> bool" where
  "wake_post cfg t c t' \<longleftrightarrow> inv_tree cfg t' \<and> tree_frame t t' c \<and>
     cpu_power_nodes t' = (cpu_power_nodes t)[c := woken cfg (cpu_power_nodes t ! c)]"

context power_state_laws
begin

lemma active_entry: "inv_tree cfg t \<Longrightarrow> active cfg t c \<Longrightarrow> entry_point (cpu_power_nodes t ! c) = None"
  using inv_treeD(2) [of cfg t c] type_run [of "PS_RUN cfg"]
  by (auto simp: active_def cpu_ok_def)

lemma suspend_requestD:
  assumes "suspend_request cfg cs hal pd"
  shows "length (cs_states cs) = Suc (MAX_POWER_LEVEL cfg)"
    "successively (\<ge>) (cs_states cs)"
    "hal \<le> MAX_POWER_LEVEL cfg"
    "cs_states cs ! hal \<noteq> PS_RUN cfg"
    "hal < k \<Longrightarrow> k \<le> MAX_POWER_LEVEL cfg \<Longrightarrow> cs_states cs ! k = PS_RUN cfg"
    "last_at_power_level cs = Some l \<Longrightarrow> l \<le> MAX_POWER_LEVEL cfg"
    "pd \<longleftrightarrow> power_state_type cfg (cs_states cs ! 0) = PowerDownType"
proof -
  have len: "length (cs_states cs) = Suc (MAX_POWER_LEVEL cfg)"
    and valid: "is_valid_suspend_request cfg cs pd"
    and h: "rposition (\<lambda>s. power_state_type cfg s \<noteq> RunType) (cs_states cs) = Some hal"
    using assms by (simp_all add: suspend_request_def find_highest_non_run_level_def)
  show "length (cs_states cs) = Suc (MAX_POWER_LEVEL cfg)" by (rule len)
  show sorted: "successively (\<ge>) (cs_states cs)"
    and "last_at_power_level cs = Some l \<Longrightarrow> l \<le> MAX_POWER_LEVEL cfg"
    using valid by (auto simp: is_valid_suspend_request_def split: if_splits)
  show "hal \<le> MAX_POWER_LEVEL cfg" "cs_states cs ! hal \<noteq> PS_RUN cfg"
    using rposition_SomeD [OF h] len type_run [of "cs_states cs ! hal"] by auto
  show "cs_states cs ! k = PS_RUN cfg" if "hal < k" "k \<le> MAX_POWER_LEVEL cfg"
    using rposition_SomeD [OF h] len type_run [of "cs_states cs ! k"] that by auto
  have "power_state_type cfg (cs_states cs ! 0) = PowerDownType"
    if s: "s \<in> set (cs_states cs)" "power_state_type cfg s = PowerDownType" for s
  proof -
    obtain k where "k < length (cs_states cs)" "s = cs_states cs ! k"
      using s(1) by (metis in_set_conv_nth)
    then show ?thesis
      using sorted_desc_nth [OF sorted, of 0 k] power_down_upwards s(2) by auto
  qed
  moreover have "cs_states cs ! 0 \<in> set (cs_states cs)" using len by simp
  ultimately show "pd \<longleftrightarrow> power_state_type cfg (cs_states cs ! 0) = PowerDownType"
    using valid rposition_None_iff [of "\<lambda>s. power_state_type cfg s = PowerDownType" "cs_states cs"]
    by (auto simp: is_valid_suspend_request_def find_highest_power_down_level_def split: if_splits)
qed

lemma power_down_level_Some:
  assumes "power_state_type cfg (cs_states cs ! 0) = PowerDownType" "cs_states cs \<noteq> []"
  shows "\<exists>l. find_highest_power_down_level cfg cs = Some l"
  using assms rposition_None_iff [of "\<lambda>s. power_state_type cfg s = PowerDownType" "cs_states cs"]
  by (force simp: find_highest_power_down_level_def)

lemma votes_ok_path:
  assumes inv: "inv_tree cfg t" and c: "c < CPU_DOMAIN_COUNT cfg"
  shows "\<forall>(i, n) \<in> set (locked (non_cpu_power_nodes t) (take m (cpu_path t c))). votes_ok cfg n"
proof -
  note wf = inv_treeD(1) [OF inv]
  have "votes_ok cfg (non_cpu_power_nodes t ! i)" if "i \<in> set (cpu_path t c)" for i
    using inv_treeD(4) [OF inv wf_tree_path_facts(1) [OF wf c that]]
    by (auto simp: votes_ok_def entry_ok_def)
  then show ?thesis by (auto simp: locked_def dest: in_set_takeD)
qed

section \<open>Validation in OS-initiated mode\<close>

lemma is_last_cpu_to_idle_Some:
  assumes "linked c None anc" "\<forall>(i, n) \<in> set anc. votes_ok cfg n" "l \<le> length anc"
  shows "\<exists>b. is_last_cpu_to_idle_at_power_level cfg anc c l = Some b"
proof (cases "l = 0")
  case False
  then have k: "l - 1 < length anc" using assms(3) by simp
  then have n: "wf_node (snd (anc ! (l - 1)))" "in_cpus (snd (anc ! (l - 1))) c"
      "votes_ok cfg (snd (anc ! (l - 1)))"
    using linked_nth [OF assms(1) k] assms(2) nth_mem [OF k] by (simp_all add: case_prod_unfold)
  define ch where "ch = (if l \<ge> 2 then Some (fst (anc ! (l - 2))) else None)"
  obtain m where "get_osi_minimal_allowed_state_without_core cfg (snd (anc ! (l - 1))) c ch = Some m"
    using osi_minimal [OF n, of ch] by blast
  moreover have "(if l \<ge> 2 then do { a \<leftarrow> checked_index anc (l - 2); Some (Some (fst a)) }
      else Some None) = Some ch"
    using k by (simp add: ch_def checked_index_Some)
  ultimately show ?thesis
    using k False
    by (simp add: is_last_cpu_to_idle_at_power_level_def CPU_POWER_LEVEL_def
        is_last_cpu_to_idle_def checked_index_Some)
qed (auto simp: is_last_cpu_to_idle_at_power_level_def CPU_POWER_LEVEL_def)

lemma validate_state_coordination_Some:
  assumes inv: "inv_tree cfg t" and c: "c < CPU_DOMAIN_COUNT cfg"
    and m: "hal \<le> m" "m \<le> MAX_POWER_LEVEL cfg"
    and len: "length (cs_states cs) = Suc (MAX_POWER_LEVEL cfg)"
    and last: "\<And>l. last_at_power_level cs = Some l \<Longrightarrow> l \<le> m"
  shows "\<exists>r. validate_state_coordination cfg cs c hal
      (locked (non_cpu_power_nodes t) (take m (cpu_path t c))) = Some r \<and>
    (r = Inr () \<longrightarrow> osi_allowed cfg t c hal (cs_states cs))"
proof -
  let ?anc = "locked (non_cpu_power_nodes t) (take m (cpu_path t c))"
  let ?sts = "take hal (drop 1 (cs_states cs))"
  note wf = inv_treeD(1) [OF inv]
  have anc: "length ?anc = m" using m wf_treeD(8) [OF wf c] by simp
  have linked: "linked c None ?anc" by (rule linked_cpu_path [OF wf c])
  note votes = votes_ok_path [OF inv c, of m]
  have votes': "\<forall>(i, n) \<in> set (take hal ?anc). votes_ok cfg n"
    using votes by (auto dest: in_set_takeD)
  obtain r where r: "validate_levels cfg c None (take hal ?anc) ?sts = Some r"
      "r = Inr () \<Longrightarrow> k < hal \<Longrightarrow>
       (\<forall>c'. in_cpus (snd (?anc ! k)) c' \<and> c' \<noteq> c \<longrightarrow> ?sts ! k \<le> vote cfg (snd (?anc ! k)) c') \<and>
       (\<forall>j j'. (if k = 0 then None else Some (fst (?anc ! (k - 1)))) = Some j \<longrightarrow>
          in_kids (snd (?anc ! k)) j' \<and> j' \<noteq> j \<longrightarrow> ?sts ! k \<le> nst (snd (?anc ! k)) j')" for k
    using validate_levels_sound [OF linked_take [OF linked] votes', of ?sts] anc m len by auto
  have allowed: "osi_allowed cfg t c hal (cs_states cs)" if "r = Inr ()"
    unfolding osi_allowed_def Let_def
  proof (intro allI impI)
    fix k assume k: "k < hal"
    then show "(\<forall>c'. in_cpus (non_cpu_power_nodes t ! (cpu_path t c ! k)) c' \<and> c' \<noteq> c \<longrightarrow>
          cs_states cs ! Suc k \<le> vote cfg (non_cpu_power_nodes t ! (cpu_path t c ! k)) c') \<and>
        (\<forall>j. 0 < k \<and> in_kids (non_cpu_power_nodes t ! (cpu_path t c ! k)) j \<and>
          j \<noteq> cpu_path t c ! (k - 1) \<longrightarrow>
          cs_states cs ! Suc k \<le> nst (non_cpu_power_nodes t ! (cpu_path t c ! k)) j)"
      using r(2) [OF that k] m len wf_treeD(8) [OF wf c] by auto
  qed
  show ?thesis
  proof (cases "last_at_power_level cs")
    case None
    then show ?thesis by (simp add: validate_state_coordination_def)
  next
    case (Some l)
    obtain b where b: "is_last_cpu_to_idle_at_power_level cfg ?anc c l = Some b"
      using is_last_cpu_to_idle_Some [OF linked votes, of l] last [OF Some] anc by metis
    show ?thesis
      using Some b r(1) allowed len m
      by (cases "b"; cases "hal = 0")
        (auto simp: validate_state_coordination_def CPU_POWER_LEVEL_def osi_allowed_def)
  qed
qed

section \<open>Suspend\<close>

lemma locked_cpu_node_Some:
  "wf_tree cfg t \<Longrightarrow> c < CPU_DOMAIN_COUNT cfg \<Longrightarrow>
     locked_cpu_node t c = Some (cpu_power_nodes t ! c)"
  using wf_treeD(1) [of cfg t] by (simp add: locked_cpu_node_def checked_index_Some)

lemma coordinate_state_put:
  assumes inv: "inv_tree cfg t" and act: "active cfg t c" and m: "m \<le> MAX_POWER_LEVEL cfg"
    and len: "length (cs_states cs) = Suc (MAX_POWER_LEVEL cfg)"
  defines "anc \<equiv> locked (non_cpu_power_nodes t) (take m (cpu_path t c))"
  defines "ls \<equiv> coord_levels cfg c False anc (drop 1 (cs_states cs))"
  shows "coordinate_state cfg cs c anc =
      Some (cs\<lparr>cs_states := take 1 (cs_states cs) @ ls @ drop (Suc m) (cs_states cs)\<rparr>,
        put_all c None anc (coord_vals c anc (drop 1 (cs_states cs)) ls))"
    and "length ls = m" "length (coord_vals c anc (drop 1 (cs_states cs)) ls) = m"
proof -
  note wf = inv_treeD(1) [OF inv]
  have c: "c < CPU_DOMAIN_COUNT cfg"
    and run: "cpu_local_state (cpu_power_nodes t ! c) = PS_RUN cfg"
    using act by (auto simp: active_def)
  have anc: "length anc = m" using m wf_treeD(8) [OF wf c] by (simp add: anc_def)
  have "\<forall>(i, n) \<in> set anc. nc_local_state n = PS_RUN cfg"
    using running_path(3) [OF inv c run] wf_treeD(8) [OF wf c] m
    by (auto simp: anc_def locked_def in_set_conv_nth)
  moreover have "linked c (map_option fst None) anc"
    using linked_cpu_path [OF wf c] by (simp add: anc_def)
  ultimately show "coordinate_state cfg cs c anc =
      Some (cs\<lparr>cs_states := take 1 (cs_states cs) @ ls @ drop (Suc m) (cs_states cs)\<rparr>,
        put_all c None anc (coord_vals c anc (drop 1 (cs_states cs)) ls))"
    using anc m len
    by (simp add: coordinate_state_def CPU_POWER_LEVEL_def coordinate_from_put ls_def)
  show "length ls = m" "length (coord_vals c anc (drop 1 (cs_states cs)) ls) = m"
    using anc m len by (simp_all add: ls_def)
qed

lemma suspended_cpu_ok:
  assumes "affinity_info cpu = On" "pd \<longleftrightarrow> power_state_type cfg st = PowerDownType"
  shows "cpu_ok cfg (suspended_cpu cpu st pd entry)"
  using assms by (simp add: cpu_ok_def suspended_cpu_def)

lemma suspend_coordinated_inv:
  assumes inv: "inv_tree cfg t" and act: "active cfg t c" and req: "suspend_request cfg cs hal pd"
  defines "anc \<equiv> locked (non_cpu_power_nodes t) (take hal (cpu_path t c))"
  shows "inv_tree cfg (put_tree t c
      (coord_vals c anc (drop 1 (cs_states cs)) (coord_levels cfg c False anc (drop 1 (cs_states cs))))
      (suspended_cpu (cpu_power_nodes t ! c) (cs_states cs ! 0) pd entry))"
proof -
  note R = suspend_requestD [OF req]
  have cs: "cs_states cs = cs_states cs ! 0 # drop 1 (cs_states cs)"
    using R(1) by (cases "cs_states cs") auto
  show ?thesis
    unfolding anc_def
  proof (rule coordinate_inv [OF inv])
    show "successively (\<ge>) (cpu_local_state (suspended_cpu (cpu_power_nodes t ! c)
        (cs_states cs ! 0) pd entry) # drop 1 (cs_states cs))"
      using R(2) cs by (simp add: suspended_cpu_def)
    show "drop 1 (cs_states cs) ! k = PS_RUN cfg" if "hal \<le> k" "k < MAX_POWER_LEVEL cfg" for k
      using R(1,5) that by simp
    show "cpu_ok cfg (suspended_cpu (cpu_power_nodes t ! c) (cs_states cs ! 0) pd entry)"
      using act R(7) by (intro suspended_cpu_ok) (auto simp: active_def)
  qed (use act R(1,3) in \<open>auto simp: active_def suspended_cpu_def\<close>)
qed

lemma suspend_osi_inv:
  assumes inv: "inv_tree cfg t" and act: "active cfg t c" and req: "suspend_request cfg cs hal pd"
    and m: "hal \<le> m" "m \<le> MAX_POWER_LEVEL cfg"
    and res: "create_highest_affected_level_resolved_state cs hal = Some resolved"
    and allowed: "osi_allowed cfg t c hal (cs_states resolved)"
  shows "inv_tree cfg (put_tree t c (osi_vals cfg m hal (cs_states cs) (cs_states resolved))
      (suspended_cpu (cpu_power_nodes t ! c) (cs_states cs ! 0) pd entry))"
proof -
  note R = suspend_requestD [OF req]
  have rsts: "cs_states resolved ! k = (if k \<le> hal then cs_states cs ! k else cs_states cs ! hal)"
    if "k \<le> MAX_POWER_LEVEL cfg" for k
    using res R(1,3) that
    by (auto simp: create_highest_affected_level_resolved_state_def panic_simps nth_append)
  have "osi_allowed cfg t c hal (cs_states cs)"
    using allowed rsts R(3) by (simp add: osi_allowed_def Let_def)
  moreover have "cpu_ok cfg (suspended_cpu (cpu_power_nodes t ! c) (cs_states cs ! 0) pd entry)"
    using act R(7) by (intro suspended_cpu_ok) (auto simp: active_def)
  ultimately show ?thesis
    using act m R(1,2,4) rsts
    by (intro osi_inv [OF inv]) (auto simp: active_def suspended_cpu_def)
qed

text \<open>The part of the closure after the coordination.\<close>

lemma suspend_tail:
  assumes "entry_point cpu = None" "pd \<longleftrightarrow> power_state_type cfg st = PowerDownType"
    and "cs_states cs' \<noteq> []" "cs_states cs' ! 0 = st"
  shows "\<exists>evs. (if pd then suspend_power_down_events cfg ps entry cs' (cpu\<lparr>cpu_local_state := st\<rparr>)
      else Some (cpu\<lparr>cpu_local_state := st\<rparr>, [])) = Some (suspended_cpu cpu st pd entry, evs)"
proof (cases pd)
  case True
  with assms obtain l where "find_highest_power_down_level cfg cs' = Some l"
    using power_down_level_Some by blast
  with True assms(1) show ?thesis
    by (simp add: suspend_power_down_events_def set_entry_point_def suspended_cpu_def)
next
  case False
  with assms(1) show ?thesis by (cases cpu) (simp add: suspended_cpu_def)
qed

lemma closure_coordinated:
  assumes inv: "inv_tree cfg t" and act: "active cfg t c" and req: "suspend_request cfg cs hal pd"
  defines "anc \<equiv> locked (non_cpu_power_nodes t) (take hal (cpu_path t c))"
  shows "\<exists>cs' vs. coordinate_state cfg cs c anc = Some (cs', put_all c None anc vs) \<and>
    length vs = hal \<and> length (cs_states cs') = Suc (MAX_POWER_LEVEL cfg) \<and>
    cs_states cs' ! 0 = cs_states cs ! 0 \<and>
    (\<forall>entry. inv_tree cfg (put_tree t c vs
      (suspended_cpu (cpu_power_nodes t ! c) (cs_states cs ! 0) pd entry)))"
proof -
  note R = suspend_requestD [OF req]
  note C = coordinate_state_put [OF inv act R(3) R(1), folded anc_def]
  show ?thesis
    using C suspend_coordinated_inv [OF inv act req, folded anc_def] R(1,3)
    by (intro exI conjI) (assumption, auto simp: nth_append)
qed

lemma closure_osi:
  assumes inv: "inv_tree cfg t" and act: "active cfg t c" and req: "suspend_request cfg cs hal pd"
    and m: "hal \<le> m" "m \<le> MAX_POWER_LEVEL cfg"
    and last: "\<And>l. last_at_power_level cs = Some l \<Longrightarrow> l \<le> m"
  defines "anc \<equiv> locked (non_cpu_power_nodes t) (take m (cpu_path t c))"
  defines "cpu \<equiv> cpu_power_nodes t ! c"
  shows "\<exists>resolved v. create_highest_affected_level_resolved_state cs hal = Some resolved \<and>
    validate_state_coordination cfg resolved c hal anc = Some v \<and>
    (v = Inr () \<longrightarrow> (\<exists>vs. length vs = m \<and>
       apply_coordinated_state_to_power_domain_tree cfg cs hal cpu anc c resolved =
         Some (cpu\<lparr>cpu_local_state := cs_states cs ! 0\<rparr>, put_all c None anc vs) \<and>
       (\<forall>entry. inv_tree cfg (put_tree t c vs (suspended_cpu cpu (cs_states cs ! 0) pd entry)))))"
proof -
  note R = suspend_requestD [OF req] and wf = inv_treeD(1) [OF inv]
  have c: "c < CPU_DOMAIN_COUNT cfg"
    and run: "cpu_local_state (cpu_power_nodes t ! c) = PS_RUN cfg"
    using act by (auto simp: active_def)
  have len: "length anc = m" using m wf_treeD(8) [OF wf c] by (simp add: anc_def)
  obtain resolved where res: "create_highest_affected_level_resolved_state cs hal = Some resolved"
      "length (cs_states resolved) = Suc (MAX_POWER_LEVEL cfg)"
      "last_at_power_level resolved = last_at_power_level cs"
    using R(1,3) by (simp add: create_highest_affected_level_resolved_state_def panic_simps)
  obtain v where v: "validate_state_coordination cfg resolved c hal anc = Some v"
      "v = Inr () \<Longrightarrow> osi_allowed cfg t c hal (cs_states resolved)"
    using validate_state_coordination_Some [OF inv c m res(2)] last res(3) by (auto simp: anc_def)
  have "apply_coordinated_state_to_power_domain_tree cfg cs hal cpu anc c resolved =
      Some (cpu\<lparr>cpu_local_state := cs_states cs ! 0\<rparr>,
        put_all c None anc (osi_vals cfg m hal (cs_states cs) (cs_states resolved)))"
    using apply_coordinated_put [OF linked_cpu_path [OF wf c] running_chain_path [OF inv c run m(2)]
        res(2) R(1), folded anc_def] m len by simp
  moreover have "length (osi_vals cfg m hal (cs_states cs) (cs_states resolved)) = m"
    by (simp add: osi_vals_def)
  ultimately show ?thesis
    using res(1) v suspend_osi_inv [OF inv act req m res(1), folded cpu_def] by blast
qed

lemma cpu_suspend_closure_cases:
  assumes inv: "inv_tree cfg t" and act: "active cfg t c" and req: "suspend_request cfg cs hal pd"
    and m: "hal \<le> m" "m \<le> MAX_POWER_LEVEL cfg"
    and pc: "\<not> is_in_osi_mode plat mode \<Longrightarrow> m = hal"
    and osi: "\<And>l. is_in_osi_mode plat mode \<Longrightarrow> last_at_power_level cs = Some l \<Longrightarrow> l \<le> m"
    and env: "is_in_osi_mode plat mode \<Longrightarrow> power_domain_validate_suspend env cs \<noteq> None"
  shows "closure_result cfg t c m cs (suspended_cpu (cpu_power_nodes t ! c) (cs_states cs ! 0) pd entry)
    (cpu_suspend_closure cfg plat env mode c ps entry hal cs pd (cpu_power_nodes t ! c)
      (locked (non_cpu_power_nodes t) (take m (cpu_path t c))))"
proof (cases "has_pending_interrupts env")
  case True
  then show ?thesis by (simp add: cpu_suspend_closure_def closure_result_def Let_def)
next
  case no_irq: False
  note R = suspend_requestD [OF req]
  let ?cpu = "cpu_power_nodes t ! c"
  let ?cpu' = "suspended_cpu ?cpu (cs_states cs ! 0) pd entry"
  let ?anc = "locked (non_cpu_power_nodes t) (take m (cpu_path t c))"
  note tail = suspend_tail [OF active_entry [OF inv act] R(7), of _ ps entry]
  show ?thesis
  proof (cases "is_in_osi_mode plat mode")
    case False
    with pc have mh: "m = hal" by simp
    obtain cs' vs where C: "coordinate_state cfg cs c ?anc = Some (cs', put_all c None ?anc vs)"
        "length vs = m" "length (cs_states cs') = Suc (MAX_POWER_LEVEL cfg)"
        "cs_states cs' ! 0 = cs_states cs ! 0" "inv_tree cfg (put_tree t c vs ?cpu')"
      using closure_coordinated [OF inv act req] mh by blast
    then have ne: "cs_states cs' \<noteq> []" by auto
    obtain evs where "(if pd then suspend_power_down_events cfg ps entry cs'
          (?cpu\<lparr>cpu_local_state := cs_states cs ! 0\<rparr>)
        else Some (?cpu\<lparr>cpu_local_state := cs_states cs ! 0\<rparr>, [])) = Some (?cpu', evs)"
      using tail [OF ne C(4)] by blast
    then have "cpu_suspend_closure cfg plat env mode c ps entry hal cs pd ?cpu ?anc =
        Some (Inr (False, cs', evs @ [PowerDomainSuspend cs']), ?cpu', put_all c None ?anc vs)"
      using no_irq False C(1,4) ne
      by (simp add: cpu_suspend_closure_def cpu_set_local_state_def
          cpu_level_state_def CPU_POWER_LEVEL_def checked_index_Some)
    then show ?thesis using C(2-5) unfolding closure_result_def Let_def by blast
  next
    case True
    obtain resolved v where V: "create_highest_affected_level_resolved_state cs hal = Some resolved"
        "validate_state_coordination cfg resolved c hal ?anc = Some v"
        "v = Inr () \<longrightarrow> (\<exists>vs. length vs = m \<and>
         apply_coordinated_state_to_power_domain_tree cfg cs hal ?cpu ?anc c resolved =
           Some (?cpu\<lparr>cpu_local_state := cs_states cs ! 0\<rparr>, put_all c None ?anc vs) \<and>
         (\<forall>entry. inv_tree cfg (put_tree t c vs (suspended_cpu ?cpu (cs_states cs ! 0) pd entry))))"
      using closure_osi [OF inv act req m osi [OF True]] by blast
    obtain pv where pv: "power_domain_validate_suspend env cs = Some pv" using env [OF True] by auto
    show ?thesis
    proof (cases "v = Inr () \<and> pv = Inr ()")
      case False
      then show ?thesis
        using no_irq True V(1,2) pv
        by (cases v; cases pv) (auto simp: cpu_suspend_closure_def closure_result_def Let_def)
    next
      case ok: True
      have ne: "cs_states cs \<noteq> []" using R(1) by auto
      obtain evs where "(if pd then suspend_power_down_events cfg ps entry cs
            (?cpu\<lparr>cpu_local_state := cs_states cs ! 0\<rparr>)
          else Some (?cpu\<lparr>cpu_local_state := cs_states cs ! 0\<rparr>, [])) = Some (?cpu', evs)"
        using tail [OF ne refl] by blast
      moreover obtain vs where vs: "length vs = m"
          "apply_coordinated_state_to_power_domain_tree cfg cs hal ?cpu ?anc c resolved =
             Some (?cpu\<lparr>cpu_local_state := cs_states cs ! 0\<rparr>, put_all c None ?anc vs)"
          "inv_tree cfg (put_tree t c vs ?cpu')"
        using V(3) ok by blast
      ultimately have "cpu_suspend_closure cfg plat env mode c ps entry hal cs pd ?cpu ?anc =
          Some (Inr (False, cs, evs @ [PowerDomainSuspend cs]), ?cpu', put_all c None ?anc vs)"
        using no_irq True V(1,2) pv ok by (simp add: cpu_suspend_closure_def)
      then show ?thesis using vs(1,3) R(1) unfolding closure_result_def Let_def by blast
    qed
  qed
qed

lemma cpu_suspend_start_ok:
  assumes inv: "inv_tree cfg (power_domain_tree s)" and act: "active cfg (power_domain_tree s) c"
    and req: "suspend_request cfg cs hal pd"
    and env: "is_in_osi_mode plat (suspend_mode s) \<Longrightarrow> power_domain_validate_suspend env cs \<noteq> None"
  shows "suspend_post cfg s c cs pd entry
    (cpu_suspend_start cfg plat env (suspend_mode s) s c ps entry hal cs pd)"
proof -
  let ?t = "power_domain_tree s"
  let ?m = "if is_in_osi_mode plat (suspend_mode s) then MAX_POWER_LEVEL cfg else hal"
  let ?anc = "locked (non_cpu_power_nodes ?t) (take ?m (cpu_path ?t c))"
  let ?f = "cpu_suspend_closure cfg plat env (suspend_mode s) c ps entry hal cs pd"
  note R = suspend_requestD [OF req] and wf = inv_treeD(1) [OF inv]
  have c: "c < CPU_DOMAIN_COUNT cfg" using act by (simp add: active_def)
  have "closure_result cfg ?t c ?m cs
      (suspended_cpu (cpu_power_nodes ?t ! c) (cs_states cs ! 0) pd entry)
      (?f (cpu_power_nodes ?t ! c) ?anc)"
    using R(3,6) env by (intro cpu_suspend_closure_cases [OF inv act req]) auto
  then consider
    (same) r where "?f (cpu_power_nodes ?t ! c) ?anc = Some (r, cpu_power_nodes ?t ! c, ?anc)"
      "r = Inr (True, cs, []) \<or> (\<exists>e. r = Inl e)"
  | (susp) cs' evs vs where "?f (cpu_power_nodes ?t ! c) ?anc = Some (Inr (False, cs', evs),
        suspended_cpu (cpu_power_nodes ?t ! c) (cs_states cs ! 0) pd entry, put_all c None ?anc vs)"
      "length vs = ?m" "length (cs_states cs') = Suc (MAX_POWER_LEVEL cfg)"
      "cs_states cs' ! 0 = cs_states cs ! 0"
      "inv_tree cfg (put_tree ?t c vs
         (suspended_cpu (cpu_power_nodes ?t ! c) (cs_states cs ! 0) pd entry))"
    unfolding closure_result_def Let_def by blast
  then show ?thesis
  proof cases
    case same
    then show ?thesis
      using wf c unfolding cpu_suspend_start_def suspend_post_def Let_def
      by (auto simp: locked_cpu_node_Some with_ancestors_locked_to_max_level_wf write_back_locked
          unlock_same)
  next
    case susp
    have "tree_frame ?t (put_tree ?t c vs
        (suspended_cpu (cpu_power_nodes ?t ! c) (cs_states cs ! 0) pd entry)) c"
      using susp(2) R(3) by (intro put_tree_frame [OF wf c]) (auto simp: suspended_cpu_def)
    with susp show ?thesis
      using wf c unfolding cpu_suspend_start_def suspend_post_def Let_def
      by (auto simp: locked_cpu_node_Some with_ancestors_locked_to_max_level_wf
          unlock_put_tree emit_def)
  qed
qed

section \<open>Waking up, booting and turning off\<close>

lemma set_running_locked:
  assumes "wf_tree cfg t" "c < CPU_DOMAIN_COUNT cfg"
  shows "set_running cfg (locked (non_cpu_power_nodes t) (cpu_path t c)) c =
    Some (put_all c None (locked (non_cpu_power_nodes t) (cpu_path t c))
      (replicate (MAX_POWER_LEVEL cfg) (PS_RUN cfg, None, PS_RUN cfg)))"
  using linked_cpu_path [OF assms, of "MAX_POWER_LEVEL cfg"] wf_treeD(8) [OF assms]
  by (simp add: set_running_put)

lemma set_local_states_Some:
  assumes "length (cs_states cs) = Suc (MAX_POWER_LEVEL cfg)"
  shows "\<exists>cs'. set_local_states_from_nodes cs cpu anc = Some cs' \<and>
    cpu_level_state cs' = Some (cpu_local_state cpu)"
proof -
  obtain x xs where "cs_states cs = x # xs" using assms by (cases "cs_states cs") auto
  then show ?thesis
    by (simp add: set_local_states_from_nodes_def CPU_POWER_LEVEL_def checked_update_def
        cpu_level_state_def checked_index_def)
qed

lemma woken_ok:
  assumes "affinity_info cpu = On" "entry_point cpu = None" "cpu_local_state cpu = PS_RUN cfg"
  shows "cpu_ok cfg cpu"
  using assms type_run [of "PS_RUN cfg"] by (auto simp: cpu_ok_def)

lemma wake_put:
  assumes inv: "inv_tree cfg t" and c: "c < CPU_DOMAIN_COUNT cfg"
  shows "wake_post cfg t c (unlock_cpu_node (t\<lparr>non_cpu_power_nodes := write_back
      (put_all c None (locked (non_cpu_power_nodes t) (cpu_path t c))
        (replicate (MAX_POWER_LEVEL cfg) (PS_RUN cfg, None, PS_RUN cfg)))
      (non_cpu_power_nodes t)\<rparr>) c (woken cfg (cpu_power_nodes t ! c)))"
proof -
  note wf = inv_treeD(1) [OF inv]
  let ?vs = "replicate (MAX_POWER_LEVEL cfg) (PS_RUN cfg, None, PS_RUN cfg)"
  let ?cpu = "woken cfg (cpu_power_nodes t ! c)"
  have parent: "cpu_parent ?cpu = cpu_parent (cpu_power_nodes t ! c)" by (simp add: woken_def)
  have eq: "unlock_cpu_node (t\<lparr>non_cpu_power_nodes := write_back
      (put_all c None (locked (non_cpu_power_nodes t) (cpu_path t c)) ?vs)
      (non_cpu_power_nodes t)\<rparr>) c ?cpu = put_tree t c ?vs ?cpu"
    using unlock_put_tree [where vs = ?vs and m = "MAX_POWER_LEVEL cfg" and t = t and c = c and cpu = ?cpu] wf_treeD(8) [OF wf c] by simp
  show ?thesis
    unfolding wake_post_def eq
    using set_running_inv [OF inv c parent] put_tree_frame [OF wf c _ parent, of ?vs] woken_ok [of ?cpu]
    by (simp add: woken_def)
qed

lemma cpu_suspend_resume_ok:
  assumes inv: "inv_tree cfg (power_domain_tree s)" and c: "c < CPU_DOMAIN_COUNT cfg"
    and cs: "length (cs_states cs) = Suc (MAX_POWER_LEVEL cfg)"
    and on: "affinity_info (cpu_power_nodes (power_domain_tree s) ! c) = On"
    and pd: "pd \<longleftrightarrow> power_state_type cfg
        (cpu_local_state (cpu_power_nodes (power_domain_tree s) ! c)) = PowerDownType"
  shows "\<exists>s'. cpu_suspend_resume cfg s c cs pd = Some s' \<and> suspend_mode s' = suspend_mode s \<and>
    wake_post cfg (power_domain_tree s) c (power_domain_tree s')"
proof -
  let ?t = "power_domain_tree s" and ?cpu = "cpu_power_nodes (power_domain_tree s) ! c"
  note wf = inv_treeD(1) [OF inv]
  obtain cs' where cs': "set_local_states_from_nodes cs ?cpu
      (locked (non_cpu_power_nodes ?t) (cpu_path ?t c)) = Some cs'"
    using set_local_states_Some [OF cs] by blast
  have "entry_point ?cpu \<noteq> None \<longleftrightarrow> pd"
    using inv_treeD(2) [OF inv c] on pd by (simp add: cpu_ok_def)
  then have "cpu_set_local_state (if pd then snd (pop_entry_point ?cpu) else ?cpu) (PS_RUN cfg) = woken cfg ?cpu"
    using on by (cases ?cpu) (auto simp: woken_def pop_entry_point_def cpu_set_local_state_def)
  then show ?thesis
    using wake_put [OF inv c] cs' wf c
    by (auto simp: cpu_suspend_resume_def locked_cpu_node_Some with_ancestors_locked_wf
        set_running_locked emit_def Let_def split: if_splits)
qed

lemma handle_cpu_boot_ok:
  assumes inv: "inv_tree cfg (power_domain_tree s)" and c: "c < CPU_DOMAIN_COUNT cfg"
  defines "cpu \<equiv> cpu_power_nodes (power_domain_tree s) ! c"
  assumes boot: "affinity_info cpu = OnPending \<or>
      affinity_info cpu = On \<and> power_state_type cfg (cpu_local_state cpu) = PowerDownType"
  shows "\<exists>e s'. entry_point cpu = Some e \<and>
    handle_cpu_boot cfg s c =
      Some (if affinity_info cpu = On then WakeSuspendFinished e else WakeCpuOn e, s') \<and>
    suspend_mode s' = suspend_mode s \<and> wake_post cfg (power_domain_tree s) c (power_domain_tree s')"
proof -
  let ?t = "power_domain_tree s"
  note wf = inv_treeD(1) [OF inv]
  obtain e where e: "entry_point cpu = Some e"
    using inv_treeD(2) [OF inv c] boot by (auto simp: cpu_ok_def cpu_def)
  have "length (cs_states (composite_RUN cfg)) = Suc (MAX_POWER_LEVEL cfg)"
    by (simp add: composite_RUN_def)
  from set_local_states_Some [OF this] obtain cs' where
    cs': "set_local_states_from_nodes (composite_RUN cfg) cpu
        (locked (non_cpu_power_nodes ?t) (cpu_path ?t c)) = Some cs'"
      "cpu_level_state cs' = Some (cpu_local_state cpu)" by blast
  have woken: "cpu_set_local_state (if affinity_info cpu = OnPending then set_affinity_info cpu On else cpu)
      (PS_RUN cfg)\<lparr>entry_point := None\<rparr> = woken cfg cpu"
    using boot by (cases cpu) (auto simp: woken_def set_affinity_info_def cpu_set_local_state_def)
  show ?thesis
    using wake_put [OF inv c] boot e cs' wf c woken
    by (auto simp: handle_cpu_boot_def locked_cpu_node_Some with_ancestors_locked_wf
        set_running_locked emit_def Let_def pop_entry_point_def cpu_def set_affinity_info_def
        cpu_set_local_state_def)
qed

lemma cpu_update_inv:
  assumes inv: "inv_tree cfg t" and c: "c < CPU_DOMAIN_COUNT cfg"
    and parent: "cpu_parent cpu = cpu_parent (cpu_power_nodes t ! c)" and ok: "cpu_ok cfg cpu"
    and votes: "\<And>i. i < NON_CPU_DOMAIN_COUNT cfg \<Longrightarrow> in_cpus (non_cpu_power_nodes t ! i) c \<Longrightarrow>
      vote cfg (non_cpu_power_nodes t ! i) c \<le> cpu_local_state cpu"
  shows "inv_tree cfg (unlock_cpu_node t c cpu)" "tree_frame t (unlock_cpu_node t c cpu) c"
proof -
  note wf = inv_treeD(1) [OF inv]
  have cpus: "cpu_power_nodes (unlock_cpu_node t c cpu) ! c' = (if c' = c then cpu else cpu_power_nodes t ! c')"
      "length (cpu_power_nodes (unlock_cpu_node t c cpu)) = length (cpu_power_nodes t)"
      "non_cpu_power_nodes (unlock_cpu_node t c cpu) = non_cpu_power_nodes t" for c'
    using c wf_treeD(1) [OF wf] by (auto simp: unlock_cpu_node_def)
  have par: "cpu_parent (cpu_power_nodes (unlock_cpu_node t c cpu) ! c') = cpu_parent (cpu_power_nodes t ! c')" for c'
    using parent by (simp add: cpus)
  then have path: "cpu_path (unlock_cpu_node t c cpu) c' = cpu_path t c'" for c'
    by (simp add: cpu_path_def cpus)
  have "wf_tree cfg (unlock_cpu_node t c cpu)"
    using wf unfolding wf_tree_def cpus(2,3) par path .
  moreover have "entry_ok cfg (non_cpu_power_nodes t ! i) c' (if c' = c then cpu else cpu_power_nodes t ! c')"
    if "i < NON_CPU_DOMAIN_COUNT cfg" "in_cpus (non_cpu_power_nodes t ! i) c'" for i c'
    using inv_treeD(4) [OF inv that] votes [OF that(1)] that(2) by (auto simp: entry_ok_def)
  ultimately show "inv_tree cfg (unlock_cpu_node t c cpu)"
    using inv_treeD(2,3,5) [OF inv] ok by (simp add: inv_tree_def cpus)
  show "tree_frame t (unlock_cpu_node t c cpu) c" by (simp add: tree_frame_def cpus)
qed

lemma cpu_off_ok:
  assumes inv: "inv_tree cfg (power_domain_tree s)" and act: "active cfg (power_domain_tree s) c"
  shows "(\<exists>e. power_domain_off_early env (composite_OFF cfg) = Inl e \<and>
       cpu_off cfg env s c = Some (Returned (Inl e), s)) \<or>
    (\<exists>s' cs l. power_domain_off_early env (composite_OFF cfg) = Inr () \<and>
       cpu_off cfg env s c = Some (PoweredOff, s') \<and> suspend_mode s' = suspend_mode s \<and>
       find_highest_power_down_level cfg cs = Some l \<and>
       trace s' = trace s @ [ForwardPsciRequest CpuOff, NotifyCpuOff, CpuPowerDown l,
         PowerDomainOff cs, PowerDomainPowerDown cs, DsbSy] \<and>
       inv_tree cfg (power_domain_tree s') \<and> tree_frame (power_domain_tree s) (power_domain_tree s') c \<and>
       cpu_power_nodes (power_domain_tree s') = (cpu_power_nodes (power_domain_tree s))
         [c := (cpu_power_nodes (power_domain_tree s) ! c)
           \<lparr>cpu_local_state := PS_OFF cfg, affinity_info := Off\<rparr>])"
proof (cases "power_domain_off_early env (composite_OFF cfg)")
  case (Inl e)
  have "c < CPU_DOMAIN_COUNT cfg" using act by (simp add: active_def)
  with Inl inv_treeD(1) [OF inv] show ?thesis
    by (simp add: cpu_off_def locked_cpu_node_Some)
next
  case (Inr u)
  let ?t = "power_domain_tree s" and ?cpu = "cpu_power_nodes (power_domain_tree s) ! c"
  let ?cpu' = "?cpu\<lparr>cpu_local_state := PS_OFF cfg, affinity_info := Off\<rparr>"
  let ?anc = "locked (non_cpu_power_nodes ?t) (take (MAX_POWER_LEVEL cfg) (cpu_path ?t c))"
  let ?sts = "replicate (MAX_POWER_LEVEL cfg) (PS_OFF cfg)"
  let ?ls = "coord_levels cfg c False ?anc ?sts"
  let ?vs = "coord_vals c ?anc ?sts ?ls"
  note wf = inv_treeD(1) [OF inv]
  have c: "c < CPU_DOMAIN_COUNT cfg" and run: "cpu_local_state ?cpu = PS_RUN cfg"
    using act by (auto simp: active_def)
  have path: "take (MAX_POWER_LEVEL cfg) (cpu_path ?t c) = cpu_path ?t c"
    using wf_treeD(8) [OF wf c] by simp
  have off: "length (cs_states (composite_OFF cfg)) = Suc (MAX_POWER_LEVEL cfg)"
      "drop 1 (cs_states (composite_OFF cfg)) = ?sts" "take 1 (cs_states (composite_OFF cfg)) = [PS_OFF cfg]"
    by (simp_all add: composite_OFF_def)
  let ?cs = "(composite_OFF cfg)\<lparr>cs_states := PS_OFF cfg # ?ls\<rparr>"
  note C = coordinate_state_put [OF inv act order_refl off(1), unfolded off(2,3)]
  have co: "coordinate_state cfg (composite_OFF cfg) c ?anc = Some (?cs, put_all c None ?anc ?vs)"
    using C(1) off(1) by simp
  obtain l where l: "find_highest_power_down_level cfg ?cs = Some l"
    using power_down_level_Some [of ?cs] type_off by auto
  have "inv_tree cfg (put_tree ?t c ?vs ?cpu')"
  proof (rule coordinate_inv [OF inv c run])
    show "cpu_ok cfg ?cpu'" using active_entry [OF inv act] by (simp add: cpu_ok_def)
    show "successively (\<ge>) (cpu_local_state ?cpu' # ?sts)"
      by (intro successively_if_sorted_wrt) (auto simp: sorted_wrt_iff_nth_less nth_Cons split: nat.splits)
  qed simp_all
  moreover have "tree_frame ?t (put_tree ?t c ?vs ?cpu') c"
    using C(3) by (intro put_tree_frame [OF wf c]) simp_all
  moreover have "cpu_off cfg env s c = Some (PoweredOff,
      emit [ForwardPsciRequest CpuOff, NotifyCpuOff, CpuPowerDown l, PowerDomainOff ?cs,
        PowerDomainPowerDown ?cs, DsbSy] (s\<lparr>power_domain_tree := put_tree ?t c ?vs ?cpu'\<rparr>))"
    using Inr co l wf c unlock_put_tree [OF C(3), of c ?t ?cpu']
    by (simp add: cpu_off_def locked_cpu_node_Some with_ancestors_locked_wf path
        set_affinity_info_def cpu_set_local_state_def)
  ultimately show ?thesis using Inr l by (auto simp: emit_def)
qed

end

end
