(* ===== verification/Tree_New.thy ===== *)
theory Tree_New
  imports Tree_Invariant
begin

text \<open>
  \<open>PowerDomainTree::new\<close> returns a well-formed tree with everything off, for every topology it
  accepts. The non-CPU nodes are created level by level; a topology with more nodes than
  \<open>NON_CPU_DOMAIN_COUNT\<close> stops creating them, and then no CPU can be attached below the cut.
\<close>

definition fresh_node :: "'ps psci_cfg \<Rightarrow> 'ps NonCpuPowerNode \<Rightarrow> bool" where
  "fresh_node cfg n \<longleftrightarrow>
     nc_local_state n = PS_OFF cfg \<and> set (requested_states n) \<subseteq> {PS_OFF cfg} \<and>
     set (suspend_states n) \<subseteq> {None} \<and> set (non_cpu_states n) \<subseteq> {PS_OFF cfg}"

definition wf_nodes :: "'ps psci_cfg \<Rightarrow> 'ps NonCpuPowerNode list \<Rightarrow> bool" where
  "wf_nodes cfg nodes \<longleftrightarrow>
     wf_parents nodes \<and> (\<forall>i < length nodes. wf_node (nodes ! i) \<and> fresh_node cfg (nodes ! i)) \<and>
     (\<forall>p < length nodes. \<forall>j. in_kids (nodes ! p) j \<longleftrightarrow>
        j < length nodes \<and> nc_parent (nodes ! j) = Some p)"

lemma wf_nodesD:
  assumes "wf_nodes cfg nodes"
  shows "wf_parents nodes" "i < length nodes \<Longrightarrow> wf_node (nodes ! i)"
    "i < length nodes \<Longrightarrow> fresh_node cfg (nodes ! i)"
    "p < length nodes \<Longrightarrow> in_kids (nodes ! p) j \<longleftrightarrow> j < length nodes \<and> nc_parent (nodes ! j) = Some p"
  using assms by (auto simp: wf_nodes_def)

text \<open>Parents of existing nodes stay, and so do their paths.\<close>

definition extends :: "'ps NonCpuPowerNode list \<Rightarrow> 'ps NonCpuPowerNode list \<Rightarrow> bool" where
  "extends nodes nodes' \<longleftrightarrow>
     length nodes \<le> length nodes' \<and>
     (\<forall>i < length nodes. nc_parent (nodes' ! i) = nc_parent (nodes ! i) \<and>
        cpu_range (nodes' ! i) = cpu_range (nodes ! i))"

lemma extends_refl [simp]: "extends nodes nodes"
  by (simp add: extends_def)

lemma extends_trans: "extends a b \<Longrightarrow> extends b c \<Longrightarrow> extends a c"
  by (auto simp: extends_def)

lemma extends_path:
  assumes "wf_parents nodes" "extends nodes nodes'"
  shows "i < length nodes \<Longrightarrow> path nodes' i = path nodes i"
proof (induction i rule: less_induct)
  case (less i)
  have "nc_parent (nodes' ! i) = nc_parent (nodes ! i)" "i < length nodes'"
    using assms(2) less.prems by (auto simp: extends_def)
  moreover have "path nodes' p = path nodes p" if "nc_parent (nodes ! i) = Some p" for p
    using less assms(1) that unfolding wf_parents_def by (metis order.strict_trans)
  ultimately show ?case
    using less.prems by (subst (1 2) path.simps) (auto split: option.splits)
qed

section \<open>Creating the children of one node\<close>

lemma assign_non_cpu_Some:
  assumes "assign_non_cpu cfg n i = Some n'" "wf_node n" "fresh_node cfg n"
  shows "wf_node n'" "fresh_node cfg n'" "nc_parent n' = nc_parent n" "cpu_range n' = cpu_range n"
    "in_kids n' j \<longleftrightarrow> in_kids n j \<or> j = i"
  using assms
  by (auto simp: assign_non_cpu_def index_add_def range_is_empty_def wf_node_def fresh_node_def
      in_kids_def range_contains_def bind_eq_Some_conv split: if_splits)

lemma new_node_ok: "wf_node (NonCpuPowerNode_new cfg p)" "fresh_node cfg (NonCpuPowerNode_new cfg p)"
  "nc_parent (NonCpuPowerNode_new cfg p) = p" "\<not> in_kids (NonCpuPowerNode_new cfg p) j"
  "cpu_range (NonCpuPowerNode_new cfg p) = (0, 0)"
  by (simp_all add: NonCpuPowerNode_new_def wf_node_def fresh_node_def in_kids_def range_contains_def)

definition grown ::
  "'ps psci_cfg \<Rightarrow> 'ps NonCpuPowerNode list \<Rightarrow> nat option \<Rightarrow> nat \<Rightarrow> 'ps NonCpuPowerNode list \<Rightarrow> bool" where
  "grown cfg nodes pnode n nodes' \<longleftrightarrow>
     wf_nodes cfg nodes' \<and> extends nodes nodes' \<and> length nodes' = length nodes + n \<and>
     (\<forall>j. length nodes \<le> j \<longrightarrow> j < length nodes' \<longrightarrow>
        nc_parent (nodes' ! j) = pnode \<and> cpu_range (nodes' ! j) = (0, 0))"

lemma add_child:
  assumes wf: "wf_nodes cfg nodes" and q: "\<And>q. pnode = Some q \<Longrightarrow> q < length nodes"
    and step: "(case pnode of
        None \<Rightarrow> Some (nodes @ [NonCpuPowerNode_new cfg pnode])
      | Some q \<Rightarrow> do {
          p \<leftarrow> checked_index (nodes @ [NonCpuPowerNode_new cfg pnode]) q;
          i \<leftarrow> index_try_into cfg (length nodes);
          p' \<leftarrow> assign_non_cpu cfg p i;
          checked_update (nodes @ [NonCpuPowerNode_new cfg pnode]) q p' }) = Some nodes2"
  shows "grown cfg nodes pnode 1 nodes2"
proof (cases pnode)
  case None
  then have n2: "nodes2 = nodes @ [NonCpuPowerNode_new cfg None]" using step by simp
  show ?thesis
    using wf_nodesD [OF wf] new_node_ok [of cfg None] None
    unfolding grown_def wf_nodes_def n2 extends_def wf_parents_def
    by (auto simp: nth_append less_Suc_eq)
next
  case (Some q)
  let ?n = "NonCpuPowerNode_new cfg (Some q)"
  obtain p' where p': "assign_non_cpu cfg (nodes ! q) (length nodes) = Some p'"
      "nodes2 = (nodes @ [?n])[q := p']"
    using step Some q [OF Some]
    by (auto simp: bind_eq_Some_conv index_try_into_def nth_append split: if_splits)
  note A = assign_non_cpu_Some [OF p'(1) wf_nodesD(2,3) [OF wf q [OF Some]]]
  have nth: "nodes2 ! i = (if i = q then p' else if i = length nodes then ?n else nodes ! i)"
    if "i < Suc (length nodes)" for i
    using that q [OF Some] by (auto simp: p'(2) nth_list_update nth_append)
  have len: "length nodes2 = Suc (length nodes)" by (simp add: p'(2))
  have par: "nc_parent (nodes2 ! i) = (if i = length nodes then Some q else nc_parent (nodes ! i))"
    if "i < Suc (length nodes)" for i
    using nth [OF that] A(3) q [OF Some] by (simp add: new_node_ok)
  have "wf_parents nodes2"
    using wf_nodesD(1) [OF wf] q [OF Some] par len
    unfolding wf_parents_def by (auto simp: less_Suc_eq)
  moreover have "wf_node (nodes2 ! i) \<and> fresh_node cfg (nodes2 ! i)" if "i < Suc (length nodes)" for i
    using nth [OF that] A(1,2) wf_nodesD(2,3) [OF wf] that by (auto simp: new_node_ok)
  moreover have "in_kids (nodes2 ! p) j \<longleftrightarrow> j < Suc (length nodes) \<and> nc_parent (nodes2 ! j) = Some p"
    if p: "p < Suc (length nodes)" for p j
  proof -
    have no: "nc_parent (nodes ! j) \<noteq> Some (length nodes)" if "j < length nodes" for j
      using wf_nodesD(1) [OF wf] that unfolding wf_parents_def by fastforce
    show ?thesis
      using nth [OF p] A(5) [of j] wf_nodesD(4) [OF wf, of _ j] par [of j] q [OF Some] p no [of j]
      by (cases "j < Suc (length nodes)") (auto simp: new_node_ok less_Suc_eq split: if_splits)
  qed
  ultimately have "wf_nodes cfg nodes2" using len by (simp add: wf_nodes_def)
  then show ?thesis
    using len par nth A(4) Some q [OF Some]
    by (auto simp: grown_def extends_def new_node_ok less_Suc_eq)
qed

lemma grown_trans:
  assumes "grown cfg nodes pnode m nodes1" "grown cfg nodes1 pnode n nodes2"
  shows "grown cfg nodes pnode (m + n) nodes2"
  using assms extends_trans unfolding grown_def extends_def
  by (smt (verit) add.assoc le_add1 linorder_not_le order.strict_trans2)

lemma new_children_grown:
  assumes "new_children cfg pnode n (length nodes) nodes = Some (index', nodes')"
    and "wf_nodes cfg nodes"
    and "\<And>q. length nodes < NON_CPU_DOMAIN_COUNT cfg \<Longrightarrow> pnode = Some q \<Longrightarrow> q < length nodes"
  shows "grown cfg nodes pnode (min n (NON_CPU_DOMAIN_COUNT cfg - length nodes)) nodes' \<and>
    index' = length nodes'"
  using assms
proof (induction n arbitrary: nodes)
  case 0
  then show ?case by (auto simp: grown_def)
next
  case (Suc n)
  show ?case
  proof (cases "length nodes < NON_CPU_DOMAIN_COUNT cfg")
    case False
    then show ?thesis using Suc.prems by (auto simp: grown_def)
  next
    case True
    let ?n1 = "nodes @ [NonCpuPowerNode_new cfg pnode]"
    obtain nodes2 where
      step: "(case pnode of
          None \<Rightarrow> Some ?n1
        | Some q \<Rightarrow> do {
            p \<leftarrow> checked_index ?n1 q;
            i \<leftarrow> index_try_into cfg (length nodes);
            p' \<leftarrow> assign_non_cpu cfg p i;
            checked_update ?n1 q p' }) = Some nodes2"
      and rest: "new_children cfg pnode n (Suc (length nodes)) nodes2 = Some (index', nodes')"
      using Suc.prems(1) True by (auto simp: bind_eq_Some_conv array_push_Some)
    have g: "grown cfg nodes pnode 1 nodes2"
      using add_child [OF Suc.prems(2) _ step] Suc.prems(3) True by blast
    then have len: "length nodes2 = Suc (length nodes)" and wf2: "wf_nodes cfg nodes2"
      by (auto simp: grown_def)
    have "grown cfg nodes2 pnode (min n (NON_CPU_DOMAIN_COUNT cfg - length nodes2)) nodes' \<and>
        index' = length nodes'"
      using rest wf2 Suc.prems(3) True len by (intro Suc.IH) auto
    moreover have "min (Suc n) (NON_CPU_DOMAIN_COUNT cfg - length nodes) =
        1 + min n (NON_CPU_DOMAIN_COUNT cfg - length nodes2)"
      using len True by simp
    ultimately show ?thesis using grown_trans [OF g] by metis
  qed
qed

section \<open>Levels\<close>

text \<open>
  After \<open>d\<close> levels the nodes of the last level start at \<open>lo\<close>: their paths have length \<open>d\<close> and they
  have no children yet. \<open>cnt\<close> nodes were asked for, and created unless the array is full.
\<close>

definition level_state ::
  "'ps psci_cfg \<Rightarrow> nat \<Rightarrow> nat \<Rightarrow> nat \<Rightarrow> 'ps NonCpuPowerNode list \<Rightarrow> bool" where
  "level_state cfg d lo cnt nodes \<longleftrightarrow>
     wf_nodes cfg nodes \<and> length nodes \<le> NON_CPU_DOMAIN_COUNT cfg \<and> length nodes \<le> lo + cnt \<and>
     (length nodes < NON_CPU_DOMAIN_COUNT cfg \<longrightarrow> length nodes = lo + cnt) \<and>
     (\<forall>j < length nodes. cpu_range (nodes ! j) = (0, 0) \<and>
        (lo \<le> j \<longrightarrow> length (path nodes j) = d) \<and>
        (\<forall>p. nc_parent (nodes ! j) = Some p \<longrightarrow> p < lo))"

lemma new_level_nodes:
  assumes start: "level_state cfg d lo cnt nodes0"
  shows "new_level cfg topology n (length nodes, nodes, done_count, Suc q, Some q) =
      Some (index', nodes', next_count, pidx', pnode') \<Longrightarrow>
    wf_nodes cfg nodes \<Longrightarrow> extends nodes0 nodes \<Longrightarrow> q + n = lo + cnt \<Longrightarrow> lo \<le> q \<Longrightarrow>
    length nodes \<le> NON_CPU_DOMAIN_COUNT cfg \<Longrightarrow> length nodes \<le> length nodes0 + done_count \<Longrightarrow>
    (length nodes < NON_CPU_DOMAIN_COUNT cfg \<longrightarrow> length nodes = length nodes0 + done_count) \<Longrightarrow>
    (\<forall>j. length nodes0 \<le> j \<and> j < length nodes \<longrightarrow> cpu_range (nodes ! j) = (0, 0) \<and>
       (\<exists>p. nc_parent (nodes ! j) = Some p \<and> lo \<le> p \<and> p < length nodes0)) \<Longrightarrow>
    index' = length nodes' \<and> pidx' = Suc (lo + cnt) \<and> pnode' = Some (lo + cnt) \<and>
    wf_nodes cfg nodes' \<and> extends nodes0 nodes' \<and>
    length nodes' \<le> NON_CPU_DOMAIN_COUNT cfg \<and> length nodes' \<le> length nodes0 + next_count \<and>
    (length nodes' < NON_CPU_DOMAIN_COUNT cfg \<longrightarrow> length nodes' = length nodes0 + next_count) \<and>
    (\<forall>j. length nodes0 \<le> j \<and> j < length nodes' \<longrightarrow> cpu_range (nodes' ! j) = (0, 0) \<and>
       (\<exists>p. nc_parent (nodes' ! j) = Some p \<and> lo \<le> p \<and> p < length nodes0))"
proof (induction n arbitrary: nodes done_count q)
  case 0
  then show ?case by auto
next
  case (Suc n)
  obtain child_count index1 nodes1 where
    kids: "new_children cfg (Some q) child_count (length nodes) nodes = Some (index1, nodes1)"
    and rest: "new_level cfg topology n (index1, nodes1, done_count + child_count, Suc (Suc q), Some (Suc q)) =
      Some (index', nodes', next_count, pidx', pnode')"
    using Suc.prems(1) by (auto simp: bind_eq_Some_conv index_add_def split: if_splits)
  let ?C = "NON_CPU_DOMAIN_COUNT cfg"
  have l0: "length nodes0 \<le> length nodes" using Suc.prems(3) by (simp add: extends_def)
  have q: "q < length nodes0" if "length nodes < ?C"
    using start Suc.prems(4) that l0 by (simp add: level_state_def)
  have g: "grown cfg nodes (Some q) (min child_count (?C - length nodes)) nodes1"
    and i1: "index1 = length nodes1"
    using new_children_grown [OF kids Suc.prems(2)] q l0 order.strict_trans2 by blast+
  have len: "length nodes1 = length nodes + min child_count (?C - length nodes)"
    and wf1: "wf_nodes cfg nodes1" and ext: "extends nodes nodes1"
    and new: "\<And>j. length nodes \<le> j \<Longrightarrow> j < length nodes1 \<Longrightarrow>
      nc_parent (nodes1 ! j) = Some q \<and> cpu_range (nodes1 ! j) = (0, 0)"
    using g by (auto simp: grown_def)
  show ?case
  proof (rule Suc.IH [of nodes1 "done_count + child_count" "Suc q"])
    show "new_level cfg topology n
        (length nodes1, nodes1, done_count + child_count, Suc (Suc q), Some (Suc q)) =
      Some (index', nodes', next_count, pidx', pnode')" using rest i1 by simp
    show "extends nodes0 nodes1" using extends_trans [OF Suc.prems(3) ext] .
    show "\<forall>j. length nodes0 \<le> j \<and> j < length nodes1 \<longrightarrow> cpu_range (nodes1 ! j) = (0, 0) \<and>
       (\<exists>p. nc_parent (nodes1 ! j) = Some p \<and> lo \<le> p \<and> p < length nodes0)"
    proof (intro allI impI)
      fix j assume j: "length nodes0 \<le> j \<and> j < length nodes1"
      show "cpu_range (nodes1 ! j) = (0, 0) \<and>
          (\<exists>p. nc_parent (nodes1 ! j) = Some p \<and> lo \<le> p \<and> p < length nodes0)"
      proof (cases "j < length nodes")
        case True
        then show ?thesis using Suc.prems(9) j ext by (simp add: extends_def)
      next
        case False
        then have "length nodes < ?C" using j len by auto
        with False j new [of j] q Suc.prems(5) show ?thesis by simp
      qed
    qed
  qed (use wf1 Suc.prems(4-8) len in auto)
qed

lemma level_state_next:
  assumes start: "level_state cfg d lo cnt nodes0"
    and step: "new_level cfg topology cnt (length nodes0, nodes0, 0, Suc lo, Some lo) =
      Some (index', nodes', next_count, pidx', pnode')"
  shows "index' = length nodes'" "pidx' = Suc (lo + cnt)" "pnode' = Some (lo + cnt)"
    "level_state cfg (Suc d) (lo + cnt) next_count nodes'"
proof -
  have wf0: "wf_nodes cfg nodes0" and len0: "length nodes0 \<le> lo + cnt"
    and lev: "\<And>j. j < length nodes0 \<Longrightarrow> lo \<le> j \<Longrightarrow> length (path nodes0 j) = d"
    and par0: "\<And>j p. j < length nodes0 \<Longrightarrow> nc_parent (nodes0 ! j) = Some p \<Longrightarrow> p < lo"
    and cpu0: "\<And>j. j < length nodes0 \<Longrightarrow> cpu_range (nodes0 ! j) = (0, 0)"
    and full: "length nodes0 \<le> NON_CPU_DOMAIN_COUNT cfg"
      "length nodes0 < NON_CPU_DOMAIN_COUNT cfg \<longrightarrow> length nodes0 = lo + cnt"
    using start by (auto simp: level_state_def)
  have a: "length nodes0 \<le> length nodes0 + 0"
    and b: "length nodes0 < NON_CPU_DOMAIN_COUNT cfg \<longrightarrow> length nodes0 = length nodes0 + 0"
    and c: "\<forall>j. length nodes0 \<le> j \<and> j < length nodes0 \<longrightarrow> cpu_range (nodes0 ! j) = (0, 0) \<and>
      (\<exists>p. nc_parent (nodes0 ! j) = Some p \<and> lo \<le> p \<and> p < length nodes0)"
    by auto
  have R: "index' = length nodes'" "pidx' = Suc (lo + cnt)" "pnode' = Some (lo + cnt)"
      "wf_nodes cfg nodes'" "extends nodes0 nodes'"
      "length nodes' \<le> NON_CPU_DOMAIN_COUNT cfg" "length nodes' \<le> length nodes0 + next_count"
      "length nodes' < NON_CPU_DOMAIN_COUNT cfg \<longrightarrow> length nodes' = length nodes0 + next_count"
      "\<forall>j. length nodes0 \<le> j \<and> j < length nodes' \<longrightarrow> cpu_range (nodes' ! j) = (0, 0) \<and>
         (\<exists>p. nc_parent (nodes' ! j) = Some p \<and> lo \<le> p \<and> p < length nodes0)"
    using new_level_nodes [OF start step wf0 extends_refl refl order_refl full(1) a b c] by blast+
  show "index' = length nodes'" "pidx' = Suc (lo + cnt)" "pnode' = Some (lo + cnt)" by (fact R)+
  have ext: "length nodes0 \<le> length nodes'"
      "\<And>j. j < length nodes0 \<Longrightarrow> nc_parent (nodes' ! j) = nc_parent (nodes0 ! j) \<and>
        cpu_range (nodes' ! j) = cpu_range (nodes0 ! j)"
    using R(5) by (auto simp: extends_def)
  have "length (path nodes' j) = Suc d" if j: "j < length nodes'" "lo + cnt \<le> j" for j
  proof -
    have "length nodes0 \<le> j" using len0 j by simp
    with R(9) j obtain p where p: "nc_parent (nodes' ! j) = Some p" "lo \<le> p" "p < length nodes0" by auto
    then have "length (path nodes' p) = d"
      using extends_path [OF wf_nodesD(1) [OF wf0] R(5)] lev by simp
    then show ?thesis using path_Cons [OF wf_nodesD(1) [OF R(4)] j(1)] p(1) by simp
  qed
  moreover have "cpu_range (nodes' ! j) = (0, 0)" if "j < length nodes'" for j
    using that R(9) ext cpu0 by (cases "j < length nodes0") auto
  moreover have "p < lo + cnt" if "j < length nodes'" "nc_parent (nodes' ! j) = Some p" for j p
    using that R(9) [rule_format, of j] ext(2) [of j] par0 [of j p] len0
    by (cases "j < length nodes0") auto
  ultimately show "level_state cfg (Suc d) (lo + cnt) next_count nodes'"
    using R(4,6-8) len0 full unfolding level_state_def by auto
qed

lemma new_levels_state:
  "level_state cfg d lo cnt nodes \<Longrightarrow>
   new_levels cfg topology n cnt (length nodes, nodes, Suc lo, Some lo) = Some (index', nodes', pidx') \<Longrightarrow>
   \<exists>lo' cnt'. index' = length nodes' \<and> pidx' = Suc lo' \<and> level_state cfg (d + n) lo' cnt' nodes'"
proof (induction n arbitrary: d lo cnt nodes)
  case 0
  then show ?case by auto
next
  case (Suc n)
  obtain i1 n1 c1 p1 q1 where s:
    "new_level cfg topology cnt (length nodes, nodes, 0, Suc lo, Some lo) = Some (i1, n1, c1, p1, q1)"
    "new_levels cfg topology n c1 (i1, n1, p1, q1) = Some (index', nodes', pidx')"
    using Suc.prems(2) by (auto simp: bind_eq_Some_conv)
  note L = level_state_next [OF Suc.prems(1) s(1)]
  show ?case using Suc.IH [OF L(4)] s(2) L(1-3) by simp
qed

lemma new_levels_first:
  assumes "new_levels cfg topology (Suc n) 1 (0, [], 0, None) = Some (index', nodes', pidx')"
  shows "\<exists>lo cnt. index' = length nodes' \<and> pidx' = Suc lo \<and> level_state cfg (Suc n) lo cnt nodes'"
proof -
  obtain cnt i1 n1 where s: "new_children cfg None cnt 0 [] = Some (i1, n1)"
      "new_levels cfg topology n cnt (i1, n1, Suc 0, Some 0) = Some (index', nodes', pidx')"
    using assms by (auto simp: bind_eq_Some_conv index_add_def split: if_splits)
  have g: "grown cfg [] None (min cnt (NON_CPU_DOMAIN_COUNT cfg)) n1" "i1 = length n1"
    using new_children_grown [of cfg None cnt "[]"] s(1) by (auto simp: wf_nodes_def wf_parents_def)
  then have wf: "wf_nodes cfg n1" and len: "length n1 = min cnt (NON_CPU_DOMAIN_COUNT cfg)"
    and new: "\<And>j. j < length n1 \<Longrightarrow> nc_parent (n1 ! j) = None \<and> cpu_range (n1 ! j) = (0, 0)"
    by (auto simp: grown_def)
  have "level_state cfg 1 0 cnt n1"
    using wf len new path_Cons [OF wf_nodesD(1) [OF wf]] by (auto simp: level_state_def)
  from new_levels_state [OF this] s(2) g(2) show ?thesis by simp
qed

section \<open>Attaching the CPUs\<close>

lemma assign_cpu_Some:
  assumes "assign_cpu cfg n c = Some n'" "wf_node n" "fresh_node cfg n"
  shows "wf_node n'" "fresh_node cfg n'" "nc_parent n' = nc_parent n" "in_kids n' = in_kids n"
    "in_cpus n' c' \<longleftrightarrow> in_cpus n c' \<or> c' = c"
  using assms
  by (auto simp: assign_cpu_def index_add_def range_is_empty_def wf_node_def fresh_node_def
      in_kids_def in_cpus_def range_contains_def bind_eq_Some_conv fun_eq_iff split: if_splits)

lemma wf_nodes_update:
  assumes "wf_nodes cfg nodes" "p < length nodes"
    and "wf_node n'" "fresh_node cfg n'" "nc_parent n' = nc_parent (nodes ! p)" "in_kids n' = in_kids (nodes ! p)"
  shows "wf_nodes cfg (nodes[p := n'])"
proof -
  have "nc_parent (nodes[p := n'] ! i) = nc_parent (nodes ! i)"
      "in_kids (nodes[p := n'] ! i) = in_kids (nodes ! i)" if "i < length nodes" for i
    using that assms by (auto simp: nth_list_update)
  then show ?thesis
    using assms wf_nodesD [OF assms(1)]
    unfolding wf_nodes_def wf_parents_def by (auto simp: nth_list_update)
qed

definition cpu_assigned ::
  "'ps psci_cfg \<Rightarrow> 'ps NonCpuPowerNode list \<Rightarrow> nat \<Rightarrow> nat \<Rightarrow> 'ps NonCpuPowerNode list \<Rightarrow> bool" where
  "cpu_assigned cfg nodes p c nodes' \<longleftrightarrow>
     p < length nodes \<and> wf_nodes cfg nodes' \<and> length nodes' = length nodes \<and>
     (\<forall>i < length nodes. nc_parent (nodes' ! i) = nc_parent (nodes ! i) \<and>
        (\<forall>c'. in_cpus (nodes' ! i) c' \<longleftrightarrow>
           in_cpus (nodes ! i) c' \<or> c' = c \<and> i \<in> set (path nodes p)))"

lemma tree_assign_cpu_assigned:
  "tree_assign_cpu cfg nodes held p c = Some nodes' \<Longrightarrow> wf_nodes cfg nodes \<Longrightarrow>
     cpu_assigned cfg nodes p c nodes'"
proof (induction cfg nodes held p c rule: tree_assign_cpu.induct)
  case (1 cfg nodes held p c)
  have p: "p < length nodes" "p \<notin> set held"
    using "1.prems"(1) by (subst (asm) tree_assign_cpu.simps, simp split: if_splits)+
  obtain n' where n': "assign_cpu cfg (nodes ! p) c = Some n'"
    using "1.prems"(1) p by (subst (asm) tree_assign_cpu.simps) (auto split: option.splits)
  note A = assign_cpu_Some [OF n' wf_nodesD(2,3) [OF "1.prems"(2) p(1)]]
  let ?n1 = "nodes[p := n']"
  have wf1: "wf_nodes cfg ?n1" using wf_nodes_update [OF "1.prems"(2) p(1) A(1-4)] .
  note pc = path_Cons [OF wf_nodesD(1) [OF "1.prems"(2)] p(1)]
  have par1: "nc_parent (?n1 ! i) = nc_parent (nodes ! i)" if "i < length nodes" for i
    using that A(3) p(1) by (cases "i = p") auto
  have path1: "path ?n1 i = path nodes i" for i
    using par1 by (intro path_cong) simp_all
  show ?case
  proof (cases "nc_parent n'")
    case None
    then have "nodes' = ?n1"
      using "1.prems"(1) p n' by (subst (asm) tree_assign_cpu.simps) simp
    then show ?thesis
      using wf1 p(1) par1 A(3,5) None by (auto simp: cpu_assigned_def pc nth_list_update)
  next
    case (Some g)
    then have rec: "tree_assign_cpu cfg ?n1 (p # held) g c = Some nodes'"
      using "1.prems"(1) p n' by (subst (asm) tree_assign_cpu.simps) simp
    have "cpu_assigned cfg ?n1 g c nodes'"
      using "1.IH" [OF _ n' Some rec wf1] p by simp
    moreover have "path nodes p = p # path nodes g" using pc Some A(3) by simp
    ultimately show ?thesis
      using p(1) par1 A(5) by (auto simp: cpu_assigned_def path1 nth_list_update)
  qed
qed

definition cpu_state ::
  "'ps psci_cfg \<Rightarrow> nat \<Rightarrow> 'ps CpuPowerNode list \<Rightarrow> 'ps NonCpuPowerNode list \<Rightarrow>
     'ps NonCpuPowerNode list \<Rightarrow> bool" where
  "cpu_state cfg lo cpus nodes0 nodes \<longleftrightarrow>
     wf_nodes cfg nodes \<and> length nodes = length nodes0 \<and> length cpus \<le> CPU_DOMAIN_COUNT cfg \<and>
     (\<forall>i < length nodes0. nc_parent (nodes ! i) = nc_parent (nodes0 ! i)) \<and>
     (\<forall>c < length cpus. \<exists>p. cpus ! c = CpuPowerNode_new cfg p \<and> lo \<le> p \<and> p < length nodes) \<and>
     (\<forall>i < length nodes. \<forall>c. in_cpus (nodes ! i) c \<longleftrightarrow>
        c < length cpus \<and> i \<in> set (path nodes (cpu_parent (cpus ! c))))"

lemma cpu_state_add:
  assumes st: "cpu_state cfg lo cpus nodes0 nodes" and lt: "length cpus < CPU_DOMAIN_COUNT cfg"
    and asg: "cpu_assigned cfg nodes p (length cpus) nodes'" and lo: "lo \<le> p"
  shows "cpu_state cfg lo (cpus @ [CpuPowerNode_new cfg p]) nodes0 nodes'"
proof -
  have path: "path nodes' i = path nodes i" for i
    using asg by (intro path_cong) (auto simp: cpu_assigned_def)
  have par: "cpu_parent (CpuPowerNode_new cfg p) = p" by (simp add: CpuPowerNode_new_def)
  show ?thesis
    using st lt asg lo unfolding cpu_state_def cpu_assigned_def path
    by (auto simp: nth_append par less_Suc_eq)
qed

lemma new_cpu_children_state:
  "new_cpu_children cfg p n (length cpus) cpus nodes = Some (index', cpus', nodes') \<Longrightarrow>
     cpu_state cfg lo cpus nodes0 nodes \<Longrightarrow> lo \<le> p \<Longrightarrow>
     index' = length cpus' \<and> cpu_state cfg lo cpus' nodes0 nodes'"
proof (induction n arbitrary: cpus nodes)
  case 0
  then show ?case by auto
next
  case (Suc n)
  show ?case
  proof (cases "length cpus < CPU_DOMAIN_COUNT cfg")
    case False
    then show ?thesis using Suc.prems by auto
  next
    case True
    obtain nodes1 where s: "tree_assign_cpu cfg nodes [] p (length cpus) = Some nodes1"
        "new_cpu_children cfg p n (Suc (length cpus)) (cpus @ [CpuPowerNode_new cfg p]) nodes1 =
           Some (index', cpus', nodes')"
      using Suc.prems(1) True
      by (auto simp: bind_eq_Some_conv index_try_into_def array_push_Some split: if_splits)
    have "cpu_assigned cfg nodes p (length cpus) nodes1"
      using tree_assign_cpu_assigned [OF s(1)] Suc.prems(2) by (simp add: cpu_state_def)
    from cpu_state_add [OF Suc.prems(2) True this Suc.prems(3)] s(2) show ?thesis
      using Suc.IH [of "cpus @ [CpuPowerNode_new cfg p]" nodes1] Suc.prems(3) by simp
  qed
qed

lemma new_cpus_state:
  "new_cpus cfg topo pidx (length cpus) cpus nodes = Some (index', cpus', nodes') \<Longrightarrow>
     cpu_state cfg lo cpus nodes0 nodes \<Longrightarrow> lo < pidx \<Longrightarrow>
     index' = length cpus' \<and> cpu_state cfg lo cpus' nodes0 nodes'"
proof (induction topo arbitrary: pidx cpus nodes)
  case Nil
  then show ?case by auto
next
  case (Cons n topo)
  obtain i1 c1 n1 where s:
    "(if n = 0 \<or> \<not> length cpus < CPU_DOMAIN_COUNT cfg then Some (length cpus, cpus, nodes)
      else do { parent \<leftarrow> checked_minus pidx 1; new_cpu_children cfg parent n (length cpus) cpus nodes })
     = Some (i1, c1, n1)"
    "new_cpus cfg topo (Suc pidx) i1 c1 n1 = Some (index', cpus', nodes')"
    using Cons.prems(1) by (auto simp: bind_eq_Some_conv index_add_def split: if_splits)
  have "i1 = length c1 \<and> cpu_state cfg lo c1 nodes0 n1"
  proof (cases "n = 0 \<or> \<not> length cpus < CPU_DOMAIN_COUNT cfg")
    case True
    then show ?thesis using s(1) Cons.prems(2) by auto
  next
    case False
    then have "new_cpu_children cfg (pidx - 1) n (length cpus) cpus nodes = Some (i1, c1, n1)"
      using s(1) by (auto simp: bind_eq_Some_conv)
    then show ?thesis using new_cpu_children_state Cons.prems(2,3) by (metis Suc_leI diff_Suc_1 diff_le_mono)
  qed
  then show ?case using Cons.IH [of "Suc pidx" c1 n1] s(2) Cons.prems(3) by simp
qed

section \<open>The tree\<close>

definition fresh_tree :: "'ps psci_cfg \<Rightarrow> 'ps PowerDomainTree \<Rightarrow> bool" where
  "fresh_tree cfg t \<longleftrightarrow>
     wf_tree cfg t \<and>
     (\<forall>i < NON_CPU_DOMAIN_COUNT cfg. fresh_node cfg (non_cpu_power_nodes t ! i)) \<and>
     (\<forall>c < CPU_DOMAIN_COUNT cfg. \<exists>p. cpu_power_nodes t ! c = CpuPowerNode_new cfg p)"

lemma PowerDomainTree_new_fresh:
  assumes "PowerDomainTree_new cfg topology = Some t" "0 < MAX_POWER_LEVEL cfg"
  shows "fresh_tree cfg t"
proof -
  obtain index nodes pidx cindex cpus nodes' where
    max: "CPU_DOMAIN_COUNT cfg \<le> NODE_INDEX_MAX cfg" and
    levels: "new_levels cfg topology (MAX_POWER_LEVEL cfg) 1 (0, [], 0, None) = Some (index, nodes, pidx)"
      "\<not> index < NON_CPU_DOMAIN_COUNT cfg" and
    cpus: "new_cpus cfg (drop pidx topology) pidx 0 [] nodes = Some (cindex, cpus, nodes')"
      "\<not> cindex < CPU_DOMAIN_COUNT cfg" and
    t: "t = \<lparr>non_cpu_power_nodes = nodes', cpu_power_nodes = cpus\<rparr>"
    using assms(1) by (auto simp: PowerDomainTree_new_def CPU_POWER_LEVEL_def bind_eq_Some_conv)
  obtain lo cnt where lev: "index = length nodes" "pidx = Suc lo"
      "level_state cfg (MAX_POWER_LEVEL cfg) lo cnt nodes"
    using new_levels_first [of cfg topology "MAX_POWER_LEVEL cfg - 1"] levels(1) assms(2) by auto
  have "cpu_state cfg lo [] nodes nodes"
    using lev(3) by (auto simp: cpu_state_def level_state_def in_cpus_def range_contains_def)
  then have st: "cindex = length cpus" "cpu_state cfg lo cpus nodes nodes'"
    using new_cpus_state [of cfg _ pidx "[]"] cpus(1) lev(2) by auto
  have path: "path nodes' i = path nodes i" for i
    using st(2) by (intro path_cong) (auto simp: cpu_state_def)
  have len: "length nodes' = NON_CPU_DOMAIN_COUNT cfg" "length nodes = NON_CPU_DOMAIN_COUNT cfg"
      "length cpus = CPU_DOMAIN_COUNT cfg"
    using st lev(1,3) levels(2) cpus(2) by (auto simp: cpu_state_def level_state_def)
  have wf: "wf_nodes cfg nodes'" using st(2) by (simp add: cpu_state_def)
  have cpu: "\<exists>p. cpus ! c = CpuPowerNode_new cfg p \<and> cpu_parent (cpus ! c) = p \<and>
      p < NON_CPU_DOMAIN_COUNT cfg \<and> length (path nodes' p) = MAX_POWER_LEVEL cfg \<and>
      (\<forall>j. \<not> in_kids (nodes' ! p) j)" if c: "c < CPU_DOMAIN_COUNT cfg" for c
  proof -
    obtain p where p: "cpus ! c = CpuPowerNode_new cfg p" "lo \<le> p" "p < NON_CPU_DOMAIN_COUNT cfg"
      using st(2) c len by (auto simp: cpu_state_def)
    have "\<not> in_kids (nodes' ! p) j" for j
      using wf_nodesD(4) [OF wf, of p j] p(2,3) st(2) lev(3) len
      by (auto simp: cpu_state_def level_state_def)
    with p lev(3) len show ?thesis
      by (auto simp: CpuPowerNode_new_def path level_state_def)
  qed
  have "wf_tree cfg t"
    using wf_nodesD [OF wf] len max cpu st(2)
    unfolding wf_tree_def t cpu_path_def cpu_state_def by (auto, metis+)
  then show ?thesis
    using wf_nodesD(3) [OF wf] cpu len unfolding fresh_tree_def t by auto
qed

end
