(* ===== verification/Psci_System.thy ===== *)
theory Psci_System
  imports Psci_Handlers Tree_New
begin

text \<open>
  The whole PSCI service as a transition system: every core runs, waits or is off, and its calls,
  wake-ups and boots are the steps. The invariant holds in every reachable state, and no step that
  the hardware can take panics.
\<close>

section \<open>Phases of a core\<close>

datatype 'ps phase =
  Running
  | WaitStandby
  | WaitSuspended "'ps PsciCompositePowerState" bool
  | IsOff
  | Stopped

fun next_phase :: "('ps, 'r) outcome \<Rightarrow> 'ps phase" where
  "next_phase (Returned _) = Running"
| "next_phase InStandby = WaitStandby"
| "next_phase (InSuspend cs pd) = WaitSuspended cs pd"
| "next_phase PoweredOff = IsOff"
| "next_phase Frozen = Stopped"
| "next_phase SystemDown = Stopped"

lemma next_phase_outcome_success [simp]: "next_phase (outcome_success oc) = next_phase oc"
  by (cases oc) (auto simp: outcome_success_def)

definition standby_ok :: "'ps psci_cfg \<Rightarrow> 'ps PowerDomainTree \<Rightarrow> nat \<Rightarrow> bool" where
  "standby_ok cfg t c \<longleftrightarrow>
     affinity_info (cpu_power_nodes t ! c) = On \<and> entry_point (cpu_power_nodes t ! c) = None \<and>
     (\<forall>i < NON_CPU_DOMAIN_COUNT cfg. in_cpus (non_cpu_power_nodes t ! i) c \<longrightarrow>
        req (non_cpu_power_nodes t ! i) c = PS_RUN cfg \<and> sus (non_cpu_power_nodes t ! i) c = None)"

fun phase_ok :: "'ps psci_cfg \<Rightarrow> 'ps PowerDomainTree \<Rightarrow> nat \<Rightarrow> 'ps phase \<Rightarrow> bool" where
  "phase_ok cfg t c Running = active cfg t c"
| "phase_ok cfg t c WaitStandby = standby_ok cfg t c"
| "phase_ok cfg t c (WaitSuspended cs pd) \<longleftrightarrow>
     affinity_info (cpu_power_nodes t ! c) = On \<and>
     length (cs_states cs) = Suc (MAX_POWER_LEVEL cfg) \<and>
     (pd \<longleftrightarrow> power_state_type cfg (cpu_local_state (cpu_power_nodes t ! c)) = PowerDownType)"
| "phase_ok cfg t c IsOff \<longleftrightarrow> affinity_info (cpu_power_nodes t ! c) \<noteq> On"
| "phase_ok cfg t c Stopped = active cfg t c"

text \<open>A call leaves the other cores alone, but may turn one that is off to pending.\<close>

definition step_frame :: "'ps psci_cfg \<Rightarrow> 'ps PowerDomainTree \<Rightarrow> 'ps PowerDomainTree \<Rightarrow> nat \<Rightarrow> bool" where
  "step_frame cfg t t' c \<longleftrightarrow>
     tree_frame t t' c \<and>
     (\<forall>c' < CPU_DOMAIN_COUNT cfg. c' \<noteq> c \<longrightarrow>
        cpu_power_nodes t' ! c' = cpu_power_nodes t ! c' \<or>
        affinity_info (cpu_power_nodes t ! c') = Off \<and> affinity_info (cpu_power_nodes t' ! c') \<noteq> On)"

lemma step_frame_refl [simp]: "step_frame cfg t t c"
  by (simp add: step_frame_def tree_frame_def)

lemma step_frame_own:
  "tree_frame t t' c \<Longrightarrow> cpu_power_nodes t' = (cpu_power_nodes t)[c := cpu] \<Longrightarrow> step_frame cfg t t' c"
  by (simp add: step_frame_def)

lemma phase_ok_frame:
  assumes "step_frame cfg t t' c" "c' \<noteq> c" "c' < CPU_DOMAIN_COUNT cfg" "phase_ok cfg t c' ph"
    and "length (non_cpu_power_nodes t) = NON_CPU_DOMAIN_COUNT cfg"
  shows "phase_ok cfg t' c' ph"
  using assms by (cases ph) (auto simp: step_frame_def tree_frame_def active_def standby_ok_def)

definition call_post ::
  "'ps::linorder psci_cfg \<Rightarrow> 'ps Psci \<Rightarrow> nat \<Rightarrow> (('ps, 'r) outcome \<times> 'ps Psci) option \<Rightarrow> bool" where
  "call_post cfg s c result \<longleftrightarrow>
     (\<exists>oc s'. result = Some (oc, s') \<and> inv_tree cfg (power_domain_tree s') \<and>
        step_frame cfg (power_domain_tree s) (power_domain_tree s') c \<and>
        phase_ok cfg (power_domain_tree s') c (next_phase oc))"

lemma call_postI:
  "result = Some (oc, s') \<Longrightarrow> inv_tree cfg (power_domain_tree s') \<Longrightarrow>
     step_frame cfg (power_domain_tree s) (power_domain_tree s') c \<Longrightarrow>
     phase_ok cfg (power_domain_tree s') c (next_phase oc) \<Longrightarrow> call_post cfg s c result"
  by (auto simp: call_post_def)

lemma call_post_map:
  "call_post cfg s c result \<Longrightarrow> call_post cfg s c (map_option (apfst outcome_success) result)"
  by (auto simp: call_post_def)

context psci_platform_laws
begin

lemma unchanged_post:
  assumes "inv_tree cfg (power_domain_tree s)" "active cfg (power_domain_tree s) c"
    and "power_domain_tree s' = power_domain_tree s"
  shows "call_post cfg s c (Some (Returned r, s'))"
  using assms by (auto simp: call_post_def)

lemma suspend_post_call:
  assumes inv: "inv_tree cfg (power_domain_tree s)" and act: "active cfg (power_domain_tree s) c"
    and req: "suspend_request cfg cs hal pd"
    and post: "suspend_post cfg s c cs pd entry result"
  shows "call_post cfg s c result"
proof (cases "\<exists>r. result = Some (Returned r, s)")
  case True
  then show ?thesis using unchanged_post [OF inv act] by auto
next
  case False
  then obtain cs' s' where r: "result = Some (InSuspend cs' pd, s')"
      "length (cs_states cs') = Suc (MAX_POWER_LEVEL cfg)"
      "inv_tree cfg (power_domain_tree s')"
      "tree_frame (power_domain_tree s) (power_domain_tree s') c"
      "cpu_power_nodes (power_domain_tree s') = (cpu_power_nodes (power_domain_tree s))
         [c := suspended_cpu (cpu_power_nodes (power_domain_tree s) ! c) (cs_states cs ! 0) pd entry]"
    using post unfolding suspend_post_def by blast
  have "c < length (cpu_power_nodes (power_domain_tree s))"
    using act wf_treeD(1) [OF inv_treeD(1) [OF inv]] by (simp add: active_def)
  then show ?thesis
    using r act suspend_requestD(7) [OF req]
    by (intro call_postI [OF r(1,3) step_frame_own [OF r(4,5)]])
      (auto simp: suspended_cpu_def active_def)
qed

lemma env_okD:
  assumes "env_ok plat env"
  shows "has_feature plat SYSTEM_OFF2 \<Longrightarrow> \<exists>r. plat_system_off2 env a b = Some r"
    "has_feature plat SYSTEM_RESET2 \<Longrightarrow> \<exists>r. plat_system_reset2 env a b = Some r"
    "has_feature plat MEM_PROTECT \<Longrightarrow> \<exists>r. plat_mem_protect env d = Some r"
    "has_feature plat MEM_PROTECT_CHECK_RANGE \<Longrightarrow> \<exists>r. plat_mem_protect_check_range env e = Some r"
    "has_feature plat NODE_HW_STATE \<Longrightarrow> \<exists>r. plat_node_hw_state env g h = Some r"
  using assms unfolding env_ok_def by blast+

lemma env_osi:
  "env_ok plat env \<Longrightarrow> is_in_osi_mode plat mode \<Longrightarrow> power_domain_validate_suspend env cs \<noteq> None"
  unfolding env_ok_def is_in_osi_mode_def by metis

lemma active_votes:
  assumes inv: "inv_tree cfg t" and act: "active cfg t c"
    and i: "i < NON_CPU_DOMAIN_COUNT cfg" "in_cpus (non_cpu_power_nodes t ! i) c"
  shows "req (non_cpu_power_nodes t ! i) c = PS_RUN cfg" "sus (non_cpu_power_nodes t ! i) c = None"
proof -
  note wf = inv_treeD(1) [OF inv]
  have c: "c < CPU_DOMAIN_COUNT cfg" and run: "cpu_local_state (cpu_power_nodes t ! c) = PS_RUN cfg"
    using act by (auto simp: active_def)
  have "i \<in> set (cpu_path t c)" using wf_treeD(10) [OF wf i(1)] i(2) by simp
  then obtain k where "k < MAX_POWER_LEVEL cfg" "i = cpu_path t c ! k"
    using wf_treeD(8) [OF wf c] by (metis in_set_conv_nth)
  then show "req (non_cpu_power_nodes t ! i) c = PS_RUN cfg" "sus (non_cpu_power_nodes t ! i) c = None"
    using running_path [OF inv c run] by auto
qed

lemma standby_start_ok:
  assumes inv: "inv_tree cfg (power_domain_tree s)" and act: "active cfg (power_domain_tree s) c"
    and st: "power_state_type cfg st \<noteq> PowerDownType"
  shows "call_post cfg s c (do { s' \<leftarrow> set_cpu_local_state s c st; Some (InStandby, emit evs s') })"
proof -
  let ?t = "power_domain_tree s" and ?cpu = "cpu_power_nodes (power_domain_tree s) ! c"
  have c: "c < CPU_DOMAIN_COUNT cfg" using act by (simp add: active_def)
  have len: "length (cpu_power_nodes ?t) = CPU_DOMAIN_COUNT cfg" "length (non_cpu_power_nodes ?t) = NON_CPU_DOMAIN_COUNT cfg"
    using wf_treeD(1,2) [OF inv_treeD(1) [OF inv]] by auto
  let ?cpu' = "cpu_set_local_state ?cpu st"
  have ok: "cpu_ok cfg ?cpu'"
    using act active_entry [OF inv act] st by (simp add: cpu_ok_def cpu_set_local_state_def active_def)
  have new: "inv_tree cfg (unlock_cpu_node ?t c ?cpu')" "tree_frame ?t (unlock_cpu_node ?t c ?cpu') c"
    using cpu_update_inv [OF inv c _ ok] active_votes [OF inv act] run_least
    by (auto simp: vote_def cpu_set_local_state_def)
  have "standby_ok cfg (unlock_cpu_node ?t c ?cpu') c"
    using act active_entry [OF inv act] active_votes [OF inv act] c len
    by (auto simp: standby_ok_def unlock_cpu_node_def cpu_set_local_state_def active_def)
  then show ?thesis
    using new inv_treeD(1) [OF inv] c
    by (auto simp: call_post_def set_cpu_local_state_def locked_cpu_node_Some emit_def
        intro!: step_frame_own [where cpu = ?cpu'])
      (auto simp: unlock_cpu_node_def)
qed

lemma cpu_suspend_ok:
  assumes inv: "inv_tree cfg (power_domain_tree s)" and act: "active cfg (power_domain_tree s) c"
    and env: "env_ok plat env"
  shows "call_post cfg s c (cpu_suspend cfg plat env (suspend_mode s) s c ps entry)"
proof (cases "try_parse_power_state plat ps")
  case None
  then show ?thesis by (simp add: cpu_suspend_def unchanged_post [OF inv act])
next
  case (Some cs)
  let ?pd = "power_down_request ps"
  note valid = parse_valid [OF Some]
  have pd: "(case ps of StandbyOrRetention _ \<Rightarrow> False | PowerDown _ \<Rightarrow> True) = ?pd"
    by (cases ps) (simp_all add: power_down_request_def)
  obtain hal where hal: "find_highest_non_run_level cfg cs = Some hal"
    using valid by (auto simp: is_valid_suspend_request_def split: if_splits)
  have req: "suspend_request cfg cs hal ?pd" using valid hal by (simp add: suspend_request_def)
  have s0: "cpu_level_state cs = Some (cs_states cs ! 0)"
    using valid by (simp add: cpu_level_state_def CPU_POWER_LEVEL_def checked_index_Some)
  have "call_post cfg s c (cpu_suspend_start cfg plat env (suspend_mode s) s c (Some ps) entry hal cs ?pd)"
    using suspend_post_call [OF inv act req] cpu_suspend_start_ok [OF inv act req] env_osi [OF env] by blast
  moreover have "power_state_type cfg (cs_states cs ! 0) \<noteq> PowerDownType" if "\<not> ?pd"
    using suspend_requestD(7) [OF req] that by simp
  ultimately show ?thesis
    using Some valid hal s0 standby_start_ok [OF inv act] pd
    by (auto simp: cpu_suspend_def Let_def unchanged_post [OF inv act])
qed

lemma cpu_suspend_entry:
  assumes inv: "inv_tree cfg (power_domain_tree s)" and act: "active cfg (power_domain_tree s) c"
    and env: "env_ok plat env"
    and sus: "cpu_suspend cfg plat env (suspend_mode s) s c ps entry = Some (InSuspend cs' True, s')"
  shows "entry_point (cpu_power_nodes (power_domain_tree s') ! c) = Some entry"
proof -
  obtain cs where cs: "try_parse_power_state plat ps = Some cs"
    using sus by (auto simp: cpu_suspend_def split: option.splits)
  note valid = parse_valid [OF cs]
  obtain hal where hal: "find_highest_non_run_level cfg cs = Some hal"
    using valid by (auto simp: is_valid_suspend_request_def split: if_splits)
  have pd: "(case ps of StandbyOrRetention _ \<Rightarrow> False | PowerDown _ \<Rightarrow> True) = power_down_request ps"
    by (cases ps) (simp_all add: power_down_request_def)
  have start: "cpu_suspend_start cfg plat env (suspend_mode s) s c (Some ps) entry hal cs
      (power_down_request ps) = Some (InSuspend cs' True, s')"
    using sus cs hal valid pd by (auto simp: cpu_suspend_def Let_def bind_eq_Some_conv split: if_splits)
  have req: "suspend_request cfg cs hal (power_down_request ps)"
    using valid hal by (simp add: suspend_request_def)
  have "suspend_post cfg s c cs (power_down_request ps) entry (Some (InSuspend cs' True, s'))"
    using cpu_suspend_start_ok
        [OF inv act req, where env = env and plat = plat and ps = "Some ps" and entry = entry] env_osi [OF env] start by simp
  moreover have "c < length (cpu_power_nodes (power_domain_tree s))"
    using act wf_treeD(1) [OF inv_treeD(1) [OF inv]] by (simp add: active_def)
  ultimately show ?thesis by (auto simp: suspend_post_def suspended_cpu_def)
qed

lemma is_last_cpu_from_Some:
  assumes "\<And>i. i < length cpus \<Longrightarrow> k + i = c \<Longrightarrow> affinity_info (cpus ! i) = On"
  shows "\<exists>b. is_last_cpu_from c k cpus = Some b"
  using assms
proof (induction cpus arbitrary: k)
  case (Cons cpu cpus)
  have "affinity_info (cpus ! i) = On" if "i < length cpus" "Suc k + i = c" for i
    using Cons.prems [of "Suc i"] that by simp
  then obtain b where "is_last_cpu_from c (Suc k) cpus = Some b" using Cons.IH by blast
  with Cons.prems [of 0] show ?case by (auto simp: panic_simps)
qed auto

lemma is_last_cpu_Some: "active cfg t c \<Longrightarrow> \<exists>b. is_last_cpu t c = Some b"
  unfolding is_last_cpu_def by (intro is_last_cpu_from_Some) (auto simp: active_def)

lemma system_suspend_ok:
  assumes inv: "inv_tree cfg (power_domain_tree s)" and act: "active cfg (power_domain_tree s) c"
    and env: "env_ok plat env"
  shows "call_post cfg s c (system_suspend cfg plat env (suspend_mode s) s c entry)"
proof (cases "has_feature plat SYSTEM_SUSPEND")
  case False
  then show ?thesis by (simp add: system_suspend_def unchanged_post [OF inv act])
next
  case True
  obtain cs where cs: "sys_suspend_power_state plat = Some cs"
      "length (cs_states cs) = Suc (MAX_POWER_LEVEL cfg)" "is_valid_suspend_request cfg cs True"
      "power_state_type cfg (cs_states cs ! MAX_POWER_LEVEL cfg) = PowerDownType"
    using sys_suspend_valid [OF True] by blast
  obtain b where b: "is_last_cpu (power_domain_tree s) c = Some b"
    using is_last_cpu_Some [OF act] by blast
  have hal: "find_highest_non_run_level cfg cs = Some (MAX_POWER_LEVEL cfg)"
    using cs(2,4) unfolding find_highest_non_run_level_def by (intro rposition_SomeI) auto
  have top: "highest_level_state cs = Some (cs_states cs ! MAX_POWER_LEVEL cfg)"
    using cs(2) by (simp add: highest_level_state_def)
  have req: "suspend_request cfg cs (MAX_POWER_LEVEL cfg) True"
    using cs(2,3) hal by (simp add: suspend_request_def)
  have "call_post cfg s c
      (cpu_suspend_start cfg plat env (suspend_mode s) s c None entry (MAX_POWER_LEVEL cfg) cs True)"
    using suspend_post_call [OF inv act req] cpu_suspend_start_ok [OF inv act req] env_osi [OF env] by blast
  then show ?thesis
    using True b cs hal top
    by (auto simp: system_suspend_def unchanged_post [OF inv act])
qed

lemma try_get_cpu_index_Some:
  assumes "wf_tree cfg t"
  shows "\<exists>idx. try_get_cpu_index_by_mpidr cfg plat m = Some idx \<and>
    (\<forall>i. idx = Some i \<longrightarrow> i < CPU_DOMAIN_COUNT cfg)"
  using position_valid [of "from_psci_mpidr plat m"] wf_treeD(3) [OF assms]
  by (auto simp: try_get_cpu_index_by_mpidr_def index_try_into_def Let_def)

text \<open>\<open>CPU_ON\<close>: the target is another CPU, and only one that is off.\<close>

lemma cpu_on_ok:
  assumes inv: "inv_tree cfg (power_domain_tree s)" and act: "active cfg (power_domain_tree s) c"
  shows "call_post cfg s c (map_option (returned \<circ> apfst success_of) (cpu_on cfg plat env s target entry))"
proof -
  let ?t = "power_domain_tree s"
  note wf = inv_treeD(1) [OF inv]
  obtain idx where idx: "try_get_cpu_index_by_mpidr cfg plat target = Some idx"
      "\<And>i. idx = Some i \<Longrightarrow> i < CPU_DOMAIN_COUNT cfg"
    using try_get_cpu_index_Some [OF wf] by blast
  show ?thesis
  proof (cases "\<exists>i. idx = Some i \<and> is_valid_ns_entrypoint plat entry \<and>
      affinity_info (cpu_power_nodes ?t ! i) = Off \<and> (\<exists>u. power_domain_on env target = Inr u)")
    case False
    have same: "cpu\<lparr>affinity_info := Off\<rparr> = cpu" if "affinity_info cpu = Off" for cpu :: "'ps CpuPowerNode"
      using that by (cases cpu) simp
    have "\<exists>r s'. cpu_on cfg plat env s target entry = Some (r, s') \<and> power_domain_tree s' = ?t"
      using False idx wf
      by (cases idx; cases "power_domain_on env target")
        (auto simp: cpu_on_def locked_cpu_node_Some set_affinity_info_def emit_def
          unlock_same same split: AffinityInfo.splits)
    then show ?thesis
      by (auto simp: returned_def unchanged_post [OF inv act])
  next
    case True
    then obtain i u where i: "idx = Some i" "is_valid_ns_entrypoint plat entry"
        "affinity_info (cpu_power_nodes ?t ! i) = Off" "power_domain_on env target = Inr u" by blast
    let ?cpu = "cpu_power_nodes ?t ! i"
    let ?cpu' = "?cpu\<lparr>affinity_info := OnPending, entry_point := Some entry\<rparr>"
    have ic: "i < CPU_DOMAIN_COUNT cfg" using idx i(1) by simp
    have cpu: "cpu_local_state ?cpu = PS_OFF cfg" "entry_point ?cpu = None"
      using inv_treeD(2) [OF inv ic] i(3) by (simp_all add: cpu_ok_def)
    have new: "inv_tree cfg (unlock_cpu_node ?t i ?cpu')"
      using cpu off_greatest by (intro cpu_update_inv(1) [OF inv ic]) (simp_all add: cpu_ok_def)
    have ne: "i \<noteq> c" using act i(3) by (auto simp: active_def)
    have "cpu_on cfg plat env s target entry = Some (Inr (),
        (emit [PowerDomainOn target] s)\<lparr>power_domain_tree := unlock_cpu_node ?t i ?cpu'\<rparr>)"
      using idx(1) i wf ic cpu
      by (simp add: cpu_on_def locked_cpu_node_Some set_affinity_info_def set_entry_point_def)
    moreover have "step_frame cfg ?t (unlock_cpu_node ?t i ?cpu') c"
      using i(3) ic wf_treeD(1) [OF wf]
      by (auto simp: step_frame_def tree_frame_def unlock_cpu_node_def nth_list_update)
    moreover have "active cfg (unlock_cpu_node ?t i ?cpu') c"
      using act ne by (simp add: active_def unlock_cpu_node_def)
    ultimately show ?thesis using new by (auto simp: call_post_def returned_def)
  qed
qed

lemma set_suspend_mode_ok:
  assumes inv: "inv_tree cfg (power_domain_tree s)" and act: "active cfg (power_domain_tree s) c"
  shows "call_post cfg s c (map_option returned (set_suspend_mode plat s c mode))"
proof -
  obtain b where "is_last_cpu (power_domain_tree s) c = Some b"
    using is_last_cpu_Some [OF act] by blast
  then have "\<exists>r s'. set_suspend_mode plat s c mode = Some (r, s') \<and>
      power_domain_tree s' = power_domain_tree s"
    by (cases mode) (auto simp: set_suspend_mode_def)
  then show ?thesis by (auto simp: returned_def unchanged_post [OF inv act])
qed

lemma cpu_off_post:
  assumes inv: "inv_tree cfg (power_domain_tree s)" and act: "active cfg (power_domain_tree s) c"
  shows "call_post cfg s c (cpu_off cfg env s c)"
proof (cases "\<exists>e. cpu_off cfg env s c = Some (Returned (Inl e), s)")
  case True
  then show ?thesis by (auto simp: unchanged_post [OF inv act])
next
  case False
  then obtain s' where s': "cpu_off cfg env s c = Some (PoweredOff, s')"
      "inv_tree cfg (power_domain_tree s')" "tree_frame (power_domain_tree s) (power_domain_tree s') c"
      "cpu_power_nodes (power_domain_tree s') = (cpu_power_nodes (power_domain_tree s))
         [c := (cpu_power_nodes (power_domain_tree s) ! c)
           \<lparr>cpu_local_state := PS_OFF cfg, affinity_info := Off\<rparr>]"
    using cpu_off_ok [OF inv act, of env] by blast
  have "c < length (cpu_power_nodes (power_domain_tree s))"
    using act wf_treeD(1) [OF inv_treeD(1) [OF inv]] by (simp add: active_def)
  then show ?thesis
    by (intro call_postI [OF s'(1,2) step_frame_own [OF s'(3,4)]]) (simp add: s'(4))
qed

lemma stopped_post:
  assumes "inv_tree cfg (power_domain_tree s)" "active cfg (power_domain_tree s) c"
    and "next_phase oc = Stopped"
  shows "call_post cfg s c (Some (oc, emit evs s))"
  using assms by (auto simp: call_post_def emit_def)

text \<open>Every PSCI function, called by a running CPU, returns and keeps the invariant.\<close>

lemma handle_function_ok:
  assumes inv: "inv_tree cfg (power_domain_tree s)" and act: "active cfg (power_domain_tree s) c"
    and env: "env_ok plat env"
  shows "call_post cfg s c (handle_function psci cfg plat env (suspend_mode s) s c f)"
proof (cases f)
  case (AffinityInfoCall m l)
  obtain idx where "try_get_cpu_index_by_mpidr cfg plat m = Some idx"
      "\<And>i. idx = Some i \<Longrightarrow> i < CPU_DOMAIN_COUNT cfg"
    using try_get_cpu_index_Some [OF inv_treeD(1) [OF inv]] by blast
  then have "\<exists>r. affinity_info_call cfg plat s m l = Some r"
    using inv_treeD(1) [OF inv]
    by (cases idx) (auto simp: affinity_info_call_def locked_cpu_node_Some)
  with AffinityInfoCall show ?thesis by (auto simp: unchanged_post [OF inv act])
next
  case (NodeHwState m l)
  obtain idx where "try_get_cpu_index_by_mpidr cfg plat m = Some idx"
    using try_get_cpu_index_Some [OF inv_treeD(1) [OF inv]] by blast
  then have "\<exists>r. node_hw_state cfg plat env m l = Some r"
    using env_okD(5) [OF env, of m l] by (auto simp: node_hw_state_def)
  with NodeHwState show ?thesis by (auto simp: unchanged_post [OF inv act])
next
  case (CpuDefaultSuspend e)
  then show ?thesis
    using cpu_suspend_ok [OF inv act env] default_suspend
    by (auto simp: cpu_default_suspend_def unchanged_post [OF inv act] outcome_success_def
        intro!: call_post_map)
next
  case (SystemOff2 a b)
  then have "\<exists>r s'. system_off2 plat env s a b = Some (r, s') \<and> power_domain_tree s' = power_domain_tree s"
    using env_okD(1) [OF env, of a b] by (auto simp: system_off2_def emit_def)
  with SystemOff2 show ?thesis by (auto simp: returned_def unchanged_post [OF inv act])
next
  case (SystemReset2 a b)
  then have "\<exists>r s'. system_reset2 plat env s a b = Some (r, s') \<and> power_domain_tree s' = power_domain_tree s"
    using env_okD(2) [OF env, of a b] by (auto simp: system_reset2_def emit_def)
  with SystemReset2 show ?thesis by (auto simp: returned_def unchanged_post [OF inv act])
next
  case (MemProtect a)
  then have "\<exists>r s'. mem_protect plat env s a = Some (r, s') \<and> power_domain_tree s' = power_domain_tree s"
    using env_okD(3) [OF env, of a] by (auto simp: mem_protect_def emit_def)
  with MemProtect show ?thesis by (auto simp: returned_def unchanged_post [OF inv act])
next
  case (MemProtectCheckRange a)
  then have "\<exists>r. mem_protect_check_range plat env a = Some r"
    using env_okD(4) [OF env, of a] by (auto simp: mem_protect_check_range_def)
  with MemProtectCheckRange show ?thesis by (auto simp: unchanged_post [OF inv act])
next
  case CpuFreeze
  then show ?thesis
    using freeze
    by (auto simp: cpu_freeze_def unchanged_post [OF inv act] outcome_success_def panic_simps
        intro!: stopped_post [OF inv act])
qed (auto simp: unchanged_post [OF inv act] system_off_def system_reset_def outcome_success_def
    intro!: call_post_map cpu_suspend_ok [OF inv act env] cpu_off_post [OF inv act]
      cpu_on_ok [OF inv act] system_suspend_ok [OF inv act env] set_suspend_mode_ok [OF inv act]
      stopped_post [OF inv act])

section \<open>The initial state\<close>

lemma fresh_accessors:
  assumes "wf_node n" "fresh_node cfg n"
  shows "in_cpus n c \<Longrightarrow> req n c = PS_OFF cfg" "in_cpus n c \<Longrightarrow> sus n c = None"
    "in_kids n j \<Longrightarrow> nst n j = PS_OFF cfg" "nc_local_state n = PS_OFF cfg"
  using node_index_bounds [OF assms(1)] assms(2)
  by (auto simp: fresh_node_def req_def sus_def nst_def subset_iff)

lemma fresh_inv:
  assumes fresh: "fresh_tree cfg t"
  shows "inv_tree cfg t"
proof -
  have wf: "wf_tree cfg t" using fresh by (simp add: fresh_tree_def)
  have node: "wf_node (non_cpu_power_nodes t ! i)" "fresh_node cfg (non_cpu_power_nodes t ! i)"
    if "i < NON_CPU_DOMAIN_COUNT cfg" for i
    using that fresh wf_treeD(5) [OF wf] by (auto simp: fresh_tree_def)
  note F = fresh_accessors [OF node]
  have cpu: "cpu_power_nodes t ! c = CpuPowerNode_new cfg (cpu_parent (cpu_power_nodes t ! c))"
    if c: "c < CPU_DOMAIN_COUNT cfg" for c
  proof -
    obtain p where "cpu_power_nodes t ! c = CpuPowerNode_new cfg p"
      using c fresh by (auto simp: fresh_tree_def)
    then show ?thesis by (simp add: CpuPowerNode_new_def)
  qed
  have "cpu_ok cfg (cpu_power_nodes t ! c)" "cpu_local_state (cpu_power_nodes t ! c) = PS_OFF cfg"
    if "c < CPU_DOMAIN_COUNT cfg" for c
    by (subst cpu [OF that], simp add: CpuPowerNode_new_def cpu_ok_def)+
  moreover have "c < CPU_DOMAIN_COUNT cfg"
    if "i < NON_CPU_DOMAIN_COUNT cfg" "in_cpus (non_cpu_power_nodes t ! i) c" for i c
    using wf_treeD(10) [OF wf] that by simp
  moreover have "edge_ok (non_cpu_power_nodes t ! p) i (non_cpu_power_nodes t ! i)"
    if i: "i < NON_CPU_DOMAIN_COUNT cfg" and p: "nc_parent (non_cpu_power_nodes t ! i) = Some p" for i p
    using F(1,3,4) wf_tree_parent [OF wf i p] i by (simp add: edge_ok_def)
  ultimately show ?thesis
    using wf F off_not_run by (auto simp: inv_tree_def depth_ok_def entry_ok_def vote_def)
qed

lemma Psci_new_ok:
  assumes new: "Psci_new cfg plat c = Some s" and max: "0 < MAX_POWER_LEVEL cfg"
  shows "c < CPU_DOMAIN_COUNT cfg" "inv_tree cfg (power_domain_tree s)"
    "active cfg (power_domain_tree s) c"
    "c' < CPU_DOMAIN_COUNT cfg \<Longrightarrow> c' \<noteq> c \<Longrightarrow>
       affinity_info (cpu_power_nodes (power_domain_tree s) ! c') = Off"
proof -
  obtain t where t: "PowerDomainTree_new cfg (topology plat) = Some t"
      "c < length (cpu_power_nodes t)"
    using new by (auto simp: Psci_new_def bind_eq_Some_conv locked_cpu_node_def index_try_into_def
        split: if_splits)
  have fresh: "fresh_tree cfg t" using PowerDomainTree_new_fresh [OF t(1) max] .
  note inv = fresh_inv [OF fresh]
  note wf = inv_treeD(1) [OF inv]
  show c: "c < CPU_DOMAIN_COUNT cfg" using t(2) wf_treeD(1) [OF wf] by simp
  have off: "affinity_info (cpu_power_nodes t ! c') = Off" if "c' < CPU_DOMAIN_COUNT cfg" for c'
    using fresh that by (auto simp: fresh_tree_def CpuPowerNode_new_def)
  have "entry_point (cpu_power_nodes t ! c) = None"
    using inv_treeD(2) [OF inv c] off [OF c] by (simp add: cpu_ok_def)
  then have woken: "cpu_set_local_state (set_affinity_info (cpu_power_nodes t ! c) On) (PS_RUN cfg) =
      woken cfg (cpu_power_nodes t ! c)"
    by (cases "cpu_power_nodes t ! c")
      (simp add: woken_def cpu_set_local_state_def set_affinity_info_def)
  have w: "wake_post cfg t c (power_domain_tree s)"
    using new t(1) wake_put [OF inv c] woken wf c wf_treeD(3) [OF wf]
    by (auto simp: Psci_new_def bind_eq_Some_conv locked_cpu_node_Some with_ancestors_locked_wf
        set_running_locked index_try_into_def Let_def split: if_splits)
  then show "inv_tree cfg (power_domain_tree s)" by (simp add: wake_post_def)
  show "active cfg (power_domain_tree s) c"
    using w c t(2) by (simp add: wake_post_def active_def woken_def)
  show "affinity_info (cpu_power_nodes (power_domain_tree s) ! c') = Off"
    if "c' < CPU_DOMAIN_COUNT cfg" "c' \<noteq> c"
    using w off that by (simp add: wake_post_def)
qed

section \<open>Waiting cores\<close>

lemma wake_call:
  assumes "wake_post cfg (power_domain_tree s) c (power_domain_tree s')"
    and "c < CPU_DOMAIN_COUNT cfg" "inv_tree cfg (power_domain_tree s)"
  shows "inv_tree cfg (power_domain_tree s')"
    "step_frame cfg (power_domain_tree s) (power_domain_tree s') c"
    "phase_ok cfg (power_domain_tree s') c Running"
  using assms wf_treeD(1) [OF inv_treeD(1) [OF assms(3)]]
  by (auto simp: wake_post_def active_def woken_def intro!: step_frame_own)

lemma standby_resume_ok:
  assumes inv: "inv_tree cfg (power_domain_tree s)" and c: "c < CPU_DOMAIN_COUNT cfg"
    and st: "standby_ok cfg (power_domain_tree s) c"
  shows "\<exists>s'. cpu_standby_resume cfg s c = Some s' \<and> inv_tree cfg (power_domain_tree s') \<and>
    step_frame cfg (power_domain_tree s) (power_domain_tree s') c \<and>
    phase_ok cfg (power_domain_tree s') c Running"
proof -
  let ?t = "power_domain_tree s" and ?cpu = "cpu_power_nodes (power_domain_tree s) ! c"
  let ?cpu' = "cpu_set_local_state ?cpu (PS_RUN cfg)"
  note wf = inv_treeD(1) [OF inv]
  have ok: "cpu_ok cfg ?cpu'"
    using st by (intro woken_ok) (auto simp: standby_ok_def cpu_set_local_state_def)
  have new: "inv_tree cfg (unlock_cpu_node ?t c ?cpu')" "tree_frame ?t (unlock_cpu_node ?t c ?cpu') c"
    using cpu_update_inv [OF inv c _ ok] st
    by (auto simp: vote_def cpu_set_local_state_def standby_ok_def)
  have "step_frame cfg ?t (unlock_cpu_node ?t c ?cpu') c"
    by (rule step_frame_own [OF new(2)]) (simp add: unlock_cpu_node_def)
  moreover have "active cfg (unlock_cpu_node ?t c ?cpu') c"
    using st c wf_treeD(1) [OF wf]
    by (simp add: active_def unlock_cpu_node_def standby_ok_def cpu_set_local_state_def)
  ultimately show ?thesis
    using new wf c by (simp add: cpu_standby_resume_def set_cpu_local_state_def locked_cpu_node_Some)
qed

end

section \<open>The transition system\<close>

record 'ps system =
  sys_psci :: "'ps Psci"
  core_phase :: "nat \<Rightarrow> 'ps phase"

text \<open>
  A running core calls a PSCI function; a waiting core wakes up behind its wait, which for a
  power-down request means that the core abandoned it; a core that lost its state in a suspend, or
  that was turned on, boots.
\<close>

inductive sys_step ::
  "arm_psci \<Rightarrow> 'ps::linorder psci_cfg \<Rightarrow> 'ps psci_platform \<Rightarrow> 'ps system \<Rightarrow> 'ps system \<Rightarrow> bool"
  for psci cfg plat where
  call: "c < CPU_DOMAIN_COUNT cfg \<Longrightarrow> core_phase S c = Running \<Longrightarrow> env_ok plat env \<Longrightarrow>
    handle_function psci cfg plat env (suspend_mode (sys_psci S)) (sys_psci S) c f = Some (oc, s') \<Longrightarrow>
    sys_step psci cfg plat S \<lparr>sys_psci = s', core_phase = (core_phase S)(c := next_phase oc)\<rparr>"
| standby: "c < CPU_DOMAIN_COUNT cfg \<Longrightarrow> core_phase S c = WaitStandby \<Longrightarrow>
    cpu_standby_resume cfg (sys_psci S) c = Some s' \<Longrightarrow>
    sys_step psci cfg plat S \<lparr>sys_psci = s', core_phase = (core_phase S)(c := Running)\<rparr>"
| resume: "c < CPU_DOMAIN_COUNT cfg \<Longrightarrow> core_phase S c = WaitSuspended cs pd \<Longrightarrow>
    cpu_suspend_resume cfg (sys_psci S) c cs pd = Some s' \<Longrightarrow>
    sys_step psci cfg plat S \<lparr>sys_psci = s', core_phase = (core_phase S)(c := Running)\<rparr>"
| reset: "c < CPU_DOMAIN_COUNT cfg \<Longrightarrow> core_phase S c = WaitSuspended cs True \<Longrightarrow>
    handle_cpu_boot cfg (sys_psci S) c = Some (r, s') \<Longrightarrow>
    sys_step psci cfg plat S \<lparr>sys_psci = s', core_phase = (core_phase S)(c := Running)\<rparr>"
| boot: "c < CPU_DOMAIN_COUNT cfg \<Longrightarrow> core_phase S c = IsOff \<Longrightarrow>
    affinity_info (cpu_power_nodes (power_domain_tree (sys_psci S)) ! c) = OnPending \<Longrightarrow>
    handle_cpu_boot cfg (sys_psci S) c = Some (r, s') \<Longrightarrow>
    sys_step psci cfg plat S \<lparr>sys_psci = s', core_phase = (core_phase S)(c := Running)\<rparr>"

definition sys_init :: "'ps psci_cfg \<Rightarrow> 'ps psci_platform \<Rightarrow> nat \<Rightarrow> 'ps system option" where
  "sys_init cfg plat c =
     do { s \<leftarrow> Psci_new cfg plat c; Some \<lparr>sys_psci = s, core_phase = (\<lambda>_. IsOff)(c := Running)\<rparr> }"

inductive sys_reachable ::
  "arm_psci \<Rightarrow> 'ps::linorder psci_cfg \<Rightarrow> 'ps psci_platform \<Rightarrow> 'ps system \<Rightarrow> bool"
  for psci cfg plat where
  init: "sys_init cfg plat c = Some S \<Longrightarrow> sys_reachable psci cfg plat S"
| step: "sys_reachable psci cfg plat S \<Longrightarrow> sys_step psci cfg plat S S' \<Longrightarrow>
    sys_reachable psci cfg plat S'"

definition sys_inv :: "'ps::linorder psci_cfg \<Rightarrow> 'ps system \<Rightarrow> bool" where
  "sys_inv cfg S \<longleftrightarrow>
     inv_tree cfg (power_domain_tree (sys_psci S)) \<and>
     (\<forall>c < CPU_DOMAIN_COUNT cfg. phase_ok cfg (power_domain_tree (sys_psci S)) c (core_phase S c))"

context psci_platform_laws
begin

lemma sys_inv_step:
  assumes S: "sys_inv cfg S" and c: "c < CPU_DOMAIN_COUNT cfg"
    and "inv_tree cfg (power_domain_tree s')"
    and frame: "step_frame cfg (power_domain_tree (sys_psci S)) (power_domain_tree s') c"
    and "phase_ok cfg (power_domain_tree s') c ph"
  shows "sys_inv cfg \<lparr>sys_psci = s', core_phase = (core_phase S)(c := ph)\<rparr>"
proof -
  have "length (non_cpu_power_nodes (power_domain_tree (sys_psci S))) = NON_CPU_DOMAIN_COUNT cfg"
    using S wf_treeD(2) [OF inv_treeD(1)] by (auto simp: sys_inv_def)
  then show ?thesis using assms phase_ok_frame [OF frame] by (auto simp: sys_inv_def)
qed

lemma sys_inv_boot:
  assumes S: "sys_inv cfg S" and c: "c < CPU_DOMAIN_COUNT cfg"
    and b: "handle_cpu_boot cfg (sys_psci S) c = Some (r, s')"
    and st: "affinity_info (cpu_power_nodes (power_domain_tree (sys_psci S)) ! c) = OnPending \<or>
      affinity_info (cpu_power_nodes (power_domain_tree (sys_psci S)) ! c) = On \<and>
      power_state_type cfg
        (cpu_local_state (cpu_power_nodes (power_domain_tree (sys_psci S)) ! c)) = PowerDownType"
  shows "sys_inv cfg \<lparr>sys_psci = s', core_phase = (core_phase S)(c := Running)\<rparr>"
proof -
  have inv: "inv_tree cfg (power_domain_tree (sys_psci S))" using S by (simp add: sys_inv_def)
  have "wake_post cfg (power_domain_tree (sys_psci S)) c (power_domain_tree s')"
    using handle_cpu_boot_ok [OF inv c st] b by auto
  from sys_inv_step [OF S c wake_call [OF this c inv]] show ?thesis .
qed

lemma sys_step_inv:
  assumes "sys_step psci cfg plat S S'" "sys_inv cfg S"
  shows "sys_inv cfg S'"
proof -
  have inv: "inv_tree cfg (power_domain_tree (sys_psci S))"
    and ph: "\<And>c. c < CPU_DOMAIN_COUNT cfg \<Longrightarrow>
      phase_ok cfg (power_domain_tree (sys_psci S)) c (core_phase S c)"
    using assms(2) by (auto simp: sys_inv_def)
  show ?thesis
    using assms(1)
  proof (cases rule: sys_step.cases)
    case (call c env f oc s')
    then have "call_post cfg (sys_psci S) c (Some (oc, s'))"
      using handle_function_ok [OF inv _ call(4), of c psci f] ph [OF call(2)] by simp
    then show ?thesis
      using sys_inv_step [OF assms(2) call(2)] call(1) by (auto simp: call_post_def)
  next
    case (standby c s')
    then show ?thesis
      using standby_resume_ok [OF inv standby(2)] ph [OF standby(2)]
        sys_inv_step [OF assms(2) standby(2)] by auto
  next
    case (resume c cs pd s')
    have "wake_post cfg (power_domain_tree (sys_psci S)) c (power_domain_tree s')"
      using cpu_suspend_resume_ok [OF inv resume(2), of cs pd] ph [OF resume(2)] resume by auto
    from sys_inv_step [OF assms(2) resume(2) wake_call [OF this resume(2) inv]] resume(1)
    show ?thesis by simp
  next
    case (reset c cs r s')
    then show ?thesis using sys_inv_boot [OF assms(2) reset(2,4)] ph [OF reset(2)] by auto
  next
    case (boot c r s')
    then show ?thesis using sys_inv_boot [OF assms(2) boot(2,5)] by auto
  qed
qed

lemma sys_init_inv:
  assumes "sys_init cfg plat c = Some S" "0 < MAX_POWER_LEVEL cfg"
  shows "sys_inv cfg S"
proof -
  obtain s where s: "Psci_new cfg plat c = Some s"
      "S = \<lparr>sys_psci = s, core_phase = (\<lambda>_. IsOff)(c := Running)\<rparr>"
    using assms(1) by (auto simp: sys_init_def bind_eq_Some_conv)
  note N = Psci_new_ok [OF s(1) assms(2)]
  show ?thesis using N s(2) by (auto simp: sys_inv_def)
qed

lemma reachable_inv:
  assumes "sys_reachable psci cfg plat S" "0 < MAX_POWER_LEVEL cfg"
  shows "sys_inv cfg S"
  using assms
proof (induction rule: sys_reachable.induct)
  case (init c S)
  then show ?case using sys_init_inv by blast
next
  case (step S S')
  then show ?case using sys_step_inv by blast
qed

end

end
