(* ===== verification/Platforms.thy ===== *)
theory Platforms
  imports Psci_System
begin

text \<open>
  The PSCI side of the two platforms of the repository, FVP (\<^verbatim>\<open>src/fvp-rf-a-bl31/src/main.rs\<close>) and
  QEMU (\<^verbatim>\<open>src/qemu-rf-a-bl31/src/main.rs\<close>): their power states, topologies, core positions and
  power-state parsers, and the proof that both keep the contract the PSCI service relies on.

  The constants and accessors of the register crate are the record \<open>arm_sysregs\<close>; the contract
  \<open>mpidr_layout\<close> is the layout of \<^verbatim>\<open>MPIDR_EL1\<close> in the Arm architecture.
\<close>

section \<open>The affinity register\<close>

record arm_sysregs =
  mpidr_MT :: u64
  AFF0_SHIFT :: nat
  AFF1_SHIFT :: nat
  AFF2_SHIFT :: nat
  AFF0_MASK :: u64
  AFF1_MASK :: u64
  AFFINITY_BITS :: nat
  aff0 :: "u64 \<Rightarrow> u8"
  aff1 :: "u64 \<Rightarrow> u8"
  aff2 :: "u64 \<Rightarrow> u8"
  aff3 :: "u64 \<Rightarrow> u8"
  mpidr_from_psci :: "u64 \<Rightarrow> u64"

locale mpidr_layout =
  fixes regs :: arm_sysregs
  assumes mt: "mpidr_MT regs = push_bit 24 1"
    and shifts: "AFF0_SHIFT regs = 0" "AFF1_SHIFT regs = 8" "AFF2_SHIFT regs = 16"
    and masks: "AFF0_MASK regs = 0xff" "AFF1_MASK regs = 0xff"
    and bits: "AFFINITY_BITS regs = 8"
    and fields: "aff0 regs x = ucast x" "aff1 regs x = ucast (drop_bit 8 x)"
      "aff2 regs x = ucast (drop_bit 16 x)" "aff3 regs x = ucast (drop_bit 32 x)"

text \<open>The bit-field extraction instruction.\<close>

definition ubfx :: "u64 \<Rightarrow> nat \<Rightarrow> nat \<Rightarrow> u64" where
  "ubfx x lsb width = take_bit width (drop_bit lsb x)"

lemma ubfx_byte: "ubfx x n 8 = ucast (ucast (drop_bit n x) :: u8)"
  by (rule bit_word_eqI) (auto simp: ubfx_def bit_simps)

lemma ubfx_shift: "ubfx (push_bit 8 x) (n + 8) 8 = ubfx x n 8" if "n + 16 \<le> 64"
  using that by (intro bit_word_eqI) (auto simp: ubfx_def bit_simps)

lemma ubfx_shift_0: "ubfx (push_bit 8 x) 0 8 = 0"
  by (rule bit_word_eqI) (auto simp: ubfx_def bit_simps)

section \<open>FVP\<close>

datatype FvpPowerState = FvpRun | FvpRetention | FvpOff

fun fvp_ord :: "FvpPowerState \<Rightarrow> nat" where
  "fvp_ord FvpRun = 0"
| "fvp_ord FvpRetention = 1"
| "fvp_ord FvpOff = 2"

instantiation FvpPowerState :: linorder
begin

definition less_eq_FvpPowerState :: "FvpPowerState \<Rightarrow> FvpPowerState \<Rightarrow> bool" where
  "a \<le> b \<longleftrightarrow> fvp_ord a \<le> fvp_ord b"

definition less_FvpPowerState :: "FvpPowerState \<Rightarrow> FvpPowerState \<Rightarrow> bool" where
  "a < b \<longleftrightarrow> fvp_ord a < fvp_ord b"

instance
proof
  fix x y :: FvpPowerState
  show "x \<le> y \<Longrightarrow> y \<le> x \<Longrightarrow> x = y"
    by (cases x; cases y) (simp_all add: less_eq_FvpPowerState_def)
qed (auto simp: less_eq_FvpPowerState_def less_FvpPowerState_def)

end

definition FVP_CLUSTER_COUNT :: nat where "FVP_CLUSTER_COUNT = 2"
definition FVP_MAX_CPUS_PER_CLUSTER :: nat where "FVP_MAX_CPUS_PER_CLUSTER = 4"
definition FVP_MAX_PE_PER_CPU :: nat where "FVP_MAX_PE_PER_CPU = 1"

lemmas fvp_consts = FVP_CLUSTER_COUNT_def FVP_MAX_CPUS_PER_CLUSTER_def FVP_MAX_PE_PER_CPU_def

fun fvp_power_state_type :: "FvpPowerState \<Rightarrow> PowerStateType" where
  "fvp_power_state_type FvpRun = RunType"
| "fvp_power_state_type FvpRetention = StandbyOrRetentionType"
| "fvp_power_state_type FvpOff = PowerDownType"

definition fvp_cfg :: "FvpPowerState psci_cfg" where
  "fvp_cfg =
     \<lparr>CPU_DOMAIN_COUNT = FVP_CLUSTER_COUNT * FVP_MAX_CPUS_PER_CLUSTER * FVP_MAX_PE_PER_CPU,
      NON_CPU_DOMAIN_COUNT = 1 + FVP_CLUSTER_COUNT, MAX_POWER_LEVEL = 2, NODE_INDEX_MAX = 255,
      PS_OFF = FvpOff, PS_RUN = FvpRun, power_state_type = fvp_power_state_type\<rparr>"

definition fvp_topology :: "nat list" where
  "fvp_topology = 1 # FVP_CLUSTER_COUNT # replicate FVP_CLUSTER_COUNT FVP_MAX_CPUS_PER_CLUSTER"

definition fvp_mpidr_is_valid :: "arm_sysregs \<Rightarrow> u64 \<Rightarrow> bool" where
  "fvp_mpidr_is_valid regs mpidr =
     (if mpidr AND mpidr_MT regs = mpidr_MT regs
      then aff3 regs mpidr = 0 \<and> unat (aff2 regs mpidr) < FVP_CLUSTER_COUNT \<and>
        unat (aff1 regs mpidr) < FVP_MAX_CPUS_PER_CLUSTER \<and>
        unat (aff0 regs mpidr) < FVP_MAX_PE_PER_CPU
      else aff3 regs mpidr = 0 \<and> aff2 regs mpidr = 0 \<and>
        unat (aff1 regs mpidr) < FVP_CLUSTER_COUNT \<and>
        unat (aff0 regs mpidr) < FVP_MAX_CPUS_PER_CLUSTER)"

definition fvp_core_position :: "arm_sysregs \<Rightarrow> u64 \<Rightarrow> nat" where
  "fvp_core_position regs mpidr =
     (let x3 = (if mpidr AND mpidr_MT regs = 0 then push_bit (AFFINITY_BITS regs) mpidr else mpidr);
          x0 = ubfx x3 (AFF0_SHIFT regs) (AFFINITY_BITS regs);
          x1 = ubfx x3 (AFF1_SHIFT regs) (AFFINITY_BITS regs);
          x2 = ubfx x3 (AFF2_SHIFT regs) (AFFINITY_BITS regs);
          x4 = of_nat FVP_MAX_CPUS_PER_CLUSTER;
          x1' = x2 * x4 + x1;
          x5 = of_nat FVP_MAX_PE_PER_CPU
      in unat (x1' * x5 + x0))"

definition fvp_try_parse_power_state ::
  "PowerState \<Rightarrow> FvpPowerState PsciCompositePowerState option" where
  "fvp_try_parse_power_state power_state =
     (let shift = 4 * (MAX_POWER_LEVEL fvp_cfg + 1) in
      if power_state = StandbyOrRetention 0x01
      then Some (composite_new [FvpRetention, FvpRun, FvpRun])
      else (case power_state of
              StandbyOrRetention _ \<Rightarrow> None
            | PowerDown value \<Rightarrow>
                let v = value AND 0x00000fff in do {
                  sts \<leftarrow> (if v = 0x002 then Some [FvpOff, FvpRun, FvpRun]
                         else if v = 0x022 then Some [FvpOff, FvpOff, FvpRun]
                         else if v = 0x222 then Some [FvpOff, FvpOff, FvpRun]
                         else None);
                  let last = unat (drop_bit shift value AND (push_bit 4 1 - 1));
                  if last > MAX_POWER_LEVEL fvp_cfg then None
                  else Some (new_with_last_power_level sts last) }))"

text \<open>The predicate says which addresses are in one of the two DRAM ranges.\<close>

definition fvp_platform :: "arm_sysregs \<Rightarrow> (EntryPoint \<Rightarrow> bool) \<Rightarrow> FvpPowerState psci_platform" where
  "fvp_platform regs in_dram =
     \<lparr>POWER_DOMAIN_COUNT = NON_CPU_DOMAIN_COUNT fvp_cfg + CPU_DOMAIN_COUNT fvp_cfg,
      FEATURES = NODE_HW_STATE OR SYSTEM_SUSPEND OR OS_INITIATED_MODE,
      topology = fvp_topology,
      try_parse_power_state = fvp_try_parse_power_state,
      cpu_default_suspend_power_state = None,
      sys_suspend_power_state = Some (composite_OFF fvp_cfg),
      is_valid_ns_entrypoint = in_dram,
      implements_cpu_freeze = False,
      from_psci_mpidr = mpidr_from_psci regs,
      mpidr_is_valid = fvp_mpidr_is_valid regs,
      core_position = fvp_core_position regs\<rparr>"

section \<open>QEMU\<close>

datatype QemuPowerState = QemuOn | QemuRetention | QemuPowerDown

fun qemu_ord :: "QemuPowerState \<Rightarrow> nat" where
  "qemu_ord QemuOn = 0"
| "qemu_ord QemuRetention = 1"
| "qemu_ord QemuPowerDown = 2"

instantiation QemuPowerState :: linorder
begin

definition less_eq_QemuPowerState :: "QemuPowerState \<Rightarrow> QemuPowerState \<Rightarrow> bool" where
  "a \<le> b \<longleftrightarrow> qemu_ord a \<le> qemu_ord b"

definition less_QemuPowerState :: "QemuPowerState \<Rightarrow> QemuPowerState \<Rightarrow> bool" where
  "a < b \<longleftrightarrow> qemu_ord a < qemu_ord b"

instance
proof
  fix x y :: QemuPowerState
  show "x \<le> y \<Longrightarrow> y \<le> x \<Longrightarrow> x = y"
    by (cases x; cases y) (simp_all add: less_eq_QemuPowerState_def)
qed (auto simp: less_eq_QemuPowerState_def less_QemuPowerState_def)

end

definition CLUSTER_COUNT :: nat where "CLUSTER_COUNT = 1"
definition PLATFORM_CPU_PER_CLUSTER_SHIFT :: nat where "PLATFORM_CPU_PER_CLUSTER_SHIFT = 2"
definition MAX_CPUS_PER_CLUSTER :: nat where
  "MAX_CPUS_PER_CLUSTER = push_bit PLATFORM_CPU_PER_CLUSTER_SHIFT 1"

lemmas qemu_consts =
  CLUSTER_COUNT_def PLATFORM_CPU_PER_CLUSTER_SHIFT_def MAX_CPUS_PER_CLUSTER_def

fun qemu_power_state_type :: "QemuPowerState \<Rightarrow> PowerStateType" where
  "qemu_power_state_type QemuPowerDown = PowerDownType"
| "qemu_power_state_type QemuRetention = StandbyOrRetentionType"
| "qemu_power_state_type QemuOn = RunType"

definition qemu_cfg :: "QemuPowerState psci_cfg" where
  "qemu_cfg =
     \<lparr>CPU_DOMAIN_COUNT = CLUSTER_COUNT * MAX_CPUS_PER_CLUSTER,
      NON_CPU_DOMAIN_COUNT = CLUSTER_COUNT + 1, MAX_POWER_LEVEL = 2, NODE_INDEX_MAX = 255,
      PS_OFF = QemuPowerDown, PS_RUN = QemuOn, power_state_type = qemu_power_state_type\<rparr>"

definition qemu_mpidr_is_valid :: "arm_sysregs \<Rightarrow> u64 \<Rightarrow> bool" where
  "qemu_mpidr_is_valid regs mpidr \<longleftrightarrow>
     aff3 regs mpidr = 0 \<and> aff2 regs mpidr = 0 \<and> unat (aff1 regs mpidr) < CLUSTER_COUNT \<and>
     unat (aff0 regs mpidr) < MAX_CPUS_PER_CLUSTER"

definition qemu_core_position :: "arm_sysregs \<Rightarrow> u64 \<Rightarrow> nat" where
  "qemu_core_position regs mpidr =
     (let x1 = mpidr AND push_bit (AFF0_SHIFT regs) (AFF0_MASK regs);
          x0 = mpidr AND push_bit (AFF1_SHIFT regs) (AFF1_MASK regs)
      in unat (x1 + drop_bit (AFFINITY_BITS regs - PLATFORM_CPU_PER_CLUSTER_SHIFT) x0))"

text \<open>The conversion of a \<open>PowerState\<close> to a word is the crate's and a parameter.\<close>

definition qemu_try_parse_power_state ::
  "(PowerState \<Rightarrow> u32) \<Rightarrow> PowerState \<Rightarrow> QemuPowerState PsciCompositePowerState option" where
  "qemu_try_parse_power_state power_state_bits power_state =
     (let shift = 4 * (MAX_POWER_LEVEL qemu_cfg + 1);
          mask = push_bit shift (push_bit 4 1 - 1);
          last = unat (drop_bit shift (power_state_bits power_state AND mask));
          raw = power_state_bits power_state AND 0x00000fff in
      if last > MAX_POWER_LEVEL qemu_cfg then None
      else if power_state = StandbyOrRetention 0x1
      then Some (new_with_last_power_level [QemuRetention, QemuOn, QemuOn] last)
      else (case power_state of
              StandbyOrRetention _ \<Rightarrow> None
            | PowerDown _ \<Rightarrow> do {
                sts \<leftarrow> (if raw = 0x2 then Some [QemuPowerDown, QemuOn, QemuOn]
                       else if raw = 0x12 then Some [QemuPowerDown, QemuRetention, QemuOn]
                       else if raw = 0x22 then Some [QemuPowerDown, QemuPowerDown, QemuOn]
                       else if raw = 0x222 then Some [QemuPowerDown, QemuPowerDown, QemuOn]
                       else None);
                Some (new_with_last_power_level sts last) }))"

definition qemu_platform ::
  "arm_sysregs \<Rightarrow> (PowerState \<Rightarrow> u32) \<Rightarrow> QemuPowerState psci_platform" where
  "qemu_platform regs power_state_bits =
     \<lparr>POWER_DOMAIN_COUNT = NON_CPU_DOMAIN_COUNT qemu_cfg + CPU_DOMAIN_COUNT qemu_cfg,
      FEATURES = OS_INITIATED_MODE,
      topology = [1, CLUSTER_COUNT, MAX_CPUS_PER_CLUSTER],
      try_parse_power_state = qemu_try_parse_power_state power_state_bits,
      cpu_default_suspend_power_state = None,
      sys_suspend_power_state = None,
      is_valid_ns_entrypoint = (\<lambda>_. True),
      implements_cpu_freeze = False,
      from_psci_mpidr = mpidr_from_psci regs,
      mpidr_is_valid = qemu_mpidr_is_valid regs,
      core_position = qemu_core_position regs\<rparr>"

section \<open>Both platforms keep the contract\<close>

interpretation fvp_states: power_state_laws fvp_cfg
proof
  fix s s' :: FvpPowerState
  show "PS_RUN fvp_cfg \<le> s" "s \<le> PS_OFF fvp_cfg"
    by (cases s; simp add: fvp_cfg_def less_eq_FvpPowerState_def)+
  show "power_state_type fvp_cfg s = RunType \<longleftrightarrow> s = PS_RUN fvp_cfg"
    by (cases s) (simp_all add: fvp_cfg_def)
  show "power_state_type fvp_cfg (PS_OFF fvp_cfg) = PowerDownType"
    by (simp add: fvp_cfg_def)
  show "power_state_type fvp_cfg s = PowerDownType \<Longrightarrow> s \<le> s' \<Longrightarrow>
      power_state_type fvp_cfg s' = PowerDownType"
    by (cases s; cases s') (simp_all add: fvp_cfg_def less_eq_FvpPowerState_def)
qed

interpretation qemu_states: power_state_laws qemu_cfg
proof
  fix s s' :: QemuPowerState
  show "PS_RUN qemu_cfg \<le> s" "s \<le> PS_OFF qemu_cfg"
    by (cases s; simp add: qemu_cfg_def less_eq_QemuPowerState_def)+
  show "power_state_type qemu_cfg s = RunType \<longleftrightarrow> s = PS_RUN qemu_cfg"
    by (cases s) (simp_all add: qemu_cfg_def)
  show "power_state_type qemu_cfg (PS_OFF qemu_cfg) = PowerDownType"
    by (simp add: qemu_cfg_def)
  show "power_state_type qemu_cfg s = PowerDownType \<Longrightarrow> s \<le> s' \<Longrightarrow>
      power_state_type qemu_cfg s' = PowerDownType"
    by (cases s; cases s') (simp_all add: qemu_cfg_def less_eq_QemuPowerState_def)
qed

lemmas request_simps =
  is_valid_suspend_request_def find_highest_non_run_level_def find_highest_power_down_level_def
  new_with_last_power_level_def composite_new_def composite_OFF_def power_down_request_def

lemma fvp_parse_valid:
  "fvp_try_parse_power_state ps = Some cs \<Longrightarrow>
     length (cs_states cs) = 3 \<and> is_valid_suspend_request fvp_cfg cs (power_down_request ps)"
  by (auto simp: fvp_try_parse_power_state_def request_simps fvp_cfg_def Let_def bind_eq_Some_conv
      less_eq_FvpPowerState_def split: PowerState.splits if_splits)

lemma qemu_parse_valid:
  "qemu_try_parse_power_state bits ps = Some cs \<Longrightarrow>
     length (cs_states cs) = 3 \<and> is_valid_suspend_request qemu_cfg cs (power_down_request ps)"
  by (auto simp: qemu_try_parse_power_state_def request_simps qemu_cfg_def Let_def bind_eq_Some_conv
      less_eq_QemuPowerState_def split: PowerState.splits if_splits)

lemma composite_OFF_valid:
  "length (cs_states (composite_OFF fvp_cfg)) = 3 \<and>
     is_valid_suspend_request fvp_cfg (composite_OFF fvp_cfg) True \<and>
     fvp_power_state_type (cs_states (composite_OFF fvp_cfg) ! 2) = PowerDownType"
  by (simp add: request_simps fvp_cfg_def less_eq_FvpPowerState_def eval_nat_numeral)

lemma and_push_bit_1: "x AND push_bit n 1 = (if bit x n then push_bit n 1 else 0)" for x :: u64
  by (rule bit_word_eqI) (auto simp: bit_simps)

lemma ubfx_byte_0: "ubfx x 0 8 = ucast (ucast x :: u8)"
  using ubfx_byte [of x 0] by simp

lemma unat_byte: "unat v < 256" for v :: u8
proof -
  have "unat v < 2 ^ LENGTH(8)" by (rule unsigned_less)
  then show ?thesis by simp
qed

lemma unat_ucast_byte: "unat (ucast v :: u64) = unat v" for v :: u8
  using unat_byte [of v] by (simp add: unsigned_ucast_eq take_bit_nat_eq_self)

lemma unat_affinity:
  "unat (ucast a * 4 + ucast b + ucast c :: u64) = unat a * 4 + unat b + unat c" for a b c :: u8
proof -
  have "unat a * 4 + unat b + unat c < 2 ^ 64" 
    using unat_byte [of a] unat_byte [of b] unat_byte [of c] by simp
  then show ?thesis by (simp add: unat_word_ariths mod_simps unat_ucast_byte)
qed

context mpidr_layout
begin

lemma mt_cases: "x AND mpidr_MT regs = 0 \<longleftrightarrow> x AND mpidr_MT regs \<noteq> mpidr_MT regs"
  unfolding mt and_push_bit_1 by simp

lemma fvp_core_position_fields:
  "fvp_core_position regs x =
     (if x AND mpidr_MT regs = 0
      then unat (aff1 regs x) * 4 + unat (aff0 regs x)
      else unat (aff2 regs x) * 4 + unat (aff1 regs x) + unat (aff0 regs x))"
proof -
  have sh: "ubfx (push_bit 8 x) 8 8 = ubfx x 0 8" "ubfx (push_bit 8 x) 16 8 = ubfx x 8 8"
    using ubfx_shift [of 0 x] ubfx_shift [of 8 x] by simp_all
  show ?thesis
    using unat_affinity [of "aff1 regs x" "aff0 regs x" 0]
      unat_affinity [of "aff2 regs x" "aff1 regs x" "aff0 regs x"]
    by (simp add: fvp_core_position_def Let_def shifts bits fields fvp_consts sh ubfx_shift_0
        ubfx_byte_0 [of x] ubfx_byte [of x 8] ubfx_byte [of x 16])
qed

lemma qemu_core_position_fields:
  assumes "unat (aff1 regs x) < CLUSTER_COUNT"
  shows "qemu_core_position regs x = unat (aff0 regs x)"
proof -
  have "(ucast (drop_bit 8 x) :: u8) = 0"
    using assms by (simp add: fields qemu_consts unat_eq_0)
  moreover have "x AND push_bit 8 (mask 8) = push_bit 8 (ucast (ucast (drop_bit 8 x) :: u8))"
    by (rule bit_word_eqI) (auto simp: bit_simps)
  ultimately have "x AND push_bit 8 0xff = 0"
    by (simp add: mask_eq_exp_minus_1)
  moreover have "x AND mask 8 = ucast (ucast x :: u8)"
    by (rule bit_word_eqI) (auto simp: bit_simps)
  then have "x AND 0xff = ucast (ucast x :: u8)" by (simp add: mask_eq_exp_minus_1)
  ultimately show ?thesis
    by (simp add: qemu_core_position_def Let_def shifts masks bits fields unsigned_ucast_eq
        unsigned_take_bit_eq)
qed

end

sublocale mpidr_layout \<subseteq> fvp: psci_platform_laws fvp_cfg "fvp_platform regs in_dram" for in_dram
proof
  fix ps :: PowerState and cs :: "FvpPowerState PsciCompositePowerState" and mpidr
  show "try_parse_power_state (fvp_platform regs in_dram) ps = Some cs \<Longrightarrow>
      length (cs_states cs) = Suc (MAX_POWER_LEVEL fvp_cfg) \<and>
      is_valid_suspend_request fvp_cfg cs (power_down_request ps)"
    using fvp_parse_valid by (simp add: fvp_platform_def fvp_cfg_def)
  show "\<exists>cs. sys_suspend_power_state (fvp_platform regs in_dram) = Some cs \<and>
      length (cs_states cs) = Suc (MAX_POWER_LEVEL fvp_cfg) \<and>
      is_valid_suspend_request fvp_cfg cs True \<and>
      power_state_type fvp_cfg (cs_states cs ! MAX_POWER_LEVEL fvp_cfg) = PowerDownType"
    using composite_OFF_valid by (simp add: fvp_platform_def fvp_cfg_def)
  show "mpidr_is_valid (fvp_platform regs in_dram) mpidr \<Longrightarrow>
      core_position (fvp_platform regs in_dram) mpidr < CPU_DOMAIN_COUNT fvp_cfg"
    by (auto simp: fvp_platform_def fvp_cfg_def fvp_mpidr_is_valid_def fvp_core_position_fields
        fvp_consts mt_cases split: if_splits)
qed (simp_all add: fvp_platform_def has_feature_def feature_flag_defs)

sublocale mpidr_layout \<subseteq> qemu: psci_platform_laws qemu_cfg "qemu_platform regs power_state_bits"
  for power_state_bits
proof
  fix ps :: PowerState and cs :: "QemuPowerState PsciCompositePowerState" and mpidr
  show "try_parse_power_state (qemu_platform regs power_state_bits) ps = Some cs \<Longrightarrow>
      length (cs_states cs) = Suc (MAX_POWER_LEVEL qemu_cfg) \<and>
      is_valid_suspend_request qemu_cfg cs (power_down_request ps)"
    using qemu_parse_valid by (simp add: qemu_platform_def qemu_cfg_def)
  show "mpidr_is_valid (qemu_platform regs power_state_bits) mpidr \<Longrightarrow>
      core_position (qemu_platform regs power_state_bits) mpidr < CPU_DOMAIN_COUNT qemu_cfg"
    by (auto simp: qemu_platform_def qemu_cfg_def qemu_mpidr_is_valid_def
        qemu_core_position_fields) (simp_all add: qemu_consts)
qed (simp_all add: qemu_platform_def has_feature_def feature_flag_defs)

text \<open>The layout of the architecture as a value of the record.\<close>

definition armv8_sysregs :: arm_sysregs where
  "armv8_sysregs =
     \<lparr>mpidr_MT = 0x1000000, AFF0_SHIFT = 0, AFF1_SHIFT = 8, AFF2_SHIFT = 16, AFF0_MASK = 0xff,
      AFF1_MASK = 0xff, AFFINITY_BITS = 8, aff0 = ucast, aff1 = (\<lambda>x. ucast (drop_bit 8 x)),
      aff2 = (\<lambda>x. ucast (drop_bit 16 x)), aff3 = (\<lambda>x. ucast (drop_bit 32 x)),
      mpidr_from_psci = id\<rparr>"

interpretation armv8: mpidr_layout armv8_sysregs
  by unfold_locales (simp_all add: armv8_sysregs_def)

end
