(* ===== verification/Psci_Properties.thy ===== *)
theory Psci_Properties
  imports Platforms
begin

text \<open>
  What the PSCI service promises, stated over the definitions of the code for every platform that
  keeps the contract \<open>psci_platform_laws\<close>, with instances on the FVP and QEMU platforms.
\<close>

section \<open>A running system on each platform\<close>

definition calm_env :: "'ps psci_env" where
  "calm_env =
     \<lparr>has_pending_interrupts = False,
      power_domain_validate_suspend = (\<lambda>_. Some (Inr ())),
      power_domain_off_early = (\<lambda>_. Inr ()),
      power_domain_on = (\<lambda>_. Inr ()),
      plat_system_off2 = (\<lambda>_ _. Some (Inl NotSupported)),
      plat_system_reset2 = (\<lambda>_ _. Some (Inl NotSupported)),
      plat_mem_protect = (\<lambda>_. Some (Inl NotSupported)),
      plat_mem_protect_check_range = (\<lambda>_. Some (Inl NotSupported)),
      plat_node_hw_state = (\<lambda>_ _. Some (Inr HwOn))\<rparr>"

definition plain_psci :: arm_psci where
  "plain_psci =
     \<lparr>function_try_from = (\<lambda>_. Inl NotSupported), error_code_bits = (\<lambda>_. 0),
      version_bits = (\<lambda>major minor. of_nat (major * 65536 + minor)), affinity_info_bits = (\<lambda>_. 0),
      migration_not_required_bits = 2, hw_state_bits = (\<lambda>_. 0), EXTENDED_POWER_STATE = 2,
      OS_INITIATED_MODE_FLAG = 1, HIBERNATE_OFF = 1\<rparr>"

abbreviation fvp :: "FvpPowerState psci_platform" where
  "fvp \<equiv> fvp_platform armv8_sysregs (\<lambda>_. True)"

definition fvp_booted :: "FvpPowerState Psci" where
  "fvp_booted = the (Psci_new fvp_cfg fvp 0)"

definition fvp_system :: "FvpPowerState system" where
  "fvp_system = \<lparr>sys_psci = fvp_booted, core_phase = (\<lambda>_. IsOff)(0 := Running)\<rparr>"

lemma fvp_booted_new: "Psci_new fvp_cfg fvp 0 = Some fvp_booted"
proof -
  have "Psci_new fvp_cfg fvp 0 \<noteq> None" by code_simp
  then show ?thesis by (simp add: fvp_booted_def)
qed

lemma fvp_reachable: "sys_reachable plain_psci fvp_cfg fvp fvp_system"
  by (rule sys_reachable.init [where c = 0]) (simp add: sys_init_def fvp_booted_new fvp_system_def)

text \<open>The boot core then asks for a power-down of itself and its cluster.\<close>

definition fvp_suspending :: "(FvpPowerState, unit) outcome \<times> FvpPowerState Psci" where
  "fvp_suspending = the (cpu_suspend fvp_cfg fvp calm_env PlatformCoordinated fvp_booted 0
     (PowerDown 0x022) (Entry64 0x80000000 7))"

definition fvp_suspended :: "FvpPowerState system" where
  "fvp_suspended = \<lparr>sys_psci = snd fvp_suspending, core_phase = (\<lambda>_. IsOff)
     (0 := WaitSuspended (new_with_last_power_level [FvpOff, FvpOff, FvpRun] 0) True)\<rparr>"

lemma fvp_levels: "MAX_POWER_LEVEL fvp_cfg = 2" "CPU_DOMAIN_COUNT fvp_cfg = 8"
    "NON_CPU_DOMAIN_COUNT fvp_cfg = 3"
  by (simp_all add: fvp_cfg_def fvp_consts)

lemma fvp_inv: "inv_tree fvp_cfg (power_domain_tree fvp_booted)"
  using armv8.fvp.reachable_inv [OF fvp_reachable]
  by (simp add: fvp_levels sys_inv_def fvp_system_def)

lemma fvp_active: "active fvp_cfg (power_domain_tree fvp_booted) 0"
  by code_simp

lemma calm_env_ok: "env_ok plat calm_env"
  by (simp add: env_ok_def calm_env_def)

lemma fvp_suspended_reachable: "sys_reachable plain_psci fvp_cfg fvp fvp_suspended"
proof -
  have "cpu_suspend fvp_cfg fvp calm_env PlatformCoordinated fvp_booted 0
      (PowerDown 0x022) (Entry64 0x80000000 7) \<noteq> None"
    by code_simp
  moreover have "fst fvp_suspending =
      InSuspend (new_with_last_power_level [FvpOff, FvpOff, FvpRun] 0) True"
    by code_simp
  moreover have "suspend_mode fvp_booted = PlatformCoordinated" by code_simp
  ultimately have "handle_function plain_psci fvp_cfg fvp calm_env (suspend_mode (sys_psci fvp_system))
      (sys_psci fvp_system) 0 (CpuSuspend (PowerDown 0x022) (Entry64 0x80000000 7)) =
      Some (InSuspend (new_with_last_power_level [FvpOff, FvpOff, FvpRun] 0) True, snd fvp_suspending)"
    by (auto simp: fvp_suspending_def fvp_system_def outcome_success_def)
  from sys_step.call [OF _ _ calm_env_ok this]
  have "sys_step plain_psci fvp_cfg fvp fvp_system fvp_suspended"
    by (simp add: fvp_levels fvp_suspended_def) (simp add: fvp_system_def)
  then show ?thesis by (rule sys_reachable.step [OF fvp_reachable])
qed

section \<open>Safety in every reachable state\<close>

text \<open>
  C1. In every state the system can reach from its boot by calls, wake-ups and boots of its cores,
  in either suspend mode and with any interleaving, every power domain above a running core is in
  the running state: the firmware never has the power of an executing core cut.
\<close>

theorem running_core_powered:
  assumes laws: "psci_platform_laws cfg plat" and "0 < MAX_POWER_LEVEL cfg"
    and reach: "sys_reachable psci cfg plat S"
    and c: "c < CPU_DOMAIN_COUNT cfg" "core_phase S c = Running"
    and i: "i \<in> set (cpu_path (power_domain_tree (sys_psci S)) c)"
  shows "nc_local_state (non_cpu_power_nodes (power_domain_tree (sys_psci S)) ! i) = PS_RUN cfg"
proof -
  let ?t = "power_domain_tree (sys_psci S)"
  have S: "inv_tree cfg ?t" "active cfg ?t c"
    using psci_platform_laws.reachable_inv [OF laws reach assms(2)] c by (auto simp: sys_inv_def)
  note wf = inv_treeD(1) [OF S(1)]
  have "entry_ok cfg (non_cpu_power_nodes ?t ! i) c (cpu_power_nodes ?t ! c)"
    using inv_treeD(4) [OF S(1)] wf_tree_path_facts [OF wf c(1)] i by blast
  then have "nc_local_state (non_cpu_power_nodes ?t ! i) \<le> PS_RUN cfg"
    using S(2) by (auto simp: entry_ok_def active_def)
  moreover have "PS_RUN cfg \<le> nc_local_state (non_cpu_power_nodes ?t ! i)"
    using laws by (simp add: psci_platform_laws_def power_state_laws_def)
  ultimately show ?thesis by (rule antisym)
qed

theorem running_core_powered_witness:
  "sys_reachable plain_psci fvp_cfg fvp fvp_system \<and> core_phase fvp_system 0 = Running \<and>
     set (cpu_path (power_domain_tree fvp_booted) 0) = {0, 1} \<and>
     nc_local_state (non_cpu_power_nodes (power_domain_tree fvp_booted) ! 0) = FvpRun"
proof -
  have p: "set (cpu_path (power_domain_tree fvp_booted) 0) = {0, 1}" by code_simp
  have "nc_local_state (non_cpu_power_nodes (power_domain_tree fvp_booted) ! 0) = FvpRun"
    using running_core_powered [OF armv8.fvp.psci_platform_laws_axioms _ fvp_reachable, of 0 0] p
    by (simp add: fvp_levels fvp_system_def) (simp add: fvp_cfg_def)
  with p fvp_reachable show ?thesis by (simp add: fvp_system_def)
qed

text \<open>
  C2. In every reachable state a power domain is never deeper than what each of its CPUs has voted
  for, a vote is never deeper than the CPU itself, and a domain is never deeper than the domains
  below it.
\<close>

theorem domain_depth_bounded:
  assumes laws: "psci_platform_laws cfg plat" and "0 < MAX_POWER_LEVEL cfg"
    and reach: "sys_reachable psci cfg plat S"
  defines "nodes \<equiv> non_cpu_power_nodes (power_domain_tree (sys_psci S))"
  assumes i: "i < NON_CPU_DOMAIN_COUNT cfg"
  shows "(in_cpus (nodes ! i) c \<longrightarrow>
       nc_local_state (nodes ! i) \<le> vote cfg (nodes ! i) c \<and>
       vote cfg (nodes ! i) c \<le>
         cpu_local_state (cpu_power_nodes (power_domain_tree (sys_psci S)) ! c)) \<and>
     (nc_parent (nodes ! i) = Some p \<longrightarrow>
       nc_local_state (nodes ! p) \<le> nc_local_state (nodes ! i))"
proof -
  have "inv_tree cfg (power_domain_tree (sys_psci S))"
    using psci_platform_laws.reachable_inv [OF laws reach assms(2)] by (simp add: sys_inv_def)
  from inv_treeD(4,5) [OF this i] show ?thesis
    by (auto simp: nodes_def entry_ok_def edge_ok_def)
qed

theorem domain_depth_bounded_witness:
  "sys_reachable plain_psci fvp_cfg fvp fvp_system \<and>
     (let nodes = non_cpu_power_nodes (power_domain_tree fvp_booted) in
      in_cpus (nodes ! 2) 5 \<and> nc_local_state (nodes ! 2) \<le> vote fvp_cfg (nodes ! 2) 5 \<and>
      nc_parent (nodes ! 2) = Some 0 \<and> nc_local_state (nodes ! 0) \<le> nc_local_state (nodes ! 2))"
proof -
  have "in_cpus (non_cpu_power_nodes (power_domain_tree fvp_booted) ! 2) 5"
    "nc_parent (non_cpu_power_nodes (power_domain_tree fvp_booted) ! 2) = Some 0"
    by code_simp+
  then show ?thesis
    using domain_depth_bounded [OF armv8.fvp.psci_platform_laws_axioms _ fvp_reachable, of 2 5 0]
      fvp_reachable
    by (simp add: fvp_levels fvp_system_def)
qed



text \<open>
  C4. A core that waits can always come back: in every reachable state the code behind a standby,
  behind a retention and behind an abandoned power-down runs to its end, and a core that boots out
  of a power-down suspend, or after it has been turned on, finds the entry point it was promised.
\<close>

theorem waiting_core_returns:
  assumes laws: "psci_platform_laws cfg plat" and "0 < MAX_POWER_LEVEL cfg"
    and reach: "sys_reachable psci cfg plat S" and c: "c < CPU_DOMAIN_COUNT cfg"
  shows "(core_phase S c = WaitStandby \<longrightarrow> (\<exists>s'. cpu_standby_resume cfg (sys_psci S) c = Some s')) \<and>
    (core_phase S c = WaitSuspended cs pd \<longrightarrow>
       (\<exists>s'. cpu_suspend_resume cfg (sys_psci S) c cs pd = Some s') \<and>
       (pd \<longrightarrow> (\<exists>e s'. entry_point (cpu_power_nodes (power_domain_tree (sys_psci S)) ! c) = Some e \<and>
          handle_cpu_boot cfg (sys_psci S) c = Some (WakeSuspendFinished e, s')))) \<and>
    (affinity_info (cpu_power_nodes (power_domain_tree (sys_psci S)) ! c) = OnPending \<longrightarrow>
       (\<exists>e s'. entry_point (cpu_power_nodes (power_domain_tree (sys_psci S)) ! c) = Some e \<and>
          handle_cpu_boot cfg (sys_psci S) c = Some (WakeCpuOn e, s')))"
proof -
  let ?t = "power_domain_tree (sys_psci S)"
  have S: "inv_tree cfg ?t" "phase_ok cfg ?t c (core_phase S c)"
    using psci_platform_laws.reachable_inv [OF laws reach assms(2)] c by (auto simp: sys_inv_def)
  note L = psci_platform_laws.axioms(1) [OF laws]
  have "\<exists>s'. cpu_standby_resume cfg (sys_psci S) c = Some s'" if "core_phase S c = WaitStandby"
    using psci_platform_laws.standby_resume_ok [OF laws S(1) c] S(2) that by auto
  moreover have "\<exists>s'. cpu_suspend_resume cfg (sys_psci S) c cs pd = Some s'"
    if "core_phase S c = WaitSuspended cs pd"
    using power_state_laws.cpu_suspend_resume_ok [OF L S(1) c, of cs pd] S(2) that by auto
  moreover note boot = power_state_laws.handle_cpu_boot_ok [OF L S(1) c]
  have "\<exists>e s'. entry_point (cpu_power_nodes ?t ! c) = Some e \<and>
      handle_cpu_boot cfg (sys_psci S) c = Some (WakeSuspendFinished e, s')"
    if "core_phase S c = WaitSuspended cs pd" pd
    using boot S(2) that by auto
  moreover have "\<exists>e s'. entry_point (cpu_power_nodes ?t ! c) = Some e \<and>
      handle_cpu_boot cfg (sys_psci S) c = Some (WakeCpuOn e, s')"
    if "affinity_info (cpu_power_nodes ?t ! c) = OnPending"
    using boot that by auto
  ultimately show ?thesis by blast
qed

theorem waiting_core_returns_witness:
  "core_phase fvp_suspended 0 = WaitSuspended (new_with_last_power_level [FvpOff, FvpOff, FvpRun] 0) True \<and>
     (\<exists>e s'. handle_cpu_boot fvp_cfg (sys_psci fvp_suspended) 0 = Some (WakeSuspendFinished e, s'))"
  using waiting_core_returns [OF armv8.fvp.psci_platform_laws_axioms _ fvp_suspended_reachable, of 0
      "new_with_last_power_level [FvpOff, FvpOff, FvpRun] 0" True]
  by (auto simp: fvp_levels fvp_suspended_def)

section \<open>The power domain tree\<close>



text \<open>
  C6. Locking the ancestors of a CPU up to a level never fails and takes one lock for each level,
  in strictly descending order of the node index. All cores take their locks in this one order, so
  two cores never wait for each other.
\<close>

theorem ancestors_lock_order:
  assumes "wf_tree cfg t" "c < CPU_DOMAIN_COUNT cfg"
  shows "\<exists>locks. Power_Domain_Tree.new_with_max_level cfg (cpu_parent (cpu_power_nodes t ! c)) m
      (non_cpu_power_nodes t) = Some locks \<and>
    length locks = min m (MAX_POWER_LEVEL cfg) \<and> sorted_wrt (>) (map fst locks)"
proof -
  have "sorted_wrt (>) (take m (cpu_path t c))"
    unfolding cpu_path_def by (rule sorted_wrt_take [OF path_sorted])
  then show ?thesis
    using new_with_max_level_path [OF assms, of m] wf_treeD(8) [OF assms]
    by (simp add: locked_def comp_def min.commute)
qed

theorem ancestors_lock_order_witness:
  "wf_tree fvp_cfg (power_domain_tree fvp_booted) \<and>
    (\<exists>locks. Power_Domain_Tree.new_with_max_level fvp_cfg
       (cpu_parent (cpu_power_nodes (power_domain_tree fvp_booted) ! 6)) 2
       (non_cpu_power_nodes (power_domain_tree fvp_booted)) = Some locks \<and> length locks = 2)"
  using ancestors_lock_order [OF inv_treeD(1) [OF fvp_inv], of 6 2] inv_treeD(1) [OF fvp_inv]
  by (auto simp: fvp_levels)



text \<open>
  C8. OS-initiated coordination: a request that the validation accepts leaves every domain it
  touches no deeper than each other CPU of the domain has voted for and than the states of the
  other domains below it. The validation always ends.
\<close>

theorem osi_validation_sound:
  assumes laws: "power_state_laws cfg" and inv: "inv_tree cfg t" and c: "c < CPU_DOMAIN_COUNT cfg"
    and m: "hal \<le> m" "m \<le> MAX_POWER_LEVEL cfg"
    and len: "length (cs_states cs) = Suc (MAX_POWER_LEVEL cfg)"
    and last: "\<And>l. last_at_power_level cs = Some l \<Longrightarrow> l \<le> m"
  shows "\<exists>r. validate_state_coordination cfg cs c hal
      (locked (non_cpu_power_nodes t) (take m (cpu_path t c))) = Some r \<and>
    (r = Inr () \<longrightarrow> (\<forall>k < hal.
       let n = non_cpu_power_nodes t ! (cpu_path t c ! k) in
       (\<forall>c'. in_cpus n c' \<and> c' \<noteq> c \<longrightarrow> cs_states cs ! Suc k \<le> vote cfg n c') \<and>
       (\<forall>j. 0 < k \<and> in_kids n j \<and> j \<noteq> cpu_path t c ! (k - 1) \<longrightarrow> cs_states cs ! Suc k \<le> nst n j)))"
  using power_state_laws.validate_state_coordination_Some [OF laws inv c m len last]
  unfolding osi_allowed_def .

theorem osi_validation_sound_witness:
  "inv_tree fvp_cfg (power_domain_tree fvp_booted) \<and>
   (\<exists>r. validate_state_coordination fvp_cfg (new_with_last_power_level [FvpOff, FvpOff, FvpOff] 2) 0 2
      (locked (non_cpu_power_nodes (power_domain_tree fvp_booted))
        (take 2 (cpu_path (power_domain_tree fvp_booted) 0))) = Some r)"
  using osi_validation_sound [OF fvp_states.power_state_laws_axioms fvp_inv, of 0 2 2
      "new_with_last_power_level [FvpOff, FvpOff, FvpOff] 2"] fvp_inv
  by (auto simp: fvp_levels new_with_last_power_level_def)

section \<open>Turning CPUs on, off and suspending them\<close>

text \<open>
  C9. A successful \<open>CPU_ON\<close> is followed by a boot of the target: when the target core runs the boot
  path it gets exactly the entry point of the call, reported as a turn-on, and is on and running.
\<close>

theorem cpu_on_then_boot:
  assumes laws: "psci_platform_laws cfg plat"
    and inv: "inv_tree cfg (power_domain_tree s)" and act: "active cfg (power_domain_tree s) c"
    and on: "cpu_on cfg plat env s target entry = Some (Inr (), s')"
  shows "\<exists>i s''. try_get_cpu_index_by_mpidr cfg plat target = Some (Some i) \<and> i \<noteq> c \<and>
    handle_cpu_boot cfg s' i = Some (WakeCpuOn entry, s'') \<and>
    affinity_info (cpu_power_nodes (power_domain_tree s'') ! i) = On \<and>
    cpu_local_state (cpu_power_nodes (power_domain_tree s'') ! i) = PS_RUN cfg"
proof -
  let ?t = "power_domain_tree s"
  note wf = inv_treeD(1) [OF inv] and L = psci_platform_laws.axioms(1) [OF laws]
  obtain idx where idx: "try_get_cpu_index_by_mpidr cfg plat target = Some idx"
      "\<And>i. idx = Some i \<Longrightarrow> i < CPU_DOMAIN_COUNT cfg"
    using psci_platform_laws.try_get_cpu_index_Some [OF laws wf] by blast
  obtain i where "idx = Some i" using on idx(1) by (cases idx) (auto simp: cpu_on_def)
  note ix = idx [unfolded this]
  note locked = power_state_laws.locked_cpu_node_Some [OF L wf, of i]
  have valid: "is_valid_ns_entrypoint plat entry" and off: "affinity_info (cpu_power_nodes ?t ! i) = Off"
    using on ix by (auto simp: cpu_on_def locked split: if_splits AffinityInfo.splits)
  have tree: "power_domain_tree s' = unlock_cpu_node ?t i
      ((cpu_power_nodes ?t ! i)\<lparr>affinity_info := OnPending, entry_point := Some entry\<rparr>)"
    using on ix valid off
    by (auto simp: cpu_on_def locked set_affinity_info_def set_entry_point_def bind_eq_Some_conv
        Let_def split: sum.splits if_splits)
  note i = ix(1) ix(2) [OF refl] off tree
  have "inv_tree cfg (power_domain_tree s')"
    using psci_platform_laws.cpu_on_ok [OF laws inv act, of env target entry] on
    by (auto simp: call_post_def returned_def)
  from power_state_laws.handle_cpu_boot_ok [OF L this i(2)]
  have "\<exists>s''. handle_cpu_boot cfg s' i = Some (WakeCpuOn entry, s'') \<and>
      wake_post cfg (power_domain_tree s') i (power_domain_tree s'')"
    using i(2,4) wf_treeD(1) [OF wf] by (auto simp: unlock_cpu_node_def)
  moreover have "i \<noteq> c" using act i(3) by (auto simp: active_def)
  ultimately show ?thesis
    using i wf_treeD(1) [OF wf] by (auto simp: wake_post_def woken_def unlock_cpu_node_def)
qed

theorem cpu_on_then_boot_witness:
  "\<exists>s' i s''. cpu_on fvp_cfg fvp calm_env fvp_booted 0x102 (Entry64 0x80000000 7) = Some (Inr (), s') \<and>
     try_get_cpu_index_by_mpidr fvp_cfg fvp 0x102 = Some (Some i) \<and>
     handle_cpu_boot fvp_cfg s' i = Some (WakeCpuOn (Entry64 0x80000000 7), s'')"
proof -
  have "map_option fst (cpu_on fvp_cfg fvp calm_env fvp_booted 0x102 (Entry64 0x80000000 7)) =
      Some (Inr ())"
    by code_simp
  then obtain s' where "cpu_on fvp_cfg fvp calm_env fvp_booted 0x102 (Entry64 0x80000000 7) =
      Some (Inr (), s')" by auto
  with cpu_on_then_boot [OF armv8.fvp.psci_platform_laws_axioms fvp_inv fvp_active this]
  show ?thesis by blast
qed

text \<open>
  C10. A power-down suspend that is entered keeps its entry point: when the core loses its state
  and boots, it gets the entry point of the suspend call, reported as the end of a suspend.
\<close>

theorem cpu_suspend_then_boot:
  assumes laws: "psci_platform_laws cfg plat"
    and inv: "inv_tree cfg (power_domain_tree s)" and act: "active cfg (power_domain_tree s) c"
    and env: "env_ok plat env"
    and sus: "cpu_suspend cfg plat env (suspend_mode s) s c power_state entry =
      Some (InSuspend cs True, s')"
  shows "\<exists>s''. handle_cpu_boot cfg s' c = Some (WakeSuspendFinished entry, s'')"
proof -
  let ?t = "power_domain_tree s"
  have c: "c < CPU_DOMAIN_COUNT cfg" using act by (simp add: active_def)
  note L = psci_platform_laws.axioms(1) [OF laws]
  note post = psci_platform_laws.cpu_suspend_ok [OF laws inv act env, of power_state entry]
  from post [unfolded sus] have post: "inv_tree cfg (power_domain_tree s')"
      "phase_ok cfg (power_domain_tree s') c (WaitSuspended cs True)"
    by (auto simp: call_post_def)
  have "entry_point (cpu_power_nodes (power_domain_tree s') ! c) = Some entry"
    by (rule psci_platform_laws.cpu_suspend_entry [OF laws inv act env sus])
  then show ?thesis
    using power_state_laws.handle_cpu_boot_ok [OF L post(1) c] post(2) by auto
qed

theorem cpu_suspend_then_boot_witness:
  "\<exists>cs s' s''. cpu_suspend fvp_cfg fvp calm_env PlatformCoordinated fvp_booted 0 (PowerDown 0x022)
       (Entry64 0x80000000 7) = Some (InSuspend cs True, s') \<and>
     handle_cpu_boot fvp_cfg s' 0 = Some (WakeSuspendFinished (Entry64 0x80000000 7), s'')"
proof -
  have mode: "suspend_mode fvp_booted = PlatformCoordinated" by code_simp
  have "map_option fst (cpu_suspend fvp_cfg fvp calm_env PlatformCoordinated fvp_booted 0
      (PowerDown 0x022) (Entry64 0x80000000 7)) =
      Some (InSuspend (new_with_last_power_level [FvpOff, FvpOff, FvpRun] 0) True)"
    by code_simp
  then obtain cs s' where sus: "cpu_suspend fvp_cfg fvp calm_env (suspend_mode fvp_booted) fvp_booted 0
      (PowerDown 0x022) (Entry64 0x80000000 7) = Some (InSuspend cs True, s')"
    by (auto simp: mode)
  with cpu_suspend_then_boot [OF armv8.fvp.psci_platform_laws_axioms fvp_inv fvp_active calm_env_ok sus]
  show ?thesis by (auto simp: mode)
qed

text \<open>
  C11. Every refusal of \<open>CPU_ON\<close> has its own error, tried in the order of the code: an unknown
  target, an entry point outside the non-secure memory, a target that is on, one that is being
  turned on, and a failure of the platform. None of them changes a CPU.
\<close>

theorem cpu_on_refusals:
  assumes laws: "psci_platform_laws cfg plat" and inv: "inv_tree cfg (power_domain_tree s)"
    and idx: "try_get_cpu_index_by_mpidr cfg plat target = Some idx"
    and refused: "\<not> (\<exists>i u. idx = Some i \<and> is_valid_ns_entrypoint plat entry \<and>
      affinity_info (cpu_power_nodes (power_domain_tree s) ! i) = Off \<and>
      power_domain_on env target = Inr u)"
  shows "\<exists>s'. cpu_on cfg plat env s target entry = Some (Inl
      (case idx of None \<Rightarrow> InvalidParameters
       | Some i \<Rightarrow>
           if \<not> is_valid_ns_entrypoint plat entry then InvalidAddress
           else (case affinity_info (cpu_power_nodes (power_domain_tree s) ! i) of
                   On \<Rightarrow> AlreadyOn
                 | OnPending \<Rightarrow> OnPendingError
                 | Off \<Rightarrow> projl (power_domain_on env target))), s') \<and>
    power_domain_tree s' = power_domain_tree s"
proof -
  note wf = inv_treeD(1) [OF inv] and L = psci_platform_laws.axioms(1) [OF laws]
  have "i < CPU_DOMAIN_COUNT cfg" if "idx = Some i" for i
    using psci_platform_laws.try_get_cpu_index_Some [OF laws wf, of target] idx that by auto
  note locked = power_state_laws.locked_cpu_node_Some [OF L wf this]
  have same: "cpu\<lparr>affinity_info := Off\<rparr> = cpu" if "affinity_info cpu = Off"
    for cpu :: "'a CpuPowerNode"
    using that by (cases cpu) simp
  show ?thesis
    using idx refused
    by (cases idx; cases "power_domain_on env target")
      (auto simp: cpu_on_def locked set_affinity_info_def emit_def Let_def unlock_same same
        split: AffinityInfo.splits)
qed

theorem cpu_on_refusals_witness:
  "\<exists>s'. cpu_on fvp_cfg fvp calm_env fvp_booted 0 (Entry64 0x80000000 7) = Some (Inl AlreadyOn, s')"
proof -
  have idx: "try_get_cpu_index_by_mpidr fvp_cfg fvp 0 = Some (Some 0)"
    and on: "affinity_info (cpu_power_nodes (power_domain_tree fvp_booted) ! 0) = On"
    and ep: "is_valid_ns_entrypoint fvp (Entry64 0x80000000 7)"
    by code_simp+
  show ?thesis
    using cpu_on_refusals [OF armv8.fvp.psci_platform_laws_axioms fvp_inv idx,
        of "Entry64 0x80000000 7" calm_env] on ep
    by auto
qed

text \<open>
  C12. \<open>CPU_OFF\<close> of a running core, once the platform has agreed to it, ends with the core off, and
  takes its effects in this order: the secure world is told, the interrupt controller and the
  core's context are shut down, the platform gets the coordinated state, and the last access to
  memory is a barrier. The level given to the power-down is the highest level that goes down.
\<close>

theorem cpu_off_effects:
  assumes laws: "psci_platform_laws cfg plat"
    and inv: "inv_tree cfg (power_domain_tree s)" and act: "active cfg (power_domain_tree s) c"
    and agreed: "power_domain_off_early env (composite_OFF cfg) = Inr ()"
  shows "\<exists>s' cs l. cpu_off cfg env s c = Some (PoweredOff, s') \<and>
    affinity_info (cpu_power_nodes (power_domain_tree s') ! c) = Off \<and>
    find_highest_power_down_level cfg cs = Some l \<and>
    trace s' = trace s @ [ForwardPsciRequest CpuOff, NotifyCpuOff, CpuPowerDown l,
      PowerDomainOff cs, PowerDomainPowerDown cs, DsbSy]"
proof -
  have "c < length (cpu_power_nodes (power_domain_tree s))"
    using act wf_treeD(1) [OF inv_treeD(1) [OF inv]] by (simp add: active_def)
  then show ?thesis
    using power_state_laws.cpu_off_ok [OF psci_platform_laws.axioms(1) [OF laws] inv act, of env] agreed
    by auto
qed

theorem cpu_off_effects_witness:
  "\<exists>s'. cpu_off fvp_cfg calm_env fvp_booted 0 = Some (PoweredOff, s') \<and>
     affinity_info (cpu_power_nodes (power_domain_tree s') ! 0) = Off"
  using cpu_off_effects [OF armv8.fvp.psci_platform_laws_axioms fvp_inv fvp_active, of calm_env]
  by (auto simp: calm_env_def)

text \<open>
  C13. \<open>PSCI_FEATURES\<close> tells the truth about the optional functions: for a function it reports as not
  supported, the call itself answers that it is not supported and changes nothing.
\<close>

definition optional_call :: "Function \<Rightarrow> FunctionId option" where
  "optional_call f =
     (case f of
        SystemOff2 _ _ \<Rightarrow> Some FSystemOff264
      | SystemReset2 _ _ \<Rightarrow> Some FSystemReset264
      | MemProtect _ \<Rightarrow> Some FMemProtect
      | MemProtectCheckRange _ \<Rightarrow> Some FMemProtectCheckRange64
      | CpuFreeze \<Rightarrow> Some FCpuFreeze
      | CpuDefaultSuspend _ \<Rightarrow> Some FCpuDefaultSuspend64
      | NodeHwState _ _ \<Rightarrow> Some FNodeHwState64
      | SystemSuspend _ \<Rightarrow> Some FSystemSuspend64
      | SetSuspendMode _ \<Rightarrow> Some FPsciSetSuspendMode
      | Migrate \<Rightarrow> Some FMigrate64
      | MigrateInfoUpCpu \<Rightarrow> Some FMigrateInfoUpCpu64
      | StatResidency \<Rightarrow> Some FPsciStatResidency64
      | StatCount \<Rightarrow> Some FPsciStatCount64
      | _ \<Rightarrow> None)"

theorem psci_features_truthful:
  assumes "optional_call f = Some fid"
    and "handle_features psci plat (PsciFunction fid) = Inl NotSupported"
  shows "handle_function psci cfg plat env mode2 s c f = Some (Returned (Inl NotSupported), s)"
  using assms
  by (cases f) (auto simp: optional_call_def check_optional_feature_def system_off2_def
      system_reset2_def mem_protect_def mem_protect_check_range_def cpu_freeze_def
      cpu_default_suspend_def node_hw_state_def system_suspend_def set_suspend_mode_def
      returned_def success_of_def outcome_success_def split: if_splits)

theorem psci_features_truthful_witness:
  "handle_features plain_psci fvp (PsciFunction FCpuFreeze) = Inl NotSupported \<and>
     handle_function plain_psci fvp_cfg fvp calm_env PlatformCoordinated fvp_booted 0 CpuFreeze =
       Some (Returned (Inl NotSupported), fvp_booted)"
proof -
  have "handle_features plain_psci fvp (PsciFunction FCpuFreeze) = Inl NotSupported"
    by (simp add: check_optional_feature_def has_feature_def fvp_platform_def feature_flag_defs)
  moreover have "optional_call CpuFreeze = Some FCpuFreeze" by (simp add: optional_call_def)
  ultimately show ?thesis using psci_features_truthful by blast
qed

section \<open>The platforms\<close>

text \<open>
  C14. On FVP the number of a core tells its affinity: two valid values of the affinity register
  with the same multi-threading bit that are mapped to the same core agree in their cluster, CPU
  and thread fields, and every core number is below the number of cores.
\<close>

theorem fvp_core_position_injective:
  assumes layout: "mpidr_layout regs"
    and valid: "fvp_mpidr_is_valid regs m1" "fvp_mpidr_is_valid regs m2"
    and mt: "m1 AND mpidr_MT regs = m2 AND mpidr_MT regs"
    and same: "fvp_core_position regs m1 = fvp_core_position regs m2"
  shows "fvp_core_position regs m1 < CPU_DOMAIN_COUNT fvp_cfg \<and>
    aff0 regs m1 = aff0 regs m2 \<and> aff1 regs m1 = aff1 regs m2 \<and> aff2 regs m1 = aff2 regs m2 \<and>
    aff3 regs m1 = aff3 regs m2"
proof -
  note F = mpidr_layout.fvp_core_position_fields [OF layout] mpidr_layout.mt_cases [OF layout]
  have nz: "mpidr_MT regs \<noteq> 0" by (simp add: mpidr_layout.mt [OF layout])
  have "fvp_core_position regs m1 < 8 \<and> unat (aff0 regs m1) = unat (aff0 regs m2) \<and>
      unat (aff1 regs m1) = unat (aff1 regs m2) \<and> aff2 regs m1 = aff2 regs m2 \<and>
      aff3 regs m1 = aff3 regs m2"
  proof (cases "m1 AND mpidr_MT regs = mpidr_MT regs")
    case True
    then have *: "unat (aff2 regs m1) * 4 + unat (aff1 regs m1) = unat (aff2 regs m2) * 4 + unat (aff1 regs m2)"
        "unat (aff2 regs m1) < 2" "unat (aff1 regs m1) < 4" "unat (aff1 regs m2) < 4"
        "unat (aff0 regs m1) = 0" "unat (aff0 regs m2) = 0" "aff3 regs m1 = 0" "aff3 regs m2 = 0"
        "fvp_core_position regs m1 = unat (aff2 regs m1) * 4 + unat (aff1 regs m1)"
      using valid mt same by (auto simp: fvp_mpidr_is_valid_def F fvp_consts nz)
    from *(1,3,4) have "unat (aff2 regs m1) = unat (aff2 regs m2)" "unat (aff1 regs m1) = unat (aff1 regs m2)"
      by presburger+
    with * show ?thesis by (auto simp: word_unat_eq_iff)
  next
    case False
    then have *: "unat (aff1 regs m1) * 4 + unat (aff0 regs m1) = unat (aff1 regs m2) * 4 + unat (aff0 regs m2)"
        "unat (aff1 regs m1) < 2" "unat (aff0 regs m1) < 4" "unat (aff0 regs m2) < 4"
        "aff2 regs m1 = 0" "aff2 regs m2 = 0" "aff3 regs m1 = 0" "aff3 regs m2 = 0"
        "fvp_core_position regs m1 = unat (aff1 regs m1) * 4 + unat (aff0 regs m1)"
      using valid mt same by (auto simp: fvp_mpidr_is_valid_def F fvp_consts nz)
    from *(1,3,4) have "unat (aff1 regs m1) = unat (aff1 regs m2)" "unat (aff0 regs m1) = unat (aff0 regs m2)"
      by presburger+
    with * show ?thesis by auto
  qed
  then show ?thesis by (simp add: fvp_levels word_unat_eq_iff)
qed

theorem fvp_core_position_injective_witness:
  "fvp_mpidr_is_valid armv8_sysregs 0x102 \<and> fvp_core_position armv8_sysregs 0x102 < CPU_DOMAIN_COUNT fvp_cfg"
proof -
  have "fvp_mpidr_is_valid armv8_sysregs 0x102" by code_simp
  then show ?thesis
    using fvp_core_position_injective [OF armv8.mpidr_layout_axioms, of "0x102" "0x102"] by simp
qed




end
