(* ===== verification/Smccc.thy ===== *)
theory Smccc
  imports Prelude
begin

text \<open>
  The SMC calling convention, \<^verbatim>\<open>src/src/smccc.rs\<close>: the fields of a function identifier, the
  registers a call returns, and the interface of a runtime service with its range of function
  identifiers (\<^verbatim>\<open>src/src/services.rs\<close>).
\<close>

section \<open>Function identifiers\<close>

type_synonym SmcFunctionId = u32
type_synonym OwningEntityNumber = u8

definition FAST_CALL :: u32 where "FAST_CALL = 0x80000000"
definition SMC64 :: u32 where "SMC64 = 0x40000000"
definition OEN_MASK :: u32 where "OEN_MASK = 0x3f000000"
definition OEN_SHIFT :: nat where "OEN_SHIFT = 24"
definition SVE_HINT :: u32 where "SVE_HINT = push_bit 16 1"
definition RESERVED_BITS :: u32 where "RESERVED_BITS = push_bit 17 0x7f"

definition SUCCESS :: i32 where "SUCCESS = 0"
definition NOT_SUPPORTED :: i32 where "NOT_SUPPORTED = -1"
definition INVALID_PARAMETER :: i32 where "INVALID_PARAMETER = -3"

lemmas smccc_consts = FAST_CALL_def SMC64_def OEN_MASK_def OEN_SHIFT_def SVE_HINT_def RESERVED_BITS_def

datatype SmcccCallType = Fast32 | Fast64 | Yielding

datatype OwningEntity =
  ArmArchitectureService | CPUService | SiPService | OEMService | StandardSecureService
  | StandardHypervisorService | VendorSpecificHypervisorService | VendorSpecificEL3MonitorService
  | TrustedApplications | TrustedOS | UnknownEntity

definition ARM_ARCHITECTURE :: OwningEntityNumber where "ARM_ARCHITECTURE = 0"
definition OEN_CPU :: OwningEntityNumber where "OEN_CPU = 1"
definition OEN_SIP :: OwningEntityNumber where "OEN_SIP = 2"
definition OEN_OEM :: OwningEntityNumber where "OEN_OEM = 3"
definition STANDARD_SECURE :: OwningEntityNumber where "STANDARD_SECURE = 4"
definition STANDARD_HYPERVISOR :: OwningEntityNumber where "STANDARD_HYPERVISOR = 5"
definition VENDOR_SPECIFIC_HYPERVISOR :: OwningEntityNumber where "VENDOR_SPECIFIC_HYPERVISOR = 6"
definition VENDOR_SPECIFIC_EL3_MONITOR :: OwningEntityNumber where "VENDOR_SPECIFIC_EL3_MONITOR = 7"

lemmas oen_consts =
  ARM_ARCHITECTURE_def OEN_CPU_def OEN_SIP_def OEN_OEM_def STANDARD_SECURE_def
  STANDARD_HYPERVISOR_def VENDOR_SPECIFIC_HYPERVISOR_def VENDOR_SPECIFIC_EL3_MONITOR_def

definition oe :: "OwningEntityNumber \<Rightarrow> OwningEntity" where
  "oe n =
     (if n = ARM_ARCHITECTURE then ArmArchitectureService
      else if n = OEN_CPU then CPUService
      else if n = OEN_SIP then SiPService
      else if n = OEN_OEM then OEMService
      else if n = STANDARD_SECURE then StandardSecureService
      else if n = STANDARD_HYPERVISOR then StandardHypervisorService
      else if n = VENDOR_SPECIFIC_HYPERVISOR then VendorSpecificHypervisorService
      else if n = VENDOR_SPECIFIC_EL3_MONITOR then VendorSpecificEL3MonitorService
      else if 48 \<le> n \<and> n \<le> 49 then TrustedApplications
      else if 50 \<le> n \<and> n \<le> 63 then TrustedOS
      else UnknownEntity)"

definition oen :: "SmcFunctionId \<Rightarrow> OwningEntityNumber" where
  "oen f = ucast (drop_bit OEN_SHIFT (f AND OEN_MASK))"

definition fid_number :: "SmcFunctionId \<Rightarrow> u16" where
  "fid_number f = ucast f"

definition call_type :: "SmcFunctionId \<Rightarrow> SmcccCallType" where
  "call_type f =
     (if f AND FAST_CALL \<noteq> 0
      then (if f AND SMC64 \<noteq> 0 then Fast64 else Fast32)
      else Yielding)"

definition sve_hint :: "SmcFunctionId \<Rightarrow> bool" where
  "sve_hint f \<longleftrightarrow> f AND SVE_HINT \<noteq> 0"

definition set_sve_hint :: "SmcFunctionId \<Rightarrow> SmcFunctionId" where
  "set_sve_hint f = f OR SVE_HINT"

definition clear_sve_hint :: "SmcFunctionId \<Rightarrow> SmcFunctionId" where
  "clear_sve_hint f = f AND NOT SVE_HINT"

definition fid_valid :: "SmcFunctionId \<Rightarrow> bool" where
  "fid_valid f \<longleftrightarrow> call_type f = Yielding \<or> f AND RESERVED_BITS = 0"

subsection \<open>The fields as bits\<close>

lemma bit_fast_call: "f AND FAST_CALL \<noteq> 0 \<longleftrightarrow> bit f 31"
  using and_bit_eq_0_iff [of f 31] by (simp add: FAST_CALL_def)

lemma bit_smc64: "f AND SMC64 \<noteq> 0 \<longleftrightarrow> bit f 30"
  using and_bit_eq_0_iff [of f 30] by (simp add: SMC64_def)

lemma sve_hint_bit: "sve_hint f \<longleftrightarrow> bit f 16"
  using and_bit_eq_0_iff [of f 16] by (simp add: sve_hint_def SVE_HINT_def)

lemma bit_clear_sve_hint: "bit (clear_sve_hint f) n \<longleftrightarrow> bit f n \<and> n \<noteq> 16"
proof -
  have "bit (f AND NOT (push_bit 16 1)) n \<longleftrightarrow> bit f n \<and> n \<noteq> 16"
    using bit_imp_le_length [of f n] by (auto simp only: bit_simps) auto
  then show ?thesis by (simp only: clear_sve_hint_def SVE_HINT_def)
qed

lemma bit_set_sve_hint: "n < 32 \<Longrightarrow> bit (set_sve_hint f) n \<longleftrightarrow> bit f n \<or> n = 16"
proof -
  assume "n < 32"
  then have "bit (f OR push_bit 16 1) n \<longleftrightarrow> bit f n \<or> n = 16"
    by (auto simp only: bit_simps) auto
  then show ?thesis by (simp only: set_sve_hint_def SVE_HINT_def)
qed

lemma bit_oen: "bit (oen f) n \<longleftrightarrow> n < 6 \<and> bit f (n + 24)"
proof -
  have "OEN_MASK = push_bit 24 (mask 6)" by (simp add: OEN_MASK_def mask_numeral)
  then have "bit (oen f) n \<longleftrightarrow> n < 8 \<and> bit (f AND push_bit 24 (mask 6)) (n + 24)"
    by (simp only: oen_def OEN_SHIFT_def bit_ucast_iff bit_drop_bit_eq comp_def add.commute) simp
  then show ?thesis by (auto simp only: bit_and_field)
qed

lemma bit_fid_number: "bit (fid_number f) n \<longleftrightarrow> n < 16 \<and> bit f n"
  by (simp add: fid_number_def bit_simps)

lemma reserved_bits: "f AND RESERVED_BITS = 0 \<longleftrightarrow> (\<forall>n. 17 \<le> n \<and> n < 24 \<longrightarrow> \<not> bit f n)"
proof -
  have "RESERVED_BITS = push_bit 17 (mask 7)" by (simp add: RESERVED_BITS_def mask_numeral)
  then show ?thesis using and_field_eq_0_iff [of f 17 7] by simp
qed

section \<open>Return values\<close>

definition MAX_VALUES :: nat where "MAX_VALUES = 18"

record SmcReturn =
  smc_used :: nat
  smc_values :: "u64 list"

definition SmcReturn_EMPTY :: SmcReturn where
  "SmcReturn_EMPTY = \<lparr>smc_used = 0, smc_values = replicate 18 0\<rparr>"

definition reg_values :: "SmcReturn \<Rightarrow> u64 list" where
  "reg_values r = take (smc_used r) (smc_values r)"

definition mark_used :: "nat \<Rightarrow> SmcReturn \<Rightarrow> SmcReturn" where
  "mark_used n r = r\<lparr>smc_used := n\<rparr>"

definition mark_all_used :: "SmcReturn \<Rightarrow> SmcReturn" where
  "mark_all_used r = mark_used MAX_VALUES r"

definition mark_empty :: "SmcReturn \<Rightarrow> SmcReturn" where
  "mark_empty r = r\<lparr>smc_used := 0\<rparr>"

definition smc_is_empty :: "SmcReturn \<Rightarrow> bool" where
  "smc_is_empty r \<longleftrightarrow> smc_used r = 0"

text \<open>\<open>set_args2\<close> to \<open>set_args5\<close>: the macro writes the arguments in order and marks them used.\<close>

definition set_args :: "u64 list \<Rightarrow> SmcReturn \<Rightarrow> SmcReturn" where
  "set_args args r = \<lparr>smc_used = length args, smc_values = args @ drop (length args) (smc_values r)\<rparr>"

definition SmcReturn_eq :: "SmcReturn \<Rightarrow> SmcReturn \<Rightarrow> bool" where
  "SmcReturn_eq a b \<longleftrightarrow>
     smc_used a = smc_used b \<and> take (smc_used a) (smc_values a) = take (smc_used a) (smc_values b)"

definition set_from_u64 :: "u64 \<Rightarrow> SmcReturn \<Rightarrow> SmcReturn" where
  "set_from_u64 v r = \<lparr>smc_used = 1, smc_values = (smc_values r)[0 := v]\<rparr>"

definition set_from_u32 :: "u32 \<Rightarrow> SmcReturn \<Rightarrow> SmcReturn" where
  "set_from_u32 v = set_from_u64 (ucast v)"

definition set_from_i32 :: "i32 \<Rightarrow> SmcReturn \<Rightarrow> SmcReturn" where
  "set_from_i32 v = set_from_u64 (scast v)"

fun from_le_bytes :: "u8 list \<Rightarrow> u64" where
  "from_le_bytes [] = 0"
| "from_le_bytes (b # bs) = ucast b OR push_bit 8 (from_le_bytes bs)"

definition set_from_uuid :: "u8 list \<Rightarrow> SmcReturn \<Rightarrow> SmcReturn" where
  "set_from_uuid bytes r =
     \<lparr>smc_used = 4,
      smc_values = (smc_values r)
        [0 := from_le_bytes (take 4 bytes), 1 := from_le_bytes (take 4 (drop 4 bytes)),
         2 := from_le_bytes (take 4 (drop 8 bytes)), 3 := from_le_bytes (take 4 (drop 12 bytes))]\<rparr>"

text \<open>Every value of the type has eighteen registers, of which a prefix is used.\<close>

definition smc_return_ok :: "SmcReturn \<Rightarrow> bool" where
  "smc_return_ok r \<longleftrightarrow> length (smc_values r) = MAX_VALUES \<and> smc_used r \<le> MAX_VALUES"

named_theorems smc_simps \<open>what the registers hold after an operation\<close>

lemma reg_values_set_from [smc_simps]:
  "smc_return_ok r \<Longrightarrow> reg_values (set_from_u64 v r) = [v]"
  by (cases "smc_values r") (auto simp: reg_values_def set_from_u64_def smc_return_ok_def MAX_VALUES_def)

lemma reg_values_set_from_i32 [smc_simps]:
  "smc_return_ok r \<Longrightarrow> reg_values (set_from_i32 v r) = [scast v]"
  by (simp add: set_from_i32_def smc_simps)

lemma reg_values_set_args [smc_simps]:
  "smc_return_ok r \<Longrightarrow> reg_values (set_args args r) = args"
  by (simp add: reg_values_def set_args_def)

lemma reg_values_mark_empty [smc_simps]: "reg_values (mark_empty r) = []"
  by (simp add: reg_values_def mark_empty_def)

lemma smc_return_ok_intros [intro, simp]:
  "smc_return_ok r \<Longrightarrow> smc_return_ok (set_from_u64 v r)"
  "smc_return_ok r \<Longrightarrow> smc_return_ok (set_from_u32 v32 r)"
  "smc_return_ok r \<Longrightarrow> smc_return_ok (set_from_i32 i r)"
  "smc_return_ok r \<Longrightarrow> length args \<le> MAX_VALUES \<Longrightarrow> smc_return_ok (set_args args r)"
  "smc_return_ok r \<Longrightarrow> smc_return_ok (mark_empty r)"
  "smc_return_ok r \<Longrightarrow> smc_return_ok (mark_all_used r)"
  "smc_return_ok r \<Longrightarrow> smc_return_ok (set_from_uuid bytes r)"
  "smc_return_ok SmcReturn_EMPTY"
  by (auto simp: smc_return_ok_def set_from_u64_def set_from_u32_def set_from_i32_def set_args_def
      mark_empty_def mark_all_used_def mark_used_def set_from_uuid_def SmcReturn_EMPTY_def MAX_VALUES_def)

section \<open>Services\<close>

datatype World = NonSecure | Secure | Realm

text \<open>The two forms of the macro \<open>owns!\<close>.\<close>

definition owns_oen :: "OwningEntityNumber \<Rightarrow> SmcFunctionId \<Rightarrow> bool" where
  "owns_oen entity f \<longleftrightarrow> oen f = entity \<and> call_type f \<in> {Fast32, Fast64}"

definition owns_range :: "OwningEntityNumber \<Rightarrow> u16 \<Rightarrow> u16 \<Rightarrow> SmcFunctionId \<Rightarrow> bool" where
  "owns_range entity lo hi f \<longleftrightarrow>
     oen f = entity \<and> lo \<le> fid_number f \<and> fid_number f \<le> hi \<and> call_type f \<in> {Fast32, Fast64}"

text \<open>The answer of a service that has no handler for a world.\<close>

definition default_smc :: "World \<Rightarrow> SmcReturn \<Rightarrow> SmcReturn \<times> World" where
  "default_smc world r = (set_from_i32 NOT_SUPPORTED r, world)"

lemma call_type_clear_sve_hint [simp]: "call_type (clear_sve_hint f) = call_type f"
  by (simp add: call_type_def bit_fast_call bit_smc64 bit_clear_sve_hint)

lemma oen_clear_sve_hint [simp]: "oen (clear_sve_hint f) = oen f"
  by (rule bit_word_eqI) (auto simp: bit_oen bit_clear_sve_hint)

lemma fid_number_clear_sve_hint [simp]: "fid_number (clear_sve_hint f) = fid_number f"
  by (rule bit_word_eqI) (auto simp: bit_fid_number bit_clear_sve_hint)

lemma clear_set_sve_hint [simp]: "clear_sve_hint (set_sve_hint f) = clear_sve_hint f"
  by (rule bit_word_eqI) (auto simp: bit_clear_sve_hint bit_set_sve_hint)

end
