(* ===== verification/Trng.thy ===== *)
theory Trng
  imports Smccc
begin

text \<open>
  The entropy service, \<^verbatim>\<open>src/src/services/trng.rs\<close>: the pool of entropy bits and the calls of the
  TRNG firmware interface.

  The platform's entropy source is a function \<open>get_entropy\<close> on a state of its own. The pool is a ring
  of 64-bit words that is read bit by bit; its abstract content is the list of the bits it holds in
  the order they came. Filling appends, packing takes from the front, and the bits that were handed
  out are overwritten with zeros.
\<close>

section \<open>Constants and errors\<close>

definition ARM_TRNG_VERSION :: u32 where "ARM_TRNG_VERSION = 0x84000050"
definition ARM_TRNG_FEATURES :: u32 where "ARM_TRNG_FEATURES = 0x84000051"
definition ARM_TRNG_GET_UUID :: u32 where "ARM_TRNG_GET_UUID = 0x84000052"
definition ARM_TRNG_RND32 :: u32 where "ARM_TRNG_RND32 = 0x84000053"
definition ARM_TRNG_RND64 :: u32 where "ARM_TRNG_RND64 = 0xC4000053"
definition TRNG_FN_NUM_MIN :: u16 where "TRNG_FN_NUM_MIN = 0x50"
definition TRNG_FN_NUM_MAX :: u16 where "TRNG_FN_NUM_MAX = 0x53"
definition TRNG_VERSION :: u32 where "TRNG_VERSION = push_bit 16 1 OR 0"

lemmas trng_consts =
  ARM_TRNG_VERSION_def ARM_TRNG_FEATURES_def ARM_TRNG_GET_UUID_def ARM_TRNG_RND32_def
  ARM_TRNG_RND64_def TRNG_FN_NUM_MIN_def TRNG_FN_NUM_MAX_def

datatype TrngError = TrngNotSupported | TrngInvalidParams | TrngNoEntropy

fun trng_error_code :: "TrngError \<Rightarrow> i32" where
  "trng_error_code TrngNotSupported = -1"
| "trng_error_code TrngInvalidParams = -2"
| "trng_error_code TrngNoEntropy = -3"

definition TRNG_RND32_ENTROPY_MAXBITS :: nat where "TRNG_RND32_ENTROPY_MAXBITS = 96"
definition TRNG_RND64_ENTROPY_MAXBITS :: nat where "TRNG_RND64_ENTROPY_MAXBITS = 192"
definition BITS_PER_WORD :: nat where "BITS_PER_WORD = 64"

definition words_in_pool :: "nat \<Rightarrow> nat" where
  "words_in_pool req_words = TRNG_RND64_ENTROPY_MAXBITS div BITS_PER_WORD + req_words"

definition bits_in_pool :: "nat \<Rightarrow> nat" where
  "bits_in_pool words = words * BITS_PER_WORD"

lemmas pool_consts [simp] =
  TRNG_RND32_ENTROPY_MAXBITS_def TRNG_RND64_ENTROPY_MAXBITS_def BITS_PER_WORD_def bits_in_pool_def

record 'src trng_platform =
  TRNG_UUID :: "u8 list"
  get_entropy :: "'src \<Rightarrow> (TrngError + u64 list) \<times> 'src"

text \<open>The source of both platforms of the repository, which have none.\<close>

definition NotSupportedTrngPlatformImpl :: "'src trng_platform" where
  "NotSupportedTrngPlatformImpl =
     \<lparr>TRNG_UUID = replicate 16 0, get_entropy = (\<lambda>src. (Inl TrngNotSupported, src))\<rparr>"

section \<open>The pool\<close>

record EntropyPool =
  entropy :: "u64 list"
  entropy_bit_index :: nat
  entropy_bit_size :: nat

definition EntropyPool_new :: "nat \<Rightarrow> EntropyPool" where
  "EntropyPool_new words = \<lparr>entropy = replicate words 0, entropy_bit_index = 0, entropy_bit_size = 0\<rparr>"

fun store_words :: "nat \<Rightarrow> u64 list \<Rightarrow> nat \<Rightarrow> EntropyPool \<Rightarrow> EntropyPool option" where
  "store_words words [] free_word pool = Some pool"
| "store_words words (val # buf) free_word pool =
     do {
       ent \<leftarrow> checked_update (entropy pool) free_word val;
       store_words words buf ((free_word + 1) mod words)
         (pool\<lparr>entropy := ent, entropy_bit_size := entropy_bit_size pool + BITS_PER_WORD\<rparr>)
     }"

partial_function (option) fill_entropy ::
  "'src trng_platform \<Rightarrow> nat \<Rightarrow> nat \<Rightarrow> EntropyPool \<Rightarrow> 'src \<Rightarrow>
     ((TrngError + unit) \<times> EntropyPool \<times> 'src) option" where
  "fill_entropy plat words nbits pool src =
     (if nbits > entropy_bit_size pool
      then (case get_entropy plat src of
              (Inl e, src') \<Rightarrow> Some (Inl e, pool, src')
            | (Inr buf, src') \<Rightarrow> do {
                let free_bit = entropy_bit_size pool + entropy_bit_index pool;
                let free_word = (free_bit div BITS_PER_WORD) mod words;
                pool' \<leftarrow> store_words words buf free_word pool;
                assert_that (entropy_bit_size pool' \<le> bits_in_pool words);
                fill_entropy plat words nbits pool' src' })
      else Some (Inr (), pool, src))"

text \<open>One round of the packing loop: the word it fills, the pool words and the bits to discard.\<close>

definition pack_word ::
  "nat \<Rightarrow> nat \<Rightarrow> nat \<Rightarrow> nat \<Rightarrow> nat \<Rightarrow> u64 list \<Rightarrow> nat \<Rightarrow> u64 \<Rightarrow> (u64 \<times> u64 list \<times> nat) option" where
  "pack_word words rshift lshift min_word idx ent bits_to_discard word_i =
     do {
       let pool_idx0 = (min_word + idx) mod words;
       e0 \<leftarrow> checked_index ent pool_idx0;
       let word_i = word_i OR drop_bit rshift e0;
       (ent, bits_to_discard) \<leftarrow>
         (if bits_to_discard < BITS_PER_WORD - rshift
          then do {
            ent \<leftarrow> checked_update ent pool_idx0
              (e0 AND push_bit ((bits_to_discard + rshift) mod BITS_PER_WORD) (-1));
            Some (ent, 0) }
          else do {
            ent \<leftarrow> checked_update ent pool_idx0 0;
            Some (ent, bits_to_discard - (BITS_PER_WORD - rshift)) });
       if lshift \<noteq> BITS_PER_WORD
       then do {
         let pool_idx1 = (min_word + idx + 1) mod words;
         e1 \<leftarrow> checked_index ent pool_idx1;
         let word_i = word_i OR push_bit lshift e1;
         if bits_to_discard < BITS_PER_WORD - lshift
         then do {
           ent \<leftarrow> checked_update ent pool_idx1
             (e1 AND push_bit (bits_to_discard mod BITS_PER_WORD) (-1));
           Some (word_i, ent, 0) }
         else do {
           ent \<leftarrow> checked_update ent pool_idx1
             (e1 AND push_bit ((BITS_PER_WORD - lshift) mod BITS_PER_WORD) (-1));
           Some (word_i, ent, bits_to_discard - (BITS_PER_WORD - lshift)) } }
       else Some (word_i, ent, bits_to_discard)
     }"

fun pack_words ::
  "nat \<Rightarrow> nat \<Rightarrow> nat \<Rightarrow> nat \<Rightarrow> nat \<Rightarrow> nat \<Rightarrow> u64 list \<Rightarrow> nat \<Rightarrow> u64 list \<Rightarrow> (u64 list \<times> u64 list) option" where
  "pack_words words rshift lshift min_word to_fill idx ent bits_to_discard [] = Some ([], ent)"
| "pack_words words rshift lshift min_word to_fill idx ent bits_to_discard (word_i # out) =
     (if idx < to_fill
      then do {
        (w, ent, bits_to_discard) \<leftarrow> pack_word words rshift lshift min_word idx ent bits_to_discard word_i;
        (ws, ent) \<leftarrow> pack_words words rshift lshift min_word to_fill (idx + 1) ent bits_to_discard out;
        Some (w # ws, ent) }
      else Some (word_i # out, ent))"

definition div_ceil :: "nat \<Rightarrow> nat \<Rightarrow> nat" where
  "div_ceil a b = (a + b - 1) div b"

definition pack_entropy ::
  "'src trng_platform \<Rightarrow> nat \<Rightarrow> nat \<Rightarrow> u64 list \<Rightarrow> EntropyPool \<Rightarrow> 'src \<Rightarrow>
     ((TrngError + u64 list) \<times> EntropyPool \<times> 'src) option" where
  "pack_entropy plat words nbits out pool src =
     do {
       (r, pool, src) \<leftarrow> fill_entropy plat words nbits pool src;
       (case r of
          Inl e \<Rightarrow> Some (Inl e, pool, src)
        | Inr _ \<Rightarrow> do {
            let out = map (\<lambda>_. 0) out;
            let rshift = entropy_bit_index pool mod BITS_PER_WORD;
            let lshift = BITS_PER_WORD - rshift;
            let to_fill = div_ceil nbits BITS_PER_WORD;
            let min_word = entropy_bit_index pool div BITS_PER_WORD;
            (out, ent) \<leftarrow> pack_words words rshift lshift min_word to_fill 0 (entropy pool) nbits out;
            out \<leftarrow>
              (if nbits mod BITS_PER_WORD \<noteq> 0
               then do {
                 last_word \<leftarrow> checked_index out (to_fill - 1);
                 checked_update out (to_fill - 1)
                   (last_word AND drop_bit (BITS_PER_WORD - nbits mod BITS_PER_WORD) (-1)) }
               else Some out);
            size \<leftarrow> checked_minus (entropy_bit_size pool) nbits;
            Some (Inr out,
              \<lparr>entropy = ent,
               entropy_bit_index = (entropy_bit_index pool + nbits) mod bits_in_pool words,
               entropy_bit_size = size\<rparr>, src) })
     }"

section \<open>The service\<close>

definition is_trng_fid :: "u32 \<Rightarrow> bool" where
  "is_trng_fid smc_fid \<longleftrightarrow>
     smc_fid \<in> {ARM_TRNG_VERSION, ARM_TRNG_FEATURES, ARM_TRNG_GET_UUID, ARM_TRNG_RND32, ARM_TRNG_RND64}"

definition set_from_trng_error :: "TrngError \<Rightarrow> SmcReturn \<Rightarrow> SmcReturn" where
  "set_from_trng_error e = set_from_i32 (trng_error_code e)"

definition trng_rnd32 ::
  "'src trng_platform \<Rightarrow> nat \<Rightarrow> SmcReturn \<Rightarrow> EntropyPool \<Rightarrow> 'src \<Rightarrow>
     (SmcReturn \<times> EntropyPool \<times> 'src) option" where
  "trng_rnd32 plat words regs pool src =
     do {
       v \<leftarrow> checked_index (reg_values regs) 1;
       let nbits = unat v;
       if nbits = 0 \<or> nbits > TRNG_RND32_ENTROPY_MAXBITS
       then Some (set_from_trng_error TrngInvalidParams regs, pool, src)
       else do {
         (r, pool, src) \<leftarrow> pack_entropy plat words nbits [0, 0] pool src;
         (case r of
            Inl e \<Rightarrow> Some (set_from_trng_error e regs, pool, src)
          | Inr ent \<Rightarrow> do {
              e0 \<leftarrow> checked_index ent 0;
              e1 \<leftarrow> checked_index ent 1;
              Some (set_args [scast SUCCESS, e1, drop_bit 32 e0 AND 0xFFFFFFFF, e0 AND 0xFFFFFFFF] regs,
                pool, src) }) } }"

definition trng_rnd64 ::
  "'src trng_platform \<Rightarrow> nat \<Rightarrow> SmcReturn \<Rightarrow> EntropyPool \<Rightarrow> 'src \<Rightarrow>
     (SmcReturn \<times> EntropyPool \<times> 'src) option" where
  "trng_rnd64 plat words regs pool src =
     do {
       v \<leftarrow> checked_index (reg_values regs) 1;
       let nbits = unat v;
       if nbits = 0 \<or> nbits > TRNG_RND64_ENTROPY_MAXBITS
       then Some (set_from_trng_error TrngInvalidParams regs, pool, src)
       else do {
         (r, pool, src) \<leftarrow> pack_entropy plat words nbits [0, 0, 0] pool src;
         (case r of
            Inl e \<Rightarrow> Some (set_from_trng_error e regs, pool, src)
          | Inr ent \<Rightarrow> do {
              e0 \<leftarrow> checked_index ent 0;
              e1 \<leftarrow> checked_index ent 1;
              e2 \<leftarrow> checked_index ent 2;
              Some (set_args [scast SUCCESS, e2, e1, e0] regs, pool, src) }) } }"

definition trng_handle_smc_common ::
  "'src trng_platform \<Rightarrow> nat \<Rightarrow> SmcReturn \<Rightarrow> EntropyPool \<Rightarrow> 'src \<Rightarrow>
     (SmcReturn \<times> EntropyPool \<times> 'src) option" where
  "trng_handle_smc_common plat words regs pool src =
     do {
       v0 \<leftarrow> checked_index (reg_values regs) 0;
       let f = clear_sve_hint (ucast v0);
       if list_all (\<lambda>b. b = 0) (TRNG_UUID plat)
       then Some (set_from_trng_error TrngNotSupported regs, pool, src)
       else if f = ARM_TRNG_VERSION then Some (set_from_u32 TRNG_VERSION regs, pool, src)
       else if f = ARM_TRNG_FEATURES
       then do {
         v1 \<leftarrow> checked_index (reg_values regs) 1;
         Some (if is_trng_fid (ucast v1) then set_from_i32 SUCCESS regs
               else set_from_trng_error TrngNotSupported regs, pool, src) }
       else if f = ARM_TRNG_GET_UUID then Some (set_from_uuid (TRNG_UUID plat) regs, pool, src)
       else if f = ARM_TRNG_RND32 then trng_rnd32 plat words regs pool src
       else if f = ARM_TRNG_RND64 then trng_rnd64 plat words regs pool src
       else Some (set_from_trng_error TrngNotSupported regs, pool, src)
     }"

definition trng_owns :: "SmcFunctionId \<Rightarrow> bool" where
  "trng_owns = owns_range STANDARD_SECURE TRNG_FN_NUM_MIN TRNG_FN_NUM_MAX"

end
