(* ===== verification/Trng_Pool.thy ===== *)
theory Trng_Pool
  imports Trng
begin

text \<open>
  The pool refines a queue of bits. A position of the pool is an absolute bit number; the word that
  holds it is found modulo the number of words.
\<close>

section \<open>The abstract content\<close>

definition view :: "nat \<Rightarrow> u64 list \<Rightarrow> nat \<Rightarrow> bool" where
  "view words ent i = bit (ent ! ((i div 64) mod words)) (i mod 64)"

definition contents :: "nat \<Rightarrow> EntropyPool \<Rightarrow> bool list" where
  "contents words pool =
     map (\<lambda>j. view words (entropy pool) (entropy_bit_index pool + j)) [0..<entropy_bit_size pool]"

definition pool_ok :: "nat \<Rightarrow> EntropyPool \<Rightarrow> bool" where
  "pool_ok words pool \<longleftrightarrow>
     length (entropy pool) = words \<and> entropy_bit_index pool < 64 * words \<and>
     64 dvd entropy_bit_index pool + entropy_bit_size pool \<and>
     entropy_bit_index pool mod 64 + entropy_bit_size pool \<le> 64 * words"

definition word_bits :: "u64 \<Rightarrow> bool list" where
  "word_bits w = map (bit w) [0..<64]"

lemma length_contents [simp]: "length (contents words pool) = entropy_bit_size pool"
  by (simp add: contents_def)

lemma length_word_bits [simp]: "length (word_bits w) = 64"
  by (simp add: word_bits_def)

lemma pool_ok_new: "0 < words \<Longrightarrow> pool_ok words (EntropyPool_new words)"
  by (simp add: pool_ok_def EntropyPool_new_def)

lemma contents_new: "contents words (EntropyPool_new words) = []"
  by (simp add: contents_def EntropyPool_new_def)

lemma mod_window:
  assumes "a \<le> x" "x < a + w" "a \<le> y" "y < a + w"
  shows "x mod w = y mod w \<longleftrightarrow> x = (y::nat)"
proof -
  have *: "x = y" if "x mod w = y mod w" "x \<le> y" "y < x + w" for x y :: nat
  proof -
    have "w dvd y - x" using that mod_eq_dvd_iff_nat [of x y w] by metis
    then show ?thesis using that by (auto dest: dvd_imp_le)
  qed
  show ?thesis using * [of x y] * [of y x] assms by (cases "x \<le> y") auto
qed

lemma div_mod_64: "n = 64 * q + r \<Longrightarrow> r < 64 \<Longrightarrow> n div 64 = q \<and> n mod 64 = (r::nat)"
  by simp

lemma view_update:
  assumes "length ent = words" "a \<le> m" "m < a + words" "64 * a \<le> i" "i < 64 * (a + words)"
  shows "view words (ent[m mod words := v]) i =
    (if i div 64 = m then bit v (i mod 64) else view words ent i)"
proof -
  have "a \<le> i div 64" "i div 64 < a + words" using assms(4,5) by auto
  then have "i div 64 mod words = m mod words \<longleftrightarrow> i div 64 = m"
    using mod_window assms(2,3) by blast
  moreover have "m mod words < words" using assms(2,3) by (cases "words = 0") auto
  ultimately show ?thesis using assms(1) by (auto simp: view_def nth_list_update)
qed

section \<open>Filling appends\<close>

lemma store_word_contents:
  fixes v :: u64
  assumes ok: "pool_ok words pool"
    and room: "entropy_bit_index pool mod 64 + entropy_bit_size pool + 64 \<le> 64 * words"
  defines "free \<equiv> (entropy_bit_size pool + entropy_bit_index pool) div 64"
  defines "pool' \<equiv> pool\<lparr>entropy := (entropy pool)[free mod words := v],
    entropy_bit_size := entropy_bit_size pool + 64\<rparr>"
  shows "pool_ok words pool'" "contents words pool' = contents words pool @ word_bits v"
proof -
  let ?i = "entropy_bit_index pool" and ?s = "entropy_bit_size pool" and ?a = "entropy_bit_index pool div 64"
  have len: "length (entropy pool) = words" and al: "64 dvd ?i + ?s" using ok by (auto simp: pool_ok_def)
  have fr: "64 * free = ?i + ?s" using al by (simp add: free_def add.commute)
  have split: "?i = 64 * ?a + ?i mod 64" by simp
  have free: "?a \<le> free" "free < ?a + words" using fr room split by linarith+
  show "pool_ok words pool'"
    using ok room by (auto simp: pool_ok_def pool'_def dvd_def) (metis add.assoc distrib_left mult.right_neutral)
  show "contents words pool' = contents words pool @ word_bits v"
  proof (rule nth_equalityI)
    show "length (contents words pool') = length (contents words pool @ word_bits v)"
      by (simp add: pool'_def)
  next
    fix j assume "j < length (contents words pool')"
    then have j: "j < ?s + 64" by (simp add: pool'_def)
    have "contents words pool' ! j = view words ((entropy pool)[free mod words := v]) (?i + j)"
      using j by (simp add: contents_def pool'_def)
    also have "\<dots> = (if (?i + j) div 64 = free then bit v ((?i + j) mod 64) else view words (entropy pool) (?i + j))"
    proof (rule view_update [OF len free])
      have "?i mod 64 + j < 64 * words" using j room by linarith
      then have "64 * ?a + ?i mod 64 + j < 64 * (?a + words)"
        by (simp only: add_mult_distrib2 add.assoc add_less_cancel_left)
      then show "?i + j < 64 * (?a + words)" by (simp only: mult_div_mod_eq)
      show "64 * ?a \<le> ?i + j" by (simp add: trans_le_add1)
    qed
    also have "\<dots> = (contents words pool @ word_bits v) ! j"
    proof (cases "j < ?s")
      case True
      then have "(?i + j) div 64 \<noteq> free" using fr by linarith
      with True show ?thesis by (simp add: nth_append contents_def)
    next
      case False
      then have "?i + j = 64 * free + (j - ?s)" "j - ?s < 64" using fr j by linarith+
      then have "(?i + j) div 64 = free" "(?i + j) mod 64 = j - ?s" by simp_all
      with False j show ?thesis by (simp add: nth_append word_bits_def)
    qed
    finally show "contents words pool' ! j = (contents words pool @ word_bits v) ! j" .
  qed
qed

lemma store_words_contents:
  assumes "pool_ok words pool"
    and "entropy_bit_index pool mod 64 + entropy_bit_size pool + 64 * length buf \<le> 64 * words"
  shows "\<exists>pool'. store_words words buf
      ((entropy_bit_size pool + entropy_bit_index pool) div 64 mod words) pool = Some pool' \<and>
    pool_ok words pool' \<and> entropy_bit_index pool' = entropy_bit_index pool \<and>
    entropy_bit_size pool' = entropy_bit_size pool + 64 * length buf \<and>
    contents words pool' = contents words pool @ concat (map word_bits buf)"
  using assms
proof (induction buf arbitrary: pool)
  case (Cons v buf)
  let ?free = "(entropy_bit_size pool + entropy_bit_index pool) div 64"
  let ?pool = "pool\<lparr>entropy := (entropy pool)[?free mod words := v],
    entropy_bit_size := entropy_bit_size pool + 64\<rparr>"
  have room: "entropy_bit_index pool mod 64 + entropy_bit_size pool + 64 \<le> 64 * words"
    using Cons.prems(2) by simp
  note s = store_word_contents [OF Cons.prems(1) room, of v]
  have w: "0 < words" using room by (cases words) auto
  have "?free mod words < length (entropy pool)"
    using Cons.prems(1) w by (simp add: pool_ok_def)
  moreover have "(?free mod words + 1) mod words =
      (entropy_bit_size ?pool + entropy_bit_index ?pool) div 64 mod words"
  proof -
    have "(entropy_bit_size ?pool + entropy_bit_index ?pool) div 64 = ?free + 1" by simp
    then show ?thesis by (simp only: mod_add_left_eq)
  qed
  ultimately have "store_words words (v # buf) (?free mod words) pool =
      store_words words buf ((entropy_bit_size ?pool + entropy_bit_index ?pool) div 64 mod words) ?pool"
    by (simp add: checked_update_Some)
  then show ?case using Cons.IH [OF s(1)] Cons.prems(2) s(2) by auto
qed simp

text \<open>What the entropy source hands over in a series of successful requests.\<close>

inductive draws :: "'src trng_platform \<Rightarrow> 'src \<Rightarrow> u64 list \<Rightarrow> 'src \<Rightarrow> bool" for plat where
  none: "draws plat src [] src"
| more: "get_entropy plat src = (Inr buf, src1) \<Longrightarrow> draws plat src1 ws src2 \<Longrightarrow>
    draws plat src (buf @ ws) src2"

text \<open>The contract of a source: every request that succeeds gives \<open>REQ_WORDS\<close> words.\<close>

locale entropy_source =
  fixes plat :: "'src trng_platform" and req :: nat
  assumes req_pos: "0 < req"
    and req_words: "get_entropy plat src = (Inr buf, src') \<Longrightarrow> length buf = req"
begin

lemma fill_entropy_ok:
  assumes "pool_ok (words_in_pool req) pool" "nbits \<le> 192"
  shows "\<exists>r pool' src' ws src1. fill_entropy plat (words_in_pool req) nbits pool src = Some (r, pool', src') \<and>
    pool_ok (words_in_pool req) pool' \<and> entropy_bit_index pool' = entropy_bit_index pool \<and>
    draws plat src ws src1 \<and>
    contents (words_in_pool req) pool' = contents (words_in_pool req) pool @ concat (map word_bits ws) \<and>
    (case r of Inl e \<Rightarrow> get_entropy plat src1 = (Inl e, src') | Inr _ \<Rightarrow> src' = src1 \<and> nbits \<le> entropy_bit_size pool')"
  using assms
proof (induction "nbits - entropy_bit_size pool" arbitrary: pool src rule: less_induct)
  case less
  let ?W = "words_in_pool req"
  show ?case
  proof (cases "nbits > entropy_bit_size pool")
    case False
    then show ?thesis
      using less.prems draws.none [of plat src]
      by (subst fill_entropy.simps) (auto intro!: exI [of _ "[]"])
  next
    case True
    show ?thesis
    proof (cases "get_entropy plat src")
      case (Pair r src1)
      show ?thesis
      proof (cases r)
        case (Inl e)
        then show ?thesis
          using True Pair less.prems draws.none [of plat src]
          by (subst fill_entropy.simps) (auto intro!: exI [of _ "[]"])
      next
        case (Inr buf)
        have len: "length buf = req" using req_words Pair Inr by simp
        have "entropy_bit_index pool mod 64 + entropy_bit_size pool \<le> 192"
        proof -
          have "64 dvd entropy_bit_index pool mod 64 + entropy_bit_size pool"
            using less.prems(1) by (simp add: pool_ok_def mod_eq_0_iff_dvd [symmetric] mod_simps)
          moreover have "entropy_bit_index pool mod 64 + entropy_bit_size pool < 256"
            using True less.prems(2) by linarith
          ultimately show ?thesis by (auto simp: dvd_def)
        qed
        then have room: "entropy_bit_index pool mod 64 + entropy_bit_size pool + 64 * length buf \<le> 64 * ?W"
          using len by (simp add: words_in_pool_def)
        obtain pool1 where p1: "store_words ?W buf
            ((entropy_bit_size pool + entropy_bit_index pool) div 64 mod ?W) pool = Some pool1"
            "pool_ok ?W pool1" "entropy_bit_index pool1 = entropy_bit_index pool"
            "entropy_bit_size pool1 = entropy_bit_size pool + 64 * length buf"
            "contents ?W pool1 = contents ?W pool @ concat (map word_bits buf)"
          using store_words_contents [OF less.prems(1) room] by blast
        have "nbits - entropy_bit_size pool1 < nbits - entropy_bit_size pool"
          using True len req_pos p1(4) by simp
        from less.hyps [OF this p1(2) less.prems(2), of src1] obtain r' pool' src' ws src2 where
          IH: "fill_entropy plat ?W nbits pool1 src1 = Some (r', pool', src')" "pool_ok ?W pool'"
            "entropy_bit_index pool' = entropy_bit_index pool1"
            "draws plat src1 ws src2"
            "contents ?W pool' = contents ?W pool1 @ concat (map word_bits ws)"
            "case r' of Inl e \<Rightarrow> get_entropy plat src2 = (Inl e, src')
             | Inr _ \<Rightarrow> src' = src2 \<and> nbits \<le> entropy_bit_size pool'"
          by blast
        have "entropy_bit_size pool1 \<le> bits_in_pool ?W" using p1(2) by (simp add: pool_ok_def)
        then have "fill_entropy plat ?W nbits pool src = Some (r', pool', src')"
          using True Pair Inr p1(1) IH(1) by (subst fill_entropy.simps) (simp add: Let_def)
        moreover have "draws plat src (buf @ ws) src2"
          using draws.more [OF _ IH(4)] Pair Inr by simp
        ultimately show ?thesis using IH p1(3,5) by (intro exI conjI) auto
      qed
    qed
  qed
qed

end

section \<open>Packing takes from the front and erases\<close>

text \<open>One round of the loop, without its case distinctions.\<close>

lemma push_bit_ones_0: "push_bit n (-1) = (0 :: u64)" if "64 \<le> n"
  using that by (intro bit_word_eqI) (auto simp: bit_simps)

lemma pack_word_eq:
  fixes ent :: "u64 list" and min_word idx :: nat
  assumes len: "length ent = words" "1 < words" and rs: "rshift < 64"
  defines "w0 \<equiv> (min_word + idx) mod words" and "w1 \<equiv> (min_word + idx + 1) mod words"
  shows "pack_word words rshift (64 - rshift) min_word idx ent d x = Some
    (x OR drop_bit rshift (ent ! w0) OR (if rshift = 0 then 0 else push_bit (64 - rshift) (ent ! w1)),
     ent[w0 := ent ! w0 AND push_bit (rshift + d) (-1),
         w1 := ent ! w1 AND push_bit (min (d - (64 - rshift)) rshift) (-1)], d - 64)"
proof -
  have w: "w0 < words" "w1 < words" using len(2) by (auto simp: w0_def w1_def)
  have ne: "w0 \<noteq> w1"
    using mod_window [of "min_word + idx" "min_word + idx" words "min_word + idx + 1"] len(2)
    by (simp add: w0_def w1_def)
  have idx: "checked_index ent w0 = Some (ent ! w0)" "checked_index (ent[w0 := v]) w1 = Some (ent ! w1)" for v
    using w ne len(1) by (simp_all add: checked_index_def)
  have upd: "checked_update ent w0 v = Some (ent[w0 := v])"
      "checked_update (ent[w0 := v]) w1 u = Some (ent[w0 := v, w1 := u])" for v u
    using w len(1) by (simp_all add: checked_update_def)
  have same: "ent[w0 := v, w1 := ent ! w1] = ent[w0 := v]" for v
    using ne by (metis list_update_id list_update_swap)
  note step = pack_word_def [of words rshift "64 - rshift" min_word idx ent d x, folded w0_def w1_def]
  show ?thesis
  proof (cases "d < 64 - rshift")
    case True
    then have "(d + rshift) mod 64 = rshift + d" "min (d - (64 - rshift)) rshift = 0" by simp_all
    then show ?thesis using True rs by (auto simp: step Let_def idx upd same or.assoc add.commute)
  next
    case False
    then have "push_bit (rshift + d) (-1) = (0 :: u64)" by (intro push_bit_ones_0) simp
    moreover have "min (d - (64 - rshift)) rshift mod 64 = min (d - (64 - rshift)) rshift"
      using rs by simp
    ultimately show ?thesis
      using False rs by (auto simp: step Let_def idx upd same min_def or.assoc)
  qed
qed

lemma pack_word_view:
  fixes ent :: "u64 list" and min_word :: nat
  assumes len: "length ent = words" "idx + 1 < words" and rs: "rshift < 64"
    and d: "d = nbits - 64 * idx" "64 * idx < nbits"
  defines "index \<equiv> 64 * min_word + rshift"
  shows "\<exists>w ent'. pack_word words rshift (64 - rshift) min_word idx ent d 0 =
      Some (w, ent', nbits - 64 * (idx + 1)) \<and> length ent' = words \<and>
    (\<forall>b < 64. bit w b = view words ent (index + 64 * idx + b)) \<and>
    (\<forall>i. 64 * min_word \<le> i \<and> i < 64 * (min_word + words) \<longrightarrow>
       (index + 64 * idx \<le> i \<longrightarrow> view words ent' i =
          (view words ent i \<and> \<not> i < index + min (64 * (idx + 1)) nbits)) \<and>
       (view words ent' i \<longrightarrow> view words ent i))"
proof -
  let ?m = "min_word + idx"
  let ?w0 = "?m mod words" and ?w1 = "(?m + 1) mod words"
  let ?v0 = "ent ! ?w0 AND push_bit (rshift + d) (-1)"
  let ?v1 = "ent ! ?w1 AND push_bit (min (d - (64 - rshift)) rshift) (-1)"
  let ?res = "0 OR drop_bit rshift (ent ! ?w0) OR
    (if rshift = 0 then 0 else push_bit (64 - rshift) (ent ! ?w1))"
  have "bit ?res b = view words ent (index + 64 * idx + b)" if b: "b < 64" for b
  proof (cases "rshift + b < 64")
    case True
    have "index + 64 * idx + b = 64 * ?m + (rshift + b)" by (simp add: index_def)
    from div_mod_64 [OF this True]
    have "(index + 64 * idx + b) div 64 = ?m" "(index + 64 * idx + b) mod 64 = rshift + b" by auto
    with True b show ?thesis by (auto simp: view_def bit_simps)
  next
    case False
    then have "index + 64 * idx + b = 64 * (?m + 1) + (b - (64 - rshift))" "b - (64 - rshift) < 64" and "rshift \<noteq> 0"
      using b rs by (simp_all add: index_def)
    from div_mod_64 [OF this(1,2)]
    have "(index + 64 * idx + b) div 64 = ?m + 1" "(index + 64 * idx + b) mod 64 = b - (64 - rshift)"
      by auto
    moreover have "\<not> bit (ent ! ?w0) (rshift + b)"
      using False bit_imp_le_length [of "ent ! ?w0"] by fastforce
    ultimately show ?thesis
      using False b \<open>rshift \<noteq> 0\<close> by (auto simp: view_def bit_simps)
  qed
  moreover have "(index + 64 * idx \<le> i \<longrightarrow> view words (ent[?w0 := ?v0, ?w1 := ?v1]) i =
        (view words ent i \<and> \<not> i < index + min (64 * (idx + 1)) nbits)) \<and>
      (view words (ent[?w0 := ?v0, ?w1 := ?v1]) i \<longrightarrow> view words ent i)"
    if i: "64 * min_word \<le> i" "i < 64 * (min_word + words)" for i
  proof -
    have v: "view words (ent[?w0 := ?v0, ?w1 := ?v1]) i =
        (if i div 64 = ?m + 1 then bit ?v1 (i mod 64)
         else if i div 64 = ?m then bit ?v0 (i mod 64) else view words ent i)"
      using view_update [of "ent[?w0 := ?v0]" words min_word "?m + 1" i ?v1]
        view_update [of ent words min_word ?m i ?v0] len i by simp
    have i64: "i = 64 * (i div 64) + i mod 64" "i mod 64 < 64" by simp_all
    consider "i div 64 = ?m" | "i div 64 = ?m + 1" | "i div 64 < ?m" | "?m + 1 < i div 64" by linarith
    then show ?thesis
    proof cases
      case 1
      then have "view words ent i = bit (ent ! ?w0) (i mod 64)" by (simp add: view_def)
      moreover have "i < index + min (64 * (idx + 1)) nbits \<longleftrightarrow> i mod 64 < rshift + d"
        using i64 1 d rs by (simp add: index_def min_def) linarith
      ultimately show ?thesis using v 1 by (auto simp: bit_simps)
    next
      case 2
      then have "view words ent i = bit (ent ! ?w1) (i mod 64)" by (simp add: view_def)
      moreover have "i < index + min (64 * (idx + 1)) nbits \<longleftrightarrow> i mod 64 < min (d - (64 - rshift)) rshift"
        using i64 2 d rs by (simp add: index_def min_def) linarith
      ultimately show ?thesis using v 2 by (auto simp: bit_simps)
    next
      case 3
      then have "i < 64 * ?m" by (simp add: div_less_iff_less_mult mult.commute)
      then show ?thesis using v 3 by (auto simp: index_def)
    next
      case 4
      then have "64 * (?m + 2) \<le> i" using less_eq_div_iff_mult_less_eq [of 64 "?m + 2" i] by simp
      then show ?thesis using v 4 rs by (auto simp: index_def)
    qed
  qed
  moreover have "nbits - 64 * (idx + 1) = d - 64" using d by simp
  ultimately show ?thesis
    using pack_word_eq [OF len(1) _ rs, of min_word idx d 0] len
    by (intro exI [of _ ?res] exI [of _ "ent[?w0 := ?v0, ?w1 := ?v1]"]) simp
qed

lemma pack_words_view:
  fixes ent :: "u64 list" and min_word :: nat
  assumes "length ent = words" "to_fill < words" "rshift < 64" "to_fill = div_ceil nbits 64"
    "to_fill \<le> idx + length out" "\<forall>x \<in> set out. x = 0"
  defines "index \<equiv> 64 * min_word + rshift"
  shows "\<exists>ws ent'. pack_words words rshift (64 - rshift) min_word to_fill idx ent (nbits - 64 * idx) out =
      Some (ws, ent') \<and> length ws = length out \<and> length ent' = words \<and>
    (\<forall>k < length out. \<forall>b < 64. bit (ws ! k) b =
       (idx + k < to_fill \<and> view words ent (index + 64 * (idx + k) + b))) \<and>
    (\<forall>i. 64 * min_word \<le> i \<and> i < 64 * (min_word + words) \<longrightarrow>
       (index + min (64 * idx) nbits \<le> i \<longrightarrow>
          view words ent' i = (view words ent i \<and> \<not> i < index + nbits)) \<and>
       (view words ent' i \<longrightarrow> view words ent i))"
  using assms(1,5,6)
proof (induction out arbitrary: idx ent)
  case Nil
  then have "nbits \<le> 64 * idx" using assms(4) by (simp add: div_ceil_def)
  then show ?case using Nil by auto
next
  case (Cons x out)
  have x: "x = 0" using Cons.prems(3) by simp
  show ?case
  proof (cases "idx < to_fill")
    case False
    then have "nbits \<le> 64 * idx" using assms(4) by (simp add: div_ceil_def)
    moreover have "bit ((x # out) ! k) b = False" if "k < length (x # out)" for k b
    proof -
      have "(x # out) ! k \<in> set (x # out)" using that by (rule nth_mem)
      then have "(x # out) ! k = 0" using Cons.prems(3) by blast
      then show ?thesis by simp
    qed
    ultimately show ?thesis using False Cons.prems by auto
  next
    case True
    then have lt: "64 * idx < nbits" using assms(4) by (simp add: div_ceil_def)
    have "idx + 1 < words" using True assms(2) by simp
    from pack_word_view [OF Cons.prems(1) this assms(3) refl lt, of min_word, folded index_def]
    obtain w ent1 where one:
      "pack_word words rshift (64 - rshift) min_word idx ent (nbits - 64 * idx) 0 =
          Some (w, ent1, nbits - 64 * (idx + 1)) \<and> length ent1 = words \<and>
        (\<forall>b < 64. bit w b = view words ent (index + 64 * idx + b)) \<and>
        (\<forall>i. 64 * min_word \<le> i \<and> i < 64 * (min_word + words) \<longrightarrow>
          (index + 64 * idx \<le> i \<longrightarrow> view words ent1 i =
            (view words ent i \<and> \<not> i < index + min (64 * (idx + 1)) nbits)) \<and>
          (view words ent1 i \<longrightarrow> view words ent i))"
      by blast
    have tail: "to_fill \<le> idx + 1 + length out" "\<forall>x \<in> set out. x = 0" "length ent1 = words"
      using Cons.prems one by simp_all
    from Cons.IH [OF tail(3,1,2)] obtain ws ent' where rest:
      "pack_words words rshift (64 - rshift) min_word to_fill (idx + 1) ent1 (nbits - 64 * (idx + 1)) out =
          Some (ws, ent') \<and> length ws = length out \<and> length ent' = words \<and>
        (\<forall>k < length out. \<forall>b < 64. bit (ws ! k) b =
          (idx + 1 + k < to_fill \<and> view words ent1 (index + 64 * (idx + 1 + k) + b))) \<and>
        (\<forall>i. 64 * min_word \<le> i \<and> i < 64 * (min_word + words) \<longrightarrow>
          (index + min (64 * (idx + 1)) nbits \<le> i \<longrightarrow>
            view words ent' i = (view words ent1 i \<and> \<not> i < index + nbits)) \<and>
          (view words ent' i \<longrightarrow> view words ent1 i))"
      by blast
    note one' = one [THEN conjunct1] one [THEN conjunct2, THEN conjunct2, THEN conjunct1, rule_format]
      and v1 = one [THEN conjunct2, THEN conjunct2, THEN conjunct2, rule_format]
      and rest' = rest [THEN conjunct1] rest [THEN conjunct2, THEN conjunct1]
        rest [THEN conjunct2, THEN conjunct2, THEN conjunct1]
        rest [THEN conjunct2, THEN conjunct2, THEN conjunct2, THEN conjunct1, rule_format]
      and v2 = rest [THEN conjunct2, THEN conjunct2, THEN conjunct2, THEN conjunct2, rule_format]
    have bits: "bit ((w # ws) ! k) b = (idx + k < to_fill \<and> view words ent (index + 64 * (idx + k) + b))"
      if k: "k < length (x # out)" "b < 64" for k b
    proof (cases k)
      case 0
      then show ?thesis using one'(2) k True by simp
    next
      case (Suc k')
      have "view words ent1 (index + 64 * (idx + k) + b) = view words ent (index + 64 * (idx + k) + b)"
        if "idx + k < to_fill"
      proof -
        have "64 * (idx + k + 2) \<le> 64 * words" using that assms(2) by simp
        then have "64 * (idx + k) + b + rshift < 64 * words" using assms(3) k(2) by simp
        then have "index + 64 * (idx + k) + b < 64 * (min_word + words)" by (simp add: index_def)
        moreover have "\<not> index + 64 * (idx + k) + b < index + min (64 * (idx + 1)) nbits"
          using Suc by (simp add: min_def)
        ultimately show ?thesis
          using v1 [of "index + 64 * (idx + k) + b"] by (simp add: index_def)
      qed
      then show ?thesis using rest'(4) [of k' b] k Suc by auto
    qed
    have views: "(index + min (64 * idx) nbits \<le> i \<longrightarrow>
          view words ent' i = (view words ent i \<and> \<not> i < index + nbits)) \<and>
        (view words ent' i \<longrightarrow> view words ent i)"
      if i: "64 * min_word \<le> i" "i < 64 * (min_word + words)" for i
    proof (cases "i < index + min (64 * (idx + 1)) nbits")
      case True
      then have "i < index + nbits" by simp
      moreover have "min (64 * idx) nbits = 64 * idx" using lt by simp
      ultimately show ?thesis using True v1 [OF conjI [OF i]] v2 [OF conjI [OF i]] by metis
    next
      case False
      then have "index + min (64 * (idx + 1)) nbits \<le> i" "index + 64 * idx \<le> i"
        using lt by (simp_all add: min_def split: if_splits)
      then show ?thesis using False v1 [OF conjI [OF i]] v2 [OF conjI [OF i]] by blast
    qed
    have "pack_words words rshift (64 - rshift) min_word to_fill idx ent (nbits - 64 * idx) (x # out) =
        Some (w # ws, ent')"
      using True x one'(1) rest'(1) by simp
    then show ?thesis using bits views rest'(2,3) by (intro exI conjI) auto
  qed
qed

section \<open>The refinement of the queue\<close>

lemma view_cong: "x mod (64 * words) = y mod (64 * words) \<Longrightarrow> view words ent x = view words ent y"
proof -
  assume eq: "x mod (64 * words) = y mod (64 * words)"
  have "x mod 64 = y mod 64"
    using arg_cong [OF eq, of "\<lambda>n. n mod 64"] by (simp add: mod_mod_cancel)
  moreover have "x div 64 mod words = y div 64 mod words"
    using arg_cong [OF eq, of "\<lambda>n. n div 64"] by (simp add: mod_mult2_eq)
  ultimately show ?thesis by (simp add: view_def)
qed

lemma concat_word_bits_nth:
  "i < 64 * length ws \<Longrightarrow> concat (map word_bits ws) ! i = bit (ws ! (i div 64)) (i mod 64)"
proof (induction ws arbitrary: i)
  case (Cons w ws)
  show ?case
  proof (cases "i < 64")
    case True
    then show ?thesis by (simp add: nth_append word_bits_def)
  next
    case False
    then have "i div 64 = Suc ((i - 64) div 64)" "i mod 64 = (i - 64) mod 64"
      by (simp_all add: le_div_geq le_mod_geq)
    then show ?thesis using False Cons.IH [of "i - 64"] Cons.prems by (simp add: nth_append)
  qed
qed simp

lemma length_concat_word_bits [simp]: "length (concat (map word_bits ws)) = 64 * length ws"
  by (induction ws) auto

text \<open>Masking the last word leaves exactly the bits that were asked for.\<close>

lemma mask_last_word:
  fixes ws :: "u64 list"
  assumes bits: "\<And>k b. k < length ws \<Longrightarrow> b < 64 \<Longrightarrow> bit (ws ! k) b = (k < div_ceil n 64 \<and> P (64 * k + b))"
    and n: "0 < n" "n \<le> 64 * length ws"
  shows "\<exists>ws'. (if n mod BITS_PER_WORD \<noteq> 0
      then do {
        last_word \<leftarrow> checked_index ws (div_ceil n 64 - 1);
        checked_update ws (div_ceil n 64 - 1)
          (last_word AND drop_bit (BITS_PER_WORD - n mod BITS_PER_WORD) (-1)) }
      else Some ws) = Some ws' \<and> length ws' = length ws \<and>
    (\<forall>k < length ws. \<forall>b < 64. bit (ws' ! k) b = (64 * k + b < n \<and> P (64 * k + b)))"
proof (cases "n mod 64 = 0")
  case True
  then obtain q where "n = 64 * q" by (auto elim: dvdE)
  then have "bit (ws ! k) b = (64 * k + b < n \<and> P (64 * k + b))" if "k < length ws" "b < 64" for k b
    using bits [OF that] that by (auto simp: div_ceil_def)
  with True show ?thesis by auto
next
  case False
  define q where "q = n div 64"
  have n64: "n = 64 * q + n mod 64" "n mod 64 < 64" by (simp_all add: q_def)
  have t: "div_ceil n 64 = q + 1" using n64 False by (simp add: div_ceil_def)
  have q: "q < length ws" using n64 False n(2) by linarith
  define v where "v = ws ! q AND drop_bit (64 - n mod 64) (-1)"
  let ?ws = "ws[q := v]"
  have "bit (?ws ! k) b = (64 * k + b < n \<and> P (64 * k + b))" if k: "k < length ws" "b < 64" for k b
  proof (cases "k = q")
    case True
    have "bit v b \<longleftrightarrow> bit (ws ! q) b \<and> b < n mod 64"
      using k n64(2) by (auto simp: v_def bit_simps bit_minus_1_iff possible_bit_word)
    moreover have "64 * q + b < n \<longleftrightarrow> b < n mod 64" using n64 by linarith
    ultimately show ?thesis using True k q bits [OF k] t by auto
  next
    case neq: False
    have "64 * k + b < n \<longleftrightarrow> k < q" using n64 neq k(2) by linarith
    then show ?thesis using neq bits [OF k] t by auto
  qed
  then show ?thesis
    using False q t by (intro exI [of _ ?ws]) (simp add: checked_index_def checked_update_def v_def)
qed

lemma pack_pool_ok:
  assumes ok: "pool_ok words pool" and n: "n \<le> entropy_bit_size pool" and len: "length ent = words"
  shows "pool_ok words \<lparr>entropy = ent, entropy_bit_index = (entropy_bit_index pool + n) mod (64 * words),
    entropy_bit_size = entropy_bit_size pool - n\<rparr>"
proof -
  let ?i = "entropy_bit_index pool" and ?s = "entropy_bit_size pool"
  have w: "0 < words" using ok by (cases words) (auto simp: pool_ok_def)
  have "((?i + n) mod (64 * words) + (?s - n)) mod 64 = (?i + n + (?s - n)) mod 64"
    by (simp add: mod_mod_cancel mod_add_left_eq [of "(?i + n) mod (64 * words)" 64, symmetric]) (simp add: mod_add_left_eq)
  also have "?i + n + (?s - n) = ?i + ?s" using n by simp
  finally have al: "64 dvd (?i + n) mod (64 * words) + (?s - n)"
    using ok by (simp add: pool_ok_def dvd_eq_mod_eq_0)
  have "(?i + n) mod (64 * words) mod 64 = (?i mod 64 + n) mod 64"
    by (simp add: mod_mod_cancel mod_simps)
  also have "\<dots> \<le> ?i mod 64 + n" by simp
  finally show ?thesis using ok n w len al by (auto simp: pool_ok_def)
qed

text \<open>The words as the first bits of a queue, padded with zeros.\<close>

definition packed :: "nat \<Rightarrow> bool list \<Rightarrow> u64 list \<Rightarrow> bool" where
  "packed n queue ws \<longleftrightarrow>
     n \<le> length queue \<and> n \<le> 64 * length ws \<and>
     concat (map word_bits ws) = take n queue @ replicate (64 * length ws - n) False"

text \<open>The bits at the positions of the pool that have been handed out are zeros.\<close>

definition erased :: "nat \<Rightarrow> u64 list \<Rightarrow> nat \<Rightarrow> nat \<Rightarrow> bool" where
  "erased words ent index n \<longleftrightarrow> (\<forall>j < n. \<not> view words ent (index + j))"

lemma pack_from_pool:
  assumes ok: "pool_ok words pool" and n: "0 < n" "n \<le> entropy_bit_size pool" "n \<le> 64 * length out"
    and w: "div_ceil n 64 < words" and zeros: "\<forall>x \<in> set out. x = 0"
  shows "\<exists>ws ent' out'. pack_words words (entropy_bit_index pool mod 64) (64 - entropy_bit_index pool mod 64)
      (entropy_bit_index pool div 64) (div_ceil n 64) 0 (entropy pool) n out = Some (ws, ent') \<and>
    (if n mod BITS_PER_WORD \<noteq> 0
      then do {
        last_word \<leftarrow> checked_index ws (div_ceil n 64 - 1);
        checked_update ws (div_ceil n 64 - 1)
          (last_word AND drop_bit (BITS_PER_WORD - n mod BITS_PER_WORD) (-1)) }
      else Some ws) = Some out' \<and>
    length ent' = words \<and> length out' = length out \<and> packed n (contents words pool) out' \<and>
    erased words ent' (entropy_bit_index pool) n \<and>
    contents words \<lparr>entropy = ent', entropy_bit_index = (entropy_bit_index pool + n) mod (64 * words),
      entropy_bit_size = entropy_bit_size pool - n\<rparr> = drop n (contents words pool)"
proof -
  let ?i = "entropy_bit_index pool" and ?s = "entropy_bit_size pool" and ?r = "entropy_bit_index pool mod 64"
  let ?m = "entropy_bit_index pool div 64"
  have len: "length (entropy pool) = words" and room: "?r + ?s \<le> 64 * words"
    using ok by (auto simp: pool_ok_def)
  have fill: "div_ceil n 64 \<le> 0 + length out" using n by (simp add: div_ceil_def)
  have i: "64 * ?m + ?r = ?i" by simp
  have r: "?r < 64" by simp
  from pack_words_view [OF len w r refl fill zeros, of ?m, unfolded i]
  obtain ws ent' where P:
    "pack_words words ?r (64 - ?r) ?m (div_ceil n 64) 0 (entropy pool) n out = Some (ws, ent')"
    "length ws = length out" "length ent' = words"
    and bits: "\<forall>k < length out. \<forall>b < 64. bit (ws ! k) b =
      (k < div_ceil n 64 \<and> view words (entropy pool) (?i + 64 * k + b))"
    and views: "\<forall>i. 64 * ?m \<le> i \<and> i < 64 * (?m + words) \<longrightarrow>
      (?i \<le> i \<longrightarrow> view words ent' i = (view words (entropy pool) i \<and> \<not> i < ?i + n))"
    by auto
  have pos: "64 * ?m \<le> ?i + j \<and> ?i + j < 64 * (?m + words)" if "j < ?s" for j
  proof
    show "64 * ?m \<le> ?i + j" by (simp add: trans_le_add1)
    have "64 * ?m + ?r + j < 64 * (?m + words)"
      using that room by (simp only: add_mult_distrib2 add.assoc add_less_cancel_left)
    then show "?i + j < 64 * (?m + words)" by (simp only: i)
  qed
  have after: "view words ent' (?i + j) = (view words (entropy pool) (?i + j) \<and> \<not> j < n)" if "j < ?s" for j
    using views pos [OF that] by simp
  obtain out' where out': "(if n mod BITS_PER_WORD \<noteq> 0
      then do {
        last_word \<leftarrow> checked_index ws (div_ceil n 64 - 1);
        checked_update ws (div_ceil n 64 - 1)
          (last_word AND drop_bit (BITS_PER_WORD - n mod BITS_PER_WORD) (-1)) }
      else Some ws) = Some out'" "length out' = length ws"
    "\<forall>k < length ws. \<forall>b < 64. bit (out' ! k) b = (64 * k + b < n \<and> view words (entropy pool) (?i + (64 * k + b)))"
    using mask_last_word [of ws n "\<lambda>j. view words (entropy pool) (?i + j)"] bits P(2) n
    by (auto simp: add.assoc)
  have "concat (map word_bits out') ! k = (take n (contents words pool) @ replicate (64 * length out' - n) False) ! k"
    if k: "k < 64 * length out'" for k
  proof -
    have "k div 64 < length ws" using k out'(2) by auto
    then have "concat (map word_bits out') ! k = (k < n \<and> view words (entropy pool) (?i + k))"
      using out'(3) k by (simp add: concat_word_bits_nth)
    then show ?thesis using k n by (auto simp: nth_append contents_def)
  qed
  then have "packed n (contents words pool) out'"
    using n P(2) out'(2) by (auto simp: packed_def intro!: nth_equalityI)
  moreover have "contents words \<lparr>entropy = ent', entropy_bit_index = (?i + n) mod (64 * words),
      entropy_bit_size = ?s - n\<rparr> = drop n (contents words pool)"
  proof (rule nth_equalityI)
    fix j assume "j < length (contents words \<lparr>entropy = ent',
      entropy_bit_index = (?i + n) mod (64 * words), entropy_bit_size = ?s - n\<rparr>)"
    then have j: "n + j < ?s" "j < ?s - n" by (simp_all add: contents_def)
    have "view words ent' ((?i + n) mod (64 * words) + j) = view words ent' (?i + (n + j))"
      by (rule view_cong) (simp add: mod_add_left_eq add.assoc)
    then show "contents words \<lparr>entropy = ent', entropy_bit_index = (?i + n) mod (64 * words),
        entropy_bit_size = ?s - n\<rparr> ! j = drop n (contents words pool) ! j"
      using j after [OF j(1)] by (simp add: contents_def)
  qed simp
  moreover have "erased words ent' ?i n" using after n(2) by (simp add: erased_def)
  ultimately show ?thesis using P out' by auto
qed

context entropy_source
begin

lemma pack_entropy_ok:
  assumes ok: "pool_ok (words_in_pool req) pool" and n: "0 < nbits" "nbits \<le> 192" "nbits \<le> 64 * length out"
  shows "\<exists>r pool' src' ws src1. pack_entropy plat (words_in_pool req) nbits out pool src =
      Some (r, pool', src') \<and> pool_ok (words_in_pool req) pool' \<and> draws plat src ws src1 \<and>
    (let queue = contents (words_in_pool req) pool @ concat (map word_bits ws) in
     case r of
       Inl e \<Rightarrow> get_entropy plat src1 = (Inl e, src') \<and> contents (words_in_pool req) pool' = queue
     | Inr out' \<Rightarrow> src' = src1 \<and> length out' = length out \<and> packed nbits queue out' \<and>
         contents (words_in_pool req) pool' = drop nbits queue \<and>
         erased (words_in_pool req) (entropy pool') (entropy_bit_index pool) nbits)"
proof -
  let ?W = "words_in_pool req"
  obtain r pool1 src1' ws src1 where fill:
    "fill_entropy plat ?W nbits pool src = Some (r, pool1, src1')" "pool_ok ?W pool1"
    "entropy_bit_index pool1 = entropy_bit_index pool" "draws plat src ws src1"
    "contents ?W pool1 = contents ?W pool @ concat (map word_bits ws)"
    "case r of Inl e \<Rightarrow> get_entropy plat src1 = (Inl e, src1')
     | Inr _ \<Rightarrow> src1' = src1 \<and> nbits \<le> entropy_bit_size pool1"
    using fill_entropy_ok [OF ok n(2)] by blast
  show ?thesis
  proof (cases r)
    case (Inl e)
    then show ?thesis
      using fill by (intro exI [of _ "Inl e"] exI [of _ pool1] exI [of _ src1'] exI [of _ ws] exI [of _ src1])
        (simp add: pack_entropy_def)
  next
    case (Inr u)
    have w: "div_ceil nbits 64 < ?W"
      using n(2) req_pos by (simp add: div_ceil_def words_in_pool_def)
    have n1: "nbits \<le> entropy_bit_size pool1" "nbits \<le> 64 * length (map (\<lambda>_. 0 :: u64) out)"
      "\<forall>x \<in> set (map (\<lambda>_. 0 :: u64) out). x = 0"
      using fill(6) Inr n(3) by auto
    from pack_from_pool [OF fill(2) n(1) n1(1,2) w n1(3)] obtain wds ent' out' where pk:
      "pack_words ?W (entropy_bit_index pool1 mod 64) (64 - entropy_bit_index pool1 mod 64)
        (entropy_bit_index pool1 div 64) (div_ceil nbits 64) 0 (entropy pool1) nbits
        (map (\<lambda>_. 0) out) = Some (wds, ent')"
      "(if nbits mod BITS_PER_WORD \<noteq> 0
        then do {
          last_word \<leftarrow> checked_index wds (div_ceil nbits 64 - 1);
          checked_update wds (div_ceil nbits 64 - 1)
            (last_word AND drop_bit (BITS_PER_WORD - nbits mod BITS_PER_WORD) (-1)) }
        else Some wds) = Some out'"
      "length ent' = ?W" "length out' = length out" "packed nbits (contents ?W pool1) out'"
      "erased ?W ent' (entropy_bit_index pool1) nbits"
      "contents ?W \<lparr>entropy = ent', entropy_bit_index = (entropy_bit_index pool1 + nbits) mod (64 * ?W),
        entropy_bit_size = entropy_bit_size pool1 - nbits\<rparr> = drop nbits (contents ?W pool1)"
      by auto
    let ?pool = "\<lparr>entropy = ent', entropy_bit_index = (entropy_bit_index pool1 + nbits) mod (64 * ?W),
        entropy_bit_size = entropy_bit_size pool1 - nbits\<rparr>"
    have "pack_entropy plat ?W nbits out pool src = Some (Inr out', ?pool, src1')"
      using fill(1) Inr pk(1,2) n1(1)
      by (simp add: pack_entropy_def Let_def checked_minus_def mult.commute [of ?W])
    moreover have "pool_ok ?W ?pool" by (rule pack_pool_ok [OF fill(2) n1(1) pk(3)])
    ultimately show ?thesis
      using fill pk Inr
      by (intro exI [of _ "Inr out'"] exI [of _ ?pool] exI [of _ src1'] exI [of _ ws] exI [of _ src1])
        (simp add: Let_def)
  qed
qed

end

interpretation not_supported: entropy_source NotSupportedTrngPlatformImpl 1
  by unfold_locales (auto simp: NotSupportedTrngPlatformImpl_def)

end
