(* ===== verification/Trng_Properties.thy ===== *)
theory Trng_Properties
  imports Trng_Pool
begin

text \<open>
  What the calls of the entropy service promise.
\<close>

text \<open>A source that counts, and a pool for it.\<close>

definition counting_source :: "nat trng_platform" where
  "counting_source = \<lparr>TRNG_UUID = [1, 2, 3, 4], get_entropy = (\<lambda>n. (Inr [of_nat n], n + 1))\<rparr>"

interpretation counting: entropy_source counting_source 1
  by unfold_locales (auto simp: counting_source_def)

definition rnd_regs :: "u64 \<Rightarrow> u64 \<Rightarrow> SmcReturn" where
  "rnd_regs f nbits = set_args [f, nbits] SmcReturn_EMPTY"

lemma rnd_regs_values: "reg_values (rnd_regs f nbits) = [f, nbits]" "smc_return_ok (rnd_regs f nbits)"
  by (simp_all add: rnd_regs_def smc_simps MAX_VALUES_def)

lemma scast_SUCCESS: "scast SUCCESS = (0 :: u64)"
  by (simp add: SUCCESS_def)

text \<open>
  C17. A request for up to 192 bits behaves like taking from a queue of bits: the call draws whole
  requests from the source until there are enough bits, returns the oldest bits of the queue in
  the three registers, lowest bit first and padded with zeros, keeps the rest in order, and
  overwrites the bits it handed out with zeros. When the source fails, its error is returned and no
  bit is lost.
\<close>

theorem trng_rnd64_queue:
  assumes source: "entropy_source plat req" and ok: "pool_ok (words_in_pool req) pool"
    and regs: "smc_return_ok regs" "reg_values regs ! 1 = v" "1 < length (reg_values regs)"
    and v: "0 < unat v" "unat v \<le> 192"
  shows "\<exists>regs' pool' src' ws src1.
    trng_rnd64 plat (words_in_pool req) regs pool src = Some (regs', pool', src') \<and>
    pool_ok (words_in_pool req) pool' \<and> draws plat src ws src1 \<and>
    (let queue = contents (words_in_pool req) pool @ concat (map word_bits ws) in
     (\<exists>e. get_entropy plat src1 = (Inl e, src') \<and> reg_values regs' = [scast (trng_error_code e)] \<and>
        contents (words_in_pool req) pool' = queue) \<or>
     (\<exists>e0 e1 e2. src' = src1 \<and> reg_values regs' = [0, e2, e1, e0] \<and>
        packed (unat v) queue [e0, e1, e2] \<and>
        contents (words_in_pool req) pool' = drop (unat v) queue \<and>
        erased (words_in_pool req) (entropy pool') (entropy_bit_index pool) (unat v)))"
proof -
  let ?W = "words_in_pool req"
  have "unat v \<le> 64 * length [0, 0, 0 :: u64]" using v by simp
  from entropy_source.pack_entropy_ok [OF source ok v this, of src]
  obtain r pool' src' ws src1 where pk:
    "pack_entropy plat ?W (unat v) [0, 0, 0] pool src = Some (r, pool', src')"
    "pool_ok ?W pool'" "draws plat src ws src1"
    "let queue = contents ?W pool @ concat (map word_bits ws) in
     case r of
       Inl e \<Rightarrow> get_entropy plat src1 = (Inl e, src') \<and> contents ?W pool' = queue
     | Inr out' \<Rightarrow> src' = src1 \<and> length out' = length [0, 0, 0 :: u64] \<and> packed (unat v) queue out' \<and>
         contents ?W pool' = drop (unat v) queue \<and>
         erased ?W (entropy pool') (entropy_bit_index pool) (unat v)"
    by blast
  note call = trng_rnd64_def [of plat ?W regs pool src]
  show ?thesis
  proof (cases r)
    case (Inl e)
    then have "trng_rnd64 plat ?W regs pool src = Some (set_from_trng_error e regs, pool', src')"
      using pk(1) regs v by (simp add: call checked_index_def)
    with Inl pk regs(1) show ?thesis
      by (intro exI conjI) (auto simp: Let_def set_from_trng_error_def smc_simps)
  next
    case (Inr out')
    then obtain e0 e1 e2 where "out' = [e0, e1, e2]"
      using pk(4) by (auto simp: Let_def length_Suc_conv eval_nat_numeral)
    then have "trng_rnd64 plat ?W regs pool src = Some (set_args [0, e2, e1, e0] regs, pool', src')"
      using pk(1) regs v Inr by (simp add: call checked_index_def scast_SUCCESS)
    with Inr pk regs(1) \<open>out' = _\<close> show ?thesis
      by (intro exI conjI) (auto simp: Let_def smc_simps)
  qed
qed

theorem trng_rnd64_queue_witness:
  "\<exists>regs' pool' src'. trng_rnd64 counting_source 4 (rnd_regs 0xC4000053 100) (EntropyPool_new 4) 0 =
     Some (regs', pool', src') \<and> pool_ok 4 pool'"
  using trng_rnd64_queue [OF counting.entropy_source_axioms, of "EntropyPool_new 4" "rnd_regs 0xC4000053 100" 100 0]
    pool_ok_new [of 4]
  by (auto simp: words_in_pool_def rnd_regs_values)

text \<open>
  C18. A 32-bit request for up to 96 bits returns 32-bit values whose concatenation, lowest register
  last, is the oldest bits of the queue; the pool stays well formed.
\<close>

lemma packed_high_zero:
  assumes "packed n queue ws" "i < 64 * length ws" "n \<le> i"
  shows "\<not> bit (ws ! (i div 64)) (i mod 64)"
proof -
  have "concat (map word_bits ws) ! i = False"
    using assms by (auto simp: packed_def nth_append)
  then show ?thesis using assms(2) by (simp add: concat_word_bits_nth)
qed

theorem trng_rnd32_queue:
  assumes source: "entropy_source plat req" and ok: "pool_ok (words_in_pool req) pool"
    and regs: "smc_return_ok regs" "reg_values regs ! 1 = v" "1 < length (reg_values regs)"
    and v: "0 < unat v" "unat v \<le> 96"
  shows "\<exists>regs' pool' src' ws src1.
    trng_rnd32 plat (words_in_pool req) regs pool src = Some (regs', pool', src') \<and>
    pool_ok (words_in_pool req) pool' \<and> draws plat src ws src1 \<and>
    (let queue = contents (words_in_pool req) pool @ concat (map word_bits ws) in
     (\<exists>e. get_entropy plat src1 = (Inl e, src') \<and> reg_values regs' = [scast (trng_error_code e)] \<and>
        contents (words_in_pool req) pool' = queue) \<or>
     (\<exists>w1 w2 w3. src' = src1 \<and> reg_values regs' = [0, w1, w2, w3] \<and>
        (\<forall>w \<in> {w1, w2, w3}. unat w < 2 ^ 32) \<and>
        packed (unat v) queue [w3 OR push_bit 32 w2, w1] \<and>
        contents (words_in_pool req) pool' = drop (unat v) queue))"
proof -
  let ?W = "words_in_pool req"
  have "unat v \<le> 64 * length [0, 0 :: u64]" "unat v \<le> 192" using v by simp_all
  from entropy_source.pack_entropy_ok [OF source ok v(1) this(2,1), of src]
  obtain r pool' src' ws src1 where pk:
    "pack_entropy plat ?W (unat v) [0, 0] pool src = Some (r, pool', src')"
    "pool_ok ?W pool'" "draws plat src ws src1"
    "let queue = contents ?W pool @ concat (map word_bits ws) in
     case r of
       Inl e \<Rightarrow> get_entropy plat src1 = (Inl e, src') \<and> contents ?W pool' = queue
     | Inr out' \<Rightarrow> src' = src1 \<and> length out' = length [0, 0 :: u64] \<and> packed (unat v) queue out' \<and>
         contents ?W pool' = drop (unat v) queue \<and>
         erased ?W (entropy pool') (entropy_bit_index pool) (unat v)"
    by blast
  note call = trng_rnd32_def [of plat ?W regs pool src]
  show ?thesis
  proof (cases r)
    case (Inl e)
    then have "trng_rnd32 plat ?W regs pool src = Some (set_from_trng_error e regs, pool', src')"
      using pk(1) regs v by (simp add: call checked_index_def)
    with Inl pk regs(1) show ?thesis
      by (intro exI conjI) (auto simp: Let_def set_from_trng_error_def smc_simps)
  next
    case (Inr out')
    then obtain e0 e1 where out': "out' = [e0, e1]"
      using pk(4) by (auto simp: Let_def length_Suc_conv eval_nat_numeral)
    let ?hi = "drop_bit 32 e0 AND 0xFFFFFFFF" and ?lo = "e0 AND 0xFFFFFFFF"
    have res: "trng_rnd32 plat ?W regs pool src = Some (set_args [0, e1, ?hi, ?lo] regs, pool', src')"
      using pk(1) regs v Inr out' by (simp add: call checked_index_def scast_SUCCESS)
    have m: "x AND 0xFFFFFFFF = take_bit 32 x" for x :: u64
      by (simp add: take_bit_eq_mask mask_numeral)
    have join: "?lo OR push_bit 32 ?hi = e0"
      unfolding m by (rule bit_word_eqI) (auto simp: bit_simps)
    have "take_bit 32 e1 = e1"
    proof (rule bit_word_eqI)
      fix n :: nat assume "n < LENGTH(64)"
      moreover have "\<not> bit e1 n" if "32 \<le> n"
        using packed_high_zero [of "unat v" _ out' "64 + n"] pk(4) Inr v that out' \<open>n < LENGTH(64)\<close>
        by (auto simp: Let_def)
      ultimately show "bit (take_bit 32 e1) n = bit e1 n" by (cases "n < 32") (auto simp: bit_simps)
    qed
    moreover have "unat (take_bit 32 x) < 2 ^ 32" for x :: u64
      using take_bit_nat_less_exp [of 32 "unat x"] by (simp add: unsigned_take_bit_eq)
    ultimately have "unat e1 < 2 ^ 32" "unat ?hi < 2 ^ 32" "unat ?lo < 2 ^ 32"
      unfolding m by (metis, blast+)
    then show ?thesis
      using res Inr pk regs(1) out' join
      by (intro exI [of _ "set_args [0, e1, ?hi, ?lo] regs"] exI [of _ pool'] exI [of _ src'] exI [of _ ws]
          exI [of _ src1] conjI) (auto simp: Let_def smc_simps)
  qed
qed

theorem trng_rnd32_queue_witness:
  "\<exists>regs' pool' src'. trng_rnd32 counting_source 4 (rnd_regs 0x84000053 70) (EntropyPool_new 4) 0 =
     Some (regs', pool', src') \<and> pool_ok 4 pool'"
  using trng_rnd32_queue [OF counting.entropy_source_axioms, of "EntropyPool_new 4" "rnd_regs 0x84000053 70" 70 0]
    pool_ok_new [of 4]
  by (auto simp: words_in_pool_def rnd_regs_values)

text \<open>Both random-number calls, on every number of bits.\<close>

lemma rnd_total:
  assumes source: "entropy_source plat req" and ok: "pool_ok (words_in_pool req) pool"
    and regs: "smc_return_ok regs" "1 < length (reg_values regs)"
  shows "\<exists>regs' pool' src'. trng_rnd64 plat (words_in_pool req) regs pool src = Some (regs', pool', src') \<and>
      pool_ok (words_in_pool req) pool' \<and> smc_return_ok regs'"
    and "\<exists>regs' pool' src'. trng_rnd32 plat (words_in_pool req) regs pool src = Some (regs', pool', src') \<and>
      pool_ok (words_in_pool req) pool' \<and> smc_return_ok regs'"
proof -
  let ?W = "words_in_pool req" and ?n = "unat (reg_values regs ! 1)"
  have pk: "\<exists>r pool' src'. pack_entropy plat ?W ?n out pool src = Some (r, pool', src') \<and> pool_ok ?W pool' \<and>
      (\<forall>ws. r = Inr ws \<longrightarrow> length ws = length out)"
    if "0 < ?n" "?n \<le> 192" "?n \<le> 64 * length out" for out
    using entropy_source.pack_entropy_ok [OF source ok that, of src]
    by (force simp: Let_def split: sum.splits)
  show "\<exists>regs' pool' src'. trng_rnd64 plat ?W regs pool src = Some (regs', pool', src') \<and>
      pool_ok ?W pool' \<and> smc_return_ok regs'"
    using pk [of "[0, 0, 0]"] ok regs
    by (cases "?n = 0 \<or> 192 < ?n")
      (auto simp: trng_rnd64_def checked_index_def set_from_trng_error_def MAX_VALUES_def split: sum.splits)
  show "\<exists>regs' pool' src'. trng_rnd32 plat ?W regs pool src = Some (regs', pool', src') \<and>
      pool_ok ?W pool' \<and> smc_return_ok regs'"
    using pk [of "[0, 0]"] ok regs
    by (cases "?n = 0 \<or> 96 < ?n")
      (auto simp: trng_rnd32_def checked_index_def set_from_trng_error_def MAX_VALUES_def split: sum.splits)
qed

text \<open>
  C19. The entropy service never panics and never loops: whatever the caller's registers hold and
  whatever the source answers, the call returns, and the pool stays well formed.
\<close>

theorem trng_smc_total:
  assumes source: "entropy_source plat req" and ok: "pool_ok (words_in_pool req) pool"
    and regs: "smc_return_ok regs" "1 < length (reg_values regs)"
  shows "\<exists>regs' pool' src'.
    trng_handle_smc_common plat (words_in_pool req) regs pool src = Some (regs', pool', src') \<and>
    pool_ok (words_in_pool req) pool' \<and> smc_return_ok regs'"
  using rnd_total [OF source ok regs, of src] ok regs
  by (auto simp: trng_handle_smc_common_def checked_index_def set_from_trng_error_def Let_def)

theorem trng_smc_total_witness:
  "\<exists>regs' pool' src'. trng_handle_smc_common counting_source 4 (rnd_regs 0xC4000053 191) (EntropyPool_new 4) 5 =
     Some (regs', pool', src') \<and> pool_ok 4 pool'"
  using trng_smc_total [OF counting.entropy_source_axioms, of "EntropyPool_new 4" "rnd_regs 0xC4000053 191" 5]
    pool_ok_new [of 4]
  by (auto simp: words_in_pool_def rnd_regs_values)

end
