(* ===== verification/Gpt.thy ===== *)
theory Gpt
  imports Prelude
begin

text \<open>
  The granule protection table, \<^verbatim>\<open>src/src/gpt.rs\<close>, \<^verbatim>\<open>src/src/gpt/table.rs\<close> and
  \<^verbatim>\<open>src/src/gpt/aarch64.rs\<close>: the descriptors of both levels as 64-bit words, the lookup and the
  update of the access type of a granule in memory, and finding and enabling a table.

  Memory is a function from the address of a 64-bit cell to its value; a slice made from a raw
  pointer is a base address with a length, and an index beyond the length panics. Barriers, TLB
  maintenance and register writes are events.
\<close>

section \<open>Sizes\<close>

datatype GptError = GptNotInitialized | InvalidConfiguration | MisalignedL0Buffer

datatype GranuleError = InvalidRequest | InvalidL0Entry | InvalidL1Entry

datatype ProtectedPhysicalAddressSize = PpsGB4 | PpsGB64 | TB1 | TB4 | TB16 | TB256 | PB4

fun pps_width :: "ProtectedPhysicalAddressSize \<Rightarrow> nat" where
  "pps_width PpsGB4 = 32"
| "pps_width PpsGB64 = 36"
| "pps_width TB1 = 40"
| "pps_width TB4 = 42"
| "pps_width TB16 = 44"
| "pps_width TB256 = 48"
| "pps_width PB4 = 52"

definition pps_size :: "ProtectedPhysicalAddressSize \<Rightarrow> u64" where
  "pps_size pps = push_bit (pps_width pps) 1"

fun pps_bits :: "ProtectedPhysicalAddressSize \<Rightarrow> u8" where
  "pps_bits PpsGB4 = 0"
| "pps_bits PpsGB64 = 1"
| "pps_bits TB1 = 2"
| "pps_bits TB4 = 3"
| "pps_bits TB16 = 4"
| "pps_bits TB256 = 5"
| "pps_bits PB4 = 6"

definition pps_try_from :: "u8 \<Rightarrow> ProtectedPhysicalAddressSize option" where
  "pps_try_from v = find (\<lambda>p. pps_bits p = v) [PpsGB4, PpsGB64, TB1, TB4, TB16, TB256, PB4]"

datatype Level0GptSize = L0GB1 | L0GB16 | L0GB64 | L0GB512

fun l0_width :: "Level0GptSize \<Rightarrow> nat" where
  "l0_width L0GB1 = 30"
| "l0_width L0GB16 = 34"
| "l0_width L0GB64 = 36"
| "l0_width L0GB512 = 39"

fun l0_bits :: "Level0GptSize \<Rightarrow> u8" where
  "l0_bits L0GB1 = 0"
| "l0_bits L0GB16 = 4"
| "l0_bits L0GB64 = 6"
| "l0_bits L0GB512 = 9"

definition l0_try_from :: "u8 \<Rightarrow> Level0GptSize option" where
  "l0_try_from v = find (\<lambda>p. l0_bits p = v) [L0GB1, L0GB16, L0GB64, L0GB512]"

datatype PhysicalGranuleSize = KB4 | KB64 | KB16

fun pgs_width :: "PhysicalGranuleSize \<Rightarrow> nat" where
  "pgs_width KB4 = 12"
| "pgs_width KB16 = 14"
| "pgs_width KB64 = 16"

definition pgs_size :: "PhysicalGranuleSize \<Rightarrow> u64" where
  "pgs_size p = push_bit (pgs_width p) 1"

fun pgs_bits :: "PhysicalGranuleSize \<Rightarrow> u8" where
  "pgs_bits KB4 = 0"
| "pgs_bits KB64 = 1"
| "pgs_bits KB16 = 2"

definition pgs_try_from :: "u8 \<Rightarrow> PhysicalGranuleSize option" where
  "pgs_try_from v = find (\<lambda>p. pgs_bits p = v) [KB4, KB64, KB16]"

record GranuleProtectionConfig =
  pps :: ProtectedPhysicalAddressSize
  l0gptsz :: Level0GptSize
  pgs :: PhysicalGranuleSize

type_synonym PA = u64

definition l0_resolve :: "GranuleProtectionConfig \<Rightarrow> PA \<Rightarrow> nat" where
  "l0_resolve cfg pa = unat (drop_bit (l0_width (l0gptsz cfg)) (pa AND mask (pps_width (pps cfg))))"

definition l1_resolve :: "GranuleProtectionConfig \<Rightarrow> PA \<Rightarrow> nat" where
  "l1_resolve cfg pa =
     unat (drop_bit (pgs_width (pgs cfg) + 4) (pa AND mask (l0_width (l0gptsz cfg))))"

definition granule_resolve :: "GranuleProtectionConfig \<Rightarrow> PA \<Rightarrow> nat" where
  "granule_resolve cfg pa = unat (drop_bit (pgs_width (pgs cfg)) pa AND 0xF)"

definition l1_len :: "GranuleProtectionConfig \<Rightarrow> nat" where
  "l1_len cfg = push_bit (l0_width (l0gptsz cfg) - (pgs_width (pgs cfg) + 4)) 1"

section \<open>Descriptors\<close>

datatype GPIAccessType = NoAccess | GpiSecure | GpiNonSecure | GpiRoot | GpiRealm | GpiAny

fun gpi_bits :: "GPIAccessType \<Rightarrow> u64" where
  "gpi_bits NoAccess = 0"
| "gpi_bits GpiSecure = 8"
| "gpi_bits GpiNonSecure = 9"
| "gpi_bits GpiRoot = 10"
| "gpi_bits GpiRealm = 11"
| "gpi_bits GpiAny = 15"

definition gpi_try_from :: "u64 \<Rightarrow> GPIAccessType option" where
  "gpi_try_from v = find (\<lambda>g. gpi_bits g = v) [NoAccess, GpiSecure, GpiNonSecure, GpiRoot, GpiRealm, GpiAny]"

datatype ContigSize = MB2 | MB32 | MB512

fun contig_bits :: "ContigSize \<Rightarrow> u64" where
  "contig_bits MB2 = 1"
| "contig_bits MB32 = 2"
| "contig_bits MB512 = 3"

definition contig_try_from :: "u64 \<Rightarrow> ContigSize option" where
  "contig_try_from v = find (\<lambda>c. contig_bits c = v) [MB2, MB32, MB512]"

fun contig_shift :: "ContigSize \<Rightarrow> nat" where
  "contig_shift MB2 = 21"
| "contig_shift MB32 = 25"
| "contig_shift MB512 = 29"

definition contig_from_shift :: "nat \<Rightarrow> ContigSize option" where
  "contig_from_shift n = (if n = 21 then Some MB2 else if n = 25 then Some MB32
     else if n = 29 then Some MB512 else None)"

type_synonym Level0Descriptor = u64
type_synonym Level1Descriptor = u64

definition TAG_MASK :: u64 where "TAG_MASK = mask 4"
definition BLOCK_TAG :: u64 where "BLOCK_TAG = 1"
definition TABLE_TAG :: u64 where "TABLE_TAG = 3"
definition CONTIG_TAG :: u64 where "CONTIG_TAG = 1"
definition TABLE_ADDR_MASK :: u64 where "TABLE_ADDR_MASK = mask 52 AND NOT (mask 12)"

definition is_table :: "Level0Descriptor \<Rightarrow> bool" where
  "is_table d \<longleftrightarrow> d AND TAG_MASK = TABLE_TAG"

definition is_block :: "Level0Descriptor \<Rightarrow> bool" where
  "is_block d \<longleftrightarrow> d AND TAG_MASK = BLOCK_TAG"

definition block_descriptor :: "GPIAccessType \<Rightarrow> Level0Descriptor" where
  "block_descriptor gpi = BLOCK_TAG OR push_bit 4 (gpi_bits gpi AND mask 4)"

definition table_descriptor :: "u64 \<Rightarrow> Level0Descriptor option" where
  "table_descriptor addr =
     do { assert_that (addr AND TABLE_ADDR_MASK = addr); Some (TABLE_TAG OR (addr AND TABLE_ADDR_MASK)) }"

definition table_address :: "Level0Descriptor \<Rightarrow> nat" where
  "table_address d = unat (d AND TABLE_ADDR_MASK)"

text \<open>The accessors of the bits 4 to 7 and 8 to 9 panic on a value without a meaning.\<close>

definition descriptor_gpi :: "u64 \<Rightarrow> GPIAccessType option" where
  "descriptor_gpi d = gpi_try_from (drop_bit 4 d AND mask (8 - 4))"

definition contig_size :: "Level1Descriptor \<Rightarrow> ContigSize option" where
  "contig_size d = contig_try_from (drop_bit 8 d AND mask (10 - 8))"

definition is_contig :: "Level1Descriptor \<Rightarrow> bool" where
  "is_contig d \<longleftrightarrow> d AND TAG_MASK = CONTIG_TAG"

definition contig_descriptor :: "ContigSize \<Rightarrow> GPIAccessType \<Rightarrow> Level1Descriptor" where
  "contig_descriptor sz gpi =
     CONTIG_TAG OR push_bit 8 (contig_bits sz AND mask 2) OR push_bit 4 (gpi_bits gpi AND mask 4)"

definition is_granule :: "Level1Descriptor \<Rightarrow> bool" where
  "is_granule d \<longleftrightarrow> gpi_try_from (d AND mask 4) \<noteq> None"

definition granule_gpi :: "Level1Descriptor \<Rightarrow> nat \<Rightarrow> GPIAccessType option option" where
  "granule_gpi d idx = do { assert_that (idx < 16); Some (gpi_try_from (drop_bit (idx * 4) d AND 0xF)) }"

definition set_gpi :: "Level1Descriptor \<Rightarrow> nat \<Rightarrow> GPIAccessType \<Rightarrow> Level1Descriptor option" where
  "set_gpi d idx gpi =
     do {
       assert_that (idx < 16);
       let start = idx * 4;
       Some ((d AND NOT (push_bit start 0xF)) OR push_bit start (gpi_bits gpi AND 0xF))
     }"

fun granule_from :: "nat \<Rightarrow> GPIAccessType list \<Rightarrow> Level1Descriptor \<Rightarrow> Level1Descriptor option" where
  "granule_from i [] d = Some d"
| "granule_from i (gpi # gpis) d = do { d' \<leftarrow> set_gpi d i gpi; granule_from (i + 1) gpis d' }"

definition granule_descriptor :: "GPIAccessType list \<Rightarrow> Level1Descriptor option" where
  "granule_descriptor gpis = granule_from 0 gpis 0"

definition granule_is_empty :: "Level1Descriptor \<Rightarrow> bool" where
  "granule_is_empty d \<longleftrightarrow>
     list_all (\<lambda>idx. granule_gpi d idx = Some None \<or> granule_gpi d idx = Some (Some NoAccess)) [0..<16]"

definition granule_is_all :: "Level1Descriptor \<Rightarrow> bool" where
  "granule_is_all d \<longleftrightarrow> list_all (\<lambda>idx. granule_gpi d idx = Some (Some GpiAny)) [0..<16]"

section \<open>The table in memory\<close>

datatype gpt_event =
  DsbOshst | TlbiRpalos PA u64 | DsbOsh | FlushToPopa bool u64 u64

record gpt_world =
  gpt_mem :: "nat \<Rightarrow> u64"
  gpt_events :: "gpt_event list"

record GranuleProtection =
  level0_base :: nat
  level0_len :: nat
  gp_config :: GranuleProtectionConfig

text \<open>Reading and writing the cell \<open>i\<close> of a slice of \<open>len\<close> cells at \<open>base\<close>.\<close>

definition cell :: "nat \<Rightarrow> nat \<Rightarrow> nat" where
  "cell base i = base + 8 * i"

definition slice_read :: "gpt_world \<Rightarrow> nat \<Rightarrow> nat \<Rightarrow> nat \<Rightarrow> u64 option" where
  "slice_read w base len i = (if i < len then Some (gpt_mem w (cell base i)) else None)"

definition gpt_lookup ::
  "GranuleProtection \<Rightarrow> gpt_world \<Rightarrow> PA \<Rightarrow> (GranuleError + GPIAccessType) option" where
  "gpt_lookup gp w base_pa =
     (let cfg = gp_config gp in
      if base_pa \<ge> pps_size (pps cfg) then Some (Inl InvalidRequest)
      else do {
        l0_entry \<leftarrow> slice_read w (level0_base gp) (level0_len gp) (l0_resolve cfg base_pa);
        if is_block l0_entry
        then do { gpi \<leftarrow> descriptor_gpi l0_entry; Some (Inr gpi) }
        else if \<not> is_table l0_entry then Some (Inl InvalidL0Entry)
        else do {
          l1_desc \<leftarrow> slice_read w (table_address l0_entry) (l1_len cfg) (l1_resolve cfg base_pa);
          if is_contig l1_desc
          then do { gpi \<leftarrow> descriptor_gpi l1_desc; Some (Inr gpi) }
          else if \<not> is_granule l1_desc then Some (Inl InvalidL1Entry)
          else do {
            gpi \<leftarrow> granule_gpi l1_desc (granule_resolve cfg base_pa);
            Some (case gpi of None \<Rightarrow> Inl InvalidL1Entry | Some g \<Rightarrow> Inr g) } } })"

definition gpt_set ::
  "GranuleProtection \<Rightarrow> gpt_world \<Rightarrow> PA \<Rightarrow> GPIAccessType \<Rightarrow>
     ((GranuleError + unit) \<times> gpt_world) option" where
  "gpt_set gp w base_pa gpi =
     (let cfg = gp_config gp in
      if base_pa \<ge> pps_size (pps cfg) then Some (Inl InvalidRequest, w)
      else do {
        l0_entry \<leftarrow> slice_read w (level0_base gp) (level0_len gp) (l0_resolve cfg base_pa);
        if is_block l0_entry then Some (Inl InvalidRequest, w)
        else if \<not> is_table l0_entry then Some (Inl InvalidL0Entry, w)
        else do {
          let l1_idx = l1_resolve cfg base_pa;
          l1_desc \<leftarrow> slice_read w (table_address l0_entry) (l1_len cfg) l1_idx;
          if is_contig l1_desc then Some (Inl InvalidRequest, w)
          else if \<not> is_granule l1_desc then Some (Inl InvalidL1Entry, w)
          else do {
            desc \<leftarrow> set_gpi l1_desc (granule_resolve cfg base_pa) gpi;
            Some (Inr (),
              \<lparr>gpt_mem = (gpt_mem w)(cell (table_address l0_entry) l1_idx := desc),
               gpt_events = gpt_events w @ [DsbOshst, TlbiRpalos base_pa (pgs_size (pgs cfg)), DsbOsh]\<rparr>) } } })"

section \<open>Registers\<close>

text \<open>
  The fields of \<open>GPCCR_EL3\<close>; the types of the shareability and cacheability attributes are those of
  the register crate. \<open>GPTBR_EL3\<close> is its address field.
\<close>

record ('s, 'c) GpccrEl3 =
  gpc :: bool
  gpcc_appsaa :: bool
  gpcc_tbgpcd :: bool
  gpcc_gpcp :: bool
  gpcc_spad :: bool
  gpcc_nspad :: bool
  gpcc_rlpad :: bool
  gpcc_sh :: 's
  gpcc_orgn :: 'c
  gpcc_irgn :: 'c
  gpcc_pps :: u8
  gpcc_l0gptsz :: u8
  gpcc_pgs :: u8

record ('s, 'c) GpccrConfig =
  appsaa :: bool
  tbgpcd :: bool
  gpcp :: bool
  sh :: 's
  orgn :: 'c
  irgn :: 'c
  spad :: bool
  nspad :: bool
  rlpad :: bool

definition to_reg :: "('s, 'c) GpccrConfig \<Rightarrow> ('s, 'c) GpccrEl3" where
  "to_reg c =
     \<lparr>gpc = False, gpcc_appsaa = appsaa c, gpcc_tbgpcd = tbgpcd c, gpcc_gpcp = gpcp c,
      gpcc_spad = spad c, gpcc_nspad = nspad c, gpcc_rlpad = rlpad c,
      gpcc_sh = sh c, gpcc_orgn = orgn c, gpcc_irgn = irgn c,
      gpcc_pps = 0, gpcc_l0gptsz = 0, gpcc_pgs = 0\<rparr>"

datatype ('s, 'c) gpt_reg_event =
  WriteGptbr u64 | WriteGpccr "('s, 'c) GpccrEl3" | GptIsb | TlbiPaallos | GptDsbSy

definition discover :: "('s, 'c) GpccrEl3 \<Rightarrow> u64 \<Rightarrow> GptError + GranuleProtection" where
  "discover gpcc baddr =
     (if \<not> gpc gpcc then Inl GptNotInitialized
      else
        (case (pps_try_from (gpcc_pps gpcc), l0_try_from (gpcc_l0gptsz gpcc), pgs_try_from (gpcc_pgs gpcc)) of
           (Some p, Some l, Some g) \<Rightarrow>
             if pps_width p < l0_width l then Inl InvalidConfiguration
             else Inr \<lparr>level0_base = unat (push_bit 12 baddr),
                       level0_len = push_bit (pps_width p - l0_width l) 1,
                       gp_config = \<lparr>pps = p, l0gptsz = l, pgs = g\<rparr>\<rparr>
         | _ \<Rightarrow> Inl InvalidConfiguration))"

definition enable ::
  "GranuleProtection \<Rightarrow> ('s, 'c) GpccrConfig option \<Rightarrow> ('s, 'c) GpccrEl3 \<Rightarrow>
     ((GptError + unit) \<times> ('s, 'c) gpt_reg_event list) option" where
  "enable gp config current =
     do {
       let gpcc = (case config of Some c \<Rightarrow> to_reg c | None \<Rightarrow> current);
       assert_that (\<not> gpc gpcc);
       let gpcc = gpcc\<lparr>gpcc_pps := pps_bits (pps (gp_config gp)),
                       gpcc_l0gptsz := l0_bits (l0gptsz (gp_config gp)),
                       gpcc_pgs := pgs_bits (pgs (gp_config gp))\<rparr>;
       let base = (of_nat (level0_base gp) :: u64);
       if base AND mask 12 \<noteq> 0 then Some (Inl MisalignedL0Buffer, [])
       else
         Some (Inr (),
           [WriteGptbr (drop_bit 12 base), WriteGpccr gpcc, GptIsb, TlbiPaallos, GptDsbSy, GptIsb,
            WriteGpccr (gpcc\<lparr>gpc := True\<rparr>), GptIsb, TlbiPaallos, GptDsbSy, GptIsb])
     }"

text \<open>The registers after a sequence of events.\<close>

fun reg_effect :: "('s, 'c) gpt_reg_event \<Rightarrow> u64 \<times> ('s, 'c) GpccrEl3 \<Rightarrow> u64 \<times> ('s, 'c) GpccrEl3" where
  "reg_effect (WriteGptbr b) (_, r) = (b, r)"
| "reg_effect (WriteGpccr r) (b, _) = (b, r)"
| "reg_effect _ regs = regs"

end
