(* ===== verification/Gpt_Laws.thy ===== *)
theory Gpt_Laws
  imports Gpt
begin

text \<open>
  Lemmas on the granule protection table: the fields of the descriptors, the three indices of an
  address as a mixed-radix numeral of its granule number, and the law a client relies on, that an
  update of a granule changes the access type of this granule and of no other address. The law is
  the contract \<open>granule_map\<close>, interpreted on the table in memory.
\<close>

section \<open>Descriptors\<close>

named_theorems gpt_simps

lemma gpi_bits_less: "gpi_bits g < 16"
  by (cases g) simp_all

lemma gpi_try_from_bits [gpt_simps]: "gpi_try_from (gpi_bits g) = Some g"
  by (cases g) (simp_all add: gpi_try_from_def)

lemma gpi_bits_not_tag: "gpi_bits g \<noteq> 1"
  by (cases g) simp_all

lemma mask_4_u64: "(mask 4 :: u64) = 0xF"
  by (simp add: mask_eq_exp_minus_1)

lemma gpi_bits_bit: "bit (gpi_bits g) n \<Longrightarrow> n < 4"
proof -
  have "take_bit 4 (gpi_bits g) = gpi_bits g" by (cases g) simp_all
  then show "bit (gpi_bits g) n \<Longrightarrow> n < 4" by (metis bit_take_bit_iff)
qed

lemma nibble_bit: "bit (drop_bit (i * 4) d AND 0xF) n \<longleftrightarrow> n < 4 \<and> bit d (i * 4 + n)"
  for d :: u64
  by (simp add: mask_4_u64 [symmetric] bit_simps) (auto dest: bit_imp_le_length)

lemma gpi_bits_masked [gpt_simps]: "gpi_bits g AND 0xF = gpi_bits g"
  by (cases g) simp_all

lemma bit_set_gpi:
  assumes "set_gpi d i g = Some d'"
  shows "bit d' n \<longleftrightarrow> n < 64 \<and> (if n div 4 = i then bit (gpi_bits g) (n mod 4) else bit d n)"
proof -
  have d': "d' = (d AND NOT (push_bit (i * 4) (mask 4))) OR push_bit (i * 4) (gpi_bits g)"
    using assms by (auto simp: set_gpi_def gpt_simps mask_4_u64 Let_def split: bind_splits)
  have "n div 4 = i \<longleftrightarrow> i * 4 \<le> n \<and> n - i * 4 < 4" by presburger
  moreover have "i * 4 \<le> n \<Longrightarrow> n - i * 4 < 4 \<Longrightarrow> n mod 4 = n - i * 4" by presburger
  ultimately show ?thesis
    using gpi_bits_bit [of g "n - i * 4"] bit_imp_le_length [of d n]
    by (auto simp: d' bit_simps)
qed

lemma set_gpi_same:
  assumes "set_gpi d i g = Some d'"
  shows "drop_bit (i * 4) d' AND 0xF = gpi_bits g"
proof (rule bit_word_eqI)
  have i: "i < 16" using assms by (auto simp: set_gpi_def split: bind_splits)
  show "bit (drop_bit (i * 4) d' AND 0xF) n = bit (gpi_bits g) n" for n
    unfolding nibble_bit bit_set_gpi [OF assms] using gpi_bits_bit [of g n] i by auto
qed

lemma set_gpi_other:
  assumes "set_gpi d i g = Some d'" "j \<noteq> i"
  shows "drop_bit (j * 4) d' AND 0xF = drop_bit (j * 4) d AND 0xF"
proof (rule bit_word_eqI)
  show "bit (drop_bit (j * 4) d' AND 0xF) n = bit (drop_bit (j * 4) d AND 0xF) n" for n
    unfolding nibble_bit bit_set_gpi [OF assms(1)]
    using \<open>j \<noteq> i\<close> bit_imp_le_length [of d "j * 4 + n"] by auto
qed

lemma granule_gpi_set:
  assumes "set_gpi d i g = Some d'" "j < 16"
  shows "granule_gpi d' j = (if j = i then Some (Some g) else granule_gpi d j)"
  using assms set_gpi_same [OF assms(1)] set_gpi_other [OF assms(1)]
  by (simp add: granule_gpi_def gpt_simps)

lemma set_gpi_granule:
  assumes "set_gpi d i g = Some d'" "is_granule d" "\<not> is_contig d"
  shows "is_granule d'" "\<not> is_contig d'"
proof -
  have tag: "d' AND 0xF = (if i = 0 then gpi_bits g else d AND 0xF)"
    using set_gpi_same [OF assms(1)] set_gpi_other [OF assms(1), of 0] by auto
  then show "is_granule d'" "\<not> is_contig d'"
    using assms(2,3) gpi_bits_not_tag [of g]
    by (auto simp: is_granule_def is_contig_def mask_4_u64 TAG_MASK_def CONTIG_TAG_def gpt_simps)
qed

lemma set_gpi_returns: "i < 16 \<Longrightarrow> \<exists>d'. set_gpi d i g = Some d'"
  by (simp add: set_gpi_def Let_def)

lemma granule_from_gpi:
  assumes "i + length gpis \<le> 16"
  shows "\<exists>d'. granule_from i gpis d = Some d' \<and>
           (\<forall>j < 16. granule_gpi d' j =
              (if i \<le> j \<and> j < i + length gpis then Some (Some (gpis ! (j - i))) else granule_gpi d j))"
  using assms
proof (induction gpis arbitrary: i d)
  case Nil
  then show ?case by auto
next
  case (Cons g gpis)
  obtain d1 where d1: "set_gpi d i g = Some d1"
    using set_gpi_returns [of i d g] Cons.prems by auto
  from Cons.IH [of "i + 1" d1] Cons.prems obtain d' where d':
    "granule_from (i + 1) gpis d1 = Some d'"
    "\<forall>j < 16. granule_gpi d' j =
       (if i + 1 \<le> j \<and> j < i + 1 + length gpis then Some (Some (gpis ! (j - (i + 1)))) else granule_gpi d1 j)"
    by auto
  have "granule_gpi d' j = (if i \<le> j \<and> j < i + length (g # gpis)
          then Some (Some ((g # gpis) ! (j - i))) else granule_gpi d j)" if "j < 16" for j
    using d'(2) granule_gpi_set [OF d1 that] that by (auto simp: nth_Cons')
  then show ?case using d1 d'(1) by auto
qed

section \<open>Addresses\<close>

lemma pps_width_bounds: "32 \<le> pps_width p" "pps_width p \<le> 52"
  by (cases p; simp)+

lemma l0_width_bounds: "30 \<le> l0_width l" "l0_width l \<le> 39"
  by (cases l; simp)+

lemma pgs_width_bounds: "12 \<le> pgs_width g" "pgs_width g \<le> 16"
  by (cases g; simp)+

lemma unat_and_mask: "unat (x AND mask n) = unat x mod 2 ^ n" for x :: "'a::len word"
  by (simp only: take_bit_eq_mask [symmetric] unsigned_take_bit_eq) (simp only: take_bit_eq_mod)

lemma unat_drop_bit: "unat (drop_bit n x) = unat x div 2 ^ n" for x :: "'a::len word"
  by (simp add: unat_drop_bit_eq) (simp add: drop_bit_eq_div)

lemma pps_size_le_iff: "pps_size p \<le> pa \<longleftrightarrow> 2 ^ pps_width p \<le> unat pa"
proof -
  have "unat (pps_size p) = 2 ^ pps_width p" by (cases p) (simp_all add: pps_size_def push_bit_eq_mult)
  then show ?thesis by (simp add: word_le_nat_alt)
qed

lemma l1_len_power: "l1_len cfg = 2 ^ (l0_width (l0gptsz cfg) - (pgs_width (pgs cfg) + 4))"
  by (simp add: l1_len_def push_bit_eq_mult)

text \<open>The number of the granule of an address.\<close>

definition granule_of :: "GranuleProtectionConfig \<Rightarrow> PA \<Rightarrow> nat" where
  "granule_of cfg pa = unat pa div 2 ^ pgs_width (pgs cfg)"

lemma l1_resolve_less: "l1_resolve cfg pa < l1_len cfg"
proof -
  let ?p = "pgs_width (pgs cfg) + 4" and ?l = "l0_width (l0gptsz cfg)"
  have "?l = ?p + (?l - ?p)" using l0_width_bounds [of "l0gptsz cfg"] pgs_width_bounds [of "pgs cfg"] by simp
  then have "(2::nat) ^ ?l = 2 ^ ?p * 2 ^ (?l - ?p)" by (metis power_add)
  moreover have "unat pa mod 2 ^ ?l < 2 ^ ?l" by simp
  ultimately show ?thesis
    unfolding l1_resolve_def unat_and_mask unat_drop_bit l1_len_power
    by (simp add: less_mult_imp_div_less mult.commute)
qed

lemma granule_resolve_less: "granule_resolve cfg pa < 16"
  using unat_and_mask [of "drop_bit (pgs_width (pgs cfg)) pa" 4]
  by (simp add: granule_resolve_def mask_4_u64)

lemma l0_resolve_less:
  assumes "l0_width (l0gptsz cfg) \<le> pps_width (pps cfg)"
  shows "l0_resolve cfg pa < 2 ^ (pps_width (pps cfg) - l0_width (l0gptsz cfg))"
proof -
  let ?p = "pps_width (pps cfg)" and ?l = "l0_width (l0gptsz cfg)"
  have "(2::nat) ^ ?p = 2 ^ ?l * 2 ^ (?p - ?l)" using assms by (simp add: power_add [symmetric])
  moreover have "unat pa mod 2 ^ ?p < 2 ^ ?p" by simp
  ultimately show ?thesis
    unfolding l0_resolve_def unat_and_mask unat_drop_bit
    by (simp add: less_mult_imp_div_less mult.commute)
qed

lemma mod_mult_div: "0 < a \<Longrightarrow> u mod (a * b) div a = u div a mod b" for a b u :: nat
  by (simp add: mod_mult2_eq)

lemma radix_eq_iff:
  fixes a b a' b' n :: nat
  assumes "b < n" "b' < n"
  shows "a * n + b = a' * n + b' \<longleftrightarrow> a = a' \<and> b = b'"
proof
  assume eq: "a * n + b = a' * n + b'"
  have "(a * n + b) div n = a" "(a' * n + b') div n = a'" using assms by simp_all
  with eq show "a = a' \<and> b = b'" by simp
qed simp

lemma granule_mixed_radix:
  assumes "unat pa < 2 ^ pps_width (pps cfg)"
  shows "granule_of cfg pa =
           (l0_resolve cfg pa * l1_len cfg + l1_resolve cfg pa) * 16 + granule_resolve cfg pa"
proof -
  let ?p = "pgs_width (pgs cfg)" and ?l = "l0_width (l0gptsz cfg)" and ?u = "unat pa"
  let ?g = "?u div 2 ^ ?p" and ?k = "?l - (?p + 4)"
  have le: "?l = ?p + 4 + ?k" using l0_width_bounds [of "l0gptsz cfg"] pgs_width_bounds [of "pgs cfg"] by simp
  have pow: "(2::nat) ^ ?l = 2 ^ ?p * 16 * 2 ^ ?k"
    by (subst le) (simp add: power_add)
  have l0: "l0_resolve cfg pa = ?g div 16 div 2 ^ ?k"
    unfolding l0_resolve_def unat_and_mask unat_drop_bit pow using assms by (simp add: div_mult2_eq)
  have l1: "l1_resolve cfg pa = (?g div 16) mod 2 ^ ?k"
    unfolding l1_resolve_def unat_and_mask unat_drop_bit pow power_add
    using mod_mult_div [of "2 ^ ?p * 16" ?u "2 ^ ?k"] by (simp add: div_mult2_eq)
  have gr: "granule_resolve cfg pa = ?g mod 16"
    using unat_and_mask [of "drop_bit ?p pa" 4] by (simp add: granule_resolve_def mask_4_u64 unat_drop_bit)
  show ?thesis
    unfolding granule_of_def l0 l1 gr l1_len_power div_mult_mod_eq ..
qed

lemma granule_of_eq_iff:
  assumes "unat pa < 2 ^ pps_width (pps cfg)" "unat pa' < 2 ^ pps_width (pps cfg)"
  shows "granule_of cfg pa = granule_of cfg pa' \<longleftrightarrow>
           l0_resolve cfg pa = l0_resolve cfg pa' \<and> l1_resolve cfg pa = l1_resolve cfg pa' \<and>
           granule_resolve cfg pa = granule_resolve cfg pa'"
proof -
  show ?thesis
    unfolding granule_mixed_radix [OF assms(1)] granule_mixed_radix [OF assms(2)]
    by (simp only: radix_eq_iff [OF granule_resolve_less granule_resolve_less] radix_eq_iff [OF l1_resolve_less l1_resolve_less] conj_assoc)
qed

lemma granule_of_outside:
  assumes "unat pa < 2 ^ pps_width (pps cfg)" "2 ^ pps_width (pps cfg) \<le> unat pa'"
  shows "granule_of cfg pa \<noteq> granule_of cfg pa'"
proof -
  let ?p = "pgs_width (pgs cfg)" and ?w = "pps_width (pps cfg)"
  have "(2::nat) ^ ?w = 2 ^ ?p * 2 ^ (?w - ?p)"
    using pps_width_bounds [of "pps cfg"] pgs_width_bounds [of "pgs cfg"] by (simp add: power_add [symmetric])
  then have "unat pa div 2 ^ ?p < 2 ^ (?w - ?p)" "2 ^ (?w - ?p) \<le> unat pa' div 2 ^ ?p"
    using assms by (simp_all add: less_mult_imp_div_less mult.commute less_eq_div_iff_mult_less_eq)
  then show ?thesis by (simp add: granule_of_def)
qed

section \<open>The table as a map from granules\<close>

text \<open>
  What the safety comments call a correctly programmed table: the first level has an entry for each
  region of the protected space, and the tables it points to overlap neither each other nor the
  first level.
\<close>

definition l0_entry_at :: "GranuleProtection \<Rightarrow> gpt_world \<Rightarrow> nat \<Rightarrow> Level0Descriptor" where
  "l0_entry_at gp w i = gpt_mem w (cell (level0_base gp) i)"

definition l1_cell :: "GranuleProtection \<Rightarrow> gpt_world \<Rightarrow> nat \<Rightarrow> nat \<Rightarrow> nat" where
  "l1_cell gp w i a = cell (table_address (l0_entry_at gp w i)) a"

definition gpt_ok :: "GranuleProtection \<Rightarrow> gpt_world \<Rightarrow> bool" where
  "gpt_ok gp w \<longleftrightarrow>
     l0_width (l0gptsz (gp_config gp)) \<le> pps_width (pps (gp_config gp)) \<and>
     level0_len gp = 2 ^ (pps_width (pps (gp_config gp)) - l0_width (l0gptsz (gp_config gp))) \<and>
     (\<forall>i < level0_len gp. is_table (l0_entry_at gp w i) \<longrightarrow>
        (\<forall>a < l1_len (gp_config gp).
           (\<forall>j < level0_len gp. l1_cell gp w i a \<noteq> cell (level0_base gp) j) \<and>
           (\<forall>j < level0_len gp. j \<noteq> i \<longrightarrow> is_table (l0_entry_at gp w j) \<longrightarrow>
              (\<forall>b < l1_len (gp_config gp). l1_cell gp w i a \<noteq> l1_cell gp w j b))))"

text \<open>A successful update writes one cell of a table of the second level.\<close>

lemma gpt_set_OkD:
  assumes "gpt_set gp w pa g = Some (Inr (), w')"
  defines "cfg \<equiv> gp_config gp"
  defines "i \<equiv> l0_resolve cfg pa"
  defines "c \<equiv> l1_cell gp w i (l1_resolve cfg pa)"
  obtains d where
    "unat pa < 2 ^ pps_width (pps cfg)" "i < level0_len gp" "is_table (l0_entry_at gp w i)"
    "\<not> is_block (l0_entry_at gp w i)"
    "is_granule (gpt_mem w c)" "\<not> is_contig (gpt_mem w c)"
    "set_gpi (gpt_mem w c) (granule_resolve cfg pa) g = Some d"
    "gpt_mem w' = (gpt_mem w)(c := d)"
    "gpt_events w' = gpt_events w @ [DsbOshst, TlbiRpalos pa (pgs_size (pgs cfg)), DsbOsh]"
  using assms(1) l1_resolve_less [of cfg pa]
  by (auto simp: gpt_set_def Let_def pps_size_le_iff slice_read_def l0_entry_at_def l1_cell_def
      i_def c_def cfg_def split: if_splits bind_splits)

lemma gpt_set_Err: "gpt_set gp w pa g = Some (Inl e, w') \<Longrightarrow> w' = w"
  by (auto simp: gpt_set_def Let_def split: if_splits bind_splits)

text \<open>A lookup reads the cells the indices select.\<close>

lemma gpt_lookup_cells:
  assumes "gpt_ok gp w"
  defines "cfg \<equiv> gp_config gp"
  shows "gpt_lookup gp w pa =
    (if 2 ^ pps_width (pps cfg) \<le> unat pa then Some (Inl InvalidRequest)
     else let l0_entry = l0_entry_at gp w (l0_resolve cfg pa);
              l1_desc = gpt_mem w (l1_cell gp w (l0_resolve cfg pa) (l1_resolve cfg pa)) in
       if is_block l0_entry then map_option Inr (descriptor_gpi l0_entry)
       else if \<not> is_table l0_entry then Some (Inl InvalidL0Entry)
       else if is_contig l1_desc then map_option Inr (descriptor_gpi l1_desc)
       else if \<not> is_granule l1_desc then Some (Inl InvalidL1Entry)
       else Some (case gpi_try_from (drop_bit (granule_resolve cfg pa * 4) l1_desc AND 0xF) of
                    None \<Rightarrow> Inl InvalidL1Entry | Some g \<Rightarrow> Inr g))"
  using assms l0_resolve_less [of cfg pa] l1_resolve_less [of cfg pa] granule_resolve_less [of cfg pa]
  by (auto simp: gpt_lookup_def gpt_ok_def Let_def pps_size_le_iff slice_read_def l0_entry_at_def
      l1_cell_def granule_gpi_def map_option_case split: option.splits bind_splits)

lemma l1_cell_not_level0:
  assumes "gpt_ok gp w" "i < level0_len gp" "is_table (l0_entry_at gp w i)"
    "a < l1_len (gp_config gp)" "j < level0_len gp"
  shows "cell (level0_base gp) j \<noteq> l1_cell gp w i a"
  using assms unfolding gpt_ok_def by metis

lemma gpt_set_level0:
  assumes "gpt_ok gp w" "gpt_set gp w pa g = Some (Inr (), w')" "i < level0_len gp"
  shows "l0_entry_at gp w' i = l0_entry_at gp w i"
  using assms(2)
proof (rule gpt_set_OkD)
  fix d
  let ?c = "l1_cell gp w (l0_resolve (gp_config gp) pa) (l1_resolve (gp_config gp) pa)"
  assume "l0_resolve (gp_config gp) pa < level0_len gp" "is_table (l0_entry_at gp w (l0_resolve (gp_config gp) pa))"
    and mem: "gpt_mem w' = (gpt_mem w)(?c := d)"
  then have "cell (level0_base gp) i \<noteq> ?c"
    using l1_cell_not_level0 [OF assms(1)] l1_resolve_less assms(3) by blast
  then show ?thesis by (simp add: l0_entry_at_def mem)
qed

lemma gpt_set_keeps_ok:
  assumes "gpt_ok gp w" "gpt_set gp w pa g = Some (Inr (), w')"
  shows "gpt_ok gp w'"
  using assms(1) gpt_set_level0 [OF assms] by (simp add: gpt_ok_def l1_cell_def)

lemma l1_cell_eq_iff:
  assumes "gpt_ok gp w" "i < level0_len gp" "j < level0_len gp"
    "is_table (l0_entry_at gp w i)" "is_table (l0_entry_at gp w j)"
    "a < l1_len (gp_config gp)" "b < l1_len (gp_config gp)"
  shows "l1_cell gp w i a = l1_cell gp w j b \<longleftrightarrow> i = j \<and> a = b"
  using assms by (cases "i = j") (auto simp: gpt_ok_def l1_cell_def cell_def)

lemma gpt_lookup_after_set_eq:
  assumes ok: "gpt_ok gp w" and set: "gpt_set gp w pa g = Some (Inr (), w')"
  defines "cfg \<equiv> gp_config gp"
  shows "gpt_lookup gp w' pa' =
    (if granule_of cfg pa' = granule_of cfg pa then Some (Inr g) else gpt_lookup gp w pa')"
proof (cases "2 ^ pps_width (pps cfg) \<le> unat pa'")
  case True
  then show ?thesis
    using granule_of_outside [of pa cfg pa'] set
    by (auto simp: gpt_lookup_def pps_size_le_iff cfg_def elim: gpt_set_OkD)
next
  case False
  note ok' = gpt_set_keeps_ok [OF ok set]
  let ?i = "l0_resolve cfg pa" and ?a = "l1_resolve cfg pa"
  let ?j = "l0_resolve cfg pa'" and ?b = "l1_resolve cfg pa'"
  have lens: "?i < level0_len gp" "?j < level0_len gp"
    using ok l0_resolve_less [of cfg] by (auto simp: gpt_ok_def cfg_def)
  note entry = gpt_set_level0 [OF ok set lens(2)]
  have c': "l1_cell gp w' ?j ?b = l1_cell gp w ?j ?b" by (simp add: l1_cell_def entry)
  note lk' = gpt_lookup_cells [OF ok', of pa', folded cfg_def, unfolded entry c']
    and lk = gpt_lookup_cells [OF ok, of pa', folded cfg_def]
  from set obtain d where pa: "unat pa < 2 ^ pps_width (pps cfg)"
    and tab: "is_table (l0_entry_at gp w ?i)" "\<not> is_block (l0_entry_at gp w ?i)"
    and desc: "is_granule (gpt_mem w (l1_cell gp w ?i ?a))" "\<not> is_contig (gpt_mem w (l1_cell gp w ?i ?a))"
    and d: "set_gpi (gpt_mem w (l1_cell gp w ?i ?a)) (granule_resolve cfg pa) g = Some d"
    and mem: "gpt_mem w' = (gpt_mem w)(l1_cell gp w ?i ?a := d)"
    unfolding cfg_def by (rule gpt_set_OkD)
  note same = granule_of_eq_iff [OF pa, of pa'] and kept = set_gpi_granule [OF d desc]
  have other: "is_table (l0_entry_at gp w ?j) \<Longrightarrow> \<not> (?j = ?i \<and> ?b = ?a) \<Longrightarrow>
      gpt_mem w' (l1_cell gp w ?j ?b) = gpt_mem w (l1_cell gp w ?j ?b)"
    using l1_cell_eq_iff [OF ok lens(1,2) tab(1), of ?a ?b] l1_resolve_less [of cfg]
    by (auto simp: mem cfg_def)
  show ?thesis
  proof (cases "?j = ?i \<and> ?b = ?a")
    case True
    then show ?thesis
      using False same tab desc kept set_gpi_same [OF d] set_gpi_other [OF d, of "granule_resolve cfg pa'"]
      by (auto simp: lk' lk Let_def mem gpt_simps)
  next
    case other_cell: False
    then show ?thesis
      using False same other
      by (auto simp: lk' lk Let_def)
  qed
qed

subsection \<open>The contract\<close>

text \<open>
  What the table promises the services that use it: a successful update is seen by the lookups of
  the granule and by no other, and a failing one has no effect.
\<close>

locale granule_map =
  fixes lookup_gpi :: "'w \<Rightarrow> 'p \<Rightarrow> ('e + 'g) option"
    and update_gpi :: "'w \<Rightarrow> 'p \<Rightarrow> 'g \<Rightarrow> (('e + unit) \<times> 'w) option"
    and gran :: "'p \<Rightarrow> nat"
    and table_ok :: "'w \<Rightarrow> bool"
  assumes lookup_update: "table_ok w \<Longrightarrow> update_gpi w p g = Some (Inr (), w') \<Longrightarrow>
      lookup_gpi w' q = (if gran q = gran p then Some (Inr g) else lookup_gpi w q)"
    and update_keeps_ok: "table_ok w \<Longrightarrow> update_gpi w p g = Some (Inr (), w') \<Longrightarrow> table_ok w'"
    and update_error: "update_gpi w p g = Some (Inl e, w') \<Longrightarrow> w' = w"
begin

lemma update_any_ok: "table_ok w \<Longrightarrow> update_gpi w p g = Some (r, w') \<Longrightarrow> table_ok w'"
  by (cases r) (auto dest: update_keeps_ok update_error)

lemma lookup_other:
  "table_ok w \<Longrightarrow> update_gpi w p g = Some (r, w') \<Longrightarrow> gran q \<noteq> gran p \<Longrightarrow>
     lookup_gpi w' q = lookup_gpi w q"
  by (cases r) (auto simp: lookup_update dest: update_error)

lemma lookup_update_twice:
  "table_ok w \<Longrightarrow> update_gpi w p g = Some (Inr (), w1) \<Longrightarrow> update_gpi w1 p h = Some (Inr (), w2) \<Longrightarrow>
     lookup_gpi w2 q = (if gran q = gran p then Some (Inr h) else lookup_gpi w q)"
  using lookup_update [of w p g w1 q] lookup_update [of w1 p h w2 q] update_keeps_ok [of w p g w1] by simp

end

interpretation gpt_map: granule_map "gpt_lookup gp" "gpt_set gp" "granule_of (gp_config gp)" "gpt_ok gp"
  for gp
  by unfold_locales (auto simp: gpt_lookup_after_set_eq gpt_set_keeps_ok dest: gpt_set_Err)

text \<open>An address that can be looked up is within the protected space; an update after it succeeds or refuses.\<close>

lemma gpt_lookup_OkD: "gpt_lookup gp w pa = Some (Inr g) \<Longrightarrow> unat pa < 2 ^ pps_width (pps (gp_config gp))"
  by (auto simp: gpt_lookup_def Let_def pps_size_le_iff split: if_splits)

lemma gpt_set_after_lookup:
  assumes "gpt_ok gp w" "gpt_lookup gp w pa = Some (Inr g)"
  shows "gpt_set gp w pa h = Some (Inl InvalidRequest, w) \<or> (\<exists>w'. gpt_set gp w pa h = Some (Inr (), w'))"
proof -
  let ?cfg = "gp_config gp"
  have "l0_resolve ?cfg pa < level0_len gp"
    using assms(1) l0_resolve_less by (auto simp: gpt_ok_def)
  then show ?thesis
    using assms(2) l1_resolve_less [of ?cfg pa] granule_resolve_less [of ?cfg pa]
    by (auto simp: gpt_lookup_def gpt_set_def set_gpi_def Let_def pps_size_le_iff slice_read_def
        split: if_splits bind_splits option.splits)
qed

section \<open>Finding an enabled table\<close>

lemma pps_try_from_bits [gpt_simps]: "pps_try_from (pps_bits p) = Some p"
  by (cases p) (simp_all add: pps_try_from_def)

lemma l0_try_from_bits [gpt_simps]: "l0_try_from (l0_bits l) = Some l"
  by (cases l) (simp_all add: l0_try_from_def)

lemma pgs_try_from_bits [gpt_simps]: "pgs_try_from (pgs_bits g) = Some g"
  by (cases g) (simp_all add: pgs_try_from_def)

lemma aligned_round_trip: "base AND mask 12 = 0 \<Longrightarrow> push_bit 12 (drop_bit 12 base) = base" for base :: u64
  by (metis bits_ident take_bit_eq_mask add.right_neutral)

end
