(* ===== verification/Rmm_Svc.thy ===== *)
theory Rmm_Svc
  imports Smccc
begin

text \<open>
  The RMM-EL3 interface, \<^verbatim>\<open>src/src/services/rmmd/svc.rs\<close>: the function identifiers, the
  commands with their parameters, and parsing a command from the registers of a call. Reading a
  register that the call does not have is the panic of the slice index.
\<close>

datatype RmmError =
  UnrecognisedFunctionId u32
  | InvalidEccCurve u64
  | InvalidEl3TokenSignOpcode u64
  | InvalidMecRefreshReason u64

datatype RmmCommandReturnCode =
  RmmOk | RmmUnknown | BadAddress | BadPas | NoMemory | InvalidValue | Again

fun rmm_code :: "RmmCommandReturnCode \<Rightarrow> i32" where
  "rmm_code RmmOk = 0"
| "rmm_code RmmUnknown = -1"
| "rmm_code BadAddress = -2"
| "rmm_code BadPas = -3"
| "rmm_code NoMemory = -4"
| "rmm_code InvalidValue = -5"
| "rmm_code Again = -6"

text \<open>Casting to a wider integer sign-extends.\<close>

definition rmm_code_u64 :: "RmmCommandReturnCode \<Rightarrow> u64" where
  "rmm_code_u64 c = scast (rmm_code c)"

datatype EccCurve = EccSecp384r1

definition ecc_curve_try_from :: "u64 \<Rightarrow> RmmError + EccCurve" where
  "ecc_curve_try_from v = (if v = 0 then Inr EccSecp384r1 else Inl (InvalidEccCurve v))"

datatype El3TokenSignOpcode = PushReq | PullResp | GetRak

definition token_sign_try_from :: "u64 \<Rightarrow> RmmError + El3TokenSignOpcode" where
  "token_sign_try_from v =
     (if v = 1 then Inr PushReq else if v = 2 then Inr PullResp else if v = 3 then Inr GetRak
      else Inl (InvalidEl3TokenSignOpcode v))"

datatype MecRefreshReason = RealmCreation | RealmDestruction

definition mec_refresh_try_from :: "u64 \<Rightarrow> RmmError + MecRefreshReason" where
  "mec_refresh_try_from v =
     (if v = 0 then Inr RealmCreation else if v = 1 then Inr RealmDestruction
      else Inl (InvalidMecRefreshReason v))"

record StreamSelector =
  keyset :: bool
  stream_dir :: bool
  substream :: u8
  stream_id :: u8

definition stream_from_u64 :: "u64 \<Rightarrow> StreamSelector" where
  "stream_from_u64 value =
     \<lparr>keyset = (value AND push_bit 12 1 \<noteq> 0), stream_dir = (value AND push_bit 11 1 \<noteq> 0),
      substream = ucast (drop_bit 8 value AND 7), stream_id = ucast value\<rparr>"

datatype RmmFuncId =
  FidRmiReqComplete | FidGtsiDelegate | FidGtsiUndelegate | FidAttestGetRealmKey
  | FidAttestGetPlatToken | FidEl3Features | FidEl3TokenSign | FidMecRefresh | FidIdeKeyProg
  | FidIdeKeySetGo | FidIdeKeySetStop | FidIdeKmPullResponse | FidReserveMemory

fun rmm_fid :: "RmmFuncId \<Rightarrow> u32" where
  "rmm_fid FidRmiReqComplete = 0xC400018F"
| "rmm_fid FidGtsiDelegate = 0xC40001B0"
| "rmm_fid FidGtsiUndelegate = 0xC40001B1"
| "rmm_fid FidAttestGetRealmKey = 0xC40001B2"
| "rmm_fid FidAttestGetPlatToken = 0xC40001B3"
| "rmm_fid FidEl3Features = 0xC40001B4"
| "rmm_fid FidEl3TokenSign = 0xC40001B5"
| "rmm_fid FidMecRefresh = 0xC40001B6"
| "rmm_fid FidIdeKeyProg = 0xC40001B7"
| "rmm_fid FidIdeKeySetGo = 0xC40001B8"
| "rmm_fid FidIdeKeySetStop = 0xC40001B9"
| "rmm_fid FidIdeKmPullResponse = 0xC40001BA"
| "rmm_fid FidReserveMemory = 0xC40001BB"

definition rmm_func_ids :: "RmmFuncId list" where
  "rmm_func_ids =
     [FidRmiReqComplete, FidGtsiDelegate, FidGtsiUndelegate, FidAttestGetRealmKey,
      FidAttestGetPlatToken, FidEl3Features, FidEl3TokenSign, FidMecRefresh, FidIdeKeyProg,
      FidIdeKeySetGo, FidIdeKeySetStop, FidIdeKmPullResponse, FidReserveMemory]"

definition rmm_func_id_try_from :: "u32 \<Rightarrow> RmmFuncId option" where
  "rmm_func_id_try_from v = find (\<lambda>f. rmm_fid f = v) rmm_func_ids"

datatype RmmCall =
  RmiReqComplete "u64 list"
  | GtsiDelegate u64
  | GtsiUndelegate u64
  | AttestGetRealmKey u64 u64 EccCurve
  | AttestGetPlatToken u64 u64 u64
  | El3Features u64
  | El3TokenSign El3TokenSignOpcode u64 u64 EccCurve
  | MecRefresh u16 MecRefreshReason
  | IdeKeyProg u64 u64 StreamSelector "u64 list" "u64 list" u64 u64
  | IdeKeySetGo u64 u64 StreamSelector u64 u64
  | IdeKeySetStop u64 u64 StreamSelector u64 u64
  | IdeKmPullResponse u64 u64
  | ReserveMemory u64 u8 bool

text \<open>The registers from \<open>lo\<close> to \<open>hi\<close>, exclusive.\<close>

definition reg_range :: "u64 list \<Rightarrow> nat \<Rightarrow> nat \<Rightarrow> u64 list option" where
  "reg_range regs lo hi = (if hi \<le> length regs then Some (take (hi - lo) (drop lo regs)) else None)"

definition parse_attest_get_realm_key :: "u64 list \<Rightarrow> (RmmError + RmmCall) option" where
  "parse_attest_get_realm_key regs =
     do {
       buf_pa \<leftarrow> checked_index regs 1;
       buf_size \<leftarrow> checked_index regs 2;
       curve \<leftarrow> checked_index regs 3;
       Some (case ecc_curve_try_from curve of
               Inl e \<Rightarrow> Inl e
             | Inr ecc_curve \<Rightarrow> Inr (AttestGetRealmKey buf_pa buf_size ecc_curve))
     }"

definition parse_el3_token_sign :: "u64 list \<Rightarrow> (RmmError + RmmCall) option" where
  "parse_el3_token_sign regs =
     do {
       r1 \<leftarrow> checked_index regs 1;
       case token_sign_try_from r1 of
         Inl e \<Rightarrow> Some (Inl e)
       | Inr opcode \<Rightarrow>
           do {
             buf_pa \<leftarrow> checked_index regs 2;
             buf_size \<leftarrow> checked_index regs 3;
             curve \<leftarrow> checked_index regs 4;
             Some (case ecc_curve_try_from curve of
                     Inl e \<Rightarrow> Inl e
                   | Inr ecc_curve \<Rightarrow> Inr (El3TokenSign opcode buf_pa buf_size ecc_curve))
           }
     }"

definition parse_mec_refresh :: "u64 list \<Rightarrow> (RmmError + RmmCall) option" where
  "parse_mec_refresh regs =
     do {
       r1 \<leftarrow> checked_index regs 1;
       Some (case mec_refresh_try_from (r1 AND 1) of
               Inl e \<Rightarrow> Inl e
             | Inr reason \<Rightarrow> Inr (MecRefresh (ucast (drop_bit 32 r1)) reason))
     }"

definition parse_ide_key_prog :: "u64 list \<Rightarrow> (RmmError + RmmCall) option" where
  "parse_ide_key_prog regs =
     do {
       ecam_address \<leftarrow> checked_index regs 1;
       rp_id \<leftarrow> checked_index regs 2;
       stream \<leftarrow> checked_index regs 3;
       keq_qw \<leftarrow> reg_range regs 4 8;
       ifv_qw \<leftarrow> reg_range regs 8 10;
       request_id \<leftarrow> checked_index regs 10;
       cookie \<leftarrow> checked_index regs 11;
       Some (Inr (IdeKeyProg ecam_address rp_id (stream_from_u64 stream) keq_qw ifv_qw request_id cookie))
     }"

definition parse_ide_key_set ::
  "(u64 \<Rightarrow> u64 \<Rightarrow> StreamSelector \<Rightarrow> u64 \<Rightarrow> u64 \<Rightarrow> RmmCall) \<Rightarrow> u64 list \<Rightarrow> (RmmError + RmmCall) option" where
  "parse_ide_key_set call regs =
     do {
       ecam_address \<leftarrow> checked_index regs 1;
       rp_id \<leftarrow> checked_index regs 2;
       stream \<leftarrow> checked_index regs 3;
       request_id \<leftarrow> checked_index regs 4;
       cookie \<leftarrow> checked_index regs 5;
       Some (Inr (call ecam_address rp_id (stream_from_u64 stream) request_id cookie))
     }"

fun parse_command :: "RmmFuncId \<Rightarrow> u64 list \<Rightarrow> (RmmError + RmmCall) option" where
  "parse_command FidRmiReqComplete regs = do { rs \<leftarrow> reg_range regs 1 7; Some (Inr (RmiReqComplete rs)) }"
| "parse_command FidGtsiDelegate regs = do { r1 \<leftarrow> checked_index regs 1; Some (Inr (GtsiDelegate r1)) }"
| "parse_command FidGtsiUndelegate regs = do { r1 \<leftarrow> checked_index regs 1; Some (Inr (GtsiUndelegate r1)) }"
| "parse_command FidAttestGetRealmKey regs = parse_attest_get_realm_key regs"
| "parse_command FidAttestGetPlatToken regs =
     do {
       r1 \<leftarrow> checked_index regs 1;
       r2 \<leftarrow> checked_index regs 2;
       r3 \<leftarrow> checked_index regs 3;
       Some (Inr (AttestGetPlatToken r1 r2 r3))
     }"
| "parse_command FidEl3Features regs = do { r1 \<leftarrow> checked_index regs 1; Some (Inr (El3Features r1)) }"
| "parse_command FidEl3TokenSign regs = parse_el3_token_sign regs"
| "parse_command FidMecRefresh regs = parse_mec_refresh regs"
| "parse_command FidIdeKeyProg regs = parse_ide_key_prog regs"
| "parse_command FidIdeKeySetGo regs = parse_ide_key_set IdeKeySetGo regs"
| "parse_command FidIdeKeySetStop regs = parse_ide_key_set IdeKeySetStop regs"
| "parse_command FidIdeKmPullResponse regs =
     do { r1 \<leftarrow> checked_index regs 1; r2 \<leftarrow> checked_index regs 2; Some (Inr (IdeKmPullResponse r1 r2)) }"
| "parse_command FidReserveMemory regs =
     do {
       r1 \<leftarrow> checked_index regs 1;
       r2 \<leftarrow> checked_index regs 2;
       Some (Inr (ReserveMemory r1 (ucast (drop_bit 56 r2)) (r2 AND 1 = 1)))
     }"

definition from_regs :: "u64 list \<Rightarrow> (RmmError + RmmCall) option" where
  "from_regs regs =
     do {
       r0 \<leftarrow> checked_index regs 0;
       let fid = ucast r0;
       case rmm_func_id_try_from fid of
         None \<Rightarrow> Some (Inl (UnrecognisedFunctionId fid))
       | Some f \<Rightarrow> parse_command f regs
     }"

section \<open>Responses\<close>

definition set_from_rmm_code :: "RmmCommandReturnCode \<Rightarrow> SmcReturn \<Rightarrow> SmcReturn" where
  "set_from_rmm_code c = set_from_u64 (rmm_code_u64 c)"

text \<open>The macro \<open>derive_setfrom\<close>: success, followed by the fields of the response.\<close>

definition set_from_fields :: "u64 list \<Rightarrow> SmcReturn \<Rightarrow> SmcReturn" where
  "set_from_fields vs = set_args (rmm_code_u64 RmmOk # vs)"

end
