(* ===== verification/Rmm_Manifest.thy ===== *)
theory Rmm_Manifest
  imports Prelude
begin

text \<open>
  The boot manifest of the Realm Management Monitor, \<^verbatim>\<open>src/src/services/rmmd/manifest.rs\<close>: the
  structures with their C layout in little-endian bytes, the checksums, and writing the manifest to
  the shared buffer.

  The structure view of a prefix of the buffer that the code writes through is the header record
  here, written to the buffer at the end; the rest of the buffer is written in place, at a cursor.
  Splitting a slice beyond its end, a structure view of a misaligned slice, and a sum that overflows
  panic.
\<close>

section \<open>Bytes\<close>

definition le_bytes :: "nat \<Rightarrow> u64 \<Rightarrow> u8 list" where
  "le_bytes n x = map (\<lambda>i. ucast (drop_bit (8 * i) x)) [0..<n]"

fun le_value :: "u8 list \<Rightarrow> u64" where
  "le_value [] = 0"
| "le_value (b # bs) = ucast b OR push_bit 8 (le_value bs)"

text \<open>The 64-bit words of a sequence of bytes.\<close>

fun words_of :: "u8 list \<Rightarrow> u64 list" where
  "words_of (b0 # b1 # b2 # b3 # b4 # b5 # b6 # b7 # bs) =
     le_value [b0, b1, b2, b3, b4, b5, b6, b7] # words_of bs"
| "words_of _ = []"

definition write_at :: "nat \<Rightarrow> u8 list \<Rightarrow> u8 list \<Rightarrow> u8 list" where
  "write_at off bs buf = take off buf @ bs @ drop (off + length bs) buf"

definition read_at :: "nat \<Rightarrow> nat \<Rightarrow> u8 list \<Rightarrow> u8 list" where
  "read_at off n buf = take n (drop off buf)"

section \<open>Structures\<close>

record RmmBootManifestVersion =
  version_minor :: u16
  version_major :: u16

definition version_try_from :: "u32 \<Rightarrow> RmmBootManifestVersion option" where
  "version_try_from v =
     (let major = (ucast (drop_bit 16 v) :: u16) in
      if major AND 0x7fff \<noteq> major then None
      else Some \<lparr>version_minor = ucast (v AND 0xFFFF), version_major = major\<rparr>)"

definition version_bits :: "RmmBootManifestVersion \<Rightarrow> u32" where
  "version_bits v = push_bit 16 (ucast (version_major v)) OR ucast (version_minor v)"

definition RMM_BOOT_MANIFEST_VERSION :: RmmBootManifestVersion where
  "RMM_BOOT_MANIFEST_VERSION = \<lparr>version_minor = 5, version_major = 0\<rparr>"

definition RMM_BOOT_MANIFEST_ROOT_COMPLEX_VERSION :: RmmBootManifestVersion where
  "RMM_BOOT_MANIFEST_ROOT_COMPLEX_VERSION = \<lparr>version_minor = 1, version_major = 0\<rparr>"

record RmmMemoryBank =
  bank_base :: u64
  bank_size :: u64

definition memory_bank_bytes :: "RmmMemoryBank \<Rightarrow> u8 list" where
  "memory_bank_bytes b = le_bytes 8 (bank_base b) @ le_bytes 8 (bank_size b)"

text \<open>The name of a console is eight bytes, here as the word they form.\<close>

record RmmConsoleInfo =
  console_base :: u64
  map_pages :: u64
  console_name :: u64
  clk_in_hz :: u64
  baud_rate :: u64
  console_flags :: u64

definition console_bytes :: "RmmConsoleInfo \<Rightarrow> u8 list" where
  "console_bytes c =
     le_bytes 8 (console_base c) @ le_bytes 8 (map_pages c) @ le_bytes 8 (console_name c) @
     le_bytes 8 (clk_in_hz c) @ le_bytes 8 (baud_rate c) @ le_bytes 8 (console_flags c)"

record RmmSmmuInfo =
  smmu_base :: u64
  smmu_r_base :: u64

definition smmu_bytes :: "RmmSmmuInfo \<Rightarrow> u8 list" where
  "smmu_bytes s = le_bytes 8 (smmu_base s) @ le_bytes 8 (smmu_r_base s)"

record BdfMappingInfo =
  mapping_base :: u16
  mapping_top :: u16
  mapping_off :: u16
  smmu_idx :: u16

definition bdf_bytes :: "BdfMappingInfo \<Rightarrow> u8 list" where
  "bdf_bytes b =
     le_bytes 2 (ucast (mapping_base b)) @ le_bytes 2 (ucast (mapping_top b)) @
     le_bytes 2 (ucast (mapping_off b)) @ le_bytes 2 (ucast (smmu_idx b))"

record RmmRootPortInfo =
  root_port_id :: u16
  port_entries :: "BdfMappingInfo list"

record RmmRootComplexInfo =
  ecam_base :: u64
  segment :: u8
  root_entries :: "RmmRootPortInfo list"

record RmmRootComplexInfoList =
  rc_info_version :: RmmBootManifestVersion
  complex_entries :: "RmmRootComplexInfo list"

record RmmBootManifest =
  manifest_version :: RmmBootManifestVersion
  plat_data :: "u8 list"
  plat_dram :: "RmmMemoryBank list"
  plat_console :: "RmmConsoleInfo list"
  plat_ncoh_region :: "RmmMemoryBank list"
  plat_coh_region :: "RmmMemoryBank list"
  plat_smmu :: "RmmSmmuInfo list"
  plat_root_complex :: RmmRootComplexInfoList

record ChecksummedList =
  num_entries :: u64
  entries_ptr :: u64
  checksum :: u64

definition checksummed_bytes :: "ChecksummedList \<Rightarrow> u8 list" where
  "checksummed_bytes l = le_bytes 8 (num_entries l) @ le_bytes 8 (entries_ptr l) @ le_bytes 8 (checksum l)"

record RmmBootManifestHeader =
  hdr_version :: u32
  hdr_plat_data :: u64
  hdr_lists :: "ChecksummedList list"
  hdr_rc_num_entries :: u64
  hdr_rc_info_version :: u32
  hdr_rc_entries_ptr :: u64
  hdr_rc_checksum :: u64

text \<open>The size of the header; the bytes 4 to 7 are its padding, which keeps its value.\<close>

definition HEADER_SIZE :: nat where "HEADER_SIZE = 168"

definition header_bytes :: "u8 list \<Rightarrow> RmmBootManifestHeader \<Rightarrow> u8 list" where
  "header_bytes padding h =
     le_bytes 4 (ucast (hdr_version h)) @ padding @ le_bytes 8 (hdr_plat_data h) @
     concat (map checksummed_bytes (hdr_lists h)) @
     le_bytes 8 (hdr_rc_num_entries h) @ le_bytes 4 (ucast (hdr_rc_info_version h)) @ le_bytes 4 0 @
     le_bytes 8 (hdr_rc_entries_ptr h) @ le_bytes 8 (hdr_rc_checksum h)"

section \<open>Packing\<close>

definition BUFFER_SIZE :: nat where "BUFFER_SIZE = 0x1000"

text \<open>A sum of \<open>u64\<close> values panics when it overflows.\<close>

definition sum_u64 :: "u64 list \<Rightarrow> u64 option" where
  "sum_u64 ws = (if sum_list (map unat ws) < 2 ^ 64 then Some (sum_list ws) else None)"

definition compute_checksum :: "u8 list \<Rightarrow> u64 list \<Rightarrow> u64 option" where
  "compute_checksum bs other =
     do {
       assert_that (length bs mod 8 = 0);
       s \<leftarrow> sum_u64 (words_of bs @ other);
       Some (- s)
     }"

definition addr_of :: "nat \<Rightarrow> nat \<Rightarrow> u64 option" where
  "addr_of buf_pa off =
     do { assert_that (off < BUFFER_SIZE); assert_that (buf_pa + off < 2 ^ 64); Some (of_nat (buf_pa + off)) }"

text \<open>The first slice of a split of the rest of the buffer.\<close>

definition split_at :: "nat \<Rightarrow> nat \<Rightarrow> unit option" where
  "split_at cur len = assert_that (cur + len \<le> BUFFER_SIZE)"

definition aligned_view :: "nat \<Rightarrow> nat \<Rightarrow> unit option" where
  "aligned_view n off = assert_that (off mod n = 0)"

definition make_list ::
  "nat \<Rightarrow> nat \<Rightarrow> u8 list \<Rightarrow> u8 list \<times> nat \<Rightarrow> (ChecksummedList \<times> u8 list \<times> nat) option" where
  "make_list buf_pa count self_list st =
     (case st of (buf, cur) \<Rightarrow>
        do {
          split_at cur (length self_list);
          ptr \<leftarrow> (if count = 0 then Some 0 else addr_of buf_pa cur);
          c \<leftarrow> compute_checksum self_list [of_nat count, ptr];
          Some (\<lparr>num_entries = of_nat count, entries_ptr = ptr, checksum = c\<rparr>,
                write_at cur self_list buf, cur + length self_list)
        })"

text \<open>The five lists of a manifest, in the order they are written: their lengths and their bytes.\<close>

definition manifest_lists :: "RmmBootManifest \<Rightarrow> (nat \<times> u8 list) list" where
  "manifest_lists m =
     [(length (plat_dram m), concat (map memory_bank_bytes (plat_dram m))),
      (length (plat_console m), concat (map console_bytes (plat_console m))),
      (length (plat_ncoh_region m), concat (map memory_bank_bytes (plat_ncoh_region m))),
      (length (plat_coh_region m), concat (map memory_bank_bytes (plat_coh_region m))),
      (length (plat_smmu m), concat (map smmu_bytes (plat_smmu m)))]"

fun make_lists ::
  "nat \<Rightarrow> (nat \<times> u8 list) list \<Rightarrow> u8 list \<times> nat \<Rightarrow> (ChecksummedList list \<times> u8 list \<times> nat) option" where
  "make_lists buf_pa [] st = Some ([], st)"
| "make_lists buf_pa ((n, bs) # ls) st =
     do {
       (l, st) \<leftarrow> make_list buf_pa n bs st;
       (rest, st) \<leftarrow> make_lists buf_pa ls st;
       Some (l # rest, st)
     }"

definition pack_port ::
  "nat \<Rightarrow> nat \<Rightarrow> RmmRootPortInfo \<Rightarrow> u8 list \<times> nat \<Rightarrow> (u8 list \<times> nat) option" where
  "pack_port buf_pa slot port st =
     (case st of (buf, cur) \<Rightarrow>
        do {
          let bdfs = concat (map bdf_bytes (port_entries port));
          split_at cur (length bdfs);
          ptr \<leftarrow> addr_of buf_pa cur;
          aligned_view 2 cur;
          let buf = write_at slot (le_bytes 2 (ucast (root_port_id port))) buf;
          let buf = write_at (slot + 4) (le_bytes 4 (of_nat (length (port_entries port)))) buf;
          let buf = write_at (slot + 8) (le_bytes 8 ptr) buf;
          Some (write_at cur bdfs buf, cur + length bdfs)
        })"

fun pack_ports ::
  "nat \<Rightarrow> nat \<Rightarrow> RmmRootPortInfo list \<Rightarrow> u8 list \<times> nat \<Rightarrow> (u8 list \<times> nat) option" where
  "pack_ports buf_pa slot [] st = Some st"
| "pack_ports buf_pa slot (port # ports) st =
     do { st \<leftarrow> pack_port buf_pa slot port st; pack_ports buf_pa (slot + 16) ports st }"

definition pack_root ::
  "nat \<Rightarrow> nat \<Rightarrow> RmmRootComplexInfo \<Rightarrow> u8 list \<times> nat \<Rightarrow> (u8 list \<times> nat) option" where
  "pack_root buf_pa slot root st =
     (case st of (buf, cur) \<Rightarrow>
        do {
          let n = length (root_entries root);
          split_at cur (n * 16);
          ptr \<leftarrow> addr_of buf_pa cur;
          let buf = write_at slot
            (le_bytes 8 (ecam_base root) @ le_bytes 1 (ucast (segment root)) @ le_bytes 3 0 @
             le_bytes 4 (of_nat n) @ le_bytes 8 ptr) buf;
          aligned_view 8 cur;
          pack_ports buf_pa cur (root_entries root) (buf, cur + n * 16)
        })"

fun pack_roots ::
  "nat \<Rightarrow> nat \<Rightarrow> RmmRootComplexInfo list \<Rightarrow> u8 list \<times> nat \<Rightarrow> (u8 list \<times> nat) option" where
  "pack_roots buf_pa slot [] st = Some st"
| "pack_roots buf_pa slot (root # roots) st =
     do { st \<leftarrow> pack_root buf_pa slot root st; pack_roots buf_pa (slot + 24) roots st }"

definition pack :: "RmmBootManifest \<Rightarrow> u8 list \<Rightarrow> nat \<Rightarrow> nat \<Rightarrow> u8 list option" where
  "pack m buf buf_ptr buf_pa =
     do {
       assert_that (buf_ptr mod 4096 = 0);
       let padding = read_at 4 4 buf;
       let cur = HEADER_SIZE;
       split_at cur (length (plat_data m));
       data_ptr \<leftarrow> addr_of buf_pa cur;
       let st = (write_at cur (plat_data m) buf, cur + length (plat_data m));
       (lists, (buf, cur)) \<leftarrow> make_lists buf_pa (manifest_lists m) st;
       let roots = complex_entries (plat_root_complex m);
       split_at cur (length roots * 24);
       roots_ptr \<leftarrow> addr_of buf_pa cur;
       aligned_view 8 cur;
       (buf, end_cur) \<leftarrow> pack_roots buf_pa cur roots (buf, cur + length roots * 24);
       let rc_version = version_bits (rc_info_version (plat_root_complex m));
       rc_checksum \<leftarrow> compute_checksum (read_at cur (end_cur - cur) buf)
         [of_nat (length roots), ucast rc_version, roots_ptr];
       let hdr = \<lparr>hdr_version = version_bits (manifest_version m), hdr_plat_data = data_ptr,
                  hdr_lists = lists, hdr_rc_num_entries = of_nat (length roots),
                  hdr_rc_info_version = rc_version, hdr_rc_entries_ptr = roots_ptr,
                  hdr_rc_checksum = rc_checksum\<rparr>;
       Some (write_at 0 (header_bytes padding hdr) buf)
     }"

section \<open>The manifest of FVP\<close>

text \<open>The addresses of the second memory bank and of the console come from the platform's crate.\<close>

definition fvp_manifest :: "u64 \<Rightarrow> u64 \<Rightarrow> RmmBootManifest" where
  "fvp_manifest dram1_start uart0_start =
     \<lparr>manifest_version = RMM_BOOT_MANIFEST_VERSION, plat_data = [],
      plat_dram = [\<lparr>bank_base = 0x80000000, bank_size = 0x7c000000\<rparr>,
                   \<lparr>bank_base = dram1_start, bank_size = 0x80000000\<rparr>],
      plat_console = [\<lparr>console_base = uart0_start, map_pages = 1, console_name = 0x3131306c70,
                       clk_in_hz = 0x00e10000, baud_rate = 115200, console_flags = 0\<rparr>],
      plat_ncoh_region = [], plat_coh_region = [], plat_smmu = [],
      plat_root_complex = \<lparr>rc_info_version = RMM_BOOT_MANIFEST_ROOT_COMPLEX_VERSION, complex_entries = []\<rparr>\<rparr>"

definition fvp_rme_prepare_manifest :: "u64 \<Rightarrow> u64 \<Rightarrow> nat \<Rightarrow> u8 list \<Rightarrow> u8 list option" where
  "fvp_rme_prepare_manifest dram1_start uart0_start buf_ptr buf =
     pack (fvp_manifest dram1_start uart0_start) buf buf_ptr buf_ptr"

end
