(* ===== verification/Rmmd.thy ===== *)
theory Rmmd
  imports Gpt_Laws Rmm_Svc Rmm_Manifest
begin

text \<open>
  The service for the Realm Management Monitor, \<^verbatim>\<open>src/src/services/rmmd.rs\<close>, with the cache
  maintenance it uses (\<open>flush_dcache_to_popa_range\<close> of \<^verbatim>\<open>src/src/pagetable.rs\<close>).

  The state is the service's own: the activation token of each core, the read index of the platform
  token and the boot state; with it the granule protection table, its memory, and the buffer shared
  with the monitor. The functions a platform implements are a record.
\<close>

section \<open>Cache maintenance\<close>

datatype popa_error = AddressOutOfRange | InvalidGPI

text \<open>The bits NS and NSE of a physical address space.\<close>

fun pas_try_from :: "GPIAccessType \<Rightarrow> popa_error + u64" where
  "pas_try_from GpiSecure = Inr 0"
| "pas_try_from GpiNonSecure = Inr 1"
| "pas_try_from GpiRoot = Inr 2"
| "pas_try_from GpiRealm = Inr 3"
| "pas_try_from _ = Inl InvalidGPI"

definition PAS_SHIFT :: nat where "PAS_SHIFT = 62"

record rmm_env =
  env_core_index :: nat
  sctlr_c :: bool
  mte2_is_present :: bool

definition flush_dcache_to_popa_range ::
  "rmm_env \<Rightarrow> gpt_world \<Rightarrow> u64 \<Rightarrow> u64 \<Rightarrow> GPIAccessType \<Rightarrow> (popa_error + unit) \<times> gpt_world" where
  "flush_dcache_to_popa_range env w addr len gpi =
     (if addr AND 0xFF00000000000000 \<noteq> 0 then (Inl AddressOutOfRange, w)
      else
        case pas_try_from gpi of
          Inl e \<Rightarrow> (Inl e, w)
        | Inr bits \<Rightarrow>
            (Inr (),
             w\<lparr>gpt_events := gpt_events w @
                 [FlushToPopa (mte2_is_present env) (addr OR push_bit PAS_SHIFT bits) len]\<rparr>))"

section \<open>State\<close>

definition RMM_BOOT_VERSION :: u64 where "RMM_BOOT_VERSION = 5"
definition RMM_SHARED_BUFFER_SIZE :: nat where "RMM_SHARED_BUFFER_SIZE = 0x1000"
definition RMM_BOOT_COMPLETE :: u32 where "RMM_BOOT_COMPLETE = 0xC40001CF"
definition VALID_HASH_SIZES :: "nat list" where "VALID_HASH_SIZES = [32, 48, 64]"

datatype RmmBootState = BootUnknown | ColdBootDone | BootError

record rmm_platform =
  RMM_SHARED_BUFFER_START :: nat
  rmm_core_count :: nat
  rme_prepare_manifest :: "u8 list \<Rightarrow> u8 list option"
  read_attestation_key :: "u8 list \<Rightarrow> EccCurve \<Rightarrow> (RmmCommandReturnCode + nat) \<times> u8 list"
  read_attestation_token ::
    "u8 list \<Rightarrow> u8 list \<Rightarrow> nat \<Rightarrow> (RmmCommandReturnCode + nat \<times> nat) \<times> u8 list"

record rmmd =
  activation_token :: "u64 option list"
  attestation_token_read_index :: nat
  rmm_boot_state :: RmmBootState
  rmm_gpt :: "GranuleProtection option"
  rmm_world :: gpt_world
  shared_buffer :: "u8 list"

definition rmmd_new :: "rmm_platform \<Rightarrow> GptError + GranuleProtection \<Rightarrow> gpt_world \<Rightarrow> u8 list \<Rightarrow> rmmd option" where
  "rmmd_new P discovered w buf =
     do {
       buf \<leftarrow> rme_prepare_manifest P buf;
       gpt \<leftarrow> (case discovered of Inl _ \<Rightarrow> None | Inr gpt \<Rightarrow> Some gpt);
       Some \<lparr>activation_token = replicate (rmm_core_count P) None, attestation_token_read_index = 0,
             rmm_boot_state = BootUnknown, rmm_gpt = Some gpt, rmm_world = w, shared_buffer = buf\<rparr>
     }"

definition boot_success :: "rmmd \<Rightarrow> bool" where
  "boot_success s \<longleftrightarrow> rmm_boot_state s = ColdBootDone"

definition boot_failure :: "rmmd \<Rightarrow> bool" where
  "boot_failure s \<longleftrightarrow> rmm_boot_state s = BootError"

definition set_boot_success :: "rmmd \<Rightarrow> rmmd" where
  "set_boot_success s =
     (if rmm_boot_state s = BootUnknown then s\<lparr>rmm_boot_state := ColdBootDone\<rparr> else s)"

definition set_boot_failure :: "rmmd \<Rightarrow> rmmd" where
  "set_boot_failure s = s\<lparr>rmm_boot_state := BootError\<rparr>"

section \<open>The shared buffer\<close>

definition check_shared_buffer_range :: "rmm_platform \<Rightarrow> u64 \<Rightarrow> u64 \<Rightarrow> RmmCommandReturnCode + unit" where
  "check_shared_buffer_range P buf_pa buf_size =
     (let start = RMM_SHARED_BUFFER_START P;
          in_range = (\<lambda>a. start \<le> a \<and> a < start + RMM_SHARED_BUFFER_SIZE);
          sum = unat buf_pa + unat buf_size in
      if \<not> in_range (unat buf_pa) then Inl BadAddress
      else if \<not> (sum < 2 ^ 64 \<and> 1 \<le> sum \<and> in_range (sum - 1)) then Inl InvalidValue
      else Inr ())"

text \<open>The offset and the length of the slice within the buffer.\<close>

definition get_shared_buffer_slice ::
  "rmm_platform \<Rightarrow> u64 \<Rightarrow> u64 \<Rightarrow> RmmCommandReturnCode + nat \<times> nat" where
  "get_shared_buffer_slice P address len =
     (case check_shared_buffer_range P address len of
        Inl e \<Rightarrow> Inl e
      | Inr _ \<Rightarrow> Inr (unat address - RMM_SHARED_BUFFER_START P, unat len))"

definition buffer_slice :: "u8 list \<Rightarrow> nat \<Rightarrow> nat \<Rightarrow> u8 list" where
  "buffer_slice buf off len = take len (drop off buf)"

definition buffer_splice :: "u8 list \<Rightarrow> nat \<Rightarrow> u8 list \<Rightarrow> u8 list" where
  "buffer_splice buf off new = take off buf @ new @ drop (off + length new) buf"

section \<open>Granule transitions\<close>

text \<open>
  The reply of a transition: \<open>Inr\<close> a code written to the registers, \<open>Inl\<close> an error passed on to the
  caller; \<open>None\<close> is the panic on an incorrectly programmed table.
\<close>

type_synonym gtsi_reply = "((RmmCommandReturnCode + RmmCommandReturnCode) \<times> gpt_world) option"

definition on_gpt_result :: "(GranuleError + 'a) \<Rightarrow> gpt_world \<Rightarrow> ('a \<Rightarrow> gtsi_reply) \<Rightarrow> gtsi_reply" where
  "on_gpt_result r w k =
     (case r of
        Inl InvalidRequest \<Rightarrow> Some (Inr BadAddress, w)
      | Inl InvalidL0Entry \<Rightarrow> None
      | Inl InvalidL1Entry \<Rightarrow> None
      | Inr x \<Rightarrow> k x)"

definition on_flush :: "(popa_error + unit) \<times> gpt_world \<Rightarrow> (gpt_world \<Rightarrow> gtsi_reply) \<Rightarrow> gtsi_reply" where
  "on_flush r k = (case r of (Inl _, w) \<Rightarrow> Some (Inl BadAddress, w) | (Inr _, w) \<Rightarrow> k w)"

definition dsb_osh :: "gpt_world \<Rightarrow> gpt_world" where
  "dsb_osh w = w\<lparr>gpt_events := gpt_events w @ [DsbOsh]\<rparr>"

definition gtsi_delegate :: "rmm_env \<Rightarrow> GranuleProtection \<Rightarrow> gpt_world \<Rightarrow> u64 \<Rightarrow> gtsi_reply" where
  "gtsi_delegate env gpt w base_pa =
     (let sz = pgs_size (pgs (gp_config gpt)) in
      if base_pa mod sz \<noteq> 0 then Some (Inr RmmUnknown, w)
      else do {
        assert_that (sctlr_c env);
        looked_up \<leftarrow> gpt_lookup gpt w base_pa;
        on_gpt_result looked_up w (\<lambda>gpi.
          if gpi \<noteq> GpiNonSecure then Some (Inr BadPas, w)
          else on_flush (flush_dcache_to_popa_range env w base_pa sz GpiRealm) (\<lambda>w. do {
            (r, w) \<leftarrow> gpt_set gpt w base_pa GpiRealm;
            on_gpt_result r w (\<lambda>_.
              on_flush (flush_dcache_to_popa_range env w base_pa sz GpiNonSecure)
                (\<lambda>w. Some (Inr RmmOk, w))) }))
      })"

definition gtsi_undelegate :: "rmm_env \<Rightarrow> GranuleProtection \<Rightarrow> gpt_world \<Rightarrow> u64 \<Rightarrow> gtsi_reply" where
  "gtsi_undelegate env gpt w base_pa =
     (let sz = pgs_size (pgs (gp_config gpt)) in
      if base_pa mod sz \<noteq> 0 then Some (Inr RmmUnknown, w)
      else do {
        assert_that (sctlr_c env);
        looked_up \<leftarrow> gpt_lookup gpt w base_pa;
        on_gpt_result looked_up w (\<lambda>gpi.
          if gpi \<noteq> GpiRealm then Some (Inr BadPas, w)
          else do {
            (r, w) \<leftarrow> gpt_set gpt w base_pa NoAccess;
            on_gpt_result r w (\<lambda>_.
              on_flush (flush_dcache_to_popa_range env w base_pa sz GpiRealm) (\<lambda>w.
                on_flush (flush_dcache_to_popa_range env (dsb_osh w) base_pa sz GpiNonSecure) (\<lambda>w. do {
                  (r, w) \<leftarrow> gpt_set gpt (dsb_osh w) base_pa GpiNonSecure;
                  on_gpt_result r w (\<lambda>_. Some (Inr RmmOk, w)) }))) })
      })"

section \<open>The handlers\<close>

type_synonym rmm_result = "((RmmCommandReturnCode + World) \<times> SmcReturn \<times> rmmd) option"

definition handle_gtsi ::
  "(GranuleProtection \<Rightarrow> gpt_world \<Rightarrow> gtsi_reply) \<Rightarrow> SmcReturn \<Rightarrow> rmmd \<Rightarrow> rmm_result" where
  "handle_gtsi op regs s =
     do {
       gpt \<leftarrow> rmm_gpt s;
       (r, w) \<leftarrow> op gpt (rmm_world s);
       let s = s\<lparr>rmm_world := w\<rparr>;
       Some (case r of
               Inl e \<Rightarrow> (Inl e, regs, s)
             | Inr c \<Rightarrow> (Inr Realm, set_from_rmm_code c regs, s))
     }"

definition handle_attest_get_realm_key ::
  "rmm_platform \<Rightarrow> SmcReturn \<Rightarrow> rmmd \<Rightarrow> u64 \<Rightarrow> u64 \<Rightarrow> EccCurve \<Rightarrow> rmm_result" where
  "handle_attest_get_realm_key P regs s buf_pa buf_size ecc_curve =
     Some (case get_shared_buffer_slice P buf_pa buf_size of
        Inl e \<Rightarrow> (Inl e, regs, s)
      | Inr (off, len) \<Rightarrow>
          (let (r, bytes) = read_attestation_key P (buffer_slice (shared_buffer s) off len) ecc_curve;
               s = s\<lparr>shared_buffer := buffer_splice (shared_buffer s) off bytes\<rparr> in
           case r of
             Inl e \<Rightarrow> (Inl e, regs, s)
           | Inr key_size \<Rightarrow> (Inr Realm, set_from_fields [of_nat key_size] regs, s)))"

definition handle_attest_get_plat_token ::
  "rmm_platform \<Rightarrow> SmcReturn \<Rightarrow> rmmd \<Rightarrow> u64 \<Rightarrow> u64 \<Rightarrow> u64 \<Rightarrow> rmm_result" where
  "handle_attest_get_plat_token P regs s buf_pa buf_size c_size =
     (let idx = attestation_token_read_index s; is_first_chunk = (idx = 0) in
      if (is_first_chunk \<and> unat c_size \<notin> set VALID_HASH_SIZES) \<or> (\<not> is_first_chunk \<and> c_size \<noteq> 0)
      then Some (Inl InvalidValue, regs, s)
      else
        case get_shared_buffer_slice P buf_pa (max buf_size c_size) of
          Inl e \<Rightarrow> Some (Inl e, regs, s)
        | Inr (off, len) \<Rightarrow>
            (let slice = buffer_slice (shared_buffer s) off len;
                 (r, bytes) = read_attestation_token P (take (unat buf_size) slice) (take (unat c_size) slice) idx;
                 s = s\<lparr>shared_buffer := buffer_splice (shared_buffer s) off bytes\<rparr> in
             case r of
               Inl e \<Rightarrow> Some (Inl e, regs, s)
             | Inr (sz, rem) \<Rightarrow>
                 do {
                   assert_that (rem > 0 \<longrightarrow> idx + sz < 2 ^ 64);
                   let s = s\<lparr>attestation_token_read_index := (if rem > 0 then idx + sz else 0)\<rparr>;
                   Some (Inr Realm, set_from_fields [of_nat sz, of_nat rem] regs, s)
                 }))"

definition handle_boot_complete :: "rmm_env \<Rightarrow> SmcReturn \<Rightarrow> rmmd \<Rightarrow> (World \<times> SmcReturn \<times> rmmd) option" where
  "handle_boot_complete env regs s =
     do {
       r1 \<leftarrow> checked_index (reg_values regs) 1;
       let ret = (ucast r1 :: i32);
       if ret \<noteq> 0 then Some (NonSecure, regs, set_boot_failure s)
       else do {
         token \<leftarrow> checked_index (activation_token s) (env_core_index env);
         case token of
           None \<Rightarrow>
             do {
               r2 \<leftarrow> checked_index (reg_values regs) 2;
               let s = s\<lparr>activation_token := (activation_token s)[env_core_index env := Some r2]\<rparr>;
               Some (NonSecure, set_from_i32 ret regs, set_boot_success s)
             }
         | Some _ \<Rightarrow> Some (Realm, set_from_i32 NOT_SUPPORTED regs, s)
       }
     }"

definition handle_rmi_req_complete :: "u64 list \<Rightarrow> SmcReturn \<Rightarrow> SmcReturn" where
  "handle_rmi_req_complete req_regs regs =
     regs\<lparr>smc_values := req_regs @ replicate (smc_used regs - 6) 0 @ drop (smc_used regs) (smc_values regs)\<rparr>"

fun handle_rmm_call :: "rmm_platform \<Rightarrow> rmm_env \<Rightarrow> SmcReturn \<Rightarrow> rmmd \<Rightarrow> RmmCall \<Rightarrow> rmm_result" where
  "handle_rmm_call P env regs s (RmiReqComplete req_regs) =
     Some (Inr NonSecure, handle_rmi_req_complete req_regs regs, s)"
| "handle_rmm_call P env regs s (GtsiDelegate base_pa) =
     handle_gtsi (\<lambda>gpt w. gtsi_delegate env gpt w base_pa) regs s"
| "handle_rmm_call P env regs s (GtsiUndelegate base_pa) =
     handle_gtsi (\<lambda>gpt w. gtsi_undelegate env gpt w base_pa) regs s"
| "handle_rmm_call P env regs s (AttestGetRealmKey buf_pa buf_size ecc_curve) =
     handle_attest_get_realm_key P regs s buf_pa buf_size ecc_curve"
| "handle_rmm_call P env regs s (AttestGetPlatToken buf_pa buf_size c_size) =
     handle_attest_get_plat_token P regs s buf_pa buf_size c_size"
| "handle_rmm_call P env regs s (El3Features _) = Some (Inr Realm, set_from_fields [0] regs, s)"
| "handle_rmm_call P env regs s (MecRefresh _ _) = Some (Inr Realm, set_from_i32 NOT_SUPPORTED regs, s)"
| "handle_rmm_call P env regs s _ = None"

definition try_handle_realm_smc :: "rmm_platform \<Rightarrow> rmm_env \<Rightarrow> SmcReturn \<Rightarrow> rmmd \<Rightarrow> rmm_result" where
  "try_handle_realm_smc P env regs s =
     do {
       r0 \<leftarrow> checked_index (reg_values regs) 0;
       if clear_sve_hint (ucast r0) = RMM_BOOT_COMPLETE
       then do {
         (world, regs, s) \<leftarrow> handle_boot_complete env regs s;
         Some (Inr world, regs, s)
       }
       else do {
         command \<leftarrow> from_regs (reg_values regs);
         case command of
           Inl (UnrecognisedFunctionId _) \<Rightarrow> Some (Inr Realm, set_from_i32 NOT_SUPPORTED regs, s)
         | Inl _ \<Rightarrow> Some (Inl InvalidValue, regs, s)
         | Inr call \<Rightarrow> handle_rmm_call P env regs s call
       }
     }"

definition rmmd_handle_realm_smc ::
  "rmm_platform \<Rightarrow> rmm_env \<Rightarrow> SmcReturn \<Rightarrow> rmmd \<Rightarrow> (World \<times> SmcReturn \<times> rmmd) option" where
  "rmmd_handle_realm_smc P env regs s =
     (if boot_failure s then Some (NonSecure, set_from_i32 NOT_SUPPORTED regs, s)
      else do {
        (r, regs, s) \<leftarrow> try_handle_realm_smc P env regs s;
        Some (case r of
                Inr world \<Rightarrow> (world, regs, s)
              | Inl code \<Rightarrow> (Realm, set_from_rmm_code code regs, s))
      })"

definition rmi_func_ids :: "u32 list" where
  "rmi_func_ids =
     [0xC4000153, 0xC4000154, 0xC4000155, 0xC4000165, 0xC4000151, 0xC4000152, 0xC4000164, 0xC4000157,
      0xC4000158, 0xC4000159, 0xC4000167, 0xC400015A, 0xC400015B, 0xC400015C, 0xC400015D, 0xC400015E,
      0xC4000166, 0xC4000168, 0xC400015F, 0xC4000161, 0xC4000169, 0xC4000162, 0xC4000150]"

definition rmmd_handle_non_secure_smc :: "SmcReturn \<Rightarrow> rmmd \<Rightarrow> (World \<times> SmcReturn \<times> rmmd) option" where
  "rmmd_handle_non_secure_smc regs s =
     do {
       r0 \<leftarrow> checked_index (reg_values regs) 0;
       Some (if (ucast r0 :: u32) \<in> set rmi_func_ids \<and> boot_success s then (Realm, regs, s)
             else (NonSecure, set_from_i32 NOT_SUPPORTED regs, s))
     }"

definition rmmd_owns :: "SmcFunctionId \<Rightarrow> bool" where
  "rmmd_owns = owns_range STANDARD_SECURE 0x0150 0x01CF"

section \<open>Entry points\<close>

definition rmmd_handle_wake_from_cpu_suspend :: "rmm_env \<Rightarrow> rmmd \<Rightarrow> u64 list option" where
  "rmmd_handle_wake_from_cpu_suspend env s =
     do {
       token \<leftarrow> checked_index (activation_token s) (env_core_index env);
       Some [of_nat (env_core_index env), (case token of None \<Rightarrow> 0 | Some t \<Rightarrow> t), 0, 0]
     }"

definition rmmd_entrypoint_args :: "rmm_platform \<Rightarrow> rmm_env \<Rightarrow> rmmd \<Rightarrow> u64 list" where
  "rmmd_entrypoint_args P env s =
     (let core_linear_id = of_nat (env_core_index env) in
      if boot_success s then [core_linear_id, 0, 0, 0, 0, 0, 0, 0]
      else [core_linear_id, RMM_BOOT_VERSION, of_nat (rmm_core_count P),
            of_nat (RMM_SHARED_BUFFER_START P), 0, 0, 0, 0])"

end
