(* ===== verification/Rmmd_Laws.thy ===== *)
theory Rmmd_Laws
  imports Rmmd
begin

text \<open>
  Lemmas on the Realm services: when cache maintenance succeeds, what a granule transition does to
  the table on each of its branches, and the boundaries of the shared buffer.
\<close>

section \<open>Cache maintenance\<close>

lemma top_byte_clear:
  fixes a :: u64
  assumes "unat a < 2 ^ 56"
  shows "a AND 0xFF00000000000000 = 0"
proof -
  have "take_bit 56 a = a"
    using assms by (metis mod_less take_bit_eq_mask unat_and_mask unsigned_word_eqI)
  then have "\<not> bit a n" if "56 \<le> n" for n
    using that by (metis bit_take_bit_iff not_le)
  moreover have "(0xFF00000000000000 :: u64) = push_bit 56 (mask 8)" by (simp add: mask_numeral)
  ultimately show ?thesis using and_field_eq_0_iff [of a 56 8] by simp
qed

lemma flush_ok:
  assumes "gpt_lookup gp w pa = Some (Inr g)" "pas_try_from gpi = Inr bits"
  shows "flush_dcache_to_popa_range env w' pa len gpi =
    (Inr (), w'\<lparr>gpt_events := gpt_events w' @ [FlushToPopa (mte2_is_present env) (pa OR push_bit PAS_SHIFT bits) len]\<rparr>)"
proof -
  have "unat pa < 2 ^ pps_width (pps (gp_config gp))" by (rule gpt_lookup_OkD) (rule assms(1))
  also have "\<dots> \<le> 2 ^ 56" using pps_width_bounds(2) [of "pps (gp_config gp)"] by (intro power_increasing) auto
  finally show ?thesis using assms(2) top_byte_clear by (simp add: flush_dcache_to_popa_range_def)
qed

lemma slice_read_events [simp]: "slice_read (w\<lparr>gpt_events := e\<rparr>) = slice_read w"
  by (intro ext) (simp add: slice_read_def)

lemma gpt_lookup_events [simp]: "gpt_lookup gp (w\<lparr>gpt_events := e\<rparr>) pa = gpt_lookup gp w pa"
  unfolding gpt_lookup_def slice_read_events ..

lemma gpt_ok_events [simp]: "gpt_ok gp (w\<lparr>gpt_events := e\<rparr>) = gpt_ok gp w"
  by (simp add: gpt_ok_def l0_entry_at_def l1_cell_def)

lemma gpt_set_events:
  "gpt_set gp w pa g = Some (Inr (), w') \<Longrightarrow>
     gpt_events w' = gpt_events w @ [DsbOshst, TlbiRpalos pa (pgs_size (pgs (gp_config gp))), DsbOsh]"
  by (rule gpt_set_OkD)

text \<open>Once an update of a granule has succeeded, the next one succeeds too.\<close>

lemma gpt_set_again:
  assumes "gpt_ok gp w" "gpt_set gp w pa g = Some (Inr (), w1)" "gpt_mem w2 = gpt_mem w1"
  shows "\<exists>w3. gpt_set gp w2 pa h = Some (Inr (), w3)"
proof -
  let ?cfg = "gp_config gp"
  let ?i = "l0_resolve ?cfg pa" and ?a = "l1_resolve ?cfg pa"
  from assms(2) obtain d where d:
    "unat pa < 2 ^ pps_width (pps ?cfg)" "?i < level0_len gp" "is_table (l0_entry_at gp w ?i)"
    "\<not> is_block (l0_entry_at gp w ?i)"
    "is_granule (gpt_mem w (l1_cell gp w ?i ?a))" "\<not> is_contig (gpt_mem w (l1_cell gp w ?i ?a))"
    "set_gpi (gpt_mem w (l1_cell gp w ?i ?a)) (granule_resolve ?cfg pa) g = Some d"
    "gpt_mem w1 = (gpt_mem w)(l1_cell gp w ?i ?a := d)"
    by (rule gpt_set_OkD)
  note kept = set_gpi_granule [OF d(7,5,6)]
  have e: "l0_entry_at gp w2 ?i = l0_entry_at gp w ?i"
    using gpt_set_level0 [OF assms(1,2) d(2)] assms(3) by (simp add: l0_entry_at_def)
  then have "gpt_mem w2 (cell (table_address (l0_entry_at gp w ?i)) ?a) = d"
    using assms(3) d(8) by (simp add: l1_cell_def)
  then show ?thesis
    using d kept e set_gpi_returns [OF granule_resolve_less [of ?cfg pa], of d h] l1_resolve_less [of ?cfg pa]
    by (auto simp: gpt_set_def Let_def pps_size_le_iff slice_read_def l0_entry_at_def [symmetric])
qed

section \<open>Granule transitions\<close>

text \<open>
  The table after a transition: unchanged when it is refused; on success only the granule has
  changed its access type.
\<close>

definition same_table :: "GranuleProtection \<Rightarrow> gpt_world \<Rightarrow> gpt_world \<Rightarrow> bool" where
  "same_table gp w w' \<longleftrightarrow> gpt_ok gp w' \<and> (\<forall>q. gpt_lookup gp w' q = gpt_lookup gp w q)"

definition moved :: "GranuleProtection \<Rightarrow> PA \<Rightarrow> GPIAccessType \<Rightarrow> GPIAccessType \<Rightarrow> gpt_world \<Rightarrow> gpt_world \<Rightarrow> bool" where
  "moved gp pa old new w w' \<longleftrightarrow>
     gpt_ok gp w' \<and> gpt_lookup gp w pa = Some (Inr old) \<and>
     (\<forall>q. gpt_lookup gp w' q =
        (if granule_of (gp_config gp) q = granule_of (gp_config gp) pa then Some (Inr new)
         else gpt_lookup gp w q))"

text \<open>The address with the bits of a physical address space.\<close>

definition pas_address :: "u64 \<Rightarrow> u64 \<Rightarrow> u64" where
  "pas_address pa bits = pa OR push_bit PAS_SHIFT bits"

definition delegate_events :: "rmm_env \<Rightarrow> GranuleProtection \<Rightarrow> PA \<Rightarrow> gpt_event list" where
  "delegate_events env gp pa =
     (let sz = pgs_size (pgs (gp_config gp)); flush = (\<lambda>bits. FlushToPopa (mte2_is_present env) (pas_address pa bits) sz) in
      [flush 3, DsbOshst, TlbiRpalos pa sz, DsbOsh, flush 1])"

definition undelegate_events :: "rmm_env \<Rightarrow> GranuleProtection \<Rightarrow> PA \<Rightarrow> gpt_event list" where
  "undelegate_events env gp pa =
     (let sz = pgs_size (pgs (gp_config gp)); flush = (\<lambda>bits. FlushToPopa (mte2_is_present env) (pas_address pa bits) sz) in
      [DsbOshst, TlbiRpalos pa sz, DsbOsh, flush 3, DsbOsh, flush 1, DsbOsh, DsbOshst, TlbiRpalos pa sz, DsbOsh])"

lemma gtsi_delegate_cases:
  assumes ok: "gpt_ok gp w" and run: "gtsi_delegate env gp w pa = Some (r, w')"
  shows "(\<exists>c. c \<noteq> RmmOk \<and> r = Inr c \<and> same_table gp w w') \<or>
         (r = Inr RmmOk \<and> moved gp pa GpiNonSecure GpiRealm w w' \<and>
          gpt_events w' = gpt_events w @ delegate_events env gp pa)"
proof (cases "gpt_lookup gp w pa = Some (Inr GpiNonSecure) \<and> pa mod pgs_size (pgs (gp_config gp)) = 0")
  case False
  then show ?thesis
    using run ok
    by (auto simp: gtsi_delegate_def on_gpt_result_def same_table_def Let_def
        split: if_splits sum.splits GranuleError.splits bind_splits)
next
  case True
  let ?sz = "pgs_size (pgs (gp_config gp))"
  let ?w1 = "w\<lparr>gpt_events := gpt_events w @ [FlushToPopa (mte2_is_present env) (pas_address pa 3) ?sz]\<rparr>"
  note fl = flush_ok [OF True [THEN conjunct1], of GpiRealm 3, folded pas_address_def]
    flush_ok [OF True [THEN conjunct1], of GpiNonSecure 1, folded pas_address_def]
  have ok1: "gpt_ok gp ?w1" and lk1: "gpt_lookup gp ?w1 pa = Some (Inr GpiNonSecure)" using ok True by simp_all
  from gpt_set_after_lookup [OF ok1 lk1, of GpiRealm] show ?thesis
  proof
    assume "gpt_set gp ?w1 pa GpiRealm = Some (Inl InvalidRequest, ?w1)"
    then show ?thesis
      using run True ok fl by (auto simp: gtsi_delegate_def on_gpt_result_def on_flush_def same_table_def Let_def
          split: if_splits bind_splits)
  next
    assume "\<exists>w2. gpt_set gp ?w1 pa GpiRealm = Some (Inr (), w2)"
    then obtain w2 where set: "gpt_set gp ?w1 pa GpiRealm = Some (Inr (), w2)" by blast
    note laws = gpt_map.lookup_update [OF ok1 set] gpt_map.update_keeps_ok [OF ok1 set] gpt_set_events [OF set]
    show ?thesis
      using run True ok fl set laws
      by (auto simp: gtsi_delegate_def on_gpt_result_def on_flush_def moved_def delegate_events_def Let_def
          split: if_splits bind_splits)
  qed
qed

lemma gtsi_undelegate_cases:
  assumes ok: "gpt_ok gp w" and run: "gtsi_undelegate env gp w pa = Some (r, w')"
  shows "(\<exists>c. c \<noteq> RmmOk \<and> r = Inr c \<and> same_table gp w w') \<or>
         (r = Inr RmmOk \<and> moved gp pa GpiRealm GpiNonSecure w w' \<and>
          gpt_events w' = gpt_events w @ undelegate_events env gp pa)"
proof (cases "gpt_lookup gp w pa = Some (Inr GpiRealm) \<and> pa mod pgs_size (pgs (gp_config gp)) = 0")
  case False
  then show ?thesis
    using run ok
    by (auto simp: gtsi_undelegate_def on_gpt_result_def same_table_def Let_def
        split: if_splits sum.splits GranuleError.splits bind_splits)
next
  case True
  let ?sz = "pgs_size (pgs (gp_config gp))"
  note fl = flush_ok [OF True [THEN conjunct1], of GpiRealm 3, folded pas_address_def]
    flush_ok [OF True [THEN conjunct1], of GpiNonSecure 1, folded pas_address_def]
  from gpt_set_after_lookup [OF ok True [THEN conjunct1], of NoAccess] show ?thesis
  proof
    assume "gpt_set gp w pa NoAccess = Some (Inl InvalidRequest, w)"
    then show ?thesis
      using run True ok by (auto simp: gtsi_undelegate_def on_gpt_result_def same_table_def Let_def
          split: if_splits bind_splits)
  next
    assume "\<exists>w1. gpt_set gp w pa NoAccess = Some (Inr (), w1)"
    then obtain w1 where set: "gpt_set gp w pa NoAccess = Some (Inr (), w1)" by blast
    let ?w2 = "w1\<lparr>gpt_events := gpt_events w1 @
      [FlushToPopa (mte2_is_present env) (pas_address pa 3) ?sz, DsbOsh,
       FlushToPopa (mte2_is_present env) (pas_address pa 1) ?sz, DsbOsh]\<rparr>"
    have "gpt_mem ?w2 = gpt_mem w1" by simp
    from gpt_set_again [OF ok set this, of GpiNonSecure] obtain w3
      where set3: "gpt_set gp ?w2 pa GpiNonSecure = Some (Inr (), w3)" by blast
    have ok2: "gpt_ok gp ?w2" using gpt_map.update_keeps_ok [OF ok set] by simp
    note laws = gpt_map.lookup_update [OF ok set] gpt_map.lookup_update [OF ok2 set3]
      gpt_map.update_keeps_ok [OF ok2 set3] gpt_set_events [OF set] gpt_set_events [OF set3]
    have "w' = w3 \<and> r = Inr RmmOk"
      using run True fl set set3
      by (auto simp: gtsi_undelegate_def on_gpt_result_def on_flush_def dsb_osh_def Let_def
          split: if_splits bind_splits)
    then show ?thesis
      using True laws by (auto simp: moved_def undelegate_events_def Let_def)
  qed
qed

section \<open>Calls\<close>

text \<open>What one call does to the table.\<close>

definition table_step :: "GranuleProtection \<Rightarrow> gpt_world \<Rightarrow> gpt_world \<Rightarrow> bool" where
  "table_step gp w w' \<longleftrightarrow>
     same_table gp w w' \<or>
     (\<exists>pa. moved gp pa GpiNonSecure GpiRealm w w' \<or> moved gp pa GpiRealm GpiNonSecure w w')"

lemma table_step_refl: "gpt_ok gp w \<Longrightarrow> table_step gp w w"
  by (simp add: table_step_def same_table_def)

lemma table_step_ok: "table_step gp w w' \<Longrightarrow> gpt_ok gp w'"
  by (auto simp: table_step_def same_table_def moved_def)

lemma granule_same_lookup:
  assumes "gpt_ok gp w" "gpt_lookup gp w pa = Some (Inr g)" "gpt_lookup gp w q = Some (Inr g')"
    "granule_of (gp_config gp) q = granule_of (gp_config gp) pa"
  shows "g' = g"
proof -
  have "l0_resolve (gp_config gp) q = l0_resolve (gp_config gp) pa \<and>
      l1_resolve (gp_config gp) q = l1_resolve (gp_config gp) pa \<and>
      granule_resolve (gp_config gp) q = granule_resolve (gp_config gp) pa"
    using granule_of_eq_iff [OF gpt_lookup_OkD [OF assms(3)] gpt_lookup_OkD [OF assms(2)]] assms(4) by blast
  then have "gpt_lookup gp w q = gpt_lookup gp w pa"
    using gpt_lookup_OkD [OF assms(3)] gpt_lookup_OkD [OF assms(2)]
    by (simp add: gpt_lookup_cells [OF assms(1)] Let_def)
  then show ?thesis using assms(2,3) by simp
qed

lemma moved_lookup:
  assumes "gpt_ok gp w" "moved gp pa old new w w'" "gpt_lookup gp w q = Some (Inr g)"
  shows "\<exists>g'. gpt_lookup gp w' q = Some (Inr g') \<and> (g' = g \<or> g = old \<and> g' = new)"
  using assms granule_same_lookup [of gp w pa old q g] by (auto simp: moved_def)

lemma table_step_lookup:
  assumes "gpt_ok gp w" "table_step gp w w'" "gpt_lookup gp w q = Some (Inr g)"
  shows "\<exists>g'. gpt_lookup gp w' q = Some (Inr g') \<and>
           (g' = g \<or> g = GpiNonSecure \<and> g' = GpiRealm \<or> g = GpiRealm \<and> g' = GpiNonSecure)"
  using assms(2) moved_lookup [OF assms(1) _ assms(3)] assms(3)
  unfolding table_step_def same_table_def by fastforce

lemma handle_gtsi_step:
  assumes "handle_gtsi op regs s = Some (r, regs', s')" "rmm_gpt s = Some gp"
    "\<And>r w'. op gp (rmm_world s) = Some (r, w') \<Longrightarrow> table_step gp (rmm_world s) w'"
  shows "rmm_gpt s' = Some gp \<and> rmm_boot_state s' = rmm_boot_state s \<and> table_step gp (rmm_world s) (rmm_world s')"
  using assms by (auto simp: handle_gtsi_def Let_def split: bind_splits sum.splits)

lemma gtsi_delegate_step:
  "gpt_ok gp w \<Longrightarrow> gtsi_delegate env gp w pa = Some (r, w') \<Longrightarrow> table_step gp w w'"
  using gtsi_delegate_cases [of gp w env pa r w'] by (auto simp: table_step_def)

lemma gtsi_undelegate_step:
  "gpt_ok gp w \<Longrightarrow> gtsi_undelegate env gp w pa = Some (r, w') \<Longrightarrow> table_step gp w w'"
  using gtsi_undelegate_cases [of gp w env pa r w'] by (auto simp: table_step_def)

lemma handle_attest_keeps:
  "handle_attest_get_realm_key P regs s buf_pa buf_size c = Some (r, regs', s') \<Longrightarrow>
     rmm_gpt s' = rmm_gpt s \<and> rmm_world s' = rmm_world s \<and> rmm_boot_state s' = rmm_boot_state s"
  "handle_attest_get_plat_token P regs s buf_pa buf_size c_size = Some (r, regs', s') \<Longrightarrow>
     rmm_gpt s' = rmm_gpt s \<and> rmm_world s' = rmm_world s \<and> rmm_boot_state s' = rmm_boot_state s"
  by (auto simp: handle_attest_get_realm_key_def handle_attest_get_plat_token_def Let_def
      split: sum.splits prod.splits if_splits bind_splits)

lemma handle_rmm_call_step:
  assumes "handle_rmm_call P env regs s call = Some (r, regs', s')" "rmm_gpt s = Some gp" "gpt_ok gp (rmm_world s)"
  shows "rmm_gpt s' = Some gp \<and> rmm_boot_state s' = rmm_boot_state s \<and> table_step gp (rmm_world s) (rmm_world s')"
proof (cases call)
  case (GtsiDelegate pa)
  with assms(1) have run: "handle_gtsi (\<lambda>gpt w. gtsi_delegate env gpt w pa) regs s = Some (r, regs', s')" by simp
  show ?thesis by (rule handle_gtsi_step [OF run assms(2)]) (rule gtsi_delegate_step [OF assms(3)])
next
  case (GtsiUndelegate pa)
  with assms(1) have run: "handle_gtsi (\<lambda>gpt w. gtsi_undelegate env gpt w pa) regs s = Some (r, regs', s')" by simp
  show ?thesis by (rule handle_gtsi_step [OF run assms(2)]) (rule gtsi_undelegate_step [OF assms(3)])
next
  case (AttestGetRealmKey buf_pa buf_size c)
  then show ?thesis using assms handle_attest_keeps(1) by (fastforce intro: table_step_refl)
next
  case (AttestGetPlatToken buf_pa buf_size c_size)
  then show ?thesis using assms handle_attest_keeps(2) by (fastforce intro: table_step_refl)
qed (use assms table_step_refl in auto)

text \<open>The boot state moves from unknown to booted, and from anything to the error, which is final.\<close>

definition boot_step :: "RmmBootState \<Rightarrow> RmmBootState \<Rightarrow> bool" where
  "boot_step a b \<longleftrightarrow> b = a \<or> b = BootError \<or> a = BootUnknown \<and> b = ColdBootDone"

lemma handle_boot_complete_keeps:
  assumes "handle_boot_complete env regs s = Some (world, regs', s')"
  shows "rmm_gpt s' = rmm_gpt s \<and> rmm_world s' = rmm_world s \<and> boot_step (rmm_boot_state s) (rmm_boot_state s')"
  using assms by (auto simp: handle_boot_complete_def set_boot_failure_def set_boot_success_def boot_step_def Let_def
      split: if_splits option.splits bind_splits)

lemma try_handle_realm_smcD:
  assumes "try_handle_realm_smc P env regs s = Some (r, regs', s')"
  shows "s' = s \<or> (\<exists>w. handle_boot_complete env regs s = Some (w, regs', s')) \<or>
    (\<exists>call. handle_rmm_call P env regs s call = Some (r, regs', s'))"
proof -
  from assms obtain r0 where "checked_index (reg_values regs) 0 = Some r0"
    by (auto simp: try_handle_realm_smc_def split: bind_splits)
  with assms show ?thesis
    by (cases "clear_sve_hint (ucast r0) = RMM_BOOT_COMPLETE")
      (auto simp: try_handle_realm_smc_def split: bind_splits sum.splits RmmError.splits)
qed

lemma realm_smc_step:
  assumes "rmmd_handle_realm_smc P env regs s = Some (world, regs', s')"
    "rmm_gpt s = Some gp" "gpt_ok gp (rmm_world s)"
  shows "rmm_gpt s' = Some gp \<and> table_step gp (rmm_world s) (rmm_world s') \<and>
    boot_step (rmm_boot_state s) (rmm_boot_state s')"
proof (cases "boot_failure s")
  case True
  then show ?thesis using assms table_step_refl by (auto simp: rmmd_handle_realm_smc_def boot_step_def)
next
  case False
  with assms(1) obtain r regs1 s1 where run: "try_handle_realm_smc P env regs s = Some (r, regs1, s1)"
    and out: "(case r of Inr world \<Rightarrow> (world, regs1, s1)
                | Inl code \<Rightarrow> (Realm, set_from_rmm_code code regs1, s1)) = (world, regs', s')"
    by (cases "try_handle_realm_smc P env regs s") (auto simp: rmmd_handle_realm_smc_def)
  from out have "s1 = s'" by (cases r) auto
  with try_handle_realm_smcD [OF run] show ?thesis
    using handle_boot_complete_keeps handle_rmm_call_step [OF _ assms(2,3)] table_step_refl [OF assms(3)] assms(2)
    by (metis boot_step_def)
qed

section \<open>Calls return\<close>

text \<open>A table in which every address of the protected space has an access type.\<close>

definition gpt_programmed :: "GranuleProtection \<Rightarrow> gpt_world \<Rightarrow> bool" where
  "gpt_programmed gp w \<longleftrightarrow>
     gpt_ok gp w \<and> (\<forall>pa. unat pa < 2 ^ pps_width (pps (gp_config gp)) \<longrightarrow> (\<exists>g. gpt_lookup gp w pa = Some (Inr g)))"

lemma gpt_programmed_lookup:
  assumes "gpt_programmed gp w"
  shows "gpt_lookup gp w pa = Some (Inl InvalidRequest) \<or> (\<exists>g. gpt_lookup gp w pa = Some (Inr g))"
  using assms
  by (cases "2 ^ pps_width (pps (gp_config gp)) \<le> unat pa")
    (auto simp: gpt_programmed_def gpt_lookup_cells not_le)

lemma table_step_programmed: "gpt_programmed gp w \<Longrightarrow> table_step gp w w' \<Longrightarrow> gpt_programmed gp w'"
  unfolding gpt_programmed_def using table_step_ok table_step_lookup by metis

lemma gtsi_delegate_returns:
  assumes "gpt_programmed gp w" "sctlr_c env"
  shows "\<exists>r w'. gtsi_delegate env gp w pa = Some (r, w')"
proof (cases "gpt_lookup gp w pa = Some (Inr GpiNonSecure)")
  case False
  then show ?thesis
    using gpt_programmed_lookup [OF assms(1), of pa] assms(2)
    by (auto simp: gtsi_delegate_def on_gpt_result_def Let_def)
next
  case True
  let ?w1 = "w\<lparr>gpt_events := gpt_events w @
    [FlushToPopa (mte2_is_present env) (pa OR push_bit PAS_SHIFT 3) (pgs_size (pgs (gp_config gp)))]\<rparr>"
  note fl = flush_ok [OF True, of GpiRealm 3] flush_ok [OF True, of GpiNonSecure 1]
  have "gpt_ok gp ?w1" "gpt_lookup gp ?w1 pa = Some (Inr GpiNonSecure)"
    using assms(1) True by (simp_all add: gpt_programmed_def)
  from gpt_set_after_lookup [OF this, of GpiRealm] show ?thesis
    using True assms(2) fl
    by (auto simp: gtsi_delegate_def on_gpt_result_def on_flush_def Let_def)
qed

lemma gtsi_undelegate_returns:
  assumes "gpt_programmed gp w" "sctlr_c env"
  shows "\<exists>r w'. gtsi_undelegate env gp w pa = Some (r, w')"
proof (cases "gpt_lookup gp w pa = Some (Inr GpiRealm)")
  case False
  then show ?thesis
    using gpt_programmed_lookup [OF assms(1), of pa] assms(2)
    by (auto simp: gtsi_undelegate_def on_gpt_result_def Let_def)
next
  case True
  note fl = flush_ok [OF True, of GpiRealm 3] flush_ok [OF True, of GpiNonSecure 1]
  have ok: "gpt_ok gp w" using assms(1) by (simp add: gpt_programmed_def)
  from gpt_set_after_lookup [OF ok True, of NoAccess] show ?thesis
  proof
    assume "gpt_set gp w pa NoAccess = Some (Inl InvalidRequest, w)"
    then show ?thesis using True assms(2) by (auto simp: gtsi_undelegate_def on_gpt_result_def Let_def)
  next
    assume "\<exists>w1. gpt_set gp w pa NoAccess = Some (Inr (), w1)"
    then obtain w1 where set: "gpt_set gp w pa NoAccess = Some (Inr (), w1)" by blast
    have "\<exists>w3. gpt_set gp (w1\<lparr>gpt_events := e\<rparr>) pa GpiNonSecure = Some (Inr (), w3)" for e
      by (rule gpt_set_again [OF ok set]) simp
    then obtain w3 where "gpt_set gp (w1\<lparr>gpt_events := gpt_events w1 @
        [FlushToPopa (mte2_is_present env) (pa OR push_bit PAS_SHIFT 3) (pgs_size (pgs (gp_config gp))), DsbOsh,
         FlushToPopa (mte2_is_present env) (pa OR push_bit PAS_SHIFT 1) (pgs_size (pgs (gp_config gp))), DsbOsh]\<rparr>)
        pa GpiNonSecure = Some (Inr (), w3)" by blast
    then show ?thesis
      using True assms(2) fl set
      by (auto simp: gtsi_undelegate_def on_gpt_result_def on_flush_def dsb_osh_def Let_def)
  qed
qed

text \<open>The commands the interface defines and the service does not implement yet.\<close>

definition unimplemented :: "RmmFuncId set" where
  "unimplemented =
     {FidEl3TokenSign, FidIdeKeyProg, FidIdeKeySetGo, FidIdeKeySetStop, FidIdeKmPullResponse, FidReserveMemory}"

text \<open>The calls the service implements.\<close>

fun implemented_call :: "RmmCall \<Rightarrow> bool" where
  "implemented_call (El3TokenSign _ _ _ _) = False"
| "implemented_call (IdeKeyProg _ _ _ _ _ _ _) = False"
| "implemented_call (IdeKeySetGo _ _ _ _ _) = False"
| "implemented_call (IdeKeySetStop _ _ _ _ _) = False"
| "implemented_call (IdeKmPullResponse _ _) = False"
| "implemented_call (ReserveMemory _ _ _) = False"
| "implemented_call _ = True"

lemma parse_command_returns:
  assumes "length regs = 18"
  shows "\<exists>c. parse_command f regs = Some c \<and> (f \<notin> unimplemented \<longrightarrow> (\<forall>call. c = Inr call \<longrightarrow> implemented_call call)) \<and>
    (\<forall>fid. c \<noteq> Inl (UnrecognisedFunctionId fid))"
  using assms
  by (cases f) (auto simp: checked_index_def reg_range_def parse_attest_get_realm_key_def parse_el3_token_sign_def
      parse_mec_refresh_def parse_ide_key_prog_def parse_ide_key_set_def unimplemented_def ecc_curve_try_from_def
      token_sign_try_from_def mec_refresh_try_from_def split: sum.splits if_splits)

lemma handle_rmm_call_returns:
  assumes "rmm_gpt s = Some gp" "gpt_programmed gp (rmm_world s)" "sctlr_c env" "implemented_call call"
    "\<And>buf h i n rem b. read_attestation_token P buf h i = (Inr (n, rem), b) \<Longrightarrow> 0 < rem \<Longrightarrow> i + n < 2 ^ 64"
  shows "\<exists>r regs' s'. handle_rmm_call P env regs s call = Some (r, regs', s')"
proof (cases call)
  case (GtsiDelegate pa)
  then show ?thesis
    using gtsi_delegate_returns [OF assms(2,3), of pa] assms(1)
    by (auto simp: handle_gtsi_def Let_def split: sum.splits)
next
  case (GtsiUndelegate pa)
  then show ?thesis
    using gtsi_undelegate_returns [OF assms(2,3), of pa] assms(1)
    by (auto simp: handle_gtsi_def Let_def split: sum.splits)
next
  case (AttestGetRealmKey pa sz c)
  then show ?thesis by (auto simp: handle_attest_get_realm_key_def Let_def split: sum.splits prod.splits)
next
  case (AttestGetPlatToken pa sz c)
  then show ?thesis
    using assms(5) by (auto simp: handle_attest_get_plat_token_def Let_def split: sum.splits prod.splits)
qed (use assms(4) in auto)

end
