(* ===== verification/Rmm_Attest.thy ===== *)
theory Rmm_Attest
  imports Rmmd_Laws Fvp_Attestation
begin

text \<open>
  Reading the platform token through the shared buffer. The contract of a platform is that a read
  copies the token from the start index on, as much as fits; the lemmas show what one call of the
  service returns and that repeated calls return the whole token. The contract is interpreted on the
  FVP platform.
\<close>

section \<open>The shared buffer\<close>

lemma get_shared_buffer_slice_bounds:
  assumes "get_shared_buffer_slice P pa sz = Inr (off, len)"
  shows "len = unat sz" "off + len \<le> RMM_SHARED_BUFFER_SIZE" "off < RMM_SHARED_BUFFER_SIZE"
    "unat pa = RMM_SHARED_BUFFER_START P + off"
  using assms
  by (auto simp: get_shared_buffer_slice_def check_shared_buffer_range_def Let_def split: if_splits sum.splits)

lemma get_shared_buffer_slice_smaller:
  assumes "get_shared_buffer_slice P pa sz = Inr (off, len)" "sz' \<le> sz" "0 < sz'"
  shows "get_shared_buffer_slice P pa sz' = Inr (off, unat sz')"
proof -
  have le: "unat sz' \<le> unat sz" "0 < unat sz'"
    using assms(2,3) by (simp_all add: word_le_nat_alt word_less_nat_alt unat_gt_0)
  show ?thesis
    using assms(1) le
    by (auto simp: get_shared_buffer_slice_def check_shared_buffer_range_def Let_def split: if_splits sum.splits)
qed

section \<open>The contract of a platform\<close>

locale attestation_platform =
  fixes P :: rmm_platform and token :: "u8 list"
  assumes read_token: "idx \<le> length token \<Longrightarrow>
      read_attestation_token P buf hash idx =
        (let n = min (length buf) (length token - idx) in
         (Inr (n, length token - (idx + n)), take n (drop idx token) @ drop n buf))"
    and token_length: "length token < 2 ^ 64"
begin

lemma get_plat_token_chunk:
  assumes slice: "get_shared_buffer_slice P pa (max sz c) = Inr (off, len)"
    and buf: "length (shared_buffer s) = RMM_SHARED_BUFFER_SIZE"
    and idx: "attestation_token_read_index s = idx" "idx \<le> length token"
    and c: "if idx = 0 then unat c \<in> set VALID_HASH_SIZES else c = 0"
  defines "n \<equiv> min (unat sz) (length token - idx)"
  shows "\<exists>s'. handle_attest_get_plat_token P regs s pa sz c =
      Some (Inr Realm, set_from_fields [of_nat n, of_nat (length token - (idx + n))] regs, s') \<and>
      attestation_token_read_index s' = (if idx + n < length token then idx + n else 0) \<and>
      length (shared_buffer s') = RMM_SHARED_BUFFER_SIZE \<and>
      buffer_slice (shared_buffer s') off n = take n (drop idx token)"
proof -
  note b = get_shared_buffer_slice_bounds [OF slice]
  have "unat sz \<le> unat (max sz c)" by (simp add: word_le_nat_alt [symmetric])
  then have lens: "length (take (unat sz) (buffer_slice (shared_buffer s) off len)) = unat sz"
    using b buf by (simp add: buffer_slice_def)
  have rd: "read_attestation_token P (take (unat sz) (buffer_slice (shared_buffer s) off len)) hash idx =
      (Inr (n, length token - (idx + n)),
       take n (drop idx token) @ drop n (take (unat sz) (buffer_slice (shared_buffer s) off len)))" for hash
    using read_token [OF idx(2)] lens by (simp add: n_def Let_def)
  have n: "n \<le> unat sz" "idx + n \<le> length token" using idx(2) by (auto simp: n_def)
  have fits: "off + unat sz \<le> RMM_SHARED_BUFFER_SIZE"
    using b(1,2) \<open>unat sz \<le> unat (max sz c)\<close> by simp
  let ?bytes = "take n (drop idx token) @ drop n (take (unat sz) (buffer_slice (shared_buffer s) off len))"
  let ?buf = "buffer_splice (shared_buffer s) off ?bytes"
  have "length ?bytes = unat sz" using n lens idx(2) by simp
  then have "length ?buf = RMM_SHARED_BUFFER_SIZE" using fits buf by (simp add: buffer_splice_def)
  moreover have "buffer_slice ?buf off n = take n (drop idx token)"
    using n fits buf by (simp add: buffer_slice_def buffer_splice_def)
  moreover have "idx + n < 2 ^ 64" using n token_length by simp
  ultimately show ?thesis
    using slice idx c rd by (auto simp: handle_attest_get_plat_token_def Let_def split: if_splits)
qed

end

text \<open>
  A client that asks for the token with a buffer of \<open>sz\<close> bytes until nothing remains, and collects
  the bytes of each reply.
\<close>

fun read_all ::
  "nat \<Rightarrow> rmm_platform \<Rightarrow> SmcReturn \<Rightarrow> u64 \<Rightarrow> u64 \<Rightarrow> u64 \<Rightarrow> rmmd \<Rightarrow> (u8 list \<times> rmmd) option" where
  "read_all 0 P regs pa sz c s = None"
| "read_all (Suc k) P regs pa sz c s =
     (case handle_attest_get_plat_token P regs s pa sz c of
        Some (Inr _, regs', s') \<Rightarrow>
          (let n = unat (smc_values regs' ! 1); rem = smc_values regs' ! 2;
               bytes = buffer_slice (shared_buffer s') (unat pa - RMM_SHARED_BUFFER_START P) n in
           if rem = 0 then Some (bytes, s')
           else
             case read_all k P regs pa sz 0 s' of
               None \<Rightarrow> None
             | Some (bs, s'') \<Rightarrow> Some (bytes @ bs, s''))
      | _ \<Rightarrow> None)"

context attestation_platform
begin

lemma read_all_from:
  assumes slice: "get_shared_buffer_slice P pa (max sz c) = Inr (off, len)" and "0 < sz"
    and buf: "length (shared_buffer s) = RMM_SHARED_BUFFER_SIZE"
    and idx: "attestation_token_read_index s = idx" "idx < length token"
    and c: "if idx = 0 then unat c \<in> set VALID_HASH_SIZES else c = 0"
    and fuel: "length token - idx \<le> fuel"
  shows "\<exists>s'. read_all fuel P regs pa sz c s = Some (drop idx token, s') \<and> attestation_token_read_index s' = 0"
  using assms
proof (induction fuel arbitrary: s idx c len)
  case 0
  then show ?case by simp
next
  case (Suc k)
  define n where "n = min (unat sz) (length token - idx)"
  note b = get_shared_buffer_slice_bounds [OF Suc.prems(1)]
  have sz: "0 < unat sz" using \<open>0 < sz\<close> by (simp add: unat_gt_0 word_neq_0_conv)
  have n: "0 < n" "n \<le> unat sz" "idx + n \<le> length token"
    using sz Suc.prems(5) by (auto simp: n_def)
  from get_plat_token_chunk [OF Suc.prems(1,3,4) less_imp_le [OF Suc.prems(5)] Suc.prems(6), of regs, folded n_def]
  obtain s1 where run: "handle_attest_get_plat_token P regs s pa sz c =
        Some (Inr Realm, set_from_fields [of_nat n, of_nat (length token - (idx + n))] regs, s1)"
    and idx1: "attestation_token_read_index s1 = (if idx + n < length token then idx + n else 0)"
    and buf1: "length (shared_buffer s1) = RMM_SHARED_BUFFER_SIZE"
    and bytes: "buffer_slice (shared_buffer s1) off n = take n (drop idx token)" by blast
  have off: "unat pa - RMM_SHARED_BUFFER_START P = off" using b(4) by simp
  have un: "unat (of_nat n :: u64) = n" using n token_length by (simp add: unsigned_of_nat take_bit_nat_eq_self)
  have rem: "(of_nat (length token - (idx + n)) :: u64) = 0 \<longleftrightarrow> \<not> idx + n < length token"
  proof -
    have "unat (of_nat (length token - (idx + n)) :: u64) = length token - (idx + n)"
      using token_length by (simp add: unsigned_of_nat take_bit_nat_eq_self)
    then show ?thesis by (metis not_less unat_0 unat_eq_0 diff_is_0_eq)
  qed
  have step: "read_all (Suc k) P regs pa sz c s =
      (if \<not> idx + n < length token then Some (take n (drop idx token), s1)
       else case read_all k P regs pa sz 0 s1 of None \<Rightarrow> None
            | Some (bs, s'') \<Rightarrow> Some (take n (drop idx token) @ bs, s''))"
    using run rem
    by (simp add: set_from_fields_def set_args_def Let_def off un bytes split: option.split)
  show ?case
  proof (cases "idx + n < length token")
    case False
    then show ?thesis using step idx1 n by simp
  next
    case True
    have "get_shared_buffer_slice P pa (max sz 0) = Inr (off, unat sz)"
      using get_shared_buffer_slice_smaller [OF Suc.prems(1), of sz] \<open>0 < sz\<close> by simp
    moreover have "length token - (idx + n) \<le> k" using n(1) Suc.prems(7) by linarith
    ultimately have "\<exists>s2. read_all k P regs pa sz 0 s1 = Some (drop (idx + n) token, s2) \<and>
        attestation_token_read_index s2 = 0"
      using Suc.IH [OF _ \<open>0 < sz\<close> buf1 _ True] idx1 True n(1) by auto
    then obtain s2 where
      "read_all k P regs pa sz 0 s1 = Some (drop (idx + n) token, s2)" "attestation_token_read_index s2 = 0" by blast
    moreover have "take n (drop idx token) @ drop (idx + n) token = drop idx token"
      by (metis append_take_drop_id drop_drop add.commute)
    ultimately show ?thesis using step True by simp
  qed
qed

end

interpretation fvp_token: attestation_platform "fvp_rmm cores dram1_start uart0_start" ATTESTATION_TOKEN
  for cores dram1_start uart0_start
  by unfold_locales (auto simp: fvp_rmm_def fvp_read_attestation_token_def Let_def)

end
