(* ===== verification/Rmm_Manifest_Laws.thy ===== *)
theory Rmm_Manifest_Laws
  imports Rmm_Manifest
begin

text \<open>
  Lemmas on the boot manifest: encoding and decoding of words, writes at different places of the
  buffer, and what each step of packing leaves in it.
\<close>

section \<open>Bytes\<close>

lemma length_le_bytes [simp]: "length (le_bytes n x) = n"
  by (simp add: le_bytes_def)

lemma le_bytes_Suc: "le_bytes (Suc n) x = ucast x # le_bytes n (drop_bit 8 x)"
proof -
  have "[0..<Suc n] = 0 # map Suc [0..<n]" by (simp add: map_Suc_upt upt_conv_Cons)
  then show ?thesis by (simp add: le_bytes_def comp_def add.commute)
qed

lemma le_value_le_bytes: "le_value (le_bytes n x) = take_bit (8 * n) x"
proof (induction n arbitrary: x)
  case 0
  then show ?case by (simp add: le_bytes_def)
next
  case (Suc n)
  have "ucast (ucast x :: u8) OR push_bit 8 (take_bit (8 * n) (drop_bit 8 x)) = take_bit (8 * Suc n) x"
    by (rule bit_word_eqI) (auto simp: bit_simps)
  then show ?case by (simp add: le_bytes_Suc Suc.IH)
qed

lemma le_value_le_bytes_8 [simp]: "le_value (le_bytes 8 x) = x"
  by (simp add: le_value_le_bytes take_bit_word_eq_self)

section \<open>Writes\<close>

lemma length_write_at [simp]: "off + length bs \<le> length buf \<Longrightarrow> length (write_at off bs buf) = length buf"
  by (simp add: write_at_def)

lemma read_write_same: "off + length bs \<le> length buf \<Longrightarrow> read_at off (length bs) (write_at off bs buf) = bs"
  by (simp add: read_at_def write_at_def)

lemma read_write_above:
  "off + length bs \<le> o' \<Longrightarrow> off + length bs \<le> length buf \<Longrightarrow> read_at o' n (write_at off bs buf) = read_at o' n buf"
  by (simp add: read_at_def write_at_def)

text \<open>A step that leaves the bytes below a bound alone and the length of the buffer unchanged.\<close>

definition keeps_below :: "nat \<Rightarrow> u8 list \<Rightarrow> u8 list \<Rightarrow> bool" where
  "keeps_below c buf buf' \<longleftrightarrow> length buf' = length buf \<and> take c buf' = take c buf"

lemma keeps_below_refl [simp]: "keeps_below c buf buf"
  by (simp add: keeps_below_def)

lemma keeps_below_trans: "keeps_below c a b \<Longrightarrow> keeps_below c b d \<Longrightarrow> keeps_below c a d"
  by (simp add: keeps_below_def)

lemma keeps_below_mono: "keeps_below c a b \<Longrightarrow> c' \<le> c \<Longrightarrow> keeps_below c' a b"
  unfolding keeps_below_def by (metis min.absorb1 take_take)

lemma keeps_below_write: "c \<le> off \<Longrightarrow> off + length bs \<le> length buf \<Longrightarrow> keeps_below c buf (write_at off bs buf)"
  by (simp add: keeps_below_def write_at_def)

lemma keeps_below_read: "keeps_below c a b \<Longrightarrow> o' + n \<le> c \<Longrightarrow> read_at o' n b = read_at o' n a"
proof -
  assume *: "keeps_below c a b" "o' + n \<le> c"
  have "read_at o' n x = drop o' (take (o' + n) x)" for x by (simp add: read_at_def drop_take)
  with * keeps_below_mono show ?thesis unfolding keeps_below_def by metis
qed

section \<open>Packing\<close>

lemma compute_checksum_sum:
  "compute_checksum bs other = Some c \<Longrightarrow> sum_list (words_of bs) + sum_list other + c = 0"
  by (auto simp: compute_checksum_def sum_u64_def split: if_splits bind_splits)

lemma make_list_spec:
  assumes "make_list buf_pa n bs (buf, cur) = Some (l, buf', cur')"
  shows "buf' = write_at cur bs buf" "cur' = cur + length bs" "cur' \<le> BUFFER_SIZE"
    "num_entries l = of_nat n"
    "sum_list (words_of bs) + num_entries l + entries_ptr l + checksum l = 0"
    "n \<noteq> 0 \<Longrightarrow> entries_ptr l = of_nat (buf_pa + cur) \<and> buf_pa + cur < 2 ^ 64"
  using assms
  by (auto simp: make_list_def split_at_def addr_of_def algebra_simps
      dest!: compute_checksum_sum split: if_splits bind_splits)

lemma pack_port_keeps:
  assumes "pack_port buf_pa slot port (buf, cur) = Some (buf', cur')"
    "c \<le> slot" "c \<le> cur" "slot + 16 \<le> BUFFER_SIZE" "length buf = BUFFER_SIZE"
  shows "keeps_below c buf buf' \<and> cur \<le> cur' \<and> cur' \<le> BUFFER_SIZE"
  using assms
  by (auto simp: pack_port_def split_at_def addr_of_def aligned_view_def Let_def split: bind_splits
      intro!: keeps_below_trans [OF keeps_below_write keeps_below_trans [OF keeps_below_write
        keeps_below_trans [OF keeps_below_write keeps_below_write]]])

lemma pack_ports_keeps:
  assumes "pack_ports buf_pa slot ports (buf, cur) = Some (buf', cur')"
    "c \<le> slot" "c \<le> cur" "slot + 16 * length ports \<le> BUFFER_SIZE" "length buf = BUFFER_SIZE" "cur \<le> BUFFER_SIZE"
  shows "keeps_below c buf buf' \<and> cur \<le> cur' \<and> cur' \<le> BUFFER_SIZE"
  using assms
proof (induction ports arbitrary: slot buf cur)
  case (Cons p ports)
  from Cons.prems(1) obtain buf1 cur1 where 1: "pack_port buf_pa slot p (buf, cur) = Some (buf1, cur1)"
    and 2: "pack_ports buf_pa (slot + 16) ports (buf1, cur1) = Some (buf', cur')"
    by (auto split: bind_splits)
  have k: "keeps_below c buf buf1 \<and> cur \<le> cur1 \<and> cur1 \<le> BUFFER_SIZE"
    using Cons.prems by (intro pack_port_keeps [OF 1]) auto
  then have "keeps_below c buf1 buf' \<and> cur1 \<le> cur' \<and> cur' \<le> BUFFER_SIZE"
    using Cons.prems by (intro Cons.IH [OF 2]) (auto simp: keeps_below_def)
  with k show ?case using keeps_below_trans by fastforce
qed auto

lemma pack_root_keeps:
  assumes "pack_root buf_pa slot root (buf, cur) = Some (buf', cur')"
    "c \<le> slot" "c \<le> cur" "slot + 24 \<le> BUFFER_SIZE" "length buf = BUFFER_SIZE"
  shows "keeps_below c buf buf' \<and> cur \<le> cur' \<and> cur' \<le> BUFFER_SIZE"
proof -
  let ?n = "length (root_entries root)"
  from assms(1) obtain ptr where fits: "cur + ?n * 16 \<le> BUFFER_SIZE"
    and ports: "pack_ports buf_pa cur (root_entries root) (write_at slot
            (le_bytes 8 (ecam_base root) @ le_bytes 1 (ucast (segment root)) @ le_bytes 3 0 @
             le_bytes 4 (of_nat ?n) @ le_bytes 8 ptr) buf, cur + ?n * 16) = Some (buf', cur')"
    by (auto simp: pack_root_def split_at_def aligned_view_def Let_def split: bind_splits)
  let ?b = "write_at slot (le_bytes 8 (ecam_base root) @ le_bytes 1 (ucast (segment root)) @ le_bytes 3 0 @
             le_bytes 4 (of_nat ?n) @ le_bytes 8 ptr) buf"
  have k: "keeps_below c buf ?b" using assms by (intro keeps_below_write) auto
  have "keeps_below c ?b buf' \<and> cur + ?n * 16 \<le> cur' \<and> cur' \<le> BUFFER_SIZE"
    using assms fits k by (intro pack_ports_keeps [OF ports]) (auto simp: keeps_below_def)
  with k show ?thesis using keeps_below_trans by fastforce
qed

lemma pack_roots_keeps:
  assumes "pack_roots buf_pa slot roots (buf, cur) = Some (buf', cur')"
    "c \<le> slot" "c \<le> cur" "slot + 24 * length roots \<le> BUFFER_SIZE" "length buf = BUFFER_SIZE" "cur \<le> BUFFER_SIZE"
  shows "keeps_below c buf buf' \<and> cur \<le> cur' \<and> cur' \<le> BUFFER_SIZE"
  using assms
proof (induction roots arbitrary: slot buf cur)
  case (Cons p roots)
  from Cons.prems(1) obtain buf1 cur1 where 1: "pack_root buf_pa slot p (buf, cur) = Some (buf1, cur1)"
    and 2: "pack_roots buf_pa (slot + 24) roots (buf1, cur1) = Some (buf', cur')"
    by (auto split: bind_splits)
  have k: "keeps_below c buf buf1 \<and> cur \<le> cur1 \<and> cur1 \<le> BUFFER_SIZE"
    using Cons.prems by (intro pack_root_keeps [OF 1]) auto
  then have "keeps_below c buf1 buf' \<and> cur1 \<le> cur' \<and> cur' \<le> BUFFER_SIZE"
    using Cons.prems by (intro Cons.IH [OF 2]) (auto simp: keeps_below_def)
  with k show ?case using keeps_below_trans by fastforce
qed auto

section \<open>The header\<close>

lemma length_checksummed_bytes [simp]: "length (checksummed_bytes l) = 24"
  by (simp add: checksummed_bytes_def)

lemma length_header_bytes:
  "length padding = 4 \<Longrightarrow> length (hdr_lists h) = 5 \<Longrightarrow> length (header_bytes padding h) = HEADER_SIZE"
  by (simp add: header_bytes_def HEADER_SIZE_def length_concat comp_def sum_list_triv)

lemma drop_concat_same_length:
  "\<forall>x \<in> set xss. length x = k \<Longrightarrow> i < length xss \<Longrightarrow> take k (drop (k * i) (concat xss)) = xss ! i"
proof (induction xss arbitrary: i)
  case (Cons xs xss)
  then show ?case by (cases i) simp_all
qed simp

lemma header_list:
  assumes "length padding = 4" "i < length (hdr_lists h)"
  shows "take 24 (drop (16 + 24 * i) (header_bytes padding h)) = checksummed_bytes (hdr_lists h ! i)"
proof -
  let ?ls = "map checksummed_bytes (hdr_lists h)"
  let ?tail = "le_bytes 8 (hdr_rc_num_entries h) @ le_bytes 4 (ucast (hdr_rc_info_version h)) @ le_bytes 4 0 @
     le_bytes 8 (hdr_rc_entries_ptr h) @ le_bytes 8 (hdr_rc_checksum h)"
  have len: "24 * i + 24 \<le> length (concat ?ls)"
    using assms(2) by (simp add: length_concat comp_def sum_list_triv)
  have "drop (16 + 24 * i) (header_bytes padding h) = drop (24 * i) (concat ?ls @ ?tail)"
    using assms(1) by (simp add: header_bytes_def)
  then have "take 24 (drop (16 + 24 * i) (header_bytes padding h)) = take 24 (drop (24 * i) (concat ?ls))"
    using len by simp
  also have "\<dots> = ?ls ! i" using assms(2) by (intro drop_concat_same_length) auto
  finally show ?thesis using assms(2) by simp
qed

text \<open>The list \<open>i\<close> of the header of a packed buffer, as its reader decodes it.\<close>

definition read_word :: "nat \<Rightarrow> u8 list \<Rightarrow> u64" where
  "read_word off buf = le_value (read_at off 8 buf)"

lemma read_header_list:
  assumes "out = write_at 0 (header_bytes padding h) buf" "length padding = 4" "length (hdr_lists h) = 5"
    "length buf = BUFFER_SIZE" "i < 5"
  shows "read_word (16 + 24 * i) out = num_entries (hdr_lists h ! i)"
    "read_word (16 + 24 * i + 8) out = entries_ptr (hdr_lists h ! i)"
    "read_word (16 + 24 * i + 16) out = checksum (hdr_lists h ! i)"
proof -
  let ?l = "hdr_lists h ! i" and ?o = "16 + 24 * i"
  have len: "length (header_bytes padding h) = 168" using assms length_header_bytes by (simp add: HEADER_SIZE_def)
  have whole: "take 24 (drop ?o out) = checksummed_bytes ?l"
    using header_list [of padding i h] assms len by (simp add: write_at_def)
  have part: "read_at (?o + k) 8 out = take 8 (drop k (checksummed_bytes ?l))" if "k + 8 \<le> 24" for k
    using whole [symmetric] that by (simp add: read_at_def drop_take add.commute)
  show "read_word ?o out = num_entries ?l" using part [of 0] by (simp add: read_word_def checksummed_bytes_def)
  show "read_word (?o + 8) out = entries_ptr ?l" using part [of 8] by (simp add: read_word_def checksummed_bytes_def)
  show "read_word (?o + 16) out = checksum ?l" using part [of 16] by (simp add: read_word_def checksummed_bytes_def)
qed

section \<open>The whole manifest\<close>

text \<open>A list of the header describes an entry that lies in the buffer, between the header and a bound.\<close>

definition list_packed :: "nat \<Rightarrow> u8 list \<Rightarrow> nat \<Rightarrow> nat \<times> u8 list \<Rightarrow> ChecksummedList \<Rightarrow> bool" where
  "list_packed buf_pa buf c entry l \<longleftrightarrow>
     num_entries l = of_nat (fst entry) \<and>
     sum_list (words_of (snd entry)) + num_entries l + entries_ptr l + checksum l = 0 \<and>
     (fst entry \<noteq> 0 \<longrightarrow>
        (\<exists>off. HEADER_SIZE \<le> off \<and> off + length (snd entry) \<le> c \<and>
           entries_ptr l = of_nat (buf_pa + off) \<and> buf_pa + off < 2 ^ 64 \<and>
           read_at off (length (snd entry)) buf = snd entry))"

lemma list_packed_keeps:
  assumes "list_packed buf_pa buf c entry l" "c \<le> c'"
    "\<And>off n. HEADER_SIZE \<le> off \<Longrightarrow> off + n \<le> c \<Longrightarrow> read_at off n buf' = read_at off n buf"
  shows "list_packed buf_pa buf' c' entry l"
proof -
  have "\<exists>off. HEADER_SIZE \<le> off \<and> off + length (snd entry) \<le> c' \<and> entries_ptr l = of_nat (buf_pa + off) \<and>
      buf_pa + off < 2 ^ 64 \<and> read_at off (length (snd entry)) buf' = snd entry" if "fst entry \<noteq> 0"
  proof -
    from assms(1) that obtain off where "HEADER_SIZE \<le> off" "off + length (snd entry) \<le> c"
      "entries_ptr l = of_nat (buf_pa + off)" "buf_pa + off < 2 ^ 64"
      "read_at off (length (snd entry)) buf = snd entry"
      unfolding list_packed_def by blast
    with assms(2,3) show ?thesis by (intro exI [of _ off]) simp
  qed
  with assms(1) show ?thesis unfolding list_packed_def by blast
qed

lemma make_list_packed:
  assumes "make_list buf_pa n bs (buf, cur) = Some (l, buf', cur')" "HEADER_SIZE \<le> cur" "length buf = BUFFER_SIZE"
  shows "list_packed buf_pa buf' cur' (n, bs) l" "keeps_below cur buf buf'" "cur \<le> cur'" "cur' \<le> BUFFER_SIZE"
proof -
  note spec = make_list_spec [OF assms(1)]
  have "read_at cur (length bs) buf' = bs" using spec assms(3) read_write_same [of cur bs buf] by simp
  then show "list_packed buf_pa buf' cur' (n, bs) l" using spec assms(2) by (auto simp: list_packed_def)
  show "keeps_below cur buf buf'" using spec assms(3) keeps_below_write [of cur cur bs buf] by simp
  show "cur \<le> cur'" "cur' \<le> BUFFER_SIZE" using spec by auto
qed

lemma make_lists_packed:
  assumes "make_lists buf_pa ls (buf, cur) = Some (hs, buf', cur')"
    "HEADER_SIZE \<le> cur" "length buf = BUFFER_SIZE" "cur \<le> BUFFER_SIZE"
  shows "keeps_below cur buf buf' \<and> cur \<le> cur' \<and> cur' \<le> BUFFER_SIZE \<and>
    list_all2 (list_packed buf_pa buf' cur') ls hs"
  using assms
proof (induction ls arbitrary: buf cur hs)
  case (Cons e ls)
  obtain n bs where e: "e = (n, bs)" by (cases e)
  from Cons.prems(1) obtain l buf1 cur1 rest
    where 1: "make_list buf_pa n bs (buf, cur) = Some (l, buf1, cur1)"
      and 2: "make_lists buf_pa ls (buf1, cur1) = Some (rest, buf', cur')" and hs: "hs = l # rest"
    by (auto simp: e split: bind_splits)
  note one = make_list_packed [OF 1 Cons.prems(2,3)]
  have two: "keeps_below cur1 buf1 buf' \<and> cur1 \<le> cur' \<and> cur' \<le> BUFFER_SIZE \<and>
      list_all2 (list_packed buf_pa buf' cur') ls rest"
    using Cons.prems one by (intro Cons.IH [OF 2]) (auto simp: keeps_below_def)
  have "list_packed buf_pa buf' cur' (n, bs) l"
    using list_packed_keeps [OF one(1)] two keeps_below_read by blast
  moreover have "keeps_below cur buf buf'"
    using one(2,3) two keeps_below_mono keeps_below_trans by blast
  ultimately show ?case using one(3) two by (auto simp: e hs)
qed auto

lemma pack_unfold:
  assumes "pack m buf buf_ptr buf_pa = Some out"
  obtains hs buf1 cur1 buf2 cur2 h where
    "HEADER_SIZE + length (plat_data m) \<le> BUFFER_SIZE"
    "make_lists buf_pa (manifest_lists m) (write_at HEADER_SIZE (plat_data m) buf, HEADER_SIZE + length (plat_data m))
       = Some (hs, buf1, cur1)"
    "cur1 + length (complex_entries (plat_root_complex m)) * 24 \<le> BUFFER_SIZE"
    "pack_roots buf_pa cur1 (complex_entries (plat_root_complex m))
       (buf1, cur1 + length (complex_entries (plat_root_complex m)) * 24) = Some (buf2, cur2)"
    "hdr_lists h = hs" "out = write_at 0 (header_bytes (read_at 4 4 buf) h) buf2"
  using assms
  by (auto simp: pack_def split_at_def aligned_view_def Let_def split: bind_splits)
    (metis RmmBootManifestHeader.select_convs(3))

lemma pack_list_packed:
  assumes "pack m buf buf_ptr buf_pa = Some out" "length buf = BUFFER_SIZE" "i < 5"
  shows "length out = BUFFER_SIZE"
    "\<exists>l. list_packed buf_pa out BUFFER_SIZE (manifest_lists m ! i) l \<and>
       read_word (16 + 24 * i) out = num_entries l \<and>
       read_word (16 + 24 * i + 8) out = entries_ptr l \<and> read_word (16 + 24 * i + 16) out = checksum l"
proof -
  let ?roots = "complex_entries (plat_root_complex m)" and ?pad = "read_at 4 4 buf"
  from assms(1) obtain hs buf1 cur1 buf2 cur2 h where
    fits: "HEADER_SIZE + length (plat_data m) \<le> BUFFER_SIZE"
    and lists: "make_lists buf_pa (manifest_lists m)
      (write_at HEADER_SIZE (plat_data m) buf, HEADER_SIZE + length (plat_data m)) = Some (hs, buf1, cur1)"
    and fit2: "cur1 + length ?roots * 24 \<le> BUFFER_SIZE"
    and roots: "pack_roots buf_pa cur1 ?roots (buf1, cur1 + length ?roots * 24) = Some (buf2, cur2)"
    and h: "hdr_lists h = hs" "out = write_at 0 (header_bytes ?pad h) buf2" by (rule pack_unfold)
  have ml: "HEADER_SIZE + length (plat_data m) \<le> cur1 \<and> keeps_below (HEADER_SIZE + length (plat_data m))
      (write_at HEADER_SIZE (plat_data m) buf) buf1 \<and> list_all2 (list_packed buf_pa buf1 cur1) (manifest_lists m) hs"
    using make_lists_packed [OF lists] fits assms(2) by auto
  then have len1: "length buf1 = BUFFER_SIZE" using fits assms(2) by (simp add: keeps_below_def)
  have keeps: "keeps_below cur1 buf1 buf2"
    using fit2 len1 pack_roots_keeps [OF roots, of cur1] by (auto simp: mult.commute)
  then have len2: "length buf2 = BUFFER_SIZE" using len1 by (simp add: keeps_below_def)
  have pad: "length ?pad = 4" using assms(2) by (simp add: read_at_def BUFFER_SIZE_def)
  have hs5: "length (hdr_lists h) = 5" using ml h by (auto simp: manifest_lists_def dest: list_all2_lengthD)
  have hlen: "length (header_bytes ?pad h) = HEADER_SIZE" by (rule length_header_bytes [OF pad hs5])
  then show "length out = BUFFER_SIZE" using h len2 by (simp add: HEADER_SIZE_def BUFFER_SIZE_def)
  have rd: "read_at off n out = read_at off n buf1" if "HEADER_SIZE \<le> off" "off + n \<le> cur1" for off n
    using keeps_below_read [OF keeps that(2)] read_write_above [of 0 "header_bytes ?pad h" off buf2 n] that h hlen len2
    by (simp add: HEADER_SIZE_def BUFFER_SIZE_def)
  have lp: "list_packed buf_pa buf1 cur1 (manifest_lists m ! i) (hs ! i)"
    using ml assms(3) hs5 h by (auto simp: list_all2_conv_all_nth)
  have "cur1 \<le> BUFFER_SIZE" using fit2 by simp
  from list_packed_keeps [OF lp this rd]
  have "list_packed buf_pa out BUFFER_SIZE (manifest_lists m ! i) (hs ! i)" .
  then show "\<exists>l. list_packed buf_pa out BUFFER_SIZE (manifest_lists m ! i) l \<and>
       read_word (16 + 24 * i) out = num_entries l \<and>
       read_word (16 + 24 * i + 8) out = entries_ptr l \<and> read_word (16 + 24 * i + 16) out = checksum l"
    using read_header_list [OF h(2) pad hs5 len2 assms(3)] h(1) by blast
qed

section \<open>The manifest of FVP\<close>

lemma words_of_le_bytes [simp]: "words_of (le_bytes 8 x @ bs) = x # words_of bs"
proof -
  have "le_bytes 8 x = [le_bytes 8 x ! 0, le_bytes 8 x ! 1, le_bytes 8 x ! 2, le_bytes 8 x ! 3,
      le_bytes 8 x ! 4, le_bytes 8 x ! 5, le_bytes 8 x ! 6, le_bytes 8 x ! 7]"
    by (simp add: le_bytes_def upt_rec)
  then obtain b0 b1 b2 b3 b4 b5 b6 b7 where b: "le_bytes 8 x = [b0, b1, b2, b3, b4, b5, b6, b7]" by blast
  show ?thesis using le_value_le_bytes_8 [of x] unfolding b by simp
qed

lemma words_of_le_bytes_single [simp]: "words_of (le_bytes 8 x) = [x]"
  using words_of_le_bytes [of x "[]"] by simp

lemma compute_checksum_returns:
  "length bs mod 8 = 0 \<Longrightarrow> sum_list (map unat (words_of bs @ other)) < 2 ^ 64 \<Longrightarrow>
     \<exists>c. compute_checksum bs other = Some c"
  by (simp add: compute_checksum_def sum_u64_def)

lemma make_list_returns:
  assumes "cur + length bs \<le> BUFFER_SIZE" "n \<noteq> 0 \<longrightarrow> cur < BUFFER_SIZE" "length bs mod 8 = 0"
    "sum_list (map unat (words_of bs)) + n + buf_pa + cur < 2 ^ 64"
  shows "\<exists>l. make_list buf_pa n bs (buf, cur) = Some (l, write_at cur bs buf, cur + length bs)"
proof -
  let ?ptr = "if n = 0 then 0 else of_nat (buf_pa + cur) :: u64"
  have "unat (of_nat n :: u64) = n" "unat (of_nat (buf_pa + cur) :: u64) = buf_pa + cur"
    using assms(4) by (simp_all add: unsigned_of_nat take_bit_nat_eq_self del: of_nat_add)
  then have "\<exists>c. compute_checksum bs [of_nat n, ?ptr] = Some c"
    using assms(3,4) by (intro compute_checksum_returns) auto
  then show ?thesis
    using assms by (auto simp: make_list_def split_at_def addr_of_def)
qed

lemma fvp_manifest_packs:
  assumes "length buf = BUFFER_SIZE" "buf_ptr mod 4096 = 0" "buf_ptr < 2 ^ 62"
    "unat dram1_start < 2 ^ 62" "unat uart0_start < 2 ^ 62"
  shows "\<exists>out. fvp_rme_prepare_manifest dram1_start uart0_start buf_ptr buf = Some out"
proof -
  let ?m = "fvp_manifest dram1_start uart0_start"
  let ?dram = "concat (map memory_bank_bytes (plat_dram ?m))" and ?console = "concat (map console_bytes (plat_console ?m))"
  have d: "length ?dram = 32" "words_of ?dram = [0x80000000, 0x7c000000, dram1_start, 0x80000000]"
    by (simp_all add: fvp_manifest_def memory_bank_bytes_def)
  have c: "length ?console = 48" "words_of ?console = [uart0_start, 1, 0x3131306c70, 0x00e10000, 115200, 0]"
    by (simp_all add: fvp_manifest_def console_bytes_def)
  have m: "manifest_lists ?m = [(2, ?dram), (1, ?console), (0, []), (0, []), (0, [])]"
    by (simp add: manifest_lists_def fvp_manifest_def)
  obtain l1 where l1: "make_list buf_ptr 2 ?dram (b, 168) = Some (l1 b, write_at 168 ?dram b, 200)" for b
    using make_list_returns [of 168 ?dram 2 buf_ptr] d assms by (simp add: BUFFER_SIZE_def) metis
  obtain l2 where l2: "make_list buf_ptr 1 ?console (b, 200) = Some (l2 b, write_at 200 ?console b, 248)" for b
    using make_list_returns [of 200 ?console 1 buf_ptr] c assms by (simp add: BUFFER_SIZE_def) metis
  obtain l3 where l3: "make_list buf_ptr 0 [] (b, 248) = Some (l3 b, write_at 248 [] b, 248)" for b
    using make_list_returns [of 248 "[]" 0 buf_ptr] assms by (simp add: BUFFER_SIZE_def) metis
  have ptr: "addr_of buf_ptr off = Some (of_nat (buf_ptr + off))" if "off < 4096" for off
    using assms(3) that by (simp add: addr_of_def BUFFER_SIZE_def)
  have fields: "plat_data ?m = []" "complex_entries (plat_root_complex ?m) = []"
    "version_bits (rc_info_version (plat_root_complex ?m)) = 1"
    by (simp_all add: fvp_manifest_def version_bits_def RMM_BOOT_MANIFEST_ROOT_COMPLEX_VERSION_def)
  obtain hs b where ml: "make_lists buf_ptr (manifest_lists ?m) (write_at 168 [] buf, 168) = Some (hs, b, 248)"
    unfolding m by (simp add: l1 l2 l3 del: One_nat_def)
  have "unat (of_nat (buf_ptr + 248) :: u64) = buf_ptr + 248"
    using assms(3) by (simp add: unsigned_of_nat take_bit_nat_eq_self del: of_nat_add)
  then obtain ck where ck: "compute_checksum [] [0, 1, of_nat (buf_ptr + 248)] = Some ck"
    using assms(3) compute_checksum_returns [of "[]" "[0, 1, of_nat (buf_ptr + 248)]"] by auto
  show ?thesis
    using ml ck ptr [of 248] ptr [of 168] assms(2)
    by (simp add: fvp_rme_prepare_manifest_def pack_def fields HEADER_SIZE_def split_at_def aligned_view_def
        read_at_def BUFFER_SIZE_def Let_def del: of_nat_add)
qed

end
