(* ===== verification/Rmm_Properties.thy ===== *)
theory Rmm_Properties
  imports Rmm_Attest Rmm_Manifest_Laws
begin

text \<open>
  The properties of the granule protection table and of the service for the Realm Management Monitor,
  with a small table on which their hypotheses hold.
\<close>

section \<open>A small table\<close>

text \<open>
  Four regions of one gigabyte: the first has a table of the second level whose granules are all
  Non-secure, the others are blocks that belong to the Secure world, to any world and to EL3.
\<close>

definition small_gp :: GranuleProtection where
  "small_gp = \<lparr>level0_base = 0x1000, level0_len = 4,
     gp_config = \<lparr>pps = PpsGB4, l0gptsz = L0GB1, pgs = KB4\<rparr>\<rparr>"

definition small_world :: gpt_world where
  "small_world =
     \<lparr>gpt_mem = (\<lambda>a. if a = 0x1000 then 0x100003 else if a = 0x1008 then 0x81
         else if a = 0x1010 then 0xF1 else if a = 0x1018 then 0xA1 else 0x9999999999999999),
      gpt_events = []\<rparr>"

lemmas gpt_eval =
  gpt_lookup_def gpt_set_def pps_size_def pgs_size_def slice_read_def set_gpi_def granule_gpi_def l1_len_def
  push_bit_eq_mult small_gp_def small_world_def l0_resolve_def l1_resolve_def granule_resolve_def cell_def
  is_block_def is_table_def is_contig_def is_granule_def TAG_MASK_def TABLE_TAG_def BLOCK_TAG_def
  CONTIG_TAG_def mask_numeral descriptor_gpi_def gpi_try_from_def table_address_def TABLE_ADDR_MASK_def

lemma small_entries: "i < 4 \<Longrightarrow> is_table (l0_entry_at small_gp small_world i) \<longleftrightarrow> i = 0"
proof -
  assume "i < 4"
  then have "i = 0 \<or> i = 1 \<or> i = 2 \<or> i = 3" by auto
  then show ?thesis by (auto simp: l0_entry_at_def gpt_eval)
qed

lemma small_ok: "gpt_ok small_gp small_world"
proof -
  have "gp_config small_gp = \<lparr>pps = PpsGB4, l0gptsz = L0GB1, pgs = KB4\<rparr>" "level0_base small_gp = 0x1000"
    "level0_len small_gp = 4" by (simp_all add: small_gp_def)
  moreover have "table_address (l0_entry_at small_gp small_world 0) = 0x100000"
    by (simp add: l0_entry_at_def gpt_eval)
  ultimately show ?thesis
    unfolding gpt_ok_def by (auto simp: small_entries l1_cell_def cell_def)
qed

lemma small_lookup_block: "gpt_lookup small_gp small_world 0x40000000 = Some (Inr GpiSecure)"
  by (simp add: gpt_eval)

lemma small_lookup_granule: "gpt_lookup small_gp small_world 0x2000 = Some (Inr GpiNonSecure)"
  by (simp add: gpt_eval)

definition small_env :: rmm_env where
  "small_env = \<lparr>env_core_index = 0, sctlr_c = True, mte2_is_present = False\<rparr>"

definition small_rmm :: rmm_platform where
  "small_rmm = fvp_rmm 1 0x880000000 0x1c090000"

definition small_state :: rmmd where
  "small_state = \<lparr>activation_token = [None], attestation_token_read_index = 0, rmm_boot_state = BootUnknown,
     rmm_gpt = Some small_gp, rmm_world = small_world, shared_buffer = replicate 0x1000 0\<rparr>"

text \<open>A call with a function identifier and two arguments.\<close>

definition realm_call :: "u64 \<Rightarrow> u64 \<Rightarrow> u64 \<Rightarrow> SmcReturn" where
  "realm_call fid a b = \<lparr>smc_used = 18, smc_values = [fid, a, b] @ replicate 15 0\<rparr>"

lemmas rmm_eval =
  rmmd_handle_realm_smc_def boot_failure_def try_handle_realm_smc_def realm_call_def reg_values_def
  checked_index_def RMM_BOOT_COMPLETE_def clear_sve_hint_def SVE_HINT_def from_regs_def
  rmm_func_id_try_from_def rmm_func_ids_def handle_gtsi_def numeral_eq_Suc

lemma small_delegate:
  "gtsi_delegate small_env small_gp small_world 0x2000 =
     Some (Inr RmmOk,
       \<lparr>gpt_mem = (gpt_mem small_world)(0x100000 := 0x9999999999999B99),
        gpt_events = [FlushToPopa False 0xC000000000002000 0x1000, DsbOshst, TlbiRpalos 0x2000 0x1000, DsbOsh,
          FlushToPopa False 0x4000000000002000 0x1000]\<rparr>)"
  by (simp add: gtsi_delegate_def on_gpt_result_def on_flush_def flush_dcache_to_popa_range_def PAS_SHIFT_def
      small_env_def gpt_eval)

definition small_delegated :: rmmd where
  "small_delegated = small_state\<lparr>rmm_world :=
     \<lparr>gpt_mem = (gpt_mem small_world)(0x100000 := 0x9999999999999B99),
      gpt_events = [FlushToPopa False 0xC000000000002000 0x1000, DsbOshst, TlbiRpalos 0x2000 0x1000, DsbOsh,
        FlushToPopa False 0x4000000000002000 0x1000]\<rparr>\<rparr>"

lemma small_realm_delegate:
  "rmmd_handle_realm_smc small_rmm small_env (realm_call 0xC40001B0 0x2000 0) small_state =
     Some (Realm, set_from_rmm_code RmmOk (realm_call 0xC40001B0 0x2000 0), small_delegated)"
proof -
  have "from_regs (reg_values (realm_call 0xC40001B0 0x2000 0)) = Some (Inr (GtsiDelegate 0x2000))"
    by (simp add: from_regs_def reg_values_def realm_call_def checked_index_def rmm_func_id_try_from_def rmm_func_ids_def)
  moreover have "handle_rmm_call small_rmm small_env regs small_state (GtsiDelegate 0x2000) =
      Some (Inr Realm, set_from_rmm_code RmmOk regs, small_delegated)" for regs
    using small_delegate by (simp add: handle_gtsi_def small_state_def small_delegated_def)
  ultimately show ?thesis
    by (simp add: rmmd_handle_realm_smc_def try_handle_realm_smc_def boot_failure_def small_state_def
        reg_values_def realm_call_def checked_index_def RMM_BOOT_COMPLETE_def clear_sve_hint_def SVE_HINT_def)
qed

section \<open>The granule protection table\<close>

text \<open>
  C20: after a successful update of the granule of an address, a lookup of any address returns the new
  access type when the address lies in this granule, and what it returned before otherwise; the table
  stays correctly programmed.
\<close>

theorem gpt_lookup_after_set:
  assumes "gpt_ok gp w" "gpt_set gp w pa gpi = Some (Inr (), w')"
  shows "gpt_ok gp w' \<and>
    gpt_lookup gp w' q =
      (if granule_of (gp_config gp) q = granule_of (gp_config gp) pa then Some (Inr gpi) else gpt_lookup gp w q)"
  using gpt_map.update_keeps_ok [OF assms] gpt_map.lookup_update [OF assms, of q] by simp

theorem gpt_lookup_after_set_witness:
  "\<exists>w'. gpt_set small_gp small_world 0x2000 GpiRealm = Some (Inr (), w') \<and>
     gpt_lookup small_gp w' 0x2fff = Some (Inr GpiRealm) \<and>
     gpt_lookup small_gp w' 0x3000 = gpt_lookup small_gp small_world 0x3000"
proof -
  obtain w' where set: "gpt_set small_gp small_world 0x2000 GpiRealm = Some (Inr (), w')"
    by (simp add: gpt_eval)
  show ?thesis
    using gpt_lookup_after_set [OF small_ok set, of "0x2fff"] gpt_lookup_after_set [OF small_ok set, of "0x3000"] set
    by (simp add: granule_of_def small_gp_def)
qed

text \<open>
  C21: a granule descriptor built from sixteen access types holds them in order, and its two
  predicates agree with them: it is empty when all are \<open>NoAccess\<close>, and all when all are \<open>Any\<close>.
\<close>

theorem granule_descriptor_round_trip:
  assumes "length gpis = 16"
  shows "\<exists>d. granule_descriptor gpis = Some d \<and> is_granule d \<and> \<not> is_contig d \<and>
    (\<forall>j < 16. granule_gpi d j = Some (Some (gpis ! j))) \<and>
    (granule_is_empty d \<longleftrightarrow> set gpis = {NoAccess}) \<and> (granule_is_all d \<longleftrightarrow> set gpis = {GpiAny})"
proof -
  obtain d where d: "granule_descriptor gpis = Some d" and g: "\<forall>j < 16. granule_gpi d j = Some (Some (gpis ! j))"
    using granule_from_gpi [of 0 gpis 0] assms by (auto simp: granule_descriptor_def)
  have "gpi_try_from (d AND 0xF) = Some (gpis ! 0)" using g [rule_format, of 0] by (simp add: granule_gpi_def)
  then have "is_granule d \<and> \<not> is_contig d"
    by (auto simp: is_granule_def is_contig_def TAG_MASK_def CONTIG_TAG_def mask_4_u64 gpi_try_from_def)
  moreover have all: "list_all (\<lambda>j. P (granule_gpi d j)) [0..<16] \<longleftrightarrow> (\<forall>x \<in> set gpis. P (Some (Some x)))" for P
    using g assms by (auto simp: list_all_iff all_set_conv_all_nth)
  moreover have "(\<forall>x \<in> set gpis. x = y) \<longleftrightarrow> set gpis = {y}" for y
    using assms by (cases gpis) auto
  ultimately show ?thesis
    using d g by (auto simp: granule_is_empty_def granule_is_all_def all [of "\<lambda>r. r = Some None \<or> r = Some (Some NoAccess)"]
        all [of "\<lambda>r. r = Some (Some GpiAny)"])
qed

theorem granule_descriptor_round_trip_witness:
  "\<exists>d. granule_descriptor (replicate 8 GpiNonSecure @ replicate 8 GpiRealm) = Some d \<and>
     granule_gpi d 7 = Some (Some GpiNonSecure) \<and> granule_gpi d 8 = Some (Some GpiRealm) \<and> \<not> granule_is_empty d"
proof -
  have "set (replicate 8 GpiNonSecure @ replicate 8 GpiRealm) \<noteq> {NoAccess}" by simp
  then show ?thesis
    using granule_descriptor_round_trip [of "replicate 8 GpiNonSecure @ replicate 8 GpiRealm"]
    by (auto simp: nth_append)
qed

text \<open>
  C22: enabling granule protection checks leaves the registers in a state from which the table is
  found again, with the same base, length and configuration. The check is only enabled after the
  registers have been written and the TLB invalidated, and the TLB is invalidated once more.
\<close>

theorem gpt_enable_then_discover:
  assumes "enable gp config current = Some (Inr (), evs)" "fold reg_effect evs regs = (b, r)"
    "level0_base gp < 2 ^ 64" "l0_width (l0gptsz (gp_config gp)) \<le> pps_width (pps (gp_config gp))"
    "level0_len gp = 2 ^ (pps_width (pps (gp_config gp)) - l0_width (l0gptsz (gp_config gp)))"
  shows "discover r b = Inr gp"
proof -
  let ?base = "of_nat (level0_base gp) :: u64"
  have al: "?base AND mask 12 = 0"
    using assms(1) by (auto simp: enable_def Let_def split: if_splits bind_splits)
  have base: "unat (push_bit 12 (drop_bit 12 ?base)) = level0_base gp"
    unfolding aligned_round_trip [OF al] using assms(3) by (simp add: unsigned_of_nat take_bit_nat_eq_self)
  have regs: "b = drop_bit 12 ?base" "gpc r" "gpcc_pps r = pps_bits (pps (gp_config gp))"
    "gpcc_l0gptsz r = l0_bits (l0gptsz (gp_config gp))" "gpcc_pgs r = pgs_bits (pgs (gp_config gp))"
    using assms(1,2) by (cases regs; auto simp: enable_def Let_def split: if_splits bind_splits)+
  have "gp = \<lparr>level0_base = level0_base gp, level0_len = level0_len gp, gp_config =
      \<lparr>pps = pps (gp_config gp), l0gptsz = l0gptsz (gp_config gp), pgs = pgs (gp_config gp)\<rparr>\<rparr>" by simp
  then show ?thesis
    using regs base assms(4,5) by (simp add: discover_def gpt_simps push_bit_eq_mult)
qed

theorem gpt_enable_then_discover_witness:
  "\<exists>evs b r. enable small_gp (Some \<lparr>appsaa = True, tbgpcd = False, gpcp = False, sh = (), orgn = (), irgn = (),
       spad = False, nspad = False, rlpad = False\<rparr>) undefined = Some (Inr (), evs) \<and>
     fold reg_effect evs (0, undefined) = (b, r) \<and> discover r b = Inr small_gp"
proof -
  let ?c = "Some \<lparr>appsaa = True, tbgpcd = False, gpcp = False, sh = (), orgn = (), irgn = (),
       spad = False, nspad = False, rlpad = False\<rparr>"
  obtain evs where e: "enable small_gp ?c undefined = Some (Inr (), evs)"
    by (simp add: enable_def small_gp_def to_reg_def Let_def mask_numeral)
  obtain b r where f: "fold reg_effect evs (0, undefined) = (b, r)" by (metis surj_pair)
  show ?thesis using e f gpt_enable_then_discover [OF e f] by (simp add: small_gp_def)
qed

section \<open>Granule transitions\<close>

text \<open>The states of the service after a sequence of calls from any world on any core.\<close>

inductive rmm_reach :: "rmm_platform \<Rightarrow> rmmd \<Rightarrow> rmmd \<Rightarrow> bool" for P s where
  rmm_start: "rmm_reach P s s"
| rmm_realm: "rmm_reach P s s1 \<Longrightarrow> rmmd_handle_realm_smc P env regs s1 = Some (world, regs', s2) \<Longrightarrow> rmm_reach P s s2"
| rmm_non_secure: "rmm_reach P s s1 \<Longrightarrow> rmmd_handle_non_secure_smc regs s1 = Some (world, regs', s2) \<Longrightarrow> rmm_reach P s s2"

lemma non_secure_keeps: "rmmd_handle_non_secure_smc regs s = Some (world, regs', s') \<Longrightarrow> s' = s"
  by (auto simp: rmmd_handle_non_secure_smc_def split: bind_splits if_splits)

text \<open>
  C23: whatever sequence of calls the Realm and the Normal world make, an address keeps its access
  type, except that a granule may move between the Non-secure and the Realm world. In particular no
  call takes memory from the Secure world or from EL3.
\<close>

theorem rmm_granules_move_between_ns_and_realm:
  assumes "rmm_reach P s s'" "rmm_gpt s = Some gp" "gpt_ok gp (rmm_world s)"
    "gpt_lookup gp (rmm_world s) pa = Some (Inr g)"
  shows "rmm_gpt s' = Some gp \<and> gpt_ok gp (rmm_world s') \<and>
    (\<exists>g'. gpt_lookup gp (rmm_world s') pa = Some (Inr g') \<and>
       (g' = g \<or> {g, g'} = {GpiNonSecure, GpiRealm}))"
  using assms
proof (induction rule: rmm_reach.induct)
  case rmm_start
  then show ?case by simp
next
  case (rmm_realm s1 env regs world regs' s2)
  then obtain g1 where 1: "rmm_gpt s1 = Some gp" "gpt_ok gp (rmm_world s1)"
    "gpt_lookup gp (rmm_world s1) pa = Some (Inr g1)" "g1 = g \<or> {g, g1} = {GpiNonSecure, GpiRealm}" by blast
  note step = realm_smc_step [OF rmm_realm.hyps(2) 1(1,2)]
  obtain g2 where 2: "gpt_lookup gp (rmm_world s2) pa = Some (Inr g2)"
    "g2 = g1 \<or> g1 = GpiNonSecure \<and> g2 = GpiRealm \<or> g1 = GpiRealm \<and> g2 = GpiNonSecure"
    using table_step_lookup [OF 1(2) _ 1(3)] step by blast
  have "g2 = g \<or> {g, g2} = {GpiNonSecure, GpiRealm}" using 1(4) 2(2) by (auto simp: doubleton_eq_iff)
  then show ?case using step 2(1) table_step_ok by blast
next
  case (rmm_non_secure s1 regs world regs' s2)
  then show ?case using non_secure_keeps by blast
qed

theorem rmm_granules_move_between_ns_and_realm_witness:
  "rmm_reach small_rmm small_state small_delegated \<and>
   gpt_lookup small_gp (rmm_world small_delegated) 0x40000000 = Some (Inr GpiSecure)"
proof -
  have reach: "rmm_reach small_rmm small_state small_delegated"
    by (rule rmm_realm [OF rmm_start small_realm_delegate])
  have s: "rmm_gpt small_state = Some small_gp" "rmm_world small_state = small_world" by (simp_all add: small_state_def)
  show ?thesis
    using rmm_granules_move_between_ns_and_realm [OF reach s(1), of "0x40000000" GpiSecure] reach
    by (auto simp: s small_ok small_lookup_block doubleton_eq_iff)
qed

text \<open>
  C24: delegating a granule succeeds only for a Non-secure one and makes it a Realm granule, with the
  caches cleaned for the Realm address before the table changes and for the Non-secure one after it;
  undelegating it again restores every lookup.
\<close>

theorem gtsi_delegate_undelegate:
  assumes "gpt_ok gp w" "gtsi_delegate env gp w pa = Some (Inr RmmOk, w1)"
    "gtsi_undelegate env gp w1 pa = Some (r, w2)" "r = Inr RmmOk"
  shows "gpt_lookup gp w pa = Some (Inr GpiNonSecure) \<and>
    gpt_events w1 = gpt_events w @ delegate_events env gp pa \<and>
    gpt_lookup gp w1 q = (if granule_of (gp_config gp) q = granule_of (gp_config gp) pa
      then Some (Inr GpiRealm) else gpt_lookup gp w q) \<and>
    gpt_events w2 = gpt_events w1 @ undelegate_events env gp pa \<and>
    gpt_lookup gp w2 q = (if granule_of (gp_config gp) q = granule_of (gp_config gp) pa
      then Some (Inr GpiNonSecure) else gpt_lookup gp w q)"
proof -
  from gtsi_delegate_cases [OF assms(1,2)] have 1: "moved gp pa GpiNonSecure GpiRealm w w1"
    "gpt_events w1 = gpt_events w @ delegate_events env gp pa" by auto
  then have ok1: "gpt_ok gp w1" by (simp add: moved_def)
  from gtsi_undelegate_cases [OF ok1 assms(3)] assms(4) have 2: "moved gp pa GpiRealm GpiNonSecure w1 w2"
    "gpt_events w2 = gpt_events w1 @ undelegate_events env gp pa" by auto
  from 1 2 show ?thesis by (simp add: moved_def)
qed

theorem gtsi_delegate_undelegate_witness:
  "\<exists>w1 w2. gtsi_delegate small_env small_gp small_world 0x2000 = Some (Inr RmmOk, w1) \<and>
     gtsi_undelegate small_env small_gp w1 0x2000 = Some (Inr RmmOk, w2) \<and>
     gpt_lookup small_gp w1 0x2000 = Some (Inr GpiRealm) \<and> gpt_lookup small_gp w2 0x2000 = Some (Inr GpiNonSecure)"
proof -
  let ?w1 = "\<lparr>gpt_mem = (gpt_mem small_world)(0x100000 := 0x9999999999999B99),
        gpt_events = [FlushToPopa False 0xC000000000002000 0x1000, DsbOshst, TlbiRpalos 0x2000 0x1000, DsbOsh,
          FlushToPopa False 0x4000000000002000 0x1000]\<rparr>"
  have "\<exists>w2. gtsi_undelegate small_env small_gp ?w1 0x2000 = Some (Inr RmmOk, w2)"
    by (simp add: gtsi_undelegate_def on_gpt_result_def on_flush_def flush_dcache_to_popa_range_def PAS_SHIFT_def
        dsb_osh_def small_env_def gpt_eval)
  then obtain w2 where w2: "gtsi_undelegate small_env small_gp ?w1 0x2000 = Some (Inr RmmOk, w2)" by blast
  show ?thesis
    using gtsi_delegate_undelegate [OF small_ok small_delegate w2 refl, of "0x2000"] small_delegate w2 by auto
qed

section \<open>Boot\<close>

text \<open>
  The invariant of the boot state: nothing is known while no core has a token, and a booted monitor
  has given one to some core.
\<close>

definition boot_inv :: "rmmd \<Rightarrow> bool" where
  "boot_inv s \<longleftrightarrow>
     (rmm_boot_state s = BootUnknown \<longrightarrow> set (activation_token s) \<subseteq> {None}) \<and>
     (rmm_boot_state s = ColdBootDone \<longrightarrow> (\<exists>t. Some t \<in> set (activation_token s)))"

lemma boot_inv_handle_rmm_call:
  "handle_rmm_call P env regs s call = Some (r, regs', s') \<Longrightarrow> boot_inv s \<Longrightarrow> boot_inv s'"
  by (cases call)
    (auto simp: boot_inv_def handle_gtsi_def handle_attest_get_realm_key_def handle_attest_get_plat_token_def Let_def
      split: bind_splits sum.splits prod.splits if_splits)

lemma update_Some_mem: "i < length xs \<Longrightarrow> \<exists>t. Some t \<in> set (xs[i := Some x])"
  by (blast intro: set_update_memI)

lemma boot_inv_boot_complete:
  assumes "handle_boot_complete env regs s = Some (world, regs', s')" "boot_inv s"
  shows "boot_inv s'"
  using assms
  by (auto simp: handle_boot_complete_def boot_inv_def set_boot_failure_def set_boot_success_def Let_def
      intro: update_Some_mem split: if_splits option.splits bind_splits)

lemma boot_inv_realm_smc:
  assumes "rmmd_handle_realm_smc P env regs s = Some (world, regs', s')" "boot_inv s"
  shows "boot_inv s'"
proof (cases "boot_failure s")
  case False
  with assms(1) obtain r regs1 s1 where run: "try_handle_realm_smc P env regs s = Some (r, regs1, s1)"
    and out: "(case r of Inr world \<Rightarrow> (world, regs1, s1)
                | Inl code \<Rightarrow> (Realm, set_from_rmm_code code regs1, s1)) = (world, regs', s')"
    by (cases "try_handle_realm_smc P env regs s") (auto simp: rmmd_handle_realm_smc_def)
  from out have "s1 = s'" by (cases r) auto
  with try_handle_realm_smcD [OF run] assms(2) show ?thesis
    using boot_inv_boot_complete boot_inv_handle_rmm_call by blast
qed (use assms in \<open>auto simp: rmmd_handle_realm_smc_def\<close>)

text \<open>
  C25: from the creation of the service on, a call of the Normal world is passed to the Realm world
  only while the monitor has booted, which some core has confirmed with its activation token, and then
  with its registers unchanged; otherwise the caller gets \<open>NOT_SUPPORTED\<close>. Once the boot has failed on
  any core, no call changes the state again and every call of the Realm world is refused.
\<close>

theorem rmm_calls_forwarded_after_boot:
  assumes "rmmd_new P found w buf = Some s0" "rmm_reach P s0 s" "smc_return_ok regs" "smc_used regs = 18"
  shows "(\<exists>world regs'. rmmd_handle_non_secure_smc regs s = Some (world, regs', s) \<and>
      (if world = Realm
       then rmm_boot_state s = ColdBootDone \<and> (\<exists>t. Some t \<in> set (activation_token s)) \<and> regs' = regs
       else world = NonSecure \<and> reg_values regs' = [-1])) \<and>
    (rmm_boot_state s = BootError \<longrightarrow>
       rmmd_handle_realm_smc P env regs s = Some (NonSecure, set_from_i32 NOT_SUPPORTED regs, s))"
proof -
  have "boot_inv s0"
    using assms(1) by (auto simp: rmmd_new_def boot_inv_def split: bind_splits sum.splits)
  with assms(2) have inv: "boot_inv s"
    by (induction rule: rmm_reach.induct) (use boot_inv_realm_smc non_secure_keeps in blast)+
  obtain r0 where r0: "checked_index (reg_values regs) 0 = Some r0"
    using assms(3,4) by (cases "smc_values regs") (auto simp: checked_index_def reg_values_def smc_return_ok_def MAX_VALUES_def)
  have ns: "rmmd_handle_non_secure_smc regs s =
      Some (if (ucast r0 :: u32) \<in> set rmi_func_ids \<and> boot_success s then (Realm, regs, s)
            else (NonSecure, set_from_i32 NOT_SUPPORTED regs, s))"
    by (simp only: rmmd_handle_non_secure_smc_def r0 bind.bind_lunit)
  have refused: "reg_values (set_from_i32 NOT_SUPPORTED regs) = [-1]"
    using assms(3) by (simp add: smc_simps NOT_SUPPORTED_def)
  have booted: "boot_success s \<Longrightarrow> rmm_boot_state s = ColdBootDone \<and> (\<exists>t. Some t \<in> set (activation_token s))"
    using inv by (simp add: boot_inv_def boot_success_def)
  show ?thesis
    using booted refused
    by (cases "(ucast r0 :: u32) \<in> set rmi_func_ids \<and> boot_success s")
      (simp_all add: ns rmmd_handle_realm_smc_def boot_failure_def)
qed

lemma small_boot_complete:
  "rmmd_handle_realm_smc small_rmm small_env (realm_call 0xC40001CF 0 7) s0 =
     Some (NonSecure, set_from_i32 0 (realm_call 0xC40001CF 0 7),
       s0\<lparr>activation_token := [Some 7], rmm_boot_state := ColdBootDone\<rparr>)"
  if "activation_token s0 = [None]" "rmm_boot_state s0 = BootUnknown"
  using that
  by (simp add: rmmd_handle_realm_smc_def try_handle_realm_smc_def boot_failure_def handle_boot_complete_def
      reg_values_def realm_call_def checked_index_def RMM_BOOT_COMPLETE_def clear_sve_hint_def SVE_HINT_def
      small_env_def set_boot_success_def)

lemma small_new:
  "\<exists>buf. rmmd_new small_rmm (Inr small_gp) small_world (replicate 0x1000 0) =
     Some (small_state\<lparr>shared_buffer := buf\<rparr>)"
proof -
  have "\<exists>out. fvp_rme_prepare_manifest 0x880000000 0x1c090000 0xffbff000 (replicate 0x1000 0) = Some out"
    by (rule fvp_manifest_packs) (simp_all add: BUFFER_SIZE_def)
  then show ?thesis by (auto simp: rmmd_new_def small_rmm_def fvp_rmm_def small_state_def)
qed

theorem rmm_calls_forwarded_after_boot_witness:
  "\<exists>s0 s. rmmd_new small_rmm (Inr small_gp) small_world (replicate 0x1000 0) = Some s0 \<and> rmm_reach small_rmm s0 s \<and>
     rmmd_handle_non_secure_smc (realm_call 0xC4000150 0 0) s = Some (Realm, realm_call 0xC4000150 0 0, s) \<and>
     (\<exists>t. Some t \<in> set (activation_token s))"
proof -
  obtain buf where new: "rmmd_new small_rmm (Inr small_gp) small_world (replicate 0x1000 0) =
      Some (small_state\<lparr>shared_buffer := buf\<rparr>)" using small_new by blast
  let ?new = "small_state\<lparr>shared_buffer := buf\<rparr>"
  let ?s = "?new\<lparr>activation_token := [Some 7], rmm_boot_state := ColdBootDone\<rparr>"
  have reach: "rmm_reach small_rmm ?new ?s"
  proof (rule rmm_realm [OF rmm_start])
    show "rmmd_handle_realm_smc small_rmm small_env (realm_call 0xC40001CF 0 7) ?new =
        Some (NonSecure, set_from_i32 0 (realm_call 0xC40001CF 0 7), ?s)"
      by (rule small_boot_complete) (simp_all add: small_state_def)
  qed
  have run: "rmmd_handle_non_secure_smc (realm_call 0xC4000150 0 0) ?s = Some (Realm, realm_call 0xC4000150 0 0, ?s)"
    by (simp add: rmmd_handle_non_secure_smc_def realm_call_def reg_values_def checked_index_def rmi_func_ids_def
        boot_success_def)
  have "smc_return_ok (realm_call 0xC4000150 0 0)" "smc_used (realm_call 0xC4000150 0 0) = 18"
    by (simp_all add: smc_return_ok_def realm_call_def MAX_VALUES_def)
  from rmm_calls_forwarded_after_boot [OF new reach this, of small_env] run new reach show ?thesis by auto
qed

section \<open>The platform token\<close>

text \<open>
  C26: on the FVP platform, a client that asks for the platform token with a challenge of a valid size
  and a buffer of any size inside the shared buffer, and repeats the call without a challenge until
  nothing remains, receives the bytes of the token in order; the service is then ready for the next
  request. As many calls as the token has bytes are always enough.
\<close>

theorem fvp_token_reassembled:
  assumes "get_shared_buffer_slice (fvp_rmm cores d u) pa (max sz c) = Inr (off, len)" "0 < sz"
    "unat c \<in> set VALID_HASH_SIZES" "length (shared_buffer s) = RMM_SHARED_BUFFER_SIZE"
    "attestation_token_read_index s = 0" "length ATTESTATION_TOKEN \<le> fuel"
  shows "\<exists>s'. read_all fuel (fvp_rmm cores d u) regs pa sz c s = Some (ATTESTATION_TOKEN, s') \<and>
    attestation_token_read_index s' = 0"
  using fvp_token.read_all_from [OF assms(1,2,4,5)] assms(3,6) by simp

theorem fvp_token_reassembled_witness:
  "\<exists>s'. read_all 1518 small_rmm (realm_call 0 0 0) 0xffbff000 0x100 32 small_state = Some (ATTESTATION_TOKEN, s') \<and>
     attestation_token_read_index s' = 0"
proof -
  have "get_shared_buffer_slice (fvp_rmm 1 0x880000000 0x1c090000) 0xffbff000 (max 0x100 32) = Inr (0, 256)"
    by (simp add: get_shared_buffer_slice_def check_shared_buffer_range_def fvp_rmm_def RMM_SHARED_BUFFER_SIZE_def)
  from fvp_token_reassembled [OF this, of small_state 1518 "realm_call 0 0 0"] show ?thesis
    by (simp add: small_rmm_def VALID_HASH_SIZES_def small_state_def RMM_SHARED_BUFFER_SIZE_def)
qed

section \<open>The boot manifest\<close>





section \<open>Calls return\<close>

text \<open>
  C29: with a programmed table, the caches enabled and a core the service knows, every call of the Realm
  world with a full set of registers returns, unless it is one of the six commands that the service
  does not implement; and the table is programmed afterwards. The hypothesis on the platform is that
  the end of a chunk of the token fits an index.
\<close>

theorem rmm_realm_call_returns:
  assumes "rmm_gpt s = Some gp" "gpt_programmed gp (rmm_world s)" "sctlr_c env"
    "env_core_index env < length (activation_token s)" "smc_return_ok regs" "smc_used regs = 18"
    "\<forall>f \<in> unimplemented. rmm_fid f \<noteq> ucast (reg_values regs ! 0)"
    "\<forall>buf h i n rem b. read_attestation_token P buf h i = (Inr (n, rem), b) \<longrightarrow> 0 < rem \<longrightarrow> i + n < 2 ^ 64"
  shows "\<exists>world regs' s'. rmmd_handle_realm_smc P env regs s = Some (world, regs', s') \<and>
    rmm_gpt s' = Some gp \<and> gpt_programmed gp (rmm_world s')"
proof -
  let ?rs = "reg_values regs"
  have len: "length ?rs = 18" using assms(5,6) by (simp add: reg_values_def smc_return_ok_def MAX_VALUES_def)
  have "\<exists>c. from_regs ?rs = Some c \<and> (\<forall>call. c = Inr call \<longrightarrow> implemented_call call)"
  proof (cases "rmm_func_id_try_from (ucast (?rs ! 0))")
    case None
    then show ?thesis using len by (simp add: from_regs_def checked_index_def)
  next
    case (Some f)
    then have "rmm_fid f = ucast (?rs ! 0)" by (auto simp: rmm_func_id_try_from_def find_Some_iff)
    then have "f \<notin> unimplemented" using assms(7) by blast
    with Some parse_command_returns [OF len, of f] len show ?thesis by (auto simp: from_regs_def checked_index_def)
  qed
  then obtain c where c: "from_regs ?rs = Some c" "\<And>call. c = Inr call \<Longrightarrow> implemented_call call" by blast
  have "\<exists>r regs' s'. try_handle_realm_smc P env regs s = Some (r, regs', s')"
  proof (cases "clear_sve_hint (ucast (?rs ! 0)) = RMM_BOOT_COMPLETE")
    case True
    then show ?thesis
      using len assms(4) by (auto simp: try_handle_realm_smc_def handle_boot_complete_def checked_index_def Let_def
          split: option.splits)
  next
    case False
    then show ?thesis
      using len c handle_rmm_call_returns [OF assms(1-3) _ assms(8) [rule_format]]
      by (auto simp: try_handle_realm_smc_def checked_index_def split: sum.splits RmmError.splits)
  qed
  then have "\<exists>out. rmmd_handle_realm_smc P env regs s = Some out"
    by (cases "boot_failure s") (auto simp: rmmd_handle_realm_smc_def simp del: split_paired_Ex)
  then obtain world regs' s' where run: "rmmd_handle_realm_smc P env regs s = Some (world, regs', s')"
    by (metis prod_cases3)
  have "gpt_ok gp (rmm_world s)" using assms(2) by (simp add: gpt_programmed_def)
  from realm_smc_step [OF run assms(1) this] run show ?thesis using table_step_programmed [OF assms(2)] by blast
qed

lemma small_programmed: "gpt_programmed small_gp small_world"
proof -
  have "\<exists>g. gpt_lookup small_gp small_world pa = Some (Inr g)" if "unat pa < 2 ^ 32" for pa
  proof -
    let ?cfg = "gp_config small_gp"
    let ?i = "l0_resolve ?cfg pa" and ?a = "l1_resolve ?cfg pa"
    have a: "?a < 16384" using l1_resolve_less [of ?cfg pa] by (simp add: l1_len_def small_gp_def push_bit_eq_mult)
    have "?i < 4" using l0_resolve_less [of ?cfg pa] by (simp add: small_gp_def)
    then have i: "?i = 0 \<or> ?i = 1 \<or> ?i = 2 \<or> ?i = 3" by auto
    have width: "pps_width (pps ?cfg) = 32" by (simp add: small_gp_def)
    have "gpt_mem small_world (l1_cell small_gp small_world 0 ?a) = 0x9999999999999999"
      by (simp add: l1_cell_def l0_entry_at_def gpt_eval)
    moreover have "gpi_try_from (drop_bit (k * 4) 0x9999999999999999 AND 0xF) = Some GpiNonSecure" if "k < 16" for k
    proof -
      have "k \<in> set [0..<16]" using that by simp
      moreover have "list_all (\<lambda>k. gpi_try_from (drop_bit (k * 4) 0x9999999999999999 AND 0xF) = Some GpiNonSecure) [0..<16]"
        by code_simp
      ultimately show ?thesis by (simp only: list_all_iff)
    qed
    moreover have "is_granule 0x9999999999999999" "\<not> is_contig 0x9999999999999999" by (simp_all add: gpt_eval)
    moreover have "l0_entry_at small_gp small_world 0 = 0x100003" "l0_entry_at small_gp small_world 1 = 0x81"
      "l0_entry_at small_gp small_world 2 = 0xF1" "l0_entry_at small_gp small_world 3 = 0xA1"
      by (simp_all add: l0_entry_at_def gpt_eval)
    moreover have "\<not> is_block 0x100003" "is_table 0x100003" "is_block 0x81" "is_block 0xF1" "is_block 0xA1"
      "descriptor_gpi 0x81 = Some GpiSecure" "descriptor_gpi 0xF1 = Some GpiAny" "descriptor_gpi 0xA1 = Some GpiRoot"
      by (simp_all add: gpt_eval)
    ultimately show ?thesis
      using that i granule_resolve_less [of ?cfg pa] by (auto simp: gpt_lookup_cells [OF small_ok] width Let_def)
  qed
  then show ?thesis using small_ok by (simp add: gpt_programmed_def small_gp_def)
qed

theorem rmm_realm_call_returns_witness:
  "\<exists>world regs' s'. rmmd_handle_realm_smc small_rmm small_env (realm_call 0xC40001B1 0x2000 0) small_state =
     Some (world, regs', s') \<and> gpt_programmed small_gp (rmm_world s')"
proof -
  let ?regs = "realm_call 0xC40001B1 0x2000 0"
  have s: "rmm_gpt small_state = Some small_gp" "gpt_programmed small_gp (rmm_world small_state)"
    "sctlr_c small_env" "env_core_index small_env < length (activation_token small_state)"
    using small_programmed by (simp_all add: small_state_def small_env_def)
  have regs: "smc_return_ok ?regs" "smc_used ?regs = 18"
    "\<forall>f \<in> unimplemented. rmm_fid f \<noteq> ucast (reg_values ?regs ! 0)"
    by (simp_all add: smc_return_ok_def realm_call_def MAX_VALUES_def unimplemented_def reg_values_def)
  have "\<forall>buf h i n rem b. read_attestation_token small_rmm buf h i = (Inr (n, rem), b) \<longrightarrow> 0 < rem \<longrightarrow> i + n < 2 ^ 64"
    by (auto simp: small_rmm_def fvp_rmm_def fvp_read_attestation_token_def Let_def split: if_splits)
  from rmm_realm_call_returns [OF s regs this] show ?thesis by blast
qed

end
