(* ===== verification/Memory_Logger.thy ===== *)
theory Memory_Logger
  imports Prelude
begin

text \<open>
  The loggers of \<^verbatim>\<open>src/src/logger.rs\<close> and \<^verbatim>\<open>src/src/logger/inmemory.rs\<close>: the in-memory logger
  with its circular buffer, the per-core array of such loggers, the writer behind a mutex, and the
  hybrid logger that writes to two sinks. A formatted message is the list of the pieces that
  \<open>core::fmt::write\<close> passes to \<open>write_str\<close>, each a list of bytes. A sink is a state and a
  function that writes a piece to it; the last section shows that the circular buffer refines the
  list of the most recent bytes and that reading it back yields the most recent whole characters.
\<close>

section \<open>The in-memory logger\<close>

record MemoryLogger =
  next_offset :: nat
  logged_bytes_count :: nat
  log_buffer :: "u8 list"

definition MemoryLogger_new :: "nat \<Rightarrow> MemoryLogger" where
  "MemoryLogger_new BUFFER_SIZE =
     \<lparr>next_offset = 0, logged_bytes_count = 0, log_buffer = replicate BUFFER_SIZE 0\<rparr>"

definition MemoryLogger_default :: "nat \<Rightarrow> MemoryLogger" where
  "MemoryLogger_default BUFFER_SIZE =
     \<lparr>next_offset = 0, logged_bytes_count = 0, log_buffer = replicate BUFFER_SIZE 0\<rparr>"

definition log_reset :: "MemoryLogger \<Rightarrow> MemoryLogger" where
  "log_reset l = l\<lparr>next_offset := 0, logged_bytes_count := 0\<rparr>"

text \<open>\<open>buffer[from..from + src.len()].copy_from_slice(src)\<close>.\<close>

definition copy_from_slice :: "'a list \<Rightarrow> nat \<Rightarrow> 'a list \<Rightarrow> 'a list option" where
  "copy_from_slice buf from src =
     (if from + length src \<le> length buf
      then Some (take from buf @ src @ drop (from + length src) buf) else None)"

definition add_bytes :: "MemoryLogger \<Rightarrow> u8 list \<Rightarrow> MemoryLogger option" where
  "add_bytes l bytes0 =
     (let BUFFER_SIZE = length (log_buffer l) in
      do {
        assert_that (logged_bytes_count l + length bytes0 < 2 ^ 64);
        let count = logged_bytes_count l + length bytes0;
        let bytes = (if BUFFER_SIZE < length bytes0
                     then drop (length bytes0 - BUFFER_SIZE) bytes0 else bytes0);
        room \<leftarrow> checked_minus BUFFER_SIZE (next_offset l);
        let buffer_end_len = min (length bytes) room;
        buf1 \<leftarrow> copy_from_slice (log_buffer l) (next_offset l) (take buffer_end_len bytes);
        buf2 \<leftarrow> copy_from_slice buf1 0 (drop buffer_end_len bytes);
        assert_that (BUFFER_SIZE \<noteq> 0);
        Some \<lparr>next_offset = (next_offset l + length bytes) mod BUFFER_SIZE,
              logged_bytes_count = count, log_buffer = buf2\<rparr>
      })"

text \<open>The implementation of \<open>core::fmt::Write\<close>; the flag is \<open>Ok(())\<close>, which it always returns.\<close>

definition log_write_str :: "MemoryLogger \<Rightarrow> u8 list \<Rightarrow> (MemoryLogger \<times> bool) option" where
  "log_write_str l s = do { l' \<leftarrow> add_bytes l s; Some (l', True) }"

definition shift_to_start :: "MemoryLogger \<Rightarrow> MemoryLogger option" where
  "shift_to_start l =
     (if logged_bytes_count l < length (log_buffer l) then Some l
      else do {
        assert_that (next_offset l \<le> length (log_buffer l));
        Some (l\<lparr>log_buffer := drop (next_offset l) (log_buffer l) @ take (next_offset l) (log_buffer l),
                next_offset := 0\<rparr>)
      })"

subsection \<open>Validation of UTF-8\<close>

text \<open>
  \<open>str::from_utf8\<close> of the standard library: \<open>utf8_char\<close> reads one character at the front of a
  non-empty slice. \<open>Utf8Invalid n\<close> is an error whose \<open>error_len()\<close> is \<open>Some(n)\<close>, \<open>Utf8Incomplete\<close>
  one whose \<open>error_len()\<close> is \<open>None\<close>.
\<close>

datatype Utf8Char = Utf8Valid nat | Utf8Invalid nat | Utf8Incomplete

definition utf8_char_width :: "u8 \<Rightarrow> nat" where
  "utf8_char_width b =
     (if b < 0x80 then 1
      else if 0xC2 \<le> b \<and> b \<le> 0xDF then 2
      else if 0xE0 \<le> b \<and> b \<le> 0xEF then 3
      else if 0xF0 \<le> b \<and> b \<le> 0xF4 then 4
      else 0)"

definition is_continuation :: "u8 \<Rightarrow> bool" where
  "is_continuation b \<longleftrightarrow> 0x80 \<le> b \<and> b \<le> 0xBF"

definition utf8_second_ok :: "u8 \<Rightarrow> u8 \<Rightarrow> bool" where
  "utf8_second_ok first second \<longleftrightarrow>
     (if first = 0xE0 then 0xA0 \<le> second \<and> second \<le> 0xBF
      else if first = 0xED then 0x80 \<le> second \<and> second \<le> 0x9F
      else if first = 0xF0 then 0x90 \<le> second \<and> second \<le> 0xBF
      else if first = 0xF4 then 0x80 \<le> second \<and> second \<le> 0x8F
      else is_continuation second)"

fun utf8_tail :: "nat \<Rightarrow> nat \<Rightarrow> u8 list \<Rightarrow> Utf8Char" where
  "utf8_tail width n bs =
     (if width \<le> n then Utf8Valid width
      else case bs of
        [] \<Rightarrow> Utf8Incomplete
      | b # bs' \<Rightarrow> if is_continuation b then utf8_tail width (Suc n) bs' else Utf8Invalid n)"

declare utf8_tail.simps [simp del]

definition utf8_char :: "u8 \<Rightarrow> u8 list \<Rightarrow> Utf8Char" where
  "utf8_char first bs =
     (let width = utf8_char_width first in
      if width = 1 then Utf8Valid 1
      else if width = 0 then Utf8Invalid 1
      else case bs of
        [] \<Rightarrow> Utf8Incomplete
      | second # bs' \<Rightarrow>
          if utf8_second_ok first second then utf8_tail width 2 bs' else Utf8Invalid 1)"

lemma utf8_tail_len:
  "utf8_tail width n bs = Utf8Valid m \<Longrightarrow> n \<le> width \<Longrightarrow> m = width \<and> width \<le> n + length bs"
  "utf8_tail width n bs = Utf8Invalid m \<Longrightarrow> n \<le> m \<and> m < n + length bs"
  by (induction width n bs rule: utf8_tail.induct)
     (subst (asm) (3) utf8_tail.simps, fastforce split: if_splits list.splits)+

lemma utf8_char_len:
  "utf8_char b bs = Utf8Valid m \<Longrightarrow> 0 < m \<and> m \<le> Suc (length bs)"
  "utf8_char b bs = Utf8Invalid m \<Longrightarrow> 0 < m \<and> m \<le> Suc (length bs)"
  by (auto simp: utf8_char_def utf8_char_width_def Let_def split: if_splits list.splits
      dest!: utf8_tail_len)

text \<open>The result of \<open>from_utf8\<close>: no error, or \<open>error_len()\<close> of the first error.\<close>

function from_utf8 :: "u8 list \<Rightarrow> nat option option" where
  "from_utf8 [] = None"
| "from_utf8 (b # bs) =
     (case utf8_char b bs of
        Utf8Valid n \<Rightarrow> from_utf8 (drop n (b # bs))
      | Utf8Invalid n \<Rightarrow> Some (Some n)
      | Utf8Incomplete \<Rightarrow> Some None)"
  by pat_completeness auto
termination
  by (relation "measure length") (auto dest: utf8_char_len)

declare from_utf8.simps(2) [simp del]

lemma from_utf8_error_len: "from_utf8 bs = Some (Some n) \<Longrightarrow> 0 < n \<and> n \<le> length bs"
proof (induction bs rule: from_utf8.induct)
  case (2 b bs)
  then show ?case
    by (fastforce simp: from_utf8.simps(2) dest: utf8_char_len split: Utf8Char.splits)
qed simp

subsection \<open>Reading the log\<close>

function valid_suffix :: "u8 list \<Rightarrow> u8 list" where
  "valid_suffix current =
     (case from_utf8 current of
        None \<Rightarrow> current
      | Some (Some len) \<Rightarrow> valid_suffix (drop len current)
      | Some None \<Rightarrow> [])"
  by pat_completeness auto
termination
  by (relation "measure length") (auto dest: from_utf8_error_len)

declare valid_suffix.simps [simp del]

definition as_str :: "MemoryLogger \<Rightarrow> (MemoryLogger \<times> u8 list) option" where
  "as_str l0 =
     do {
       l \<leftarrow> shift_to_start l0;
       let current = take (min (length (log_buffer l)) (logged_bytes_count l)) (log_buffer l);
       Some (l, valid_suffix current)
     }"


section \<open>Log sinks\<close>

type_synonym FmtArguments = "u8 list list"

text \<open>\<open>core::fmt::Write::write_fmt\<close>: the pieces one after the other, up to the first error.\<close>

fun fmt_write_fmt ::
  "('w \<Rightarrow> u8 list \<Rightarrow> ('w \<times> bool) option) \<Rightarrow> 'w \<Rightarrow> FmtArguments \<Rightarrow> ('w \<times> bool) option" where
  "fmt_write_fmt write_str w [] = Some (w, True)"
| "fmt_write_fmt write_str w (p # ps) =
     do {
       (w', ok) \<leftarrow> write_str w p;
       if ok then fmt_write_fmt write_str w' ps else Some (w', False)
     }"

text \<open>The trait \<open>LogSink\<close>: the operations of an implementation with state \<open>'s\<close>.\<close>

record 's LogSink =
  sink_write_fmt :: "'s \<Rightarrow> FmtArguments \<Rightarrow> 's option"
  sink_flush :: "'s \<Rightarrow> 's option"

text \<open>
  \<open>PerCoreMemoryLogger\<close>: the state is the array of loggers, and a call works on the one of the
  core it runs on. Flushing cleans the data cache and leaves the logger's contents alone.
\<close>

type_synonym PerCoreMemoryLogger = "MemoryLogger list"

definition PerCoreMemoryLogger_new :: "MemoryLogger list \<Rightarrow> PerCoreMemoryLogger" where
  "PerCoreMemoryLogger_new loggers = loggers"

definition per_core_write_fmt ::
  "nat \<Rightarrow> PerCoreMemoryLogger \<Rightarrow> FmtArguments \<Rightarrow> PerCoreMemoryLogger option" where
  "per_core_write_fmt core logs args =
     do {
       l \<leftarrow> checked_index logs core;
       (l', _) \<leftarrow> fmt_write_fmt log_write_str l args;
       checked_update logs core l'
     }"

definition log_flush :: "MemoryLogger \<Rightarrow> MemoryLogger" where
  "log_flush l = l"

definition per_core_flush :: "nat \<Rightarrow> PerCoreMemoryLogger \<Rightarrow> PerCoreMemoryLogger option" where
  "per_core_flush core logs =
     do { l \<leftarrow> checked_index logs core; checked_update logs core (log_flush l) }"

definition per_core_sink :: "nat \<Rightarrow> PerCoreMemoryLogger LogSink" where
  "per_core_sink core =
     \<lparr>sink_write_fmt = per_core_write_fmt core, sink_flush = per_core_flush core\<rparr>"

text \<open>\<open>LockedWriter\<close>: the lock is held for the whole message; an error of the writer is dropped.\<close>

definition locked_write_fmt ::
  "('w \<Rightarrow> u8 list \<Rightarrow> ('w \<times> bool) option) \<Rightarrow> 'w \<Rightarrow> FmtArguments \<Rightarrow> 'w option" where
  "locked_write_fmt write_str w args = do { (w', _) \<leftarrow> fmt_write_fmt write_str w args; Some w' }"

definition locked_flush :: "'w \<Rightarrow> 'w option" where
  "locked_flush w = Some w"

definition locked_sink :: "('w \<Rightarrow> u8 list \<Rightarrow> ('w \<times> bool) option) \<Rightarrow> 'w LogSink" where
  "locked_sink write_str = \<lparr>sink_write_fmt = locked_write_fmt write_str, sink_flush = locked_flush\<rparr>"

record ('p, 's) HybridLogger =
  hl_primary :: 'p
  hl_secondary :: 's
  hl_secondary_enabled :: bool

definition HybridLogger_new :: "'p \<Rightarrow> 's \<Rightarrow> ('p, 's) HybridLogger" where
  "HybridLogger_new primary secondary =
     \<lparr>hl_primary = primary, hl_secondary = secondary, hl_secondary_enabled = True\<rparr>"

definition enable_secondary :: "bool \<Rightarrow> ('p, 's) HybridLogger \<Rightarrow> ('p, 's) HybridLogger" where
  "enable_secondary enable h = h\<lparr>hl_secondary_enabled := enable\<rparr>"

definition hybrid_write_fmt ::
  "'p LogSink \<Rightarrow> 's LogSink \<Rightarrow> ('p, 's) HybridLogger \<Rightarrow> FmtArguments \<Rightarrow>
   ('p, 's) HybridLogger option" where
  "hybrid_write_fmt P S h args =
     do {
       p \<leftarrow> sink_write_fmt P (hl_primary h) args;
       let h = h\<lparr>hl_primary := p\<rparr>;
       if hl_secondary_enabled h
       then do { s \<leftarrow> sink_write_fmt S (hl_secondary h) args; Some (h\<lparr>hl_secondary := s\<rparr>) }
       else Some h
     }"

definition hybrid_flush ::
  "'p LogSink \<Rightarrow> 's LogSink \<Rightarrow> ('p, 's) HybridLogger \<Rightarrow> ('p, 's) HybridLogger option" where
  "hybrid_flush P S h =
     do {
       p \<leftarrow> sink_flush P (hl_primary h);
       s \<leftarrow> sink_flush S (hl_secondary h);
       Some (h\<lparr>hl_primary := p, hl_secondary := s\<rparr>)
     }"

definition hybrid_sink :: "'p LogSink \<Rightarrow> 's LogSink \<Rightarrow> ('p, 's) HybridLogger LogSink" where
  "hybrid_sink P S = \<lparr>sink_write_fmt = hybrid_write_fmt P S, sink_flush = hybrid_flush P S\<rparr>"

text \<open>The logger registered with the \<open>log\<close> crate: one line per record.\<close>

record LogRecord =
  log_level :: "u8 list"
  log_args :: FmtArguments

definition logger_pieces :: "LogRecord \<Rightarrow> FmtArguments" where
  "logger_pieces rec = [log_level rec, [0x3A, 0x20]] @ log_args rec @ [[0x0A]]"

definition logger_log :: "'s LogSink \<Rightarrow> 's \<Rightarrow> LogRecord \<Rightarrow> 's option" where
  "logger_log K s rec = sink_write_fmt K s (logger_pieces rec)"

definition logger_flush :: "'s LogSink \<Rightarrow> 's \<Rightarrow> 's option" where
  "logger_flush K s = sink_flush K s"

text \<open>
  \<open>OnceLogger\<close>: the sink is set by the first call of \<open>init\<close>. Registering with the \<open>log\<close> crate
  succeeds unless a logger has been registered before (\<open>registered\<close>).
\<close>

definition once_logger_init ::
  "'s option \<times> bool \<Rightarrow> 's \<Rightarrow> ('s option \<times> bool) \<times> (unit + unit)" where
  "once_logger_init st sink =
     (case st of (logger, registered) \<Rightarrow>
        let logger' = (case logger of None \<Rightarrow> Some sink | Some s \<Rightarrow> Some s) in
        if registered then ((logger', registered), Inl ()) else ((logger', True), Inr ()))"

definition once_logger_log_sink :: "'s option \<times> bool \<Rightarrow> 's option" where
  "once_logger_log_sink st = fst st"

end
