(* ===== verification/Logger_Laws.thy ===== *)
theory Logger_Laws
  imports Memory_Logger
begin

text \<open>
  The circular buffer refines the list of the most recent bytes: \<open>ring_contents\<close> reads the bytes
  of a well-formed logger oldest first, and every operation of the logger acts on it as on a list
  bounded to the last \<open>BUFFER_SIZE\<close> bytes. The interface of a sink that keeps a bounded suffix of
  what is written to it is the locale \<open>suffix_writer\<close>.
\<close>

section \<open>The last bytes of a list\<close>

definition last_bytes :: "nat \<Rightarrow> 'a list \<Rightarrow> 'a list" where
  "last_bytes n xs = drop (length xs - n) xs"

lemma length_last_bytes [simp]: "length (last_bytes n xs) = min n (length xs)"
  by (simp add: last_bytes_def)

lemma last_bytes_short: "length xs \<le> n \<Longrightarrow> last_bytes n xs = xs"
  by (simp add: last_bytes_def)

lemma last_bytes_Nil [simp]: "last_bytes n [] = []"
  by (simp add: last_bytes_def)

lemma last_bytes_append: "last_bytes n (last_bytes n xs @ ys) = last_bytes n (xs @ ys)"
  by (cases "length xs \<le> n") (auto simp: last_bytes_def add.commute)

lemma last_bytes_append_last: "last_bytes n (xs @ last_bytes n ys) = last_bytes n (xs @ ys)"
  by (cases "length ys \<le> n") (auto simp: last_bytes_def)

lemma last_bytes_long: "n \<le> length ys \<Longrightarrow> last_bytes n (xs @ ys) = last_bytes n ys"
  by (simp add: last_bytes_def)

section \<open>The circular buffer\<close>

definition ring_ok :: "nat \<Rightarrow> MemoryLogger \<Rightarrow> bool" where
  "ring_ok N l \<longleftrightarrow>
     length (log_buffer l) = N \<and> next_offset l < N \<and>
     (logged_bytes_count l < N \<longrightarrow> next_offset l = logged_bytes_count l)"

definition ring_contents :: "MemoryLogger \<Rightarrow> u8 list" where
  "ring_contents l =
     (if logged_bytes_count l < length (log_buffer l) then take (logged_bytes_count l) (log_buffer l)
      else drop (next_offset l) (log_buffer l) @ take (next_offset l) (log_buffer l))"

lemma ring_ok_new: "0 < N \<Longrightarrow> ring_ok N (MemoryLogger_new N)"
  by (simp add: ring_ok_def MemoryLogger_new_def)

lemma ring_contents_new: "ring_contents (MemoryLogger_new N) = []"
  by (simp add: ring_contents_def MemoryLogger_new_def)

lemma ring_ok_reset: "ring_ok N l \<Longrightarrow> ring_ok N (log_reset l)"
  by (auto simp: ring_ok_def log_reset_def)

lemma ring_contents_reset: "ring_ok N l \<Longrightarrow> ring_contents (log_reset l) = []"
  by (auto simp: ring_contents_def log_reset_def ring_ok_def)

text \<open>The bytes that fit: the write up to the end of the buffer, and the rest from its start.\<close>

lemma add_bytes_value:
  assumes ok: "ring_ok N l" and count: "logged_bytes_count l + length bs < 2 ^ 64"
  defines "ys \<equiv> last_bytes N bs" and "o1 \<equiv> next_offset l" and "buf \<equiv> log_buffer l"
  shows "add_bytes l bs =
    Some \<lparr>next_offset = (o1 + length ys) mod N, logged_bytes_count = logged_bytes_count l + length bs,
          log_buffer = (if o1 + length ys \<le> N then take o1 buf @ ys @ drop (o1 + length ys) buf
                        else drop (N - o1) ys @ drop (o1 + length ys - N) (take o1 buf @ take (N - o1) ys))\<rparr>"
proof -
  have N: "length buf = N" "o1 < N" using ok by (auto simp: ring_ok_def buf_def o1_def)
  have ys: "(if N < length bs then drop (length bs - N) bs else bs) = ys"
    by (simp add: ys_def last_bytes_def)
  have len: "length ys \<le> N" by (simp add: ys_def)
  show ?thesis
  proof (cases "o1 + length ys \<le> N")
    case True
    then show ?thesis
      using N count ys
      by (simp add: add_bytes_def Let_def panic_simps copy_from_slice_def flip: o1_def buf_def)
  next
    case False
    then have "min (length ys) (N - o1) = N - o1" by simp
    with False show ?thesis
      using N count ys len
      by (simp add: add_bytes_def Let_def panic_simps copy_from_slice_def add.commute [of _ o1]
          flip: o1_def buf_def)
  qed
qed

text \<open>Overwriting the oldest bytes of a full buffer.\<close>

lemma ring_overwrite:
  assumes N: "length buf = N" "o1 < N" "length ys \<le> N"
  shows "o1 + length ys < N \<Longrightarrow>
      drop (o1 + length ys) buf @ take o1 buf @ ys = last_bytes N ((drop o1 buf @ take o1 buf) @ ys)"
    and "o1 + length ys = N \<Longrightarrow> take o1 buf @ ys = last_bytes N ((drop o1 buf @ take o1 buf) @ ys)"
    and "N < o1 + length ys \<Longrightarrow>
      drop (o1 + length ys - N) (take o1 buf) @ ys = last_bytes N ((drop o1 buf @ take o1 buf) @ ys)"
  using N by (simp_all add: last_bytes_def add.commute)

lemma add_bytes_refines:
  assumes ok: "ring_ok N l" and count: "logged_bytes_count l + length bs < 2 ^ 64"
  obtains l' where "add_bytes l bs = Some l'" "ring_ok N l'"
    "ring_contents l' = last_bytes N (ring_contents l @ bs)"
    "logged_bytes_count l' = logged_bytes_count l + length bs"
proof -
  define ys where "ys = last_bytes N bs"
  define o1 where "o1 = next_offset l"
  define buf where "buf = log_buffer l"
  define c where "c = logged_bytes_count l"
  have N: "length buf = N" "o1 < N" "c < N \<Longrightarrow> o1 = c"
    using ok by (auto simp: ring_ok_def buf_def o1_def c_def)
  have len: "length ys = min N (length bs)" by (simp add: ys_def)
  let ?l = "\<lparr>next_offset = (o1 + length ys) mod N, logged_bytes_count = c + length bs,
          log_buffer = (if o1 + length ys \<le> N then take o1 buf @ ys @ drop (o1 + length ys) buf
                        else drop (N - o1) ys @ drop (o1 + length ys - N) (take o1 buf @ take (N - o1) ys))\<rparr>"
  have val: "add_bytes l bs = Some ?l"
    using add_bytes_value [OF ok count] by (simp add: ys_def o1_def buf_def c_def)
  have mod: "(o1 + length ys) mod N =
      (if o1 + length ys < N then o1 + length ys else o1 + length ys - N)"
  proof (cases "o1 + length ys < N")
    case False
    then have "(o1 + length ys) mod N = (o1 + length ys - N) mod N" by (simp add: le_mod_geq)
    moreover have "o1 + length ys - N < N" using N(2) len by simp
    ultimately show ?thesis using False by simp
  qed simp
  have cont: "ring_contents l = (if c < N then take c buf else drop o1 buf @ take o1 buf)"
    using N by (simp add: ring_contents_def buf_def o1_def c_def)
  have lst: "last_bytes N (ring_contents l @ bs) = last_bytes N (ring_contents l @ ys)"
    by (simp add: ys_def last_bytes_append_last)
  have "ring_ok N ?l"
    using N len by (auto simp: ring_ok_def mod)
  moreover have "ring_contents ?l = last_bytes N (ring_contents l @ ys)"
  proof (cases "c + length bs < N")
    case True
    then show ?thesis
      using N len unfolding cont by (simp add: ring_contents_def last_bytes_short)
  next
    case False
    have le: "length ys \<le> N" using len by simp
    let ?all = "(drop o1 buf @ take o1 buf) @ ys"
    have "c < N \<Longrightarrow> N \<le> length (take o1 buf @ ys)" using False N len by simp
    then have "last_bytes N (ring_contents l @ ys) = last_bytes N ?all"
      using N(3) last_bytes_long [of N "take o1 buf @ ys" "drop o1 buf"]
      by (cases "c < N") (simp_all add: cont)
    moreover have "ring_contents ?l = last_bytes N ?all"
      using ring_overwrite [OF N(1,2) le] N(1,2) le False
      by (cases "o1 + length ys" N rule: linorder_cases) (simp_all add: ring_contents_def mod)
    ultimately show ?thesis by simp
  qed
  ultimately show ?thesis
    using that [OF val] lst by (simp add: c_def)
qed


lemma shift_to_start_refines:
  assumes ok: "ring_ok N l"
  obtains l' where "shift_to_start l = Some l'" "ring_ok N l'"
    "log_buffer l' = ring_contents l @ drop (logged_bytes_count l) (log_buffer l)"
    "ring_contents l' = ring_contents l" "logged_bytes_count l' = logged_bytes_count l"
  using that [of "the (shift_to_start l)"] ok
  by (auto simp: shift_to_start_def ring_ok_def ring_contents_def)

lemma length_ring_contents: "ring_ok N l \<Longrightarrow> length (ring_contents l) = min N (logged_bytes_count l)"
  by (auto simp: ring_ok_def ring_contents_def)

lemma as_str_contents:
  assumes ok: "ring_ok N l"
  obtains l' where "as_str l = Some (l', valid_suffix (ring_contents l))" "ring_ok N l'"
    "ring_contents l' = ring_contents l" "logged_bytes_count l' = logged_bytes_count l"
proof -
  obtain l' where l': "shift_to_start l = Some l'" "ring_ok N l'"
      "log_buffer l' = ring_contents l @ drop (logged_bytes_count l) (log_buffer l)"
      "ring_contents l' = ring_contents l" "logged_bytes_count l' = logged_bytes_count l"
    using shift_to_start_refines [OF ok] .
  have "length (log_buffer l') = N" using l'(2) by (simp add: ring_ok_def)
  then have "take (min (length (log_buffer l')) (logged_bytes_count l')) (log_buffer l') = ring_contents l"
    using l'(3,5) length_ring_contents [OF ok] by simp
  with l' show ?thesis by (intro that [of l']) (simp_all add: as_str_def Let_def)
qed

section \<open>Writers that keep a suffix\<close>

locale suffix_writer =
  fixes write_str :: "'w \<Rightarrow> u8 list \<Rightarrow> ('w \<times> bool) option"
    and kept :: "'w \<Rightarrow> u8 list"
    and ok :: "'w \<Rightarrow> bool"
    and written :: "'w \<Rightarrow> nat"
    and keep :: "u8 list \<Rightarrow> u8 list"
  assumes write_ok: "ok w \<Longrightarrow> written w + length p < 2 ^ 64 \<Longrightarrow>
      \<exists>w'. write_str w p = Some (w', True) \<and> ok w' \<and> kept w' = keep (kept w @ p) \<and>
        written w' = written w + length p"
    and keep_append: "keep (keep xs @ ys) = keep (xs @ ys)"
    and keep_kept: "ok w \<Longrightarrow> keep (kept w) = kept w"
begin

lemma write_fmt:
  "ok w \<Longrightarrow> written w + length (concat ps) < 2 ^ 64 \<Longrightarrow>
     \<exists>w'. fmt_write_fmt write_str w ps = Some (w', True) \<and> ok w' \<and>
       kept w' = keep (kept w @ concat ps) \<and> written w' = written w + length (concat ps)"
proof (induction ps arbitrary: w)
  case Nil
  then show ?case by (simp add: keep_kept)
next
  case (Cons p ps)
  have "written w + length p < 2 ^ 64" using Cons.prems(2) by simp
  from write_ok [OF Cons.prems(1) this] obtain w' where
    w': "write_str w p = Some (w', True)" "ok w'" "kept w' = keep (kept w @ p)"
      "written w' = written w + length p" by blast
  have "written w' + length (concat ps) < 2 ^ 64" using Cons.prems(2) w'(4) by simp
  from Cons.IH [OF w'(2) this] show ?case
    using w' by (auto simp: keep_append)
qed

end

lemma ring_contents_kept: "ring_ok N l \<Longrightarrow> last_bytes N (ring_contents l) = ring_contents l"
  by (simp add: last_bytes_short length_ring_contents)

interpretation ring: suffix_writer log_write_str ring_contents "ring_ok N" logged_bytes_count
  "last_bytes N" for N
proof
  fix w and p :: "u8 list"
  assume *: "ring_ok N w" "logged_bytes_count w + length p < 2 ^ 64"
  obtain l' where "add_bytes w p = Some l'" "ring_ok N l'"
      "ring_contents l' = last_bytes N (ring_contents w @ p)"
      "logged_bytes_count l' = logged_bytes_count w + length p"
    using add_bytes_refines [OF *] .
  then show "\<exists>w'. log_write_str w p = Some (w', True) \<and> ring_ok N w' \<and>
      ring_contents w' = last_bytes N (ring_contents w @ p) \<and>
      logged_bytes_count w' = logged_bytes_count w + length p"
    by (simp add: log_write_str_def)
qed (simp_all add: last_bytes_append ring_contents_kept)

section \<open>Whole characters\<close>

definition utf8_whole :: "u8 list \<Rightarrow> bool" where
  "utf8_whole c = (case c of [] \<Rightarrow> False | b # bs \<Rightarrow> utf8_char b bs = Utf8Valid (length c))"

lemma utf8_tail_whole:
  "utf8_tail width n bs = Utf8Valid (n + length bs) \<Longrightarrow> n \<le> width \<Longrightarrow>
     (\<forall>b \<in> set bs. is_continuation b) \<and> utf8_tail width n (bs @ xs) = Utf8Valid (n + length bs)"
proof (induction bs arbitrary: n)
  case Nil
  then show ?case by (auto simp: utf8_tail.simps [of width n] split: if_splits)
next
  case (Cons b bs)
  have width: "width = n + length (b # bs)"
    using utf8_tail_len(1) [OF Cons.prems] by simp
  then have "is_continuation b" "utf8_tail width (Suc n) bs = Utf8Valid (Suc n + length bs)"
    using Cons.prems(1) utf8_tail.simps [of width n "b # bs"] by (auto split: if_splits)
  with Cons.IH [of "Suc n"] width show ?case
    using utf8_tail.simps [of width n "(b # bs) @ xs"] by simp
qed

lemma utf8_second_continuation:
  "utf8_second_ok b c \<Longrightarrow> is_continuation c"
  by (auto simp: utf8_second_ok_def is_continuation_def word_le_nat_alt split: if_splits)

lemma utf8_char_whole:
  assumes "utf8_char b bs = Utf8Valid (Suc (length bs))"
  shows "(\<forall>c \<in> set bs. is_continuation c) \<and> utf8_char b (bs @ xs) = Utf8Valid (Suc (length bs))"
proof (cases bs)
  case Nil
  with assms show ?thesis
    by (auto simp: utf8_char_def Let_def split: if_splits)
next
  case (Cons c cs)
  let ?w = "utf8_char_width b"
  have w: "?w \<noteq> 0" "?w \<noteq> 1" "utf8_second_ok b c" and t: "utf8_tail ?w 2 cs = Utf8Valid (2 + length cs)"
    using assms Cons by (auto simp: utf8_char_def Let_def split: if_splits)
  have "2 \<le> ?w" using w(1,2) by simp
  from utf8_tail_whole [OF t this] show ?thesis
    using w Cons by (auto simp: utf8_char_def Let_def dest: utf8_second_continuation)
qed

lemma from_utf8_whole: "utf8_whole c \<Longrightarrow> from_utf8 (c @ xs) = from_utf8 xs"
  using utf8_char_whole [of "hd c" "tl c"]
  by (cases c) (auto simp: utf8_whole_def from_utf8.simps(2))

lemma from_utf8_concat: "(\<forall>c \<in> set cs. utf8_whole c) \<Longrightarrow> from_utf8 (concat cs) = None"
  by (induction cs) (simp_all add: from_utf8_whole)

lemma valid_suffix_valid: "from_utf8 xs = None \<Longrightarrow> valid_suffix xs = xs"
  by (simp add: valid_suffix.simps)

lemma utf8_char_width_continuation: "is_continuation b \<Longrightarrow> utf8_char_width b = 0"
  by (auto simp: is_continuation_def utf8_char_width_def word_le_nat_alt word_less_nat_alt)

lemma valid_suffix_continuation:
  "(\<forall>b \<in> set ks. is_continuation b) \<Longrightarrow> valid_suffix (ks @ xs) = valid_suffix xs"
proof (induction ks)
  case (Cons k ks)
  then have "utf8_char k (ks @ xs) = Utf8Invalid 1"
    by (simp add: utf8_char_def utf8_char_width_continuation)
  then have "valid_suffix ((k # ks) @ xs) = valid_suffix (ks @ xs)"
    by (subst valid_suffix.simps) (simp add: from_utf8.simps(2))
  with Cons show ?case by simp
qed simp

lemma valid_suffix_whole_cut:
  assumes "utf8_whole c" "0 < k" "\<forall>c \<in> set cs. utf8_whole c"
  shows "valid_suffix (drop k c @ concat cs) = concat cs"
proof -
  have "\<forall>b \<in> set (drop k c). is_continuation b"
    using assms(1,2) utf8_char_whole [of "hd c" "tl c"]
    by (cases c; cases k) (auto simp: utf8_whole_def dest: in_set_dropD)
  then show ?thesis
    using assms(3) by (simp add: valid_suffix_continuation valid_suffix_valid from_utf8_concat)
qed

lemma valid_suffix_last_bytes:
  "(\<forall>c \<in> set cs. utf8_whole c) \<Longrightarrow>
     \<exists>j. valid_suffix (last_bytes N (concat cs)) = concat (drop j cs) \<and>
       length (concat (drop j cs)) \<le> N \<and> (\<forall>i < j. N < length (concat (drop i cs)))"
proof (induction cs)
  case Nil
  then show ?case by (intro exI [of _ 0]) (simp add: valid_suffix_valid)
next
  case (Cons c cs)
  show ?case
  proof (cases "length (concat (c # cs)) \<le> N")
    case True
    then show ?thesis
      using from_utf8_concat [OF Cons.prems]
      by (intro exI [of _ 0]) (simp add: last_bytes_short valid_suffix_valid)
  next
    case False
    obtain j where j: "valid_suffix (last_bytes N (concat cs)) = concat (drop j cs)"
        "length (concat (drop j cs)) \<le> N" "\<forall>i < j. N < length (concat (drop i cs))"
      using Cons by auto
    have least: "\<forall>i < Suc j. N < length (concat (drop i (c # cs)))"
      using j(3) False by (auto simp: less_Suc_eq_0_disj)
    have "valid_suffix (last_bytes N (concat (c # cs))) = concat (drop j cs)"
    proof (cases "N \<le> length (concat cs)")
      case True
      then have "last_bytes N (concat (c # cs)) = last_bytes N (concat cs)"
        by (simp add: last_bytes_def)
      with j show ?thesis by simp
    next
      case short: False
      then have "last_bytes N (concat (c # cs)) = drop (length (concat (c # cs)) - N) c @ concat cs"
        by (simp add: last_bytes_def)
      then have "valid_suffix (last_bytes N (concat (c # cs))) = concat cs"
        using valid_suffix_whole_cut [of c _ cs] Cons.prems False by simp
      moreover have "concat (drop j cs) = concat cs"
        using j(1) short Cons.prems from_utf8_concat [of cs]
        by (simp add: last_bytes_short valid_suffix_valid)
      ultimately show ?thesis by simp
    qed
    with j(2) least show ?thesis by (intro exI [of _ "Suc j"]) simp
  qed
qed

end
