(* ===== verification/Logger_Properties.thy ===== *)
theory Logger_Properties
  imports Logger_Laws
begin

text \<open>
  The properties of the loggers: what the hybrid logger of the QEMU platform holds after any
  sequence of records from any cores, and what reading an in-memory log returns.
\<close>

section \<open>Sequences of events\<close>

text \<open>
  What the firmware does with its logger: a record from a core, a flush from a core, and enabling
  or disabling the secondary sink.
\<close>

datatype LogEvent = LogRec nat LogRecord | LogFlush nat | LogEnable bool

fun log_event ::
  "('w \<Rightarrow> u8 list \<Rightarrow> ('w \<times> bool) option) \<Rightarrow> LogEvent \<Rightarrow> (PerCoreMemoryLogger, 'w) HybridLogger \<Rightarrow>
   (PerCoreMemoryLogger, 'w) HybridLogger option" where
  "log_event uart (LogRec core rec) h =
     logger_log (hybrid_sink (per_core_sink core) (locked_sink uart)) h rec"
| "log_event uart (LogFlush core) h =
     logger_flush (hybrid_sink (per_core_sink core) (locked_sink uart)) h"
| "log_event uart (LogEnable enable) h = Some (enable_secondary enable h)"

fun log_events ::
  "('w \<Rightarrow> u8 list \<Rightarrow> ('w \<times> bool) option) \<Rightarrow> LogEvent list \<Rightarrow> (PerCoreMemoryLogger, 'w) HybridLogger \<Rightarrow>
   (PerCoreMemoryLogger, 'w) HybridLogger option" where
  "log_events uart [] h = Some h"
| "log_events uart (e # es) h = do { h' \<leftarrow> log_event uart e h; log_events uart es h' }"

text \<open>The bytes a core has logged, and the cores that log.\<close>

fun event_bytes :: "nat \<Rightarrow> LogEvent \<Rightarrow> u8 list" where
  "event_bytes c (LogRec core rec) = (if core = c then concat (logger_pieces rec) else [])"
| "event_bytes c _ = []"

definition core_bytes :: "nat \<Rightarrow> LogEvent list \<Rightarrow> u8 list" where
  "core_bytes c es = concat (map (event_bytes c) es)"

fun event_core_ok :: "nat \<Rightarrow> LogEvent \<Rightarrow> bool" where
  "event_core_ok n (LogRec core rec) \<longleftrightarrow> core < n"
| "event_core_ok n (LogFlush core) \<longleftrightarrow> core < n"
| "event_core_ok n (LogEnable _) \<longleftrightarrow> True"

text \<open>The logs of the cores hold the given bytes.\<close>

definition logs_hold :: "nat \<Rightarrow> nat \<Rightarrow> (nat \<Rightarrow> u8 list) \<Rightarrow> PerCoreMemoryLogger \<Rightarrow> bool" where
  "logs_hold N n hist logs \<longleftrightarrow>
     length logs = n \<and>
     (\<forall>c < n. ring_ok N (logs ! c) \<and> ring_contents (logs ! c) = last_bytes N (hist c) \<and>
        logged_bytes_count (logs ! c) = length (hist c))"

lemma per_core_write_holds:
  assumes h: "logs_hold N n hist logs" and c: "core < n"
    and len: "length (hist core) + length (concat args) < 2 ^ 64"
  shows "\<exists>logs'. per_core_write_fmt core logs args = Some logs' \<and>
    logs_hold N n (hist(core := hist core @ concat args)) logs'"
proof -
  have l: "ring_ok N (logs ! core)" "core < length logs"
      "ring_contents (logs ! core) = last_bytes N (hist core)"
      "logged_bytes_count (logs ! core) = length (hist core)"
    using h c by (auto simp: logs_hold_def)
  have "logged_bytes_count (logs ! core) + length (concat args) < 2 ^ 64" using l(4) len by simp
  from ring.write_fmt [OF l(1) this] obtain l' where
    "fmt_write_fmt log_write_str (logs ! core) args = Some (l', True)" "ring_ok N l'"
    "ring_contents l' = last_bytes N (ring_contents (logs ! core) @ concat args)"
    "logged_bytes_count l' = logged_bytes_count (logs ! core) + length (concat args)" by blast
  then show ?thesis
    using l h by (auto simp: per_core_write_fmt_def panic_simps logs_hold_def nth_list_update
        last_bytes_append)
qed

lemma fmt_write_fmt_total:
  "(\<forall>w p. uart w p \<noteq> None) \<Longrightarrow> \<exists>w' ok. fmt_write_fmt uart w ps = Some (w', ok)"
proof (induction ps arbitrary: w)
  case (Cons p ps)
  obtain w' ok where "uart w p = Some (w', ok)" using Cons.prems by fastforce
  with Cons.IH [OF Cons.prems, of w'] show ?case by auto
qed auto

lemma log_event_holds:
  assumes uart: "\<forall>w p. uart w p \<noteq> None" and h: "logs_hold N n hist (hl_primary h)"
    and e: "event_core_ok n e" and len: "\<forall>c. length (hist c) + length (event_bytes c e) < 2 ^ 64"
  shows "\<exists>h'. log_event uart e h = Some h' \<and>
    logs_hold N n (\<lambda>c. hist c @ event_bytes c e) (hl_primary h')"
proof (cases e)
  case (LogRec core rec)
  have "length (hist core) + length (concat (logger_pieces rec)) < 2 ^ 64"
    using len [rule_format, of core] LogRec by simp
  from per_core_write_holds [OF h _ this] e LogRec obtain logs' where
    logs': "per_core_write_fmt core (hl_primary h) (logger_pieces rec) = Some logs'"
      "logs_hold N n (hist(core := hist core @ concat (logger_pieces rec))) logs'" by auto
  obtain w' ok where "fmt_write_fmt uart (hl_secondary h) (logger_pieces rec) = Some (w', ok)"
    using fmt_write_fmt_total [OF uart] by blast
  moreover have "hist(core := hist core @ concat (logger_pieces rec)) = (\<lambda>c. hist c @ event_bytes c e)"
    using LogRec by auto
  ultimately show ?thesis
    using logs' LogRec
    by (simp add: logger_log_def hybrid_sink_def hybrid_write_fmt_def per_core_sink_def
        locked_sink_def locked_write_fmt_def Let_def)
next
  case (LogFlush core)
  then show ?thesis
    using h e by (simp add: logger_flush_def hybrid_sink_def hybrid_flush_def per_core_sink_def
        locked_sink_def locked_flush_def per_core_flush_def log_flush_def panic_simps logs_hold_def)
next
  case (LogEnable b)
  then show ?thesis using h by (simp add: enable_secondary_def)
qed

lemma log_events_hold:
  assumes uart: "\<forall>w p. uart w p \<noteq> None"
  shows "logs_hold N n hist (hl_primary h) \<Longrightarrow> (\<forall>e \<in> set es. event_core_ok n e) \<Longrightarrow>
     (\<forall>c. length (hist c) + length (core_bytes c es) < 2 ^ 64) \<Longrightarrow>
     \<exists>h'. log_events uart es h = Some h' \<and> logs_hold N n (\<lambda>c. hist c @ core_bytes c es) (hl_primary h')"
proof (induction es arbitrary: h hist)
  case Nil
  then show ?case by (simp add: core_bytes_def)
next
  case (Cons e es)
  have split: "core_bytes c (e # es) = event_bytes c e @ core_bytes c es" for c
    by (simp add: core_bytes_def)
  have "length (hist c) + length (event_bytes c e) < 2 ^ 64" for c
    using Cons.prems(3) [rule_format, of c] by (simp add: split)
  with log_event_holds [OF uart Cons.prems(1)] Cons.prems(2) obtain h' where
    h': "log_event uart e h = Some h'" "logs_hold N n (\<lambda>c. hist c @ event_bytes c e) (hl_primary h')"
    by force
  have "length (hist c @ event_bytes c e) + length (core_bytes c es) < 2 ^ 64" for c
    using Cons.prems(3) [rule_format, of c] by (simp add: split)
  with Cons.IH [OF h'(2)] Cons.prems(2) show ?case
    using h'(1) by (simp add: split)
qed

section \<open>Properties\<close>

text \<open>
  C30. The loggers of the QEMU platform refine one bounded log per core: from fresh loggers, with a
  serial port whose driver does not panic, any sequence of records, flushes and switches of the
  secondary sink returns, and each core's circular buffer then holds exactly the last
  \<open>BUFFER_SIZE\<close> bytes of the lines that core logged, whatever the other cores logged and whether or
  not the serial port was enabled or failed.
\<close>

theorem per_core_log_refines_suffix:
  assumes "0 < N" and "\<forall>w p. uart w p \<noteq> None"
    and "\<forall>e \<in> set es. event_core_ok n e" and "\<forall>c. length (core_bytes c es) < 2 ^ 64"
  shows "\<exists>h. log_events uart es (HybridLogger_new
        (PerCoreMemoryLogger_new (replicate n (MemoryLogger_new N))) w1) = Some h \<and>
      (\<forall>c < n. ring_contents (hl_primary h ! c) = last_bytes N (core_bytes c es))"
proof -
  let ?new = "HybridLogger_new (PerCoreMemoryLogger_new (replicate n (MemoryLogger_new N))) w1"
  have "logged_bytes_count (MemoryLogger_new N) = 0" by (simp add: MemoryLogger_new_def)
  then have "logs_hold N n (\<lambda>_. []) (hl_primary ?new)"
    using ring_ok_new [OF assms(1)]
    by (simp add: logs_hold_def ring_contents_new HybridLogger_new_def PerCoreMemoryLogger_new_def)
  from log_events_hold [OF assms(2) this assms(3)] assms(4) obtain h where
    "log_events uart es ?new = Some h" "logs_hold N n (\<lambda>c. [] @ core_bytes c es) (hl_primary h)"
    by auto
  then show ?thesis by (simp add: logs_hold_def)
qed

theorem per_core_log_refines_suffix_witness:
  "\<exists>h. log_events (\<lambda>w p. Some (w @ p, length w < 4))
        [LogRec 0 \<lparr>log_level = [0x45], log_args = [[0x61], [0x62]]\<rparr>, LogEnable False,
         LogRec 1 \<lparr>log_level = [0x49], log_args = [[0x63]]\<rparr>, LogFlush 0,
         LogRec 0 \<lparr>log_level = [0x57], log_args = []\<rparr>]
        (HybridLogger_new (PerCoreMemoryLogger_new (replicate 2 (MemoryLogger_new 5))) []) = Some h \<and>
      (\<forall>c < 2. ring_contents (hl_primary h ! c) =
         last_bytes 5 (core_bytes c
           [LogRec 0 \<lparr>log_level = [0x45], log_args = [[0x61], [0x62]]\<rparr>, LogEnable False,
            LogRec 1 \<lparr>log_level = [0x49], log_args = [[0x63]]\<rparr>, LogFlush 0,
            LogRec 0 \<lparr>log_level = [0x57], log_args = []\<rparr>]))"
  by (rule per_core_log_refines_suffix) (simp_all add: core_bytes_def logger_pieces_def)

text \<open>
  C31. Reading a log returns its most recent whole characters: after any sequence of writes whose
  text is a sequence of UTF-8 characters, \<open>as_str\<close> returns without a panic the longest run of whole
  characters at the end of the text that fits the buffer, and leaves the bytes of the log as they
  were.
\<close>

theorem as_str_returns_recent_characters:
  assumes "0 < N" and "concat pieces = concat chars" and "\<forall>c \<in> set chars. utf8_whole c"
    and "length (concat pieces) < 2 ^ 64"
  shows "\<exists>l l' j. fmt_write_fmt log_write_str (MemoryLogger_new N) pieces = Some (l, True) \<and>
      as_str l = Some (l', concat (drop j chars)) \<and> ring_contents l' = ring_contents l \<and>
      length (concat (drop j chars)) \<le> N \<and> (\<forall>i < j. N < length (concat (drop i chars)))"
proof -
  have new: "ring_ok N (MemoryLogger_new N)" "ring_contents (MemoryLogger_new N) = []"
      "logged_bytes_count (MemoryLogger_new N) + length (concat pieces) < 2 ^ 64"
    using assms(1,4) ring_ok_new ring_contents_new by (auto simp: MemoryLogger_new_def)
  from ring.write_fmt [OF new(1,3)] new(2) assms(2) obtain l where
    l: "fmt_write_fmt log_write_str (MemoryLogger_new N) pieces = Some (l, True)" "ring_ok N l"
      "ring_contents l = last_bytes N (concat chars)" by auto
  obtain l' where l': "as_str l = Some (l', valid_suffix (ring_contents l))"
      "ring_contents l' = ring_contents l"
    using as_str_contents [OF l(2)] .
  obtain j where "valid_suffix (ring_contents l) = concat (drop j chars)"
      "length (concat (drop j chars)) \<le> N" "\<forall>i < j. N < length (concat (drop i chars))"
    using valid_suffix_last_bytes [OF assms(3)] l(3) by auto
  with l l' show ?thesis by (intro exI [of _ l] exI [of _ l'] exI [of _ j]) simp
qed


theorem as_str_returns_recent_characters_witness:
  "\<exists>l l' j. fmt_write_fmt log_write_str (MemoryLogger_new 4) [[0x61, 0xE2], [0x82, 0xAC, 0xC3, 0xA9]] =
        Some (l, True) \<and>
      as_str l = Some (l', concat (drop j [[0x61], [0xE2, 0x82, 0xAC], [0xC3, 0xA9]])) \<and>
      ring_contents l' = ring_contents l \<and>
      length (concat (drop j [[0x61], [0xE2, 0x82, 0xAC], [0xC3, 0xA9 :: u8]])) \<le> 4 \<and>
      (\<forall>i < j. 4 < length (concat (drop i [[0x61], [0xE2, 0x82, 0xAC], [0xC3, 0xA9 :: u8]])))"
  by (rule as_str_returns_recent_characters)
     (simp_all add: utf8_whole_def utf8_char_def utf8_char_width_def utf8_second_ok_def
       is_continuation_def utf8_tail.simps)

end
