(* ===== verification/Sysregs.thy ===== *)
theory Sysregs
  imports Smccc
begin

text \<open>
  The system registers that the firmware saves, restores and configures. A register is a 64-bit
  word. The registers that one context structure of the source saves form one bank, a record with
  the fields of that structure; the live registers of a core are the record \<open>hw\<close> of all banks
  (\<^verbatim>\<open>src/src/context.rs\<close>, \<^verbatim>\<open>src/src/cpu_extensions\<close>).

  The bits of the registers and the fields of the identification registers are defined by the
  \<open>arm_sysregs\<close> crate, which is not part of the repository: they are the records \<open>arm_sysregs\<close> and
  \<open>cpu_features\<close>, parameters of the definitions that use them.
\<close>

section \<open>Bit flags\<close>

text \<open>The operators of a \<open>bitflags\<close> type: difference and inclusion.\<close>

definition flags_minus :: "u64 \<Rightarrow> u64 \<Rightarrow> u64" where
  "flags_minus a b = a AND NOT b"

definition flags_contain :: "u64 \<Rightarrow> u64 \<Rightarrow> bool" where
  "flags_contain a b \<longleftrightarrow> a AND b = b"

lemma bit_flags_minus [simp]: "bit (flags_minus a b) n \<longleftrightarrow> bit a n \<and> \<not> bit b n"
  using bit_imp_le_length [of a n] by (auto simp: flags_minus_def bit_simps)

lemma flags_contain_bits: "flags_contain a b \<longleftrightarrow> (\<forall>n. bit b n \<longrightarrow> bit a n)"
proof
  assume "flags_contain a b"
  then have "bit (a AND b) n \<longleftrightarrow> bit b n" for n by (simp add: flags_contain_def)
  then show "\<forall>n. bit b n \<longrightarrow> bit a n" by (auto simp: bit_simps)
next
  assume "\<forall>n. bit b n \<longrightarrow> bit a n"
  then show "flags_contain a b" by (auto simp: flags_contain_def bit_eq_iff bit_simps)
qed

section \<open>Banks of system registers\<close>

record El1Sysregs =
  spsr_el1 :: u64
  elr_el1 :: u64
  sctlr_el1 :: u64
  tcr_el1 :: u64
  cpacr_el1 :: u64
  csselr_el1 :: u64
  sp_el1 :: u64
  esr_el1 :: u64
  ttbr0_el1 :: u64
  ttbr1_el1 :: u64
  mair_el1 :: u64
  amair_el1 :: u64
  actlr_el1 :: u64
  tpidr_el1 :: u64
  tpidr_el0 :: u64
  tpidrro_el0 :: u64
  par_el1 :: u64
  far_el1 :: u64
  afsr0_el1 :: u64
  afsr1_el1 :: u64
  contextidr_el1 :: u64
  vbar_el1 :: u64
  mdccint_el1 :: u64
  mdscr_el1 :: u64

record El2Sysregs =
  actlr_el2 :: u64
  afsr0_el2 :: u64
  afsr1_el2 :: u64
  amair_el2 :: u64
  cnthctl_el2 :: u64
  cntvoff_el2 :: u64
  contextidr_el2 :: u64
  cptr_el2 :: u64
  elr_el2 :: u64
  esr_el2 :: u64
  far_el2 :: u64
  hacr_el2 :: u64
  hcr_el2 :: u64
  hpfar_el2 :: u64
  hstr_el2 :: u64
  icc_sre_el2 :: u64
  ich_hcr_el2 :: u64
  ich_vmcr_el2 :: u64
  mair_el2 :: u64
  mdcr_el2 :: u64
  sctlr_el2 :: u64
  spsr_el2 :: u64
  sp_el2 :: u64
  tcr_el2 :: u64
  tpidr_el2 :: u64
  ttbr0_el2 :: u64
  ttbr1_el2 :: u64
  vbar_el2 :: u64
  vmpidr_el2 :: u64
  vpidr_el2 :: u64
  vtcr_el2 :: u64
  vttbr_el2 :: u64

record HcxCpuContext =
  hcrx_el2 :: u64

record Sctlr2Sel1CpuContext =
  sctlr2_el1 :: u64

record Sctlr2Sel2CpuContext =
  sctlr2_el2 :: u64

record Tcr2Sel1CpuContext =
  tcr2_el1 :: u64

record Tcr2Sel2CpuContext =
  tcr2_el2 :: u64

record Mte2Sel1CpuContext =
  tfsre0_el1 :: u64
  tfsr_el1 :: u64
  rgsr_el1 :: u64
  gcr_el1 :: u64

record Mte2Sel2CpuContext =
  tfsr_el2 :: u64

record RasSel1CpuContext =
  disr_el1 :: u64

record RasSel2CpuContext =
  vdisr_el2 :: u64
  vsesr_el2 :: u64

record FgtCpuContext =
  hafgrtr_el2 :: u64
  hdfgrtr_el2 :: u64
  hdfgwtr_el2 :: u64
  hfgitr_el2 :: u64
  hfgrtr_el2 :: u64
  hfgwtr_el2 :: u64

record Fgt2CpuContext =
  hfgitr2_el2 :: u64
  hfgrtr2_el2 :: u64
  hfgwtr2_el2 :: u64
  hdfgrtr2_el2 :: u64
  hdfgwtr2_el2 :: u64

record MpamCpuContext =
  mpam2_el2 :: u64
  mpamhcr_el2 :: u64
  mpamvpmv_el2 :: u64
  mpamvpm0_el2 :: u64
  mpamvpm1_el2 :: u64
  mpamvpm2_el2 :: u64
  mpamvpm3_el2 :: u64
  mpamvpm4_el2 :: u64
  mpamvpm5_el2 :: u64
  mpamvpm6_el2 :: u64
  mpamvpm7_el2 :: u64

record AmuContext =
  amcr_el0 :: u64
  amuserenr_el0 :: u64
  amevcntr00_el0 :: u64
  amevcntr01_el0 :: u64
  amevcntr02_el0 :: u64
  amevcntr03_el0 :: u64
  amevcntr10_el0 :: u64
  amevcntr11_el0 :: u64
  amevcntr12_el0 :: u64
  amevcntr13_el0 :: u64
  amevcntr14_el0 :: u64
  amevcntr15_el0 :: u64
  amevcntr16_el0 :: u64
  amevcntr17_el0 :: u64
  amevcntr18_el0 :: u64
  amevcntr19_el0 :: u64
  amevcntr110_el0 :: u64
  amevcntr111_el0 :: u64
  amevcntr112_el0 :: u64
  amevcntr113_el0 :: u64
  amevcntr114_el0 :: u64
  amevcntr115_el0 :: u64

text \<open>
  The vector unit. A vector register is 2048 bits wide, the largest length of the architecture; the
  register \<open>Q\<close> with the same number is its low 128 bits, and writing it clears the rest.
\<close>

type_synonym vector = "2048 word"
type_synonym predicate = "256 word"
type_synonym u128 = "128 word"

record vector_unit =
  vu_z :: "vector list"
  vu_p :: "predicate list"
  vu_ffr :: predicate
  vu_fpsr :: u64
  vu_fpcr :: u64
  vu_svcr :: u64

record hw =
  hw_el1 :: El1Sysregs
  hw_el2 :: El2Sysregs
  hw_hcx :: HcxCpuContext
  hw_sctlr2_1 :: Sctlr2Sel1CpuContext
  hw_sctlr2_2 :: Sctlr2Sel2CpuContext
  hw_tcr2_1 :: Tcr2Sel1CpuContext
  hw_tcr2_2 :: Tcr2Sel2CpuContext
  hw_mte2_1 :: Mte2Sel1CpuContext
  hw_mte2_2 :: Mte2Sel2CpuContext
  hw_ras_1 :: RasSel1CpuContext
  hw_ras_2 :: RasSel2CpuContext
  hw_fgt :: FgtCpuContext
  hw_fgt2 :: Fgt2CpuContext
  hw_mpam :: MpamCpuContext
  hw_amu :: AmuContext
  hw_vector :: vector_unit
  hw_scr_el3 :: u64
  hw_cptr_el3 :: u64
  hw_mpam3_el3 :: u64
  hw_pmcr_el0 :: u64
  hw_zcr_el3 :: u64
  hw_smcr_el3 :: u64

section \<open>Empty banks\<close>

text \<open>The associated constants \<open>EMPTY\<close>.\<close>

definition El1Sysregs_EMPTY :: El1Sysregs where
  "El1Sysregs_EMPTY =
     \<lparr>spsr_el1 = 0, elr_el1 = 0, sctlr_el1 = 0, tcr_el1 = 0, cpacr_el1 = 0, csselr_el1 = 0,
      sp_el1 = 0, esr_el1 = 0, ttbr0_el1 = 0, ttbr1_el1 = 0, mair_el1 = 0, amair_el1 = 0,
      actlr_el1 = 0, tpidr_el1 = 0, tpidr_el0 = 0, tpidrro_el0 = 0, par_el1 = 0, far_el1 = 0,
      afsr0_el1 = 0, afsr1_el1 = 0, contextidr_el1 = 0, vbar_el1 = 0, mdccint_el1 = 0, mdscr_el1
      = 0\<rparr>"

definition El2Sysregs_EMPTY :: El2Sysregs where
  "El2Sysregs_EMPTY =
     \<lparr>actlr_el2 = 0, afsr0_el2 = 0, afsr1_el2 = 0, amair_el2 = 0, cnthctl_el2 = 0, cntvoff_el2 =
      0, contextidr_el2 = 0, cptr_el2 = 0, elr_el2 = 0, esr_el2 = 0, far_el2 = 0, hacr_el2 = 0,
      hcr_el2 = 0, hpfar_el2 = 0, hstr_el2 = 0, icc_sre_el2 = 0, ich_hcr_el2 = 0, ich_vmcr_el2 =
      0, mair_el2 = 0, mdcr_el2 = 0, sctlr_el2 = 0, spsr_el2 = 0, sp_el2 = 0, tcr_el2 = 0,
      tpidr_el2 = 0, ttbr0_el2 = 0, ttbr1_el2 = 0, vbar_el2 = 0, vmpidr_el2 = 0, vpidr_el2 = 0,
      vtcr_el2 = 0, vttbr_el2 = 0\<rparr>"

definition HcxCpuContext_EMPTY :: HcxCpuContext where
  "HcxCpuContext_EMPTY =
     \<lparr>hcrx_el2 = 0\<rparr>"

definition Sctlr2Sel1CpuContext_EMPTY :: Sctlr2Sel1CpuContext where
  "Sctlr2Sel1CpuContext_EMPTY =
     \<lparr>sctlr2_el1 = 0\<rparr>"

definition Sctlr2Sel2CpuContext_EMPTY :: Sctlr2Sel2CpuContext where
  "Sctlr2Sel2CpuContext_EMPTY =
     \<lparr>sctlr2_el2 = 0\<rparr>"

definition Tcr2Sel1CpuContext_EMPTY :: Tcr2Sel1CpuContext where
  "Tcr2Sel1CpuContext_EMPTY =
     \<lparr>tcr2_el1 = 0\<rparr>"

definition Tcr2Sel2CpuContext_EMPTY :: Tcr2Sel2CpuContext where
  "Tcr2Sel2CpuContext_EMPTY =
     \<lparr>tcr2_el2 = 0\<rparr>"

definition Mte2Sel1CpuContext_EMPTY :: Mte2Sel1CpuContext where
  "Mte2Sel1CpuContext_EMPTY =
     \<lparr>tfsre0_el1 = 0, tfsr_el1 = 0, rgsr_el1 = 0, gcr_el1 = 0\<rparr>"

definition Mte2Sel2CpuContext_EMPTY :: Mte2Sel2CpuContext where
  "Mte2Sel2CpuContext_EMPTY =
     \<lparr>tfsr_el2 = 0\<rparr>"

definition RasSel1CpuContext_EMPTY :: RasSel1CpuContext where
  "RasSel1CpuContext_EMPTY =
     \<lparr>disr_el1 = 0\<rparr>"

definition RasSel2CpuContext_EMPTY :: RasSel2CpuContext where
  "RasSel2CpuContext_EMPTY =
     \<lparr>vdisr_el2 = 0, vsesr_el2 = 0\<rparr>"

definition Fgt2CpuContext_EMPTY :: Fgt2CpuContext where
  "Fgt2CpuContext_EMPTY =
     \<lparr>hfgitr2_el2 = 0, hfgrtr2_el2 = 0, hfgwtr2_el2 = 0, hdfgrtr2_el2 = 0, hdfgwtr2_el2 = 0\<rparr>"

definition MpamCpuContext_EMPTY :: MpamCpuContext where
  "MpamCpuContext_EMPTY =
     \<lparr>mpam2_el2 = 0, mpamhcr_el2 = 0, mpamvpmv_el2 = 0, mpamvpm0_el2 = 0, mpamvpm1_el2 = 0,
      mpamvpm2_el2 = 0, mpamvpm3_el2 = 0, mpamvpm4_el2 = 0, mpamvpm5_el2 = 0, mpamvpm6_el2 = 0,
      mpamvpm7_el2 = 0\<rparr>"

definition AmuContext_EMPTY :: AmuContext where
  "AmuContext_EMPTY =
     \<lparr>amcr_el0 = 0, amuserenr_el0 = 0, amevcntr00_el0 = 0, amevcntr01_el0 = 0, amevcntr02_el0 =
      0, amevcntr03_el0 = 0, amevcntr10_el0 = 0, amevcntr11_el0 = 0, amevcntr12_el0 = 0,
      amevcntr13_el0 = 0, amevcntr14_el0 = 0, amevcntr15_el0 = 0, amevcntr16_el0 = 0,
      amevcntr17_el0 = 0, amevcntr18_el0 = 0, amevcntr19_el0 = 0, amevcntr110_el0 = 0,
      amevcntr111_el0 = 0, amevcntr112_el0 = 0, amevcntr113_el0 = 0, amevcntr114_el0 = 0,
      amevcntr115_el0 = 0\<rparr>"

section \<open>The register crate\<close>

datatype ExceptionLevel = El0 | El1 | El2 | El3

datatype StackPointer = SpEl0 | SpElX

record scr_bits =
  SCR_NS :: u64
  SCR_NSE :: u64
  SCR_HCE :: u64
  SCR_SIF :: u64
  SCR_RW :: u64
  SCR_APK :: u64
  SCR_API :: u64
  SCR_ECVEN :: u64
  SCR_EEL2 :: u64
  SCR_RES1 :: u64
  SCR_FGTEN :: u64
  SCR_ST :: u64
  SCR_FIQ :: u64
  SCR_IRQ :: u64
  SCR_HXEN :: u64
  SCR_SCTLR2EN :: u64
  SCR_TCR2EN :: u64
  SCR_ATA :: u64
  SCR_FGTEN2 :: u64
  SCR_ENTP2 :: u64

record cptr_bits =
  CPTR_TAM :: u64
  CPTR_TTA :: u64
  CPTR_TFP :: u64
  CPTR_EZ :: u64
  CPTR_ESM :: u64

record mpam3_bits =
  MPAM3_TRAPLOWER :: u64
  MPAM3_MPAMEN :: u64

record spsr_bits =
  SPSR_D :: u64
  SPSR_A :: u64
  SPSR_I :: u64
  SPSR_F :: u64
  SPSR_M_AARCH64_EL2H :: u64
  SPSR_M_AARCH64_EL1H :: u64
  SPSR_M_4 :: u64
  SPSR_PAN :: u64
  SPSR_SSBS :: u64
  SPSR_ALLINT :: u64
  SPSR_DIT :: u64
  SPSR_TCO :: u64
  SPSR_NZCV :: u64
  SPSR_PM :: u64
  SPSR_EXLOCK :: u64

record mdcr_bits =
  MDCR_SDD :: u64
  MDCR_SPD32 :: u64
  MDCR_TTRF :: u64
  MDCR_SCCD :: u64
  MDCR_MCCD :: u64
  MDCR_ENPM2 :: u64
  MDCR_MPMX :: u64
  MDCR_SPME :: u64
  MDCR_TPM :: u64
  MDCR_MTPME :: u64
  MDCR_NSTB_EN :: u64
  MDCR_NSTB_SS :: u64
  MDCR_NSTBE :: u64
  MDCR_NSPB_NS :: u64
  MDCR_ENPMSN :: u64
  MDCR_ENPMS3 :: u64
  MDCR_NSPBE :: u64

record pmcr_bits =
  PMCR_DP :: u64
  PMCR_C :: u64
  PMCR_P :: u64
  PMCR_X :: u64
  PMCR_E :: u64

record icc_sre_bits =
  ICC_SRE_DIB :: u64
  ICC_SRE_DFB :: u64
  ICC_SRE_ENABLE :: u64
  ICC_SRE_SRE :: u64

record sctlr_bits =
  SCTLR_LSMAOE :: u64
  SCTLR_NTLSMD :: u64
  SCTLR_SPAN :: u64
  SCTLR_EIS :: u64
  SCTLR_TSCXT :: u64
  SCTLR_EOS :: u64
  SCTLR_DSSBS :: u64
  SCTLR_SPINTMASK :: u64

record fgt_bits =
  FGT_NBRBINJ :: u64
  FGT_NBRBIALL :: u64
  FGT_R_NACCDATA_EL1 :: u64
  FGT_R_NSMPRI_EL1 :: u64
  FGT_R_NTPIDR2_EL0 :: u64
  FGT_W_NACCDATA_EL1 :: u64
  FGT_W_NSMPRI_EL1 :: u64
  FGT_W_NTPIDR2_EL0 :: u64

record smcr_bits =
  SMCR_FA64 :: u64
  SMCR_EZT0 :: u64

record arm_sysregs =
  scr :: scr_bits
  cptr :: cptr_bits
  mpam3 :: mpam3_bits
  spsr :: spsr_bits
  mdcr :: mdcr_bits
  pmcr :: pmcr_bits
  icc_sre :: icc_sre_bits
  sctlr :: sctlr_bits
  fgt :: fgt_bits
  smcr :: smcr_bits
  CPTR_EL2_RES1 :: u64
  TCR_EL2_RES1 :: u64
  VMPIDR_EL2_RES1 :: u64
  VTCR_EL2_RES1 :: u64
  PAR_EL1_RES1 :: u64
  HCR_TGE :: u64
  GCSCR_EXLOCKEN :: u64
  ESR_IL :: u64
  SVCR_SM :: u64
  smcr_from_ssve_vector_len :: "u64 \<Rightarrow> u64"
  spsr_exception_level :: "u64 \<Rightarrow> ExceptionLevel"
  spsr_stack_pointer :: "u64 \<Rightarrow> StackPointer"

text \<open>
  What the identification registers say about the core.
\<close>

record cpu_features =
  feat_vhe :: bool
  feat_hcx :: bool
  feat_sctlr2 :: bool
  feat_tcr2 :: bool
  feat_mte :: bool
  feat_mte2 :: bool
  feat_fgt2 :: bool
  feat_amuv1 :: bool
  feat_mpam :: bool
  mpam_has_hcr :: bool
  mpam_vpmr_max :: nat
  amu_cg1nc :: nat
  feat_trbe :: bool
  feat_spe :: bool
  feat_trf :: bool
  feat_sys_reg_trace :: bool
  feat_mtpmu :: bool
  feat_ssbs :: bool
  feat_nmi :: bool
  feat_ebep :: bool
  feat_gcs :: bool
  feat_sve :: bool
  feat_sme :: bool
  feat_sme2 :: bool
  feat_fa64 :: bool
  id_fp :: u8
  id_advsimd :: u8

text \<open>The Cargo features that select code at compile time.\<close>

record build_cfg =
  sel2 :: bool
  rme :: bool

end
