(* ===== verification/Cpu_Context.thy ===== *)
theory Cpu_Context
  imports Sysregs
begin

text \<open>
  The saved state of a core, \<^verbatim>\<open>src/src/context.rs\<close>: the context of each world with its
  general-purpose registers, EL3 state and lower EL system registers, and the saving and restoring
  of the latter. \<open>core\<close> is everything one core has: its live registers, its contexts and the
  contexts of the CPU extensions on that core. The structures that are per core in the source are
  only ever accessed by their own core.
\<close>

section \<open>The context of a world\<close>

definition world_index :: "World \<Rightarrow> nat" where
  "world_index w = (case w of Secure \<Rightarrow> 0 | NonSecure \<Rightarrow> 1 | Realm \<Rightarrow> 2)"

definition CPU_DATA_CONTEXT_NUM :: "build_cfg \<Rightarrow> nat" where
  "CPU_DATA_CONTEXT_NUM build = (if rme build then 3 else 2)"

text \<open>An array with one value for each world, indexed by the world.\<close>

type_synonym 'a PerWorld = "World \<Rightarrow> 'a"

record GpRegs =
  registers :: "u64 list"

definition GPREGS_COUNT :: nat where "GPREGS_COUNT = 32"

definition GpRegs_EMPTY :: GpRegs where
  "GpRegs_EMPTY = \<lparr>registers = replicate GPREGS_COUNT 0\<rparr>"

fun write_values :: "nat \<Rightarrow> u64 list \<Rightarrow> u64 list \<Rightarrow> u64 list option" where
  "write_values i [] regs = Some regs"
| "write_values i (v # vs) regs = do { regs' \<leftarrow> checked_update regs i v; write_values (Suc i) vs regs' }"

definition write_return_value :: "GpRegs \<Rightarrow> SmcReturn \<Rightarrow> GpRegs option" where
  "write_return_value g ret =
     do { regs \<leftarrow> write_values 0 (reg_values ret) (registers g); Some (g\<lparr>registers := regs\<rparr>) }"

record PAuthRegs =
  apiakey_lo :: u64
  apiakey_hi :: u64
  apibkey_lo :: u64
  apibkey_hi :: u64
  apdakey_lo :: u64
  apdakey_hi :: u64
  apdbkey_lo :: u64
  apdbkey_hi :: u64
  apgakey_lo :: u64
  apgakey_hi :: u64

definition PAuthRegs_EMPTY :: PAuthRegs where
  "PAuthRegs_EMPTY =
     \<lparr>apiakey_lo = 0, apiakey_hi = 0, apibkey_lo = 0, apibkey_hi = 0, apdakey_lo = 0, apdakey_hi = 0,
      apdbkey_lo = 0, apdbkey_hi = 0, apgakey_lo = 0, apgakey_hi = 0\<rparr>"

record El3State =
  esr_el3 :: u64
  runtime_sp :: u64
  runtime_lr :: u64
  spsr_el3 :: u64
  elr_el3 :: u64
  pmcr_el0 :: u64
  saved_elr_el3 :: u64
  nested_ea_flag :: u64
  mdcr_el3 :: u64

definition El3State_EMPTY :: El3State where
  "El3State_EMPTY =
     \<lparr>esr_el3 = 0, runtime_sp = 0, runtime_lr = 0, spsr_el3 = 0, elr_el3 = 0, pmcr_el0 = 0,
      saved_elr_el3 = 0, nested_ea_flag = 0, mdcr_el3 = 0\<rparr>"

text \<open>
  One of the last two fields is compiled in: \<open>el2_sysregs\<close> with the feature \<open>sel2\<close>, \<open>el1_sysregs\<close>
  without it.
\<close>

record CpuContext =
  gpregs :: GpRegs
  pauth_regs :: PAuthRegs
  el3_state :: El3State
  el2_sysregs :: El2Sysregs
  el1_sysregs :: El1Sysregs

definition CpuContext_EMPTY :: CpuContext where
  "CpuContext_EMPTY =
     \<lparr>gpregs = GpRegs_EMPTY, pauth_regs = PAuthRegs_EMPTY, el3_state = El3State_EMPTY,
      el2_sysregs = El2Sysregs_EMPTY, el1_sysregs = El1Sysregs_EMPTY\<rparr>"

text \<open>The sum is computed with overflow checks.\<close>

definition skip_lower_el_instruction :: "CpuContext \<Rightarrow> CpuContext option" where
  "skip_lower_el_instruction c =
     do {
       assert_that (uint (elr_el3 (el3_state c)) + 4 < 2 ^ 64);
       Some (c\<lparr>el3_state := (el3_state c)\<lparr>elr_el3 := elr_el3 (el3_state c) + 4\<rparr>\<rparr>)
     }"

record PerWorldContext =
  pw_cptr_el3 :: u64
  pw_mpam3_el3 :: u64
  pw_scr_el3 :: u64

definition PerWorldContext_default :: PerWorldContext where
  "PerWorldContext_default = \<lparr>pw_cptr_el3 = 0, pw_mpam3_el3 = 0, pw_scr_el3 = 0\<rparr>"

section \<open>Saving and restoring EL1 and EL2 registers\<close>

text \<open>The first argument is the live bank, the second the saved one.\<close>

definition El1Sysregs_save :: "El1Sysregs \<Rightarrow> El1Sysregs \<Rightarrow> El1Sysregs" where
  "El1Sysregs_save live saved = saved
     \<lparr>spsr_el1 := spsr_el1 live, elr_el1 := elr_el1 live, sctlr_el1 := sctlr_el1 live,
      tcr_el1 := tcr_el1 live, cpacr_el1 := cpacr_el1 live, csselr_el1 := csselr_el1 live,
      sp_el1 := sp_el1 live, esr_el1 := esr_el1 live, ttbr0_el1 := ttbr0_el1 live,
      ttbr1_el1 := ttbr1_el1 live, mair_el1 := mair_el1 live, amair_el1 := amair_el1 live,
      actlr_el1 := actlr_el1 live, tpidr_el1 := tpidr_el1 live, tpidr_el0 := tpidr_el0 live,
      tpidrro_el0 := tpidrro_el0 live, par_el1 := par_el1 live, far_el1 := far_el1 live,
      afsr0_el1 := afsr0_el1 live, afsr1_el1 := afsr1_el1 live,
      contextidr_el1 := contextidr_el1 live, vbar_el1 := vbar_el1 live,
      mdccint_el1 := mdccint_el1 live, mdscr_el1 := mdscr_el1 live\<rparr>"

definition El1Sysregs_restore :: "El1Sysregs \<Rightarrow> El1Sysregs \<Rightarrow> El1Sysregs" where
  "El1Sysregs_restore saved live = live
     \<lparr>spsr_el1 := spsr_el1 saved, elr_el1 := elr_el1 saved, sctlr_el1 := sctlr_el1 saved,
      tcr_el1 := tcr_el1 saved, cpacr_el1 := cpacr_el1 saved, csselr_el1 := csselr_el1 saved,
      sp_el1 := sp_el1 saved, esr_el1 := esr_el1 saved, ttbr0_el1 := ttbr0_el1 saved,
      ttbr1_el1 := ttbr1_el1 saved, mair_el1 := mair_el1 saved, amair_el1 := amair_el1 saved,
      actlr_el1 := actlr_el1 saved, tpidr_el1 := tpidr_el1 saved, tpidr_el0 := tpidr_el0 saved,
      tpidrro_el0 := tpidrro_el0 saved, par_el1 := par_el1 saved, far_el1 := far_el1 saved,
      afsr0_el1 := afsr0_el1 saved, afsr1_el1 := afsr1_el1 saved,
      contextidr_el1 := contextidr_el1 saved, vbar_el1 := vbar_el1 saved,
      mdccint_el1 := mdccint_el1 saved, mdscr_el1 := mdscr_el1 saved\<rparr>"

definition El2Sysregs_save_vhe :: "El2Sysregs \<Rightarrow> El2Sysregs \<Rightarrow> El2Sysregs" where
  "El2Sysregs_save_vhe live saved = saved
     \<lparr>contextidr_el2 := contextidr_el2 live, ttbr1_el2 := ttbr1_el2 live\<rparr>"

definition El2Sysregs_restore_vhe :: "El2Sysregs \<Rightarrow> El2Sysregs \<Rightarrow> El2Sysregs" where
  "El2Sysregs_restore_vhe saved live = live
     \<lparr>contextidr_el2 := contextidr_el2 saved, ttbr1_el2 := ttbr1_el2 saved\<rparr>"

definition El2Sysregs_save :: "cpu_features \<Rightarrow> El2Sysregs \<Rightarrow> El2Sysregs \<Rightarrow> El2Sysregs" where
  "El2Sysregs_save feat live saved0 =
     (let saved = saved0
     \<lparr>actlr_el2 := actlr_el2 live, afsr0_el2 := afsr0_el2 live, afsr1_el2 := afsr1_el2 live,
      amair_el2 := amair_el2 live, cnthctl_el2 := cnthctl_el2 live,
      cntvoff_el2 := cntvoff_el2 live, cptr_el2 := cptr_el2 live, elr_el2 := elr_el2 live,
      esr_el2 := esr_el2 live, far_el2 := far_el2 live, hacr_el2 := hacr_el2 live,
      hcr_el2 := hcr_el2 live, hpfar_el2 := hpfar_el2 live, hstr_el2 := hstr_el2 live,
      icc_sre_el2 := icc_sre_el2 live, ich_hcr_el2 := ich_hcr_el2 live,
      ich_vmcr_el2 := ich_vmcr_el2 live, mair_el2 := mair_el2 live, mdcr_el2 := mdcr_el2 live,
      sctlr_el2 := sctlr_el2 live, spsr_el2 := spsr_el2 live, sp_el2 := sp_el2 live,
      tcr_el2 := tcr_el2 live, tpidr_el2 := tpidr_el2 live, ttbr0_el2 := ttbr0_el2 live,
      vbar_el2 := vbar_el2 live, vmpidr_el2 := vmpidr_el2 live, vpidr_el2 := vpidr_el2 live,
      vtcr_el2 := vtcr_el2 live, vttbr_el2 := vttbr_el2 live\<rparr>
      in if feat_vhe feat then El2Sysregs_save_vhe live saved else saved)"

text \<open>
  \<open>El2Sysregs_restore\<close> also switches \<^verbatim>\<open>SCR_EL3.NS\<close> around the write of \<^verbatim>\<open>ICH_VMCR_EL2\<close> on cores with
  one of three errata; \<open>errata_applies\<close> says whether one applies.
\<close>

definition El2Sysregs_restore ::
  "arm_sysregs \<Rightarrow> cpu_features \<Rightarrow> bool \<Rightarrow> World \<Rightarrow> El2Sysregs \<Rightarrow> hw \<Rightarrow> hw" where
  "El2Sysregs_restore A feat errata_applies world saved h0 =
     (let h1 = h0\<lparr>hw_el2 := (hw_el2 h0)
     \<lparr>actlr_el2 := actlr_el2 saved, afsr0_el2 := afsr0_el2 saved, afsr1_el2 := afsr1_el2 saved,
      amair_el2 := amair_el2 saved, cnthctl_el2 := cnthctl_el2 saved,
      cntvoff_el2 := cntvoff_el2 saved, cptr_el2 := cptr_el2 saved, elr_el2 := elr_el2 saved,
      esr_el2 := esr_el2 saved, far_el2 := far_el2 saved, hacr_el2 := hacr_el2 saved,
      hcr_el2 := hcr_el2 saved, hpfar_el2 := hpfar_el2 saved, hstr_el2 := hstr_el2 saved,
      icc_sre_el2 := icc_sre_el2 saved, ich_hcr_el2 := ich_hcr_el2 saved\<rparr>\<rparr>;
          h2 = (if errata_applies
                then h1\<lparr>hw_scr_el3 :=
                       (if world = Secure then flags_minus (hw_scr_el3 h1) (SCR_NS (scr A))
                        else hw_scr_el3 h1 OR SCR_NS (scr A))\<rparr>
                else h1);
          h3 = h2\<lparr>hw_el2 := (hw_el2 h2)
     \<lparr>ich_vmcr_el2 := ich_vmcr_el2 saved, mair_el2 := mair_el2 saved, mdcr_el2 := mdcr_el2 saved,
      sctlr_el2 := sctlr_el2 saved, spsr_el2 := spsr_el2 saved, sp_el2 := sp_el2 saved,
      tcr_el2 := tcr_el2 saved, tpidr_el2 := tpidr_el2 saved, ttbr0_el2 := ttbr0_el2 saved,
      vbar_el2 := vbar_el2 saved, vmpidr_el2 := vmpidr_el2 saved, vpidr_el2 := vpidr_el2 saved,
      vtcr_el2 := vtcr_el2 saved, vttbr_el2 := vttbr_el2 saved\<rparr>\<rparr>
      in if feat_vhe feat
         then h3\<lparr>hw_el2 := El2Sysregs_restore_vhe saved (hw_el2 h3)\<rparr> else h3)"

text \<open>The registers of the bank that a core without \<^verbatim>\<open>FEAT_VHE\<close> has.\<close>

definition El2_without_vhe :: "El2Sysregs \<Rightarrow> El2Sysregs" where
  "El2_without_vhe r = r\<lparr>contextidr_el2 := 0, ttbr1_el2 := 0\<rparr>"

definition El2_same :: "cpu_features \<Rightarrow> El2Sysregs \<Rightarrow> El2Sysregs \<Rightarrow> bool" where
  "El2_same feat a b \<longleftrightarrow> (if feat_vhe feat then a = b else El2_without_vhe a = El2_without_vhe b)"

lemma El1_save_all: "El1Sysregs_save live saved = live"
  by (simp add: El1Sysregs_save_def)

lemma El1_restore_all: "El1Sysregs_restore saved live = saved"
  by (simp add: El1Sysregs_restore_def)

lemma El2_save_same: "El2_same feat (El2Sysregs_save feat live saved) live"
  by (simp add: El2_same_def El2_without_vhe_def El2Sysregs_save_def El2Sysregs_save_vhe_def)

lemma El2_restore_same: "El2_same feat (hw_el2 (El2Sysregs_restore A feat e w saved h)) saved"
  by (simp add: El2_same_def El2_without_vhe_def El2Sysregs_restore_def El2Sysregs_restore_vhe_def
      Let_def)

end
