(* ===== verification/Cpu_Extensions.thy ===== *)
theory Cpu_Extensions
  imports Cpu_Context
begin

text \<open>
  The CPU extensions of \<^verbatim>\<open>src/src/cpu_extensions\<close>: one constructor of \<open>CpuExtension\<close> for each
  implementation of the trait, and one function for each of its methods, with the default method
  where an implementation has none. The contexts that the extensions keep for the worlds of a core
  are fields of \<open>core\<close>. The function \<open>write_svcr\<close> is what writing the streaming mode control
  register does to the vector unit, which the architecture lets reset its registers.
\<close>

section \<open>Vector unit contexts\<close>

record SimdCpuContext =
  simd_vectors :: "u128 list"
  simd_fpsr :: u64
  simd_fpcr :: u64

definition SimdCpuContext_EMPTY :: SimdCpuContext where
  "SimdCpuContext_EMPTY = \<lparr>simd_vectors = replicate 32 0, simd_fpsr = 0, simd_fpcr = 0\<rparr>"

definition SimdCpuContext_save :: "vector_unit \<Rightarrow> SimdCpuContext \<Rightarrow> SimdCpuContext" where
  "SimdCpuContext_save u s =
     s\<lparr>simd_vectors := map ucast (vu_z u), simd_fpsr := vu_fpsr u, simd_fpcr := vu_fpcr u\<rparr>"

definition SimdCpuContext_restore :: "SimdCpuContext \<Rightarrow> vector_unit \<Rightarrow> vector_unit" where
  "SimdCpuContext_restore s u =
     u\<lparr>vu_z := map ucast (simd_vectors s), vu_fpsr := simd_fpsr s, vu_fpcr := simd_fpcr s\<rparr>"

record SveCpuContext =
  sve_vectors :: "vector list"
  sve_predicates :: "predicate list"
  sve_ffr :: predicate
  sve_fpsr :: u64
  sve_fpcr :: u64
  sve_svcr :: u64

definition SveCpuContext_EMPTY :: SveCpuContext where
  "SveCpuContext_EMPTY =
     \<lparr>sve_vectors = replicate 32 0, sve_predicates = replicate 16 0, sve_ffr = 0, sve_fpsr = 0,
      sve_fpcr = 0, sve_svcr = 0\<rparr>"

section \<open>The state of a core\<close>

record core =
  core_hw :: hw
  cpu_state :: "CpuContext PerWorld"
  PER_WORLD_CONTEXT :: "PerWorldContext PerWorld option"
  hcx_ctx :: "HcxCpuContext PerWorld"
  sctlr2_1_ctx :: "Sctlr2Sel1CpuContext PerWorld"
  sctlr2_2_ctx :: "Sctlr2Sel2CpuContext PerWorld"
  tcr2_1_ctx :: "Tcr2Sel1CpuContext PerWorld"
  tcr2_2_ctx :: "Tcr2Sel2CpuContext PerWorld"
  mte2_1_ctx :: "Mte2Sel1CpuContext PerWorld"
  mte2_2_ctx :: "Mte2Sel2CpuContext PerWorld"
  ras_1_ctx :: "RasSel1CpuContext PerWorld"
  ras_2_ctx :: "RasSel2CpuContext PerWorld"
  fgt_ctx :: "FgtCpuContext PerWorld"
  fgt2_ctx :: "Fgt2CpuContext PerWorld"
  mpam_ctx :: "MpamCpuContext PerWorld"
  amu_ctx :: AmuContext
  simd_ctx :: "SimdCpuContext PerWorld"
  sve_ns_ctx :: SveCpuContext

record arch =
  sysregs :: arm_sysregs
  features :: cpu_features
  build :: build_cfg
  write_svcr :: "u64 \<Rightarrow> vector_unit \<Rightarrow> vector_unit"

section \<open>Scalable vectors\<close>

definition should_save_restore_ffr :: "arch \<Rightarrow> SveCpuContext \<Rightarrow> bool \<Rightarrow> bool" where
  "should_save_restore_ffr a s has_sme \<longleftrightarrow>
     \<not> (has_sme \<and> flags_contain (sve_svcr s) (SVCR_SM (sysregs a)) \<and> \<not> feat_fa64 (features a))"

definition save_predicates :: "vector_unit \<Rightarrow> SveCpuContext \<Rightarrow> SveCpuContext" where
  "save_predicates u s = s\<lparr>sve_predicates := vu_p u\<rparr>"

definition restore_predicates :: "SveCpuContext \<Rightarrow> vector_unit \<Rightarrow> vector_unit" where
  "restore_predicates s u = u\<lparr>vu_p := sve_predicates s\<rparr>"

definition save_vectors :: "vector_unit \<Rightarrow> SveCpuContext \<Rightarrow> SveCpuContext" where
  "save_vectors u s = s\<lparr>sve_vectors := vu_z u\<rparr>"

definition restore_vectors :: "SveCpuContext \<Rightarrow> vector_unit \<Rightarrow> vector_unit" where
  "restore_vectors s u = u\<lparr>vu_z := sve_vectors s\<rparr>"

definition save_fp_state :: "vector_unit \<Rightarrow> SveCpuContext \<Rightarrow> SveCpuContext" where
  "save_fp_state u s = s\<lparr>sve_fpsr := vu_fpsr u, sve_fpcr := vu_fpcr u\<rparr>"

definition restore_fp_state :: "SveCpuContext \<Rightarrow> vector_unit \<Rightarrow> vector_unit" where
  "restore_fp_state s u = u\<lparr>vu_fpsr := sve_fpsr s, vu_fpcr := sve_fpcr s\<rparr>"

definition save_svcr :: "vector_unit \<Rightarrow> SveCpuContext \<Rightarrow> SveCpuContext" where
  "save_svcr u s = s\<lparr>sve_svcr := vu_svcr u\<rparr>"

definition restore_svcr :: "arch \<Rightarrow> SveCpuContext \<Rightarrow> vector_unit \<Rightarrow> vector_unit" where
  "restore_svcr a s u = write_svcr a (sve_svcr s) u"

text \<open>Both directions go through the first predicate register.\<close>

definition save_ffr :: "vector_unit \<times> SveCpuContext \<Rightarrow> vector_unit \<times> SveCpuContext" where
  "save_ffr = (\<lambda>(u, s).
     let u' = u\<lparr>vu_p := (vu_p u)[0 := vu_ffr u]\<rparr> in (u', s\<lparr>sve_ffr := vu_p u' ! 0\<rparr>))"

definition restore_ffr :: "SveCpuContext \<Rightarrow> vector_unit \<Rightarrow> vector_unit" where
  "restore_ffr s u =
     (let u' = u\<lparr>vu_p := (vu_p u)[0 := sve_ffr s]\<rparr> in u'\<lparr>vu_ffr := vu_p u' ! 0\<rparr>)"

definition SveCpuContext_save :: "arch \<Rightarrow> bool \<Rightarrow> vector_unit \<Rightarrow> SveCpuContext \<Rightarrow> vector_unit \<times> SveCpuContext" where
  "SveCpuContext_save a has_sme u0 s0 =
     (let s1 = save_predicates u0 s0;
          s2 = (if has_sme then save_svcr u0 s1 else s1);
          (u3, s3) = (if should_save_restore_ffr a s2 has_sme then save_ffr (u0, s2) else (u0, s2));
          s4 = save_vectors u3 s3
      in (u3, save_fp_state u3 s4))"

definition SveCpuContext_restore :: "arch \<Rightarrow> bool \<Rightarrow> SveCpuContext \<Rightarrow> vector_unit \<Rightarrow> vector_unit" where
  "SveCpuContext_restore a has_sme s u0 =
     (let u1 = (if has_sme then restore_svcr a s u0 else u0);
          u2 = (if should_save_restore_ffr a s has_sme then restore_ffr s u1 else u1)
      in restore_fp_state s (restore_vectors s (restore_predicates s u2)))"

section \<open>Extensions\<close>

datatype CpuExtension =
  Hcx | Sctlr2 | Tcr2 | MemoryTagging | Ras | Fgt | Fgt2 | Mpam | Amu
  | Simd "u64 option" "u64 option"
  | TraceBufferNonSecure | StatisticalProfiling | TraceFiltering | SysRegTrace | MultiThreadedPmu

text \<open>The two constructors of \<open>Simd\<close>; the length of a vector is checked when they are evaluated.\<close>

definition vector_length_ok :: "u64 \<Rightarrow> bool" where
  "vector_length_ok n \<longleftrightarrow> n mod 128 = 0 \<and> 128 \<le> n \<and> n \<le> 2048"

definition Sve_new :: "u64 \<Rightarrow> u64 option" where
  "Sve_new vector_length = do { assert_that (vector_length_ok vector_length); Some vector_length }"

definition Sme_new :: "u64 \<Rightarrow> u64 option" where
  "Sme_new vector_length = do { assert_that (vector_length_ok vector_length); Some vector_length }"

definition Simd_simd :: CpuExtension where
  "Simd_simd = Simd None None"

definition Simd_sve :: "u64 \<Rightarrow> bool \<Rightarrow> CpuExtension option" where
  "Simd_sve vector_length enable_sme =
     do {
       sve \<leftarrow> Sve_new vector_length;
       sme \<leftarrow> (if enable_sme then map_option Some (Sme_new vector_length) else Some None);
       Some (Simd (Some sve) sme)
     }"

definition FP_NOT_SUPPORTED :: u8 where "FP_NOT_SUPPORTED = 0xf"
definition ADVSIMD_NOT_SUPPORTED :: u8 where "ADVSIMD_NOT_SUPPORTED = 0xf"

fun ext_is_present :: "cpu_features \<Rightarrow> CpuExtension \<Rightarrow> bool" where
  "ext_is_present f Hcx \<longleftrightarrow> feat_hcx f"
| "ext_is_present f Sctlr2 \<longleftrightarrow> feat_sctlr2 f"
| "ext_is_present f Tcr2 \<longleftrightarrow> feat_tcr2 f"
| "ext_is_present f MemoryTagging \<longleftrightarrow> feat_mte2 f"
| "ext_is_present f Ras \<longleftrightarrow> True"
| "ext_is_present f Fgt \<longleftrightarrow> True"
| "ext_is_present f Fgt2 \<longleftrightarrow> feat_fgt2 f"
| "ext_is_present f Mpam \<longleftrightarrow> feat_mpam f"
| "ext_is_present f Amu \<longleftrightarrow> feat_amuv1 f"
| "ext_is_present f (Simd sve sme) \<longleftrightarrow> id_fp f \<noteq> FP_NOT_SUPPORTED \<and> id_advsimd f \<noteq> ADVSIMD_NOT_SUPPORTED"
| "ext_is_present f TraceBufferNonSecure \<longleftrightarrow> feat_trbe f"
| "ext_is_present f StatisticalProfiling \<longleftrightarrow> feat_spe f"
| "ext_is_present f TraceFiltering \<longleftrightarrow> feat_trf f"
| "ext_is_present f SysRegTrace \<longleftrightarrow> feat_sys_reg_trace f"
| "ext_is_present f MultiThreadedPmu \<longleftrightarrow> feat_mtpmu f"

subsection \<open>Configuration\<close>

definition needs_sve_sme :: "build_cfg \<Rightarrow> World \<Rightarrow> bool" where
  "needs_sve_sme b world \<longleftrightarrow>
     (case world of NonSecure \<Rightarrow> True | Secure \<Rightarrow> sel2 b | Realm \<Rightarrow> rme b)"

definition Sve_configure_per_world :: "arch \<Rightarrow> World \<Rightarrow> PerWorldContext \<Rightarrow> PerWorldContext" where
  "Sve_configure_per_world a world ctx =
     (if needs_sve_sme (build a) world
      then ctx\<lparr>pw_cptr_el3 := pw_cptr_el3 ctx OR CPTR_EZ (cptr (sysregs a))\<rparr> else ctx)"

definition Sme_configure_per_world :: "arch \<Rightarrow> World \<Rightarrow> PerWorldContext \<Rightarrow> PerWorldContext" where
  "Sme_configure_per_world a world ctx =
     (if needs_sve_sme (build a) world
      then ctx\<lparr>pw_cptr_el3 := pw_cptr_el3 ctx OR CPTR_ESM (cptr (sysregs a)),
               pw_scr_el3 := pw_scr_el3 ctx OR SCR_ENTP2 (scr (sysregs a))\<rparr> else ctx)"

definition Simd_configure_per_world ::
  "arch \<Rightarrow> u64 option \<Rightarrow> u64 option \<Rightarrow> World \<Rightarrow> PerWorldContext \<Rightarrow> PerWorldContext" where
  "Simd_configure_per_world a sve sme world ctx0 =
     (let ctx1 = ctx0\<lparr>pw_cptr_el3 := flags_minus (pw_cptr_el3 ctx0) (CPTR_TFP (cptr (sysregs a)))\<rparr>;
          ctx2 = (if sve \<noteq> None \<and> feat_sve (features a) then Sve_configure_per_world a world ctx1 else ctx1)
      in if sme \<noteq> None \<and> feat_sme (features a) then Sme_configure_per_world a world ctx2 else ctx2)"

definition or_scr :: "u64 \<Rightarrow> PerWorldContext \<Rightarrow> PerWorldContext" where
  "or_scr bits ctx = ctx\<lparr>pw_scr_el3 := pw_scr_el3 ctx OR bits\<rparr>"

definition Hcx_configure_per_world :: "arch \<Rightarrow> World \<Rightarrow> PerWorldContext \<Rightarrow> PerWorldContext" where
  "Hcx_configure_per_world a world ctx =
     or_scr (SCR_HXEN (scr (sysregs a))) ctx"

definition Sctlr2_configure_per_world :: "arch \<Rightarrow> World \<Rightarrow> PerWorldContext \<Rightarrow> PerWorldContext" where
  "Sctlr2_configure_per_world a world ctx =
     or_scr (SCR_SCTLR2EN (scr (sysregs a))) ctx"

definition Tcr2_configure_per_world :: "arch \<Rightarrow> World \<Rightarrow> PerWorldContext \<Rightarrow> PerWorldContext" where
  "Tcr2_configure_per_world a world ctx =
     or_scr (SCR_TCR2EN (scr (sysregs a))) ctx"

definition MemoryTagging_configure_per_world :: "arch \<Rightarrow> World \<Rightarrow> PerWorldContext \<Rightarrow> PerWorldContext" where
  "MemoryTagging_configure_per_world a world ctx =
     (if world = NonSecure \<or> world = Secure then or_scr (SCR_ATA (scr (sysregs a))) ctx else ctx)"

definition Fgt2_configure_per_world :: "arch \<Rightarrow> World \<Rightarrow> PerWorldContext \<Rightarrow> PerWorldContext" where
  "Fgt2_configure_per_world a world ctx =
     or_scr (SCR_FGTEN2 (scr (sysregs a))) ctx"

definition Mpam_configure_per_world :: "arch \<Rightarrow> World \<Rightarrow> PerWorldContext \<Rightarrow> PerWorldContext" where
  "Mpam_configure_per_world a world ctx =
     (if world \<noteq> Secure then ctx\<lparr>pw_mpam3_el3 := MPAM3_MPAMEN (mpam3 (sysregs a))\<rparr> else ctx)"

definition SysRegTrace_configure_per_world :: "arch \<Rightarrow> World \<Rightarrow> PerWorldContext \<Rightarrow> PerWorldContext" where
  "SysRegTrace_configure_per_world a world ctx =
     (if world = NonSecure
      then ctx\<lparr>pw_cptr_el3 := flags_minus (pw_cptr_el3 ctx) (CPTR_TTA (cptr (sysregs a)))\<rparr> else ctx)"

fun ext_configure_per_world :: "arch \<Rightarrow> CpuExtension \<Rightarrow> World \<Rightarrow> PerWorldContext \<Rightarrow> PerWorldContext" where
  "ext_configure_per_world a Hcx world ctx = Hcx_configure_per_world a world ctx"
| "ext_configure_per_world a Sctlr2 world ctx = Sctlr2_configure_per_world a world ctx"
| "ext_configure_per_world a Tcr2 world ctx = Tcr2_configure_per_world a world ctx"
| "ext_configure_per_world a MemoryTagging world ctx = MemoryTagging_configure_per_world a world ctx"
| "ext_configure_per_world a Fgt2 world ctx = Fgt2_configure_per_world a world ctx"
| "ext_configure_per_world a Mpam world ctx = Mpam_configure_per_world a world ctx"
| "ext_configure_per_world a (Simd sve sme) world ctx = Simd_configure_per_world a sve sme world ctx"
| "ext_configure_per_world a SysRegTrace world ctx = SysRegTrace_configure_per_world a world ctx"
| "ext_configure_per_world a _ world ctx = ctx"

definition or_mdcr :: "u64 \<Rightarrow> CpuContext \<Rightarrow> CpuContext" where
  "or_mdcr bits c = c\<lparr>el3_state := (el3_state c)\<lparr>mdcr_el3 := mdcr_el3 (el3_state c) OR bits\<rparr>\<rparr>"

definition minus_mdcr :: "u64 \<Rightarrow> CpuContext \<Rightarrow> CpuContext" where
  "minus_mdcr bits c = c\<lparr>el3_state := (el3_state c)\<lparr>mdcr_el3 := flags_minus (mdcr_el3 (el3_state c)) bits\<rparr>\<rparr>"

definition trbe_enable_ns :: "mdcr_bits \<Rightarrow> CpuContext \<Rightarrow> CpuContext" where
  "trbe_enable_ns M c = minus_mdcr (MDCR_NSTBE M) (or_mdcr (MDCR_NSTB_EN M OR MDCR_NSTB_SS M) c)"

definition trbe_disable :: "mdcr_bits \<Rightarrow> World \<Rightarrow> CpuContext \<Rightarrow> CpuContext" where
  "trbe_disable M world c =
     (let c1 = minus_mdcr (MDCR_NSTB_EN M OR MDCR_NSTBE M) c
      in if world = NonSecure then minus_mdcr (MDCR_NSTB_SS M) c1 else or_mdcr (MDCR_NSTB_SS M) c1)"

definition TraceBufferNonSecure_configure_per_cpu :: "arch \<Rightarrow> World \<Rightarrow> CpuContext \<Rightarrow> CpuContext" where
  "TraceBufferNonSecure_configure_per_cpu a world c =
     (if world = NonSecure then trbe_enable_ns (mdcr (sysregs a)) c
      else trbe_disable (mdcr (sysregs a)) world c)"

definition StatisticalProfiling_configure_per_cpu :: "arch \<Rightarrow> World \<Rightarrow> CpuContext \<Rightarrow> CpuContext" where
  "StatisticalProfiling_configure_per_cpu a world c =
     (if world = NonSecure
      then minus_mdcr (MDCR_NSPBE (mdcr (sysregs a)))
             (or_mdcr (MDCR_NSPB_NS (mdcr (sysregs a)) OR MDCR_ENPMSN (mdcr (sysregs a))
                OR MDCR_ENPMS3 (mdcr (sysregs a))) c)
      else c)"

definition TraceFiltering_configure_per_cpu :: "arch \<Rightarrow> World \<Rightarrow> CpuContext \<Rightarrow> CpuContext" where
  "TraceFiltering_configure_per_cpu a world c =
     minus_mdcr (MDCR_TTRF (mdcr (sysregs a))) c"

definition MultiThreadedPmu_configure_per_cpu :: "arch \<Rightarrow> World \<Rightarrow> CpuContext \<Rightarrow> CpuContext" where
  "MultiThreadedPmu_configure_per_cpu a world c =
     or_mdcr (MDCR_MTPME (mdcr (sysregs a))) c"

fun ext_configure_per_cpu :: "arch \<Rightarrow> CpuExtension \<Rightarrow> World \<Rightarrow> CpuContext \<Rightarrow> CpuContext" where
  "ext_configure_per_cpu a TraceBufferNonSecure world c = TraceBufferNonSecure_configure_per_cpu a world c"
| "ext_configure_per_cpu a StatisticalProfiling world c = StatisticalProfiling_configure_per_cpu a world c"
| "ext_configure_per_cpu a TraceFiltering world c = TraceFiltering_configure_per_cpu a world c"
| "ext_configure_per_cpu a MultiThreadedPmu world c = MultiThreadedPmu_configure_per_cpu a world c"
| "ext_configure_per_cpu a _ world c = c"

text \<open>The performance monitors are configured whatever extensions the platform lists.\<close>

definition pmuv3_configure_per_cpu :: "arch \<Rightarrow> hw \<Rightarrow> CpuContext \<Rightarrow> CpuContext" where
  "pmuv3_configure_per_cpu a h c0 =
     (let M = mdcr (sysregs a);
          c1 = (if sel2 (build a)
                then c0\<lparr>el2_sysregs := (el2_sysregs c0)\<lparr>mdcr_el2 := mdcr_el2 (hw_el2 h)\<rparr>\<rparr> else c0)
      in minus_mdcr (MDCR_MPMX M OR MDCR_SPME M OR MDCR_TPM M)
           (or_mdcr (MDCR_SCCD M OR MDCR_MCCD M OR MDCR_ENPM2 M) c1))"

definition pmuv3_init :: "arch \<Rightarrow> hw \<Rightarrow> hw" where
  "pmuv3_init a h =
     (let P = pmcr (sysregs a);
          v = hw_pmcr_el0 h OR (PMCR_DP P OR PMCR_C P OR PMCR_P P)
      in h\<lparr>hw_pmcr_el0 := flags_minus v (PMCR_X P OR PMCR_E P)\<rparr>)"

subsection \<open>Initialisation\<close>

definition Sve_init :: "arch \<Rightarrow> u64 \<Rightarrow> hw \<Rightarrow> hw" where
  "Sve_init a vector_length h =
     (let cptr_el3 = hw_cptr_el3 h;
          h1 = h\<lparr>hw_cptr_el3 := flags_minus (cptr_el3 OR CPTR_EZ (cptr (sysregs a))) (CPTR_TFP (cptr (sysregs a)))\<rparr>;
          h2 = h1\<lparr>hw_zcr_el3 := vector_length div 128 - 1\<rparr>
      in h2\<lparr>hw_cptr_el3 := cptr_el3\<rparr>)"

definition Sme_init :: "arch \<Rightarrow> u64 \<Rightarrow> hw \<Rightarrow> hw" where
  "Sme_init a vector_length h =
     (let cptr_el3 = hw_cptr_el3 h;
          h1 = h\<lparr>hw_cptr_el3 := cptr_el3 OR CPTR_ESM (cptr (sysregs a))\<rparr>;
          v = smcr_from_ssve_vector_len (sysregs a) vector_length;
          v = (if feat_fa64 (features a) then v OR SMCR_FA64 (smcr (sysregs a)) else v);
          v = (if feat_sme2 (features a) then v OR SMCR_EZT0 (smcr (sysregs a)) else v);
          h2 = h1\<lparr>hw_smcr_el3 := v\<rparr>
      in h2\<lparr>hw_cptr_el3 := cptr_el3\<rparr>)"

definition HFGITR_EL2_INIT_VAL :: "arm_sysregs \<Rightarrow> u64" where
  "HFGITR_EL2_INIT_VAL A = FGT_NBRBINJ (fgt A) OR FGT_NBRBIALL (fgt A)"

definition HFGRTR_EL2_INIT_VAL :: "arm_sysregs \<Rightarrow> u64" where
  "HFGRTR_EL2_INIT_VAL A = FGT_R_NACCDATA_EL1 (fgt A) OR FGT_R_NSMPRI_EL1 (fgt A) OR FGT_R_NTPIDR2_EL0 (fgt A)"

definition HFGWTR_EL2_INIT_VAL :: "arm_sysregs \<Rightarrow> u64" where
  "HFGWTR_EL2_INIT_VAL A = FGT_W_NACCDATA_EL1 (fgt A) OR FGT_W_NSMPRI_EL1 (fgt A) OR FGT_W_NTPIDR2_EL0 (fgt A)"

definition FgtCpuContext_INIT_VAL :: "arm_sysregs \<Rightarrow> FgtCpuContext" where
  "FgtCpuContext_INIT_VAL A =
     \<lparr>hafgrtr_el2 = 0, hdfgrtr_el2 = 0, hdfgwtr_el2 = 0, hfgitr_el2 = HFGITR_EL2_INIT_VAL A,
      hfgrtr_el2 = HFGRTR_EL2_INIT_VAL A, hfgwtr_el2 = HFGWTR_EL2_INIT_VAL A\<rparr>"

text \<open>Whether the fine-grained trap registers are switched between worlds.\<close>

definition fgt_switched :: "arch \<Rightarrow> bool" where
  "fgt_switched a \<longleftrightarrow> sel2 (build a) \<or> rme (build a)"

definition Hcx_init :: "arch \<Rightarrow> hw \<Rightarrow> hw" where
  "Hcx_init a h =
     h\<lparr>hw_hcx := (hw_hcx h)\<lparr>hcrx_el2 := 0\<rparr>\<rparr>"

definition Fgt_init :: "arch \<Rightarrow> hw \<Rightarrow> hw" where
  "Fgt_init a h =
     (if fgt_switched a then h
      else h\<lparr>hw_fgt := (hw_fgt h)
             \<lparr>hfgitr_el2 := HFGITR_EL2_INIT_VAL (sysregs a),
              hfgrtr_el2 := HFGRTR_EL2_INIT_VAL (sysregs a),
              hfgwtr_el2 := HFGWTR_EL2_INIT_VAL (sysregs a)\<rparr>\<rparr>)"

definition Simd_init :: "arch \<Rightarrow> u64 option \<Rightarrow> u64 option \<Rightarrow> hw \<Rightarrow> hw" where
  "Simd_init a sve sme h =
     (let h1 = (case sve of Some n \<Rightarrow> if feat_sve (features a) then Sve_init a n h else h | None \<Rightarrow> h)
      in case sme of Some n \<Rightarrow> if feat_sme (features a) then Sme_init a n h1 else h1 | None \<Rightarrow> h1)"

fun ext_init :: "arch \<Rightarrow> CpuExtension \<Rightarrow> hw \<Rightarrow> hw" where
  "ext_init a Hcx h = Hcx_init a h"
| "ext_init a Fgt h = Fgt_init a h"
| "ext_init a (Simd sve sme) h = Simd_init a sve sme h"
| "ext_init a _ h = h"

definition initialise_el3_sysregs :: "arch \<Rightarrow> CpuExtension list \<Rightarrow> hw \<Rightarrow> hw" where
  "initialise_el3_sysregs a exts h =
     pmuv3_init a
       (fold (\<lambda>ext h. if ext_is_present (features a) ext then ext_init a ext h else h) exts h)"

subsection \<open>Saving and restoring\<close>

definition upd_hw :: "(hw \<Rightarrow> hw) \<Rightarrow> core \<Rightarrow> core" where
  "upd_hw f c = c\<lparr>core_hw := f (core_hw c)\<rparr>"

definition HcxSel2_save :: "HcxCpuContext \<Rightarrow> HcxCpuContext \<Rightarrow> HcxCpuContext" where
  "HcxSel2_save live saved = saved\<lparr>hcrx_el2 := hcrx_el2 live\<rparr>"

definition HcxSel2_restore :: "HcxCpuContext \<Rightarrow> HcxCpuContext \<Rightarrow> HcxCpuContext" where
  "HcxSel2_restore saved live = live\<lparr>hcrx_el2 := hcrx_el2 saved\<rparr>"

definition Sctlr2Sel1_save :: "Sctlr2Sel1CpuContext \<Rightarrow> Sctlr2Sel1CpuContext \<Rightarrow> Sctlr2Sel1CpuContext" where
  "Sctlr2Sel1_save live saved = saved\<lparr>sctlr2_el1 := sctlr2_el1 live\<rparr>"

definition Sctlr2Sel1_restore :: "Sctlr2Sel1CpuContext \<Rightarrow> Sctlr2Sel1CpuContext \<Rightarrow> Sctlr2Sel1CpuContext" where
  "Sctlr2Sel1_restore saved live = live\<lparr>sctlr2_el1 := sctlr2_el1 saved\<rparr>"

definition Sctlr2Sel2_save :: "Sctlr2Sel2CpuContext \<Rightarrow> Sctlr2Sel2CpuContext \<Rightarrow> Sctlr2Sel2CpuContext" where
  "Sctlr2Sel2_save live saved = saved\<lparr>sctlr2_el2 := sctlr2_el2 live\<rparr>"

definition Sctlr2Sel2_restore :: "Sctlr2Sel2CpuContext \<Rightarrow> Sctlr2Sel2CpuContext \<Rightarrow> Sctlr2Sel2CpuContext" where
  "Sctlr2Sel2_restore saved live = live\<lparr>sctlr2_el2 := sctlr2_el2 saved\<rparr>"

definition Tcr2Sel1_save :: "Tcr2Sel1CpuContext \<Rightarrow> Tcr2Sel1CpuContext \<Rightarrow> Tcr2Sel1CpuContext" where
  "Tcr2Sel1_save live saved = saved\<lparr>tcr2_el1 := tcr2_el1 live\<rparr>"

definition Tcr2Sel1_restore :: "Tcr2Sel1CpuContext \<Rightarrow> Tcr2Sel1CpuContext \<Rightarrow> Tcr2Sel1CpuContext" where
  "Tcr2Sel1_restore saved live = live\<lparr>tcr2_el1 := tcr2_el1 saved\<rparr>"

definition Tcr2Sel2_save :: "Tcr2Sel2CpuContext \<Rightarrow> Tcr2Sel2CpuContext \<Rightarrow> Tcr2Sel2CpuContext" where
  "Tcr2Sel2_save live saved = saved\<lparr>tcr2_el2 := tcr2_el2 live\<rparr>"

definition Tcr2Sel2_restore :: "Tcr2Sel2CpuContext \<Rightarrow> Tcr2Sel2CpuContext \<Rightarrow> Tcr2Sel2CpuContext" where
  "Tcr2Sel2_restore saved live = live\<lparr>tcr2_el2 := tcr2_el2 saved\<rparr>"

definition Mte2Sel2_save :: "Mte2Sel2CpuContext \<Rightarrow> Mte2Sel2CpuContext \<Rightarrow> Mte2Sel2CpuContext" where
  "Mte2Sel2_save live saved = saved\<lparr>tfsr_el2 := tfsr_el2 live\<rparr>"

definition Mte2Sel2_restore :: "Mte2Sel2CpuContext \<Rightarrow> Mte2Sel2CpuContext \<Rightarrow> Mte2Sel2CpuContext" where
  "Mte2Sel2_restore saved live = live\<lparr>tfsr_el2 := tfsr_el2 saved\<rparr>"

definition RasSel1_save :: "RasSel1CpuContext \<Rightarrow> RasSel1CpuContext \<Rightarrow> RasSel1CpuContext" where
  "RasSel1_save live saved = saved\<lparr>disr_el1 := disr_el1 live\<rparr>"

definition RasSel1_restore :: "RasSel1CpuContext \<Rightarrow> RasSel1CpuContext \<Rightarrow> RasSel1CpuContext" where
  "RasSel1_restore saved live = live\<lparr>disr_el1 := disr_el1 saved\<rparr>"

definition Mte2Sel1_save :: "Mte2Sel1CpuContext \<Rightarrow> Mte2Sel1CpuContext \<Rightarrow> Mte2Sel1CpuContext" where
  "Mte2Sel1_save live saved = saved
     \<lparr>tfsre0_el1 := tfsre0_el1 live, tfsr_el1 := tfsr_el1 live, rgsr_el1 := rgsr_el1 live,
      gcr_el1 := gcr_el1 live\<rparr>"

definition Mte2Sel1_restore :: "Mte2Sel1CpuContext \<Rightarrow> Mte2Sel1CpuContext \<Rightarrow> Mte2Sel1CpuContext" where
  "Mte2Sel1_restore saved live = live
     \<lparr>tfsre0_el1 := tfsre0_el1 saved, tfsr_el1 := tfsr_el1 saved, rgsr_el1 := rgsr_el1 saved,
      gcr_el1 := gcr_el1 saved\<rparr>"

definition RasSel2_save :: "RasSel2CpuContext \<Rightarrow> RasSel2CpuContext \<Rightarrow> RasSel2CpuContext" where
  "RasSel2_save live saved = saved\<lparr>vdisr_el2 := vdisr_el2 live, vsesr_el2 := vsesr_el2 live\<rparr>"

definition RasSel2_restore :: "RasSel2CpuContext \<Rightarrow> RasSel2CpuContext \<Rightarrow> RasSel2CpuContext" where
  "RasSel2_restore saved live = live\<lparr>vdisr_el2 := vdisr_el2 saved, vsesr_el2 := vsesr_el2 saved\<rparr>"

definition fgt_save_context :: "cpu_features \<Rightarrow> FgtCpuContext \<Rightarrow> FgtCpuContext \<Rightarrow> FgtCpuContext" where
  "fgt_save_context f live saved =
     (let s1 = (if feat_amuv1 f then saved\<lparr>hafgrtr_el2 := hafgrtr_el2 live\<rparr> else saved)
      in s1\<lparr>hdfgrtr_el2 := hdfgrtr_el2 live, hdfgwtr_el2 := hdfgwtr_el2 live,
            hfgitr_el2 := hfgitr_el2 live, hfgrtr_el2 := hfgrtr_el2 live, hfgwtr_el2 := hfgwtr_el2 live\<rparr>)"

definition fgt_restore_context :: "cpu_features \<Rightarrow> FgtCpuContext \<Rightarrow> FgtCpuContext \<Rightarrow> FgtCpuContext" where
  "fgt_restore_context f saved live =
     (let l1 = (if feat_amuv1 f then live\<lparr>hafgrtr_el2 := hafgrtr_el2 saved\<rparr> else live)
      in l1\<lparr>hdfgrtr_el2 := hdfgrtr_el2 saved, hdfgwtr_el2 := hdfgwtr_el2 saved,
            hfgitr_el2 := hfgitr_el2 saved, hfgrtr_el2 := hfgrtr_el2 saved, hfgwtr_el2 := hfgwtr_el2 saved\<rparr>)"

definition Fgt2_save :: "Fgt2CpuContext \<Rightarrow> Fgt2CpuContext \<Rightarrow> Fgt2CpuContext" where
  "Fgt2_save live saved = saved
     \<lparr>hfgitr2_el2 := hfgitr2_el2 live, hfgrtr2_el2 := hfgrtr2_el2 live, hfgwtr2_el2 := hfgwtr2_el2 live,
      hdfgrtr2_el2 := hdfgrtr2_el2 live, hdfgwtr2_el2 := hdfgwtr2_el2 live\<rparr>"

definition Fgt2_restore :: "Fgt2CpuContext \<Rightarrow> Fgt2CpuContext \<Rightarrow> Fgt2CpuContext" where
  "Fgt2_restore saved live = live
     \<lparr>hfgitr2_el2 := hfgitr2_el2 saved, hfgrtr2_el2 := hfgrtr2_el2 saved, hfgwtr2_el2 := hfgwtr2_el2 saved,
      hdfgrtr2_el2 := hdfgrtr2_el2 saved, hdfgwtr2_el2 := hdfgwtr2_el2 saved\<rparr>"

definition Mpam_save_el2_context :: "cpu_features \<Rightarrow> MpamCpuContext \<Rightarrow> MpamCpuContext \<Rightarrow> MpamCpuContext" where
  "Mpam_save_el2_context f live saved =
     (let m = mpam_vpmr_max f;
          r = saved\<lparr>mpam2_el2 := mpam2_el2 live\<rparr>
      in if \<not> mpam_has_hcr f then r
         else
           let r = r\<lparr>mpamhcr_el2 := mpamhcr_el2 live, mpamvpmv_el2 := mpamvpmv_el2 live,
                     mpamvpm0_el2 := mpamvpm0_el2 live\<rparr>;
               r = (if m = 7 then r\<lparr>mpamvpm7_el2 := mpamvpm7_el2 live\<rparr> else r);
               r = (if 6 \<le> m then r\<lparr>mpamvpm6_el2 := mpamvpm6_el2 live\<rparr> else r);
               r = (if 5 \<le> m then r\<lparr>mpamvpm5_el2 := mpamvpm5_el2 live\<rparr> else r);
               r = (if 4 \<le> m then r\<lparr>mpamvpm4_el2 := mpamvpm4_el2 live\<rparr> else r);
               r = (if 3 \<le> m then r\<lparr>mpamvpm3_el2 := mpamvpm3_el2 live\<rparr> else r);
               r = (if 2 \<le> m then r\<lparr>mpamvpm2_el2 := mpamvpm2_el2 live\<rparr> else r);
               r = (if 1 \<le> m then r\<lparr>mpamvpm1_el2 := mpamvpm1_el2 live\<rparr> else r)
           in r)"

definition Mpam_restore_el2_context :: "cpu_features \<Rightarrow> MpamCpuContext \<Rightarrow> MpamCpuContext \<Rightarrow> MpamCpuContext" where
  "Mpam_restore_el2_context f saved live =
     (let m = mpam_vpmr_max f;
          r = live\<lparr>mpam2_el2 := mpam2_el2 saved\<rparr>
      in if \<not> mpam_has_hcr f then r
         else
           let r = r\<lparr>mpamhcr_el2 := mpamhcr_el2 saved, mpamvpmv_el2 := mpamvpmv_el2 saved,
                     mpamvpm0_el2 := mpamvpm0_el2 saved\<rparr>;
               r = (if m = 7 then r\<lparr>mpamvpm7_el2 := mpamvpm7_el2 saved\<rparr> else r);
               r = (if 6 \<le> m then r\<lparr>mpamvpm6_el2 := mpamvpm6_el2 saved\<rparr> else r);
               r = (if 5 \<le> m then r\<lparr>mpamvpm5_el2 := mpamvpm5_el2 saved\<rparr> else r);
               r = (if 4 \<le> m then r\<lparr>mpamvpm4_el2 := mpamvpm4_el2 saved\<rparr> else r);
               r = (if 3 \<le> m then r\<lparr>mpamvpm3_el2 := mpamvpm3_el2 saved\<rparr> else r);
               r = (if 2 \<le> m then r\<lparr>mpamvpm2_el2 := mpamvpm2_el2 saved\<rparr> else r);
               r = (if 1 \<le> m then r\<lparr>mpamvpm1_el2 := mpamvpm1_el2 saved\<rparr> else r)
           in r)"

definition AmuContext_save :: "cpu_features \<Rightarrow> AmuContext \<Rightarrow> AmuContext \<Rightarrow> AmuContext" where
  "AmuContext_save f live saved =
     (let n = amu_cg1nc f;
          r = saved\<lparr>amcr_el0 := amcr_el0 live, amuserenr_el0 := amuserenr_el0 live\<rparr>;
          r = r\<lparr>amevcntr00_el0 := amevcntr00_el0 live, amevcntr01_el0 := amevcntr01_el0 live,
                amevcntr02_el0 := amevcntr02_el0 live, amevcntr03_el0 := amevcntr03_el0 live\<rparr>;
          r = (if 0 < n then r\<lparr>amevcntr10_el0 := amevcntr10_el0 live\<rparr> else r);
          r = (if 1 < n then r\<lparr>amevcntr11_el0 := amevcntr11_el0 live\<rparr> else r);
          r = (if 2 < n then r\<lparr>amevcntr12_el0 := amevcntr12_el0 live\<rparr> else r);
          r = (if 3 < n then r\<lparr>amevcntr13_el0 := amevcntr13_el0 live\<rparr> else r);
          r = (if 4 < n then r\<lparr>amevcntr14_el0 := amevcntr14_el0 live\<rparr> else r);
          r = (if 5 < n then r\<lparr>amevcntr15_el0 := amevcntr15_el0 live\<rparr> else r);
          r = (if 6 < n then r\<lparr>amevcntr16_el0 := amevcntr16_el0 live\<rparr> else r);
          r = (if 7 < n then r\<lparr>amevcntr17_el0 := amevcntr17_el0 live\<rparr> else r);
          r = (if 8 < n then r\<lparr>amevcntr18_el0 := amevcntr18_el0 live\<rparr> else r);
          r = (if 9 < n then r\<lparr>amevcntr19_el0 := amevcntr19_el0 live\<rparr> else r);
          r = (if 10 < n then r\<lparr>amevcntr110_el0 := amevcntr110_el0 live\<rparr> else r);
          r = (if 11 < n then r\<lparr>amevcntr111_el0 := amevcntr111_el0 live\<rparr> else r);
          r = (if 12 < n then r\<lparr>amevcntr112_el0 := amevcntr112_el0 live\<rparr> else r);
          r = (if 13 < n then r\<lparr>amevcntr113_el0 := amevcntr113_el0 live\<rparr> else r);
          r = (if 14 < n then r\<lparr>amevcntr114_el0 := amevcntr114_el0 live\<rparr> else r);
          r = (if 15 < n then r\<lparr>amevcntr115_el0 := amevcntr115_el0 live\<rparr> else r)
      in r)"

definition AmuContext_restore :: "cpu_features \<Rightarrow> AmuContext \<Rightarrow> AmuContext \<Rightarrow> AmuContext" where
  "AmuContext_restore f saved live =
     (let n = amu_cg1nc f;
          r = live\<lparr>amcr_el0 := 0\<rparr>;
          r = r\<lparr>amevcntr00_el0 := amevcntr00_el0 saved, amevcntr01_el0 := amevcntr01_el0 saved,
                amevcntr02_el0 := amevcntr02_el0 saved, amevcntr03_el0 := amevcntr03_el0 saved\<rparr>;
          r = (if 0 < n then r\<lparr>amevcntr10_el0 := amevcntr10_el0 saved\<rparr> else r);
          r = (if 1 < n then r\<lparr>amevcntr11_el0 := amevcntr11_el0 saved\<rparr> else r);
          r = (if 2 < n then r\<lparr>amevcntr12_el0 := amevcntr12_el0 saved\<rparr> else r);
          r = (if 3 < n then r\<lparr>amevcntr13_el0 := amevcntr13_el0 saved\<rparr> else r);
          r = (if 4 < n then r\<lparr>amevcntr14_el0 := amevcntr14_el0 saved\<rparr> else r);
          r = (if 5 < n then r\<lparr>amevcntr15_el0 := amevcntr15_el0 saved\<rparr> else r);
          r = (if 6 < n then r\<lparr>amevcntr16_el0 := amevcntr16_el0 saved\<rparr> else r);
          r = (if 7 < n then r\<lparr>amevcntr17_el0 := amevcntr17_el0 saved\<rparr> else r);
          r = (if 8 < n then r\<lparr>amevcntr18_el0 := amevcntr18_el0 saved\<rparr> else r);
          r = (if 9 < n then r\<lparr>amevcntr19_el0 := amevcntr19_el0 saved\<rparr> else r);
          r = (if 10 < n then r\<lparr>amevcntr110_el0 := amevcntr110_el0 saved\<rparr> else r);
          r = (if 11 < n then r\<lparr>amevcntr111_el0 := amevcntr111_el0 saved\<rparr> else r);
          r = (if 12 < n then r\<lparr>amevcntr112_el0 := amevcntr112_el0 saved\<rparr> else r);
          r = (if 13 < n then r\<lparr>amevcntr113_el0 := amevcntr113_el0 saved\<rparr> else r);
          r = (if 14 < n then r\<lparr>amevcntr114_el0 := amevcntr114_el0 saved\<rparr> else r);
          r = (if 15 < n then r\<lparr>amevcntr115_el0 := amevcntr115_el0 saved\<rparr> else r)
      in r\<lparr>amuserenr_el0 := amuserenr_el0 saved, amcr_el0 := amcr_el0 saved\<rparr>)"

text \<open>
  \<open>save_context\<close> and \<open>restore_context\<close>. The vector unit is reachable while it is saved and restored,
  through a temporary value of \<^verbatim>\<open>CPTR_EL3\<close>.
\<close>

definition open_vector_unit :: "cptr_bits \<Rightarrow> hw \<Rightarrow> hw" where
  "open_vector_unit C h =
     h\<lparr>hw_cptr_el3 := flags_minus (hw_cptr_el3 h) (CPTR_TFP C) OR CPTR_EZ C OR CPTR_ESM C\<rparr>"

definition Simd_save_context :: "arch \<Rightarrow> u64 option \<Rightarrow> u64 option \<Rightarrow> World \<Rightarrow> core \<Rightarrow> core" where
  "Simd_save_context a sve sme world c0 =
     (if sel2 (build a) then c0
      else
        let has_sme = (sme \<noteq> None \<and> feat_sme (features a));
            cptr_el3 = hw_cptr_el3 (core_hw c0);
            c1 = c0\<lparr>core_hw := open_vector_unit (cptr (sysregs a)) (core_hw c0)\<rparr>;
            c2 = (if world = NonSecure \<and> sve \<noteq> None \<and> feat_sve (features a)
                  then case SveCpuContext_save a has_sme (hw_vector (core_hw c1)) (sve_ns_ctx c1) of
                         (u, s) \<Rightarrow> c1\<lparr>core_hw := (core_hw c1)\<lparr>hw_vector := u\<rparr>, sve_ns_ctx := s\<rparr>
                  else c1\<lparr>simd_ctx := (simd_ctx c1)(world :=
                         SimdCpuContext_save (hw_vector (core_hw c1)) (simd_ctx c1 world))\<rparr>)
        in c2\<lparr>core_hw := (core_hw c2)\<lparr>hw_cptr_el3 := cptr_el3\<rparr>\<rparr>)"

definition Simd_restore_context :: "arch \<Rightarrow> u64 option \<Rightarrow> u64 option \<Rightarrow> World \<Rightarrow> core \<Rightarrow> core" where
  "Simd_restore_context a sve sme world c0 =
     (if sel2 (build a) then c0
      else
        let has_sme = (sme \<noteq> None \<and> feat_sme (features a));
            cptr_el3 = hw_cptr_el3 (core_hw c0);
            h1 = open_vector_unit (cptr (sysregs a)) (core_hw c0);
            u = (if world = NonSecure \<and> sve \<noteq> None \<and> feat_sve (features a)
                 then SveCpuContext_restore a has_sme (sve_ns_ctx c0) (hw_vector h1)
                 else SimdCpuContext_restore (simd_ctx c0 world) (hw_vector h1))
        in c0\<lparr>core_hw := h1\<lparr>hw_vector := u, hw_cptr_el3 := cptr_el3\<rparr>\<rparr>)"

definition Hcx_save_context :: "arch \<Rightarrow> World \<Rightarrow> core \<Rightarrow> core" where
  "Hcx_save_context a w c =
     (if sel2 (build a) \<and> ext_is_present (features a) Hcx
      then c\<lparr>hcx_ctx := (hcx_ctx c)(w := HcxSel2_save (hw_hcx (core_hw c)) (hcx_ctx c w))\<rparr>
      else c)"

definition Sctlr2_save_context :: "arch \<Rightarrow> World \<Rightarrow> core \<Rightarrow> core" where
  "Sctlr2_save_context a w c =
     (if \<not> ext_is_present (features a) Sctlr2 then c
      else if sel2 (build a)
      then c\<lparr>sctlr2_2_ctx := (sctlr2_2_ctx c)(w := Sctlr2Sel2_save (hw_sctlr2_2 (core_hw c)) (sctlr2_2_ctx c w))\<rparr>
      else c\<lparr>sctlr2_1_ctx := (sctlr2_1_ctx c)(w := Sctlr2Sel1_save (hw_sctlr2_1 (core_hw c)) (sctlr2_1_ctx c w))\<rparr>)"

definition Tcr2_save_context :: "arch \<Rightarrow> World \<Rightarrow> core \<Rightarrow> core" where
  "Tcr2_save_context a w c =
     (if \<not> ext_is_present (features a) Tcr2 then c
      else if sel2 (build a)
      then c\<lparr>tcr2_2_ctx := (tcr2_2_ctx c)(w := Tcr2Sel2_save (hw_tcr2_2 (core_hw c)) (tcr2_2_ctx c w))\<rparr>
      else c\<lparr>tcr2_1_ctx := (tcr2_1_ctx c)(w := Tcr2Sel1_save (hw_tcr2_1 (core_hw c)) (tcr2_1_ctx c w))\<rparr>)"

definition MemoryTagging_save_context :: "arch \<Rightarrow> World \<Rightarrow> core \<Rightarrow> core" where
  "MemoryTagging_save_context a w c =
     (if \<not> ext_is_present (features a) MemoryTagging then c
      else if sel2 (build a)
      then c\<lparr>mte2_2_ctx := (mte2_2_ctx c)(w := Mte2Sel2_save (hw_mte2_2 (core_hw c)) (mte2_2_ctx c w))\<rparr>
      else c\<lparr>mte2_1_ctx := (mte2_1_ctx c)(w := Mte2Sel1_save (hw_mte2_1 (core_hw c)) (mte2_1_ctx c w))\<rparr>)"

definition Ras_save_context :: "arch \<Rightarrow> World \<Rightarrow> core \<Rightarrow> core" where
  "Ras_save_context a w c =
     (if sel2 (build a)
      then c\<lparr>ras_2_ctx := (ras_2_ctx c)(w := RasSel2_save (hw_ras_2 (core_hw c)) (ras_2_ctx c w))\<rparr>
      else c\<lparr>ras_1_ctx := (ras_1_ctx c)(w := RasSel1_save (hw_ras_1 (core_hw c)) (ras_1_ctx c w))\<rparr>)"

definition Fgt_save_context :: "arch \<Rightarrow> World \<Rightarrow> core \<Rightarrow> core" where
  "Fgt_save_context a w c =
     (if fgt_switched a
      then c\<lparr>fgt_ctx := (fgt_ctx c)(w := fgt_save_context (features a) (hw_fgt (core_hw c)) (fgt_ctx c w))\<rparr>
      else c)"

definition Fgt2_save_context :: "arch \<Rightarrow> World \<Rightarrow> core \<Rightarrow> core" where
  "Fgt2_save_context a w c =
     (if fgt_switched a \<and> ext_is_present (features a) Fgt2
      then c\<lparr>fgt2_ctx := (fgt2_ctx c)(w := Fgt2_save (hw_fgt2 (core_hw c)) (fgt2_ctx c w))\<rparr>
      else c)"

definition Mpam_save_context :: "arch \<Rightarrow> World \<Rightarrow> core \<Rightarrow> core" where
  "Mpam_save_context a w c =
     (if sel2 (build a) \<and> ext_is_present (features a) Mpam
      then c\<lparr>mpam_ctx := (mpam_ctx c)(w := Mpam_save_el2_context (features a) (hw_mpam (core_hw c)) (mpam_ctx c w))\<rparr>
      else c)"

fun ext_save_context :: "arch \<Rightarrow> CpuExtension \<Rightarrow> World \<Rightarrow> core \<Rightarrow> core" where
  "ext_save_context a Hcx w c = Hcx_save_context a w c"
| "ext_save_context a Sctlr2 w c = Sctlr2_save_context a w c"
| "ext_save_context a Tcr2 w c = Tcr2_save_context a w c"
| "ext_save_context a MemoryTagging w c = MemoryTagging_save_context a w c"
| "ext_save_context a Ras w c = Ras_save_context a w c"
| "ext_save_context a Fgt w c = Fgt_save_context a w c"
| "ext_save_context a Fgt2 w c = Fgt2_save_context a w c"
| "ext_save_context a Mpam w c = Mpam_save_context a w c"
| "ext_save_context a (Simd sve sme) w c = Simd_save_context a sve sme w c"
| "ext_save_context a _ w c = c"

definition Hcx_restore_context :: "arch \<Rightarrow> World \<Rightarrow> core \<Rightarrow> core" where
  "Hcx_restore_context a w c =
     (if sel2 (build a) \<and> ext_is_present (features a) Hcx
      then upd_hw (\<lambda>h. h\<lparr>hw_hcx := HcxSel2_restore (hcx_ctx c w) (hw_hcx h)\<rparr>) c else c)"

definition Sctlr2_restore_context :: "arch \<Rightarrow> World \<Rightarrow> core \<Rightarrow> core" where
  "Sctlr2_restore_context a w c =
     (if \<not> ext_is_present (features a) Sctlr2 then c
      else if sel2 (build a)
      then upd_hw (\<lambda>h. h\<lparr>hw_sctlr2_2 := Sctlr2Sel2_restore (sctlr2_2_ctx c w) (hw_sctlr2_2 h)\<rparr>) c
      else upd_hw (\<lambda>h. h\<lparr>hw_sctlr2_1 := Sctlr2Sel1_restore (sctlr2_1_ctx c w) (hw_sctlr2_1 h)\<rparr>) c)"

definition Tcr2_restore_context :: "arch \<Rightarrow> World \<Rightarrow> core \<Rightarrow> core" where
  "Tcr2_restore_context a w c =
     (if \<not> ext_is_present (features a) Tcr2 then c
      else if sel2 (build a)
      then upd_hw (\<lambda>h. h\<lparr>hw_tcr2_2 := Tcr2Sel2_restore (tcr2_2_ctx c w) (hw_tcr2_2 h)\<rparr>) c
      else upd_hw (\<lambda>h. h\<lparr>hw_tcr2_1 := Tcr2Sel1_restore (tcr2_1_ctx c w) (hw_tcr2_1 h)\<rparr>) c)"

definition MemoryTagging_restore_context :: "arch \<Rightarrow> World \<Rightarrow> core \<Rightarrow> core" where
  "MemoryTagging_restore_context a w c =
     (if \<not> ext_is_present (features a) MemoryTagging then c
      else if sel2 (build a)
      then upd_hw (\<lambda>h. h\<lparr>hw_mte2_2 := Mte2Sel2_restore (mte2_2_ctx c w) (hw_mte2_2 h)\<rparr>) c
      else upd_hw (\<lambda>h. h\<lparr>hw_mte2_1 := Mte2Sel1_restore (mte2_1_ctx c w) (hw_mte2_1 h)\<rparr>) c)"

definition Ras_restore_context :: "arch \<Rightarrow> World \<Rightarrow> core \<Rightarrow> core" where
  "Ras_restore_context a w c =
     (if sel2 (build a)
      then upd_hw (\<lambda>h. h\<lparr>hw_ras_2 := RasSel2_restore (ras_2_ctx c w) (hw_ras_2 h)\<rparr>) c
      else upd_hw (\<lambda>h. h\<lparr>hw_ras_1 := RasSel1_restore (ras_1_ctx c w) (hw_ras_1 h)\<rparr>) c)"

definition Fgt_restore_context :: "arch \<Rightarrow> World \<Rightarrow> core \<Rightarrow> core" where
  "Fgt_restore_context a w c =
     (if fgt_switched a
      then upd_hw (\<lambda>h. h\<lparr>hw_fgt := fgt_restore_context (features a) (fgt_ctx c w) (hw_fgt h)\<rparr>) c else c)"

definition Fgt2_restore_context :: "arch \<Rightarrow> World \<Rightarrow> core \<Rightarrow> core" where
  "Fgt2_restore_context a w c =
     (if fgt_switched a \<and> ext_is_present (features a) Fgt2
      then upd_hw (\<lambda>h. h\<lparr>hw_fgt2 := Fgt2_restore (fgt2_ctx c w) (hw_fgt2 h)\<rparr>) c else c)"

definition Mpam_restore_context :: "arch \<Rightarrow> World \<Rightarrow> core \<Rightarrow> core" where
  "Mpam_restore_context a w c =
     (if sel2 (build a) \<and> ext_is_present (features a) Mpam
      then upd_hw (\<lambda>h. h\<lparr>hw_mpam := Mpam_restore_el2_context (features a) (mpam_ctx c w) (hw_mpam h)\<rparr>) c
      else c)"

fun ext_restore_context :: "arch \<Rightarrow> CpuExtension \<Rightarrow> World \<Rightarrow> core \<Rightarrow> core" where
  "ext_restore_context a Hcx w c = Hcx_restore_context a w c"
| "ext_restore_context a Sctlr2 w c = Sctlr2_restore_context a w c"
| "ext_restore_context a Tcr2 w c = Tcr2_restore_context a w c"
| "ext_restore_context a MemoryTagging w c = MemoryTagging_restore_context a w c"
| "ext_restore_context a Ras w c = Ras_restore_context a w c"
| "ext_restore_context a Fgt w c = Fgt_restore_context a w c"
| "ext_restore_context a Fgt2 w c = Fgt2_restore_context a w c"
| "ext_restore_context a Mpam w c = Mpam_restore_context a w c"
| "ext_restore_context a (Simd sve sme) w c = Simd_restore_context a sve sme w c"
| "ext_restore_context a _ w c = c"

text \<open>Only the activity monitors have a context that is saved around a suspend to power down.\<close>

definition Amu_save_context_before_suspend :: "arch \<Rightarrow> core \<Rightarrow> core" where
  "Amu_save_context_before_suspend a c =
     (if ext_is_present (features a) Amu
      then c\<lparr>amu_ctx := AmuContext_save (features a) (hw_amu (core_hw c)) (amu_ctx c)\<rparr> else c)"

fun ext_save_before_suspend :: "arch \<Rightarrow> CpuExtension \<Rightarrow> core \<Rightarrow> core" where
  "ext_save_before_suspend a Amu c = Amu_save_context_before_suspend a c"
| "ext_save_before_suspend a _ c = c"

definition Amu_restore_context_after_suspend :: "arch \<Rightarrow> core \<Rightarrow> core" where
  "Amu_restore_context_after_suspend a c =
     (if ext_is_present (features a) Amu
      then upd_hw (\<lambda>h. h\<lparr>hw_amu := AmuContext_restore (features a) (amu_ctx c) (hw_amu h)\<rparr>) c else c)"

fun ext_restore_after_suspend :: "arch \<Rightarrow> CpuExtension \<Rightarrow> core \<Rightarrow> core" where
  "ext_restore_after_suspend a Amu c = Amu_restore_context_after_suspend a c"
| "ext_restore_after_suspend a _ c = c"

text \<open>The methods of the extensions, unfolded with the function that selects them.\<close>

lemmas ext_method_defs [simp] =
  Hcx_configure_per_world_def Sctlr2_configure_per_world_def Tcr2_configure_per_world_def
  MemoryTagging_configure_per_world_def Fgt2_configure_per_world_def Mpam_configure_per_world_def
  SysRegTrace_configure_per_world_def TraceBufferNonSecure_configure_per_cpu_def
  StatisticalProfiling_configure_per_cpu_def TraceFiltering_configure_per_cpu_def
  MultiThreadedPmu_configure_per_cpu_def Hcx_init_def Fgt_init_def Simd_init_def HcxSel2_save_def
  HcxSel2_restore_def Sctlr2Sel1_save_def Sctlr2Sel1_restore_def Sctlr2Sel2_save_def
  Sctlr2Sel2_restore_def Tcr2Sel1_save_def Tcr2Sel1_restore_def Tcr2Sel2_save_def Tcr2Sel2_restore_def
  Mte2Sel2_save_def Mte2Sel2_restore_def RasSel1_save_def RasSel1_restore_def Hcx_save_context_def
  Sctlr2_save_context_def Tcr2_save_context_def MemoryTagging_save_context_def Ras_save_context_def
  Fgt_save_context_def Fgt2_save_context_def Mpam_save_context_def Hcx_restore_context_def
  Sctlr2_restore_context_def Tcr2_restore_context_def MemoryTagging_restore_context_def
  Ras_restore_context_def Fgt_restore_context_def Fgt2_restore_context_def Mpam_restore_context_def
  Amu_save_context_before_suspend_def Amu_restore_context_after_suspend_def

end
