(* ===== verification/Cpu_Ops.thy ===== *)
theory Cpu_Ops
  imports Smccc
begin

text \<open>
  The errata framework, \<^verbatim>\<open>src/src/errata_framework.rs\<close>, and the CPU specific operations,
  \<^verbatim>\<open>src/src/cpu.rs\<close> and \<^verbatim>\<open>src/src/cpu\<close>. The state is the implementation defined registers of a core
  and the cache maintenance operations it has issued. Functions in assembly are translated
  instruction by instruction where they compute something; the fields of \<^verbatim>\<open>MIDR_EL1\<close> are those of
  the \<open>arm_sysregs\<close> crate, the record \<open>midr_fields\<close>.
\<close>

section \<open>The registers of a core\<close>

record cpu_regs =
  s3_3_c4_c2_6 :: u64
  s3_0_c15_c1_0 :: u64
  s3_0_c15_c1_1 :: u64
  s3_0_c15_c1_3 :: u64
  s3_0_c15_c1_4 :: u64
  s3_0_c15_c1_5 :: u64
  s3_0_c15_c2_7 :: u64
  s3_0_c15_c3_1 :: u64
  s3_0_c15_c3_3 :: u64
  s3_0_c15_c8_0 :: u64
  s3_6_c15_c8_writes :: "(nat \<times> u64) list"
  csselr_el1_level :: nat
  dc_cisw :: "u64 list"

text \<open>The registers \<^verbatim>\<open>s3_6_c15_c8_<n>\<close> are a window on a table of patches: the writes are kept in order.\<close>

definition msr_c8 :: "nat \<Rightarrow> u64 \<Rightarrow> cpu_regs \<Rightarrow> cpu_regs" where
  "msr_c8 n v r = r\<lparr>s3_6_c15_c8_writes := s3_6_c15_c8_writes r @ [(n, v)]\<rparr>"

record midr_fields =
  IMPLEMENTER_MASK :: u64
  IMPLEMENTER_SHIFT :: nat
  PARTNUM_MASK :: u64
  PARTNUM_SHIFT :: nat
  VARIANT_SHIFT :: nat
  VARIANT_LEN :: nat
  REVISION_LEN :: nat

section \<open>Errata\<close>

datatype RevisionVariant = RevisionVariant (revision: u8) (variant: u8)

definition NOT_FIXED :: RevisionVariant where
  "NOT_FIXED = RevisionVariant 255 255"

text \<open>The derived order compares the revision first.\<close>

instantiation RevisionVariant :: linorder
begin

definition less_eq_RevisionVariant :: "RevisionVariant \<Rightarrow> RevisionVariant \<Rightarrow> bool" where
  "a \<le> b \<longleftrightarrow> revision a < revision b \<or> revision a = revision b \<and> variant a \<le> variant b"

definition less_RevisionVariant :: "RevisionVariant \<Rightarrow> RevisionVariant \<Rightarrow> bool" where
  "a < b \<longleftrightarrow> revision a < revision b \<or> revision a = revision b \<and> variant a < variant b"

instance
  by standard (auto simp: less_eq_RevisionVariant_def less_RevisionVariant_def RevisionVariant.expand)

end

datatype ErratumType = Reset | Runtime

record ErratumEntry =
  erratum_id :: u32
  apply_on :: ErratumType
  erratum_check :: "u64 \<Rightarrow> cpu_regs \<Rightarrow> bool"
  erratum_workaround :: "cpu_regs \<Rightarrow> cpu_regs"

definition erratum_applies :: "ErratumEntry list \<Rightarrow> u64 \<Rightarrow> cpu_regs \<Rightarrow> u32 \<Rightarrow> bool" where
  "erratum_applies ERRATA_LIST midr r eid \<longleftrightarrow>
     (\<exists>e \<in> set ERRATA_LIST. erratum_id e = eid \<and> erratum_check e midr r)"

text \<open>The loop over the errata list before the stack is set up.\<close>

fun apply_reset_errata :: "ErratumEntry list \<Rightarrow> u64 \<Rightarrow> cpu_regs \<Rightarrow> cpu_regs" where
  "apply_reset_errata [] midr r = r"
| "apply_reset_errata (e # es) midr r =
     (if apply_on e \<noteq> Reset then apply_reset_errata es midr r
      else if \<not> erratum_check e midr r then apply_reset_errata es midr r
      else apply_reset_errata es midr (erratum_workaround e r))"

text \<open>
  The macro \<open>implement_erratum_check!\<close>: \<^verbatim>\<open>ubfx\<close> extracts the variant, \<^verbatim>\<open>bfi\<close> inserts the low bits of
  the register above it, and the comparisons are signed.
\<close>

definition midr_match_mask :: "midr_fields \<Rightarrow> u64" where
  "midr_match_mask L =
     push_bit (IMPLEMENTER_SHIFT L) (IMPLEMENTER_MASK L) OR push_bit (PARTNUM_SHIFT L) (PARTNUM_MASK L)"

definition midr_rev_var :: "midr_fields \<Rightarrow> u64 \<Rightarrow> u64" where
  "midr_rev_var L x1 =
     (let x2 = take_bit (VARIANT_LEN L) (drop_bit (VARIANT_SHIFT L) x1)
      in x2 AND NOT (push_bit (VARIANT_LEN L) (mask (REVISION_LEN L)))
         OR push_bit (VARIANT_LEN L) (take_bit (REVISION_LEN L) x1))"

definition pack_rev_var :: "midr_fields \<Rightarrow> RevisionVariant \<Rightarrow> u64" where
  "pack_rev_var L rv = ucast (push_bit (VARIANT_LEN L) (ucast (revision rv)) OR ucast (variant rv) :: u32)"

definition implement_erratum_check ::
  "midr_fields \<Rightarrow> u64 \<Rightarrow> RevisionVariant \<Rightarrow> RevisionVariant \<Rightarrow> u64 \<Rightarrow> bool" where
  "implement_erratum_check L midr apply_from fixed_in x1 \<longleftrightarrow>
     (let x4 = midr_match_mask L; x2 = midr_rev_var L x1
      in x1 AND x4 = midr AND x4 \<and> \<not> sint x2 < sint (pack_rev_var L apply_from) \<and>
         \<not> sint (pack_rev_var L fixed_in) \<le> sint x2)"

subsection \<open>C1-Pro\<close>

definition C1Pro_MIDR :: u64 where "C1Pro_MIDR = 0x410FD8B0"

definition CORE_PWRDN_ENABLE_BIT_MASK :: u64 where "CORE_PWRDN_ENABLE_BIT_MASK = 1"

definition Erratum3300099 :: "midr_fields \<Rightarrow> ErratumEntry" where
  "Erratum3300099 L =
     \<lparr>erratum_id = 3300099, apply_on = Runtime,
      erratum_check = \<lambda>midr r. implement_erratum_check L C1Pro_MIDR (RevisionVariant 0 0) (RevisionVariant 1 1) midr,
      erratum_workaround = id\<rparr>"

definition Erratum3773617 :: "midr_fields \<Rightarrow> ErratumEntry" where
  "Erratum3773617 L =
     \<lparr>erratum_id = 3773617, apply_on = Runtime,
      erratum_check = \<lambda>midr r. implement_erratum_check L C1Pro_MIDR (RevisionVariant 1 1) (RevisionVariant 1 2) midr,
      erratum_workaround = id\<rparr>"

definition Erratum3619847 :: "midr_fields \<Rightarrow> ErratumEntry" where
  "Erratum3619847 L =
     \<lparr>erratum_id = 3619847, apply_on = Reset,
      erratum_check = \<lambda>midr r. implement_erratum_check L C1Pro_MIDR (RevisionVariant 0 0) (RevisionVariant 1 0) midr,
      erratum_workaround = \<lambda>r. r\<lparr>s3_0_c15_c1_1 := s3_0_c15_c1_1 r OR push_bit 42 1\<rparr>\<rparr>"

definition Erratum3686597 :: "midr_fields \<Rightarrow> ErratumEntry" where
  "Erratum3686597 L =
     \<lparr>erratum_id = 3686597, apply_on = Runtime,
      erratum_check = \<lambda>midr r. implement_erratum_check L C1Pro_MIDR (RevisionVariant 0 0) (RevisionVariant 1 1) midr,
      erratum_workaround = \<lambda>r. r\<lparr>s3_0_c15_c1_4 := s3_0_c15_c1_4 r OR push_bit 57 1\<rparr>\<rparr>"

definition Erratum3694158 :: "midr_fields \<Rightarrow> ErratumEntry" where
  "Erratum3694158 L =
     \<lparr>erratum_id = 3694158, apply_on = Reset,
      erratum_check = \<lambda>midr r. implement_erratum_check L C1Pro_MIDR (RevisionVariant 0 0) (RevisionVariant 1 2) midr,
      erratum_workaround = \<lambda>r.
        msr_c8 1 ((push_bit 0 1 OR push_bit 4 3 OR push_bit 6 0xf) OR push_bit 22 1 OR push_bit 32 1)
          (msr_c8 3 0xfffff3ff (msr_c8 2 0xd503329f (msr_c8 0 5 r)))\<rparr>"

definition Erratum3684268 :: "midr_fields \<Rightarrow> ErratumEntry" where
  "Erratum3684268 L =
     \<lparr>erratum_id = 3684268, apply_on = Reset,
      erratum_check = \<lambda>midr r. implement_erratum_check L C1Pro_MIDR (RevisionVariant 0 0) (RevisionVariant 1 1) midr,
      erratum_workaround = \<lambda>r. r\<lparr>s3_0_c15_c1_5 := s3_0_c15_c1_5 r OR push_bit 49 1\<rparr>\<rparr>"

definition Erratum3706576 :: "midr_fields \<Rightarrow> ErratumEntry" where
  "Erratum3706576 L =
     \<lparr>erratum_id = 3706576, apply_on = Reset,
      erratum_check = \<lambda>midr r. implement_erratum_check L C1Pro_MIDR (RevisionVariant 0 0) (RevisionVariant 1 1) midr,
      erratum_workaround = \<lambda>r. r\<lparr>s3_0_c15_c1_1 := s3_0_c15_c1_1 r OR push_bit 37 1\<rparr>\<rparr>"

subsection \<open>C1-Ultra\<close>

definition C1Ultra_MIDR :: u64 where "C1Ultra_MIDR = 0x410FD8C0"

definition IMP_CPUPWRCTLR_EL1_CORE_PWRDN_EN_BIT :: u64 where "IMP_CPUPWRCTLR_EL1_CORE_PWRDN_EN_BIT = 1"

definition Erratum3658374 :: "midr_fields \<Rightarrow> ErratumEntry" where
  "Erratum3658374 L =
     \<lparr>erratum_id = 3658374, apply_on = Runtime,
      erratum_check = \<lambda>midr r. implement_erratum_check L C1Ultra_MIDR (RevisionVariant 0 0) NOT_FIXED midr,
      erratum_workaround = id\<rparr>"

definition Erratum3705939 :: "midr_fields \<Rightarrow> ErratumEntry" where
  "Erratum3705939 L =
     \<lparr>erratum_id = 3705939, apply_on = Reset,
      erratum_check = \<lambda>midr r. implement_erratum_check L C1Ultra_MIDR (RevisionVariant 0 0) NOT_FIXED midr,
      erratum_workaround = \<lambda>r. r\<lparr>s3_0_c15_c1_0 := s3_0_c15_c1_0 r OR push_bit 48 1\<rparr>\<rparr>"

definition Erratum3815514 :: "midr_fields \<Rightarrow> ErratumEntry" where
  "Erratum3815514 L =
     \<lparr>erratum_id = 3815514, apply_on = Reset,
      erratum_check = \<lambda>midr r. implement_erratum_check L C1Ultra_MIDR (RevisionVariant 0 0) NOT_FIXED midr,
      erratum_workaround = \<lambda>r. r\<lparr>s3_0_c15_c8_0 := s3_0_c15_c8_0 r OR push_bit 13 1\<rparr>\<rparr>"

definition Erratum3865171 :: "midr_fields \<Rightarrow> ErratumEntry" where
  "Erratum3865171 L =
     \<lparr>erratum_id = 3865171, apply_on = Reset,
      erratum_check = \<lambda>midr r. implement_erratum_check L C1Ultra_MIDR (RevisionVariant 0 0) NOT_FIXED midr,
      erratum_workaround = \<lambda>r. r\<lparr>s3_0_c15_c1_1 := s3_0_c15_c1_1 r OR push_bit 22 1\<rparr>\<rparr>"

definition Erratum3926381 :: "midr_fields \<Rightarrow> ErratumEntry" where
  "Erratum3926381 L =
     \<lparr>erratum_id = 3926381, apply_on = Reset,
      erratum_check = \<lambda>midr r. implement_erratum_check L C1Ultra_MIDR (RevisionVariant 1 0) NOT_FIXED midr,
      erratum_workaround = \<lambda>r.
        fold (\<lambda>(n, v). msr_c8 n v)
          [(0, 0), (2, 0xD503205f), (3, 0xFFFFFFDF), (1, 0x1000002043ff),
           (0, 1), (2, 0xD5031000), (3, 0xFFFFFFC0), (1, 0x1000002043ff)] r\<rparr>"

definition Erratum4102704 :: "midr_fields \<Rightarrow> ErratumEntry" where
  "Erratum4102704 L =
     \<lparr>erratum_id = 4102704, apply_on = Reset,
      erratum_check = \<lambda>midr r. implement_erratum_check L C1Ultra_MIDR (RevisionVariant 0 0) NOT_FIXED midr,
      erratum_workaround = \<lambda>r. r\<lparr>s3_0_c15_c1_3 := s3_0_c15_c1_3 r OR push_bit 23 1\<rparr>\<rparr>"

subsection \<open>DynamIQ Shared Unit\<close>

definition DsuErratum3396010 :: ErratumEntry where
  "DsuErratum3396010 =
     \<lparr>erratum_id = 3396010, apply_on = Reset,
      erratum_check = \<lambda>midr r. \<not> 0 < take_bit 8 (s3_0_c15_c3_1 r),
      erratum_workaround = \<lambda>r. r\<lparr>s3_0_c15_c3_3 := s3_0_c15_c3_3 r OR push_bit 15 3\<rparr>\<rparr>"

section \<open>CPU operations\<close>

record CpuOps =
  ops_midr :: u64
  ops_reset_handler :: "cpu_regs \<Rightarrow> cpu_regs"
  ops_power_down_level0 :: "u64 \<Rightarrow> cpu_regs \<Rightarrow> cpu_regs option"
  ops_power_down_level1 :: "u64 \<Rightarrow> cpu_regs \<Rightarrow> cpu_regs option"
  ops_handle_power_down_abandon :: "cpu_regs \<Rightarrow> cpu_regs option"

definition MIDR_MASK :: u64 where "MIDR_MASK = 0xff00fff0"

definition has_matching_midr :: "CpuOps \<Rightarrow> u64 \<Rightarrow> bool" where
  "has_matching_midr ops midr \<longleftrightarrow> ops_midr ops = midr AND MIDR_MASK"

text \<open>\<open>from_cpu\<close> takes the functions of the \<open>Cpu\<close> and the masked value of its \<open>MIDR\<close>.\<close>

definition from_cpu :: "CpuOps \<Rightarrow> CpuOps" where
  "from_cpu cpu = cpu\<lparr>ops_midr := ops_midr cpu AND MIDR_MASK\<rparr>"

definition find_cpu_ops :: "CpuOps list \<Rightarrow> u64 \<Rightarrow> CpuOps option" where
  "find_cpu_ops CPU_OPS midr = List.find (\<lambda>i. has_matching_midr i midr) CPU_OPS"

text \<open>
  \<open>get_cpu_ops\<close>, the same lookup in assembly: the mask is built from two 16-bit immediates, and all
  comparisons are on the low 32 bits of the registers. A null pointer is \<open>None\<close>.
\<close>

fun get_cpu_ops_loop :: "u32 \<Rightarrow> CpuOps list \<Rightarrow> CpuOps option" where
  "get_cpu_ops_loop w2 [] = None"
| "get_cpu_ops_loop w2 (x0 # ops) =
     (let w1 = ucast (ops_midr x0) :: u32
      in if w1 = w2 then Some x0 else get_cpu_ops_loop w2 ops)"

definition get_cpu_ops :: "CpuOps list \<Rightarrow> u64 \<Rightarrow> CpuOps option" where
  "get_cpu_ops CPU_OPS midr =
     (let w0 = ucast (MIDR_MASK AND 0xffff) :: u32;
          w0 = take_bit 16 w0 OR push_bit 16 (ucast (drop_bit 16 MIDR_MASK AND 0xffff));
          w2 = ucast midr AND w0
      in get_cpu_ops_loop w2 CPU_OPS)"

definition cpu_reset_handler :: "CpuOps list \<Rightarrow> u64 \<Rightarrow> cpu_regs \<Rightarrow> cpu_regs option" where
  "cpu_reset_handler CPU_OPS midr r =
     (case get_cpu_ops CPU_OPS midr of None \<Rightarrow> None | Some ops \<Rightarrow> Some (ops_reset_handler ops r))"

definition cpu_power_down :: "CpuOps list \<Rightarrow> u64 \<Rightarrow> nat \<Rightarrow> cpu_regs \<Rightarrow> cpu_regs option" where
  "cpu_power_down CPU_OPS midr level r =
     do {
       ops \<leftarrow> find_cpu_ops CPU_OPS midr;
       if level = 0 then ops_power_down_level0 ops midr r else ops_power_down_level1 ops midr r
     }"

definition cpu_handle_power_down_abandon :: "CpuOps list \<Rightarrow> u64 \<Rightarrow> cpu_regs \<Rightarrow> cpu_regs option" where
  "cpu_handle_power_down_abandon CPU_OPS midr r =
     do { ops \<leftarrow> find_cpu_ops CPU_OPS midr; ops_handle_power_down_abandon ops r }"

text \<open>The default method panics.\<close>

definition default_handle_power_down_abandon :: "cpu_regs \<Rightarrow> cpu_regs option" where
  "default_handle_power_down_abandon r = None"

subsection \<open>C1-Pro and C1-Ultra\<close>

definition C1Pro_reset_handler :: "cpu_regs \<Rightarrow> cpu_regs" where
  "C1Pro_reset_handler r =
     r\<lparr>s3_3_c4_c2_6 := 0, s3_0_c15_c2_7 := s3_0_c15_c2_7 r AND NOT (push_bit 0 1)\<rparr>"

definition C1Pro_power_down_level0 :: "midr_fields \<Rightarrow> u64 \<Rightarrow> cpu_regs \<Rightarrow> cpu_regs option" where
  "C1Pro_power_down_level0 L midr r =
     (let r1 = r\<lparr>s3_0_c15_c2_7 := s3_0_c15_c2_7 r OR CORE_PWRDN_ENABLE_BIT_MASK\<rparr>
      in Some (if erratum_check (Erratum3686597 L) midr r1
               then erratum_workaround (Erratum3686597 L) r1 else r1))"

definition C1Pro_handle_power_down_abandon :: "cpu_regs \<Rightarrow> cpu_regs option" where
  "C1Pro_handle_power_down_abandon r =
     Some (r\<lparr>s3_0_c15_c2_7 := s3_0_c15_c2_7 r AND NOT CORE_PWRDN_ENABLE_BIT_MASK\<rparr>)"

definition C1Pro :: "midr_fields \<Rightarrow> CpuOps" where
  "C1Pro L =
     \<lparr>ops_midr = C1Pro_MIDR, ops_reset_handler = C1Pro_reset_handler,
      ops_power_down_level0 = C1Pro_power_down_level0 L,
      ops_power_down_level1 = C1Pro_power_down_level0 L,
      ops_handle_power_down_abandon = C1Pro_handle_power_down_abandon\<rparr>"

definition C1Ultra_reset_handler :: "cpu_regs \<Rightarrow> cpu_regs" where
  "C1Ultra_reset_handler r =
     r\<lparr>s3_3_c4_c2_6 := 0, s3_0_c15_c2_7 := s3_0_c15_c2_7 r AND NOT (push_bit 0 1)\<rparr>"

definition C1Ultra_power_down_level0 :: "u64 \<Rightarrow> cpu_regs \<Rightarrow> cpu_regs option" where
  "C1Ultra_power_down_level0 midr r =
     Some (r\<lparr>s3_0_c15_c2_7 := s3_0_c15_c2_7 r OR IMP_CPUPWRCTLR_EL1_CORE_PWRDN_EN_BIT\<rparr>)"

definition C1Ultra_handle_power_down_abandon :: "cpu_regs \<Rightarrow> cpu_regs option" where
  "C1Ultra_handle_power_down_abandon r =
     Some (r\<lparr>s3_0_c15_c2_7 := s3_0_c15_c2_7 r AND NOT IMP_CPUPWRCTLR_EL1_CORE_PWRDN_EN_BIT\<rparr>)"

definition C1Ultra :: CpuOps where
  "C1Ultra =
     \<lparr>ops_midr = C1Ultra_MIDR, ops_reset_handler = C1Ultra_reset_handler,
      ops_power_down_level0 = C1Ultra_power_down_level0,
      ops_power_down_level1 = C1Ultra_power_down_level0,
      ops_handle_power_down_abandon = C1Ultra_handle_power_down_abandon\<rparr>"

subsection \<open>The QEMU CPU\<close>

definition QemuMax :: CpuOps where
  "QemuMax =
     \<lparr>ops_midr = 0x000f0510, ops_reset_handler = id,
      ops_power_down_level0 = \<lambda>midr r. Some r, ops_power_down_level1 = \<lambda>midr r. Some r,
      ops_handle_power_down_abandon = default_handle_power_down_abandon\<rparr>"

subsection \<open>The FVP CPU\<close>

text \<open>
  The cache identification registers, read through the \<open>arm_sysregs\<close> crate: the type of a level,
  \<^verbatim>\<open>CCSIDR_EL1\<close> while the level is selected, its line size field and its format, and the encoding of
  a level.
\<close>

datatype CacheType = NoCache | InstructionOnly | DataOnly | SeparateCaches | UnifiedCache

record cache_ids =
  cache_type :: "nat \<Rightarrow> CacheType"
  ccsidr_el1 :: "nat \<Rightarrow> u64"
  ccsidr_linesize :: "u64 \<Rightarrow> u32"
  has_64_bit_ccsidr_el1 :: bool
  cache_level_bits :: "nat \<Rightarrow> u64"

record CacheSize =
  num_sets :: u32
  associativity :: u32
  line_size_log :: u32

definition read_cache_size :: "cache_ids \<Rightarrow> nat \<Rightarrow> cpu_regs \<Rightarrow> CacheSize \<times> cpu_regs" where
  "read_cache_size I level r0 =
     (let r = r0\<lparr>csselr_el1_level := level\<rparr>;
          ccsidr = ccsidr_el1 I level;
          (sets, assoc) =
            (if has_64_bit_ccsidr_el1 I
             then (ucast (drop_bit 32 ccsidr AND 0x00ffffff), ucast (drop_bit 3 ccsidr AND 0x001fffff))
             else (ucast (drop_bit 13 ccsidr AND 0x00007fff), ucast (drop_bit 3 ccsidr AND 0x000003ff)))
      in (\<lparr>num_sets = sets, associativity = assoc, line_size_log = ccsidr_linesize I ccsidr\<rparr>, r))"

definition leading_zeros :: "u32 \<Rightarrow> nat" where
  "leading_zeros x = length (takeWhile (\<lambda>n. \<not> bit x n) (rev [0..<32]))"

text \<open>A shift of a 32-bit value panics when the distance is 32 or more.\<close>

definition checked_shl32 :: "u32 \<Rightarrow> nat \<Rightarrow> u32 option" where
  "checked_shl32 x n = (if n < 32 then Some (push_bit n x) else None)"

text \<open>\<open>(0..=last).step_by(step)\<close>.\<close>

definition step_by :: "nat \<Rightarrow> nat \<Rightarrow> nat list" where
  "step_by last_value step = map (\<lambda>i. i * step) [0..<last_value div step + 1]"

definition flush_cache_level :: "cache_ids \<Rightarrow> nat \<Rightarrow> cpu_regs \<Rightarrow> cpu_regs option" where
  "flush_cache_level I level r0 =
     (if cache_type I level = NoCache \<or> cache_type I level = InstructionOnly then Some r0
      else
        let (cache_size, r) = read_cache_size I level r0;
            assoc_shift = leading_zeros (associativity cache_size)
        in do {
          ways_aligned \<leftarrow> checked_shl32 (associativity cache_size) assoc_shift;
          let way_step = 2 ^ assoc_shift;
          assert_that (unat (line_size_log cache_size) + 4 < 2 ^ 32);
          let line_shift = unat (line_size_log cache_size) + 4;
          assert_that (line_shift < 64);
          let line_length = 2 ^ line_shift;
          max_set_num \<leftarrow> checked_shl32 (num_sets cache_size) line_shift;
          let ops = concat (map (\<lambda>way.
                      let value = push_bit 1 (cache_level_bits I level) OR of_nat way
                      in map (\<lambda>set. value OR of_nat set) (step_by (unat max_set_num) line_length))
                    (step_by (unat ways_aligned) way_step));
          Some (r\<lparr>dc_cisw := dc_cisw r @ ops\<rparr>)
        })"

fun flush_levels :: "cache_ids \<Rightarrow> nat list \<Rightarrow> cpu_regs \<Rightarrow> cpu_regs option" where
  "flush_levels I [] r = Some r"
| "flush_levels I (level # levels) r = do { r' \<leftarrow> flush_cache_level I level r; flush_levels I levels r' }"

definition flush_cache_levels :: "cache_ids \<Rightarrow> nat list \<Rightarrow> cpu_regs \<Rightarrow> cpu_regs option" where
  "flush_cache_levels I levels r =
     do { r' \<leftarrow> flush_levels I levels r; Some (r'\<lparr>csselr_el1_level := 0\<rparr>) }"

definition Aem_power_down_level0 :: "cache_ids \<Rightarrow> u64 \<Rightarrow> cpu_regs \<Rightarrow> cpu_regs option" where
  "Aem_power_down_level0 I midr r =
     do {
       r1 \<leftarrow> flush_cache_levels I [1] r;
       if cache_type I 3 \<noteq> NoCache then flush_cache_levels I [2] r1 else Some r1
     }"

definition Aem_power_down_level1 :: "cache_ids \<Rightarrow> u64 \<Rightarrow> cpu_regs \<Rightarrow> cpu_regs option" where
  "Aem_power_down_level1 I midr r = flush_cache_levels I [1, 2, 3] r"

definition AemGeneric :: "cache_ids \<Rightarrow> CpuOps" where
  "AemGeneric I =
     \<lparr>ops_midr = 0x410fd0f0, ops_reset_handler = id,
      ops_power_down_level0 = Aem_power_down_level0 I, ops_power_down_level1 = Aem_power_down_level1 I,
      ops_handle_power_down_abandon = default_handle_power_down_abandon\<rparr>"

end
