(* ===== verification/World_Switch.thy ===== *)
theory World_Switch
  imports Cpu_Extensions Cpu_Ops
begin

text \<open>
  Contexts and world switches, \<^verbatim>\<open>src/src/context.rs\<close>: the EL3 configuration of each world, the
  initial context of a core, the switch from one world to another and the entry to a world, with
  the interrupt routing of \<^verbatim>\<open>src/src/gicv3.rs\<close>. The lower exception levels run between the entry to a
  world and the next exception: what they leave in the registers is an argument.
\<close>

section \<open>Platform\<close>

text \<open>What the code takes from \<open>Platform\<close>, the errata list and the core's identification register.\<close>

record runtime_platform =
  CPU_EXTENSIONS :: "CpuExtension list"
  ERRATA_LIST :: "ErratumEntry list"
  midr_el1 :: u64
  cpu_regs_of_core :: cpu_regs

text \<open>The lists of the two platforms.\<close>

definition Fvp_CPU_EXTENSIONS :: "CpuExtension list" where
  "Fvp_CPU_EXTENSIONS =
     [Amu, Fgt, Fgt2, Hcx, MemoryTagging, Mpam, MultiThreadedPmu, Ras, Sctlr2, Simd_simd,
      StatisticalProfiling, SysRegTrace, Tcr2, TraceBufferNonSecure, TraceFiltering]"

definition Qemu_CPU_EXTENSIONS :: "CpuExtension list option" where
  "Qemu_CPU_EXTENSIONS = do { simd \<leftarrow> Simd_sve 512 False; Some [simd] }"

definition errata_ich_vmcr_el2_applies :: "runtime_platform \<Rightarrow> bool" where
  "errata_ich_vmcr_el2_applies P \<longleftrightarrow>
     erratum_applies (ERRATA_LIST P) (midr_el1 P) (cpu_regs_of_core P) 3300099 \<or>
     erratum_applies (ERRATA_LIST P) (midr_el1 P) (cpu_regs_of_core P) 3658374 \<or>
     erratum_applies (ERRATA_LIST P) (midr_el1 P) (cpu_regs_of_core P) 3773617"

section \<open>Per-world configuration\<close>

definition set_routing_model :: "scr_bits \<Rightarrow> World \<Rightarrow> u64 \<Rightarrow> u64" where
  "set_routing_model S world scr_el3 =
     (case world of
        NonSecure \<Rightarrow> flags_minus (scr_el3 OR SCR_FIQ S) (SCR_IRQ S)
      | Secure \<Rightarrow> flags_minus (flags_minus scr_el3 (SCR_IRQ S)) (SCR_FIQ S)
      | Realm \<Rightarrow> flags_minus (flags_minus scr_el3 (SCR_FIQ S)) (SCR_IRQ S))"

definition PerWorldContext_initialise_common :: "arch \<Rightarrow> PerWorldContext \<Rightarrow> PerWorldContext" where
  "PerWorldContext_initialise_common a ctx =
     (let S = scr (sysregs a); C = cptr (sysregs a) in
      ctx\<lparr>pw_cptr_el3 := CPTR_TAM C OR CPTR_TTA C OR CPTR_TFP C,
          pw_mpam3_el3 := MPAM3_TRAPLOWER (mpam3 (sysregs a)),
          pw_scr_el3 := SCR_RES1 S OR SCR_HCE S OR SCR_SIF S OR SCR_RW S OR SCR_APK S OR SCR_API S
            OR SCR_ECVEN S OR (if sel2 (build a) then SCR_EEL2 S else 0)\<rparr>)"

definition upd_scr :: "(u64 \<Rightarrow> u64) \<Rightarrow> PerWorldContext \<Rightarrow> PerWorldContext" where
  "upd_scr f ctx = ctx\<lparr>pw_scr_el3 := f (pw_scr_el3 ctx)\<rparr>"

text \<open>The extensions configure the world contexts one after the other, in the order of the list.\<close>

definition configure_worlds ::
  "arch \<Rightarrow> CpuExtension list \<Rightarrow> PerWorldContext PerWorld \<Rightarrow> PerWorldContext PerWorld" where
  "configure_worlds a exts pw =
     fold (\<lambda>ext pw.
       if ext_is_present (features a) ext
       then (\<lambda>w. if w = Realm \<and> \<not> rme (build a) then pw w else ext_configure_per_world a ext w (pw w))
       else pw) exts pw"

definition build_per_world_contexts :: "arch \<Rightarrow> runtime_platform \<Rightarrow> PerWorldContext PerWorld" where
  "build_per_world_contexts a P =
     (let S = scr (sysregs a); C = cptr (sysregs a);
          pw = (\<lambda>_. PerWorldContext_default);
          pw = pw(NonSecure := PerWorldContext_initialise_common a (pw NonSecure));
          pw = pw(Secure := PerWorldContext_initialise_common a (pw Secure));
          pw = (if rme (build a) then pw(Realm := PerWorldContext_initialise_common a (pw Realm)) else pw);
          pw = pw(NonSecure := (pw NonSecure)
                   \<lparr>pw_cptr_el3 := flags_minus (pw_cptr_el3 (pw NonSecure)) (CPTR_TAM C)\<rparr>);
          pw = pw(NonSecure := upd_scr (\<lambda>v. v OR (SCR_NS S OR SCR_FGTEN S)) (pw NonSecure));
          pw = pw(NonSecure := upd_scr (set_routing_model S NonSecure) (pw NonSecure));
          pw = pw(Secure := upd_scr (\<lambda>v. v OR SCR_ST S) (pw Secure));
          pw = pw(Secure := upd_scr (set_routing_model S Secure) (pw Secure));
          pw = (if rme (build a)
                then pw(Realm := upd_scr (set_routing_model S Realm)
                         (upd_scr (\<lambda>v. v OR (SCR_NS S OR SCR_NSE S OR SCR_FGTEN S)) (pw Realm)))
                else pw)
      in configure_worlds a (CPU_EXTENSIONS P) pw)"

text \<open>\<open>Once::call_once\<close>: the contexts are built by the first core that gets here.\<close>

definition initialise_per_world_contexts :: "arch \<Rightarrow> runtime_platform \<Rightarrow> core \<Rightarrow> core" where
  "initialise_per_world_contexts a P c =
     (case PER_WORLD_CONTEXT c of
        None \<Rightarrow> c\<lparr>PER_WORLD_CONTEXT := Some (build_per_world_contexts a P)\<rparr>
      | Some pw \<Rightarrow> c)"

definition world_context :: "core \<Rightarrow> World \<Rightarrow> PerWorldContext option" where
  "world_context c world = do { pw \<leftarrow> PER_WORLD_CONTEXT c; Some (pw world) }"

definition restore_el3_sysregs :: "arch \<Rightarrow> PerWorldContext \<Rightarrow> hw \<Rightarrow> hw" where
  "restore_el3_sysregs a ctx h =
     (let h1 = (if feat_mpam (features a) then h\<lparr>hw_mpam3_el3 := pw_mpam3_el3 ctx\<rparr> else h)
      in h1\<lparr>hw_cptr_el3 := pw_cptr_el3 ctx\<rparr>)"

section \<open>Switching worlds\<close>

definition save_lower_el_sysregs :: "arch \<Rightarrow> hw \<Rightarrow> CpuContext \<Rightarrow> CpuContext" where
  "save_lower_el_sysregs a h c =
     (if sel2 (build a) then c\<lparr>el2_sysregs := El2Sysregs_save (features a) (hw_el2 h) (el2_sysregs c)\<rparr>
      else c\<lparr>el1_sysregs := El1Sysregs_save (hw_el1 h) (el1_sysregs c)\<rparr>)"

definition restore_lower_el_sysregs :: "arch \<Rightarrow> runtime_platform \<Rightarrow> World \<Rightarrow> CpuContext \<Rightarrow> hw \<Rightarrow> hw" where
  "restore_lower_el_sysregs a P world c h =
     (if sel2 (build a)
      then El2Sysregs_restore (sysregs a) (features a) (errata_ich_vmcr_el2_applies P) world (el2_sysregs c) h
      else h\<lparr>hw_el1 := El1Sysregs_restore (el1_sysregs c) (hw_el1 h)\<rparr>)"

definition restore_world :: "arch \<Rightarrow> runtime_platform \<Rightarrow> World \<Rightarrow> core \<Rightarrow> core option" where
  "restore_world a P world c =
     do {
       wc \<leftarrow> world_context c world;
       let c1 = upd_hw (restore_el3_sysregs a wc) c;
       let c2 = fold (\<lambda>ext c. ext_restore_context a ext world c) (CPU_EXTENSIONS P) c1;
       Some (upd_hw (restore_lower_el_sysregs a P world (cpu_state c2 world)) c2)
     }"

definition switch_world :: "arch \<Rightarrow> runtime_platform \<Rightarrow> World \<Rightarrow> World \<Rightarrow> core \<Rightarrow> core option" where
  "switch_world a P old_world new_world c =
     do {
       assert_that (old_world \<noteq> new_world);
       let c1 = c\<lparr>cpu_state := (cpu_state c)(old_world :=
                  save_lower_el_sysregs a (core_hw c) (cpu_state c old_world))\<rparr>;
       let c2 = fold (\<lambda>ext c. ext_save_context a ext old_world c) (CPU_EXTENSIONS P) c1;
       restore_world a P new_world c2
     }"

definition set_initial_world :: "arch \<Rightarrow> runtime_platform \<Rightarrow> World \<Rightarrow> core \<Rightarrow> core option" where
  "set_initial_world a P world c =
     do {
       wc \<leftarrow> world_context c world;
       restore_world a P world (upd_hw (\<lambda>h. h\<lparr>hw_scr_el3 := pw_scr_el3 wc\<rparr>) c)
     }"

section \<open>Initial contexts\<close>

record EntryPointInfo =
  ep_pc :: u64
  ep_args :: "u64 list"

definition set_spsr :: "u64 \<Rightarrow> CpuContext \<Rightarrow> CpuContext" where
  "set_spsr v c = c\<lparr>el3_state := (el3_state c)\<lparr>spsr_el3 := v\<rparr>\<rparr>"

text \<open>\<open>registers[..values.len()].copy_from_slice(values)\<close>.\<close>

definition copy_to_front :: "u64 list \<Rightarrow> GpRegs \<Rightarrow> GpRegs option" where
  "copy_to_front vs g =
     (if length vs \<le> length (registers g)
      then Some (g\<lparr>registers := vs @ drop (length vs) (registers g)\<rparr>) else None)"

definition initialise_common :: "arch \<Rightarrow> hw \<Rightarrow> EntryPointInfo \<Rightarrow> CpuContext option" where
  "initialise_common a h entry_point =
     (let A = sysregs a; c = CpuContext_EMPTY;
          c = c\<lparr>el3_state := (el3_state c)\<lparr>elr_el3 := ep_pc entry_point\<rparr>\<rparr> in
      do {
        g \<leftarrow> copy_to_front (ep_args entry_point) (gpregs c);
        let c = c\<lparr>gpregs := g\<rparr>;
        let c = set_spsr (SPSR_D (spsr A) OR SPSR_A (spsr A) OR SPSR_I (spsr A) OR SPSR_F (spsr A)
                  OR SPSR_M_AARCH64_EL2H (spsr A)) c;
        let c = (if sel2 (build a)
                 then c\<lparr>el2_sysregs := (el2_sysregs c)
                        \<lparr>cptr_el2 := CPTR_EL2_RES1 A,
                         icc_sre_el2 := ICC_SRE_DIB (icc_sre A) OR ICC_SRE_DFB (icc_sre A)
                           OR ICC_SRE_ENABLE (icc_sre A) OR ICC_SRE_SRE (icc_sre A),
                         tcr_el2 := TCR_EL2_RES1 A, vmpidr_el2 := VMPIDR_EL2_RES1 A,
                         vtcr_el2 := VTCR_EL2_RES1 A\<rparr>\<rparr>
                 else c\<lparr>el1_sysregs := (el1_sysregs c)
                        \<lparr>par_el1 := PAR_EL1_RES1 A,
                         sctlr_el1 := SCTLR_LSMAOE (sctlr A) OR SCTLR_NTLSMD (sctlr A) OR SCTLR_SPAN (sctlr A)
                           OR SCTLR_EIS (sctlr A) OR SCTLR_TSCXT (sctlr A) OR SCTLR_EOS (sctlr A)\<rparr>\<rparr>);
        let c = c\<lparr>el3_state := (el3_state c)\<lparr>mdcr_el3 := MDCR_SDD (mdcr A) OR MDCR_SPD32 (mdcr A)\<rparr>\<rparr>;
        let c = (if ext_is_present (features a) TraceFiltering then or_mdcr (MDCR_TTRF (mdcr A)) c else c);
        Some (pmuv3_configure_per_cpu a h c)
      })"

definition configure_cpu :: "arch \<Rightarrow> CpuExtension list \<Rightarrow> World \<Rightarrow> CpuContext \<Rightarrow> CpuContext" where
  "configure_cpu a exts world c =
     fold (\<lambda>ext c. if ext_is_present (features a) ext then ext_configure_per_cpu a ext world c else c) exts c"

definition initialise_nonsecure :: "arch \<Rightarrow> runtime_platform \<Rightarrow> hw \<Rightarrow> EntryPointInfo \<Rightarrow> CpuContext option" where
  "initialise_nonsecure a P h entry_point =
     do { c \<leftarrow> initialise_common a h entry_point; Some (configure_cpu a (CPU_EXTENSIONS P) NonSecure c) }"

definition initialise_secure :: "arch \<Rightarrow> runtime_platform \<Rightarrow> hw \<Rightarrow> EntryPointInfo \<Rightarrow> CpuContext option" where
  "initialise_secure a P h entry_point =
     do {
       c \<leftarrow> initialise_common a h entry_point;
       let S = spsr (sysregs a);
       let c = (if sel2 (build a) then c
                else set_spsr (SPSR_D S OR SPSR_A S OR SPSR_I S OR SPSR_F S OR SPSR_M_AARCH64_EL1H S) c);
       Some (configure_cpu a (CPU_EXTENSIONS P) Secure c)
     }"

definition initialise_realm :: "arch \<Rightarrow> runtime_platform \<Rightarrow> hw \<Rightarrow> EntryPointInfo \<Rightarrow> CpuContext option" where
  "initialise_realm a P h entry_point =
     do { c \<leftarrow> initialise_common a h entry_point; Some (configure_cpu a (CPU_EXTENSIONS P) Realm c) }"

definition initialise_contexts ::
  "arch \<Rightarrow> runtime_platform \<Rightarrow> EntryPointInfo \<Rightarrow> EntryPointInfo \<Rightarrow> EntryPointInfo \<Rightarrow> core \<Rightarrow> core option" where
  "initialise_contexts a P non_secure_ep secure_ep realm_ep c0 =
     (let c1 = upd_hw (initialise_el3_sysregs a (CPU_EXTENSIONS P)) c0;
          c2 = initialise_per_world_contexts a P c1 in
      do {
        ns \<leftarrow> initialise_nonsecure a P (core_hw c2) non_secure_ep;
        let c3 = c2\<lparr>cpu_state := (cpu_state c2)(NonSecure := ns)\<rparr>;
        s \<leftarrow> initialise_secure a P (core_hw c3) secure_ep;
        let c4 = c3\<lparr>cpu_state := (cpu_state c3)(Secure := s)\<rparr>;
        if rme (build a)
        then do {
          r \<leftarrow> initialise_realm a P (core_hw c4) realm_ep;
          Some (c4\<lparr>cpu_state := (cpu_state c4)(Realm := r)\<rparr>) }
        else Some c4
      })"

text \<open>The secure world's arguments are its first eighteen registers.\<close>

definition update_contexts_suspend ::
  "arch \<Rightarrow> runtime_platform \<Rightarrow> u64 \<Rightarrow> u64 \<Rightarrow> SmcReturn \<Rightarrow> u64 list \<Rightarrow> core \<Rightarrow> core option" where
  "update_contexts_suspend a P entry_point_address context_id secure_args realm_args c0 =
     (let c1 = upd_hw (initialise_el3_sysregs a (CPU_EXTENSIONS P)) c0;
          entry_point = \<lparr>ep_pc = entry_point_address, ep_args = [context_id, 0, 0, 0, 0, 0, 0, 0]\<rparr> in
      do {
        ns \<leftarrow> initialise_nonsecure a P (core_hw c1) entry_point;
        let c2 = c1\<lparr>cpu_state := (cpu_state c1)(NonSecure := ns)\<rparr>;
        assert_that (length (reg_values secure_args) = 18);
        g \<leftarrow> copy_to_front (reg_values secure_args) (gpregs (cpu_state c2 Secure));
        let c3 = c2\<lparr>cpu_state := (cpu_state c2)(Secure := (cpu_state c2 Secure)\<lparr>gpregs := g\<rparr>)\<rparr>;
        c4 \<leftarrow> (if rme (build a)
               then do {
                 g' \<leftarrow> copy_to_front realm_args (gpregs (cpu_state c3 Realm));
                 Some (c3\<lparr>cpu_state := (cpu_state c3)(Realm := (cpu_state c3 Realm)\<lparr>gpregs := g'\<rparr>)\<rparr>) }
               else Some c3);
        Some (fold (\<lambda>ext c. ext_restore_after_suspend a ext c) (CPU_EXTENSIONS P) c4)
      })"

section \<open>Entering a world\<close>

datatype RunResult = SmcResult | InterruptResult | SysregTrap u64

text \<open>
  What comes back when a lower exception level has run: the registers of the world's context, the
  live registers, the values of \<^verbatim>\<open>x0\<close> to \<^verbatim>\<open>x17\<close>, the number of the reason and the syndrome.
\<close>

record world_exit =
  we_context :: CpuContext
  we_hw :: hw
  we_values :: "u64 list"
  we_reason :: u64
  we_esr :: u64

definition RUN_RESULT_SMC :: u64 where "RUN_RESULT_SMC = 0"
definition RUN_RESULT_INTERRUPT :: u64 where "RUN_RESULT_INTERRUPT = 1"
definition RUN_RESULT_SYSREG_TRAP :: u64 where "RUN_RESULT_SYSREG_TRAP = 2"

definition enter_world ::
  "(World \<Rightarrow> core \<Rightarrow> world_exit) \<Rightarrow> SmcReturn \<Rightarrow> World \<Rightarrow> core \<Rightarrow> (SmcReturn \<times> RunResult \<times> core) option" where
  "enter_world run regs world c0 =
     do {
       c1 \<leftarrow> (if smc_is_empty regs then Some c0
              else do {
                g \<leftarrow> write_return_value (gpregs (cpu_state c0 world)) regs;
                Some (c0\<lparr>cpu_state := (cpu_state c0)(world := (cpu_state c0 world)\<lparr>gpregs := g\<rparr>)\<rparr>) });
       wc \<leftarrow> world_context c1 world;
       let x = run world c1;
       let out = (mark_all_used regs)\<lparr>smc_values := we_values x\<rparr>;
       let c2 = c1\<lparr>core_hw := we_hw x, cpu_state := (cpu_state c1)(world := we_context x)\<rparr>;
       if we_reason x = RUN_RESULT_SMC then Some (out, SmcResult, c2)
       else if we_reason x = RUN_RESULT_INTERRUPT then Some (out, InterruptResult, c2)
       else if we_reason x = RUN_RESULT_SYSREG_TRAP then Some (out, SysregTrap (we_esr x), c2)
       else None
     }"

end
