(* ===== verification/World_Laws.thy ===== *)
theory World_Laws
  imports World_Switch
begin

text \<open>
  Laws of the world switch. \<open>switched_state\<close> is the contract of state that is saved for one world and
  restored for another: what saving records, what restoring brings back, and what neither touches.
  The CPU extensions satisfy it; the lemmas about lists of extensions are proved from it.
\<close>

section \<open>The contract of switched state\<close>

locale switched_state =
  fixes save restore :: "'e \<Rightarrow> 'w \<Rightarrow> 'c \<Rightarrow> 'c"
    and live saved :: "'e \<Rightarrow> 'w \<Rightarrow> 'c \<Rightarrow> 'v"
    and conflict :: "'e \<Rightarrow> 'e \<Rightarrow> bool"
    and ok :: "'c \<Rightarrow> bool"
  assumes save_ok: "ok c \<Longrightarrow> ok (save e w c)"
    and restore_ok: "ok c \<Longrightarrow> ok (restore e w c)"
    and saved_save: "ok c \<Longrightarrow> saved e w (save e w c) = live e w c"
    and saved_save_frame: "\<not> conflict e e' \<Longrightarrow> saved e w (save e' w c) = saved e w c"
    and live_save_frame: "\<not> conflict e e' \<Longrightarrow> live e w (save e' w c) = live e w c"
    and saved_save_other: "v \<noteq> w \<Longrightarrow> saved e w (save e' v c) = saved e w c"
    and live_restore: "ok c \<Longrightarrow> live e w (restore e w c) = saved e w c"
    and live_restore_frame: "\<not> conflict e e' \<Longrightarrow> live e w (restore e' w c) = live e w c"
    and saved_restore: "saved e w (restore e' v c) = saved e w c"
    and conflict_sym: "conflict e e' \<Longrightarrow> conflict e' e"
begin

definition save_all :: "'e list \<Rightarrow> 'w \<Rightarrow> 'c \<Rightarrow> 'c" where
  "save_all es w = fold (\<lambda>e. save e w) es"

definition restore_all :: "'e list \<Rightarrow> 'w \<Rightarrow> 'c \<Rightarrow> 'c" where
  "restore_all es w = fold (\<lambda>e. restore e w) es"

lemma save_all_Cons: "save_all (e # es) w c = save_all es w (save e w c)"
  by (simp add: save_all_def)

lemma restore_all_Cons: "restore_all (e # es) w c = restore_all es w (restore e w c)"
  by (simp add: restore_all_def)

lemma save_all_ok: "ok c \<Longrightarrow> ok (save_all es w c)"
  by (induction es arbitrary: c) (simp_all add: save_all_Cons save_ok save_all_def)

lemma restore_all_ok: "ok c \<Longrightarrow> ok (restore_all es w c)"
  by (induction es arbitrary: c) (simp_all add: restore_all_Cons restore_ok restore_all_def)

lemma save_all_other: "v \<noteq> w \<Longrightarrow> saved e w (save_all es v c) = saved e w c"
  by (induction es arbitrary: c) (simp_all add: save_all_Cons saved_save_other save_all_def)

lemma restore_all_saved: "saved e w (restore_all es v c) = saved e w c"
  by (induction es arbitrary: c) (simp_all add: restore_all_Cons saved_restore restore_all_def)

lemma save_all_frame: "(\<forall>e' \<in> set es. \<not> conflict e e') \<Longrightarrow> saved e w (save_all es w c) = saved e w c"
  by (induction es arbitrary: c) (simp_all add: save_all_Cons saved_save_frame save_all_def)

lemma restore_all_frame: "(\<forall>e' \<in> set es. \<not> conflict e e') \<Longrightarrow> live e w (restore_all es w c) = live e w c"
  by (induction es arbitrary: c) (simp_all add: restore_all_Cons live_restore_frame restore_all_def)

definition separate :: "'e list \<Rightarrow> bool" where
  "separate es \<longleftrightarrow> sorted_wrt (\<lambda>e e'. \<not> conflict e e') es"

lemma separate_Cons: "separate (e # es) \<longleftrightarrow> (\<forall>e' \<in> set es. \<not> conflict e e') \<and> separate es"
  by (simp add: separate_def)

lemma save_all_saved:
  "separate es \<Longrightarrow> e \<in> set es \<Longrightarrow> ok c \<Longrightarrow> saved e w (save_all es w c) = live e w c"
proof (induction es arbitrary: c)
  case (Cons x es)
  show ?case
  proof (cases "e = x")
    case True
    then show ?thesis
      using Cons.prems by (simp add: save_all_Cons separate_Cons save_all_frame saved_save)
  next
    case False
    then have "\<not> conflict e x" using Cons.prems by (auto simp: separate_Cons dest: conflict_sym)
    with False Cons show ?thesis
      by (simp add: save_all_Cons separate_Cons save_ok live_save_frame)
  qed
qed simp

lemma restore_all_live:
  "separate es \<Longrightarrow> e \<in> set es \<Longrightarrow> ok c \<Longrightarrow> live e w (restore_all es w c) = saved e w c"
proof (induction es arbitrary: c)
  case (Cons x es)
  show ?case
  proof (cases "e = x")
    case True
    then show ?thesis
      using Cons.prems by (simp add: restore_all_Cons separate_Cons restore_all_frame live_restore)
  next
    case False
    with Cons show ?thesis
      by (simp add: restore_all_Cons separate_Cons restore_ok saved_restore)
  qed
qed simp

end

section \<open>What each extension switches\<close>

text \<open>The values that an extension keeps for a world, read from the live registers and from its context.\<close>

record reg_view =
  rv_regs :: "u64 list"
  rv_vec :: "vector list"
  rv_pred :: "predicate list"

definition regs_view :: "u64 list \<Rightarrow> reg_view" where
  "regs_view xs = \<lparr>rv_regs = xs, rv_vec = [], rv_pred = []\<rparr>"

definition fgt_view :: "cpu_features \<Rightarrow> FgtCpuContext \<Rightarrow> u64 list" where
  "fgt_view f r =
     [hdfgrtr_el2 r, hdfgwtr_el2 r, hfgitr_el2 r, hfgrtr_el2 r, hfgwtr_el2 r]
     @ (if feat_amuv1 f then [hafgrtr_el2 r] else [])"

definition mpam_view :: "cpu_features \<Rightarrow> MpamCpuContext \<Rightarrow> u64 list" where
  "mpam_view f r =
     mpam2_el2 r #
     (if \<not> mpam_has_hcr f then []
      else [mpamhcr_el2 r, mpamvpmv_el2 r, mpamvpm0_el2 r]
        @ (if 1 \<le> mpam_vpmr_max f then [mpamvpm1_el2 r] else [])
        @ (if 2 \<le> mpam_vpmr_max f then [mpamvpm2_el2 r] else [])
        @ (if 3 \<le> mpam_vpmr_max f then [mpamvpm3_el2 r] else [])
        @ (if 4 \<le> mpam_vpmr_max f then [mpamvpm4_el2 r] else [])
        @ (if 5 \<le> mpam_vpmr_max f then [mpamvpm5_el2 r] else [])
        @ (if 6 \<le> mpam_vpmr_max f then [mpamvpm6_el2 r] else [])
        @ (if mpam_vpmr_max f = 7 then [mpamvpm7_el2 r] else []))"

definition uses_sve :: "arch \<Rightarrow> u64 option \<Rightarrow> World \<Rightarrow> bool" where
  "uses_sve a sve w \<longleftrightarrow> w = NonSecure \<and> sve \<noteq> None \<and> feat_sve (features a)"

definition has_sme :: "arch \<Rightarrow> u64 option \<Rightarrow> bool" where
  "has_sme a sme \<longleftrightarrow> sme \<noteq> None \<and> feat_sme (features a)"

text \<open>The predicate register \<^verbatim>\<open>FFR\<close> does not exist in streaming mode without \<^verbatim>\<open>FEAT_SME_FA64\<close>.\<close>

definition ffr_exists :: "arch \<Rightarrow> bool \<Rightarrow> u64 \<Rightarrow> bool" where
  "ffr_exists a sme svcr \<longleftrightarrow>
     \<not> (sme \<and> flags_contain svcr (SVCR_SM (sysregs a)) \<and> \<not> feat_fa64 (features a))"

definition sve_view ::
  "arch \<Rightarrow> bool \<Rightarrow> vector list \<Rightarrow> predicate list \<Rightarrow> predicate \<Rightarrow> u64 \<Rightarrow> u64 \<Rightarrow> u64 \<Rightarrow> reg_view" where
  "sve_view a sme z p ffr fpsr fpcr svcr =
     \<lparr>rv_regs = [fpsr, fpcr] @ (if sme then [svcr] else []), rv_vec = z,
      rv_pred = p @ (if ffr_exists a sme svcr then [ffr] else [])\<rparr>"

definition simd_live :: "arch \<Rightarrow> u64 option \<Rightarrow> u64 option \<Rightarrow> World \<Rightarrow> vector_unit \<Rightarrow> reg_view" where
  "simd_live a sve sme w u =
     (if sel2 (build a) then regs_view []
      else if uses_sve a sve w
      then sve_view a (has_sme a sme) (vu_z u) (vu_p u) (vu_ffr u) (vu_fpsr u) (vu_fpcr u) (vu_svcr u)
      else \<lparr>rv_regs = [vu_fpsr u, vu_fpcr u], rv_vec = map (take_bit 128) (vu_z u), rv_pred = []\<rparr>)"

definition simd_saved :: "arch \<Rightarrow> u64 option \<Rightarrow> u64 option \<Rightarrow> World \<Rightarrow> core \<Rightarrow> reg_view" where
  "simd_saved a sve sme w c =
     (if sel2 (build a) then regs_view []
      else if uses_sve a sve w
      then (let s = sve_ns_ctx c in
            sve_view a (has_sme a sme) (sve_vectors s) (sve_predicates s) (sve_ffr s) (sve_fpsr s)
              (sve_fpcr s) (sve_svcr s))
      else (let s = simd_ctx c w in
            \<lparr>rv_regs = [simd_fpsr s, simd_fpcr s], rv_vec = map ucast (simd_vectors s), rv_pred = []\<rparr>))"

definition when_present :: "arch \<Rightarrow> CpuExtension \<Rightarrow> bool \<Rightarrow> u64 list \<Rightarrow> reg_view" where
  "when_present a ext b xs = regs_view (if b \<and> ext_is_present (features a) ext then xs else [])"

fun ext_live :: "arch \<Rightarrow> CpuExtension \<Rightarrow> World \<Rightarrow> core \<Rightarrow> reg_view" where
  "ext_live a Hcx w c = when_present a Hcx (sel2 (build a)) [hcrx_el2 (hw_hcx (core_hw c))]"
| "ext_live a Sctlr2 w c = when_present a Sctlr2 True
     [if sel2 (build a) then sctlr2_el2 (hw_sctlr2_2 (core_hw c)) else sctlr2_el1 (hw_sctlr2_1 (core_hw c))]"
| "ext_live a Tcr2 w c = when_present a Tcr2 True
     [if sel2 (build a) then tcr2_el2 (hw_tcr2_2 (core_hw c)) else tcr2_el1 (hw_tcr2_1 (core_hw c))]"
| "ext_live a MemoryTagging w c = when_present a MemoryTagging True
     (if sel2 (build a) then [tfsr_el2 (hw_mte2_2 (core_hw c))]
      else (let r = hw_mte2_1 (core_hw c) in [tfsre0_el1 r, tfsr_el1 r, rgsr_el1 r, gcr_el1 r]))"
| "ext_live a Ras w c = when_present a Ras True
     (if sel2 (build a) then [vdisr_el2 (hw_ras_2 (core_hw c)), vsesr_el2 (hw_ras_2 (core_hw c))]
      else [disr_el1 (hw_ras_1 (core_hw c))])"
| "ext_live a Fgt w c = when_present a Fgt (fgt_switched a) (fgt_view (features a) (hw_fgt (core_hw c)))"
| "ext_live a Fgt2 w c = when_present a Fgt2 (fgt_switched a)
     (let r = hw_fgt2 (core_hw c) in
      [hfgitr2_el2 r, hfgrtr2_el2 r, hfgwtr2_el2 r, hdfgrtr2_el2 r, hdfgwtr2_el2 r])"
| "ext_live a Mpam w c = when_present a Mpam (sel2 (build a)) (mpam_view (features a) (hw_mpam (core_hw c)))"
| "ext_live a (Simd sve sme) w c = simd_live a sve sme w (hw_vector (core_hw c))"
| "ext_live a _ w c = regs_view []"

fun ext_saved :: "arch \<Rightarrow> CpuExtension \<Rightarrow> World \<Rightarrow> core \<Rightarrow> reg_view" where
  "ext_saved a Hcx w c = when_present a Hcx (sel2 (build a)) [hcrx_el2 (hcx_ctx c w)]"
| "ext_saved a Sctlr2 w c = when_present a Sctlr2 True
     [if sel2 (build a) then sctlr2_el2 (sctlr2_2_ctx c w) else sctlr2_el1 (sctlr2_1_ctx c w)]"
| "ext_saved a Tcr2 w c = when_present a Tcr2 True
     [if sel2 (build a) then tcr2_el2 (tcr2_2_ctx c w) else tcr2_el1 (tcr2_1_ctx c w)]"
| "ext_saved a MemoryTagging w c = when_present a MemoryTagging True
     (if sel2 (build a) then [tfsr_el2 (mte2_2_ctx c w)]
      else (let r = mte2_1_ctx c w in [tfsre0_el1 r, tfsr_el1 r, rgsr_el1 r, gcr_el1 r]))"
| "ext_saved a Ras w c = when_present a Ras True
     (if sel2 (build a) then [vdisr_el2 (ras_2_ctx c w), vsesr_el2 (ras_2_ctx c w)]
      else [disr_el1 (ras_1_ctx c w)])"
| "ext_saved a Fgt w c = when_present a Fgt (fgt_switched a) (fgt_view (features a) (fgt_ctx c w))"
| "ext_saved a Fgt2 w c = when_present a Fgt2 (fgt_switched a)
     (let r = fgt2_ctx c w in
      [hfgitr2_el2 r, hfgrtr2_el2 r, hfgwtr2_el2 r, hdfgrtr2_el2 r, hdfgwtr2_el2 r])"
| "ext_saved a Mpam w c = when_present a Mpam (sel2 (build a)) (mpam_view (features a) (mpam_ctx c w))"
| "ext_saved a (Simd sve sme) w c = simd_saved a sve sme w c"
| "ext_saved a _ w c = regs_view []"

text \<open>
  Two extensions conflict when they are the same or both save the vector unit, which the second
  would save after the first has used the predicate register \<^verbatim>\<open>p0\<close>.
\<close>

fun ext_conflict :: "CpuExtension \<Rightarrow> CpuExtension \<Rightarrow> bool" where
  "ext_conflict (Simd _ _) (Simd _ _) = True"
| "ext_conflict e e' = (e = e')"

definition core_ok :: "core \<Rightarrow> bool" where
  "core_ok c \<longleftrightarrow> vu_p (hw_vector (core_hw c)) \<noteq> [] \<and> sve_predicates (sve_ns_ctx c) \<noteq> []"

text \<open>What the architecture says of writing the streaming mode control register.\<close>

definition write_svcr_ok :: "arch \<Rightarrow> bool" where
  "write_svcr_ok a \<longleftrightarrow>
     (\<forall>v u. vu_svcr (write_svcr a v u) = v \<and> (vu_p (write_svcr a v u) = [] \<longleftrightarrow> vu_p u = []))"


section \<open>The extensions satisfy the contract\<close>

lemmas bank_defs =
  Mte2Sel1_save_def Mte2Sel1_restore_def RasSel2_save_def RasSel2_restore_def fgt_save_context_def
  fgt_restore_context_def Fgt2_save_def Fgt2_restore_def fgt_view_def upd_hw_def

lemma mpam_save_view: "mpam_view f (Mpam_save_el2_context f live saved) = mpam_view f live"
  by (simp add: mpam_view_def Mpam_save_el2_context_def Let_def)

lemma mpam_restore_view: "mpam_view f (Mpam_restore_el2_context f saved live) = mpam_view f saved"
  by (simp add: mpam_view_def Mpam_restore_el2_context_def Let_def)

lemma ucast_ucast_vector: "ucast (ucast (z :: vector) :: u128) = take_bit 128 z"
  by (rule bit_word_eqI) (simp add: bit_simps)

lemma take_ucast_vector: "take_bit 128 (ucast (q :: u128) :: vector) = ucast q"
  by (rule bit_word_eqI) (auto simp: bit_simps dest: bit_imp_le_length)

lemmas sve_defs =
  SveCpuContext_save_def SveCpuContext_restore_def save_predicates_def restore_predicates_def
  save_vectors_def restore_vectors_def save_fp_state_def restore_fp_state_def save_svcr_def
  restore_svcr_def save_ffr_def restore_ffr_def should_save_restore_ffr_def

lemma simd_saved_save:
  assumes "core_ok c"
  shows "simd_saved a sve sme w (Simd_save_context a sve sme w c) = simd_live a sve sme w (hw_vector (core_hw c))"
proof (cases "sel2 (build a) \<or> \<not> uses_sve a sve w")
  case True
  then show ?thesis
    by (auto simp: simd_saved_def simd_live_def Simd_save_context_def uses_sve_def Let_def
        SimdCpuContext_save_def open_vector_unit_def ucast_ucast_vector)
next
  case False
  then show ?thesis
    using assms
    by (auto simp: simd_saved_def simd_live_def Simd_save_context_def uses_sve_def Let_def
        open_vector_unit_def sve_defs has_sme_def sve_view_def ffr_exists_def core_ok_def)
qed

lemma simd_live_restore:
  assumes "core_ok c" "write_svcr_ok a"
  shows "simd_live a sve sme w (hw_vector (core_hw (Simd_restore_context a sve sme w c))) = simd_saved a sve sme w c"
proof (cases "sel2 (build a) \<or> \<not> uses_sve a sve w")
  case True
  then show ?thesis
    by (auto simp: simd_saved_def simd_live_def Simd_restore_context_def uses_sve_def Let_def
        SimdCpuContext_restore_def open_vector_unit_def take_ucast_vector)
next
  case False
  then show ?thesis
    using assms
    by (auto simp: simd_saved_def simd_live_def Simd_restore_context_def uses_sve_def Let_def
        open_vector_unit_def sve_defs has_sme_def sve_view_def ffr_exists_def core_ok_def write_svcr_ok_def)
qed

text \<open>What saving and restoring the vector unit leaves alone.\<close>

lemma simd_save_hw:
  "core_hw (Simd_save_context a sve sme w c) =
     (core_hw c)\<lparr>hw_vector := hw_vector (core_hw (Simd_save_context a sve sme w c))\<rparr>"
  by (auto simp: Simd_save_context_def Let_def open_vector_unit_def split: prod.split)

lemma simd_restore_hw:
  "core_hw (Simd_restore_context a sve sme w c) =
     (core_hw c)\<lparr>hw_vector := hw_vector (core_hw (Simd_restore_context a sve sme w c))\<rparr>"
  by (auto simp: Simd_restore_context_def Let_def open_vector_unit_def)

lemma simd_save_core:
  "Simd_save_context a sve sme w c =
     c\<lparr>core_hw := core_hw (Simd_save_context a sve sme w c),
       simd_ctx := simd_ctx (Simd_save_context a sve sme w c),
       sve_ns_ctx := sve_ns_ctx (Simd_save_context a sve sme w c)\<rparr>"
  by (auto simp: Simd_save_context_def Let_def split: prod.split)

lemma simd_restore_core:
  "Simd_restore_context a sve sme w c = c\<lparr>core_hw := core_hw (Simd_restore_context a sve sme w c)\<rparr>"
  by (auto simp: Simd_restore_context_def Let_def)

lemma simd_save_other:
  "v \<noteq> w \<Longrightarrow> simd_ctx (Simd_save_context a sve sme v c) w = simd_ctx c w"
  "v \<noteq> NonSecure \<Longrightarrow> sve_ns_ctx (Simd_save_context a sve sme v c) = sve_ns_ctx c"
  by (auto simp: Simd_save_context_def Let_def split: prod.split)

lemma simd_save_frame [simp]:
  "cpu_state (Simd_save_context a sve sme w c) = cpu_state c"
  "PER_WORLD_CONTEXT (Simd_save_context a sve sme w c) = PER_WORLD_CONTEXT c"
  "hcx_ctx (Simd_save_context a sve sme w c) = hcx_ctx c"
  "sctlr2_1_ctx (Simd_save_context a sve sme w c) = sctlr2_1_ctx c"
  "sctlr2_2_ctx (Simd_save_context a sve sme w c) = sctlr2_2_ctx c"
  "tcr2_1_ctx (Simd_save_context a sve sme w c) = tcr2_1_ctx c"
  "tcr2_2_ctx (Simd_save_context a sve sme w c) = tcr2_2_ctx c"
  "mte2_1_ctx (Simd_save_context a sve sme w c) = mte2_1_ctx c"
  "mte2_2_ctx (Simd_save_context a sve sme w c) = mte2_2_ctx c"
  "ras_1_ctx (Simd_save_context a sve sme w c) = ras_1_ctx c"
  "ras_2_ctx (Simd_save_context a sve sme w c) = ras_2_ctx c"
  "fgt_ctx (Simd_save_context a sve sme w c) = fgt_ctx c"
  "fgt2_ctx (Simd_save_context a sve sme w c) = fgt2_ctx c"
  "mpam_ctx (Simd_save_context a sve sme w c) = mpam_ctx c"
  "amu_ctx (Simd_save_context a sve sme w c) = amu_ctx c"
  by (subst simd_save_core, simp)+

lemma simd_save_hw_frame [simp]:
  "hw_el1 (core_hw (Simd_save_context a sve sme w c)) = hw_el1 (core_hw c)"
  "hw_el2 (core_hw (Simd_save_context a sve sme w c)) = hw_el2 (core_hw c)"
  "hw_hcx (core_hw (Simd_save_context a sve sme w c)) = hw_hcx (core_hw c)"
  "hw_sctlr2_1 (core_hw (Simd_save_context a sve sme w c)) = hw_sctlr2_1 (core_hw c)"
  "hw_sctlr2_2 (core_hw (Simd_save_context a sve sme w c)) = hw_sctlr2_2 (core_hw c)"
  "hw_tcr2_1 (core_hw (Simd_save_context a sve sme w c)) = hw_tcr2_1 (core_hw c)"
  "hw_tcr2_2 (core_hw (Simd_save_context a sve sme w c)) = hw_tcr2_2 (core_hw c)"
  "hw_mte2_1 (core_hw (Simd_save_context a sve sme w c)) = hw_mte2_1 (core_hw c)"
  "hw_mte2_2 (core_hw (Simd_save_context a sve sme w c)) = hw_mte2_2 (core_hw c)"
  "hw_ras_1 (core_hw (Simd_save_context a sve sme w c)) = hw_ras_1 (core_hw c)"
  "hw_ras_2 (core_hw (Simd_save_context a sve sme w c)) = hw_ras_2 (core_hw c)"
  "hw_fgt (core_hw (Simd_save_context a sve sme w c)) = hw_fgt (core_hw c)"
  "hw_fgt2 (core_hw (Simd_save_context a sve sme w c)) = hw_fgt2 (core_hw c)"
  "hw_mpam (core_hw (Simd_save_context a sve sme w c)) = hw_mpam (core_hw c)"
  "hw_amu (core_hw (Simd_save_context a sve sme w c)) = hw_amu (core_hw c)"
  "hw_scr_el3 (core_hw (Simd_save_context a sve sme w c)) = hw_scr_el3 (core_hw c)"
  "hw_cptr_el3 (core_hw (Simd_save_context a sve sme w c)) = hw_cptr_el3 (core_hw c)"
  "hw_mpam3_el3 (core_hw (Simd_save_context a sve sme w c)) = hw_mpam3_el3 (core_hw c)"
  "hw_pmcr_el0 (core_hw (Simd_save_context a sve sme w c)) = hw_pmcr_el0 (core_hw c)"
  "hw_zcr_el3 (core_hw (Simd_save_context a sve sme w c)) = hw_zcr_el3 (core_hw c)"
  "hw_smcr_el3 (core_hw (Simd_save_context a sve sme w c)) = hw_smcr_el3 (core_hw c)"
  by (subst simd_save_hw, simp)+

lemma simd_restore_frame [simp]:
  "cpu_state (Simd_restore_context a sve sme w c) = cpu_state c"
  "PER_WORLD_CONTEXT (Simd_restore_context a sve sme w c) = PER_WORLD_CONTEXT c"
  "hcx_ctx (Simd_restore_context a sve sme w c) = hcx_ctx c"
  "sctlr2_1_ctx (Simd_restore_context a sve sme w c) = sctlr2_1_ctx c"
  "sctlr2_2_ctx (Simd_restore_context a sve sme w c) = sctlr2_2_ctx c"
  "tcr2_1_ctx (Simd_restore_context a sve sme w c) = tcr2_1_ctx c"
  "tcr2_2_ctx (Simd_restore_context a sve sme w c) = tcr2_2_ctx c"
  "mte2_1_ctx (Simd_restore_context a sve sme w c) = mte2_1_ctx c"
  "mte2_2_ctx (Simd_restore_context a sve sme w c) = mte2_2_ctx c"
  "ras_1_ctx (Simd_restore_context a sve sme w c) = ras_1_ctx c"
  "ras_2_ctx (Simd_restore_context a sve sme w c) = ras_2_ctx c"
  "fgt_ctx (Simd_restore_context a sve sme w c) = fgt_ctx c"
  "fgt2_ctx (Simd_restore_context a sve sme w c) = fgt2_ctx c"
  "mpam_ctx (Simd_restore_context a sve sme w c) = mpam_ctx c"
  "amu_ctx (Simd_restore_context a sve sme w c) = amu_ctx c"
  "simd_ctx (Simd_restore_context a sve sme w c) = simd_ctx c"
  "sve_ns_ctx (Simd_restore_context a sve sme w c) = sve_ns_ctx c"
  by (subst simd_restore_core, simp)+

lemma simd_restore_hw_frame [simp]:
  "hw_el1 (core_hw (Simd_restore_context a sve sme w c)) = hw_el1 (core_hw c)"
  "hw_el2 (core_hw (Simd_restore_context a sve sme w c)) = hw_el2 (core_hw c)"
  "hw_hcx (core_hw (Simd_restore_context a sve sme w c)) = hw_hcx (core_hw c)"
  "hw_sctlr2_1 (core_hw (Simd_restore_context a sve sme w c)) = hw_sctlr2_1 (core_hw c)"
  "hw_sctlr2_2 (core_hw (Simd_restore_context a sve sme w c)) = hw_sctlr2_2 (core_hw c)"
  "hw_tcr2_1 (core_hw (Simd_restore_context a sve sme w c)) = hw_tcr2_1 (core_hw c)"
  "hw_tcr2_2 (core_hw (Simd_restore_context a sve sme w c)) = hw_tcr2_2 (core_hw c)"
  "hw_mte2_1 (core_hw (Simd_restore_context a sve sme w c)) = hw_mte2_1 (core_hw c)"
  "hw_mte2_2 (core_hw (Simd_restore_context a sve sme w c)) = hw_mte2_2 (core_hw c)"
  "hw_ras_1 (core_hw (Simd_restore_context a sve sme w c)) = hw_ras_1 (core_hw c)"
  "hw_ras_2 (core_hw (Simd_restore_context a sve sme w c)) = hw_ras_2 (core_hw c)"
  "hw_fgt (core_hw (Simd_restore_context a sve sme w c)) = hw_fgt (core_hw c)"
  "hw_fgt2 (core_hw (Simd_restore_context a sve sme w c)) = hw_fgt2 (core_hw c)"
  "hw_mpam (core_hw (Simd_restore_context a sve sme w c)) = hw_mpam (core_hw c)"
  "hw_amu (core_hw (Simd_restore_context a sve sme w c)) = hw_amu (core_hw c)"
  "hw_scr_el3 (core_hw (Simd_restore_context a sve sme w c)) = hw_scr_el3 (core_hw c)"
  "hw_cptr_el3 (core_hw (Simd_restore_context a sve sme w c)) = hw_cptr_el3 (core_hw c)"
  "hw_mpam3_el3 (core_hw (Simd_restore_context a sve sme w c)) = hw_mpam3_el3 (core_hw c)"
  "hw_pmcr_el0 (core_hw (Simd_restore_context a sve sme w c)) = hw_pmcr_el0 (core_hw c)"
  "hw_zcr_el3 (core_hw (Simd_restore_context a sve sme w c)) = hw_zcr_el3 (core_hw c)"
  "hw_smcr_el3 (core_hw (Simd_restore_context a sve sme w c)) = hw_smcr_el3 (core_hw c)"
  by (subst simd_restore_hw, simp)+

lemma ext_saved_save:
  "core_ok c \<Longrightarrow> ext_saved a e w (ext_save_context a e w c) = ext_live a e w c"
  by (cases e) (auto simp: when_present_def Let_def bank_defs mpam_save_view simd_saved_save fgt_switched_def)


lemma ext_live_restore:
  "core_ok c \<Longrightarrow> write_svcr_ok a \<Longrightarrow> ext_live a e w (ext_restore_context a e w c) = ext_saved a e w c"
  by (cases e) (auto simp: when_present_def Let_def bank_defs mpam_restore_view simd_live_restore fgt_switched_def)

lemma ext_saved_save_frame:
  "\<not> ext_conflict e e' \<Longrightarrow> ext_saved a e w (ext_save_context a e' w c) = ext_saved a e w c"
  by (cases e; cases e') (auto simp: when_present_def simd_saved_def)

lemma ext_live_save_frame:
  "\<not> ext_conflict e e' \<Longrightarrow> ext_live a e w (ext_save_context a e' w c) = ext_live a e w c"
  by (cases e; cases e') (auto simp: when_present_def)

lemma ext_live_restore_frame:
  "\<not> ext_conflict e e' \<Longrightarrow> ext_live a e w (ext_restore_context a e' w c) = ext_live a e w c"
  by (cases e; cases e') (auto simp: when_present_def upd_hw_def)

lemma ext_saved_save_other:
  "v \<noteq> w \<Longrightarrow> ext_saved a e w (ext_save_context a e' v c) = ext_saved a e w c"
  by (cases e; cases e') (auto simp: when_present_def simd_saved_def uses_sve_def simd_save_other)

lemma ext_saved_restore: "ext_saved a e w (ext_restore_context a e' v c) = ext_saved a e w c"
  by (cases e; cases e') (auto simp: when_present_def simd_saved_def upd_hw_def)

lemma vector_unit_ok:
  "core_ok c \<Longrightarrow> core_ok (Simd_save_context a sve sme w c)"
  "core_ok c \<Longrightarrow> write_svcr_ok a \<Longrightarrow> core_ok (Simd_restore_context a sve sme w c)"
  by (auto simp: core_ok_def Simd_save_context_def Simd_restore_context_def Let_def open_vector_unit_def
      sve_defs SimdCpuContext_restore_def write_svcr_ok_def)

lemma ext_save_ok: "core_ok c \<Longrightarrow> core_ok (ext_save_context a e w c)"
  using vector_unit_ok(1) by (cases e) (auto simp: core_ok_def)

lemma ext_restore_ok: "core_ok c \<Longrightarrow> write_svcr_ok a \<Longrightarrow> core_ok (ext_restore_context a e w c)"
  using vector_unit_ok(2) by (cases e) (auto simp: core_ok_def upd_hw_def)

lemma ext_conflict_sym: "ext_conflict e e' \<Longrightarrow> ext_conflict e' e"
  by (cases e; cases e') auto

interpretation exts: switched_state "ext_save_context a" "ext_restore_context a" "ext_live a"
  "ext_saved a" ext_conflict "\<lambda>c. write_svcr_ok a \<and> core_ok c" for a
  by unfold_locales
    (simp_all add: ext_save_ok ext_restore_ok ext_saved_save ext_live_restore ext_saved_save_frame
      ext_live_save_frame ext_saved_save_other ext_live_restore_frame ext_saved_restore ext_conflict_sym)

end
