(* ===== verification/Aarch64_Values.thy ===== *)
theory Aarch64_Values
  imports World_Switch
begin

text \<open>
  The Arm architecture's values of the register bits that the model takes from the \<open>arm_sysregs\<close>
  crate, a core that implements every optional feature, and the state of a core at reset. Nothing
  is proved from these values: they instantiate the parameters where a concrete core is needed.
\<close>

definition aarch64_scr :: scr_bits where
  "aarch64_scr =
     \<lparr>SCR_NS = 1, SCR_NSE = push_bit 62 1, SCR_HCE = 0x100, SCR_SIF = 0x200, SCR_RW = 0x400,
      SCR_APK = 0x10000, SCR_API = 0x20000, SCR_ECVEN = 0x10000000, SCR_EEL2 = 0x40000,
      SCR_RES1 = 0x30, SCR_FGTEN = 0x8000000, SCR_ST = 0x800, SCR_FIQ = 4, SCR_IRQ = 2,
      SCR_HXEN = push_bit 38 1, SCR_SCTLR2EN = push_bit 44 1, SCR_TCR2EN = push_bit 43 1,
      SCR_ATA = 0x4000000, SCR_FGTEN2 = push_bit 59 1, SCR_ENTP2 = push_bit 41 1\<rparr>"

definition aarch64_spsr :: spsr_bits where
  "aarch64_spsr =
     \<lparr>SPSR_D = 0x200, SPSR_A = 0x100, SPSR_I = 0x80, SPSR_F = 0x40, SPSR_M_AARCH64_EL2H = 9,
      SPSR_M_AARCH64_EL1H = 5, SPSR_M_4 = 0x10, SPSR_PAN = 0x400000, SPSR_SSBS = 0x1000,
      SPSR_ALLINT = 0x2000, SPSR_DIT = 0x1000000, SPSR_TCO = 0x2000000, SPSR_NZCV = 0xf0000000,
      SPSR_PM = push_bit 32 1, SPSR_EXLOCK = push_bit 34 1\<rparr>"

definition aarch64_mdcr :: mdcr_bits where
  "aarch64_mdcr =
     \<lparr>MDCR_SDD = 0x10000, MDCR_SPD32 = 0x8000, MDCR_TTRF = 0x80000, MDCR_SCCD = 0x800000,
      MDCR_MCCD = push_bit 34 1, MDCR_ENPM2 = 0x80, MDCR_MPMX = push_bit 35 1, MDCR_SPME = 0x20000,
      MDCR_TPM = 0x40, MDCR_MTPME = 0x10000000, MDCR_NSTB_EN = 0x1000000, MDCR_NSTB_SS = 0x2000000,
      MDCR_NSTBE = 0x4000000, MDCR_NSPB_NS = 0x3000, MDCR_ENPMSN = push_bit 36 1,
      MDCR_ENPMS3 = push_bit 42 1, MDCR_NSPBE = 0x800\<rparr>"

definition aarch64_sctlr :: sctlr_bits where
  "aarch64_sctlr =
     \<lparr>SCTLR_LSMAOE = 0x20000000, SCTLR_NTLSMD = 0x10000000, SCTLR_SPAN = 0x800000,
      SCTLR_EIS = 0x400000, SCTLR_TSCXT = 0x100000, SCTLR_EOS = 0x800,
      SCTLR_DSSBS = push_bit 44 1, SCTLR_SPINTMASK = push_bit 62 1\<rparr>"

definition aarch64_fgt :: fgt_bits where
  "aarch64_fgt =
     \<lparr>FGT_NBRBINJ = push_bit 55 1, FGT_NBRBIALL = push_bit 56 1, FGT_R_NACCDATA_EL1 = push_bit 50 1,
      FGT_R_NSMPRI_EL1 = push_bit 54 1, FGT_R_NTPIDR2_EL0 = push_bit 55 1,
      FGT_W_NACCDATA_EL1 = push_bit 50 1, FGT_W_NSMPRI_EL1 = push_bit 54 1,
      FGT_W_NTPIDR2_EL0 = push_bit 55 1\<rparr>"

text \<open>The exception level and the stack pointer of a saved program status are bits of its mode field.\<close>

definition aarch64_exception_level :: "u64 \<Rightarrow> ExceptionLevel" where
  "aarch64_exception_level v =
     (if bit v 3 then (if bit v 2 then El3 else El2) else (if bit v 2 then El1 else El0))"

definition aarch64_stack_pointer :: "u64 \<Rightarrow> StackPointer" where
  "aarch64_stack_pointer v = (if bit v 0 then SpElX else SpEl0)"

definition aarch64_sysregs :: arm_sysregs where
  "aarch64_sysregs =
     \<lparr>scr = aarch64_scr,
      cptr = \<lparr>CPTR_TAM = 0x40000000, CPTR_TTA = 0x100000, CPTR_TFP = 0x400, CPTR_EZ = 0x100, CPTR_ESM = 0x1000\<rparr>,
      mpam3 = \<lparr>MPAM3_TRAPLOWER = push_bit 62 1, MPAM3_MPAMEN = push_bit 63 1\<rparr>,
      spsr = aarch64_spsr, mdcr = aarch64_mdcr,
      pmcr = \<lparr>PMCR_DP = 0x20, PMCR_C = 4, PMCR_P = 2, PMCR_X = 0x10, PMCR_E = 1\<rparr>,
      icc_sre = \<lparr>ICC_SRE_DIB = 4, ICC_SRE_DFB = 2, ICC_SRE_ENABLE = 8, ICC_SRE_SRE = 1\<rparr>,
      sctlr = aarch64_sctlr, fgt = aarch64_fgt,
      smcr = \<lparr>SMCR_FA64 = 0x80000000, SMCR_EZT0 = 0x40000000\<rparr>,
      CPTR_EL2_RES1 = 0x32ff, TCR_EL2_RES1 = 0x80800000, VMPIDR_EL2_RES1 = 0x80000000,
      VTCR_EL2_RES1 = 0x80000000, PAR_EL1_RES1 = 0x800, HCR_TGE = 0x8000000, GCSCR_EXLOCKEN = 0x40,
      ESR_IL = 0x2000000, SVCR_SM = 1,
      smcr_from_ssve_vector_len = (\<lambda>n. n div 128 - 1),
      spsr_exception_level = aarch64_exception_level,
      spsr_stack_pointer = aarch64_stack_pointer\<rparr>"

definition all_features :: cpu_features where
  "all_features =
     \<lparr>feat_vhe = True, feat_hcx = True, feat_sctlr2 = True, feat_tcr2 = True, feat_mte = True,
      feat_mte2 = True, feat_fgt2 = True, feat_amuv1 = True, feat_mpam = True, mpam_has_hcr = True,
      mpam_vpmr_max = 7, amu_cg1nc = 16, feat_trbe = True, feat_spe = True, feat_trf = True,
      feat_sys_reg_trace = True, feat_mtpmu = True, feat_ssbs = True, feat_nmi = True,
      feat_ebep = True, feat_gcs = True, feat_sve = True, feat_sme = True, feat_sme2 = True,
      feat_fa64 = True, id_fp = 1, id_advsimd = 1\<rparr>"

text \<open>Leaving or entering streaming mode clears the vector and predicate registers.\<close>

definition aarch64_write_svcr :: "u64 \<Rightarrow> vector_unit \<Rightarrow> vector_unit" where
  "aarch64_write_svcr v u =
     (let u1 = u\<lparr>vu_svcr := v\<rparr> in
      if bit v 0 = bit (vu_svcr u) 0 then u1
      else u1\<lparr>vu_z := map (\<lambda>_. 0) (vu_z u), vu_p := map (\<lambda>_. 0) (vu_p u), vu_ffr := 0\<rparr>)"

definition aarch64_core :: "bool \<Rightarrow> bool \<Rightarrow> arch" where
  "aarch64_core with_sel2 with_rme =
     \<lparr>sysregs = aarch64_sysregs, features = all_features, build = \<lparr>sel2 = with_sel2, rme = with_rme\<rparr>,
      write_svcr = aarch64_write_svcr\<rparr>"

definition reset_cpu_regs :: cpu_regs where
  "reset_cpu_regs =
     \<lparr>s3_3_c4_c2_6 = 0, s3_0_c15_c1_0 = 0, s3_0_c15_c1_1 = 0, s3_0_c15_c1_3 = 0, s3_0_c15_c1_4 = 0,
      s3_0_c15_c1_5 = 0, s3_0_c15_c2_7 = 0, s3_0_c15_c3_1 = 0, s3_0_c15_c3_3 = 0, s3_0_c15_c8_0 = 0,
      s3_6_c15_c8_writes = [], csselr_el1_level = 0, dc_cisw = []\<rparr>"

definition fvp_runtime :: runtime_platform where
  "fvp_runtime =
     \<lparr>CPU_EXTENSIONS = Fvp_CPU_EXTENSIONS, ERRATA_LIST = [], midr_el1 = 0x410fd0f0,
      cpu_regs_of_core = reset_cpu_regs\<rparr>"

definition reset_hw :: hw where
  "reset_hw =
     \<lparr>hw_el1 = El1Sysregs_EMPTY, hw_el2 = El2Sysregs_EMPTY, hw_hcx = HcxCpuContext_EMPTY,
      hw_sctlr2_1 = Sctlr2Sel1CpuContext_EMPTY, hw_sctlr2_2 = Sctlr2Sel2CpuContext_EMPTY,
      hw_tcr2_1 = Tcr2Sel1CpuContext_EMPTY, hw_tcr2_2 = Tcr2Sel2CpuContext_EMPTY,
      hw_mte2_1 = Mte2Sel1CpuContext_EMPTY, hw_mte2_2 = Mte2Sel2CpuContext_EMPTY,
      hw_ras_1 = RasSel1CpuContext_EMPTY, hw_ras_2 = RasSel2CpuContext_EMPTY,
      hw_fgt = FgtCpuContext_INIT_VAL aarch64_sysregs, hw_fgt2 = Fgt2CpuContext_EMPTY,
      hw_mpam = MpamCpuContext_EMPTY, hw_amu = AmuContext_EMPTY,
      hw_vector = \<lparr>vu_z = replicate 32 0, vu_p = replicate 16 0, vu_ffr = 0, vu_fpsr = 0, vu_fpcr = 0,
        vu_svcr = 0\<rparr>,
      hw_scr_el3 = 0, hw_cptr_el3 = 0, hw_mpam3_el3 = 0, hw_pmcr_el0 = 0, hw_zcr_el3 = 0, hw_smcr_el3 = 0\<rparr>"

definition reset_core :: core where
  "reset_core =
     \<lparr>core_hw = reset_hw, cpu_state = (\<lambda>_. CpuContext_EMPTY), PER_WORLD_CONTEXT = None,
      hcx_ctx = (\<lambda>_. HcxCpuContext_EMPTY), sctlr2_1_ctx = (\<lambda>_. Sctlr2Sel1CpuContext_EMPTY),
      sctlr2_2_ctx = (\<lambda>_. Sctlr2Sel2CpuContext_EMPTY), tcr2_1_ctx = (\<lambda>_. Tcr2Sel1CpuContext_EMPTY),
      tcr2_2_ctx = (\<lambda>_. Tcr2Sel2CpuContext_EMPTY), mte2_1_ctx = (\<lambda>_. Mte2Sel1CpuContext_EMPTY),
      mte2_2_ctx = (\<lambda>_. Mte2Sel2CpuContext_EMPTY), ras_1_ctx = (\<lambda>_. RasSel1CpuContext_EMPTY),
      ras_2_ctx = (\<lambda>_. RasSel2CpuContext_EMPTY), fgt_ctx = (\<lambda>_. FgtCpuContext_INIT_VAL aarch64_sysregs),
      fgt2_ctx = (\<lambda>_. Fgt2CpuContext_EMPTY), mpam_ctx = (\<lambda>_. MpamCpuContext_EMPTY),
      amu_ctx = AmuContext_EMPTY, simd_ctx = (\<lambda>_. SimdCpuContext_EMPTY),
      sve_ns_ctx = SveCpuContext_EMPTY\<rparr>"

end
