(* ===== verification/World_Properties.thy ===== *)
theory World_Properties
  imports World_Laws Aarch64_Values
begin

text \<open>
  The properties of the world switch: a world finds its registers as it left them, whatever the
  other worlds did in between, and the secure configuration register of each world names that world.
\<close>

section \<open>Frame lemmas of the switch\<close>

lemma ext_saved_cpu_state [simp]:
  "ext_saved a e w (c\<lparr>cpu_state := s\<rparr>) = ext_saved a e w c"
  "ext_saved a e w (c\<lparr>core_hw := h\<rparr>) = ext_saved a e w c"
  by (cases e; simp add: when_present_def simd_saved_def)+

lemma ext_live_cpu_state [simp]: "ext_live a e w (c\<lparr>cpu_state := s\<rparr>) = ext_live a e w c"
  by (cases e) (simp_all add: when_present_def)

lemma ext_save_core [simp]:
  "cpu_state (ext_save_context a e w c) = cpu_state c"
  "PER_WORLD_CONTEXT (ext_save_context a e w c) = PER_WORLD_CONTEXT c"
  by (cases e; simp)+

lemma ext_restore_core [simp]:
  "cpu_state (ext_restore_context a e w c) = cpu_state c"
  "PER_WORLD_CONTEXT (ext_restore_context a e w c) = PER_WORLD_CONTEXT c"
  by (cases e; simp add: upd_hw_def)+

lemma save_all_core:
  "cpu_state (exts.save_all a es w c) = cpu_state c"
  "PER_WORLD_CONTEXT (exts.save_all a es w c) = PER_WORLD_CONTEXT c"
  by (induction es arbitrary: c; simp add: exts.save_all_def)+

lemma restore_all_core:
  "cpu_state (exts.restore_all a es w c) = cpu_state c"
  "PER_WORLD_CONTEXT (exts.restore_all a es w c) = PER_WORLD_CONTEXT c"
  by (induction es arbitrary: c; simp add: exts.restore_all_def)+

text \<open>Restoring the lower EL registers of the core only writes their banks and \<^verbatim>\<open>SCR_EL3\<close>.\<close>

lemma restore_lower_hw:
  "restore_lower_el_sysregs a P w ctx h =
     h\<lparr>hw_el1 := hw_el1 (restore_lower_el_sysregs a P w ctx h),
       hw_el2 := hw_el2 (restore_lower_el_sysregs a P w ctx h),
       hw_scr_el3 := hw_scr_el3 (restore_lower_el_sysregs a P w ctx h)\<rparr>"
  by (simp add: restore_lower_el_sysregs_def El2Sysregs_restore_def Let_def)

lemma ext_live_banks [simp]:
  "ext_live a e w (c\<lparr>core_hw := h\<lparr>hw_el1 := x, hw_el2 := y, hw_scr_el3 := z\<rparr>\<rparr>) = ext_live a e w (c\<lparr>core_hw := h\<rparr>)"
  by (cases e) (simp_all add: when_present_def)

lemma ext_live_restore_lower:
  "ext_live a e w (upd_hw (restore_lower_el_sysregs a P v ctx) c) = ext_live a e w c"
  unfolding upd_hw_def by (subst restore_lower_hw) simp

lemma restore_lower_vector [simp]:
  "hw_vector (restore_lower_el_sysregs a P w ctx h) = hw_vector h"
  by (subst restore_lower_hw) simp

section \<open>Saved and live registers of a world\<close>

definition lower_same :: "arch \<Rightarrow> El1Sysregs \<times> El2Sysregs \<Rightarrow> El1Sysregs \<times> El2Sysregs \<Rightarrow> bool" where
  "lower_same a r r' \<longleftrightarrow>
     (if sel2 (build a) then El2_same (features a) (snd r) (snd r') else fst r = fst r')"

lemma lower_same_trans: "lower_same a r r' \<Longrightarrow> lower_same a r' r'' \<Longrightarrow> lower_same a r r''"
  by (auto simp: lower_same_def El2_same_def split: if_splits)

definition lower_live :: "core \<Rightarrow> El1Sysregs \<times> El2Sysregs" where
  "lower_live c = (hw_el1 (core_hw c), hw_el2 (core_hw c))"

definition lower_saved :: "World \<Rightarrow> core \<Rightarrow> El1Sysregs \<times> El2Sysregs" where
  "lower_saved w c = (el1_sysregs (cpu_state c w), el2_sysregs (cpu_state c w))"

text \<open>Two cores have the same live registers of a world, as far as they are switched at all.\<close>

definition same_registers :: "arch \<Rightarrow> runtime_platform \<Rightarrow> World \<Rightarrow> core \<Rightarrow> core \<Rightarrow> bool" where
  "same_registers a P w c c' \<longleftrightarrow>
     lower_same a (lower_live c) (lower_live c') \<and>
     (\<forall>e \<in> set (CPU_EXTENSIONS P). ext_live a e w c = ext_live a e w c')"

text \<open>The contexts of a world hold the live registers of a core.\<close>

definition holds_registers :: "arch \<Rightarrow> runtime_platform \<Rightarrow> World \<Rightarrow> core \<Rightarrow> core \<Rightarrow> bool" where
  "holds_registers a P w c c' \<longleftrightarrow>
     lower_same a (lower_live c) (lower_saved w c') \<and>
     (\<forall>e \<in> set (CPU_EXTENSIONS P). ext_live a e w c = ext_saved a e w c') \<and>
     PER_WORLD_CONTEXT c' \<noteq> None \<and> core_ok c'"

lemma restore_world_spec:
  assumes "write_svcr_ok a" "exts.separate (CPU_EXTENSIONS P)" "core_ok c" "PER_WORLD_CONTEXT c \<noteq> None"
  obtains c' where "restore_world a P w c = Some c'" "core_ok c'"
    "PER_WORLD_CONTEXT c' = PER_WORLD_CONTEXT c" "cpu_state c' = cpu_state c"
    "\<And>e v. ext_saved a e v c' = ext_saved a e v c"
    "\<And>e. e \<in> set (CPU_EXTENSIONS P) \<Longrightarrow> ext_live a e w c' = ext_saved a e w c"
    "lower_same a (lower_saved w c) (lower_live c')"
proof -
  let ?es = "CPU_EXTENSIONS P"
  obtain pw where pw: "PER_WORLD_CONTEXT c = Some pw" using assms(4) by auto
  define c1 where "c1 = upd_hw (restore_el3_sysregs a (pw w)) c"
  define c2 where "c2 = exts.restore_all a ?es w c1"
  define c3 where "c3 = upd_hw (restore_lower_el_sysregs a P w (cpu_state c2 w)) c2"
  have c1: "core_ok c1" "cpu_state c1 = cpu_state c" "PER_WORLD_CONTEXT c1 = Some pw"
      "\<And>e v. ext_saved a e v c1 = ext_saved a e v c"
    using assms(3) pw by (auto simp: c1_def upd_hw_def core_ok_def restore_el3_sysregs_def)
  have c2: "core_ok c2" "cpu_state c2 = cpu_state c" "PER_WORLD_CONTEXT c2 = Some pw"
      "\<And>e v. ext_saved a e v c2 = ext_saved a e v c"
      "\<And>e. e \<in> set ?es \<Longrightarrow> ext_live a e w c2 = ext_saved a e w c"
    using exts.restore_all_ok [where c = c1 and a = a] exts.restore_all_live [OF assms(2), where c = c1 and a = a] c1 assms(1)
    by (auto simp: c2_def restore_all_core exts.restore_all_saved)
  have "restore_world a P w c = Some c3"
    using pw by (simp add: restore_world_def world_context_def c3_def c2_def c1_def
        exts.restore_all_def Let_def)
  moreover have "core_ok c3" using c2(1) by (simp add: c3_def upd_hw_def core_ok_def)
  moreover have "lower_same a (lower_saved w c) (lower_live c3)"
    using El2_restore_same [of "features a"]
    by (auto simp: lower_same_def lower_saved_def lower_live_def c3_def upd_hw_def c2(2)
        restore_lower_el_sysregs_def El1_restore_all El2_same_def)
  ultimately show ?thesis
    using that [of c3] c2 pw by (simp add: c3_def ext_live_restore_lower) (simp add: upd_hw_def)
qed

lemma switch_world_spec:
  assumes "write_svcr_ok a" "exts.separate (CPU_EXTENSIONS P)" "core_ok c" "PER_WORLD_CONTEXT c \<noteq> None"
    and "v \<noteq> w"
  obtains c' where "switch_world a P v w c = Some c'" "core_ok c'"
    "PER_WORLD_CONTEXT c' = PER_WORLD_CONTEXT c"
    "holds_registers a P v c c'"
    "\<And>u. u \<noteq> v \<Longrightarrow> cpu_state c' u = cpu_state c u"
    "\<And>e u. u \<noteq> v \<Longrightarrow> ext_saved a e u c' = ext_saved a e u c"
    "\<And>e. e \<in> set (CPU_EXTENSIONS P) \<Longrightarrow> ext_live a e w c' = ext_saved a e w c"
    "lower_same a (lower_saved w c) (lower_live c')"
proof -
  let ?es = "CPU_EXTENSIONS P"
  define c1 where "c1 = c\<lparr>cpu_state := (cpu_state c)(v := save_lower_el_sysregs a (core_hw c) (cpu_state c v))\<rparr>"
  define c2 where "c2 = exts.save_all a ?es v c1"
  have ok1: "core_ok c1" using assms(3) by (simp add: c1_def core_ok_def)
  have c2: "core_ok c2" "cpu_state c2 = cpu_state c1" "PER_WORLD_CONTEXT c2 = PER_WORLD_CONTEXT c"
    using exts.save_all_ok [where c = c1 and a = a] ok1 assms(1) by (auto simp: c2_def save_all_core c1_def)
  have saved: "\<And>e. e \<in> set ?es \<Longrightarrow> ext_saved a e v c2 = ext_live a e v c"
    using exts.save_all_saved [OF assms(2), where c = c1 and a = a] ok1 assms(1) by (simp add: c2_def) (simp add: c1_def)
  have other: "\<And>e u. u \<noteq> v \<Longrightarrow> ext_saved a e u c2 = ext_saved a e u c"
    using exts.save_all_other by (simp add: c2_def) (simp add: c1_def)
  have "PER_WORLD_CONTEXT c2 \<noteq> None" using c2(3) assms(4) by simp
  then obtain c' where c': "restore_world a P w c2 = Some c'" "core_ok c'"
      "PER_WORLD_CONTEXT c' = PER_WORLD_CONTEXT c2" "cpu_state c' = cpu_state c2"
      "\<And>e u. ext_saved a e u c' = ext_saved a e u c2"
      "\<And>e. e \<in> set ?es \<Longrightarrow> ext_live a e w c' = ext_saved a e w c2"
      "lower_same a (lower_saved w c2) (lower_live c')"
    using restore_world_spec [OF assms(1,2) c2(1)] by blast
  have "switch_world a P v w c = Some c'"
    using c'(1) assms(5) by (simp add: switch_world_def c2_def c1_def exts.save_all_def Let_def)
  moreover have "holds_registers a P v c c'"
    using El2_save_same [of "features a" "hw_el2 (core_hw c)" "el2_sysregs (cpu_state c v)"]
    by (auto simp: holds_registers_def lower_same_def lower_live_def lower_saved_def c'(2,4,5)
        c2(2) saved c1_def save_lower_el_sysregs_def El1_save_all El2_same_def c'(3) c2(3) assms(4))
  moreover have "lower_saved w c2 = lower_saved w c"
    using assms(5) by (simp add: lower_saved_def c2(2) c1_def)
  ultimately show ?thesis
    using that c' c2 other assms(5) by (simp add: c1_def)
qed

lemma switch_world_returns:
  assumes "write_svcr_ok a" "exts.separate (CPU_EXTENSIONS P)" "core_ok c" "PER_WORLD_CONTEXT c \<noteq> None"
    and "v \<noteq> w"
  shows "\<exists>c'. switch_world a P v w c = Some c' \<and> core_ok c' \<and> PER_WORLD_CONTEXT c' = PER_WORLD_CONTEXT c"
  by (rule switch_world_spec [OF assms]) blast

section \<open>A world keeps its registers\<close>

text \<open>
  What can happen on a core from the switch away from world \<open>w\<close> until the switch back to it: the
  world that runs is entered and comes back, with any registers, or is switched for another one
  that is not \<open>w\<close>.
\<close>

inductive away :: "arch \<Rightarrow> runtime_platform \<Rightarrow> World \<Rightarrow> World \<times> core \<Rightarrow> World \<times> core \<Rightarrow> bool"
  for a P w s where
  away_start: "away a P w s s"
| away_run: "away a P w s (v, c) \<Longrightarrow> enter_world run regs v c = Some (out, r, c') \<Longrightarrow> core_ok c' \<Longrightarrow>
    away a P w s (v, c')"
| away_switch: "away a P w s (v, c) \<Longrightarrow> v' \<noteq> w \<Longrightarrow> switch_world a P v v' c = Some c' \<Longrightarrow>
    away a P w s (v', c')"

lemma enter_world_frame:
  assumes "enter_world run regs v c = Some (out, r, c')"
  shows "\<And>u. u \<noteq> v \<Longrightarrow> cpu_state c' u = cpu_state c u" "ext_saved a e u c' = ext_saved a e u c"
    "PER_WORLD_CONTEXT c' = PER_WORLD_CONTEXT c"
  using assms by (auto simp: enter_world_def bind_eq_Some_conv Let_def split: if_splits)

lemma switch_world_distinct: "switch_world a P v v' c = Some c' \<Longrightarrow> v \<noteq> v'"
  by (auto simp: switch_world_def assert_that_def split: if_splits)

lemma away_keeps_registers:
  assumes "write_svcr_ok a" "exts.separate (CPU_EXTENSIONS P)"
    and "away a P w s s'" "fst s \<noteq> w" "holds_registers a P w c (snd s)"
  shows "fst s' \<noteq> w \<and> holds_registers a P w c (snd s')"
  using assms(3)
proof induction
  case away_start
  then show ?case using assms(4,5) by simp
next
  case (away_run v c0 run regs out r c')
  note frame = enter_world_frame [OF away_run.hyps(2)]
  have "lower_saved w c' = lower_saved w c0"
    using frame(1) [of w] away_run.IH by (auto simp: lower_saved_def)
  with away_run frame(2,3) show ?case by (simp add: holds_registers_def)
next
  case (away_switch v c0 v' c')
  then have v: "v \<noteq> w" and h: "holds_registers a P w c c0" by simp_all
  obtain c'' where c'': "switch_world a P v v' c0 = Some c''" "core_ok c''"
      "PER_WORLD_CONTEXT c'' = PER_WORLD_CONTEXT c0"
      "\<And>u. u \<noteq> v \<Longrightarrow> cpu_state c'' u = cpu_state c0 u"
      "\<And>e u. u \<noteq> v \<Longrightarrow> ext_saved a e u c'' = ext_saved a e u c0"
    using h switch_world_spec [OF assms(1,2) _ _ switch_world_distinct [OF away_switch.hyps(3)]]
    by (metis holds_registers_def)
  then have "c' = c''" using away_switch.hyps(3) by simp
  with c'' v h away_switch.hyps(2) show ?case
    by (auto simp: holds_registers_def lower_saved_def)
qed

text \<open>
  C32. A world that is switched out finds its registers again: after any sequence of entries to the
  other worlds and switches among them, switching back succeeds and the live lower EL registers and
  the registers of every CPU extension are those the world had when it was switched out, in a build
  with Secure EL2 or without it and for any list of distinct extensions.
\<close>

theorem world_switch_roundtrip:
  assumes "write_svcr_ok a" "exts.separate (CPU_EXTENSIONS P)"
    and "core_ok c" "PER_WORLD_CONTEXT c \<noteq> None"
    and "switch_world a P w v c = Some c1" "away a P w (v, c1) (v', c2)"
  shows "\<exists>c3. switch_world a P v' w c2 = Some c3 \<and> same_registers a P w c c3"
proof -
  have "w \<noteq> v" using assms(5) by (rule switch_world_distinct)
  then have "holds_registers a P w c c1"
    using switch_world_spec [OF assms(1-4)] assms(5) by (metis option.inject)
  then have held: "v' \<noteq> w" "holds_registers a P w c c2"
    using away_keeps_registers [OF assms(1,2,6)] \<open>w \<noteq> v\<close> by auto
  then obtain c3 where c3: "switch_world a P v' w c2 = Some c3"
      "\<And>e. e \<in> set (CPU_EXTENSIONS P) \<Longrightarrow> ext_live a e w c3 = ext_saved a e w c2"
      "lower_same a (lower_saved w c2) (lower_live c3)"
    using switch_world_spec [OF assms(1,2)] by (metis holds_registers_def)
  have "same_registers a P w c c3"
    using held(2) c3(2) lower_same_trans [OF _ c3(3)]
    by (auto simp: same_registers_def holds_registers_def)
  with c3(1) show ?thesis by blast
qed

lemma aarch64_write_svcr_ok: "write_svcr_ok (aarch64_core x y)"
  by (simp add: write_svcr_ok_def aarch64_core_def aarch64_write_svcr_def Let_def)

lemma fvp_extensions_separate: "exts.separate (CPU_EXTENSIONS fvp_runtime)"
  by (simp add: exts.separate_def fvp_runtime_def Fvp_CPU_EXTENSIONS_def Simd_simd_def)

theorem world_switch_roundtrip_witness:
  "let a = aarch64_core True True; c = initialise_per_world_contexts a fvp_runtime reset_core in
   \<exists>c1 c2 c3. switch_world a fvp_runtime NonSecure Realm c = Some c1 \<and>
     switch_world a fvp_runtime Realm Secure c1 = Some c2 \<and>
     switch_world a fvp_runtime Secure NonSecure c2 = Some c3 \<and>
     same_registers a fvp_runtime NonSecure c c3"
proof -
  let ?a = "aarch64_core True True"
  let ?c = "initialise_per_world_contexts ?a fvp_runtime reset_core"
  note ok = aarch64_write_svcr_ok [of True True] fvp_extensions_separate
  have c: "core_ok ?c" "PER_WORLD_CONTEXT ?c \<noteq> None"
    by (simp_all add: initialise_per_world_contexts_def reset_core_def core_ok_def reset_hw_def
        SveCpuContext_EMPTY_def)
  obtain c1 where c1: "switch_world ?a fvp_runtime NonSecure Realm ?c = Some c1" "core_ok c1"
      "PER_WORLD_CONTEXT c1 = PER_WORLD_CONTEXT ?c"
    using switch_world_returns [OF ok c, of NonSecure Realm] by auto
  obtain c2 where c2: "switch_world ?a fvp_runtime Realm Secure c1 = Some c2"
    using switch_world_returns [OF ok c1(2), of Realm Secure] c1(3) c(2) by auto
  have "away ?a fvp_runtime NonSecure (Realm, c1) (Secure, c2)"
    using away_switch [OF away_start _ c2] by simp
  from world_switch_roundtrip [OF ok c c1(1) this] c1(1) c2 show ?thesis
    by (auto simp: Let_def)
qed

section \<open>The secure configuration names the world\<close>

definition scr_world_bits :: "scr_bits \<Rightarrow> u64" where
  "scr_world_bits S = SCR_NS S OR SCR_NSE S OR SCR_FIQ S OR SCR_IRQ S"

text \<open>The bits that name a world and route its interrupts share nothing with each other or the other bits.\<close>

definition scr_bits_apart :: "scr_bits \<Rightarrow> bool" where
  "scr_bits_apart S \<longleftrightarrow>
     (\<forall>x \<in> set [SCR_RES1 S, SCR_HCE S, SCR_SIF S, SCR_RW S, SCR_APK S, SCR_API S, SCR_ECVEN S,
        SCR_EEL2 S, SCR_FGTEN S, SCR_ST S, SCR_HXEN S, SCR_SCTLR2EN S, SCR_TCR2EN S, SCR_ATA S,
        SCR_FGTEN2 S, SCR_ENTP2 S]. x AND scr_world_bits S = 0) \<and>
     SCR_NS S AND SCR_NSE S = 0 \<and> SCR_NS S AND SCR_FIQ S = 0 \<and> SCR_NS S AND SCR_IRQ S = 0 \<and>
     SCR_NSE S AND SCR_FIQ S = 0 \<and> SCR_NSE S AND SCR_IRQ S = 0 \<and> SCR_FIQ S AND SCR_IRQ S = 0"

fun world_scr :: "scr_bits \<Rightarrow> World \<Rightarrow> u64" where
  "world_scr S NonSecure = SCR_NS S OR SCR_FIQ S"
| "world_scr S Secure = 0"
| "world_scr S Realm = SCR_NS S OR SCR_NSE S"

lemma configure_keeps_world:
  assumes "scr_bits_apart (scr (sysregs a))"
  shows "pw_scr_el3 (ext_configure_per_world a e w ctx) AND scr_world_bits (scr (sysregs a)) =
    pw_scr_el3 ctx AND scr_world_bits (scr (sysregs a))"
  using assms by (cases e)
    (auto simp: or_scr_def scr_bits_apart_def bit.conj_disj_distrib2 Simd_configure_per_world_def
      Sve_configure_per_world_def Sme_configure_per_world_def Let_def)

lemma configure_worlds_keep_world:
  assumes "scr_bits_apart (scr (sysregs a))"
  shows "pw_scr_el3 (configure_worlds a es pw w) AND scr_world_bits (scr (sysregs a)) =
    pw_scr_el3 (pw w) AND scr_world_bits (scr (sysregs a))"
  by (induction es arbitrary: pw) (auto simp: configure_worlds_def configure_keeps_world [OF assms])

lemma flags_minus_and: "flags_minus v z AND m = flags_minus (v AND m) z"
  by (rule bit_eqI) (auto simp: bit_flags_minus bit_simps)

lemma flags_minus_or: "flags_minus (v OR u) z = flags_minus v z OR flags_minus u z"
  by (rule bit_eqI) (auto simp: bit_flags_minus bit_simps)

lemma flags_minus_apart: "v AND z = 0 \<Longrightarrow> flags_minus v z = v"
  by (rule bit_eqI) (metis bit_0_eq bit_and_iff bit_flags_minus bot_fun_def bot_bool_def)

lemma flags_minus_zero: "flags_minus 0 z = 0"
  by (simp add: flags_minus_def)

definition common_scr :: "arch \<Rightarrow> u64" where
  "common_scr a = pw_scr_el3 (PerWorldContext_initialise_common a PerWorldContext_default)"

lemma common_scr_outside: "scr_bits_apart (scr (sysregs a)) \<Longrightarrow> common_scr a AND scr_world_bits (scr (sysregs a)) = 0"
  by (simp add: common_scr_def PerWorldContext_initialise_common_def scr_bits_apart_def Let_def
      bit.conj_disj_distrib2)

lemma build_scr:
  assumes "scr_bits_apart (scr (sysregs a))" "w = Realm \<longrightarrow> rme (build a)"
  shows "pw_scr_el3 (build_per_world_contexts a P w) AND scr_world_bits (scr (sysregs a)) =
    (let S = scr (sysregs a) in
     set_routing_model S w (common_scr a OR
       (case w of NonSecure \<Rightarrow> SCR_NS S OR SCR_FGTEN S | Secure \<Rightarrow> SCR_ST S
        | Realm \<Rightarrow> SCR_NS S OR SCR_NSE S OR SCR_FGTEN S)) AND scr_world_bits S)"
  using assms(2) unfolding build_per_world_contexts_def Let_def configure_worlds_keep_world [OF assms(1)]
  by (cases w) (simp_all add: upd_scr_def common_scr_def)

lemma build_names_world:
  assumes "scr_bits_apart (scr (sysregs a))" "w = Realm \<longrightarrow> rme (build a)"
  shows "pw_scr_el3 (build_per_world_contexts a P w) AND scr_world_bits (scr (sysregs a)) =
    world_scr (scr (sysregs a)) w"
proof -
  let ?S = "scr (sysregs a)"
  have keep: "x AND scr_world_bits ?S = x" if "x \<in> {SCR_NS ?S, SCR_NSE ?S, SCR_FIQ ?S, SCR_IRQ ?S}" for x
    using that by (intro bit_eqI) (auto simp: scr_world_bits_def bit_simps)
  show ?thesis
    using assms(1) [unfolded scr_bits_apart_def] unfolding build_scr [OF assms]
    by (cases w) (simp_all add: Let_def set_routing_model_def bit.conj_disj_distrib2 flags_minus_and
      common_scr_outside [OF assms(1)] flags_minus_or flags_minus_apart flags_minus_zero keep)
qed

text \<open>
  C33. The value of \<^verbatim>\<open>SCR_EL3\<close> that the firmware builds for a world names that world, whatever CPU
  extensions the platform lists: among the bits that select the security state and route interrupts,
  exactly \<^verbatim>\<open>NS\<close> and \<^verbatim>\<open>FIQ\<close> are set for the normal world, none for the secure world, and \<^verbatim>\<open>NS\<close>
  and \<^verbatim>\<open>NSE\<close> for the realm world.
\<close>

theorem scr_el3_names_world:
  assumes "scr_bits_apart (scr (sysregs a))" "PER_WORLD_CONTEXT c = None"
    and "w = Realm \<longrightarrow> rme (build a)"
  shows "\<exists>ctx. world_context (initialise_per_world_contexts a P c) w = Some ctx \<and>
    pw_scr_el3 ctx AND scr_world_bits (scr (sysregs a)) = world_scr (scr (sysregs a)) w"
  using build_names_world [OF assms(1,3)] assms(2)
  by (simp add: initialise_per_world_contexts_def world_context_def)

theorem scr_el3_names_world_witness:
  "let a = aarch64_core True True in
   \<exists>ctx. world_context (initialise_per_world_contexts a fvp_runtime reset_core) Realm = Some ctx \<and>
     pw_scr_el3 ctx AND (push_bit 62 1 OR 7) = (push_bit 62 1 OR 1)"
proof -
  let ?a = "aarch64_core True True"
  have "scr_bits_apart (scr (sysregs ?a))"
    by (simp add: aarch64_core_def aarch64_sysregs_def aarch64_scr_def scr_bits_apart_def
        scr_world_bits_def)
  from scr_el3_names_world [OF this, of reset_core Realm fvp_runtime] show ?thesis
    by (simp add: aarch64_core_def aarch64_sysregs_def aarch64_scr_def scr_world_bits_def
        reset_core_def Let_def)
qed

end
