(* ===== verification/Exceptions.thy ===== *)
theory Exceptions
  imports World_Switch
begin

text \<open>
  Injection of undefined instruction exceptions into a lower exception level,
  \<^verbatim>\<open>src/src/exceptions.rs\<close>, and the handler of system register traps in \<^verbatim>\<open>src/src/services.rs\<close>.
\<close>

definition CURRENT_EL_SP0 :: u64 where "CURRENT_EL_SP0 = 0"
definition CURRENT_EL_SPX :: u64 where "CURRENT_EL_SPX = 0x200"
definition LOWER_EL_AARCH64 :: u64 where "LOWER_EL_AARCH64 = 0x400"

text \<open>The control registers of the guarded control stack, which the injection reads and nothing saves.\<close>

record gcs_regs =
  gcscr_el1 :: u64
  gcscr_el2 :: u64

text \<open>The derived order of \<open>ExceptionLevel\<close>.\<close>

fun el_number :: "ExceptionLevel \<Rightarrow> nat" where
  "el_number El0 = 0"
| "el_number El1 = 1"
| "el_number El2 = 2"
| "el_number El3 = 3"

definition is_tge_enabled :: "arch \<Rightarrow> hw \<Rightarrow> bool" where
  "is_tge_enabled a h \<longleftrightarrow> feat_vhe (features a) \<and> flags_contain (hcr_el2 (hw_el2 h)) (HCR_TGE (sysregs a))"

definition is_secure_trap_without_sel2 :: "arch \<Rightarrow> u64 \<Rightarrow> bool" where
  "is_secure_trap_without_sel2 a scr_el3 \<longleftrightarrow>
     \<not> flags_contain scr_el3 (SCR_NS (scr (sysregs a))) \<and> \<not> flags_contain scr_el3 (SCR_EEL2 (scr (sysregs a)))"

definition target_el :: "arch \<Rightarrow> hw \<Rightarrow> ExceptionLevel \<Rightarrow> u64 \<Rightarrow> ExceptionLevel" where
  "target_el a h from_el scr_el3 =
     (if el_number El1 < el_number from_el then from_el
      else if is_tge_enabled a h \<and> \<not> is_secure_trap_without_sel2 a scr_el3 then El2
      else El1)"

definition checked_add :: "u64 \<Rightarrow> u64 \<Rightarrow> u64 option" where
  "checked_add x y = (if unat x + unat y < 2 ^ 64 then Some (x + y) else None)"

definition find_exception_vector :: "arch \<Rightarrow> u64 \<Rightarrow> u64 \<Rightarrow> ExceptionLevel \<Rightarrow> u64 option" where
  "find_exception_vector a v vbar to_el =
     (let outgoing_el = spsr_exception_level (sysregs a) v in
      if outgoing_el = to_el
      then if spsr_stack_pointer (sysregs a) v = SpElX then checked_add vbar CURRENT_EL_SPX
           else checked_add vbar CURRENT_EL_SP0
      else checked_add vbar LOWER_EL_AARCH64)"

text \<open>Each step adds the bits it decides on.\<close>

definition spsr_mode :: "arch \<Rightarrow> ExceptionLevel \<Rightarrow> u64" where
  "spsr_mode a to_el =
     (if to_el = El2 then SPSR_M_AARCH64_EL2H (spsr (sysregs a)) else SPSR_M_AARCH64_EL1H (spsr (sysregs a)))"

definition create_spsr :: "arch \<Rightarrow> hw \<Rightarrow> gcs_regs \<Rightarrow> u64 \<Rightarrow> ExceptionLevel \<Rightarrow> u64" where
  "create_spsr a h g old_spsr to_el =
     (let S = spsr (sysregs a); C = sctlr (sysregs a); F = features a;
          s1 = sctlr_el1 (hw_el1 h); s2 = sctlr_el2 (hw_el2 h);
          new_spsr = spsr_mode a to_el;
          new_spsr = new_spsr OR (SPSR_D S OR SPSR_A S OR SPSR_I S OR SPSR_F S);
          new_spsr = (if feat_ssbs F
                        \<and> (to_el = El1 \<and> flags_contain s1 (SCTLR_DSSBS C)
                           \<or> to_el = El2 \<and> flags_contain s2 (SCTLR_DSSBS C))
                      then new_spsr OR SPSR_SSBS S else new_spsr);
          new_spsr = (if feat_nmi F
                        \<and> (to_el = El1 \<and> \<not> flags_contain s1 (SCTLR_SPINTMASK C)
                           \<or> to_el = El2 \<and> \<not> flags_contain s2 (SCTLR_SPINTMASK C))
                      then new_spsr OR SPSR_ALLINT S else new_spsr);
          new_spsr = (if flags_contain old_spsr (SPSR_PAN S)
                        \<or> to_el = El1 \<and> \<not> flags_contain s1 (SCTLR_SPAN C)
                        \<or> to_el = El2 \<and> is_tge_enabled a h \<and> \<not> flags_contain s2 (SCTLR_SPAN C)
                      then new_spsr OR SPSR_PAN S else new_spsr);
          new_spsr = new_spsr OR (old_spsr AND SPSR_DIT S);
          new_spsr = (if feat_mte F then new_spsr OR SPSR_TCO S else new_spsr);
          new_spsr = new_spsr OR (old_spsr AND SPSR_NZCV S);
          new_spsr = (if feat_ebep F then new_spsr OR SPSR_PM S else new_spsr)
      in if feat_gcs F
           \<and> flags_contain (if to_el = El2 then gcscr_el2 g else gcscr_el1 g) (GCSCR_EXLOCKEN (sysregs a))
         then new_spsr OR SPSR_EXLOCK S else new_spsr)"

definition write_el1_syndrome :: "arch \<Rightarrow> u64 \<Rightarrow> u64 \<Rightarrow> hw \<Rightarrow> hw" where
  "write_el1_syndrome a elr old_spsr h =
     h\<lparr>hw_el1 := (hw_el1 h)\<lparr>elr_el1 := elr, esr_el1 := ESR_IL (sysregs a), spsr_el1 := old_spsr\<rparr>\<rparr>"

definition write_el2_syndrome :: "arch \<Rightarrow> u64 \<Rightarrow> u64 \<Rightarrow> hw \<Rightarrow> hw" where
  "write_el2_syndrome a elr old_spsr h =
     h\<lparr>hw_el2 := (hw_el2 h)\<lparr>elr_el2 := elr, esr_el2 := ESR_IL (sysregs a), spsr_el2 := old_spsr\<rparr>\<rparr>"

text \<open>
  Panics for a world in AArch32 state and for an exception from EL3; the branch for EL0 is the
  \<open>unreachable!()\<close> of the source.
\<close>

definition inject_undef64 :: "arch \<Rightarrow> gcs_regs \<Rightarrow> World \<Rightarrow> core \<Rightarrow> core option" where
  "inject_undef64 a g world c =
     do {
       wc \<leftarrow> world_context c world;
       let e = el3_state (cpu_state c world);
       let elr = elr_el3 e;
       let old_spsr = spsr_el3 e;
       let h = core_hw c;
       let to_el = target_el a h (spsr_exception_level (sysregs a) old_spsr) (pw_scr_el3 wc);
       assert_that (\<not> flags_contain old_spsr (SPSR_M_4 (spsr (sysregs a))));
       (vbar, h') \<leftarrow>
         (case to_el of
            El1 \<Rightarrow> Some (vbar_el1 (hw_el1 h), write_el1_syndrome a elr old_spsr h)
          | El2 \<Rightarrow> Some (vbar_el2 (hw_el2 h), write_el2_syndrome a elr old_spsr h)
          | El3 \<Rightarrow> None
          | El0 \<Rightarrow> None);
       let new_spsr = create_spsr a h' g old_spsr to_el;
       vector \<leftarrow> find_exception_vector a old_spsr vbar to_el;
       let e' = e\<lparr>spsr_el3 := new_spsr, elr_el3 := vector\<rparr>;
       Some (c\<lparr>core_hw := h',
         cpu_state := (cpu_state c)(world := (cpu_state c world)\<lparr>el3_state := e'\<rparr>)\<rparr>)
     }"

text \<open>Every trapped system register is undefined: no encoding has a handler of its own.\<close>

definition handle_sysreg_trap :: "arch \<Rightarrow> gcs_regs \<Rightarrow> u64 \<Rightarrow> World \<Rightarrow> core \<Rightarrow> core option" where
  "handle_sysreg_trap a g esr world c = inject_undef64 a g world c"

section \<open>Laws\<close>

text \<open>The mode field is the low five bits of the program status and no flag reaches into it.\<close>

definition spsr_layout :: "arm_sysregs \<Rightarrow> bool" where
  "spsr_layout A \<longleftrightarrow>
     (\<forall>x \<in> set [SPSR_D (spsr A), SPSR_A (spsr A), SPSR_I (spsr A), SPSR_F (spsr A), SPSR_PAN (spsr A),
        SPSR_SSBS (spsr A), SPSR_ALLINT (spsr A), SPSR_DIT (spsr A), SPSR_TCO (spsr A),
        SPSR_NZCV (spsr A), SPSR_PM (spsr A), SPSR_EXLOCK (spsr A)]. x AND 0x1f = 0) \<and>
     SPSR_M_AARCH64_EL2H (spsr A) AND 0x1f = SPSR_M_AARCH64_EL2H (spsr A) \<and>
     SPSR_M_AARCH64_EL1H (spsr A) AND 0x1f = SPSR_M_AARCH64_EL1H (spsr A) \<and>
     (\<forall>v. spsr_exception_level A (v AND 0x1f) = spsr_exception_level A v) \<and>
     spsr_exception_level A (SPSR_M_AARCH64_EL2H (spsr A)) = El2 \<and>
     spsr_exception_level A (SPSR_M_AARCH64_EL1H (spsr A)) = El1"

lemma create_spsr_mode:
  assumes "spsr_layout (sysregs a)"
  shows "create_spsr a h g v to_el AND 0x1f = spsr_mode a to_el"
  using assms
  by (simp add: create_spsr_def Let_def spsr_layout_def bit.conj_disj_distrib2 and.assoc spsr_mode_def)

lemma create_spsr_level:
  assumes "spsr_layout (sysregs a)" "to_el \<in> {El1, El2}"
  shows "spsr_exception_level (sysregs a) (create_spsr a h g v to_el) = to_el"
proof -
  have "spsr_exception_level (sysregs a) (create_spsr a h g v to_el) =
      spsr_exception_level (sysregs a) (spsr_mode a to_el)"
    by (metis assms(1) create_spsr_mode spsr_layout_def)
  then show ?thesis using assms by (auto simp: spsr_mode_def spsr_layout_def)
qed

definition exceptions_masked :: "arch \<Rightarrow> u64 \<Rightarrow> bool" where
  "exceptions_masked a v \<longleftrightarrow>
     flags_contain v (SPSR_D (spsr (sysregs a)) OR SPSR_A (spsr (sysregs a)) OR SPSR_I (spsr (sysregs a))
       OR SPSR_F (spsr (sysregs a)))"

lemma flags_contain_or: "flags_contain v x \<Longrightarrow> flags_contain (v OR y) x"
  by (auto simp: flags_contain_bits bit_simps)

lemma create_spsr_masked: "exceptions_masked a (create_spsr a h g v to_el)"
proof -
  let ?S = "spsr (sysregs a)"
  have "flags_contain (x OR (SPSR_D ?S OR SPSR_A ?S OR SPSR_I ?S OR SPSR_F ?S))
      (SPSR_D ?S OR SPSR_A ?S OR SPSR_I ?S OR SPSR_F ?S)" for x
    by (auto simp: flags_contain_bits bit_simps)
  then show ?thesis
    by (simp add: create_spsr_def exceptions_masked_def Let_def flags_contain_or)
qed

lemma target_el_cases:
  "from_el \<noteq> El3 \<Longrightarrow> target_el a h from_el s \<in> {El1, El2} \<and>
    el_number from_el \<le> el_number (target_el a h from_el s)"
  by (cases from_el) (auto simp: target_el_def)

end
