(* ===== verification/Exception_Properties.thy ===== *)
theory Exception_Properties
  imports Exceptions Aarch64_Values
begin

text \<open>What a lower exception level sees when an undefined instruction exception is injected into it.\<close>








end
