(* ===== verification/Spmd.thy ===== *)
theory Spmd
  imports World_Switch
begin

text \<open>
  The Secure Partition Manager Dispatcher, \<^verbatim>\<open>src/src/services/ffa/spmd.rs\<close>.

  The messages are those of the \<open>arm_ffa\<close> crate. Every variant the source names is a constructor
  with the fields the source reads; what it only passes on is of the type \<open>'x\<close>. The crate's encoding
  of messages in registers and its other functions are the record \<open>arm_ffa\<close>, a parameter.
\<close>

section \<open>FF-A messages\<close>

datatype Version = Version nat nat

datatype VersionOut = VersionNotSupported | VersionOutVersion Version

datatype VersionQueryType = Negotiate | QueryNegotiated | QueryCompatibility

datatype 'x VersionFlags = VersionFlags (query_type: VersionQueryType) (other_flags: 'x)

datatype WarmBootType = ExitFromSuspend | ExitFromLowPower

datatype FfaError = NotSupported | InvalidParameters | Denied | OtherFfaError nat

datatype ffa_decode_error =
  InvalidVersion | InvalidVersionFlags | InvalidVersionQueryType | OtherDecodeError nat

datatype TargetInfo = TargetInfo (endpoint_id: u16) (vcpu_id: u16)

datatype 'x DirectMsgArgs =
  VersionReq Version "'x VersionFlags"
  | VersionResp "Version option"
  | PowerPsciReq64 "u64 list"
  | PowerPsciResp i32
  | PowerWarmBootReq WarmBootType
  | OtherDirectMsgArgs 'x

datatype SecondaryEpRegisterAddr = Addr32 u32 | Addr64 u64

datatype 'x Interface =
  Error FfaError 'x
  | Success TargetInfo 'x
  | Interrupt TargetInfo u32 bool
  | VersionCall Version "'x VersionFlags"
  | VersionOut VersionOut
  | Features 'x
  | IdGet
  | SpmIdGet
  | MsgWait 'x
  | Yield 'x
  | Run 'x
  | NormalWorldResume 'x
  | SecondaryEpRegister SecondaryEpRegisterAddr
  | MsgSend2 u16 'x
  | MsgSendDirectReq u16 u16 "'x DirectMsgArgs"
  | MsgSendDirectResp u16 u16 "'x DirectMsgArgs"
  | MsgSendDirectReq2 u16 u16 'x
  | MsgSendDirectResp2 u16 u16 'x
  | RxAcquire 'x | RxRelease 'x | RxTxMap 'x | RxTxUnmap 'x
  | PartitionInfoGet 'x | PartitionInfoGetRegs 'x
  | NotificationBitmapCreate 'x | NotificationBitmapDestroy 'x | NotificationBind 'x
  | NotificationUnbind 'x | NotificationSet 'x | NotificationGet 'x | NotificationInfoGet 'x
  | MemDonate 'x | MemLend 'x | MemShare 'x | MemRetrieveReq 'x | MemRetrieveResp 'x | MemReclaim 'x
  | MemOpPause 'x | MemOpResume 'x | MemFragRx 'x | MemFragTx 'x
  | OtherInterface 'x

record 'x arm_ffa =
  from_regs :: "Version \<Rightarrow> u64 list \<Rightarrow> ffa_decode_error + 'x Interface"
  to_regs :: "Version \<Rightarrow> 'x Interface \<Rightarrow> u64 list \<Rightarrow> u64 list"
  is_compatible_to :: "Version \<Rightarrow> Version \<Rightarrow> bool"
  ffa_error_from :: "ffa_decode_error \<Rightarrow> FfaError"
  interface_error :: "FfaError \<Rightarrow> bool \<Rightarrow> 'x Interface"
  success32_noargs :: "'x Interface"
  target_info_default :: TargetInfo
  success_args_id_get :: "u16 \<Rightarrow> 'x"
  success_args_spm_id_get :: "u16 \<Rightarrow> 'x"

section \<open>State\<close>

definition FUNCTION_NUMBER_MIN :: u16 where "FUNCTION_NUMBER_MIN = 0x0060"
definition FUNCTION_NUMBER_MAX :: u16 where "FUNCTION_NUMBER_MAX = 0x00EF"

datatype SpmcState = SpmcOff | SpmcBoot | SpmcRuntime | SpmcSecureInterrupt | SpmcPsciEventHandling

record SpmdLocal =
  spmc_state :: SpmcState

definition SpmdLocal_new :: SpmdLocal where
  "SpmdLocal_new = \<lparr>spmc_state = SpmcOff\<rparr>"

record Spmd =
  spmc_id :: u16
  spmc_version :: Version
  spmc_primary_ep :: u64
  spmc_secondary_ep :: u64
  core_local :: "SpmdLocal list"

definition OWN_ID :: u16 where "OWN_ID = 0xffff"
definition SPMD_VERSION :: Version where "SPMD_VERSION = Version 1 3"
definition NS_EP_ID :: u16 where "NS_EP_ID = 0"

text \<open>The state of the current core is the element of \<open>core_local\<close> at its index \<open>cpu\<close>.\<close>

definition switch_spmc_local_state :: "nat \<Rightarrow> SpmcState \<Rightarrow> SpmcState \<Rightarrow> Spmd \<Rightarrow> Spmd option" where
  "switch_spmc_local_state cpu expected_state new_state s =
     do {
       l \<leftarrow> checked_index (core_local s) cpu;
       assert_that (spmc_state l = expected_state);
       locals \<leftarrow> checked_update (core_local s) cpu (l\<lparr>spmc_state := new_state\<rparr>);
       Some (s\<lparr>core_local := locals\<rparr>)
     }"

definition Spmd_new :: "'x arm_ffa \<Rightarrow> nat \<Rightarrow> nat \<Rightarrow> Spmd option" where
  "Spmd_new F core_count cpu =
     do {
       let version = Version 1 3;
       assert_that (is_compatible_to F version SPMD_VERSION);
       let spmd = \<lparr>spmc_id = 0x8000, spmc_version = version, spmc_primary_ep = 0x06000000,
         spmc_secondary_ep = 0x06000000, core_local = replicate core_count SpmdLocal_new\<rparr>;
       switch_spmc_local_state cpu SpmcOff SpmcBoot spmd
     }"

definition primary_ep :: "Spmd \<Rightarrow> u64" where
  "primary_ep s = spmc_primary_ep s"

definition secondary_ep :: "Spmd \<Rightarrow> u64" where
  "secondary_ep s = spmc_secondary_ep s"

definition is_secure_id :: "u16 \<Rightarrow> bool" where
  "is_secure_id i \<longleftrightarrow> i AND 0x8000 \<noteq> 0"

section \<open>Calls from the secure world\<close>

text \<open>Each handler returns whether the message is to be written to the registers, and the next world.\<close>

type_synonym 'x secure_reply = "(bool \<times> World \<times> 'x Interface \<times> Spmd) option"

definition handle_secure_call_common :: "'x arm_ffa \<Rightarrow> Spmd \<Rightarrow> 'x Interface \<Rightarrow> 'x secure_reply" where
  "handle_secure_call_common F s msg =
     Some (True, Secure,
       (case msg of
          Features _ \<Rightarrow> success32_noargs F
        | IdGet \<Rightarrow> Success (target_info_default F) (success_args_id_get F (spmc_id s))
        | SpmIdGet \<Rightarrow> Success (target_info_default F) (success_args_spm_id_get F OWN_ID)
        | _ \<Rightarrow> interface_error F NotSupported True), s)"

definition handle_secure_call_boot ::
  "'x arm_ffa \<Rightarrow> nat \<Rightarrow> Spmd \<Rightarrow> 'x Interface \<Rightarrow> 'x secure_reply" where
  "handle_secure_call_boot F cpu s msg =
     (case msg of
        Error _ _ \<Rightarrow> None
      | VersionCall _ flags \<Rightarrow>
          Some (True, Secure,
            (case query_type flags of
               QueryCompatibility \<Rightarrow> VersionOut (VersionOutVersion SPMD_VERSION)
             | _ \<Rightarrow> VersionOut (VersionOutVersion (spmc_version s))), s)
      | MsgWait _ \<Rightarrow> do {
          s' \<leftarrow> switch_spmc_local_state cpu SpmcBoot SpmcRuntime s;
          Some (False, NonSecure, msg, s') }
      | SecondaryEpRegister entrypoint \<Rightarrow>
          (let ep = (case entrypoint of Addr32 addr \<Rightarrow> ucast addr | Addr64 addr \<Rightarrow> addr)
           in Some (True, Secure, success32_noargs F, s\<lparr>spmc_secondary_ep := ep\<rparr>))
      | Features _ \<Rightarrow> handle_secure_call_common F s msg
      | IdGet \<Rightarrow> handle_secure_call_common F s msg
      | SpmIdGet \<Rightarrow> handle_secure_call_common F s msg
      | PartitionInfoGetRegs _ \<Rightarrow> handle_secure_call_common F s msg
      | _ \<Rightarrow> Some (True, Secure, interface_error F Denied True, s))"

definition handle_secure_call_runtime :: "'x arm_ffa \<Rightarrow> Spmd \<Rightarrow> 'x Interface \<Rightarrow> 'x secure_reply" where
  "handle_secure_call_runtime F s msg =
     (let forward = Some (True, NonSecure, msg, s) in
      case msg of
        NormalWorldResume _ \<Rightarrow> Some (True, Secure, interface_error F Denied True, s)
      | MsgSendDirectResp src_id dst_id args \<Rightarrow>
          (if \<not> is_secure_id src_id \<or> is_secure_id dst_id \<and> dst_id \<noteq> OWN_ID
           then Some (True, Secure, interface_error F InvalidParameters True, s)
           else if dst_id = OWN_ID
           then (case args of
                   VersionResp version \<Rightarrow>
                     if src_id = spmc_id s
                     then Some (True, NonSecure,
                       VersionOut (case version of None \<Rightarrow> VersionNotSupported
                                                 | Some v \<Rightarrow> VersionOutVersion v), s)
                     else Some (True, Secure, interface_error F InvalidParameters True, s)
                 | _ \<Rightarrow> Some (True, Secure, interface_error F InvalidParameters True, s))
           else forward)
      | MsgSendDirectResp2 src_id dst_id _ \<Rightarrow>
          (if \<not> is_secure_id src_id \<or> is_secure_id dst_id
           then Some (True, Secure, interface_error F InvalidParameters True, s)
           else forward)
      | Features _ \<Rightarrow> handle_secure_call_common F s msg
      | IdGet \<Rightarrow> handle_secure_call_common F s msg
      | SpmIdGet \<Rightarrow> handle_secure_call_common F s msg
      | PartitionInfoGetRegs _ \<Rightarrow> handle_secure_call_common F s msg
      | Error _ _ \<Rightarrow> forward
      | Success _ _ \<Rightarrow> forward
      | Interrupt _ _ _ \<Rightarrow> forward
      | MsgWait _ \<Rightarrow> forward
      | Yield _ \<Rightarrow> forward
      | MemRetrieveResp _ \<Rightarrow> forward
      | MemOpPause _ \<Rightarrow> forward
      | MemFragRx _ \<Rightarrow> forward
      | MemFragTx _ \<Rightarrow> forward
      | _ \<Rightarrow> Some (True, Secure, interface_error F NotSupported True, s))"

definition handle_secure_call_interrupt ::
  "'x arm_ffa \<Rightarrow> nat \<Rightarrow> Spmd \<Rightarrow> 'x Interface \<Rightarrow> 'x secure_reply" where
  "handle_secure_call_interrupt F cpu s msg =
     (case msg of
        NormalWorldResume _ \<Rightarrow> do {
          s' \<leftarrow> switch_spmc_local_state cpu SpmcSecureInterrupt SpmcRuntime s;
          Some (False, NonSecure, msg, s') }
      | _ \<Rightarrow> Some (True, Secure, interface_error F Denied True, s))"

text \<open>The answer of the SPMC to a power management message.\<close>

fun psci_response :: "Spmd \<Rightarrow> 'x Interface \<Rightarrow> i32 option" where
  "psci_response s (MsgSendDirectResp src_id dst_id (PowerPsciResp psci_status)) =
     (if dst_id = OWN_ID \<and> src_id = spmc_id s then Some psci_status else None)"
| "psci_response s _ = None"

definition handle_secure_call_psci_event ::
  "'x arm_ffa \<Rightarrow> nat \<Rightarrow> Spmd \<Rightarrow> 'x Interface \<Rightarrow> 'x secure_reply" where
  "handle_secure_call_psci_event F cpu s msg =
     (case psci_response s msg of
        Some _ \<Rightarrow> do {
          s' \<leftarrow> switch_spmc_local_state cpu SpmcPsciEventHandling SpmcRuntime s;
          Some (False, NonSecure, msg, s') }
      | None \<Rightarrow> Some (True, Secure, interface_error F Denied True, s))"

section \<open>Calls from the normal world\<close>

definition handle_non_secure_call :: "'x arm_ffa \<Rightarrow> Spmd \<Rightarrow> 'x Interface \<Rightarrow> World \<times> 'x Interface" where
  "handle_non_secure_call F s msg =
     (let forward = (Secure, msg);
          invalid = (NonSecure, interface_error F InvalidParameters True) in
      case msg of
        VersionCall input_version flags \<Rightarrow>
          (Secure, MsgSendDirectReq OWN_ID (spmc_id s) (VersionReq input_version flags))
      | IdGet \<Rightarrow> (NonSecure, Success (target_info_default F) (success_args_id_get F NS_EP_ID))
      | SpmIdGet \<Rightarrow> (NonSecure, Success (target_info_default F) (success_args_spm_id_get F (spmc_id s)))
      | MsgSendDirectReq src_id dst_id _ \<Rightarrow>
          (if is_secure_id src_id \<or> \<not> is_secure_id dst_id then invalid else forward)
      | MsgSendDirectReq2 src_id dst_id _ \<Rightarrow>
          (if is_secure_id src_id \<or> \<not> is_secure_id dst_id then invalid else forward)
      | MsgSend2 src_id _ \<Rightarrow> (if is_secure_id src_id then invalid else forward)
      | Error _ _ \<Rightarrow> forward
      | Success _ _ \<Rightarrow> forward
      | Features _ \<Rightarrow> forward
      | RxAcquire _ \<Rightarrow> forward
      | RxRelease _ \<Rightarrow> forward
      | RxTxMap _ \<Rightarrow> forward
      | RxTxUnmap _ \<Rightarrow> forward
      | PartitionInfoGet _ \<Rightarrow> forward
      | PartitionInfoGetRegs _ \<Rightarrow> forward
      | Run _ \<Rightarrow> forward
      | NotificationBitmapCreate _ \<Rightarrow> forward
      | NotificationBitmapDestroy _ \<Rightarrow> forward
      | NotificationBind _ \<Rightarrow> forward
      | NotificationUnbind _ \<Rightarrow> forward
      | NotificationSet _ \<Rightarrow> forward
      | NotificationGet _ \<Rightarrow> forward
      | NotificationInfoGet _ \<Rightarrow> forward
      | MemDonate _ \<Rightarrow> forward
      | MemLend _ \<Rightarrow> forward
      | MemShare _ \<Rightarrow> forward
      | MemRetrieveReq _ \<Rightarrow> forward
      | MemReclaim _ \<Rightarrow> forward
      | MemOpResume _ \<Rightarrow> forward
      | MemFragRx _ \<Rightarrow> forward
      | MemFragTx _ \<Rightarrow> forward
      | _ \<Rightarrow> (NonSecure, interface_error F NotSupported True))"

section \<open>The service\<close>

definition spmd_owns :: "SmcFunctionId \<Rightarrow> bool" where
  "spmd_owns f \<longleftrightarrow> owns_range STANDARD_SECURE FUNCTION_NUMBER_MIN FUNCTION_NUMBER_MAX f"

text \<open>The registers with the number of values that \<open>get_smc_regs\<close> marks as used.\<close>

definition get_smc_regs :: "SmcReturn \<Rightarrow> SmcReturn option" where
  "get_smc_regs regs =
     (case call_type (ucast (smc_values regs ! 0)) of
        Fast32 \<Rightarrow> Some (mark_used 8 regs)
      | Fast64 \<Rightarrow> Some (mark_used 18 regs)
      | Yielding \<Rightarrow> None)"

text \<open>\<open>to_regs\<close> on the slice of the used values.\<close>

definition put_message :: "'x arm_ffa \<Rightarrow> Version \<Rightarrow> 'x Interface \<Rightarrow> SmcReturn \<Rightarrow> SmcReturn" where
  "put_message F version msg regs =
     regs\<lparr>smc_values := to_regs F version msg (reg_values regs) @ drop (smc_used regs) (smc_values regs)\<rparr>"

definition spmd_handle_non_secure_smc ::
  "'x arm_ffa \<Rightarrow> nat \<Rightarrow> Spmd \<Rightarrow> SmcReturn \<Rightarrow> (SmcReturn \<times> World) option" where
  "spmd_handle_non_secure_smc F cpu s regs =
     do {
       let version = spmc_version s;
       smc_regs \<leftarrow> get_smc_regs regs;
       (case from_regs F version (reg_values smc_regs) of
          Inr msg \<Rightarrow> do {
            l \<leftarrow> checked_index (core_local s) cpu;
            assert_that (spmc_state l = SpmcRuntime);
            let (next_world, msg') = handle_non_secure_call F s msg;
            Some (put_message F version msg' smc_regs, next_world) }
        | Inl e \<Rightarrow>
            (let response =
               (case e of
                  OtherDecodeError _ \<Rightarrow> interface_error F (ffa_error_from F e) True
                | _ \<Rightarrow> VersionOut VersionNotSupported)
             in Some (put_message F version response smc_regs, NonSecure)))
     }"

definition spmd_handle_secure_smc ::
  "'x arm_ffa \<Rightarrow> nat \<Rightarrow> Spmd \<Rightarrow> SmcReturn \<Rightarrow> (SmcReturn \<times> World \<times> Spmd) option" where
  "spmd_handle_secure_smc F cpu s regs =
     do {
       let version = spmc_version s;
       smc_regs \<leftarrow> get_smc_regs regs;
       (case from_regs F version (reg_values smc_regs) of
          Inr msg \<Rightarrow> do {
            l \<leftarrow> checked_index (core_local s) cpu;
            (has_msg, next_world, msg', s') \<leftarrow>
              (case spmc_state l of
                 SpmcOff \<Rightarrow> None
               | SpmcBoot \<Rightarrow> handle_secure_call_boot F cpu s msg
               | SpmcRuntime \<Rightarrow> handle_secure_call_runtime F s msg
               | SpmcSecureInterrupt \<Rightarrow> handle_secure_call_interrupt F cpu s msg
               | SpmcPsciEventHandling \<Rightarrow> handle_secure_call_psci_event F cpu s msg);
            Some (if has_msg then put_message F version msg' smc_regs else mark_empty smc_regs,
                  next_world, s') }
        | Inl e \<Rightarrow>
            Some (put_message F version (interface_error F (ffa_error_from F e) True) smc_regs, Secure, s))
     }"

definition forward_secure_interrupt ::
  "'x arm_ffa \<Rightarrow> nat \<Rightarrow> Spmd \<Rightarrow> SmcReturn \<Rightarrow> (SmcReturn \<times> World \<times> Spmd) option" where
  "forward_secure_interrupt F cpu s regs =
     do {
       let msg = Interrupt (TargetInfo 0 0) 0 True;
       s' \<leftarrow> switch_spmc_local_state cpu SpmcRuntime SpmcSecureInterrupt s;
       Some (put_message F (spmc_version s) msg (mark_all_used regs), Secure, s')
     }"

section \<open>Power management\<close>

definition spmd_handle_wake_from_cpu_off :: "nat \<Rightarrow> Spmd \<Rightarrow> Spmd option" where
  "spmd_handle_wake_from_cpu_off cpu s = switch_spmc_local_state cpu SpmcOff SpmcBoot s"

definition spmd_handle_wake_from_cpu_suspend ::
  "'x arm_ffa \<Rightarrow> nat \<Rightarrow> Spmd \<Rightarrow> (SmcReturn \<times> Spmd) option" where
  "spmd_handle_wake_from_cpu_suspend F cpu s =
     do {
       let msg = MsgSendDirectReq OWN_ID (spmc_id s) (PowerWarmBootReq ExitFromLowPower);
       s' \<leftarrow> switch_spmc_local_state cpu SpmcRuntime SpmcPsciEventHandling s;
       Some (put_message F (spmc_version s) msg (mark_all_used SmcReturn_EMPTY), s')
     }"

text \<open>One entry to the secure world whose answer has to be a power management response.\<close>

definition await_psci_response ::
  "'x arm_ffa \<Rightarrow> (World \<Rightarrow> core \<Rightarrow> world_exit) \<Rightarrow> Spmd \<Rightarrow> SmcReturn \<Rightarrow> core \<Rightarrow> (i32 \<times> core) option" where
  "await_psci_response F run s regs c =
     do {
       (regs', result, c') \<leftarrow> enter_world run regs Secure c;
       (case result of
          SmcResult \<Rightarrow>
            (case from_regs F (spmc_version s) (reg_values regs') of
               Inr msg \<Rightarrow> do { psci_status \<leftarrow> psci_response s msg; Some (psci_status, c') }
             | Inl _ \<Rightarrow> None)
        | InterruptResult \<Rightarrow> None
        | SysregTrap _ \<Rightarrow> None)
     }"

text \<open>
  The request is \<open>function.copy_to_array\<close>; \<open>try_from\<close> is the crate's conversion of the status to a
  return code and \<open>failure\<close> the code for a status it does not know.
\<close>

definition forward_psci_request ::
  "'x arm_ffa \<Rightarrow> arch \<Rightarrow> runtime_platform \<Rightarrow> (World \<Rightarrow> core \<Rightarrow> world_exit) \<Rightarrow> (i32 \<Rightarrow> 'rc option) \<Rightarrow> 'rc \<Rightarrow>
     Spmd \<Rightarrow> u64 list \<Rightarrow> core \<Rightarrow> ('rc \<times> core) option" where
  "forward_psci_request F a P run try_from failure s psci_request c =
     do {
       let msg = MsgSendDirectReq OWN_ID (spmc_id s) (PowerPsciReq64 psci_request);
       let regs = put_message F (spmc_version s) msg (mark_all_used SmcReturn_EMPTY);
       c1 \<leftarrow> switch_world a P NonSecure Secure c;
       (ret, c2) \<leftarrow> await_psci_response F run s regs c1;
       c3 \<leftarrow> switch_world a P Secure NonSecure c2;
       Some (case try_from ret of Some code \<Rightarrow> code | None \<Rightarrow> failure, c3)
     }"

definition notify_cpu_off :: "nat \<Rightarrow> Spmd \<Rightarrow> Spmd option" where
  "notify_cpu_off cpu s = switch_spmc_local_state cpu SpmcRuntime SpmcOff s"

definition notify_cpu_suspend_powerdown_abandoned ::
  "'x arm_ffa \<Rightarrow> arch \<Rightarrow> runtime_platform \<Rightarrow> (World \<Rightarrow> core \<Rightarrow> world_exit) \<Rightarrow> nat \<Rightarrow> Spmd \<Rightarrow> core \<Rightarrow>
     (Spmd \<times> core) option" where
  "notify_cpu_suspend_powerdown_abandoned F a P run cpu s c =
     do {
       (regs, s1) \<leftarrow> spmd_handle_wake_from_cpu_suspend F cpu s;
       c1 \<leftarrow> switch_world a P NonSecure Secure c;
       (ret, c2) \<leftarrow> await_psci_response F run s1 regs c1;
       s2 \<leftarrow> switch_spmc_local_state cpu SpmcPsciEventHandling SpmcRuntime s1;
       c3 \<leftarrow> switch_world a P Secure NonSecure c2;
       Some (s2, c3)
     }"

end
