(* ===== verification/Power_Spmd.thy ===== *)
theory Power_Spmd
  imports Spmd Psci_System
begin

text \<open>
  The PSCI service and the SPMD together. PSCI tells the SPMD about power events through
  \<open>PsciSpmInterface\<close>; the events of its trace are these calls. Every core runs a world, waits or is
  off, and the SPMD keeps for each core the state of the SPMC there. The transition system combines
  the PSCI calls and boots of \<^verbatim>\<open>src/src/services/psci.rs\<close>, the SPMD's handlers, the interrupts it
  forwards and \<open>warmboot\<close> of \<^verbatim>\<open>src/src/services.rs\<close>.
\<close>

section \<open>PSCI events at the SPMD\<close>

text \<open>What the code takes from crates and platform when it talks to the SPMC.\<close>

record 'x spm_env =
  spm_ffa :: "'x arm_ffa"
  spm_arch :: arch
  spm_plat :: runtime_platform
  copy_to_array :: "Function \<Rightarrow> u64 list"

fun spm_event ::
  "'x spm_env \<Rightarrow> (World \<Rightarrow> core \<Rightarrow> world_exit) \<Rightarrow> nat \<Rightarrow> 'ps event \<Rightarrow> Spmd \<times> core \<Rightarrow> (Spmd \<times> core) option" where
  "spm_event E run cpu (ForwardPsciRequest f) (s, c) =
     map_option (\<lambda>(r, c'). (s, c'))
       (forward_psci_request (spm_ffa E) (spm_arch E) (spm_plat E) run Some 0 s (copy_to_array E f) c)"
| "spm_event E run cpu NotifyCpuOff (s, c) = map_option (\<lambda>s'. (s', c)) (notify_cpu_off cpu s)"
| "spm_event E run cpu NotifySuspendAbandoned (s, c) =
     notify_cpu_suspend_powerdown_abandoned (spm_ffa E) (spm_arch E) (spm_plat E) run cpu s c"
| "spm_event E run cpu _ (s, c) = Some (s, c)"

fun spm_events ::
  "'x spm_env \<Rightarrow> (World \<Rightarrow> core \<Rightarrow> world_exit) \<Rightarrow> nat \<Rightarrow> 'ps event list \<Rightarrow> Spmd \<times> core \<Rightarrow> (Spmd \<times> core) option" where
  "spm_events E run cpu [] st = Some st"
| "spm_events E run cpu (e # es) st = do { st' \<leftarrow> spm_event E run cpu e st; spm_events E run cpu es st' }"

text \<open>The events that a step of the service appends to its trace.\<close>

definition new_events :: "'ps Psci \<Rightarrow> 'ps Psci \<Rightarrow> 'ps event list" where
  "new_events s s' = drop (length (trace s)) (trace s')"

text \<open>The part of \<open>warmboot\<close> that concerns the SPMD, by the reason of the wake-up.\<close>

fun warmboot_spmd :: "'x arm_ffa \<Rightarrow> nat \<Rightarrow> WakeUpReason \<Rightarrow> Spmd \<Rightarrow> Spmd option" where
  "warmboot_spmd F cpu (WakeCpuOn _) s = spmd_handle_wake_from_cpu_off cpu s"
| "warmboot_spmd F cpu (WakeSuspendFinished _) s =
     map_option snd (spmd_handle_wake_from_cpu_suspend F cpu s)"

section \<open>The combined system\<close>

record 'ps machine =
  m_sys :: "'ps system"
  m_spmd :: Spmd
  m_world :: "nat \<Rightarrow> World"
  m_core :: "nat \<Rightarrow> core"

inductive m_step ::
  "'x spm_env \<Rightarrow> arm_psci \<Rightarrow> 'ps::linorder psci_cfg \<Rightarrow> 'ps psci_platform \<Rightarrow> 'ps machine \<Rightarrow> 'ps machine \<Rightarrow> bool"
  for E psci cfg plat where
  psci_call: "c < CPU_DOMAIN_COUNT cfg \<Longrightarrow> core_phase (m_sys M) c = Running \<Longrightarrow> m_world M c = NonSecure \<Longrightarrow>
    env_ok plat env \<Longrightarrow>
    handle_function psci cfg plat env (suspend_mode (sys_psci (m_sys M))) (sys_psci (m_sys M)) c f = Some (oc, s') \<Longrightarrow>
    spm_events E run c (new_events (sys_psci (m_sys M)) s') (m_spmd M, m_core M c) = Some (spmd', core') \<Longrightarrow>
    m_step E psci cfg plat M (M\<lparr>m_sys := \<lparr>sys_psci = s', core_phase = (core_phase (m_sys M))(c := next_phase oc)\<rparr>,
      m_spmd := spmd', m_core := (m_core M)(c := core')\<rparr>)"
| standby: "c < CPU_DOMAIN_COUNT cfg \<Longrightarrow> core_phase (m_sys M) c = WaitStandby \<Longrightarrow>
    cpu_standby_resume cfg (sys_psci (m_sys M)) c = Some s' \<Longrightarrow>
    m_step E psci cfg plat M (M\<lparr>m_sys := \<lparr>sys_psci = s', core_phase = (core_phase (m_sys M))(c := Running)\<rparr>\<rparr>)"
| resume: "c < CPU_DOMAIN_COUNT cfg \<Longrightarrow> core_phase (m_sys M) c = WaitSuspended cs pd \<Longrightarrow>
    cpu_suspend_resume cfg (sys_psci (m_sys M)) c cs pd = Some s' \<Longrightarrow>
    spm_events E run c (new_events (sys_psci (m_sys M)) s') (m_spmd M, m_core M c) = Some (spmd', core') \<Longrightarrow>
    m_step E psci cfg plat M (M\<lparr>m_sys := \<lparr>sys_psci = s', core_phase = (core_phase (m_sys M))(c := Running)\<rparr>,
      m_spmd := spmd', m_core := (m_core M)(c := core')\<rparr>)"
| warmboot: "c < CPU_DOMAIN_COUNT cfg \<Longrightarrow>
    core_phase (m_sys M) c = WaitSuspended cs True \<or>
    core_phase (m_sys M) c = IsOff \<and>
      affinity_info (cpu_power_nodes (power_domain_tree (sys_psci (m_sys M))) ! c) = OnPending \<Longrightarrow>
    handle_cpu_boot cfg (sys_psci (m_sys M)) c = Some (r, s') \<Longrightarrow>
    warmboot_spmd (spm_ffa E) c r (m_spmd M) = Some spmd' \<Longrightarrow>
    m_step E psci cfg plat M (M\<lparr>m_sys := \<lparr>sys_psci = s', core_phase = (core_phase (m_sys M))(c := Running)\<rparr>,
      m_spmd := spmd', m_world := (m_world M)(c := Secure), m_core := (m_core M)(c := core')\<rparr>)"
| smc_non_secure: "c < CPU_DOMAIN_COUNT cfg \<Longrightarrow> core_phase (m_sys M) c = Running \<Longrightarrow> m_world M c = NonSecure \<Longrightarrow>
    spmd_handle_non_secure_smc (spm_ffa E) c (m_spmd M) regs = Some (regs', w') \<Longrightarrow>
    m_step E psci cfg plat M (M\<lparr>m_world := (m_world M)(c := w'), m_core := (m_core M)(c := core')\<rparr>)"
| smc_secure: "c < CPU_DOMAIN_COUNT cfg \<Longrightarrow> core_phase (m_sys M) c = Running \<Longrightarrow> m_world M c = Secure \<Longrightarrow>
    spmd_handle_secure_smc (spm_ffa E) c (m_spmd M) regs = Some (regs', w', spmd') \<Longrightarrow>
    m_step E psci cfg plat M
      (M\<lparr>m_spmd := spmd', m_world := (m_world M)(c := w'), m_core := (m_core M)(c := core')\<rparr>)"
| secure_interrupt: "c < CPU_DOMAIN_COUNT cfg \<Longrightarrow> core_phase (m_sys M) c = Running \<Longrightarrow> m_world M c = NonSecure \<Longrightarrow>
    forward_secure_interrupt (spm_ffa E) c (m_spmd M) regs = Some (regs', w', spmd') \<Longrightarrow>
    m_step E psci cfg plat M
      (M\<lparr>m_spmd := spmd', m_world := (m_world M)(c := w'), m_core := (m_core M)(c := core')\<rparr>)"
| realm: "c < CPU_DOMAIN_COUNT cfg \<Longrightarrow> core_phase (m_sys M) c = Running \<Longrightarrow> m_world M c \<noteq> Secure \<Longrightarrow>
    w' \<noteq> Secure \<Longrightarrow>
    m_step E psci cfg plat M (M\<lparr>m_world := (m_world M)(c := w'), m_core := (m_core M)(c := core')\<rparr>)"

text \<open>
  The boot core constructs the services and enters the secure world; the other cores are off. The
  contexts of the cores may be anything.
\<close>

definition m_init ::
  "'x spm_env \<Rightarrow> 'ps psci_cfg \<Rightarrow> 'ps psci_platform \<Rightarrow> nat \<Rightarrow> (nat \<Rightarrow> core) \<Rightarrow> 'ps machine option" where
  "m_init E cfg plat c cores =
     do {
       S \<leftarrow> sys_init cfg plat c;
       spmd \<leftarrow> Spmd_new (spm_ffa E) (CPU_DOMAIN_COUNT cfg) c;
       Some \<lparr>m_sys = S, m_spmd = spmd, m_world = (\<lambda>_. NonSecure)(c := Secure), m_core = cores\<rparr>
     }"

inductive m_reachable ::
  "'x spm_env \<Rightarrow> arm_psci \<Rightarrow> 'ps::linorder psci_cfg \<Rightarrow> 'ps psci_platform \<Rightarrow> 'ps machine \<Rightarrow> bool"
  for E psci cfg plat where
  m_start: "m_init E cfg plat c cores = Some M \<Longrightarrow> m_reachable E psci cfg plat M"
| m_next: "m_reachable E psci cfg plat M \<Longrightarrow> m_step E psci cfg plat M M' \<Longrightarrow> m_reachable E psci cfg plat M'"

section \<open>The events of PSCI calls\<close>

fun is_notification :: "'ps event \<Rightarrow> bool" where
  "is_notification NotifyCpuOff = True"
| "is_notification NotifySuspendAbandoned = True"
| "is_notification _ = False"

text \<open>A call notifies the SPMD exactly when it turns its core off.\<close>

definition call_notifies :: "'ps Psci \<Rightarrow> (('ps, 'r) outcome \<times> 'ps Psci) option \<Rightarrow> bool" where
  "call_notifies s result \<longleftrightarrow>
     (\<forall>oc s'. result = Some (oc, s') \<longrightarrow>
        (\<exists>evs. trace s' = trace s @ evs \<and>
           filter is_notification evs = (if oc = PoweredOff then [NotifyCpuOff] else [])))"

lemma call_notifiesI:
  "(\<And>oc s'. result = Some (oc, s') \<Longrightarrow>
     \<exists>evs. trace s' = trace s @ evs \<and>
       filter is_notification evs = (if oc = PoweredOff then [NotifyCpuOff] else [])) \<Longrightarrow> call_notifies s result"
  by (simp add: call_notifies_def)

lemma outcome_success_off [simp]: "outcome_success oc = PoweredOff \<longleftrightarrow> oc = PoweredOff"
  by (cases oc) (simp_all add: outcome_success_def)

lemma call_notifies_map: "call_notifies s r \<Longrightarrow> call_notifies s (map_option (apfst outcome_success) r)"
  by (auto simp: call_notifies_def)

lemma call_notifies_returned: "trace s' = trace s \<Longrightarrow> call_notifies s (Some (Returned r, s'))"
  by (simp add: call_notifies_def)

lemma with_ancestors_locked_result:
  assumes "with_ancestors_locked_to_max_level cfg t cpu m f = Some (r, cpu', t')"
  shows "\<exists>anc anc'. f cpu anc = Some (r, cpu', anc')"
  using assms by (auto simp: with_ancestors_locked_to_max_level_def bind_eq_Some_conv)

lemma suspend_closure_events:
  assumes "cpu_suspend_closure cfg plat env mode2 c ps entry hal cs pd cpu anc =
    Some (Inr (pending, cs', evs), cpu', anc')"
  shows "filter is_notification evs = []"
proof (cases "has_pending_interrupts env")
  case True
  then show ?thesis using assms by (simp add: cpu_suspend_closure_def)
next
  case False
  show ?thesis
    using assms unfolding cpu_suspend_closure_def if_not_P [OF False] bind_eq_Some_conv
    apply (elim exE conjE)
    subgoal premises coordinated for y
      using coordinated(2)
      by (auto simp: suspend_power_down_events_def bind_eq_Some_conv Let_def
          split: if_splits sum.splits option.splits)
    done
qed

lemma suspend_start_notifies:
  "call_notifies s (cpu_suspend_start cfg plat env mode2 s c ps entry hal cs pd)"
proof (rule call_notifiesI)
  fix oc s'
  assume "cpu_suspend_start cfg plat env mode2 s c ps entry hal cs pd = Some (oc, s')"
  then obtain cpu r cpu' t' m where f:
      "with_ancestors_locked_to_max_level cfg (power_domain_tree s) cpu m
        (cpu_suspend_closure cfg plat env mode2 c ps entry hal cs pd) = Some (r, cpu', t')"
      and oc: "(oc, s') = (let s' = s\<lparr>power_domain_tree := unlock_cpu_node t' c cpu'\<rparr> in
        case r of Inl e \<Rightarrow> (Returned (Inl e), s')
        | Inr (pending, cs', evs) \<Rightarrow>
            if pending then (Returned (Inr ()), s')
            else if pd then (InSuspend cs' True, emit (evs @ [SaveExtensionContext, PowerDomainPowerDown cs', DsbSy]) s')
            else (InSuspend cs' False, emit evs s'))"
    by (auto simp: cpu_suspend_start_def bind_eq_Some_conv Let_def)
  have "filter is_notification evs = []" if "r = Inr (pending, cs', evs)" for pending cs' evs
    using with_ancestors_locked_result [OF f] suspend_closure_events that by blast
  then show "\<exists>evs. trace s' = trace s @ evs \<and>
      filter is_notification evs = (if oc = PoweredOff then [NotifyCpuOff] else [])"
    using oc by (auto simp: Let_def emit_def split: sum.splits prod.splits if_splits)
qed

lemma set_cpu_local_state_trace: "set_cpu_local_state s c st = Some s' \<Longrightarrow> trace s' = trace s"
  by (auto simp: set_cpu_local_state_def bind_eq_Some_conv)

lemma cpu_suspend_notifies: "call_notifies s (cpu_suspend cfg plat env mode2 s c ps entry)"
proof -
  have bind: "call_notifies s (do { assert_that b; x \<leftarrow> y; g x })" if "\<And>x. call_notifies s (g x)" for b y g
    using that unfolding call_notifies_def by (cases b; cases y) (simp_all add: assert_that_def)
  have standby: "call_notifies s (do { st \<leftarrow> x; s' \<leftarrow> set_cpu_local_state s c st;
      Some (InStandby, emit [CpuStandby st] s') })" for x
    by (auto simp: call_notifies_def bind_eq_Some_conv emit_def dest: set_cpu_local_state_trace)
  show ?thesis
    unfolding cpu_suspend_def Let_def
    by (auto split: option.split intro!: bind standby suspend_start_notifies call_notifies_returned)
qed

lemma cpu_off_notifies: "call_notifies s (cpu_off cfg env s c)"
proof (rule call_notifiesI)
  fix oc s'
  assume off: "cpu_off cfg env s c = Some (oc, s')"
  show "\<exists>evs. trace s' = trace s @ evs \<and>
      filter is_notification evs = (if oc = PoweredOff then [NotifyCpuOff] else [])"
  proof (cases "power_domain_off_early env (composite_OFF cfg)")
    case (Inl e)
    then show ?thesis using off by (auto simp: cpu_off_def bind_eq_Some_conv)
  next
    case (Inr u)
    then obtain cs' evs cpu cpu' t' where f: "with_ancestors_locked cfg (power_domain_tree s) cpu
        (\<lambda>cpu ancestors. do {
           let cpu1 = cpu_set_local_state cpu (PS_OFF cfg);
           (cs', ancestors') \<leftarrow> coordinate_state cfg (composite_OFF cfg) c ancestors;
           level \<leftarrow> find_highest_power_down_level cfg cs';
           Some ((cs', [ForwardPsciRequest CpuOff, NotifyCpuOff, CpuPowerDown level,
                        PowerDomainOff cs']), cpu1, ancestors') }) = Some ((cs', evs), cpu', t')"
        and s': "oc = PoweredOff" "trace s' = trace s @ evs @ [PowerDomainPowerDown cs', DsbSy]"
      using off by (auto simp: cpu_off_def bind_eq_Some_conv Let_def emit_def)
    have "filter is_notification evs = [NotifyCpuOff]"
      using with_ancestors_locked_result [OF f [unfolded with_ancestors_locked_def]]
      by (auto simp: bind_eq_Some_conv Let_def)
    then show ?thesis using s' by auto
  qed
qed

text \<open>Calls that always return, and never notify.\<close>

definition quiet_call :: "'ps Psci \<Rightarrow> ('r \<times> 'ps Psci) option \<Rightarrow> bool" where
  "quiet_call s result \<longleftrightarrow>
     (\<forall>r s'. result = Some (r, s') \<longrightarrow>
        (\<exists>evs. trace s' = trace s @ evs \<and> filter is_notification evs = []))"

lemma quiet_call_notifies:
  "quiet_call s r \<Longrightarrow> call_notifies s (map_option (returned \<circ> apfst g) r)"
  "quiet_call s q \<Longrightarrow> call_notifies s (map_option returned q)"
  by (auto simp: quiet_call_def call_notifies_def returned_def)

lemma quiet_bind: "(\<And>x. quiet_call s (g x)) \<Longrightarrow> quiet_call s (do { x \<leftarrow> y; g x })"
  by (cases y) (simp_all add: quiet_call_def)

lemma quiet_Some:
  "quiet_call s (Some (r, s')) \<longleftrightarrow> (\<exists>evs. trace s' = trace s @ evs \<and> filter is_notification evs = [])"
  by (auto simp: quiet_call_def)

lemma quiet_calls:
  "quiet_call s (cpu_on cfg plat env s target entry)"
  "quiet_call s (system_off2 plat env s off_type cookie)"
  "quiet_call s (system_reset2 plat env s reset_type cookie)"
  "quiet_call s (mem_protect plat env s enabled)"
  "quiet_call s (set_suspend_mode plat s c mode)"
  unfolding cpu_on_def system_off2_def system_reset2_def mem_protect_def set_suspend_mode_def Let_def
  by (auto intro!: quiet_bind split: option.split AffinityInfo.split sum.split simp: quiet_Some emit_def)

lemma system_suspend_notifies: "call_notifies s (system_suspend cfg plat env mode2 s c entry)"
proof -
  have bind: "call_notifies s (do { x \<leftarrow> y; g x })" if "\<And>x. call_notifies s (g x)"
    for y :: "'q option" and g
    using that by (cases y) (simp_all add: call_notifies_def)
  show ?thesis
    unfolding system_suspend_def
    by (auto intro!: bind suspend_start_notifies call_notifies_returned)
qed

lemma handle_function_notifies:
  "call_notifies s (handle_function psci cfg plat env mode2 s c f)"
proof (cases f)
  case CpuFreeze
  then show ?thesis
    by (auto simp: call_notifies_def cpu_freeze_def emit_def bind_eq_Some_conv outcome_success_def)
next
  case (CpuDefaultSuspend entry)
  have "call_notifies s (cpu_default_suspend cfg plat env mode2 s c entry)"
    using cpu_suspend_notifies [of s cfg plat env mode2 c]
    by (cases "cpu_default_suspend_power_state plat")
      (simp_all add: cpu_default_suspend_def call_notifies_def)
  then show ?thesis by (simp add: CpuDefaultSuspend call_notifies_map)
qed (auto intro!: call_notifies_map cpu_suspend_notifies cpu_off_notifies system_suspend_notifies
    quiet_call_notifies quiet_calls call_notifies_returned,
   auto simp: call_notifies_def system_off_def system_reset_def emit_def outcome_success_def)

lemma resume_events:
  assumes "cpu_suspend_resume cfg s c cs pd = Some s'"
  shows "\<exists>evs. trace s' = trace s @ evs \<and>
    filter is_notification evs = (if pd then [NotifySuspendAbandoned] else [])"
proof -
  obtain evs cpu cpu' t' where f: "with_ancestors_locked cfg (power_domain_tree s) cpu
      (\<lambda>cpu ancestors. do {
         cs' \<leftarrow> set_local_states_from_nodes cs cpu ancestors;
         let (evs, cpu1) =
           (if pd then ([PowerDomainSuspendFinish cs', NotifySuspendAbandoned], snd (pop_entry_point cpu))
            else ([PowerDomainSuspendFinish cs'], cpu));
         let cpu2 = cpu_set_local_state cpu1 (PS_RUN cfg);
         ancestors' \<leftarrow> set_running cfg ancestors c;
         Some (evs, cpu2, ancestors') }) = Some (evs, cpu', t')"
      and s': "trace s' = trace s @ (if pd then [PowerDownAbandon] else []) @ evs"
    using assms by (auto simp: cpu_suspend_resume_def bind_eq_Some_conv emit_def)
  have "filter is_notification evs = (if pd then [NotifySuspendAbandoned] else [])"
    using with_ancestors_locked_result [OF f [unfolded with_ancestors_locked_def]]
    by (auto simp: bind_eq_Some_conv Let_def split: if_splits)
  then show ?thesis using s' by auto
qed

lemma boot_reason:
  assumes "handle_cpu_boot cfg s c = Some (r, s')"
  shows "affinity_info (cpu_power_nodes (power_domain_tree s) ! c) = OnPending \<Longrightarrow> \<exists>e. r = WakeCpuOn e"
    "affinity_info (cpu_power_nodes (power_domain_tree s) ! c) = On \<Longrightarrow> \<exists>e. r = WakeSuspendFinished e"
proof -
  let ?info = "affinity_info (cpu_power_nodes (power_domain_tree s) ! c)"
  obtain cpu cpu' t' wake evs where f: "with_ancestors_locked cfg (power_domain_tree s) cpu
      (\<lambda>cpu ancestors. do {
         cs \<leftarrow> set_local_states_from_nodes (composite_RUN cfg) cpu ancestors;
         (wake, evs, cpu1) \<leftarrow>
           (if ?info = OnPending then Some (False, [PowerDomainOnFinish cs], set_affinity_info cpu On)
            else do {
              assert_that (?info = On);
              s0 \<leftarrow> cpu_level_state cs;
              assert_that (power_state_type cfg s0 = PowerDownType);
              Some (True, [PowerDomainSuspendFinish cs], cpu) });
         let cpu2 = cpu_set_local_state cpu1 (PS_RUN cfg);
         ancestors' \<leftarrow> set_running cfg ancestors c;
         Some ((wake, evs), cpu2, ancestors') }) = Some ((wake, evs), cpu', t')"
      and r: "\<exists>e. r = (if wake then WakeSuspendFinished e else WakeCpuOn e)"
    using assms
    by (auto simp: handle_cpu_boot_def locked_cpu_node_def checked_index_def bind_eq_Some_conv Let_def
        pop_entry_point_def split: if_splits)
  have "wake \<longleftrightarrow> ?info \<noteq> OnPending"
    using with_ancestors_locked_result [OF f [unfolded with_ancestors_locked_def]]
    by (auto simp: bind_eq_Some_conv Let_def split: if_splits)
  with r show "?info = OnPending \<Longrightarrow> \<exists>e. r = WakeCpuOn e"
    "?info = On \<Longrightarrow> \<exists>e. r = WakeSuspendFinished e" by auto
qed

end
