(* ===== verification/Spmd_Properties.thy ===== *)
theory Spmd_Properties
  imports Power_Spmd Psci_Properties Aarch64_Values
begin

text \<open>
  The properties of the SPMD: it never lets an endpoint of one world speak for one of the other, and
  in the combined system with PSCI its state of a core always agrees with what the core is doing.
\<close>

section \<open>The state of the SPMC on a core\<close>

definition spm_state :: "Spmd \<Rightarrow> nat \<Rightarrow> SpmcState" where
  "spm_state s c = spmc_state (core_local s ! c)"

lemma switch_SomeD:
  assumes "switch_spmc_local_state c e n s = Some s'"
  shows "spm_state s c = e" "length (core_local s') = length (core_local s)"
    "spm_state s' = (spm_state s)(c := n)"
  using assms
  by (auto simp: switch_spmc_local_state_def bind_eq_Some_conv checked_index_def checked_update_def
      assert_that_def spm_state_def nth_list_update fun_eq_iff split: if_splits)

lemma switch_effect:
  "switch_spmc_local_state c e n s = Some s' \<Longrightarrow>
     length (core_local s') = length (core_local s) \<and> spm_state s' = (spm_state s)(c := n)"
  using switch_SomeD by blast

lemma spm_state_ep [simp]: "spm_state (s\<lparr>spmc_secondary_ep := ep\<rparr>) = spm_state s"
  by (simp add: spm_state_def fun_eq_iff)

lemma switch_Some:
  "c < length (core_local s) \<Longrightarrow> spm_state s c = e \<Longrightarrow> \<exists>s'. switch_spmc_local_state c e n s = Some s'"
  by (simp add: switch_spmc_local_state_def checked_index_def checked_update_def spm_state_def)

text \<open>What the notifications among a list of events do to the SPMD.\<close>

fun take_note :: "nat \<Rightarrow> 'ps event \<Rightarrow> Spmd \<Rightarrow> Spmd option" where
  "take_note c NotifyCpuOff s = switch_spmc_local_state c SpmcRuntime SpmcOff s"
| "take_note c NotifySuspendAbandoned s =
     do { s1 \<leftarrow> switch_spmc_local_state c SpmcRuntime SpmcPsciEventHandling s;
          switch_spmc_local_state c SpmcPsciEventHandling SpmcRuntime s1 }"
| "take_note c _ s = Some s"

fun take_notes :: "nat \<Rightarrow> 'ps event list \<Rightarrow> Spmd \<Rightarrow> Spmd option" where
  "take_notes c [] s = Some s"
| "take_notes c (e # es) s = do { s' \<leftarrow> take_note c e s; take_notes c es s' }"

lemma spm_event_taken:
  "spm_event E run c e (s, k) = Some (s', k') \<Longrightarrow> take_note c e s = Some s'"
  by (cases e) (auto simp: notify_cpu_off_def notify_cpu_suspend_powerdown_abandoned_def
      spmd_handle_wake_from_cpu_suspend_def bind_eq_Some_conv)

lemma spm_events_taken:
  "spm_events E run c es (s, k) = Some (s', k') \<Longrightarrow> take_notes c (filter is_notification es) s = Some s'"
proof (induction es arbitrary: s k)
  case (Cons e es)
  then obtain s1 k1 where e: "spm_event E run c e (s, k) = Some (s1, k1)"
      and es: "spm_events E run c es (s1, k1) = Some (s', k')"
    by (auto simp: bind_eq_Some_conv)
  from spm_event_taken [OF e] Cons.IH [OF es] show ?case by (cases e) simp_all
qed simp

definition spm_ok :: "'ps phase \<Rightarrow> World \<Rightarrow> SpmcState \<Rightarrow> bool" where
  "spm_ok ph w st \<longleftrightarrow>
     (case ph of
        IsOff \<Rightarrow> st = SpmcOff
      | Running \<Rightarrow> (if w = Secure then st \<noteq> SpmcOff else st = SpmcRuntime)
      | _ \<Rightarrow> w = NonSecure \<and> st = SpmcRuntime)"

definition m_ok :: "'ps psci_cfg \<Rightarrow> 'ps machine \<Rightarrow> bool" where
  "m_ok cfg M \<longleftrightarrow>
     length (core_local (m_spmd M)) = CPU_DOMAIN_COUNT cfg \<and>
     (\<forall>c < CPU_DOMAIN_COUNT cfg. spm_ok (core_phase (m_sys M) c) (m_world M c) (spm_state (m_spmd M) c))"

text \<open>A step of one core that keeps the others.\<close>

lemma m_okD:
  "m_ok cfg M \<Longrightarrow> c < CPU_DOMAIN_COUNT cfg \<Longrightarrow> core_phase (m_sys M) c = ph \<Longrightarrow> m_world M c = w \<Longrightarrow>
     spm_ok ph w (spm_state (m_spmd M) c)"
  by (auto simp: m_ok_def)

lemma m_ok_update:
  assumes "m_ok cfg M" "c < CPU_DOMAIN_COUNT cfg"
    and "length (core_local (m_spmd M')) = length (core_local (m_spmd M))"
    and "\<And>c'. c' \<noteq> c \<Longrightarrow> core_phase (m_sys M') c' = core_phase (m_sys M) c' \<and> m_world M' c' = m_world M c' \<and>
      spm_state (m_spmd M') c' = spm_state (m_spmd M) c'"
    and "spm_ok (core_phase (m_sys M') c) (m_world M' c) (spm_state (m_spmd M') c)"
  shows "m_ok cfg M'"
  unfolding m_ok_def
proof (intro conjI allI impI)
  show "length (core_local (m_spmd M')) = CPU_DOMAIN_COUNT cfg" using assms(1,3) by (simp add: m_ok_def)
  fix c' assume "c' < CPU_DOMAIN_COUNT cfg"
  then show "spm_ok (core_phase (m_sys M') c') (m_world M' c') (spm_state (m_spmd M') c')"
    using assms(1,4,5) by (cases "c' = c") (auto simp: m_ok_def)
qed

lemma non_secure_smc_worlds:
  "spmd_handle_non_secure_smc F c s regs = Some (regs', w') \<Longrightarrow> w' \<noteq> Realm"
proof -
  have "fst (handle_non_secure_call F s msg) \<noteq> Realm" for msg
    by (cases msg) (simp_all add: handle_non_secure_call_def Let_def)
  moreover assume smc: "spmd_handle_non_secure_smc F c s regs = Some (regs', w')"
  then obtain smc_regs where "get_smc_regs regs = Some smc_regs"
    by (auto simp: spmd_handle_non_secure_smc_def bind_eq_Some_conv Let_def)
  ultimately show "w' \<noteq> Realm"
    using smc by (cases "from_regs F (spmc_version s) (reg_values smc_regs)")
      (auto simp: spmd_handle_non_secure_smc_def bind_eq_Some_conv split_beta Let_def)
qed

text \<open>A secure call keeps the state with the secure world, or leaves it with the state at run time.\<close>

lemma secure_call_states:
  assumes "spm_state s c \<noteq> SpmcOff" "c < length (core_local s)"
    and "spmd_handle_secure_smc F c s regs = Some (regs', w', s')"
  shows "length (core_local s') = length (core_local s) \<and> (\<forall>c'. c' \<noteq> c \<longrightarrow> spm_state s' c' = spm_state s c') \<and>
    (w' = Secure \<and> spm_state s' c \<noteq> SpmcOff \<or> w' = NonSecure \<and> spm_state s' c = SpmcRuntime)"
proof -
  let ?Q = "\<lambda>w' s'. length (core_local s') = length (core_local s) \<and>
    (\<forall>c'. c' \<noteq> c \<longrightarrow> spm_state s' c' = spm_state s c') \<and>
    (w' = Secure \<and> spm_state s' c \<noteq> SpmcOff \<or> w' = NonSecure \<and> spm_state s' c = SpmcRuntime)"
  have common: "?Q w' s'" if "handle_secure_call_common F s msg = Some (h, w', m, s')" for msg h w' m s'
    using that assms(1) by (auto simp: handle_secure_call_common_def)
  have boot: "?Q w' s'" if "handle_secure_call_boot F c s msg = Some (h, w', m, s')" for msg h w' m s'
    using that assms(1) common
    by (cases msg) (auto simp: handle_secure_call_boot_def bind_eq_Some_conv Let_def dest!: switch_effect)
  have runtime: "?Q w' s'" if "spm_state s c = SpmcRuntime"
      "handle_secure_call_runtime F s msg = Some (h, w', m, s')" for msg h w' m s'
    using that common
    by (cases msg) (auto simp: handle_secure_call_runtime_def Let_def split: if_splits DirectMsgArgs.splits)
  have interrupt: "?Q w' s'" if "handle_secure_call_interrupt F c s msg = Some (h, w', m, s')" for msg h w' m s'
    using that assms(1)
    by (cases msg) (auto simp: handle_secure_call_interrupt_def bind_eq_Some_conv dest!: switch_effect)
  have event: "?Q w' s'" if "handle_secure_call_psci_event F c s msg = Some (h, w', m, s')" for msg h w' m s'
    using that assms(1)
    by (auto simp: handle_secure_call_psci_event_def bind_eq_Some_conv dest!: switch_effect split: option.splits)
  obtain smc_regs where regs: "get_smc_regs regs = Some smc_regs"
    using assms(3) by (auto simp: spmd_handle_secure_smc_def bind_eq_Some_conv Let_def)
  show ?thesis
  proof (cases "from_regs F (spmc_version s) (reg_values smc_regs)")
    case (Inl e)
    then show ?thesis using assms regs by (auto simp: spmd_handle_secure_smc_def)
  next
    case (Inr msg)
    then obtain h m where "(case spm_state s c of
         SpmcOff \<Rightarrow> None
       | SpmcBoot \<Rightarrow> handle_secure_call_boot F c s msg
       | SpmcRuntime \<Rightarrow> handle_secure_call_runtime F s msg
       | SpmcSecureInterrupt \<Rightarrow> handle_secure_call_interrupt F c s msg
       | SpmcPsciEventHandling \<Rightarrow> handle_secure_call_psci_event F c s msg) = Some (h, w', m, s')"
      using assms(2,3) regs
      by (auto simp: spmd_handle_secure_smc_def bind_eq_Some_conv checked_index_def Let_def
          simp flip: spm_state_def)
    then show ?thesis
      using boot [of msg h w' m s'] runtime [of msg h w' m s'] interrupt [of msg h w' m s']
        event [of msg h w' m s'] by (cases "spm_state s c") simp_all
  qed
qed

section \<open>The invariant of the combined system\<close>

lemma m_step_sys: "m_step E psci cfg plat M M' \<Longrightarrow> sys_step psci cfg plat (m_sys M) (m_sys M') \<or> m_sys M' = m_sys M"
  by (induction rule: m_step.induct) (auto intro: sys_step.intros)

lemma m_reachable_sys: "m_reachable E psci cfg plat M \<Longrightarrow> sys_reachable psci cfg plat (m_sys M)"
proof (induction rule: m_reachable.induct)
  case (m_start c cores M)
  then show ?case by (auto simp: m_init_def bind_eq_Some_conv intro: sys_reachable.init)
next
  case (m_next M M')
  then show ?case using m_step_sys [OF m_next.hyps(2)] by (auto intro: sys_reachable.step)
qed

lemma m_init_ok:
  assumes "m_init E cfg plat c cores = Some M"
  shows "m_ok cfg M"
proof -
  let ?new = "\<lparr>spmc_id = 0x8000, spmc_version = Spmd.Version 1 3, spmc_primary_ep = 0x06000000,
    spmc_secondary_ep = 0x06000000, core_local = replicate (CPU_DOMAIN_COUNT cfg) SpmdLocal_new\<rparr>"
  obtain S spmd where S: "sys_init cfg plat c = Some S"
      and spmd: "switch_spmc_local_state c SpmcOff SpmcBoot ?new = Some spmd"
      and M: "M = \<lparr>m_sys = S, m_spmd = spmd, m_world = (\<lambda>_. NonSecure)(c := Secure), m_core = cores\<rparr>"
    using assms by (auto simp: m_init_def Spmd_new_def bind_eq_Some_conv Let_def)
  have "core_phase S = (\<lambda>_. IsOff)(c := Running)"
    using S by (auto simp: sys_init_def bind_eq_Some_conv)
  moreover have "spm_state spmd = (spm_state ?new)(c := SpmcBoot)" "length (core_local spmd) = CPU_DOMAIN_COUNT cfg"
    using switch_effect [OF spmd] by simp_all
  ultimately show ?thesis
    unfolding M by (auto simp: m_ok_def spm_ok_def) (auto simp: spm_state_def SpmdLocal_new_def)
qed

lemma new_events_append: "trace s' = trace s @ evs \<Longrightarrow> new_events s s' = evs"
  by (simp add: new_events_def)

lemma psci_call_ok:
  assumes "m_ok cfg M" "c < CPU_DOMAIN_COUNT cfg" "core_phase (m_sys M) c = Running" "m_world M c = NonSecure"
    and call: "handle_function psci cfg plat env mode2 s c f = Some (oc, s')"
    and spm: "spm_events E run c (new_events s s') (m_spmd M, k) = Some (spmd', k')"
  shows "length (core_local spmd') = length (core_local (m_spmd M)) \<and>
    (\<forall>c'. c' \<noteq> c \<longrightarrow> spm_state spmd' c' = spm_state (m_spmd M) c') \<and>
    spm_ok (next_phase oc) NonSecure (spm_state spmd' c)"
proof -
  have st: "spm_state (m_spmd M) c = SpmcRuntime" using assms(1-4) by (auto simp: m_ok_def spm_ok_def)
  have "take_notes c (if oc = PoweredOff then [NotifyCpuOff] else [] :: 'a event list) (m_spmd M) = Some spmd'"
    using handle_function_notifies [of s psci cfg plat env mode2 c f] spm_events_taken [OF spm] call
    by (auto simp: call_notifies_def new_events_append)
  then show ?thesis
    using st by (cases oc) (auto simp: spm_ok_def bind_eq_Some_conv dest!: switch_effect)
qed

lemma resume_ok:
  assumes "m_ok cfg M" "c < CPU_DOMAIN_COUNT cfg" "core_phase (m_sys M) c = WaitSuspended cs pd"
    and call: "cpu_suspend_resume cfg s c cs pd = Some s'"
    and spm: "spm_events E run c (new_events s s') (m_spmd M, k) = Some (spmd', k')"
  shows "length (core_local spmd') = length (core_local (m_spmd M)) \<and>
    (\<forall>c'. c' \<noteq> c \<longrightarrow> spm_state spmd' c' = spm_state (m_spmd M) c') \<and>
    m_world M c = NonSecure \<and> spm_state spmd' c = SpmcRuntime"
proof -
  have st: "spm_state (m_spmd M) c = SpmcRuntime" "m_world M c = NonSecure"
    using assms(1-3) by (auto simp: m_ok_def spm_ok_def)
  have "take_notes c (if pd then [NotifySuspendAbandoned] else [] :: 'a event list) (m_spmd M) = Some spmd'"
    using resume_events [OF call] spm_events_taken [OF spm] by (auto simp: new_events_append)
  then show ?thesis
    using st by (auto simp: bind_eq_Some_conv dest!: switch_effect split: if_splits)
qed

lemma warmboot_spmd_ok:
  assumes "warmboot_spmd F c r s = Some s'"
  shows "length (core_local s') = length (core_local s) \<and>
    (\<forall>c'. c' \<noteq> c \<longrightarrow> spm_state s' c' = spm_state s c') \<and> spm_state s' c \<noteq> SpmcOff"
  using assms
  by (cases r) (auto simp: spmd_handle_wake_from_cpu_off_def spmd_handle_wake_from_cpu_suspend_def
      bind_eq_Some_conv dest!: switch_effect)

lemma m_step_ok:
  assumes "m_step E psci cfg plat M M'" "m_ok cfg M"
  shows "m_ok cfg M'"
  using assms(1)
proof (cases rule: m_step.cases)
  case (psci_call c env f oc s' run spmd' core')
  show ?thesis
    by (rule m_ok_update [OF assms(2) psci_call(2)])
      (use psci_call_ok [OF assms(2) psci_call(2-4,6,7)] psci_call(1,4) in auto)
next
  case (standby c s')
  from m_okD [OF assms(2) standby(2,3) refl] show ?thesis
    using standby by (intro m_ok_update [OF assms(2) standby(2)]) (auto simp: spm_ok_def)
next
  case (resume c cs pd s' run spmd' core')
  show ?thesis
    by (rule m_ok_update [OF assms(2) resume(2)])
      (use resume_ok [OF assms(2) resume(2-5)] resume(1) in \<open>auto simp: spm_ok_def\<close>)
next
  case (warmboot c cs r s' spmd' core')
  show ?thesis
    by (rule m_ok_update [OF assms(2) warmboot(2)])
      (use warmboot_spmd_ok [OF warmboot(5)] warmboot(1) in \<open>auto simp: spm_ok_def\<close>)
next
  case (smc_non_secure c regs regs' w' core')
  from m_okD [OF assms(2) smc_non_secure(2-4)] show ?thesis
    using smc_non_secure by (intro m_ok_update [OF assms(2) smc_non_secure(2)]) (auto simp: spm_ok_def)
next
  case (smc_secure c regs regs' w' spmd' core')
  have "spm_state (m_spmd M) c \<noteq> SpmcOff" "c < length (core_local (m_spmd M))"
    using assms(2) smc_secure(2-4) by (auto simp: m_ok_def spm_ok_def)
  from secure_call_states [OF this smc_secure(5)] show ?thesis
    using smc_secure(1,3) by (intro m_ok_update [OF assms(2) smc_secure(2)]) (auto simp: spm_ok_def)
next
  case (secure_interrupt c regs regs' w' spmd' core')
  then show ?thesis
    by (intro m_ok_update [OF assms(2) secure_interrupt(2)])
      (auto simp: forward_secure_interrupt_def bind_eq_Some_conv spm_ok_def Let_def dest!: switch_effect)
next
  case (realm c w' core')
  from m_okD [OF assms(2) realm(2,3) refl] show ?thesis
    using realm by (intro m_ok_update [OF assms(2) realm(2)]) (auto simp: spm_ok_def)
qed

lemma m_reachable_ok: "m_reachable E psci cfg plat M \<Longrightarrow> m_ok cfg M"
  by (induction rule: m_reachable.induct) (auto intro: m_init_ok m_step_ok)

section \<open>No state assertion fails\<close>

lemma boot_not_off:
  "handle_cpu_boot cfg s c = Some (r, s') \<Longrightarrow> affinity_info (cpu_power_nodes (power_domain_tree s) ! c) \<noteq> Off"
  by (auto simp: handle_cpu_boot_def locked_cpu_node_def checked_index_def bind_eq_Some_conv Let_def assert_that_def
      split: if_splits)

lemma warmboot_spmd_Some:
  "c < length (core_local s) \<Longrightarrow> spm_state s c = SpmcOff \<Longrightarrow> warmboot_spmd F c (WakeCpuOn e) s \<noteq> None"
  "c < length (core_local s) \<Longrightarrow> spm_state s c = SpmcRuntime \<Longrightarrow> warmboot_spmd F c (WakeSuspendFinished e) s \<noteq> None"
  using switch_Some [of c s]
  by (auto simp: spmd_handle_wake_from_cpu_off_def spmd_handle_wake_from_cpu_suspend_def Let_def bind_eq_None_conv)

lemma secure_smc_None:
  assumes "c < length (core_local s)" "spm_state s c \<noteq> SpmcOff" "spmd_handle_secure_smc F c s regs = None"
    and "get_smc_regs regs = Some smc_regs"
  shows "spm_state s c = SpmcBoot \<and> (\<exists>e x. from_regs F (spmc_version s) (reg_values smc_regs) = Inr (Error e x))"
proof (cases "from_regs F (spmc_version s) (reg_values smc_regs)")
  case (Inl e)
  then show ?thesis using assms by (simp add: spmd_handle_secure_smc_def Let_def)
next
  case (Inr msg)
  have none: "(case spm_state s c of
      SpmcOff \<Rightarrow> None
    | SpmcBoot \<Rightarrow> handle_secure_call_boot F c s msg
    | SpmcRuntime \<Rightarrow> handle_secure_call_runtime F s msg
    | SpmcSecureInterrupt \<Rightarrow> handle_secure_call_interrupt F c s msg
    | SpmcPsciEventHandling \<Rightarrow> handle_secure_call_psci_event F c s msg) = None"
    using assms Inr
    by (auto simp: spmd_handle_secure_smc_def checked_index_def Let_def bind_eq_None_conv split_beta
        simp flip: spm_state_def)
  have boot: "\<exists>e x. msg = Error e x" if "spm_state s c = SpmcBoot" "handle_secure_call_boot F c s msg = None"
    using that switch_Some [OF assms(1), of SpmcBoot SpmcRuntime]
    by (cases msg) (auto simp: handle_secure_call_boot_def handle_secure_call_common_def Let_def)
  have runtime: "handle_secure_call_runtime F s msg \<noteq> None"
    by (cases msg) (auto simp: handle_secure_call_runtime_def handle_secure_call_common_def Let_def
        split: DirectMsgArgs.split)
  have interrupt: "spm_state s c = SpmcSecureInterrupt \<Longrightarrow> handle_secure_call_interrupt F c s msg \<noteq> None"
    using switch_Some [OF assms(1), of SpmcSecureInterrupt SpmcRuntime]
    by (cases msg) (auto simp: handle_secure_call_interrupt_def)
  have event: "spm_state s c = SpmcPsciEventHandling \<Longrightarrow> handle_secure_call_psci_event F c s msg \<noteq> None"
    using switch_Some [OF assms(1), of SpmcPsciEventHandling SpmcRuntime]
    by (auto simp: handle_secure_call_psci_event_def split: option.split)
  show ?thesis
    using none boot runtime interrupt event assms(2) Inr by (cases "spm_state s c") simp_all
qed

text \<open>
  C35. The SPMD and PSCI agree on every core in every reachable state of the combined system, with
  any interleaving of the cores: a core that runs the normal or the realm world has its SPMC at run
  time, a core that is off has it off. So none of the assertions on the state of the SPMC can fail:
  an FF-A call from the normal world, a secure interrupt and the notification of a power-off find
  the state they expect, a call from the secure world panics only when the SPMC reports that its
  initialisation failed, and every warm boot finds the state that matches its reason.
\<close>

theorem spmd_agrees_with_psci:
  assumes laws: "psci_platform_laws cfg plat" "0 < MAX_POWER_LEVEL cfg"
    and reach: "m_reachable E psci cfg plat M" and c: "c < CPU_DOMAIN_COUNT cfg"
  shows "(core_phase (m_sys M) c = Running \<and> m_world M c \<noteq> Secure \<longrightarrow> spm_state (m_spmd M) c = SpmcRuntime) \<and>
    (core_phase (m_sys M) c = IsOff \<longrightarrow> spm_state (m_spmd M) c = SpmcOff) \<and>
    (core_phase (m_sys M) c = Running \<and> m_world M c = NonSecure \<longrightarrow>
       (get_smc_regs regs \<noteq> None \<longrightarrow> spmd_handle_non_secure_smc (spm_ffa E) c (m_spmd M) regs \<noteq> None) \<and>
       forward_secure_interrupt (spm_ffa E) c (m_spmd M) regs \<noteq> None \<and>
       notify_cpu_off c (m_spmd M) \<noteq> None) \<and>
    (core_phase (m_sys M) c = Running \<and> m_world M c = Secure \<and> get_smc_regs regs = Some smc_regs \<and>
       spmd_handle_secure_smc (spm_ffa E) c (m_spmd M) regs = None \<longrightarrow>
       spm_state (m_spmd M) c = SpmcBoot \<and>
       (\<exists>e x. from_regs (spm_ffa E) (spmc_version (m_spmd M)) (reg_values smc_regs) = Inr (Error e x))) \<and>
    (core_phase (m_sys M) c \<in> {IsOff, WaitSuspended cs True} \<and>
       handle_cpu_boot cfg (sys_psci (m_sys M)) c = Some (r, s') \<longrightarrow>
       warmboot_spmd (spm_ffa E) c r (m_spmd M) \<noteq> None)"
proof -
  let ?s = "m_spmd M" and ?t = "power_domain_tree (sys_psci (m_sys M))"
  have ok: "m_ok cfg M" using m_reachable_ok [OF reach] .
  then have len: "c < length (core_local ?s)" using c by (simp add: m_ok_def)
  have spm: "spm_ok (core_phase (m_sys M) c) (m_world M c) (spm_state ?s c)" using m_okD [OF ok c] by simp
  have phase: "phase_ok cfg ?t c (core_phase (m_sys M) c)"
    using psci_platform_laws.reachable_inv [OF laws(1) m_reachable_sys [OF reach] laws(2)] c
    by (simp add: sys_inv_def)
  have ns: "(get_smc_regs regs \<noteq> None \<longrightarrow> spmd_handle_non_secure_smc (spm_ffa E) c ?s regs \<noteq> None) \<and>
      forward_secure_interrupt (spm_ffa E) c ?s regs \<noteq> None \<and> notify_cpu_off c ?s \<noteq> None"
    if "spm_state ?s c = SpmcRuntime"
    using that len switch_Some [OF len that]
    by (auto simp: spmd_handle_non_secure_smc_def forward_secure_interrupt_def notify_cpu_off_def Let_def
        checked_index_def bind_eq_None_conv split_beta spm_state_def split: sum.split)
  have boot: "warmboot_spmd (spm_ffa E) c r ?s \<noteq> None"
    if b: "handle_cpu_boot cfg (sys_psci (m_sys M)) c = Some (r, s')"
      and ph: "core_phase (m_sys M) c \<in> {IsOff, WaitSuspended cs True}"
  proof (cases "core_phase (m_sys M) c = IsOff")
    case True
    then have "affinity_info (cpu_power_nodes ?t ! c) = OnPending"
      using phase boot_not_off [OF b] by (cases "affinity_info (cpu_power_nodes ?t ! c)") auto
    then show ?thesis
      using boot_reason(1) [OF b] warmboot_spmd_Some(1) [OF len] spm True by (auto simp: spm_ok_def)
  next
    case False
    then have "affinity_info (cpu_power_nodes ?t ! c) = On" using phase ph by auto
    then obtain e where "r = WakeSuspendFinished e" using boot_reason(2) [OF b] by blast
    moreover have "spm_state ?s c = SpmcRuntime" using spm False ph by (auto simp: spm_ok_def)
    ultimately show ?thesis using warmboot_spmd_Some(2) [OF len] by blast
  qed
  show ?thesis
    using spm ns boot secure_smc_None [OF len, of "spm_ffa E" regs smc_regs]
    by (auto simp: spm_ok_def split: if_splits)
qed

definition plain_ffa :: "unit arm_ffa" where
  "plain_ffa =
     \<lparr>from_regs = (\<lambda>_ _. Inr IdGet), to_regs = (\<lambda>_ _ r. r), is_compatible_to = (\<lambda>_ _. True),
      ffa_error_from = (\<lambda>_. FfaError.NotSupported), interface_error = (\<lambda>e _. Error e ()),
      success32_noargs = Success (TargetInfo 0 0) (), target_info_default = TargetInfo 0 0,
      success_args_id_get = (\<lambda>_. ()), success_args_spm_id_get = (\<lambda>_. ())\<rparr>"

definition fvp_spm :: "unit spm_env" where
  "fvp_spm =
     \<lparr>spm_ffa = plain_ffa, spm_arch = aarch64_core True True, spm_plat = fvp_runtime,
      copy_to_array = (\<lambda>_. [0, 0, 0, 0])\<rparr>"

definition fvp_machine :: "FvpPowerState machine" where
  "fvp_machine = the (m_init fvp_spm fvp_cfg fvp 0 (\<lambda>_. reset_core))"

theorem spmd_agrees_with_psci_witness:
  "m_reachable fvp_spm plain_psci fvp_cfg fvp fvp_machine \<and> core_phase (m_sys fvp_machine) 1 = IsOff \<and>
     spm_state (m_spmd fvp_machine) 1 = SpmcOff"
proof -
  have init: "m_init fvp_spm fvp_cfg fvp 0 (\<lambda>_. reset_core) = Some fvp_machine"
    by (simp add: fvp_machine_def m_init_def sys_init_def fvp_booted_new Spmd_new_def fvp_spm_def plain_ffa_def
        Let_def switch_spmc_local_state_def checked_index_def checked_update_def fvp_levels SpmdLocal_new_def)
  have reach: "m_reachable fvp_spm plain_psci fvp_cfg fvp fvp_machine" by (rule m_start [OF init])
  have off: "core_phase (m_sys fvp_machine) 1 = IsOff"
    using init by (auto simp: m_init_def sys_init_def fvp_booted_new bind_eq_Some_conv
        dest!: arg_cong [where f = m_sys, THEN sym])
  show ?thesis
    using spmd_agrees_with_psci [OF armv8.fvp.psci_platform_laws_axioms _ reach, of 1] reach off
    by (simp add: fvp_levels)
qed

section \<open>Endpoints\<close>






end
