(* ===== verification/Cpu_Laws.thy ===== *)
theory Cpu_Laws
  imports Cpu_Ops
begin

text \<open>
  Laws of the errata framework and of the CPU operations: the packed comparison of revision and
  variant is the order of \<open>RevisionVariant\<close>, the two lookups of the CPU operations agree, and the cache
  flush of the FVP core reaches every set and way.
\<close>

section \<open>Fields of words\<close>

text \<open>The layout of \<^verbatim>\<open>MIDR_EL1\<close> in the Arm architecture.\<close>

definition midr_arch :: midr_fields where
  "midr_arch = \<lparr>IMPLEMENTER_MASK = 0xff, IMPLEMENTER_SHIFT = 24, PARTNUM_MASK = 0xfff, PARTNUM_SHIFT = 4,
     VARIANT_SHIFT = 20, VARIANT_LEN = 4, REVISION_LEN = 4\<rparr>"

lemma unat_u8_less: "unat (x :: u8) < 256"
  using unsigned_less [of x] by simp

lemma bit_unat_less: "unat b < 2 ^ n \<Longrightarrow> bit b m \<Longrightarrow> m < n" for b :: "'a::len word"
proof -
  assume *: "unat b < 2 ^ n" "bit b m"
  then have "bit (unat b) m" by (simp add: bit_unsigned_iff)
  then show "m < n"
    using * by (metis bit_take_bit_iff take_bit_nat_eq_self)
qed

lemma unat_push_or:
  fixes a b :: "'a::len word"
  assumes b: "unat b < 2 ^ n" and fit: "unat a * 2 ^ n + unat b < 2 ^ LENGTH('a)"
  shows "unat (push_bit n a OR b) = unat a * 2 ^ n + unat b"
proof -
  have "push_bit n a AND b = 0"
    by (rule bit_word_eqI) (auto simp: bit_simps dest: bit_unat_less [OF b])
  then have or: "push_bit n a OR b = push_bit n a + b" by (simp add: disjunctive_add_eq_or)
  have "unat (push_bit n a) = unat a * 2 ^ n"
    using fit by (simp only: unsigned_push_bit_eq push_bit_nat_def) (simp add: take_bit_nat_eq_self push_bit_eq_mult)
  with fit show ?thesis unfolding or by (simp add: unat_plus_if')
qed

lemma pack_rev_var_value:
  assumes "variant rv < 16"
  shows "unat (pack_rev_var midr_arch rv) = unat (revision rv) * 2 ^ 4 + unat (variant rv)"
proof -
  have "unat (variant rv) < 16" using assms by (simp add: word_less_nat_alt)
  then show ?thesis
    using unat_push_or [of "ucast (variant rv) :: u32" 4 "ucast (revision rv)"]
      unat_u8_less [of "revision rv"]
    by (simp add: pack_rev_var_def midr_arch_def unsigned_ucast_eq take_bit_nat_eq_self)
qed

lemma midr_rev_var_value:
  "unat (midr_rev_var midr_arch x) = unat x mod 16 * 2 ^ 4 + unat x div 2 ^ 20 mod 16"
proof -
  let ?v = "take_bit 4 (drop_bit 20 x)" and ?r = "take_bit 4 x"
  have v: "unat ?v = unat x div 2 ^ 20 mod 16" and r: "unat ?r = unat x mod 16"
    by (simp_all add: take_bit_eq_mod drop_bit_eq_div unat_div unat_mod)
  have "?v AND NOT (push_bit 4 (mask 4)) = ?v"
    by (rule bit_word_eqI) (auto simp: bit_simps)
  then have "midr_rev_var midr_arch x = push_bit 4 ?r OR ?v"
    by (simp add: midr_rev_var_def midr_arch_def Let_def or.commute)
  moreover have "unat (push_bit 4 ?r OR ?v) = unat ?r * 2 ^ 4 + unat ?v"
    by (rule unat_push_or) (simp_all add: v r)
  ultimately show ?thesis by (simp add: v r)
qed


lemma sint_small: "unat x < 2 ^ 63 \<Longrightarrow> sint x = int (unat x)" for x :: u64
proof -
  assume "unat x < 2 ^ 63"
  then have "int (unat x) < int (2 ^ 63)" by (simp only: of_nat_less_iff)
  then have "uint x < 2 ^ 63" by simp
  then have "signed_take_bit 63 (uint x) = uint x" 
    by (intro signed_take_bit_int_eq_self) (auto intro: order_trans [OF _ unsigned_greater_eq])
  then show ?thesis by (simp add: sint_uint)
qed

lemma unat_word_mod: "unat (x AND 0xf :: u64) = unat x mod 16"
proof -
  have "x AND 0xf = take_bit 4 x" by (simp add: take_bit_eq_mask mask_numeral)
  then show ?thesis by (simp add: take_bit_eq_mod unat_mod)
qed

lemma rev_var_less_iff:
  assumes "variant a < 16" "variant b < 16"
  shows "a < b \<longleftrightarrow> unat (revision a) * 2 ^ 4 + unat (variant a) < unat (revision b) * 2 ^ 4 + unat (variant b)"
  using assms by (cases "unat (revision a)" "unat (revision b)" rule: linorder_cases)
    (auto simp: less_RevisionVariant_def word_less_nat_alt word_unat_eq_iff)

lemma pack_not_fixed: "unat (pack_rev_var midr_arch NOT_FIXED) = 0xfff"
  by (simp add: pack_rev_var_def midr_arch_def NOT_FIXED_def)

definition core_rev_var :: "u64 \<Rightarrow> RevisionVariant" where
  "core_rev_var x = RevisionVariant (ucast (x AND 0xf)) (ucast (drop_bit 20 x AND 0xf))"

lemma core_rev_var_values:
  "unat (revision (core_rev_var x)) = unat x mod 16" "unat (variant (core_rev_var x)) = unat x div 2 ^ 20 mod 16"
  by (simp_all add: core_rev_var_def unsigned_ucast_eq unat_word_mod take_bit_nat_eq_self drop_bit_eq_div
      unat_div)

lemma core_rev_var_small: "variant (core_rev_var x) < 16"
  by (simp add: word_less_nat_alt core_rev_var_values)

lemma midr_arch_mask: "midr_match_mask midr_arch = MIDR_MASK"
  by (simp add: midr_match_mask_def midr_arch_def MIDR_MASK_def)

lemma pack_core: "unat (midr_rev_var midr_arch x) = unat (pack_rev_var midr_arch (core_rev_var x))"
  by (simp add: midr_rev_var_value pack_rev_var_value core_rev_var_small core_rev_var_values)

lemma pack_less: "variant rv < 16 \<or> rv = NOT_FIXED \<Longrightarrow> unat (pack_rev_var midr_arch rv) < 2 ^ 63"
  using pack_rev_var_value [of rv] unat_u8_less [of "revision rv"] unat_u8_less [of "variant rv"]
  by (auto simp: pack_not_fixed)

lemma erratum_check_is_range:
  assumes "variant from < 16" and "variant fixed < 16 \<or> fixed = NOT_FIXED"
  shows "implement_erratum_check midr_arch midr from fixed x \<longleftrightarrow>
     x AND MIDR_MASK = midr AND MIDR_MASK \<and> from \<le> core_rev_var x \<and> core_rev_var x < fixed"
proof -
  let ?c = "core_rev_var x"
  have c: "sint (midr_rev_var midr_arch x) = int (unat (pack_rev_var midr_arch ?c))"
    using sint_small [of "midr_rev_var midr_arch x"] pack_less [of ?c] core_rev_var_small
    by (simp add: pack_core)
  have s: "sint (pack_rev_var midr_arch rv) = int (unat (pack_rev_var midr_arch rv))"
    if "variant rv < 16 \<or> rv = NOT_FIXED" for rv
    using sint_small pack_less [OF that] by simp
  have "\<not> ?c < from \<longleftrightarrow> from \<le> ?c" by (simp add: not_less)
  moreover have "?c < from \<longleftrightarrow> unat (pack_rev_var midr_arch ?c) < unat (pack_rev_var midr_arch from)"
    using assms(1) core_rev_var_small by (simp add: rev_var_less_iff pack_rev_var_value)
  moreover have "?c < fixed \<longleftrightarrow> unat (pack_rev_var midr_arch ?c) < unat (pack_rev_var midr_arch fixed)"
  proof (cases "fixed = NOT_FIXED")
    case True
    have "revision ?c < 255" by (simp add: word_less_nat_alt core_rev_var_values)
    with True core_rev_var_values [of x] show ?thesis
      by (simp add: pack_not_fixed pack_rev_var_value core_rev_var_small) (simp add: less_RevisionVariant_def NOT_FIXED_def)
  next
    case False
    then show ?thesis using assms(2) core_rev_var_small by (simp add: rev_var_less_iff pack_rev_var_value)
  qed
  ultimately show ?thesis
    unfolding implement_erratum_check_def Let_def c s [OF disjI1 [OF assms(1)]] s [OF assms(2)]
      midr_arch_mask of_nat_less_iff of_nat_le_iff not_le by simp
qed

lemma cpu_lookup_agree:
  "get_cpu_ops (map from_cpu cpus) midr = find_cpu_ops (map from_cpu cpus) midr"
proof -
  have w0: "(let w0 = ucast (MIDR_MASK AND 0xffff) :: u32
     in take_bit 16 w0 OR push_bit 16 (ucast (drop_bit 16 MIDR_MASK AND 0xffff))) = ucast MIDR_MASK"
    by (simp add: MIDR_MASK_def)
  have eq: "ucast (ops_midr (from_cpu c)) = (ucast midr AND ucast MIDR_MASK :: u32) \<longleftrightarrow>
      has_matching_midr (from_cpu c) midr" for c
  proof -
    have "unat MIDR_MASK < 2 ^ 32" by (simp add: MIDR_MASK_def)
    from bit_unat_less [OF this] have "bit MIDR_MASK n \<Longrightarrow> n < 32" for n .
    then have bits: "bit (y AND MIDR_MASK) n \<longleftrightarrow> n < 32 \<and> bit (ucast (y AND MIDR_MASK) :: u32) n" for n and y :: u64
      by (auto simp: bit_simps)
    then have "ucast (y AND MIDR_MASK) = (ucast (z AND MIDR_MASK) :: u32) \<longleftrightarrow>
        y AND MIDR_MASK = z AND MIDR_MASK" for y z :: u64
      by (metis bit_word_eqI)
    then show ?thesis
      by (simp add: has_matching_midr_def from_cpu_def flip: unsigned_and_eq)
  qed
  have "get_cpu_ops_loop (ucast midr AND ucast MIDR_MASK) (map from_cpu cpus) =
      find_cpu_ops (map from_cpu cpus) midr"
    by (induction cpus) (simp_all add: find_cpu_ops_def eq Let_def)
  with w0 show ?thesis by (simp add: get_cpu_ops_def Let_def)
qed


section \<open>Cache maintenance\<close>

lemma leading_zeros_bound:
  assumes "x \<noteq> 0"
  shows "leading_zeros x < 32" "unat x * 2 ^ leading_zeros x < 2 ^ 32"
proof -
  define k where "k = leading_zeros x"
  obtain n where n: "bit x n" "n < 32"
    using assms bit_imp_le_length by (auto simp: bit_eq_iff)
  let ?tw = "takeWhile (\<lambda>n. \<not> bit x n) (rev [0..<32])"
  have "?tw \<noteq> rev [0..<32]" using n by (auto simp: takeWhile_eq_all_conv)
  then have "length ?tw \<noteq> 32"
    using takeWhile_dropWhile_id [of "\<lambda>n. \<not> bit x n" "rev [0..<32]"]
    by (metis append_eq_conv_conj diff_zero length_rev length_upt takeWhile_eq_take take_all_iff order_refl)
  moreover have "length ?tw \<le> 32" using length_takeWhile_le [of _ "rev [0..<32]"] by simp
  ultimately show k32: "leading_zeros x < 32" by (simp add: leading_zeros_def)
  have top: "\<not> bit x m" if "32 - k \<le> m" "m < 32" for m
  proof -
    have "31 - m < k" using that k32 by (simp add: k_def)
    then have i: "31 - m < length ?tw" by (simp add: k_def leading_zeros_def)
    then have "\<not> bit x (?tw ! (31 - m))" using set_takeWhileD [OF nth_mem [OF i]] by blast
    then have "\<not> bit x (rev [0..<32] ! (31 - m))" using takeWhile_nth [OF i] by simp
    moreover have "rev [0..<32] ! (31 - m) = m" using that by (simp add: rev_nth)
    ultimately show ?thesis by simp
  qed
  have "take_bit (32 - k) x = x"
    using top by (auto simp: bit_eq_iff bit_take_bit_iff) (meson not_le)
  then have "unat x < 2 ^ (32 - k)"
    by (metis take_bit_nat_less_exp unsigned_take_bit_eq)
  then have "unat x * 2 ^ k < 2 ^ (32 - k) * 2 ^ k" by simp
  also have "\<dots> = 2 ^ 32" using k32 by (simp add: k_def flip: power_add)
  finally show "unat x * 2 ^ leading_zeros x < 2 ^ 32" by (simp add: k_def)
qed

lemma checked_shl32_value:
  assumes "n < 32" "unat x * 2 ^ n < 2 ^ 32"
  shows "\<exists>y. checked_shl32 x n = Some y \<and> unat y = unat x * 2 ^ n"
proof -
  have "unat (push_bit n x) = unat x * 2 ^ n"
    using unat_push_or [of 0 n x] assms(2) by simp
  then show ?thesis using assms(1) by (simp add: checked_shl32_def)
qed

lemma step_by_multiples: "0 < step \<Longrightarrow> step_by (n * step) step = map (\<lambda>i. i * step) [0..<n + 1]"
  by (simp add: step_by_def)

lemma flush_cache_level_covers:
  fixes I level r
  defines "sz \<equiv> fst (read_cache_size I level r)"
  defines "k \<equiv> leading_zeros (associativity sz)" and "b \<equiv> unat (line_size_log sz) + 4"
  assumes data: "cache_type I level \<noteq> NoCache" "cache_type I level \<noteq> InstructionOnly"
    and assoc: "associativity sz \<noteq> 0" and sets: "b < 32" "unat (num_sets sz) * 2 ^ b < 2 ^ 32"
  shows "\<exists>r'. flush_cache_level I level r = Some r' \<and>
     dc_cisw r' = dc_cisw r @ concat (map (\<lambda>w. map (\<lambda>s.
        push_bit 1 (cache_level_bits I level) OR of_nat (w * 2 ^ k) OR of_nat (s * 2 ^ b))
          [0..<unat (num_sets sz) + 1]) [0..<unat (associativity sz) + 1])"
proof -
  obtain r1 where rd: "read_cache_size I level r = (sz, r1)" "dc_cisw r1 = dc_cisw r"
    by (cases "read_cache_size I level r") (auto simp: sz_def read_cache_size_def Let_def split: prod.splits)
  obtain wa where wa: "checked_shl32 (associativity sz) k = Some wa" "unat wa = unat (associativity sz) * 2 ^ k"
    using checked_shl32_value leading_zeros_bound [OF assoc] by (auto simp: k_def)
  obtain ms where ms: "checked_shl32 (num_sets sz) b = Some ms" "unat ms = unat (num_sets sz) * 2 ^ b"
    using checked_shl32_value [OF sets] by auto
  have "unat (line_size_log sz) + 4 < 2 ^ 32" "b < 64" using sets(1) by (simp_all add: b_def)
  then show ?thesis
    using data rd wa(2) ms(2)
    by (simp add: flush_cache_level_def Let_def wa(1) [unfolded k_def] ms(1) [unfolded b_def]
        step_by_multiples comp_def or.assoc k_def b_def del: upt_Suc)
qed

lemma flush_direct_mapped_panics:
  assumes "cache_type I level \<noteq> NoCache" "cache_type I level \<noteq> InstructionOnly"
    and "associativity (fst (read_cache_size I level r)) = 0"
  shows "flush_cache_level I level r = None"
proof -
  obtain sz r1 where "read_cache_size I level r = (sz, r1)" by fastforce
  moreover have all: "takeWhile (\<lambda>n. True) xs = xs" for xs :: "nat list"
    by (simp add: takeWhile_eq_all_conv)
  have "leading_zeros 0 = 32" by (simp add: leading_zeros_def all)
  ultimately show ?thesis
    using assms by (simp add: flush_cache_level_def Let_def checked_shl32_def)
qed

end
