(* ===== verification/Arch_Service.thy ===== *)
theory Arch_Service
  imports World_Switch
begin

text \<open>
  The services for Arm architecture calls, \<^verbatim>\<open>src/src/services/arch.rs\<close>, and for errata management,
  \<^verbatim>\<open>src/src/services/errata_management.rs\<close>. The workarounds a platform implements are recorded by
  their number when they are called.
\<close>

section \<open>Architecture calls\<close>

definition SMCCC_VERSION :: u32 where "SMCCC_VERSION = 0x80000000"
definition SMCCC_ARCH_FEATURES :: u32 where "SMCCC_ARCH_FEATURES = 0x80000001"
definition SMCCC_ARCH_SOC_ID_32 :: u32 where "SMCCC_ARCH_SOC_ID_32 = 0x80000002"
definition SMCCC_ARCH_SOC_ID_64 :: u32 where "SMCCC_ARCH_SOC_ID_64 = 0xc0000002"
definition SMCCC_ARCH_SOC_ID_VERSION :: u32 where "SMCCC_ARCH_SOC_ID_VERSION = 0"
definition SMCCC_ARCH_SOC_ID_REVISION :: u32 where "SMCCC_ARCH_SOC_ID_REVISION = 1"
definition SMCCC_ARCH_SOC_ID_NAME :: u32 where "SMCCC_ARCH_SOC_ID_NAME = 2"
definition SMCCC_ARCH_WORKAROUND_1 :: u32 where "SMCCC_ARCH_WORKAROUND_1 = 0x80008000"
definition SMCCC_ARCH_WORKAROUND_2 :: u32 where "SMCCC_ARCH_WORKAROUND_2 = 0x80007FFF"
definition SMCCC_ARCH_WORKAROUND_3 :: u32 where "SMCCC_ARCH_WORKAROUND_3 = 0x80003FFF"
definition SMCCC_ARCH_WORKAROUND_4 :: u32 where "SMCCC_ARCH_WORKAROUND_4 = 0x80000004"
definition SMCCC_VERSION_1_5 :: i32 where "SMCCC_VERSION_1_5 = 0x00010005"

lemmas arch_consts =
  SMCCC_VERSION_def SMCCC_ARCH_FEATURES_def SMCCC_ARCH_SOC_ID_32_def SMCCC_ARCH_SOC_ID_64_def
  SMCCC_ARCH_SOC_ID_VERSION_def SMCCC_ARCH_SOC_ID_REVISION_def SMCCC_ARCH_SOC_ID_NAME_def
  SMCCC_ARCH_WORKAROUND_1_def SMCCC_ARCH_WORKAROUND_2_def SMCCC_ARCH_WORKAROUND_3_def
  SMCCC_ARCH_WORKAROUND_4_def SMCCC_VERSION_1_5_def

datatype WorkaroundSupport = Required | SafeButNotRequired

fun workaround_value :: "WorkaroundSupport \<Rightarrow> i32" where
  "workaround_value Required = 0"
| "workaround_value SafeButNotRequired = 1"

record workarounds =
  arch_workaround_1_supported :: WorkaroundSupport
  arch_workaround_2_supported :: WorkaroundSupport
  arch_workaround_3_supported :: WorkaroundSupport
  arch_workaround_4_supported :: WorkaroundSupport

definition arch_owns :: "SmcFunctionId \<Rightarrow> bool" where
  "arch_owns = owns_oen ARM_ARCHITECTURE"

definition arch_version :: i32 where
  "arch_version = SMCCC_VERSION_1_5"

definition arch_features :: "workarounds \<Rightarrow> SmcReturn \<Rightarrow> SmcReturn option" where
  "arch_features W regs =
     do {
       v1 \<leftarrow> checked_index (reg_values regs) 1;
       let arch_func_id = (ucast v1 :: u32);
       let result =
         (if arch_func_id \<in> {SMCCC_VERSION, SMCCC_ARCH_FEATURES, SMCCC_ARCH_SOC_ID_32, SMCCC_ARCH_SOC_ID_64}
          then SUCCESS
          else if arch_func_id = SMCCC_ARCH_WORKAROUND_1 then workaround_value (arch_workaround_1_supported W)
          else if arch_func_id = SMCCC_ARCH_WORKAROUND_2 then workaround_value (arch_workaround_2_supported W)
          else if arch_func_id = SMCCC_ARCH_WORKAROUND_3 then workaround_value (arch_workaround_3_supported W)
          else if arch_func_id = SMCCC_ARCH_WORKAROUND_4 then workaround_value (arch_workaround_4_supported W)
          else NOT_SUPPORTED);
       Some (set_from_i32 result regs)
     }"

text \<open>The calls of the platform's workaround functions, by their number.\<close>

definition arch_workaround_1 :: "workarounds \<Rightarrow> nat list" where
  "arch_workaround_1 W = (if arch_workaround_1_supported W = Required then [1] else [])"

definition arch_workaround_2 :: "workarounds \<Rightarrow> u32 \<Rightarrow> nat list" where
  "arch_workaround_2 W arg = (if arch_workaround_2_supported W = Required then [2] else [])"

definition arch_workaround_3 :: "workarounds \<Rightarrow> nat list" where
  "arch_workaround_3 W = (if arch_workaround_3_supported W = Required then [3] else [])"

definition soc_name_args :: "u64 list" where
  "soc_name_args =
     [0, from_le_bytes [0x6d, 0x49, 0x20, 0x3a, 0x4f, 0x44, 0x4f, 0x54],
      from_le_bytes [0x20, 0x74, 0x6e, 0x65, 0x6d, 0x65, 0x6c, 0x70],
      from_le_bytes [0x6f, 0x72, 0x70, 0x20, 0x73, 0x69, 0x68, 0x74],
      from_le_bytes [0x00, 0x00, 0x2e, 0x79, 0x6c, 0x72, 0x65, 0x70]]"

definition arch_soc_id :: "SmcReturn \<Rightarrow> SmcccCallType \<Rightarrow> SmcReturn option" where
  "arch_soc_id regs ct =
     do {
       v1 \<leftarrow> checked_index (reg_values regs) 1;
       let soc_id_type = (ucast v1 :: u32);
       Some (if soc_id_type = SMCCC_ARCH_SOC_ID_VERSION then set_from_i32 0 regs
             else if soc_id_type = SMCCC_ARCH_SOC_ID_REVISION then set_from_i32 0 regs
             else if soc_id_type = SMCCC_ARCH_SOC_ID_NAME \<and> ct = Fast64 then set_args soc_name_args regs
             else set_from_i32 INVALID_PARAMETER regs)
     }"

text \<open>The handler is the same for every world; the second result lists the workarounds called.\<close>

definition arch_handle_common_smc :: "workarounds \<Rightarrow> SmcReturn \<Rightarrow> (SmcReturn \<times> nat list) option" where
  "arch_handle_common_smc W regs =
     do {
       v0 \<leftarrow> checked_index (reg_values regs) 0;
       let function = clear_sve_hint (ucast v0);
       if function = SMCCC_VERSION then Some (set_from_i32 arch_version regs, [])
       else if function = SMCCC_ARCH_FEATURES then map_option (\<lambda>r. (r, [])) (arch_features W regs)
       else if function = SMCCC_ARCH_SOC_ID_32 \<or> function = SMCCC_ARCH_SOC_ID_64
       then map_option (\<lambda>r. (r, [])) (arch_soc_id regs (call_type function))
       else if function = SMCCC_ARCH_WORKAROUND_1 then Some (mark_empty regs, arch_workaround_1 W)
       else if function = SMCCC_ARCH_WORKAROUND_2
       then do {
         v1 \<leftarrow> checked_index (reg_values regs) 1;
         Some (mark_empty regs, arch_workaround_2 W (ucast v1)) }
       else if function = SMCCC_ARCH_WORKAROUND_3 then Some (mark_empty regs, arch_workaround_3 W)
       else Some (set_from_i32 NOT_SUPPORTED regs, [])
     }"

section \<open>Errata management\<close>

definition EM_FUNCTION_NUMBER_MIN :: u16 where "EM_FUNCTION_NUMBER_MIN = 0x00F0"
definition EM_FUNCTION_NUMBER_MAX :: u16 where "EM_FUNCTION_NUMBER_MAX = 0x010F"
definition EM_VERSION :: u32 where "EM_VERSION = 0x840000F0"
definition EM_FEATURES :: u32 where "EM_FEATURES = 0x840000F1"
definition EM_CPU_ERRATUM_FEATURES :: u32 where "EM_CPU_ERRATUM_FEATURES = 0x840000F2"
definition VERSION_1_0 :: i32 where "VERSION_1_0 = 0x00010000"

lemmas em_consts =
  EM_FUNCTION_NUMBER_MIN_def EM_FUNCTION_NUMBER_MAX_def EM_VERSION_def EM_FEATURES_def
  EM_CPU_ERRATUM_FEATURES_def VERSION_1_0_def

datatype em_status =
  HigherElMitigation | NotAffected | Affected | EmSuccess | EmNotSupported | EmInvalidParameters | UnknownErratum

fun em_status_value :: "em_status \<Rightarrow> i32" where
  "em_status_value HigherElMitigation = 3"
| "em_status_value NotAffected = 2"
| "em_status_value Affected = 1"
| "em_status_value EmSuccess = 0"
| "em_status_value EmNotSupported = -1"
| "em_status_value EmInvalidParameters = -2"
| "em_status_value UnknownErratum = -3"

definition set_from_status :: "em_status \<Rightarrow> SmcReturn \<Rightarrow> SmcReturn" where
  "set_from_status status regs = set_from_i32 (em_status_value status) regs"

definition errata_management_owns :: "SmcFunctionId \<Rightarrow> bool" where
  "errata_management_owns = owns_range STANDARD_SECURE EM_FUNCTION_NUMBER_MIN EM_FUNCTION_NUMBER_MAX"

definition em_version :: i32 where
  "em_version = VERSION_1_0"

definition em_features :: "u32 \<Rightarrow> i32" where
  "em_features em_func_id =
     (if em_func_id \<in> {EM_VERSION, EM_FEATURES, EM_CPU_ERRATUM_FEATURES}
      then em_status_value EmSuccess else em_status_value EmNotSupported)"

fun erratum_status :: "ErratumEntry list \<Rightarrow> u64 \<Rightarrow> cpu_regs \<Rightarrow> u32 \<Rightarrow> em_status" where
  "erratum_status [] midr r eid = UnknownErratum"
| "erratum_status (e # es) midr r eid =
     (if erratum_id e = eid
      then (if erratum_check e midr r then HigherElMitigation else NotAffected)
      else erratum_status es midr r eid)"

text \<open>The disjunction of the reserved arguments stops at the first that is not zero.\<close>

fun any_nonzero :: "u64 list \<Rightarrow> nat list \<Rightarrow> bool option" where
  "any_nonzero regs [] = Some False"
| "any_nonzero regs (i # is) =
     do { v \<leftarrow> checked_index regs i; if v \<noteq> 0 then Some True else any_nonzero regs is }"

definition cpu_erratum_features :: "arch \<Rightarrow> runtime_platform \<Rightarrow> core \<Rightarrow> u64 list \<Rightarrow> em_status option" where
  "cpu_erratum_features a P c regs =
     do {
       r1 \<leftarrow> checked_index regs 1;
       r2 \<leftarrow> checked_index regs 2;
       let cpu_erratum_id = (ucast r1 :: u32);
       let forward_flag = (r2 \<noteq> 0);
       reserved \<leftarrow> any_nonzero regs [3, 4, 5, 6, 7];
       if reserved then Some EmInvalidParameters
       else
         let originator = spsr_exception_level (sysregs a) (spsr_el3 (el3_state (cpu_state c NonSecure))) in
         if forward_flag \<and> originator \<noteq> El2 then Some EmInvalidParameters
         else Some (erratum_status (ERRATA_LIST P) (midr_el1 P) (cpu_regs_of_core P) cpu_erratum_id)
     }"

definition em_handle_non_secure_smc ::
  "arch \<Rightarrow> runtime_platform \<Rightarrow> core \<Rightarrow> SmcReturn \<Rightarrow> SmcReturn option" where
  "em_handle_non_secure_smc a P c regs =
     do {
       let in_regs = reg_values regs;
       v0 \<leftarrow> checked_index in_regs 0;
       let function = clear_sve_hint (ucast v0);
       if function = EM_VERSION then Some (set_from_i32 em_version regs)
       else if function = EM_FEATURES
       then do { v1 \<leftarrow> checked_index in_regs 1; Some (set_from_i32 (em_features (ucast v1)) regs) }
       else if function = EM_CPU_ERRATUM_FEATURES
       then do { status \<leftarrow> cpu_erratum_features a P c in_regs; Some (set_from_status status regs) }
       else Some (set_from_i32 NOT_SUPPORTED regs)
     }"

section \<open>Laws\<close>

text \<open>An erratum is reported as mitigated exactly when it is the first of its number and applies.\<close>

lemma erratum_status_unique:
  assumes "distinct (map erratum_id es)"
  shows "erratum_status es midr r eid = HigherElMitigation \<longleftrightarrow> erratum_applies es midr r eid"
    "erratum_status es midr r eid = UnknownErratum \<longleftrightarrow> eid \<notin> erratum_id ` set es"
  using assms by (induction es) (auto simp: erratum_applies_def)

text \<open>The call that reports whether a workaround may be called reports the fourth, which has no handler.\<close>

lemma workaround_4_reported_not_handled:
  "arch_features W \<lparr>smc_used = 18, smc_values = [0x80000001, 0x80000004] @ replicate 16 0\<rparr> =
     Some (set_from_i32 (workaround_value (arch_workaround_4_supported W))
       \<lparr>smc_used = 18, smc_values = [0x80000001, 0x80000004] @ replicate 16 0\<rparr>) \<and>
   arch_handle_common_smc W \<lparr>smc_used = 18, smc_values = 0x80000004 # replicate 17 0\<rparr> =
     Some (set_from_i32 NOT_SUPPORTED \<lparr>smc_used = 18, smc_values = 0x80000004 # replicate 17 0\<rparr>, [])"
  by (simp add: arch_features_def arch_handle_common_smc_def checked_index_def reg_values_def arch_consts
      clear_sve_hint_def SVE_HINT_def Let_def)

end
