(* ===== verification/Gicv3.thy ===== *)
theory Gicv3
  imports Smccc
begin

text \<open>
  The interrupt controller, \<^verbatim>\<open>src/src/gicv3.rs\<close>. The drivers of the distributor, the redistributors and
  the CPU interface are the \<open>arm_gic\<close> crate's: what the code asks of them is a list of operations in
  program order, and whether a fallible operation succeeds, which the code unwraps, is a parameter.
  The routing of interrupts by world is \<open>set_routing_model\<close> of the theory of world switches.
\<close>

section \<open>Configuration\<close>

type_synonym IntId = nat

datatype IntGroup = Group0 | Group1S | Group1NS

datatype Trigger = Edge | Level

record InterruptConfig =
  int_priority :: u8
  int_group :: IntGroup
  int_trigger :: Trigger

type_synonym InterruptConfigEntry = "IntId \<times> InterruptConfig"

text \<open>The crate's constants and classification of interrupts.\<close>

record arm_gic =
  HIGHEST_NS_PRIORITY :: u8
  is_spi :: "IntId \<Rightarrow> bool"
  is_private :: "IntId \<Rightarrow> bool"
  is_ppi :: "IntId \<Rightarrow> bool"
  SPECIAL_SECURE :: IntId
  SPECIAL_NONSECURE :: IntId

definition InterruptConfig_DEFAULT :: "arm_gic \<Rightarrow> InterruptConfig" where
  "InterruptConfig_DEFAULT G = \<lparr>int_priority = HIGHEST_NS_PRIORITY G, int_group = Group1NS, int_trigger = Level\<rparr>"

definition GIC_PRI_MASK :: u8 where "GIC_PRI_MASK = 0xff"

definition shared_interrupts :: "arm_gic \<Rightarrow> InterruptConfigEntry list \<Rightarrow> InterruptConfigEntry list" where
  "shared_interrupts G config = filter (\<lambda>e. is_spi G (fst e)) config"

definition private_interrupts :: "arm_gic \<Rightarrow> InterruptConfigEntry list \<Rightarrow> InterruptConfigEntry list" where
  "private_interrupts G config = filter (\<lambda>e. is_private G (fst e)) config"

section \<open>Operations of the drivers\<close>

datatype gicd_flag = EnableGrp0 | EnableGrp1S | EnableGrp1NS | ARE_S | ARE_NS

datatype gic_op =
  GicdModifyControl "gicd_flag set" bool
  | GicdConfigureDefaults
  | GicdSetGroup IntId IntGroup
  | GicdSetTrigger IntId Trigger
  | GicdSetPriority IntId u8
  | GicdSetRouting IntId "u64 option"
  | GicdEnable IntId bool
  | GicdSave | GicdRestore
  | GicrPowerOn nat | GicrPowerOff nat
  | GicrConfigureDefaults nat
  | GicrSetGroup nat IntId IntGroup
  | GicrSetTrigger nat IntId Trigger
  | GicrSetPriority nat IntId u8
  | GicrEnable nat IntId bool
  | GicrSave nat | GicrRestore nat
  | GicrMarkAwake nat | GicrMarkAsleep nat
  | IccDisableLegacyBypassEl3 bool | IccEnableSreEl3 bool | IccEnableSreEl1
  | IccSetPriorityMask u8
  | IccEnableGroup0 bool | IccEnableGroup1 bool | IccEnableGroup1Secure bool | IccEnableGroup1NonSecure bool
  | GicIsb | GicDsbSy
  | IccAcknowledge IntId | PlatHandleGroup0 IntId | IccEndInterrupt IntId

text \<open>Operations whose result is unwrapped are performed one after the other until one fails.\<close>

fun gic_run :: "(gic_op \<Rightarrow> bool) \<Rightarrow> gic_op list \<Rightarrow> gic_op list \<Rightarrow> gic_op list option" where
  "gic_run ok [] t = Some t"
| "gic_run ok (oper # ops) t = (if ok oper then gic_run ok ops (t @ [oper]) else None)"

section \<open>Redistributors\<close>

text \<open>
  The registry: the redistributors are found in the order of their frames, each with the affinity it
  reports; the array maps the index of a core to its redistributor.
\<close>

fun registry_fill ::
  "(u64 \<Rightarrow> u64) \<Rightarrow> (u64 \<Rightarrow> bool) \<Rightarrow> (u64 \<Rightarrow> nat) \<Rightarrow> (nat \<times> u64) list \<Rightarrow> nat option list \<Rightarrow> nat option list option" where
  "registry_fill from_psci_mpidr mpidr_is_valid core_position [] redistributors = Some redistributors"
| "registry_fill from_psci_mpidr mpidr_is_valid core_position ((redist, affinity) # frames) redistributors =
     do {
       let mpidr = from_psci_mpidr affinity;
       assert_that (mpidr_is_valid mpidr);
       redistributors' \<leftarrow> checked_update redistributors (core_position mpidr) (Some redist);
       registry_fill from_psci_mpidr mpidr_is_valid core_position frames redistributors'
     }"

definition GicRedistributorRegistry_new ::
  "(u64 \<Rightarrow> u64) \<Rightarrow> (u64 \<Rightarrow> bool) \<Rightarrow> (u64 \<Rightarrow> nat) \<Rightarrow> nat \<Rightarrow> (nat \<times> u64) list \<Rightarrow> nat list option" where
  "GicRedistributorRegistry_new from_psci_mpidr mpidr_is_valid core_position core_count frames =
     do {
       redistributors \<leftarrow>
         registry_fill from_psci_mpidr mpidr_is_valid core_position frames (replicate core_count None);
       those redistributors
     }"

definition redistributor :: "nat list \<Rightarrow> nat \<Rightarrow> nat option" where
  "redistributor registry index = checked_index registry index"

section \<open>Initialisation\<close>

definition shared_interrupt_ops :: "u64 \<Rightarrow> InterruptConfigEntry \<Rightarrow> gic_op list" where
  "shared_interrupt_ops mpidr e =
     (let (intid, config) = e in
      [GicdSetGroup intid (int_group config), GicdSetTrigger intid (int_trigger config),
       GicdSetPriority intid (int_priority config), GicdSetRouting intid (Some mpidr), GicdEnable intid True])"

fun enable_flag :: "IntGroup \<Rightarrow> gicd_flag option" where
  "enable_flag Group0 = Some EnableGrp0"
| "enable_flag Group1S = Some EnableGrp1S"
| "enable_flag Group1NS = None"

fun gicd_enables :: "gicd_flag set \<Rightarrow> InterruptConfigEntry list \<Rightarrow> gicd_flag set option" where
  "gicd_enables acc [] = Some acc"
| "gicd_enables acc ((intid, config) # es) =
     do { flag \<leftarrow> enable_flag (int_group config); gicd_enables (insert flag acc) es }"

definition distributor_init ::
  "arm_gic \<Rightarrow> (gic_op \<Rightarrow> bool) \<Rightarrow> u64 \<Rightarrow> InterruptConfigEntry list \<Rightarrow> gic_op list \<Rightarrow> gic_op list option" where
  "distributor_init G ok mpidr config t =
     do {
       t1 \<leftarrow> gic_run ok
         (concat (map (shared_interrupt_ops mpidr) (shared_interrupts G config)))
         (t @ [GicdModifyControl {EnableGrp0, EnableGrp1S, EnableGrp1NS} False,
               GicdModifyControl {ARE_S, ARE_NS} True, GicdConfigureDefaults]);
       gicd_ctlr \<leftarrow> gicd_enables {} (shared_interrupts G config);
       Some (t1 @ [GicdModifyControl gicd_ctlr True])
     }"

definition distributor_save :: "(gic_op \<Rightarrow> bool) \<Rightarrow> gic_op list \<Rightarrow> gic_op list option" where
  "distributor_save ok t = gic_run ok [GicdSave] t"

definition distributor_restore :: "(gic_op \<Rightarrow> bool) \<Rightarrow> gic_op list \<Rightarrow> gic_op list option" where
  "distributor_restore ok t = gic_run ok [GicdRestore] t"

definition private_interrupt_ops :: "arm_gic \<Rightarrow> nat \<Rightarrow> InterruptConfigEntry \<Rightarrow> gic_op list" where
  "private_interrupt_ops G redist e =
     (let (intid, config) = e in
      [GicrSetGroup redist intid (int_group config)] @
      (if is_ppi G intid then [GicrSetTrigger redist intid (int_trigger config)] else []) @
      [GicrSetPriority redist intid (int_priority config), GicrEnable redist intid True])"

definition redistributor_init ::
  "arm_gic \<Rightarrow> (gic_op \<Rightarrow> bool) \<Rightarrow> nat list \<Rightarrow> nat \<Rightarrow> InterruptConfigEntry list \<Rightarrow> gic_op list \<Rightarrow> gic_op list option" where
  "redistributor_init G ok registry cpu config t =
     do {
       redist \<leftarrow> redistributor registry cpu;
       gic_run ok (concat (map (private_interrupt_ops G redist) (private_interrupts G config)))
         (t @ [GicrPowerOn redist, GicrConfigureDefaults redist])
     }"

definition redistributor_off :: "nat list \<Rightarrow> nat \<Rightarrow> gic_op list \<Rightarrow> gic_op list option" where
  "redistributor_off registry cpu t =
     do { redist \<leftarrow> redistributor registry cpu; Some (t @ [GicrPowerOff redist]) }"

definition redistributor_save ::
  "(gic_op \<Rightarrow> bool) \<Rightarrow> nat list \<Rightarrow> nat \<Rightarrow> gic_op list \<Rightarrow> gic_op list option" where
  "redistributor_save ok registry cpu t =
     do { redist \<leftarrow> redistributor registry cpu; gic_run ok [GicrSave redist] t }"

definition redistributor_restore ::
  "(gic_op \<Rightarrow> bool) \<Rightarrow> nat list \<Rightarrow> nat \<Rightarrow> gic_op list \<Rightarrow> gic_op list option" where
  "redistributor_restore ok registry cpu t =
     do {
       redist \<leftarrow> redistributor registry cpu;
       gic_run ok [GicrRestore redist] (t @ [GicrPowerOn redist])
     }"

definition cpu_interface_enable ::
  "(gic_op \<Rightarrow> bool) \<Rightarrow> nat list \<Rightarrow> nat \<Rightarrow> gic_op list \<Rightarrow> gic_op list option" where
  "cpu_interface_enable ok registry cpu t =
     do {
       redist \<leftarrow> redistributor registry cpu;
       t1 \<leftarrow> gic_run ok [GicrMarkAwake redist] t;
       Some (t1 @ [IccDisableLegacyBypassEl3 True, IccEnableSreEl3 True, IccEnableSreEl1, GicIsb,
                   IccSetPriorityMask GIC_PRI_MASK, IccEnableGroup0 True, IccEnableGroup1 True,
                   GicIsb, GicDsbSy])
     }"

definition cpu_interface_disable ::
  "(gic_op \<Rightarrow> bool) \<Rightarrow> nat list \<Rightarrow> nat \<Rightarrow> gic_op list \<Rightarrow> gic_op list option" where
  "cpu_interface_disable ok registry cpu t =
     do {
       redist \<leftarrow> redistributor registry cpu;
       gic_run ok [GicrMarkAsleep redist]
         (t @ [IccEnableGroup0 False, IccEnableGroup1Secure False, IccEnableGroup1NonSecure False,
               GicIsb, GicDsbSy])
     }"

definition gic_init ::
  "arm_gic \<Rightarrow> (gic_op \<Rightarrow> bool) \<Rightarrow> nat list \<Rightarrow> nat \<Rightarrow> u64 \<Rightarrow> InterruptConfigEntry list \<Rightarrow> gic_op list \<Rightarrow> gic_op list option" where
  "gic_init G ok registry cpu mpidr config t =
     do {
       t1 \<leftarrow> distributor_init G ok mpidr config t;
       t2 \<leftarrow> redistributor_init G ok registry cpu config t1;
       cpu_interface_enable ok registry cpu t2
     }"

section \<open>Interrupts at EL3\<close>

datatype InterruptType = IntEl3 | IntSecure | IntNonSecure | IntInvalid

text \<open>The argument is what the CPU interface reports as the pending group 0 interrupt.\<close>

definition get_pending_interrupt_type :: "arm_gic \<Rightarrow> IntId option \<Rightarrow> InterruptType" where
  "get_pending_interrupt_type G int_id =
     (case int_id of
        None \<Rightarrow> IntInvalid
      | Some i \<Rightarrow>
          if i = SPECIAL_SECURE G then IntSecure
          else if i = SPECIAL_NONSECURE G then IntNonSecure
          else IntEl3)"

definition handle_group0_interrupt :: "IntId option \<Rightarrow> gic_op list \<Rightarrow> gic_op list option" where
  "handle_group0_interrupt acknowledged t =
     do {
       int_id \<leftarrow> acknowledged;
       Some (t @ [IccAcknowledge int_id, PlatHandleGroup0 int_id, IccEndInterrupt int_id])
     }"

section \<open>Laws\<close>

lemma gic_run_all: "(\<forall>oper \<in> set ops. ok oper) \<Longrightarrow> gic_run ok ops t = Some (t @ ops)"
  by (induction ops arbitrary: t) auto

lemma gic_run_appends: "gic_run ok ops t = Some t' \<Longrightarrow> t' = t @ ops \<and> (\<forall>oper \<in> set ops. ok oper)"
proof (induction ops arbitrary: t)
  case (Cons oper ops)
  then have "ok oper" "gic_run ok ops (t @ [oper]) = Some t'" by (auto split: if_splits)
  with Cons.IH [OF this(2)] show ?case by simp
qed simp

lemma gicd_enables_Some:
  "gicd_enables acc es = Some flags \<Longrightarrow>
     flags = acc \<union> {f. \<exists>e \<in> set es. enable_flag (int_group (snd e)) = Some f} \<and>
     (\<forall>e \<in> set es. int_group (snd e) \<noteq> Group1NS)"
proof (induction es arbitrary: acc)
  case (Cons e es)
  obtain i c where e: "e = (i, c)" by fastforce
  obtain f where f: "enable_flag (int_group c) = Some f" "gicd_enables (insert f acc) es = Some flags"
    using Cons.prems e by (auto simp: bind_eq_Some_conv)
  from f(1) have "int_group c \<noteq> Group1NS" by (cases "int_group c") simp_all
  with Cons.IH [OF f(2)] e f(1) show ?case by auto
qed simp

text \<open>
  The distributor's groups are disabled before affinity routing is turned on, and the groups enabled
  at the end are exactly those of the configured shared interrupts, none of them non-secure.
\<close>

lemma distributor_init_order:
  assumes "distributor_init G ok mpidr config t = Some t'"
  shows "\<exists>mid flags. t' = t @ GicdModifyControl {EnableGrp0, EnableGrp1S, EnableGrp1NS} False #
      GicdModifyControl {ARE_S, ARE_NS} True # mid @ [GicdModifyControl flags True] \<and>
    flags = {f. \<exists>e \<in> set (shared_interrupts G config). enable_flag (int_group (snd e)) = Some f} \<and>
    (\<forall>e \<in> set (shared_interrupts G config). int_group (snd e) \<noteq> Group1NS)"
proof -
  obtain t1 flags where t: "gic_run ok (concat (map (shared_interrupt_ops mpidr) (shared_interrupts G config)))
      (t @ [GicdModifyControl {EnableGrp0, EnableGrp1S, EnableGrp1NS} False,
            GicdModifyControl {ARE_S, ARE_NS} True, GicdConfigureDefaults]) = Some t1"
      and flags: "gicd_enables {} (shared_interrupts G config) = Some flags"
      and t': "t' = t1 @ [GicdModifyControl flags True]"
    using assms by (auto simp: distributor_init_def bind_eq_Some_conv)
  from gic_run_appends [OF t] gicd_enables_Some [OF flags] t' show ?thesis by auto
qed

text \<open>A complete registry maps every core to a redistributor.\<close>

lemma registry_new_total:
  assumes "GicRedistributorRegistry_new fp valid pos n frames = Some registry"
  shows "length registry = n"
proof -
  have "length rs' = length rs" if "registry_fill fp valid pos fs rs = Some rs'" for fs rs rs'
    using that
  proof (induction fs arbitrary: rs)
    case (Cons f fs)
    then show ?case by (cases f) (auto simp: bind_eq_Some_conv Let_def checked_update_def split: if_splits)
  qed simp
  moreover have "length ys = length xs" if "those xs = Some ys" for xs :: "nat option list" and ys
    using that by (induction xs arbitrary: ys) (auto split: option.splits)
  ultimately show ?thesis
    using assms by (fastforce simp: GicRedistributorRegistry_new_def bind_eq_Some_conv)
qed

end
