(* ===== verification/Services.thy ===== *)
theory Services
  imports Power_Spmd Exceptions Arch_Service Gicv3 Trng Rmmd
begin

text \<open>
  The runtime services together, \<^verbatim>\<open>src/src/services.rs\<close>: the dispatch of an SMC to the service that
  owns its function, the handling of interrupts and traps, the loop that runs the worlds of a core
  and the warm boot. The record \<open>services\<close> is the state of all services with the contexts of the
  core; \<open>runtime\<close> is what they take from crates, the platform and the hardware.

  A PSCI call may leave the core waiting or off instead of returning: the reply is then \<open>CoreLeaves\<close>.
  What the lower exception levels and the interrupt controller do is an argument of each iteration.
\<close>

section \<open>State and environment\<close>

record ('ps, 'src) services =
  svc_psci :: "'ps Psci"
  svc_spmd :: Spmd
  svc_rmmd :: rmmd
  svc_pool :: EntropyPool
  svc_src :: 'src
  svc_core :: core
  svc_workarounds :: "nat list"
  svc_gic :: "gic_op list"

record ('x, 'ps, 'src) runtime =
  rt_spm :: "'x spm_env"
  rt_psci :: arm_psci
  rt_cfg :: "'ps psci_cfg"
  rt_psci_plat :: "'ps psci_platform"
  rt_psci_env :: "'ps psci_env"
  rt_trng :: "'src trng_platform"
  rt_trng_words :: nat
  rt_rmm :: rmm_platform
  rt_rmm_env :: rmm_env
  rt_work :: workarounds
  rt_gic :: arm_gic
  rt_gcs :: gcs_regs
  rt_cpu :: nat
  rt_platform_owns :: "SmcFunctionId \<Rightarrow> bool"
  rt_platform_smc :: "World \<Rightarrow> SmcReturn \<Rightarrow> (SmcReturn \<times> World) option"
  rt_ep_address :: "EntryPoint \<Rightarrow> u64"
  rt_ep_context :: "EntryPoint \<Rightarrow> u64"
  rt_non_secure_ep :: EntryPointInfo
  rt_secure_ep :: EntryPointInfo
  rt_realm_ep :: EntryPointInfo

abbreviation rt_arch :: "('x, 'ps, 'src) runtime \<Rightarrow> arch" where
  "rt_arch R \<equiv> spm_arch (rt_spm R)"

abbreviation rt_plat :: "('x, 'ps, 'src) runtime \<Rightarrow> runtime_platform" where
  "rt_plat R \<equiv> spm_plat (rt_spm R)"

text \<open>What happens outside EL3 during one iteration.\<close>

record outside =
  out_run :: "World \<Rightarrow> core \<Rightarrow> world_exit"
  out_pending :: "IntId option"
  out_acknowledged :: "IntId option"

datatype 'ps smc_reply = Replies SmcReturn World | CoreLeaves "'ps phase"

section \<open>Dispatch\<close>

datatype service_id = ArchSvc | PsciSvc | PlatformSvc | SpmdSvc | ErrataSvc | TrngSvc | RmmdSvc

definition psci_owns :: "SmcFunctionId \<Rightarrow> bool" where
  "psci_owns = owns_range STANDARD_SECURE 0x0000 0x001F"

fun svc_owns :: "('x, 'ps, 'src) runtime \<Rightarrow> service_id \<Rightarrow> SmcFunctionId \<Rightarrow> bool" where
  "svc_owns R ArchSvc f = arch_owns f"
| "svc_owns R PsciSvc f = psci_owns f"
| "svc_owns R PlatformSvc f = rt_platform_owns R f"
| "svc_owns R SpmdSvc f = spmd_owns f"
| "svc_owns R ErrataSvc f = errata_management_owns f"
| "svc_owns R TrngSvc f = trng_owns f"
| "svc_owns R RmmdSvc f = (rme (build (rt_arch R)) \<and> rmmd_owns f)"

definition select_service :: "('x, 'ps, 'src) runtime \<Rightarrow> SmcFunctionId \<Rightarrow> service_id option" where
  "select_service R function =
     (if svc_owns R ArchSvc function then Some ArchSvc
      else if svc_owns R PsciSvc function then Some PsciSvc
      else if svc_owns R PlatformSvc function then Some PlatformSvc
      else if svc_owns R SpmdSvc function then Some SpmdSvc
      else if svc_owns R ErrataSvc function then Some ErrataSvc
      else if svc_owns R TrngSvc function then Some TrngSvc
      else if svc_owns R RmmdSvc function then Some RmmdSvc
      else None)"

text \<open>
  PSCI's own handler: the first four registers with the SVE hint cleared are the call. The events it
  leaves for the SPMD are taken in their order.
\<close>

definition psci_handle_non_secure_smc ::
  "('x, 'ps::linorder, 'src) runtime \<Rightarrow> outside \<Rightarrow> SmcReturn \<Rightarrow> ('ps, 'src) services \<Rightarrow>
     ('ps smc_reply \<times> ('ps, 'src) services) option" where
  "psci_handle_non_secure_smc R out regs st =
     do {
       assert_that (4 \<le> length (reg_values regs));
       let in_regs = take 4 (reg_values regs);
       let function = clear_sve_hint (ucast (in_regs ! 0));
       let in_regs = in_regs[0 := ucast function];
       (oc, psci') \<leftarrow> handle_smc_inner (rt_psci R) (rt_cfg R) (rt_psci_plat R) (rt_psci_env R)
         (suspend_mode (svc_psci st)) (svc_psci st) (rt_cpu R) in_regs;
       (spmd', core') \<leftarrow> spm_events (rt_spm R) (out_run out) (rt_cpu R)
         (new_events (svc_psci st) psci') (svc_spmd st, svc_core st);
       let st' = st\<lparr>svc_psci := psci', svc_spmd := spmd', svc_core := core'\<rparr>;
       Some (case oc of
               Returned r \<Rightarrow>
                 (Replies (set_from_u64 (case r of Inr v \<Rightarrow> v | Inl e \<Rightarrow> error_code_bits (rt_psci R) e) regs)
                    NonSecure, st')
             | _ \<Rightarrow> (CoreLeaves (next_phase oc), st'))
     }"

text \<open>The three handlers of each service; a service without a handler for a world does not support it.\<close>

definition unsupported :: "World \<Rightarrow> SmcReturn \<Rightarrow> ('ps, 'src) services \<Rightarrow> ('ps smc_reply \<times> ('ps, 'src) services) option" where
  "unsupported world regs st = Some (Replies (set_from_i32 NOT_SUPPORTED regs) world, st)"

fun service_smc ::
  "('x, 'ps::linorder, 'src) runtime \<Rightarrow> outside \<Rightarrow> service_id \<Rightarrow> World \<Rightarrow> SmcReturn \<Rightarrow> ('ps, 'src) services \<Rightarrow>
     ('ps smc_reply \<times> ('ps, 'src) services) option" where
  "service_smc R out ArchSvc world regs st =
     do {
       (regs', called) \<leftarrow> arch_handle_common_smc (rt_work R) regs;
       Some (Replies regs' world, st\<lparr>svc_workarounds := svc_workarounds st @ called\<rparr>)
     }"
| "service_smc R out PsciSvc world regs st =
     (if world = NonSecure then psci_handle_non_secure_smc R out regs st else unsupported world regs st)"
| "service_smc R out PlatformSvc world regs st =
     do { (regs', world') \<leftarrow> rt_platform_smc R world regs; Some (Replies regs' world', st) }"
| "service_smc R out SpmdSvc world regs st =
     (case world of
        NonSecure \<Rightarrow> do {
          (regs', world') \<leftarrow> spmd_handle_non_secure_smc (spm_ffa (rt_spm R)) (rt_cpu R) (svc_spmd st) regs;
          Some (Replies regs' world', st) }
      | Secure \<Rightarrow> do {
          (regs', world', spmd') \<leftarrow> spmd_handle_secure_smc (spm_ffa (rt_spm R)) (rt_cpu R) (svc_spmd st) regs;
          Some (Replies regs' world', st\<lparr>svc_spmd := spmd'\<rparr>) }
      | Realm \<Rightarrow> unsupported world regs st)"
| "service_smc R out ErrataSvc world regs st =
     (if world = NonSecure
      then do {
        regs' \<leftarrow> em_handle_non_secure_smc (rt_arch R) (rt_plat R) (svc_core st) regs;
        Some (Replies regs' world, st) }
      else unsupported world regs st)"
| "service_smc R out TrngSvc world regs st =
     do {
       (regs', pool', src') \<leftarrow> trng_handle_smc_common (rt_trng R) (rt_trng_words R) regs (svc_pool st) (svc_src st);
       Some (Replies regs' world, st\<lparr>svc_pool := pool', svc_src := src'\<rparr>)
     }"
| "service_smc R out RmmdSvc world regs st =
     (case world of
        NonSecure \<Rightarrow> do {
          (world', regs', rmmd') \<leftarrow> rmmd_handle_non_secure_smc regs (svc_rmmd st);
          Some (Replies regs' world', st\<lparr>svc_rmmd := rmmd'\<rparr>) }
      | Secure \<Rightarrow> unsupported world regs st
      | Realm \<Rightarrow> do {
          (world', regs', rmmd') \<leftarrow> rmmd_handle_realm_smc (rt_rmm R) (rt_rmm_env R) regs (svc_rmmd st);
          Some (Replies regs' world', st\<lparr>svc_rmmd := rmmd'\<rparr>) })"

definition handle_smc ::
  "('x, 'ps::linorder, 'src) runtime \<Rightarrow> outside \<Rightarrow> SmcReturn \<Rightarrow> World \<Rightarrow> ('ps, 'src) services \<Rightarrow>
     ('ps smc_reply \<times> ('ps, 'src) services) option" where
  "handle_smc R out regs world st =
     do {
       v0 \<leftarrow> checked_index (reg_values regs) 0;
       let function = (ucast v0 :: SmcFunctionId);
       if \<not> fid_valid function then unsupported world regs st
       else case select_service R function of
              None \<Rightarrow> unsupported world regs st
            | Some service \<Rightarrow> service_smc R out service world regs st
     }"

section \<open>Interrupts and the loop\<close>

definition handle_interrupt ::
  "('x, 'ps, 'src) runtime \<Rightarrow> outside \<Rightarrow> SmcReturn \<Rightarrow> World \<Rightarrow> ('ps, 'src) services \<Rightarrow>
     ('ps smc_reply \<times> ('ps, 'src) services) option" where
  "handle_interrupt R out regs world st =
     (case (get_pending_interrupt_type (rt_gic R) (out_pending out), world) of
        (IntSecure, NonSecure) \<Rightarrow> do {
          (regs', world', spmd') \<leftarrow> forward_secure_interrupt (spm_ffa (rt_spm R)) (rt_cpu R) (svc_spmd st) regs;
          Some (Replies regs' world', st\<lparr>svc_spmd := spmd'\<rparr>) }
      | (IntEl3, Secure) \<Rightarrow> None
      | (IntEl3, NonSecure) \<Rightarrow> do {
          gic' \<leftarrow> handle_group0_interrupt (out_acknowledged out) (svc_gic st);
          Some (Replies (mark_empty regs) world, st\<lparr>svc_gic := gic'\<rparr>) }
      | (IntInvalid, _) \<Rightarrow> Some (Replies (mark_empty regs) world, st)
      | _ \<Rightarrow> None)"

text \<open>One iteration of the inner loop: a world is entered and what brought it back is handled.\<close>

definition world_iteration ::
  "('x, 'ps::linorder, 'src) runtime \<Rightarrow> outside \<Rightarrow> World \<Rightarrow> SmcReturn \<Rightarrow> ('ps, 'src) services \<Rightarrow>
     ('ps smc_reply \<times> ('ps, 'src) services) option" where
  "world_iteration R out world regs st =
     do {
       (regs, result, core') \<leftarrow> enter_world (out_run out) regs world (svc_core st);
       let st = st\<lparr>svc_core := core'\<rparr>;
       (case result of
          SmcResult \<Rightarrow> handle_smc R out regs world st
        | InterruptResult \<Rightarrow> handle_interrupt R out regs world st
        | SysregTrap esr \<Rightarrow> do {
            core'' \<leftarrow> handle_sysreg_trap (rt_arch R) (rt_gcs R) esr world (svc_core st);
            Some (Replies (mark_empty regs) world, st\<lparr>svc_core := core''\<rparr>) })
     }"

text \<open>The inner loop ends when another world is to run.\<close>

inductive per_world_loop ::
  "('x, 'ps::linorder, 'src) runtime \<Rightarrow> World \<Rightarrow> SmcReturn \<times> ('ps, 'src) services \<Rightarrow>
     World \<times> SmcReturn \<times> ('ps, 'src) services \<Rightarrow> bool"
  for R world where
  loop_break: "world_iteration R out world regs st = Some (Replies regs' next_world, st') \<Longrightarrow> next_world \<noteq> world \<Longrightarrow>
    per_world_loop R world (regs, st) (next_world, regs', st')"
| loop_again: "world_iteration R out world regs st = Some (Replies regs' world, st') \<Longrightarrow>
    per_world_loop R world (regs', st') result \<Longrightarrow> per_world_loop R world (regs, st) result"

text \<open>
  The outer loop, between two inner loops: the world that is about to be entered, and how far the
  boot has come. The assertions of the source are premises.
\<close>

datatype loop_phase = BootingSecure | BootingRealm | Steady

definition switch_core ::
  "('x, 'ps, 'src) runtime \<Rightarrow> World \<Rightarrow> World \<Rightarrow> ('ps, 'src) services \<Rightarrow> ('ps, 'src) services option" where
  "switch_core R old new st =
     do { core' \<leftarrow> switch_world (rt_arch R) (rt_plat R) old new (svc_core st); Some (st\<lparr>svc_core := core'\<rparr>) }"

definition boots_realm :: "('x, 'ps, 'src) runtime \<Rightarrow> ('ps, 'src) services \<Rightarrow> bool" where
  "boots_realm R st \<longleftrightarrow> rme (build (rt_arch R)) \<and> \<not> boot_failure (svc_rmmd st)"

inductive run_loop ::
  "('x, 'ps::linorder, 'src) runtime \<Rightarrow> ('ps, 'src) services \<Rightarrow>
     loop_phase \<times> World \<times> SmcReturn \<times> ('ps, 'src) services \<Rightarrow> bool"
  for R st0 where
  run_start: "set_initial_world (rt_arch R) (rt_plat R) Secure (svc_core st0) = Some core' \<Longrightarrow>
    run_loop R st0 (BootingSecure, Secure, SmcReturn_EMPTY, st0\<lparr>svc_core := core'\<rparr>)"
| run_boot_realm: "run_loop R st0 (BootingSecure, Secure, regs, st) \<Longrightarrow>
    per_world_loop R Secure (regs, st) (NonSecure, regs', st') \<Longrightarrow> boots_realm R st' \<Longrightarrow>
    switch_core R Secure Realm st' = Some st'' \<Longrightarrow>
    run_loop R st0 (BootingRealm, Realm, mark_empty regs', st'')"
| run_no_realm: "run_loop R st0 (BootingSecure, Secure, regs, st) \<Longrightarrow>
    per_world_loop R Secure (regs, st) (NonSecure, regs', st') \<Longrightarrow> \<not> boots_realm R st' \<Longrightarrow>
    switch_core R Secure NonSecure st' = Some st'' \<Longrightarrow>
    run_loop R st0 (Steady, NonSecure, mark_empty regs', st'')"
| run_realm_done: "run_loop R st0 (BootingRealm, Realm, regs, st) \<Longrightarrow>
    per_world_loop R Realm (regs, st) (NonSecure, regs', st') \<Longrightarrow>
    switch_core R Realm NonSecure st' = Some st'' \<Longrightarrow>
    run_loop R st0 (Steady, NonSecure, mark_empty regs', st'')"
| run_steady: "run_loop R st0 (Steady, world, regs, st) \<Longrightarrow>
    per_world_loop R world (regs, st) (next_world, regs', st') \<Longrightarrow> world \<noteq> next_world \<Longrightarrow>
    switch_core R world next_world st' = Some st'' \<Longrightarrow>
    run_loop R st0 (Steady, next_world, regs', st'')"

section \<open>Warm boot\<close>

definition warmboot ::
  "('x, 'ps, 'src) runtime \<Rightarrow> ('ps, 'src) services \<Rightarrow> ('ps, 'src) services option" where
  "warmboot R st =
     do {
       (reason, psci') \<leftarrow> handle_cpu_boot (rt_cfg R) (svc_psci st) (rt_cpu R);
       let st1 = st\<lparr>svc_psci := psci'\<rparr>;
       (case reason of
          WakeCpuOn e \<Rightarrow> do {
            let ns = (rt_non_secure_ep R)\<lparr>ep_pc := rt_ep_address R e,
              ep_args := (replicate (length (ep_args (rt_non_secure_ep R))) 0)[0 := rt_ep_context R e]\<rparr>;
            let secure = (rt_secure_ep R)\<lparr>ep_pc := secondary_ep (svc_spmd st1),
              ep_args := replicate (length (ep_args (rt_secure_ep R))) 0\<rparr>;
            spmd' \<leftarrow> spmd_handle_wake_from_cpu_off (rt_cpu R) (svc_spmd st1);
            core' \<leftarrow> initialise_contexts (rt_arch R) (rt_plat R) ns secure (rt_realm_ep R) (svc_core st1);
            Some (st1\<lparr>svc_spmd := spmd', svc_core := core'\<rparr>) }
        | WakeSuspendFinished e \<Rightarrow> do {
            (secure_args, spmd') \<leftarrow> spmd_handle_wake_from_cpu_suspend (spm_ffa (rt_spm R)) (rt_cpu R) (svc_spmd st1);
            realm_args \<leftarrow> (if rme (build (rt_arch R))
              then rmmd_handle_wake_from_cpu_suspend (rt_rmm_env R) (svc_rmmd st1) else Some []);
            core' \<leftarrow> update_contexts_suspend (rt_arch R) (rt_plat R) (rt_ep_address R e) (rt_ep_context R e)
              secure_args realm_args (svc_core st1);
            Some (st1\<lparr>svc_spmd := spmd', svc_core := core'\<rparr>) })
     }"

section \<open>The platforms\<close>

definition fvp_secure_entry_point :: "nat \<Rightarrow> EntryPointInfo" where
  "fvp_secure_entry_point core_index =
     \<lparr>ep_pc = 0x06000000, ep_args = [0x04001500, 0x07f00000, 0, 0, of_nat core_index, 0, 0, 0]\<rparr>"

definition fvp_non_secure_entry_point :: EntryPointInfo where
  "fvp_non_secure_entry_point =
     \<lparr>ep_pc = 0x88000000, ep_args = [0x80000000, 0x82000000, 0, 0, 0, 0, 0, 0]\<rparr>"

definition fvp_realm_entry_point :: "rmm_platform \<Rightarrow> rmm_env \<Rightarrow> rmmd \<Rightarrow> EntryPointInfo" where
  "fvp_realm_entry_point P env s = \<lparr>ep_pc = 0xfdc00000, ep_args = rmmd_entrypoint_args P env s\<rparr>"

definition qemu_secure_entry_point :: "nat \<Rightarrow> EntryPointInfo" where
  "qemu_secure_entry_point core_index =
     \<lparr>ep_pc = 0x0e100000, ep_args = [0, 0, 0, 0, of_nat core_index, 0, 0, 0]\<rparr>"

definition qemu_non_secure_entry_point :: EntryPointInfo where
  "qemu_non_secure_entry_point = \<lparr>ep_pc = 0x60000000, ep_args = [0x40000000, 0, 0, 0, 0, 0, 0, 0]\<rparr>"

text \<open>The platform service of both platforms, \<open>DummyService\<close>, owns nothing and has the default handlers.\<close>

definition DummyService_owns :: "SmcFunctionId \<Rightarrow> bool" where
  "DummyService_owns function = False"

definition fvp_workarounds :: workarounds where
  "fvp_workarounds =
     \<lparr>arch_workaround_1_supported = SafeButNotRequired, arch_workaround_2_supported = SafeButNotRequired,
      arch_workaround_3_supported = SafeButNotRequired, arch_workaround_4_supported = SafeButNotRequired\<rparr>"

definition qemu_workarounds :: workarounds where
  "qemu_workarounds =
     \<lparr>arch_workaround_1_supported = SafeButNotRequired, arch_workaround_2_supported = SafeButNotRequired,
      arch_workaround_3_supported = SafeButNotRequired, arch_workaround_4_supported = SafeButNotRequired\<rparr>"

text \<open>The interrupts that the FVP gives to the secure world; the numbers and the priority are the crate's.\<close>

definition secure_sgi_configuration :: "(nat \<Rightarrow> IntId) \<Rightarrow> u8 \<Rightarrow> nat \<Rightarrow> InterruptConfigEntry" where
  "secure_sgi_configuration sgi HIGHEST_S_PRIORITY index =
     (sgi index, \<lparr>int_priority = HIGHEST_S_PRIORITY, int_group = Group1S, int_trigger = Edge\<rparr>)"

definition fvp_GIC_CONFIG :: "(nat \<Rightarrow> IntId) \<Rightarrow> u8 \<Rightarrow> InterruptConfigEntry list" where
  "fvp_GIC_CONFIG sgi HIGHEST_S_PRIORITY =
     map (secure_sgi_configuration sgi HIGHEST_S_PRIORITY) [8, 9, 10, 11, 12, 13, 14, 15]"

text \<open>
  On QEMU a core that is turned on before the SPMC has registered an entry point starts the secure
  world at an address that is not the platform's entry point of the secure world.
\<close>

lemma qemu_secondary_ep_differs:
  "Spmd_new F n c = Some s \<Longrightarrow> secondary_ep s \<noteq> ep_pc (qemu_secure_entry_point c)"
  by (auto simp: Spmd_new_def bind_eq_Some_conv Let_def switch_spmc_local_state_def secondary_ep_def
      qemu_secure_entry_point_def)

end
