(* ===== verification/Services_Properties.thy ===== *)
theory Services_Properties
  imports Services Spmd_Properties World_Properties Fvp_Attestation "HOL-Library.Multiset"
begin

text \<open>
  The properties of the services together: which service handles a call does not depend on the order
  in which they are asked, and the loop that runs the worlds only makes the switches it expects.
\<close>

section \<open>Dispatch\<close>

text \<open>The first service of a list that owns a function.\<close>

definition first_owner :: "('x, 'ps, 'src) runtime \<Rightarrow> service_id list \<Rightarrow> SmcFunctionId \<Rightarrow> service_id option" where
  "first_owner R order f = find (\<lambda>svc. svc_owns R svc f) order"

definition all_services :: "service_id list" where
  "all_services = [ArchSvc, PsciSvc, PlatformSvc, SpmdSvc, ErrataSvc, TrngSvc, RmmdSvc]"

lemma select_service_first: "select_service R f = first_owner R all_services f"
  by (simp add: select_service_def first_owner_def all_services_def)

text \<open>The range of function numbers of each built-in service, with its owning entity.\<close>

lemma built_in_owns:
  "svc_owns R PsciSvc f \<Longrightarrow> oen f = STANDARD_SECURE \<and> fid_number f \<le> 0x1f"
  "svc_owns R TrngSvc f \<Longrightarrow> oen f = STANDARD_SECURE \<and> 0x50 \<le> fid_number f \<and> fid_number f \<le> 0x53"
  "svc_owns R SpmdSvc f \<Longrightarrow> oen f = STANDARD_SECURE \<and> 0x60 \<le> fid_number f \<and> fid_number f \<le> 0xef"
  "svc_owns R ErrataSvc f \<Longrightarrow> oen f = STANDARD_SECURE \<and> 0xf0 \<le> fid_number f \<and> fid_number f \<le> 0x10f"
  "svc_owns R RmmdSvc f \<Longrightarrow> oen f = STANDARD_SECURE \<and> 0x150 \<le> fid_number f \<and> fid_number f \<le> 0x1cf"
  "svc_owns R ArchSvc f \<Longrightarrow> oen f = ARM_ARCHITECTURE"
  by (simp_all add: psci_owns_def trng_owns_def spmd_owns_def errata_management_owns_def rmmd_owns_def
      arch_owns_def owns_range_def owns_oen_def trng_consts em_consts FUNCTION_NUMBER_MIN_def FUNCTION_NUMBER_MAX_def)

definition platform_apart :: "('x, 'ps, 'src) runtime \<Rightarrow> bool" where
  "platform_apart R \<longleftrightarrow> (\<forall>svc f. svc \<noteq> PlatformSvc \<and> svc_owns R svc f \<longrightarrow> \<not> rt_platform_owns R f)"

lemma owner_unique:
  assumes "platform_apart R" "svc_owns R svc f" "svc_owns R svc' f"
  shows "svc = svc'"
proof -
  have "svc \<noteq> PlatformSvc \<Longrightarrow> svc' \<noteq> PlatformSvc \<Longrightarrow> svc = svc'"
    using built_in_owns [of R f] assms(2,3)
    by (cases svc; cases svc') (auto simp: oen_consts word_le_nat_alt simp del: svc_owns.simps)
  then show ?thesis
    using assms unfolding platform_apart_def by (cases "svc = PlatformSvc"; cases "svc' = PlatformSvc") auto
qed

lemma find_unique:
  assumes "\<And>x y. P x \<Longrightarrow> P y \<Longrightarrow> x = y"
  shows "find P xs = Some x \<longleftrightarrow> x \<in> set xs \<and> P x"
  using assms by (induction xs) auto

lemma select_service_unique:
  assumes "platform_apart R" "mset order = mset all_services"
  shows "select_service R f = first_owner R order f"
proof -
  have set: "set order = set all_services" using assms(2) by (metis set_mset_mset)
  have "first_owner R order f = Some svc \<longleftrightarrow> first_owner R all_services f = Some svc" for svc
    using find_unique [of "\<lambda>svc. svc_owns R svc f"] owner_unique [OF assms(1)] set
    by (metis first_owner_def)
  then show ?thesis unfolding select_service_first by (metis not_None_eq)
qed

text \<open>\<open>handle_smc\<close> with the services asked in another order.\<close>

definition handle_smc_in_order ::
  "('x, 'ps::linorder, 'src) runtime \<Rightarrow> service_id list \<Rightarrow> outside \<Rightarrow> SmcReturn \<Rightarrow> World \<Rightarrow> ('ps, 'src) services \<Rightarrow>
     ('ps smc_reply \<times> ('ps, 'src) services) option" where
  "handle_smc_in_order R order out regs world st =
     do {
       v0 \<leftarrow> checked_index (reg_values regs) 0;
       if \<not> fid_valid (ucast v0) then unsupported world regs st
       else case first_owner R order (ucast v0) of
              None \<Rightarrow> unsupported world regs st
            | Some service \<Rightarrow> service_smc R out service world regs st
     }"

lemma owns_clear_sve_hint:
  "owns_range e lo hi (clear_sve_hint f) = owns_range e lo hi f" "owns_oen e (clear_sve_hint f) = owns_oen e f"
  by (simp_all add: owns_range_def owns_oen_def)

lemma select_service_clear:
  "rt_platform_owns R (clear_sve_hint f) = rt_platform_owns R f \<Longrightarrow>
     select_service R (clear_sve_hint f) = select_service R f"
  by (simp add: select_service_def psci_owns_def trng_owns_def spmd_owns_def errata_management_owns_def
      rmmd_owns_def arch_owns_def owns_clear_sve_hint)

text \<open>
  C37. Which service handles a call does not depend on the order in which the services are asked:
  \<open>handle_smc\<close>, with its chain of tests, behaves like a search of the services in any other order,
  because no two services own the same function, and the SVE hint of the function identifier makes
  no difference to the choice. The platform's own service is assumed not to claim functions of the
  others and to disregard the hint.
\<close>

theorem dispatch_order_irrelevant:
  assumes "platform_apart R" "mset order = mset all_services"
    and "rt_platform_owns R (clear_sve_hint f) = rt_platform_owns R f"
  shows "handle_smc R out regs world st = handle_smc_in_order R order out regs world st \<and>
    select_service R (clear_sve_hint f) = select_service R f"
proof -
  have "handle_smc R out regs world st = handle_smc_in_order R order out regs world st"
    by (simp only: handle_smc_def handle_smc_in_order_def Let_def select_service_unique [OF assms(1,2)])
  with select_service_clear [OF assms(3)] show ?thesis by blast
qed

section \<open>The worlds of the loop\<close>

text \<open>The branches of a case distinction that has a given value.\<close>

lemma case_sum_eq:
  "(case x of Inl a \<Rightarrow> f a | Inr b \<Rightarrow> g b) = y \<longleftrightarrow> (\<exists>a. x = Inl a \<and> f a = y) \<or> (\<exists>b. x = Inr b \<and> g b = y)"
  by (cases x) auto

lemma case_option_eq:
  "(case x of None \<Rightarrow> z | Some a \<Rightarrow> f a) = y \<longleftrightarrow> x = None \<and> z = y \<or> (\<exists>a. x = Some a \<and> f a = y)"
  by (cases x) auto

lemmas branch_simps = case_sum_eq case_option_eq bind_eq_Some_conv Let_def

lemma arch_keeps_world: "service_smc R out ArchSvc w regs st = Some (Replies regs' w', st') \<Longrightarrow> w' = w"
  by (auto simp: bind_eq_Some_conv)

text \<open>The platform's service answers the world that called it.\<close>

definition platform_answers :: "('x, 'ps, 'src) runtime \<Rightarrow> bool" where
  "platform_answers R \<longleftrightarrow> (\<forall>w regs regs' w'. rt_platform_smc R w regs = Some (regs', w') \<longrightarrow> w' = w)"

definition may_follow :: "World \<Rightarrow> World \<Rightarrow> bool" where
  "may_follow w w' \<longleftrightarrow> w' = w \<or> w = NonSecure \<or> w' = NonSecure"

lemma rmm_call_worlds:
  assumes "handle_rmm_call P env regs s call = Some (Inr w, regs', s')"
  shows "w = NonSecure \<or> w = Realm"
proof -
  have gtsi: "w = Realm" if "handle_gtsi f regs s = Some (Inr w, regs', s')" for f
    using that by (auto simp: handle_gtsi_def branch_simps)
  have token: "w = Realm" if "handle_attest_get_plat_token P regs s a b d = Some (Inr w, regs', s')" for a b d
    using that by (auto simp: handle_attest_get_plat_token_def branch_simps split_beta split: if_splits)
  have key: "w = Realm" if "handle_attest_get_realm_key P regs s a b d = Some (Inr w, regs', s')" for a b d
    using that by (auto simp: handle_attest_get_realm_key_def branch_simps split_beta)
  show ?thesis using assms gtsi token key by (cases call) auto
qed

lemma realm_smc_worlds:
  assumes "rmmd_handle_realm_smc P env regs s = Some (w, regs', s')"
  shows "w = NonSecure \<or> w = Realm"
proof (cases "boot_failure s")
  case True
  then show ?thesis using assms by (simp add: rmmd_handle_realm_smc_def)
next
  case False
  have boot: "w = NonSecure \<or> w = Realm" if "handle_boot_complete env regs s = Some (w, regs', s')" for w regs' s'
    using that by (auto simp: handle_boot_complete_def branch_simps split: if_splits)
  have attempt: "w = NonSecure \<or> w = Realm" if "try_handle_realm_smc P env regs s = Some (Inr w, regs', s')" for w regs' s'
    using that
    by (auto simp: try_handle_realm_smc_def branch_simps split: if_splits dest: rmm_call_worlds boot)
      (auto split: RmmError.splits)
  obtain r regs1 s1 where r: "try_handle_realm_smc P env regs s = Some (r, regs1, s1)"
      "(w, regs', s') = (case r of Inr world \<Rightarrow> (world, regs1, s1)
        | Inl code \<Rightarrow> (Realm, set_from_rmm_code code regs1, s1))"
    using assms False by (auto simp: rmmd_handle_realm_smc_def bind_eq_Some_conv)
  then show ?thesis using attempt by (cases r) auto
qed

lemma secure_smc_worlds:
  assumes "spmd_handle_secure_smc F c s regs = Some (regs', w', s')"
  shows "w' = NonSecure \<or> w' = Secure"
proof -
  obtain smc_regs where regs: "get_smc_regs regs = Some smc_regs"
    using assms by (auto simp: spmd_handle_secure_smc_def bind_eq_Some_conv Let_def)
  show ?thesis
  proof (cases "arm_ffa.from_regs F (spmc_version s) (reg_values smc_regs)")
    case (Inl e)
    then show ?thesis using assms regs by (auto simp: spmd_handle_secure_smc_def)
  next
    case (Inr msg)
    then have "c < length (core_local s)"
      using assms regs by (auto simp: spmd_handle_secure_smc_def checked_index_def split: if_splits)
    moreover from this have "spm_state s c \<noteq> SpmcOff"
      using assms regs Inr by (auto simp: spmd_handle_secure_smc_def checked_index_def spm_state_def)
    ultimately show ?thesis using secure_call_states [OF _ _ assms] by blast
  qed
qed

lemma service_worlds:
  assumes "platform_answers R" "service_smc R out svc w regs st = Some (Replies regs' w', st')"
  shows "may_follow w w'"
proof (cases "w = NonSecure")
  case False
  show ?thesis
  proof (cases svc)
    case SpmdSvc
    then show ?thesis using assms(2) False
      by (cases w) (auto simp: unsupported_def may_follow_def bind_eq_Some_conv dest: secure_smc_worlds)
  next
    case RmmdSvc
    then show ?thesis using assms(2) False
      by (cases w) (auto simp: unsupported_def may_follow_def bind_eq_Some_conv dest: realm_smc_worlds)
  qed (use assms False in \<open>auto simp: unsupported_def may_follow_def bind_eq_Some_conv platform_answers_def\<close>)
qed (simp add: may_follow_def)

lemma iteration_worlds:
  assumes "platform_answers R" "world_iteration R out w regs st = Some (Replies regs' w', st')"
  shows "may_follow w w'"
proof -
  have smc: "may_follow w w'" if "handle_smc R out regs w st = Some (Replies regs' w', st')" for regs st
    using that
    by (auto simp: handle_smc_def unsupported_def branch_simps split: if_splits dest: service_worlds [OF assms(1)])
      (simp_all add: may_follow_def)
  have interrupt: "may_follow w w'" if "handle_interrupt R out regs w st = Some (Replies regs' w', st')" for regs st
    using that
    by (cases w; cases "get_pending_interrupt_type (rt_gic R) (out_pending out)")
      (auto simp: handle_interrupt_def bind_eq_Some_conv may_follow_def)
  obtain regs1 result core' where "enter_world (out_run out) regs w (svc_core st) = Some (regs1, result, core')"
    using assms(2) by (auto simp: world_iteration_def bind_eq_Some_conv)
  then show ?thesis
    using assms(2) smc interrupt
    by (cases result) (auto simp: world_iteration_def bind_eq_Some_conv may_follow_def)
qed

lemma loop_worlds:
  assumes "platform_answers R" "per_world_loop R w x y"
  shows "fst y \<noteq> w \<and> may_follow w (fst y)"
  using assms(2) by induction (auto dest: iteration_worlds [OF assms(1)])

text \<open>
  C38. The loop of a core makes only the switches it expects. Whenever a world has been running in
  \<open>run_loop\<close> and another is to run, the next world differs from the current one, it is the normal
  world unless the normal world was running, so that the secure and the realm world never hand over
  to each other, and after the boot of the secure or the realm world it is the normal world, as the
  assertions of the boot require. The platform's own service is assumed to answer its caller.
\<close>

theorem run_loop_worlds:
  assumes "platform_answers R" "run_loop R st0 (phase, w, regs, st)"
    and "per_world_loop R w (regs, st) (w', regs', st')"
  shows "w' \<noteq> w \<and> (w = NonSecure \<or> w' = NonSecure) \<and> (phase \<noteq> Steady \<longrightarrow> w' = NonSecure)"
proof -
  have "phase \<noteq> Steady \<Longrightarrow> w \<noteq> NonSecure"
    using assms(2) by (cases rule: run_loop.cases) auto
  then show ?thesis
    using loop_worlds [OF assms(1,3)] by (auto simp: may_follow_def)
qed

section \<open>An FVP core\<close>

text \<open>
  A core of the FVP that has just booted. Its secure world does nothing but wait for messages; the
  crate's decoding of registers is the one that makes its call an \<open>FFA_MSG_WAIT\<close>.
\<close>

definition fvp_gic :: arm_gic where
  "fvp_gic =
     \<lparr>HIGHEST_NS_PRIORITY = 0x80, is_spi = (\<lambda>i. 32 \<le> i \<and> i < 1020), is_private = (\<lambda>i. i < 32),
      is_ppi = (\<lambda>i. 16 \<le> i \<and> i < 32), SPECIAL_SECURE = 1020, SPECIAL_NONSECURE = 1021\<rparr>"

definition fvp_rt :: "(unit, FvpPowerState, unit) runtime" where
  "fvp_rt =
     \<lparr>rt_spm = fvp_spm\<lparr>spm_ffa := plain_ffa\<lparr>arm_ffa.from_regs := (\<lambda>_ _. Inr (MsgWait ()))\<rparr>\<rparr>,
      rt_psci = plain_psci, rt_cfg = fvp_cfg, rt_psci_plat = fvp, rt_psci_env = calm_env,
      rt_trng = NotSupportedTrngPlatformImpl, rt_trng_words = 1,
      rt_rmm = fvp_rmm 8 0x880000000 0x1c090000,
      rt_rmm_env = \<lparr>env_core_index = 0, sctlr_c = True, mte2_is_present = True\<rparr>,
      rt_work = fvp_workarounds, rt_gic = fvp_gic, rt_gcs = \<lparr>gcscr_el1 = 0, gcscr_el2 = 0\<rparr>, rt_cpu = 0,
      rt_platform_owns = DummyService_owns,
      rt_platform_smc = (\<lambda>w r. Some (default_smc w r)),
      rt_ep_address = (\<lambda>_. 0), rt_ep_context = (\<lambda>_. 0),
      rt_non_secure_ep = fvp_non_secure_entry_point, rt_secure_ep = fvp_secure_entry_point 0,
      rt_realm_ep = fvp_non_secure_entry_point\<rparr>"

definition fvp_boot_core :: core where
  "fvp_boot_core = initialise_per_world_contexts (aarch64_core True True) fvp_runtime reset_core"

definition fvp_services :: "(FvpPowerState, unit) services" where
  "fvp_services =
     \<lparr>svc_psci = fvp_booted,
      svc_spmd = \<lparr>spmc_id = 0x8000, spmc_version = Spmd.Version 1 3, spmc_primary_ep = 0x06000000,
        spmc_secondary_ep = 0x06000000, core_local = \<lparr>spmc_state = SpmcBoot\<rparr> # replicate 7 SpmdLocal_new\<rparr>,
      svc_rmmd = \<lparr>activation_token = replicate 8 None, attestation_token_read_index = 0,
        rmm_boot_state = BootUnknown, rmm_gpt = None, rmm_world = \<lparr>gpt_mem = (\<lambda>_. 0), gpt_events = []\<rparr>,
        shared_buffer = []\<rparr>,
      svc_pool = \<lparr>entropy = [0], entropy_bit_index = 0, entropy_bit_size = 0\<rparr>, svc_src = (),
      svc_core = fvp_boot_core, svc_workarounds = [], svc_gic = []\<rparr>"

text \<open>The world that runs calls \<open>FFA_MSG_WAIT\<close> at once.\<close>

definition waits :: outside where
  "waits =
     \<lparr>out_run = (\<lambda>w c. \<lparr>we_context = core.cpu_state c w, we_hw = core_hw c, we_values = 0x8400006b # replicate 17 0,
        we_reason = RUN_RESULT_SMC, we_esr = 0\<rparr>),
      out_pending = None, out_acknowledged = None\<rparr>"

lemma fvp_rt_apart: "platform_apart fvp_rt"
  by (simp add: platform_apart_def fvp_rt_def DummyService_owns_def)

lemma fvp_rt_answers: "platform_answers fvp_rt"
  by (simp add: platform_answers_def fvp_rt_def default_smc_def)

theorem dispatch_order_irrelevant_witness:
  "handle_smc fvp_rt waits SmcReturn_EMPTY NonSecure fvp_services =
     handle_smc_in_order fvp_rt [RmmdSvc, TrngSvc, ErrataSvc, SpmdSvc, PlatformSvc, PsciSvc, ArchSvc]
       waits SmcReturn_EMPTY NonSecure fvp_services \<and>
   select_service fvp_rt (clear_sve_hint 0xC4010003) = select_service fvp_rt 0xC4010003"
proof -
  let ?order = "[RmmdSvc, TrngSvc, ErrataSvc, SpmdSvc, PlatformSvc, PsciSvc, ArchSvc]"
  have "mset ?order = mset all_services" by (simp add: all_services_def)
  from dispatch_order_irrelevant [OF fvp_rt_apart this] show ?thesis
    by (simp add: fvp_rt_def DummyService_owns_def)
qed

lemma msg_wait_owner: "select_service fvp_rt 0x8400006b = Some SpmdSvc"
  by (simp add: select_service_def psci_owns_def spmd_owns_def arch_owns_def owns_range_def owns_oen_def
      fvp_rt_def DummyService_owns_def oen_def fid_number_def call_type_def smccc_consts oen_consts
      FUNCTION_NUMBER_MIN_def FUNCTION_NUMBER_MAX_def)

lemma fvp_rt_decodes:
  "rt_cpu fvp_rt = 0" "arm_ffa.from_regs (spm_ffa (rt_spm fvp_rt)) v regs = Inr (MsgWait ())"
  by (simp_all add: fvp_rt_def)

lemma msg_wait_iteration:
  assumes "svc_spmd st = svc_spmd fvp_services" "PER_WORLD_CONTEXT (svc_core st) \<noteq> None"
  shows "\<exists>regs' st'. world_iteration fvp_rt waits Secure SmcReturn_EMPTY st = Some (Replies regs' NonSecure, st')"
proof -
  have "fid_valid 0x8400006b" "call_type 0x8400006b = Fast32"
    by (simp_all add: fid_valid_def call_type_def smccc_consts)
  then show ?thesis
    using assms msg_wait_owner
    by (auto simp: world_iteration_def enter_world_def waits_def world_context_def SmcReturn_EMPTY_def
        smc_is_empty_def mark_all_used_def mark_used_def MAX_VALUES_def handle_smc_def checked_index_def
        reg_values_def spmd_handle_secure_smc_def get_smc_regs_def fvp_services_def
        handle_secure_call_boot_def switch_spmc_local_state_def checked_update_def fvp_rt_decodes)
qed

theorem run_loop_worlds_witness:
  "\<exists>st regs' st'. run_loop fvp_rt fvp_services (BootingSecure, Secure, SmcReturn_EMPTY, st) \<and>
     per_world_loop fvp_rt Secure (SmcReturn_EMPTY, st) (NonSecure, regs', st') \<and> NonSecure \<noteq> Secure"
proof -
  let ?a = "aarch64_core True True"
  have pw: "PER_WORLD_CONTEXT fvp_boot_core \<noteq> None" and ok: "core_ok fvp_boot_core"
    by (simp_all add: fvp_boot_core_def initialise_per_world_contexts_def reset_core_def core_ok_def reset_hw_def
        SveCpuContext_EMPTY_def)
  then obtain wc where wc: "world_context fvp_boot_core Secure = Some wc"
    by (auto simp: world_context_def)
  let ?c = "upd_hw (\<lambda>h. h\<lparr>hw_scr_el3 := pw_scr_el3 wc\<rparr>) fvp_boot_core"
  have "core_ok ?c" "PER_WORLD_CONTEXT ?c \<noteq> None"
    using ok pw by (simp_all add: core_ok_def upd_hw_def)
  then obtain c where c: "restore_world ?a fvp_runtime Secure ?c = Some c"
      "PER_WORLD_CONTEXT c = PER_WORLD_CONTEXT ?c"
    using restore_world_spec [OF aarch64_write_svcr_ok fvp_extensions_separate, where c = ?c and w = Secure] by metis
  let ?st = "fvp_services\<lparr>svc_core := c\<rparr>"
  have "set_initial_world (rt_arch fvp_rt) (rt_plat fvp_rt) Secure (svc_core fvp_services) = Some c"
    using c(1) wc by (simp add: set_initial_world_def fvp_rt_def fvp_spm_def fvp_services_def)
  then have run: "run_loop fvp_rt fvp_services (BootingSecure, Secure, SmcReturn_EMPTY, ?st)"
    by (rule run_start)
  obtain regs' st' where "world_iteration fvp_rt waits Secure SmcReturn_EMPTY ?st = Some (Replies regs' NonSecure, st')"
    using msg_wait_iteration [of ?st] c(2) pw by (auto simp: upd_hw_def)
  then have loop: "per_world_loop fvp_rt Secure (SmcReturn_EMPTY, ?st) (NonSecure, regs', st')"
    by (rule loop_break) simp
  from run_loop_worlds [OF fvp_rt_answers run loop] run loop show ?thesis by blast
qed

end
