(* ===== verification/Early_Pagetable.thy ===== *)
theory Early_Pagetable
  imports Prelude
begin

text \<open>
  The page tables of the early boot, \<^verbatim>\<open>src/src/pagetable/early_pagetable.rs\<close>. At compile time the
  regions of a platform are turned into a list of \<open>DescriptorRange\<close>s, first to count them and then to
  build them; at boot the assembly of \<open>define_early_mapping!\<close> writes the tables out from that list.
  The memory of the tables is a function from addresses to doublewords.

  The list version \<open>table_ranges\<close> is the reference for both compile-time functions: they agree with
  it on the number and the content of the ranges, for every list of regions.
\<close>

section \<open>Regions and ranges\<close>

definition GRANULE_SIZE :: nat where "GRANULE_SIZE = 4096"
definition TOP_LEVEL_BLOCK_SIZE :: nat where "TOP_LEVEL_BLOCK_SIZE = 0x40000000"
definition TOP_LEVEL_DESCRIPTOR_COUNT :: nat where "TOP_LEVEL_DESCRIPTOR_COUNT = 512"

record EarlyRegion =
  region_start :: nat
  region_end :: nat
  region_attributes :: u64

record DescriptorRange =
  dr_index :: nat
  step_count :: nat
  dr_value :: u64

definition DescriptorRange_EMPTY :: DescriptorRange where
  "DescriptorRange_EMPTY = \<lparr>dr_index = 0, step_count = 0, dr_value = 0\<rparr>"

definition overlaps :: "nat \<times> nat \<Rightarrow> nat \<times> nat \<Rightarrow> bool" where
  "overlaps a b \<longleftrightarrow> max (fst a) (fst b) < min (snd a) (snd b)"

text \<open>The loop over the regions for one block: it ends at the first region that covers or overlaps it.\<close>

datatype region_match = NoMatch | Covers EarlyRegion | Overlaps

fun match_region :: "EarlyRegion list \<Rightarrow> nat \<times> nat \<Rightarrow> region_match" where
  "match_region [] block = NoMatch"
| "match_region (r # regions) block =
     (if region_start r \<le> fst block \<and> snd block \<le> region_end r then Covers r
      else if overlaps block (region_start r, region_end r) then Overlaps
      else match_region regions block)"

text \<open>The block of a descriptor, and the number of further descriptors that one range stands for.\<close>

definition block_at :: "nat \<Rightarrow> nat \<Rightarrow> nat \<Rightarrow> nat \<times> nat" where
  "block_at block_base_address block_size descriptor_index =
     (block_base_address + descriptor_index * block_size, block_base_address + (descriptor_index + 1) * block_size)"

definition repeat_count :: "EarlyRegion \<Rightarrow> nat \<times> nat \<Rightarrow> nat \<Rightarrow> nat \<Rightarrow> nat \<Rightarrow> nat" where
  "repeat_count r block block_size descriptor_count descriptor_index =
     min ((region_end r - snd block) div block_size) (descriptor_count - descriptor_index)"

definition block_range :: "EarlyRegion \<Rightarrow> nat \<times> nat \<Rightarrow> nat \<Rightarrow> nat \<Rightarrow> nat \<Rightarrow> DescriptorRange" where
  "block_range r block block_size entry repeats =
     \<lparr>dr_index = entry * 8, step_count = block_size OR (repeats + 1),
      dr_value = of_nat (fst block) OR region_attributes r OR (if GRANULE_SIZE = block_size then 3 else 1)\<rparr>"

definition table_range :: "nat \<Rightarrow> nat \<Rightarrow> DescriptorRange" where
  "table_range entry next_table = \<lparr>dr_index = entry * 8, step_count = 0, dr_value = of_nat (next_table * 8) OR 3\<rparr>"

section \<open>Building the ranges\<close>

text \<open>
  The loop over the descriptors of a table. Its state is the array of ranges, the next free index of
  it, the number of entries used so far and the index of the descriptor.
\<close>

function build_loop ::
  "EarlyRegion list \<Rightarrow> DescriptorRange list \<Rightarrow> nat \<Rightarrow> nat \<Rightarrow> nat \<Rightarrow> nat \<Rightarrow> nat \<Rightarrow> nat \<Rightarrow> nat \<Rightarrow>
     (nat \<times> nat \<times> DescriptorRange list) option" where
  "build_loop regions ranges output_index start_entry block_base_address block_size descriptor_count used_entry_count
       descriptor_index =
     (if descriptor_count \<le> descriptor_index then Some (used_entry_count, output_index, ranges)
      else
        let block = block_at block_base_address block_size descriptor_index in
        case match_region regions block of
          NoMatch \<Rightarrow>
            build_loop regions ranges output_index start_entry block_base_address block_size descriptor_count
              used_entry_count (descriptor_index + 1)
        | Covers r \<Rightarrow>
            let repeats = repeat_count r block block_size descriptor_count descriptor_index in
            do {
              ranges' \<leftarrow> checked_update ranges output_index
                (block_range r block block_size (descriptor_index + start_entry) repeats);
              build_loop regions ranges' (output_index + 1) start_entry block_base_address block_size
                descriptor_count used_entry_count (descriptor_index + repeats + 1) }
        | Overlaps \<Rightarrow>
            let next_descriptor_count = GRANULE_SIZE div 8 in
            if \<not> GRANULE_SIZE \<le> block_size div next_descriptor_count then None
            else do {
              ranges' \<leftarrow> checked_update ranges output_index
                (table_range (descriptor_index + start_entry) (start_entry + used_entry_count));
              (new_entry_count, new_output_index, ranges'') \<leftarrow>
                build_loop regions ranges' (output_index + 1) (start_entry + used_entry_count) (fst block)
                  (block_size div next_descriptor_count) next_descriptor_count (GRANULE_SIZE div 8) 0;
              build_loop regions ranges'' new_output_index start_entry block_base_address block_size
                descriptor_count (used_entry_count + new_entry_count) (descriptor_index + 1) })"
  by pat_completeness auto

lemma next_block_size_less: "GRANULE_SIZE \<le> bs div (GRANULE_SIZE div 8) \<Longrightarrow> bs div (GRANULE_SIZE div 8) < bs"
  by (cases bs) (simp_all add: GRANULE_SIZE_def)

termination build_loop
  by (relation "measures [\<lambda>(_, _, _, _, _, bs, _). bs, \<lambda>(_, _, _, _, _, _, dc, _, di). dc - di]")
    (auto simp: next_block_size_less)

declare build_loop.simps [simp del]

definition build_ranges_for_table ::
  "EarlyRegion list \<Rightarrow> DescriptorRange list \<Rightarrow> nat \<Rightarrow> nat \<Rightarrow> nat \<Rightarrow> nat \<Rightarrow> nat \<Rightarrow>
     (nat \<times> nat \<times> DescriptorRange list) option" where
  "build_ranges_for_table regions ranges output_index start_entry block_base_address block_size descriptor_count =
     build_loop regions ranges output_index start_entry block_base_address block_size descriptor_count
       (GRANULE_SIZE div 8) 0"

definition build_ranges :: "nat \<Rightarrow> EarlyRegion list \<Rightarrow> (DescriptorRange list \<times> nat) option" where
  "build_ranges N regions =
     do {
       (entry_count, _, ranges) \<leftarrow> build_ranges_for_table regions (replicate N DescriptorRange_EMPTY) 0 0 0
         TOP_LEVEL_BLOCK_SIZE TOP_LEVEL_DESCRIPTOR_COUNT;
       Some (ranges, entry_count * 8)
     }"

section \<open>Counting the ranges\<close>

text \<open>The granule size, an argument of the counting function, is \<open>GRANULE_SIZE\<close> in its only call.\<close>

function count_loop :: "EarlyRegion list \<Rightarrow> nat \<Rightarrow> nat \<Rightarrow> nat \<Rightarrow> nat \<Rightarrow> nat \<Rightarrow> nat option" where
  "count_loop regions block_base_address block_size descriptor_count count descriptor_index =
     (if descriptor_count \<le> descriptor_index then Some count
      else
        let block = block_at block_base_address block_size descriptor_index in
        case match_region regions block of
          NoMatch \<Rightarrow> count_loop regions block_base_address block_size descriptor_count count (descriptor_index + 1)
        | Covers r \<Rightarrow>
            count_loop regions block_base_address block_size descriptor_count (count + 1)
              (descriptor_index + repeat_count r block block_size descriptor_count descriptor_index + 1)
        | Overlaps \<Rightarrow>
            let next_descriptor_count = GRANULE_SIZE div 8 in
            if \<not> GRANULE_SIZE \<le> block_size div next_descriptor_count then None
            else do {
              n \<leftarrow> count_loop regions (fst block) (block_size div next_descriptor_count) next_descriptor_count 0 0;
              count_loop regions block_base_address block_size descriptor_count (count + (n + 1))
                (descriptor_index + 1) })"
  by pat_completeness auto

termination count_loop
  by (relation "measures [\<lambda>(_, _, bs, _). bs, \<lambda>(_, _, _, dc, _, di). dc - di]") (auto simp: next_block_size_less)

declare count_loop.simps [simp del]

definition get_range_count_of_table :: "EarlyRegion list \<Rightarrow> nat \<Rightarrow> nat \<Rightarrow> nat \<Rightarrow> nat option" where
  "get_range_count_of_table regions block_base_address block_size descriptor_count =
     count_loop regions block_base_address block_size descriptor_count 0 0"

definition get_range_count :: "EarlyRegion list \<Rightarrow> nat option" where
  "get_range_count regions = get_range_count_of_table regions 0 TOP_LEVEL_BLOCK_SIZE TOP_LEVEL_DESCRIPTOR_COUNT"

section \<open>Writing the tables\<close>

type_synonym memory = "nat \<Rightarrow> u64"

text \<open>
  The assembly of \<open>init_early_page_tables\<close>. The loop over the descriptors of a range ends when the
  index meets the end index, and never does so for a count of zero.
\<close>

primrec block_descriptor_loop :: "nat \<Rightarrow> nat \<Rightarrow> u64 \<Rightarrow> u64 \<Rightarrow> nat \<Rightarrow> memory \<Rightarrow> memory option" where
  "block_descriptor_loop 0 index value' step table_base m = None"
| "block_descriptor_loop (Suc n) index value' step table_base m =
     (let m' = m(table_base + index := value') in
      if n = 0 then Some m' else block_descriptor_loop n (index + 8) (value' + step) step table_base m')"

definition write_range :: "nat \<Rightarrow> DescriptorRange \<Rightarrow> memory \<Rightarrow> memory option" where
  "write_range table_base r m =
     (if step_count r = 0
      then Some (m(table_base + dr_index r := of_nat table_base + dr_value r))
      else let count = step_count r AND (GRANULE_SIZE - 1);
               step = step_count r - count
           in block_descriptor_loop count (dr_index r) (dr_value r) (of_nat step) table_base m)"

primrec write_ranges :: "nat \<Rightarrow> DescriptorRange list \<Rightarrow> memory \<Rightarrow> memory option" where
  "write_ranges table_base [] m = Some m"
| "write_ranges table_base (r # ranges) m =
     do { m' \<leftarrow> write_range table_base r m; write_ranges table_base ranges m' }"

text \<open>The list is read before its end is tested, so an empty one is not a valid input.\<close>

definition init_early_page_tables :: "DescriptorRange list \<Rightarrow> nat \<Rightarrow> memory \<Rightarrow> memory option" where
  "init_early_page_tables ranges table_base m =
     (if ranges = [] then None else write_ranges table_base ranges m)"

section \<open>The ranges as a list\<close>

text \<open>The ranges of a table, with those of the tables below it where their table descriptor is.\<close>

function table_ranges ::
  "EarlyRegion list \<Rightarrow> nat \<Rightarrow> nat \<Rightarrow> nat \<Rightarrow> nat \<Rightarrow> nat \<Rightarrow> nat \<Rightarrow> (nat \<times> DescriptorRange list) option" where
  "table_ranges regions start base bs dc used di =
     (if dc \<le> di then Some (used, [])
      else case match_region regions (block_at base bs di) of
          NoMatch \<Rightarrow> table_ranges regions start base bs dc used (di + 1)
        | Covers r \<Rightarrow>
            let n = repeat_count r (block_at base bs di) bs dc di in
            map_option (apsnd (Cons (block_range r (block_at base bs di) bs (di + start) n)))
              (table_ranges regions start base bs dc used (di + n + 1))
        | Overlaps \<Rightarrow>
            if \<not> GRANULE_SIZE \<le> bs div (GRANULE_SIZE div 8) then None
            else do {
              (new, sub) \<leftarrow> table_ranges regions (start + used) (base + di * bs) (bs div (GRANULE_SIZE div 8))
                (GRANULE_SIZE div 8) (GRANULE_SIZE div 8) 0;
              map_option (apsnd (\<lambda>rs. table_range (di + start) (start + used) # sub @ rs))
                (table_ranges regions start base bs dc (used + new) (di + 1)) })"
  by pat_completeness auto

termination table_ranges
  by (relation "measures [\<lambda>(_, _, _, bs, _). bs, \<lambda>(_, _, _, _, dc, _, di). dc - di]")
    (auto simp: next_block_size_less)

declare table_ranges.simps [simp del]

definition early_ranges :: "EarlyRegion list \<Rightarrow> (nat \<times> DescriptorRange list) option" where
  "early_ranges regions =
     table_ranges regions 0 0 TOP_LEVEL_BLOCK_SIZE TOP_LEVEL_DESCRIPTOR_COUNT (GRANULE_SIZE div 8) 0"

text \<open>The step of each loop at a descriptor that needs a table.\<close>

lemma overlaps_step:
  assumes "\<not> dc \<le> di" "match_region regions (block_at base bs di) = Overlaps"
    "GRANULE_SIZE \<le> bs div (GRANULE_SIZE div 8)"
  shows "count_loop regions base bs dc count di =
      do {
        n \<leftarrow> count_loop regions (base + di * bs) (bs div (GRANULE_SIZE div 8)) (GRANULE_SIZE div 8) 0 0;
        count_loop regions base bs dc (count + (n + 1)) (di + 1) }"
    and "table_ranges regions start base bs dc used di =
      do {
        (new, sub) \<leftarrow> table_ranges regions (start + used) (base + di * bs) (bs div (GRANULE_SIZE div 8))
          (GRANULE_SIZE div 8) (GRANULE_SIZE div 8) 0;
        map_option (apsnd (\<lambda>rs. table_range (di + start) (start + used) # sub @ rs))
          (table_ranges regions start base bs dc (used + new) (di + 1)) }"
    and "build_loop regions ranges oi start base bs dc used di =
      do {
        ranges' \<leftarrow> checked_update ranges oi (table_range (di + start) (start + used));
        (new, oi', ranges'') \<leftarrow> build_loop regions ranges' (oi + 1) (start + used) (base + di * bs)
          (bs div (GRANULE_SIZE div 8)) (GRANULE_SIZE div 8) (GRANULE_SIZE div 8) 0;
        build_loop regions ranges'' oi' start base bs dc (used + new) (di + 1) }"
  using assms(2)
  by (simp_all add: assms(1,3) Let_def block_at_def count_loop.simps [of regions base bs dc count di]
      table_ranges.simps [of regions start base bs dc used di]
      build_loop.simps [of regions ranges oi start base bs dc used di])

lemma covers_step:
  assumes "\<not> dc \<le> di" "match_region regions (block_at base bs di) = Covers r"
    "n = repeat_count r (block_at base bs di) bs dc di"
  shows "table_ranges regions start base bs dc used di =
      map_option (apsnd (Cons (block_range r (block_at base bs di) bs (di + start) n)))
        (table_ranges regions start base bs dc used (di + n + 1))"
    and "build_loop regions ranges oi start base bs dc used di =
      do {
        ranges' \<leftarrow> checked_update ranges oi (block_range r (block_at base bs di) bs (di + start) n);
        build_loop regions ranges' (oi + 1) start base bs dc used (di + n + 1) }"
  using assms(2)
  by (simp_all add: assms(1,3) Let_def table_ranges.simps [of regions start base bs dc used di]
      build_loop.simps [of regions ranges oi start base bs dc used di])

lemma no_match_step:
  assumes "\<not> dc \<le> di" "match_region regions (block_at base bs di) = NoMatch"
  shows "table_ranges regions start base bs dc used di = table_ranges regions start base bs dc used (di + 1)"
    and "build_loop regions ranges oi start base bs dc used di = build_loop regions ranges oi start base bs dc used (di + 1)"
  using assms(2)
  by (simp_all add: assms(1) Let_def table_ranges.simps [of regions start base bs dc used di]
      build_loop.simps [of regions ranges oi start base bs dc used di])

lemma count_loop_ranges:
  "count_loop regions base bs dc count di =
     map_option (\<lambda>(_, rs). count + length rs) (table_ranges regions start base bs dc used di)"
proof (induction regions base bs dc count di arbitrary: start used rule: count_loop.induct)
  case (1 regions base bs dc count di)
  show ?case
  proof (cases "dc \<le> di")
    case True
    then show ?thesis by (simp add: count_loop.simps table_ranges.simps)
  next
    case False
    note ih = "1.IH" [OF False refl]
    show ?thesis
    proof (cases "match_region regions (block_at base bs di)")
      case NoMatch
      then show ?thesis
        using False ih(1) [OF NoMatch]
        by (simp add: count_loop.simps [of _ base] table_ranges.simps [of _ _ base])
    next
      case (Covers r)
      then show ?thesis
        using False ih(2) [OF Covers]
        by (simp add: count_loop.simps [of _ base] table_ranges.simps [of _ _ base] Let_def option.map_comp o_def
            split_beta)
    next
      case Overlaps
      show ?thesis
      proof (cases "GRANULE_SIZE \<le> bs div (GRANULE_SIZE div 8)")
        case True
        then show ?thesis
          using False Overlaps ih(3) [OF Overlaps refl, of "start + used" "GRANULE_SIZE div 8"] ih(4) [OF Overlaps refl]
          by (cases "table_ranges regions (start + used) (base + di * bs) (bs div (GRANULE_SIZE div 8))
                (GRANULE_SIZE div 8) (GRANULE_SIZE div 8) 0")
            (simp_all add: overlaps_step block_at_def option.map_comp o_def split_beta add.assoc)
      qed (simp add: False Overlaps count_loop.simps table_ranges.simps)
    qed
  qed
qed

lemma get_range_count_ranges: "get_range_count regions = map_option (\<lambda>(_, rs). length rs) (early_ranges regions)"
  by (simp add: get_range_count_def get_range_count_of_table_def early_ranges_def
      count_loop_ranges [where start = 0 and used = "GRANULE_SIZE div 8"])

text \<open>A list with a part of it replaced.\<close>

definition splice_at :: "nat \<Rightarrow> 'a list \<Rightarrow> 'a list \<Rightarrow> 'a list" where
  "splice_at i ys xs = take i xs @ ys @ drop (i + length ys) xs"

lemma splice_at_Nil [simp]: "splice_at i [] xs = xs"
  by (simp add: splice_at_def)

lemma length_splice_at [simp]: "i + length ys \<le> length xs \<Longrightarrow> length (splice_at i ys xs) = length xs"
  by (simp add: splice_at_def)

lemma splice_at_update: "i < length xs \<Longrightarrow> splice_at (Suc i) ys (xs[i := y]) = splice_at i (y # ys) xs"
  by (simp add: splice_at_def take_Suc_conv_app_nth)

lemma splice_at_append:
  "i + length ys \<le> length xs \<Longrightarrow> splice_at (i + length ys) zs (splice_at i ys xs) = splice_at i (ys @ zs) xs"
  by (simp add: splice_at_def add.commute add.left_commute)

lemma build_loop_ranges:
  assumes "oi \<le> length ranges"
  shows "build_loop regions ranges oi start base bs dc used di =
    (case table_ranges regions start base bs dc used di of
       None \<Rightarrow> None
     | Some (u, rs) \<Rightarrow>
         if oi + length rs \<le> length ranges then Some (u, oi + length rs, splice_at oi rs ranges) else None)"
  using assms
proof (induction regions ranges oi start base bs dc used di rule: build_loop.induct)
  case (1 regions ranges oi start base bs dc used di)
  show ?case
  proof (cases "dc \<le> di")
    case True
    then show ?thesis using 1(5) by (simp add: build_loop.simps table_ranges.simps)
  next
    case False
    note ih = "1.IH" [OF False refl]
    show ?thesis
    proof (cases "match_region regions (block_at base bs di)")
      case NoMatch
      then show ?thesis
        using False ih(1) [OF NoMatch] 1(5)
        by (simp add: no_match_step)
    next
      case (Covers r)
      let ?n = "repeat_count r (block_at base bs di) bs dc di"
      let ?b = "block_range r (block_at base bs di) bs (di + start) ?n"
      note step = covers_step [OF False Covers refl]
      show ?thesis
      proof (cases "oi < length ranges")
        case True
        then show ?thesis
          using ih(2) [OF Covers refl, of "ranges[oi := ?b]"]
          by (simp add: step splice_at_update checked_update_def split: option.splits)
      qed (simp add: step checked_update_def split: option.splits)
    next
      case Overlaps
      show ?thesis
      proof (cases "GRANULE_SIZE \<le> bs div (GRANULE_SIZE div 8) \<and> oi < length ranges")
        case True
        let ?t = "table_range (di + start) (start + used)"
        let ?sub = "table_ranges regions (start + used) (base + di * bs) (bs div (GRANULE_SIZE div 8))
          (GRANULE_SIZE div 8) (GRANULE_SIZE div 8) 0"
        have sub: "build_loop regions (ranges[oi := ?t]) (oi + 1) (start + used) (base + di * bs)
              (bs div (GRANULE_SIZE div 8)) (GRANULE_SIZE div 8) (GRANULE_SIZE div 8) 0 =
            (case ?sub of None \<Rightarrow> None | Some (u, rs) \<Rightarrow>
               if Suc oi + length rs \<le> length ranges
               then Some (u, Suc oi + length rs, splice_at oi (?t # rs) ranges) else None)"
          using ih(3) [OF Overlaps refl, of "ranges[oi := ?t]"] True
          by (simp add: block_at_def checked_update_def splice_at_update split: option.splits)
        show ?thesis
        proof (cases ?sub)
          case None
          then show ?thesis using sub Overlaps True False
            by (simp add: overlaps_step checked_update_def)
        next
          case (Some x)
          then obtain new rs where x: "?sub = Some (new, rs)" by (cases x) auto
          let ?ranges = "splice_at oi (?t # rs) ranges"
          let ?rest = "table_ranges regions start base bs dc (used + new) (di + 1)"
          have tr: "table_ranges regions start base bs dc used di = map_option (apsnd (\<lambda>rs'. ?t # rs @ rs')) ?rest"
            using overlaps_step(2) [OF False Overlaps] True x by simp
          have bl: "build_loop regions ranges oi start base bs dc used di =
              (if Suc oi + length rs \<le> length ranges
               then build_loop regions ?ranges (Suc oi + length rs) start base bs dc (used + new) (di + 1) else None)"
            using overlaps_step(3) [OF False Overlaps] True sub x by (simp add: checked_update_def)
          show ?thesis
          proof (cases "Suc oi + length rs \<le> length ranges")
            case fits: True
            then have "build_loop regions ?ranges (Suc oi + length rs) start base bs dc (used + new) (di + 1) =
                (case ?rest of None \<Rightarrow> None | Some (u, rs') \<Rightarrow>
                   if Suc oi + length rs + length rs' \<le> length ?ranges
                   then Some (u, Suc oi + length rs + length rs', splice_at (Suc oi + length rs) rs' ?ranges) else None)"
              using ih(4) [OF Overlaps refl, of "ranges[oi := ?t]" "(new, Suc oi + length rs, ?ranges)" new
                  "(Suc oi + length rs, ?ranges)" "Suc oi + length rs" ?ranges] True sub x
              by (simp add: checked_update_def block_at_def)
            then show ?thesis
              using fits tr bl splice_at_append [of oi "?t # rs" ranges]
              by (cases ?rest) (simp_all add: split_beta)
          next
            case False
            then show ?thesis using tr bl by (cases ?rest) (simp_all add: split_beta)
          qed
        qed
      next
        case nofit: False
        show ?thesis
        proof (cases "GRANULE_SIZE \<le> bs div (GRANULE_SIZE div 8)")
          case True
          then show ?thesis using nofit Overlaps False
            by (auto simp: overlaps_step checked_update_def bind_eq_Some_conv split: option.splits)
        qed (use Overlaps False in \<open>subst build_loop.simps, subst table_ranges.simps, simp\<close>)
      qed
    qed
  qed
qed

lemma build_ranges_list:
  "build_ranges N regions =
    (case early_ranges regions of
       None \<Rightarrow> None
     | Some (used, rs) \<Rightarrow>
         if length rs \<le> N then Some (rs @ replicate (N - length rs) DescriptorRange_EMPTY, used * 8) else None)"
  by (simp add: build_ranges_def build_ranges_for_table_def build_loop_ranges early_ranges_def splice_at_def
      split: option.splits)

end
