(* ===== verification/Early_Pagetable_Laws.thy ===== *)
theory Early_Pagetable_Laws
  imports Early_Pagetable
begin

text \<open>
  What the early page tables map. A table walk of the architecture (VMSAv8-64, 4 KB granule, 39 bits
  of virtual address) over the tables that \<open>init_early_page_tables\<close> writes is compared with the list of
  regions, level by level.
\<close>

section \<open>The table walk of the architecture\<close>

text \<open>The size of a block of a table with \<open>k\<close> levels below it.\<close>

definition level_size :: "nat \<Rightarrow> nat" where
  "level_size k = 4096 * 512 ^ k"

definition leaf :: "u64 \<Rightarrow> nat \<Rightarrow> nat \<Rightarrow> nat \<times> u64" where
  "leaf d bs va = (unat (take_bit 48 d) div bs * bs + va mod bs, d AND NOT 0x0000FFFFFFFFF002)"

definition next_table :: "u64 \<Rightarrow> nat" where
  "next_table d = unat (take_bit 48 d) div 4096 * 4096"

text \<open>The output address and the attributes, or \<open>None\<close> for a translation fault.\<close>

primrec walk :: "memory \<Rightarrow> nat \<Rightarrow> nat \<Rightarrow> nat \<Rightarrow> (nat \<times> u64) option" where
  "walk m 0 table va =
     (let d = m (table + 8 * (va div level_size 0 mod 512))
      in if bit d 0 \<and> bit d 1 then Some (leaf d (level_size 0) va) else None)"
| "walk m (Suc k) table va =
     (let d = m (table + 8 * (va div level_size (Suc k) mod 512))
      in if \<not> bit d 0 then None
         else if bit d 1 then walk m k (next_table d) va
         else Some (leaf d (level_size (Suc k)) va))"

text \<open>What the regions ask for.\<close>

definition mapping :: "EarlyRegion list \<Rightarrow> nat \<Rightarrow> (nat \<times> u64) option" where
  "mapping regions va =
     map_option (\<lambda>r. (va, region_attributes r OR 1)) (find (\<lambda>r. region_start r \<le> va \<and> va < region_end r) regions)"

text \<open>
  The regions that the early page tables support: whole pages below 512 GB whose attributes leave
  the address bits alone, disjoint from each other; and a region whose start is not aligned to the
  blocks of a level does not continue past the end of the block in which it starts.
\<close>

definition region_ok :: "EarlyRegion \<Rightarrow> bool" where
  "region_ok r \<longleftrightarrow> region_start r < region_end r \<and> 4096 dvd region_start r \<and> 4096 dvd region_end r \<and>
     region_end r \<le> 2 ^ 39 \<and> region_attributes r AND 0x0000FFFFFFFFF002 = 0 \<and>
     (\<forall>k \<in> {1, 2}. level_size k dvd region_start r \<or>
        region_end r \<le> (region_start r div level_size k + 1) * level_size k)"

definition apart :: "EarlyRegion \<Rightarrow> EarlyRegion \<Rightarrow> bool" where
  "apart r r' \<longleftrightarrow> region_end r \<le> region_start r' \<or> region_end r' \<le> region_start r"

definition regions_ok :: "EarlyRegion list \<Rightarrow> bool" where
  "regions_ok regions \<longleftrightarrow> list_all region_ok regions \<and> sorted_wrt apart regions"

section \<open>Regions of an address and of a block\<close>

lemma apart_pairs:
  "sorted_wrt apart regions \<Longrightarrow> r \<in> set regions \<Longrightarrow> r' \<in> set regions \<Longrightarrow> r \<noteq> r' \<Longrightarrow> apart r r'"
  by (induction regions) (auto simp: apart_def)

lemma region_unique:
  assumes "regions_ok regions" "r \<in> set regions" "r' \<in> set regions"
    "region_start r \<le> va" "va < region_end r" "region_start r' \<le> va" "va < region_end r'"
  shows "r = r'"
  using apart_pairs [of regions r r'] assms by (auto simp: regions_ok_def apart_def)

lemma mapping_in:
  assumes "regions_ok regions" "r \<in> set regions" "region_start r \<le> va" "va < region_end r"
  shows "mapping regions va = Some (va, region_attributes r OR 1)"
proof -
  obtain r' where "find (\<lambda>r. region_start r \<le> va \<and> va < region_end r) regions = Some r'"
    using assms(2-4) by (cases "find (\<lambda>r. region_start r \<le> va \<and> va < region_end r) regions")
      (auto simp: find_None_iff)
  moreover from this have "r' = r"
    using region_unique [OF assms(1) _ assms(2)] assms(3,4) by (auto simp: find_Some_iff)
  ultimately show ?thesis by (simp add: mapping_def)
qed

lemma mapping_out:
  "(\<forall>r \<in> set regions. va < region_start r \<or> region_end r \<le> va) \<Longrightarrow> mapping regions va = None"
  by (auto simp: mapping_def find_None_iff)

lemma match_covers:
  "match_region regions (b, e) = Covers r \<Longrightarrow> r \<in> set regions \<and> region_start r \<le> b \<and> e \<le> region_end r"
  by (induction regions) (auto split: if_splits)

lemma match_none:
  "match_region regions (b, e) = NoMatch \<Longrightarrow> b < e \<Longrightarrow> r \<in> set regions \<Longrightarrow>
     region_start r < region_end r \<Longrightarrow> region_end r \<le> b \<or> e \<le> region_start r"
  by (induction regions) (auto simp: overlaps_def split: if_splits)

lemma match_overlaps:
  assumes "match_region regions (b, e) = Overlaps"
  shows "\<exists>r \<in> set regions. \<not> (region_start r \<le> b \<and> e \<le> region_end r) \<and> region_start r < e \<and> b < region_end r"
  using assms by (induction regions) (auto simp: overlaps_def split: if_splits)

lemma overlaps_not_covered:
  assumes "regions_ok regions" "match_region regions (b, e) = Overlaps" "b < e" "r \<in> set regions"
  shows "\<not> (region_start r \<le> b \<and> e \<le> region_end r)"
proof
  assume r: "region_start r \<le> b \<and> e \<le> region_end r"
  obtain r' where r': "r' \<in> set regions" "\<not> (region_start r' \<le> b \<and> e \<le> region_end r')" "region_start r' < e"
      "b < region_end r'"
    using match_overlaps [OF assms(2)] by auto
  then have "apart r r'" using apart_pairs [of regions r r'] assms(1,4) r by (auto simp: regions_ok_def)
  then show False using r r' assms(3) by (auto simp: apart_def)
qed

lemma match_none_if:
  "b < e \<Longrightarrow> \<forall>r \<in> set regions. region_end r \<le> b \<or> e \<le> region_start r \<Longrightarrow> match_region regions (b, e) = NoMatch"
  by (induction regions) (auto simp: overlaps_def)

text \<open>A run of descriptors that no region touches adds nothing.\<close>

lemma untouched_run:
  assumes "0 < bs" "di \<le> dj" "dj \<le> dc"
    "\<forall>r \<in> set regions. region_end r \<le> base + di * bs \<or> base + dj * bs \<le> region_start r"
  shows "table_ranges regions start base bs dc used di = table_ranges regions start base bs dc used dj"
  using assms(2-4)
proof (induction rule: inc_induct)
  case (step i)
  have "(i + 1) * bs \<le> dj * bs" using step.hyps by (intro mult_le_mono1) simp
  moreover have "i * bs < (i + 1) * bs" using assms(1) by simp
  ultimately have "match_region regions (block_at base bs i) = NoMatch"
    unfolding block_at_def using step.prems by (intro match_none_if) force+
  then have "table_ranges regions start base bs dc used i = table_ranges regions start base bs dc used (i + 1)"
    using step.hyps step.prems by (intro no_match_step) auto
  also have "\<dots> = table_ranges regions start base bs dc used dj"
    using step.IH step.prems \<open>i * bs < (i + 1) * bs\<close> by force
  finally show ?case .
qed simp

section \<open>Descriptors\<close>

lemma address_bits:
  fixes a :: nat
  assumes "4096 dvd a" "a < 2 ^ 48"
  shows "bit (of_nat a :: u64) n \<Longrightarrow> 12 \<le> n \<and> n < 48"
proof -
  have "take_bit 12 a = 0" "take_bit 48 a = a"
    using assms by (simp_all add: take_bit_eq_mod)
  then have "\<not> bit a n" if "n < 12 \<or> 48 \<le> n"
    using that by (metis bit_0_eq bit_take_bit_iff bot_apply bot_bool_def linorder_not_less)
  then show "bit (of_nat a :: u64) n \<Longrightarrow> 12 \<le> n \<and> n < 48"
    by (meson bit_of_nat_iff leI)
qed

lemma address_mask_bits: "bit (0x0000FFFFFFFFF000 :: u64) n \<longleftrightarrow> 12 \<le> n \<and> n < 48"
proof -
  have "(0x0000FFFFFFFFF000 :: u64) = push_bit 12 (mask 36)" by (simp add: push_bit_eq_mult mask_eq_exp_minus_1)
  moreover have "bit (push_bit 12 (mask 36) :: u64) n \<longleftrightarrow> 12 \<le> n \<and> n < 48" by (auto simp: bit_simps)
  ultimately show ?thesis by simp
qed

lemma flag_bits: "fl AND 0x0000FFFFFFFFF000 = 0 \<Longrightarrow> 12 \<le> n \<Longrightarrow> n < 48 \<Longrightarrow> \<not> bit (fl :: u64) n"
  using bit_and_iff [of fl "0x0000FFFFFFFFF000" n] address_mask_bits [of n] by auto

lemma low_bits: "unat (take_bit 12 (fl :: u64)) < 4096"
  using take_bit_nat_less_exp [of 12 "unat fl"] by (simp only: unsigned_take_bit_eq) simp

lemma descriptor_add:
  assumes "4096 dvd a" "4096 dvd b" "a + b < 2 ^ 48" "fl AND 0x0000FFFFFFFFF000 = 0"
  shows "(of_nat a OR fl) + of_nat b = (of_nat (a + b) OR fl :: u64)"
proof -
  have plus: "of_nat c + fl = of_nat c OR fl" if "4096 dvd c" "c < 2 ^ 48" for c
    using that by (intro disjunctive_add) (metis address_bits flag_bits assms(4))
  show ?thesis
    using plus [of a, symmetric] plus [of "a + b", symmetric] assms by (simp add: add.assoc add.left_commute)
qed

lemma descriptor_bits:
  assumes "4096 dvd a" "a < 2 ^ 48" "n < 12"
  shows "bit (of_nat a OR fl :: u64) n \<longleftrightarrow> bit fl n"
  using address_bits [OF assms(1,2), of n] assms(3) by (auto simp: bit_or_iff)

lemma descriptor_address:
  assumes "4096 dvd a" "a < 2 ^ 48" "fl AND 0x0000FFFFFFFFF000 = 0"
  shows "unat (take_bit 48 (of_nat a OR fl :: u64)) = a + unat (take_bit 12 fl)"
proof -
  have "take_bit 48 (of_nat a OR fl :: u64) = of_nat a OR take_bit 12 fl"
    using address_bits [OF assms(1,2)] flag_bits [OF assms(3)]
    by (intro bit_eqI) (auto simp: bit_or_iff bit_take_bit_iff intro: leI)
  also have "\<dots> = of_nat a + take_bit 12 fl"
    using address_bits [OF assms(1,2)] by (intro disjunctive_add [symmetric]) (auto simp: bit_take_bit_iff not_less)
  finally have eq: "take_bit 48 (of_nat a OR fl :: u64) = of_nat a + take_bit 12 fl" .
  note low_bits [of fl]
  moreover have "unat (of_nat a :: u64) = a" using assms(2) by (simp add: unat_of_nat)
  ultimately show ?thesis
    unfolding eq using assms(2) by (simp add: unat_word_ariths)
qed

lemma descriptor_leaf:
  assumes "bs dvd a" "4096 dvd bs" "a < 2 ^ 48" "fl AND 0x0000FFFFFFFFF000 = 0" "a \<le> va" "va < a + bs"
  shows "leaf (of_nat a OR fl) bs va = (va, fl AND NOT 2)"
proof -
  have a: "4096 dvd a" using assms(1,2) by (rule dvd_trans [rotated])
  note low_bits [of fl]
  moreover have "4096 \<le> bs" using assms(2,5,6) by (intro dvd_imp_le) auto
  ultimately have low: "unat (take_bit 12 fl) < bs" by simp
  obtain q where q: "a = bs * q" using assms(1) by auto
  have "va div bs = q" using assms(5,6) q by (intro div_nat_eqI) (auto simp: algebra_simps)
  then have "(a + unat (take_bit 12 fl)) div bs * bs + va mod bs = va"
    using low q div_mult_mod_eq [of va bs] by (simp add: mult.commute)
  moreover have "(of_nat a OR fl) AND NOT 0x0000FFFFFFFFF002 = fl AND NOT 2"
  proof (rule bit_eqI)
    fix n
    have "(0x0000FFFFFFFFF002 :: u64) = 0x0000FFFFFFFFF000 OR 2" by simp
    then show "bit ((of_nat a OR fl) AND NOT 0x0000FFFFFFFFF002) n = bit (fl AND NOT 2 :: u64) n"
      using address_bits [OF a assms(3), of n] flag_bits [OF assms(4), of n]
      by (auto simp only: bit_and_iff bit_or_iff bit_not_iff address_mask_bits)
  qed
  ultimately show ?thesis by (simp only: leaf_def descriptor_address [OF a assms(3,4)])
qed

lemma descriptor_next:
  assumes "4096 dvd a" "a < 2 ^ 48"
  shows "next_table (of_nat a OR 3) = a"
  using descriptor_address [OF assms, of 3] assms(1) by (auto simp: next_table_def take_bit_eq_mod unat_mod elim!: dvdE)

section \<open>Writing ranges\<close>

text \<open>The entries a table occupies from descriptor \<open>di\<close> on, with the tables below it.\<close>

definition footprint :: "nat \<Rightarrow> nat \<Rightarrow> nat \<Rightarrow> nat \<Rightarrow> nat set" where
  "footprint start di used u = {start + di..<start + 512} \<union> {start + used..<start + u}"

lemma block_loop_effect:
  "\<exists>m'. block_descriptor_loop (Suc n) (8 * e) v s tb m = Some m' \<and>
     (\<forall>j \<le> n. m' (tb + 8 * (e + j)) = v + of_nat j * s) \<and>
     (\<forall>a. (\<forall>j \<le> n. a \<noteq> tb + 8 * (e + j)) \<longrightarrow> m' a = m a)"
proof (induction n arbitrary: e v m)
  case 0
  then show ?case by simp
next
  case (Suc n)
  let ?m = "m(tb + 8 * e := v)"
  obtain m' where m': "block_descriptor_loop (Suc n) (8 * Suc e) (v + s) s tb ?m = Some m'"
      "\<And>j. j \<le> n \<Longrightarrow> m' (tb + 8 * (Suc e + j)) = v + s + of_nat j * s"
      "\<And>a. \<forall>j \<le> n. a \<noteq> tb + 8 * (Suc e + j) \<Longrightarrow> m' a = ?m a"
    using Suc.IH [of "Suc e" "v + s" ?m] by blast
  have "m' (tb + 8 * (e + j)) = v + of_nat j * s" if "j \<le> Suc n" for j
    using that m'(2) m'(3) by (cases j) (auto simp: algebra_simps)
  moreover have "m' a = m a" if "\<forall>j \<le> Suc n. a \<noteq> tb + 8 * (e + j)" for a
  proof -
    have "a \<noteq> tb + 8 * (Suc e + j)" if "j \<le> n" for j
      using \<open>\<forall>j \<le> Suc n. a \<noteq> tb + 8 * (e + j)\<close> that by (metis Suc_le_mono add_Suc_right add_Suc)
    then show ?thesis using m'(3) [of a] that by auto
  qed
  ultimately show ?case using m'(1) by (simp add: add.commute)
qed

lemma write_ranges_append:
  "write_ranges tb (xs @ ys) m = do { m' \<leftarrow> write_ranges tb xs m; write_ranges tb ys m' }"
  by (induction xs arbitrary: m) (simp_all add: Option.bind_assoc)

lemma step_count_fields:
  fixes bs c :: nat
  assumes "4096 dvd bs" "c < 4096"
  shows "(bs OR c) AND 4095 = c" "(bs OR c) - ((bs OR c) AND 4095) = bs"
proof -
  have take: "take_bit 12 bs = 0" "take_bit 12 c = c"
    using assms by (simp_all add: take_bit_eq_mod)
  have "\<not> bit bs n" if "n < 12" for n
    using that bit_take_bit_iff [of 12 bs n] take(1) by simp
  moreover have "\<not> bit c n" if "\<not> n < 12" for n
    using that bit_take_bit_iff [of 12 c n] take(2) by simp
  ultimately have "bs OR c = bs + c" by (intro disjunctive_add [symmetric]) blast
  then have eq: "(bs OR c) AND 4095 = c"
    using assms take_bit_eq_mask [of 12 "bs + c"] by (auto simp: take_bit_eq_mod mask_eq_exp_minus_1 elim!: dvdE)
  then show "(bs OR c) AND 4095 = c" "(bs OR c) - ((bs OR c) AND 4095) = bs"
    using \<open>bs OR c = bs + c\<close> by simp_all
qed

lemma level_size_simps:
  "level_size 0 = 4096" "level_size (Suc k) = 512 * level_size k" "4096 dvd level_size k" "0 < level_size k"
  by (simp_all add: level_size_def)

lemma level_size_dvd: "level_size (Suc k) dvd b \<Longrightarrow> level_size k dvd b" "level_size k dvd b \<Longrightarrow> 4096 dvd b"
  using dvd_mult_right [of 512 "level_size k" b] dvd_trans [OF level_size_simps(3)] by (simp_all add: level_size_simps(2))

section \<open>Tables\<close>

text \<open>The walk of an address of a block looks at the block's entry.\<close>

lemma block_index:
  assumes "level_size (Suc k) dvd base" "i < 512" "base + i * level_size k \<le> va" "va < base + (i + 1) * level_size k"
  shows "va div level_size k mod 512 = i"
proof -
  obtain q where "base = 512 * level_size k * q" using assms(1) by (auto simp: level_size_simps)
  then have "va div level_size k = 512 * q + i"
    using assms(3,4) by (intro div_nat_eqI) (auto simp: algebra_simps)
  then show ?thesis using assms(2) by simp
qed

lemma walk_zero:
  assumes "level_size (Suc k) dvd base" "i < 512" "base + i * level_size k \<le> va" "va < base + (i + 1) * level_size k"
    and "m (table + 8 * i) = 0"
  shows "walk m k table va = None"
  using assms(5) block_index [OF assms(1-4)] by (cases k) (simp_all add: Let_def)

lemma flags_clear:
  fixes at :: u64
  assumes "at AND 0x0000FFFFFFFFF002 = 0" "c \<in> {1, 3}"
  shows "(at OR c) AND 0x0000FFFFFFFFF000 = 0"
proof -
  have "at AND 0x0000FFFFFFFFF000 = (at AND 0x0000FFFFFFFFF002) AND 0x0000FFFFFFFFF000"
    by (simp add: and.assoc)
  then show ?thesis using assms by (auto simp: bit.conj_disj_distrib2)
qed

lemma walk_block:
  assumes "level_size (Suc k) dvd base" "i < 512" "base + i * level_size k \<le> va" "va < base + (i + 1) * level_size k"
    and "m (table + 8 * i) = of_nat (base + i * level_size k) OR at OR (if k = 0 then 3 else 1)"
    and "base + i * level_size k < 2 ^ 48" "at AND 0x0000FFFFFFFFF002 = 0"
  shows "walk m k table va = Some (va, at OR 1)"
proof -
  let ?a = "base + i * level_size k" and ?fl = "at OR (if k = 0 then 3 else 1)"
  have a: "level_size k dvd ?a" using level_size_dvd(1) [OF assms(1)] by simp
  have "bit (0x0000FFFFFFFFF002 :: u64) 1" by simp
  then have at1: "\<not> bit at 1" using assms(7) bit_and_iff [of at "0x0000FFFFFFFFF002" 1] by auto
  have fl: "?fl AND 0x0000FFFFFFFFF000 = 0" using flags_clear [OF assms(7)] by simp
  have "?fl AND NOT 2 = at OR 1"
  proof (rule bit_eqI)
    fix n assume "possible_bit TYPE(64 word) n"
    moreover have "(3 :: u64) = 1 OR 2" by simp
    ultimately show "bit (?fl AND NOT 2) n = bit (at OR 1) n"
      using at1 by (cases "n = 1") (auto simp only: bit_and_iff bit_or_iff bit_not_iff bit_2_iff bit_1_iff split: if_splits)
  qed
  then have "leaf (of_nat ?a OR ?fl) (level_size k) va = (va, at OR 1)"
    using descriptor_leaf [OF a _ assms(6) fl, of va] assms(3,4) level_size_simps(3) by (simp add: algebra_simps)
  moreover have "bit (of_nat ?a OR ?fl) 0" "bit (of_nat ?a OR ?fl) 1 \<longleftrightarrow> k = 0"
    using descriptor_bits [OF level_size_dvd(2) [OF a] assms(6), of 0 ?fl]
      descriptor_bits [OF level_size_dvd(2) [OF a] assms(6), of 1 ?fl] at1 by (auto simp: bit_or_iff)
  ultimately show ?thesis
    using assms(5) block_index [OF assms(1-4)] by (cases k) (simp_all add: Let_def or.assoc)
qed

lemma walk_table:
  assumes "level_size (Suc (Suc k)) dvd base" "i < 512" "base + i * level_size (Suc k) \<le> va"
      "va < base + (i + 1) * level_size (Suc k)"
    and "m (table + 8 * i) = of_nat a OR 3" "4096 dvd a" "a < 2 ^ 48"
  shows "walk m (Suc k) table va = walk m k a va"
  using assms(5) block_index [OF assms(1-4)] descriptor_bits [OF assms(6,7), of _ 3] descriptor_next [OF assms(6,7)]
  by (simp add: Let_def)

text \<open>
  The ranges of a table from a descriptor on lay out its part of the tables: written to zeroed
  entries they change only their footprint, and from then on every walk that enters the table for an
  address of these descriptors finds what the regions ask for.
\<close>

definition lays_out ::
  "EarlyRegion list \<Rightarrow> nat \<Rightarrow> nat \<Rightarrow> nat \<Rightarrow> nat \<Rightarrow> nat \<Rightarrow> nat \<Rightarrow> DescriptorRange list \<Rightarrow> nat \<Rightarrow> memory \<Rightarrow> memory \<Rightarrow> bool" where
  "lays_out regions start base k di used u rs tb m m' \<longleftrightarrow>
     write_ranges tb rs m = Some m' \<and>
     (\<forall>a. (\<forall>i \<in> footprint start di used u. a \<noteq> tb + 8 * i) \<longrightarrow> m' a = m a) \<and>
     (\<forall>m'' va. (\<forall>i \<in> footprint start di used u. m'' (tb + 8 * i) = m' (tb + 8 * i)) \<longrightarrow>
        base + di * level_size k \<le> va \<longrightarrow> va < base + 512 * level_size k \<longrightarrow>
        walk m'' k (tb + 8 * start) va = mapping regions va)"

lemma lays_out_frame:
  assumes "lays_out regions start base k di used u rs tb m m'" "i \<notin> footprint start di used u"
  shows "m' (tb + 8 * i) = m (tb + 8 * i)"
proof -
  have "\<forall>j \<in> footprint start di used u. tb + 8 * i \<noteq> tb + 8 * j" using assms(2) by auto
  then show ?thesis using assms(1) unfolding lays_out_def by blast
qed

lemma lays_out_walk:
  assumes "lays_out regions start base k di used u rs tb m m'"
    "\<And>i. i \<in> footprint start di used u \<Longrightarrow> m'' (tb + 8 * i) = m' (tb + 8 * i)"
    "base + di * level_size k \<le> va" "va < base + 512 * level_size k"
  shows "walk m'' k (tb + 8 * start) va = mapping regions va"
  using assms unfolding lays_out_def by blast

definition translated :: "EarlyRegion list \<Rightarrow> nat \<Rightarrow> nat \<Rightarrow> nat \<Rightarrow> nat \<Rightarrow> nat \<Rightarrow> bool" where
  "translated regions start base k di used \<longleftrightarrow>
     (\<exists>u rs. table_ranges regions start base (level_size k) 512 used di = Some (u, rs) \<and> used \<le> u \<and> 512 dvd u \<and>
        (\<forall>tb m. 4096 dvd tb \<longrightarrow> tb + 8 * (start + u) \<le> 2 ^ 48 \<longrightarrow>
           (\<forall>i \<in> footprint start di used u. m (tb + 8 * i) = 0) \<longrightarrow>
           (\<exists>m'. lays_out regions start base k di used u rs tb m m')))"

lemma translated_done: "512 \<le> di \<Longrightarrow> 512 dvd used \<Longrightarrow> translated regions start base k di used"
proof -
  assume di: "512 \<le> di" and "512 dvd used"
  have "\<not> (base + di * level_size k \<le> va \<and> va < base + 512 * level_size k)" for va
    using mult_le_mono1 [OF di, of "level_size k"] by linarith
  then show ?thesis
    using di \<open>512 dvd used\<close> by (auto simp: translated_def lays_out_def table_ranges.simps)
qed

lemma translated_no_match:
  assumes ok: "regions_ok regions" and di: "di < 512" "512 \<le> used"
    and aligned: "level_size (Suc k) dvd base"
    and none: "match_region regions (block_at base (level_size k) di) = NoMatch"
    and rest: "translated regions start base k (di + 1) used"
  shows "translated regions start base k di used"
proof -
  obtain u rs where u: "table_ranges regions start base (level_size k) 512 used (di + 1) = Some (u, rs)"
      "used \<le> u" "512 dvd u"
    and lay: "\<And>tb m. 4096 dvd tb \<Longrightarrow> tb + 8 * (start + u) \<le> 2 ^ 48 \<Longrightarrow>
      \<forall>i \<in> footprint start (di + 1) used u. m (tb + 8 * i) = 0 \<Longrightarrow>
      \<exists>m'. lays_out regions start base k (di + 1) used u rs tb m m'"
    using rest by (auto simp: translated_def)
  have foot: "footprint start di used u = insert (start + di) (footprint start (di + 1) used u)"
      "start + di \<notin> footprint start (di + 1) used u"
    using di by (auto simp: footprint_def)
  have "lays_out regions start base k di used u rs tb m m'"
    if lay': "lays_out regions start base k (di + 1) used u rs tb m m'" and zero: "m (tb + 8 * (start + di)) = 0"
    for tb m m'
    unfolding lays_out_def
  proof (intro conjI allI impI)
    show "write_ranges tb rs m = Some m'" using lay' by (simp add: lays_out_def)
    show "m' a = m a" if "\<forall>i \<in> footprint start di used u. a \<noteq> tb + 8 * i" for a
      using that lay' by (auto simp: lays_out_def foot)
    fix m'' va
    assume same: "\<forall>i \<in> footprint start di used u. m'' (tb + 8 * i) = m' (tb + 8 * i)"
      and va: "base + di * level_size k \<le> va" "va < base + 512 * level_size k"
    show "walk m'' k (tb + 8 * start) va = mapping regions va"
    proof (cases "va < base + (di + 1) * level_size k")
      case True
      have "m' (tb + 8 * (start + di)) = 0" using lays_out_frame [OF lay' foot(2)] zero by simp
      then have "m'' (tb + 8 * start + 8 * di) = 0" using same foot(1) by (simp add: algebra_simps)
      then have "walk m'' k (tb + 8 * start) va = None" by (rule walk_zero [OF aligned di(1) va(1) True])
      moreover have "mapping regions va = None"
        using match_none [OF none [unfolded block_at_def]] ok va(1) True level_size_simps(4) [of k]
        by (intro mapping_out) (fastforce simp: regions_ok_def region_ok_def list_all_iff)
      ultimately show ?thesis by simp
    next
      case False
      then show ?thesis using lay' same va foot(1) by (auto simp: lays_out_def)
    qed
  qed
  then have "\<exists>m'. lays_out regions start base k di used u rs tb m m'"
    if "4096 dvd tb" "tb + 8 * (start + u) \<le> 2 ^ 48" "\<forall>i \<in> footprint start di used u. m (tb + 8 * i) = 0" for tb m
    using lay [OF that(1,2), of m] that(3) foot(1) by blast
  moreover have "table_ranges regions start base (level_size k) 512 used di = Some (u, rs)"
    using u(1) no_match_step(1) [OF _ none, of 512 start used] di by simp
  ultimately show ?thesis using u(2,3) unfolding translated_def by blast
qed

text \<open>The run of blocks that one range stands for.\<close>

lemma covered_run:
  assumes "match_region regions (block_at base bs di) = Covers r" "0 < bs" "di < 512"
    "region_end r \<le> base + 512 * bs \<or> base + 512 * bs \<le> region_start r"
    and n: "n = repeat_count r (block_at base bs di) bs 512 di"
  shows "r \<in> set regions" "di + n < 512" "region_start r \<le> base + di * bs" "base + (di + n + 1) * bs \<le> region_end r"
proof -
  have r: "r \<in> set regions" "region_start r \<le> base + di * bs" "base + (di + 1) * bs \<le> region_end r"
    using match_covers [OF assms(1) [unfolded block_at_def]] by auto
  have "di * bs < 512 * bs" using assms(2,3) by simp
  then have fits: "region_end r \<le> base + 512 * bs" using assms(4) r(2) by linarith
  define q where "q = (region_end r - (base + (di + 1) * bs)) div bs"
  have "q * bs \<le> region_end r - (base + (di + 1) * bs)" by (simp add: q_def div_times_less_eq_dividend)
  then have q: "base + (di + 1) * bs + q * bs \<le> region_end r" using r(3) by linarith
  then have "base + (di + 1) * bs + q * bs \<le> base + 512 * bs" using fits by linarith
  then have "(di + 1 + q) * bs \<le> 512 * bs" by (simp add: add_mult_distrib)
  then have q512: "di + 1 + q \<le> 512" using assms(2) mult_le_cancel2 by blast
  then have nq: "n = q" by (simp add: n repeat_count_def block_at_def q_def)
  show "r \<in> set regions" "region_start r \<le> base + di * bs" by (fact r)+
  show "di + n < 512" using q512 nq by simp
  show "base + (di + n + 1) * bs \<le> region_end r" using q nq by (simp add: add_mult_distrib)
qed

lemma block_of:
  fixes base :: nat
  assumes "base + di * bs \<le> va" "va < base + (di + n + 1) * bs"
  shows "\<exists>j \<le> n. base + (di + j) * bs \<le> va \<and> va < base + (di + j + 1) * bs"
proof -
  define j where "j = (va - (base + di * bs)) div bs"
  have bs: "0 < bs" using assms by (cases bs) auto
  have "va - (base + di * bs) < (n + 1) * bs" using assms by (simp add: algebra_simps)
  then have "j \<le> n" by (simp add: j_def less_mult_imp_div_less flip: less_Suc_eq_le)
  moreover have "j * bs \<le> va - (base + di * bs)" by (simp add: j_def div_times_less_eq_dividend)
  then have "base + di * bs + j * bs \<le> va" using assms(1) by linarith
  moreover have "va - (base + di * bs) < bs + j * bs"
    using dividend_less_times_div [OF bs, of "va - (base + di * bs)"] by (simp add: j_def mult.commute)
  then have "va < base + di * bs + j * bs + bs" using assms(1) by linarith
  ultimately show ?thesis by (intro exI [of _ j]) (simp add: add_mult_distrib)
qed

lemma write_block_range:
  assumes "level_size k dvd b" "b + n * level_size k < 2 ^ 48" "n + 1 < 4096"
    and at: "region_attributes r AND 0x0000FFFFFFFFF002 = 0"
  obtains m' where "write_range tb (block_range r (b, e) (level_size k) i n) m = Some m'"
    "\<And>j. j \<le> n \<Longrightarrow> m' (tb + 8 * (i + j)) =
       of_nat (b + j * level_size k) OR region_attributes r OR (if k = 0 then 3 else 1)"
    "\<And>a. \<forall>j \<le> n. a \<noteq> tb + 8 * (i + j) \<Longrightarrow> m' a = m a"
proof -
  let ?bs = "level_size k" and ?fl = "region_attributes r OR (if k = 0 then 3 else 1)"
  let ?v = "of_nat b OR ?fl"
  have g: "GRANULE_SIZE = ?bs \<longleftrightarrow> k = 0" by (cases k) (simp_all add: GRANULE_SIZE_def level_size_def)
  note fields = step_count_fields [OF level_size_simps(3) assms(3), of k]
  let ?R = "block_range r (b, e) ?bs i n"
  have R: "step_count ?R = ?bs OR (n + 1)" "dr_index ?R = 8 * i" "dr_value ?R = ?v"
    by (simp_all add: block_range_def g)
  have "step_count ?R \<noteq> 0" using fields(1) R(1) by (intro notI) simp
  then have "write_range tb ?R m = block_descriptor_loop (step_count ?R AND 4095) (dr_index ?R) (dr_value ?R)
      (of_nat (step_count ?R - (step_count ?R AND 4095))) tb m"
    by (simp add: write_range_def GRANULE_SIZE_def Let_def)
  then have w: "write_range tb ?R m = block_descriptor_loop (Suc n) (8 * i) ?v (of_nat ?bs) tb m"
    by (simp only: R fields(1) fields(2) [unfolded fields(1)] Suc_eq_plus1)
  obtain m' where m': "block_descriptor_loop (Suc n) (8 * i) ?v (of_nat ?bs) tb m = Some m'"
      "\<And>j. j \<le> n \<Longrightarrow> m' (tb + 8 * (i + j)) = ?v + of_nat j * of_nat ?bs"
      "\<And>a. \<forall>j \<le> n. a \<noteq> tb + 8 * (i + j) \<Longrightarrow> m' a = m a"
    using block_loop_effect [of n i ?v "of_nat ?bs" tb m] by blast
  have "?v + of_nat j * of_nat ?bs = of_nat (b + j * ?bs) OR ?fl" if "j \<le> n" for j
  proof -
    have "j * ?bs \<le> n * ?bs" using that by simp
    then have lt: "b + j * ?bs < 2 ^ 48" using assms(2) by linarith
    have fl: "?fl AND 0x0000FFFFFFFFF000 = 0" by (rule flags_clear [OF at]) simp
    have "4096 dvd j * ?bs" using level_size_simps(3) by (rule dvd_mult)
    from descriptor_add [OF level_size_dvd(2) [OF assms(1)] this lt fl] show ?thesis
      by (simp only: of_nat_mult)
  qed
  with m'(2) have "m' (tb + 8 * (i + j)) = of_nat (b + j * ?bs) OR ?fl" if "j \<le> n" for j
    using that by metis
  then show ?thesis by (rule that [OF w [unfolded m'(1)] _ m'(3)])
qed

lemma translated_covers:
  assumes ok: "regions_ok regions" and di: "di < 512" "512 \<le> used"
    and aligned: "level_size (Suc k) dvd base" "base + 512 * level_size k \<le> 2 ^ 39"
    and match: "match_region regions (block_at base (level_size k) di) = Covers r"
    and fits: "region_end r \<le> base + 512 * level_size k \<or> base + 512 * level_size k \<le> region_start r"
    and n: "n = repeat_count r (block_at base (level_size k) di) (level_size k) 512 di"
    and rest: "translated regions start base k (di + n + 1) used"
  shows "translated regions start base k di used"
proof -
  let ?bs = "level_size k" and ?at = "region_attributes r" and ?b = "base + di * level_size k"
  let ?r = "block_range r (block_at base ?bs di) ?bs (di + start) n"
  note run = covered_run [OF match level_size_simps(4) di(1) fits n]
  have r: "?at AND 0x0000FFFFFFFFF002 = 0" using ok run(1) by (simp add: regions_ok_def region_ok_def list_all_iff)
  obtain u rs where u: "table_ranges regions start base ?bs 512 used (di + n + 1) = Some (u, rs)" "used \<le> u" "512 dvd u"
    and lay: "\<And>tb m. 4096 dvd tb \<Longrightarrow> tb + 8 * (start + u) \<le> 2 ^ 48 \<Longrightarrow>
      \<forall>i \<in> footprint start (di + n + 1) used u. m (tb + 8 * i) = 0 \<Longrightarrow>
      \<exists>m'. lays_out regions start base k (di + n + 1) used u rs tb m m'"
    using rest by (auto simp: translated_def)
  have foot: "footprint start di used u = {start + di..start + di + n} \<union> footprint start (di + n + 1) used u"
      "\<And>j. j \<le> n \<Longrightarrow> start + di + j \<notin> footprint start (di + n + 1) used u"
    using di run(2) by (auto simp: footprint_def)
  have "\<exists>m'. lays_out regions start base k di used u (?r # rs) tb m m'"
    if tb: "4096 dvd tb" "tb + 8 * (start + u) \<le> 2 ^ 48" and zero: "\<forall>i \<in> footprint start di used u. m (tb + 8 * i) = 0"
    for tb m
  proof -
    obtain m1 where m1: "write_range tb ?r m = Some m1"
        "\<And>j. j \<le> n \<Longrightarrow> m1 (tb + 8 * (start + di + j)) = of_nat (?b + j * ?bs) OR ?at OR (if k = 0 then 3 else 1)"
        "\<And>a. \<forall>j \<le> n. a \<noteq> tb + 8 * (start + di + j) \<Longrightarrow> m1 a = m a"
    proof (rule write_block_range [of k ?b n r tb "base + (di + 1) * ?bs" "start + di" m])
      show "?bs dvd ?b" using level_size_dvd(1) [OF aligned(1)] by simp
      have "(di + n) * ?bs \<le> 512 * ?bs" using run(2) by (intro mult_le_mono1) simp
      then show "?b + n * ?bs < 2 ^ 48" using aligned(2) by (simp add: algebra_simps)
    qed (use run(2) r in \<open>auto simp: block_at_def add.commute\<close>)
    have "m1 (tb + 8 * i) = 0" if i: "i \<in> footprint start (di + n + 1) used u" for i
    proof -
      have "tb + 8 * i \<noteq> tb + 8 * (start + di + j)" if "j \<le> n" for j
        using foot(2) [OF that] i by (metis add_left_cancel mult_left_cancel zero_neq_numeral)
      then have "m1 (tb + 8 * i) = m (tb + 8 * i)" using m1(3) by blast
      then show ?thesis using zero i foot(1) by simp
    qed
    then obtain m' where m': "lays_out regions start base k (di + n + 1) used u rs tb m1 m'"
      using lay [OF tb] by blast
    have "lays_out regions start base k di used u (?r # rs) tb m m'"
      unfolding lays_out_def
    proof (intro conjI allI impI)
      show "write_ranges tb (?r # rs) m = Some m'" using m1(1) m' by (simp add: lays_out_def)
      show "m' a = m a" if far: "\<forall>i \<in> footprint start di used u. a \<noteq> tb + 8 * i" for a
      proof -
        have "start + di + j \<in> footprint start di used u" if "j \<le> n" for j using that foot(1) by simp
        then have "a \<noteq> tb + 8 * (start + di + j)" if "j \<le> n" for j using far that by blast
        then have "m1 a = m a" using m1(3) by blast
        then show ?thesis using m' far foot(1) by (simp add: lays_out_def)
      qed
      fix m'' va
      assume same: "\<forall>i \<in> footprint start di used u. m'' (tb + 8 * i) = m' (tb + 8 * i)"
        and va: "?b \<le> va" "va < base + 512 * ?bs"
      show "walk m'' k (tb + 8 * start) va = mapping regions va"
      proof (cases "va < base + (di + n + 1) * ?bs")
        case True
        then obtain j where j: "j \<le> n" "base + (di + j) * ?bs \<le> va" "va < base + (di + j + 1) * ?bs"
          using va(1) block_of [of base di ?bs va n] by blast
        have "m'' (tb + 8 * start + 8 * (di + j)) = of_nat (base + (di + j) * ?bs) OR ?at OR (if k = 0 then 3 else 1)"
          using same [rule_format, of "start + di + j"] lays_out_frame [OF m' foot(2) [OF j(1)]] m1(2) [OF j(1)] j(1)
          by (simp add: foot(1) algebra_simps)
        moreover have "(di + j) * ?bs \<le> 512 * ?bs" using run(2) j(1) by (intro mult_le_mono1) simp
        then have "base + (di + j) * ?bs \<le> 2 ^ 39" using aligned(2) by linarith
        then have "base + (di + j) * ?bs < 2 ^ 48" by (rule le_less_trans) simp
        ultimately have "walk m'' k (tb + 8 * start) va = Some (va, ?at OR 1)"
          using j(1) run(2) by (intro walk_block [OF aligned(1) _ j(2,3) _ _ r]) auto
        moreover have "mapping regions va = Some (va, ?at OR 1)"
          using True va(1) run by (intro mapping_in [OF ok]) auto
        ultimately show ?thesis by simp
      next
        case False
        then show ?thesis using lays_out_walk [OF m', of m'' va] same va(2) foot(1) by simp
      qed
    qed
    then show ?thesis by blast
  qed
  moreover have "table_ranges regions start base ?bs 512 used di = Some (u, ?r # rs)"
    using u(1) covers_step(1) [OF _ match n, of start used] di by simp
  ultimately show ?thesis using u(2,3) unfolding translated_def by blast
qed

lemma translated_overlaps:
  assumes di: "di < 512" "512 \<le> used" "512 dvd used" "512 dvd start"
    and aligned: "level_size (Suc (Suc k)) dvd base"
    and match: "match_region regions (block_at base (level_size (Suc k)) di) = Overlaps"
    and below: "translated regions (start + used) (base + di * level_size (Suc k)) k 0 512"
    and rest: "\<And>used'. used \<le> used' \<Longrightarrow> 512 dvd used' \<Longrightarrow> translated regions start base (Suc k) (di + 1) used'"
  shows "translated regions start base (Suc k) di used"
proof -
  let ?bs = "level_size (Suc k)" and ?b = "base + di * level_size (Suc k)"
  let ?t = "table_range (di + start) (start + used)"
  obtain new sub where new: "table_ranges regions (start + used) ?b (level_size k) 512 512 0 = Some (new, sub)"
      "512 \<le> new" "512 dvd new"
    and lay_sub: "\<And>tb m. 4096 dvd tb \<Longrightarrow> tb + 8 * (start + used + new) \<le> 2 ^ 48 \<Longrightarrow>
      \<forall>i \<in> footprint (start + used) 0 512 new. m (tb + 8 * i) = 0 \<Longrightarrow>
      \<exists>m'. lays_out regions (start + used) ?b k 0 512 new sub tb m m'"
    using below by (auto simp: translated_def)
  obtain u rs where u: "table_ranges regions start base ?bs 512 (used + new) (di + 1) = Some (u, rs)"
      "used + new \<le> u" "512 dvd u"
    and lay: "\<And>tb m. 4096 dvd tb \<Longrightarrow> tb + 8 * (start + u) \<le> 2 ^ 48 \<Longrightarrow>
      \<forall>i \<in> footprint start (di + 1) (used + new) u. m (tb + 8 * i) = 0 \<Longrightarrow>
      \<exists>m'. lays_out regions start base (Suc k) (di + 1) (used + new) u rs tb m m'"
    using rest [of "used + new"] di(3) new(3) by (auto simp: translated_def)
  let ?fs = "footprint (start + used) 0 512 new" and ?fr = "footprint start (di + 1) (used + new) u"
  have foot: "footprint start di used u = insert (start + di) (?fs \<union> ?fr)"
      "start + di \<notin> ?fs" "start + di \<notin> ?fr" "?fs \<inter> ?fr = {}"
    using di(1,2) new(2) u(2) by (auto simp: footprint_def)
  have "\<exists>m'. lays_out regions start base (Suc k) di used u (?t # sub @ rs) tb m m'"
    if tb: "4096 dvd tb" "tb + 8 * (start + u) \<le> 2 ^ 48" and zero: "\<forall>i \<in> footprint start di used u. m (tb + 8 * i) = 0"
    for tb m
  proof -
    let ?a = "tb + 8 * (start + used)"
    define m1 where "m1 = m(tb + 8 * (start + di) := of_nat ?a OR 3)"
    have m1: "m1 (tb + 8 * i) = m (tb + 8 * i)" if "i \<noteq> start + di" for i
      unfolding m1_def by (rule fun_upd_other) (use that in presburger)
    obtain q where q: "start + used = 512 * q" using di(3,4) by (metis dvd_add dvd_def)
    have a: "4096 dvd ?a" using tb(1) by (simp add: q)
    have a': "?a < 2 ^ 48" using tb(2) u(2) new(2) by simp
    have "(of_nat ((start + used) * 8) OR 3) + of_nat tb = (of_nat ((start + used) * 8 + tb) OR 3 :: u64)"
      using tb(1) a' by (intro descriptor_add) (simp_all add: q add.commute)
    then have w1: "write_range tb ?t m = Some m1"
      by (simp add: write_range_def table_range_def m1_def algebra_simps)
    have "\<forall>i \<in> ?fs. m1 (tb + 8 * i) = 0" using zero foot m1 by (metis UnCI insertCI)
    then obtain m2 where m2: "lays_out regions (start + used) ?b k 0 512 new sub tb m1 m2"
      using lay_sub [of tb m1] tb u(2) by auto
    have "m2 (tb + 8 * i) = 0" if "i \<in> ?fr" for i
    proof -
      have "m2 (tb + 8 * i) = m1 (tb + 8 * i)" using lays_out_frame [OF m2, of i] foot(4) that by blast
      then show ?thesis using that zero foot m1 by (metis UnCI insertCI)
    qed
    then obtain m' where m': "lays_out regions start base (Suc k) (di + 1) (used + new) u rs tb m2 m'"
      using lay [OF tb] by blast
    have "lays_out regions start base (Suc k) di used u (?t # sub @ rs) tb m m'"
      unfolding lays_out_def
    proof (intro conjI allI impI)
      show "write_ranges tb (?t # sub @ rs) m = Some m'"
        using w1 m2 m' by (simp add: lays_out_def write_ranges_append)
      show "m' a = m a" if "\<forall>i \<in> footprint start di used u. a \<noteq> tb + 8 * i" for a
      proof -
        have "m' a = m2 a" "m2 a = m1 a" using m' m2 that foot(1) by (auto simp: lays_out_def)
        moreover have "m1 a = m a" using that foot(1) by (simp add: m1_def)
        ultimately show ?thesis by simp
      qed
      fix m'' va
      assume same: "\<forall>i \<in> footprint start di used u. m'' (tb + 8 * i) = m' (tb + 8 * i)"
        and va: "?b \<le> va" "va < base + 512 * ?bs"
      show "walk m'' (Suc k) (tb + 8 * start) va = mapping regions va"
      proof (cases "va < base + (di + 1) * ?bs")
        case True
        have "m' (tb + 8 * (start + di)) = of_nat ?a OR 3"
          using lays_out_frame [OF m' foot(3)] lays_out_frame [OF m2 foot(2)] by (simp add: m1_def)
        then have "m'' (tb + 8 * start + 8 * di) = of_nat ?a OR 3" using same foot(1) by (simp add: algebra_simps)
        then have "walk m'' (Suc k) (tb + 8 * start) va = walk m'' k ?a va"
          by (rule walk_table [OF aligned di(1) va(1) True _ a a'])
        also have "\<dots> = mapping regions va"
        proof (rule lays_out_walk [OF m2])
          fix i assume i: "i \<in> ?fs"
          then have "i \<notin> ?fr" using foot(4) by blast
          then show "m'' (tb + 8 * i) = m2 (tb + 8 * i)" using lays_out_frame [OF m'] same foot(1) i by simp
        qed (use va True in \<open>simp_all add: level_size_simps(2) algebra_simps\<close>)
        finally show ?thesis .
      next
        case False
        then show ?thesis using lays_out_walk [OF m', of m'' va] same va(2) foot(1) by simp
      qed
    qed
    then show ?thesis by blast
  qed
  moreover have "table_ranges regions start base ?bs 512 used di = Some (u, ?t # sub @ rs)"
    using overlaps_step(2) [OF _ match, of 512 start used] di new(1) u(1) dvd_imp_le [OF level_size_simps(3,4) [of k]]
    by (simp add: GRANULE_SIZE_def level_size_simps)
  ultimately show ?thesis using u(2,3) new(2) unfolding translated_def by (metis add_leD1)
qed

lemma descriptors_translated:
  assumes ok: "regions_ok regions" and aligned: "level_size (Suc k) dvd base" "base + 512 * level_size k \<le> 2 ^ 39"
    and fits: "\<forall>r \<in> set regions. region_end r \<le> base + 512 * level_size k \<or> base + 512 * level_size k \<le> region_start r"
    and below: "\<And>di used. di < 512 \<Longrightarrow> 512 \<le> used \<Longrightarrow> 512 dvd used \<Longrightarrow>
      match_region regions (block_at base (level_size k) di) = Overlaps \<Longrightarrow>
      (\<And>used'. used \<le> used' \<Longrightarrow> 512 dvd used' \<Longrightarrow> translated regions start base k (di + 1) used') \<Longrightarrow>
      translated regions start base k di used"
  shows "512 \<le> used \<Longrightarrow> 512 dvd used \<Longrightarrow> translated regions start base k di used"
proof (induction "512 - di" arbitrary: di used rule: less_induct)
  case less
  show ?case
  proof (cases "di < 512")
    case True
    note later = less.hyps [OF diff_less_mono2 [OF _ True]]
    show ?thesis
    proof (cases "match_region regions (block_at base (level_size k) di)")
      case NoMatch
      then show ?thesis
        using later [of "di + 1"] less.prems by (intro translated_no_match [OF ok True _ aligned(1)]) auto
    next
      case (Covers r)
      let ?n = "repeat_count r (block_at base (level_size k) di) (level_size k) 512 di"
      have "r \<in> set regions" using match_covers Covers by (metis block_at_def)
      then show ?thesis
        using later [of "di + ?n + 1" used] less.prems fits
        by (intro translated_covers [OF ok True less.prems(1) aligned Covers _ refl]) auto
    next
      case Overlaps
      show ?thesis
      proof (rule below [OF True less.prems Overlaps])
        fix used' assume "used \<le> used'" "512 dvd used'"
        then show "translated regions start base k (di + 1) used'" using later [of "di + 1" used'] less.prems(1) by simp
      qed
    qed
  qed (use translated_done less.prems in auto)
qed

lemma page_not_overlapped:
  assumes "regions_ok regions" "4096 dvd b"
  shows "match_region regions (b, b + 4096) \<noteq> Overlaps"
proof
  assume "match_region regions (b, b + 4096) = Overlaps"
  then obtain r where r: "r \<in> set regions" "\<not> (region_start r \<le> b \<and> b + 4096 \<le> region_end r)"
      "region_start r < b + 4096" "b < region_end r"
    using match_overlaps by blast
  then have "4096 dvd region_start r" "4096 dvd region_end r"
    using assms(1) by (auto simp: regions_ok_def region_ok_def list_all_iff)
  with assms(2) obtain x y z where xyz: "region_start r = 4096 * x" "region_end r = 4096 * y" "b = 4096 * z"
    by (auto elim!: dvdE)
  then have "4096 * x < 4096 * (z + 1)" "4096 * z < 4096 * y" using r(3,4) by simp_all
  then have "x \<le> z" "z + 1 \<le> y" by simp_all
  then show False using r(2) xyz by simp
qed

text \<open>A block that needs a table is not straddled by a region at its end.\<close>

lemma table_fits:
  assumes "regions_ok regions" "k \<in> {1, 2}" "level_size k dvd b" "match_region regions (b, b + level_size k) = Overlaps"
    and "r \<in> set regions"
  shows "region_end r \<le> b + level_size k \<or> b + level_size k \<le> region_start r"
proof (rule ccontr)
  assume "\<not> ?thesis"
  then have r: "b + level_size k < region_end r" "region_start r < b + level_size k" by auto
  then have b: "b < region_start r"
    using overlaps_not_covered [OF assms(1,4) _ assms(5)] level_size_simps(4) [of k] by fastforce
  obtain q where q: "b = level_size k * q" using assms(3) by auto
  have div: "region_start r div level_size k = q"
    using b r(2) q by (intro div_nat_eqI) (auto simp: algebra_simps)
  then have "\<not> level_size k dvd region_start r"
    using b q by (metis dvd_div_mult_self less_irrefl mult.commute)
  then have "region_end r \<le> (region_start r div level_size k + 1) * level_size k"
    using assms(1,2,5) by (auto simp: regions_ok_def region_ok_def list_all_iff)
  then show False using r(1) q div by (simp add: algebra_simps)
qed

lemma table_translated:
  assumes ok: "regions_ok regions"
  shows "\<lbrakk>k \<le> 2; level_size (Suc k) dvd base; base + 512 * level_size k \<le> 2 ^ 39; 512 \<le> used; 512 dvd used; 512 dvd start;
    \<forall>r \<in> set regions. region_end r \<le> base + 512 * level_size k \<or> base + 512 * level_size k \<le> region_start r\<rbrakk> \<Longrightarrow>
    translated regions start base k di used"
proof (induction k arbitrary: start base di used)
  case (0 start base di used)
  have "match_region regions (block_at base (level_size 0) i) \<noteq> Overlaps" for i
    using page_not_overlapped [OF ok, of "base + i * 4096"] level_size_dvd(2) [OF "0.prems"(2)]
    by (simp add: block_at_def level_size_simps algebra_simps)
  then show ?case by (intro descriptors_translated [OF ok "0.prems"(2,3,7) _ "0.prems"(4,5)]) (rule notE)
next
  case (Suc k start base di used)
  let ?bs = "level_size (Suc k)"
  show ?case
  proof (rule descriptors_translated [OF ok Suc.prems(2,3,7)])
    fix i used
    assume i: "i < 512" "512 \<le> used" "512 dvd used" and match: "match_region regions (block_at base ?bs i) = Overlaps"
      and rest: "\<And>used'. used \<le> used' \<Longrightarrow> 512 dvd used' \<Longrightarrow> translated regions start base (Suc k) (i + 1) used'"
    let ?b = "base + i * ?bs"
    have b: "?bs dvd ?b" using level_size_dvd(1) [OF Suc.prems(2)] by simp
    have e: "?b + 512 * level_size k = ?b + ?bs" by (simp add: level_size_simps)
    have "(i + 1) * ?bs \<le> 512 * ?bs" using i(1) by (intro mult_le_mono1) simp
    moreover have "?b + ?bs = base + (i + 1) * ?bs" by (simp add: add_mult_distrib)
    ultimately have "?b + 512 * level_size k \<le> 2 ^ 39" using Suc.prems(3) unfolding e by linarith
    moreover have "match_region regions (?b, ?b + ?bs) = Overlaps" using match by (simp add: block_at_def algebra_simps)
    then have "\<forall>r \<in> set regions. region_end r \<le> ?b + 512 * level_size k \<or> ?b + 512 * level_size k \<le> region_start r"
      using table_fits [OF ok _ b] Suc.prems(1) unfolding e by (cases k) auto
    ultimately have "translated regions (start + used) ?b k 0 512"
      using Suc.prems(1,6) i(3) b by (intro Suc.IH) auto
    then show "translated regions start base (Suc k) i used"
      by (rule translated_overlaps [OF i Suc.prems(6,2) match _ rest])
  qed (fact Suc.prems(4,5))+
qed

section \<open>The whole of the tables\<close>

lemma early_tables_translate:
  assumes "regions_ok regions"
  obtains u rs where "early_ranges regions = Some (u, rs)" "512 \<le> u"
    "\<And>tb m. 4096 dvd tb \<Longrightarrow> tb + 8 * u \<le> 2 ^ 48 \<Longrightarrow> \<forall>a. tb \<le> a \<and> a < tb + 8 * u \<longrightarrow> m a = 0 \<Longrightarrow>
       \<exists>m'. write_ranges tb rs m = Some m' \<and> (\<forall>a. a < tb \<or> tb + 8 * u \<le> a \<longrightarrow> m' a = m a) \<and>
         (\<forall>va < 2 ^ 39. walk m' 2 tb va = mapping regions va)"
proof -
  have "translated regions 0 0 2 0 512"
    using assms by (intro table_translated) (auto simp: level_size_def regions_ok_def region_ok_def list_all_iff)
  then obtain u rs where u: "table_ranges regions 0 0 (level_size 2) 512 512 0 = Some (u, rs)" "512 \<le> u"
    and lay: "\<And>tb m. 4096 dvd tb \<Longrightarrow> tb + 8 * u \<le> 2 ^ 48 \<Longrightarrow> \<forall>i \<in> footprint 0 0 512 u. m (tb + 8 * i) = 0 \<Longrightarrow>
      \<exists>m'. lays_out regions 0 0 2 0 512 u rs tb m m'"
    by (auto simp: translated_def)
  have foot: "footprint 0 0 512 u = {..<u}" using u(2) by (auto simp: footprint_def)
  show ?thesis
  proof (rule that)
    show "early_ranges regions = Some (u, rs)"
      using u(1) by (simp add: early_ranges_def TOP_LEVEL_BLOCK_SIZE_def TOP_LEVEL_DESCRIPTOR_COUNT_def GRANULE_SIZE_def
          level_size_def)
    show "512 \<le> u" by (fact u(2))
    fix tb and m :: memory
    assume tb: "4096 dvd tb" "tb + 8 * u \<le> 2 ^ 48" and zero: "\<forall>a. tb \<le> a \<and> a < tb + 8 * u \<longrightarrow> m a = 0"
    have "\<forall>i \<in> footprint 0 0 512 u. m (tb + 8 * i) = 0" using zero by (simp add: foot)
    then obtain m' where m': "lays_out regions 0 0 2 0 512 u rs tb m m'" using lay [OF tb] by blast
    have "m' a = m a" if "a < tb \<or> tb + 8 * u \<le> a" for a
    proof -
      have "\<forall>i \<in> footprint 0 0 512 u. a \<noteq> tb + 8 * i" using that by (auto simp: foot)
      then show ?thesis using m' unfolding lays_out_def by blast
    qed
    moreover have "walk m' 2 tb va = mapping regions va" if "va < 2 ^ 39" for va
      using lays_out_walk [OF m', of m' va] that by (simp add: level_size_def)
    ultimately show "\<exists>m'. write_ranges tb rs m = Some m' \<and> (\<forall>a. a < tb \<or> tb + 8 * u \<le> a \<longrightarrow> m' a = m a) \<and>
         (\<forall>va < 2 ^ 39. walk m' 2 tb va = mapping regions va)"
      using m' unfolding lays_out_def by blast
  qed
qed

end
