(* ===== verification/Pagetable.thy ===== *)
theory Pagetable
  imports Sysregs
begin

text \<open>
  The runtime page table, \<^verbatim>\<open>src/src/pagetable.rs\<close>: the attributes of the mappings, the heap of tables, the
  identity map with its initial regions, and the sequence that makes it the page table of EL3. The
  mapping itself belongs to the crate \<^verbatim>\<open>aarch64-paging\<close> and is a parameter. The addresses of the linker
  script are a record, and what is done to the processor is recorded as a list of operations.
\<close>

section \<open>Attributes\<close>

text \<open>The bits of \<open>El23Attributes\<close> of the crate.\<close>

record el23_bits =
  ATTRIBUTE_INDEX_0 :: u64
  ATTRIBUTE_INDEX_1 :: u64
  ATTRIBUTE_INDEX_2 :: u64
  USER_RES1 :: u64
  ACCESSED :: u64
  VALID :: u64
  NON_GLOBAL :: u64
  XN :: u64
  INNER_SHAREABLE :: u64
  READ_ONLY :: u64
  NS_ATTRIBUTE :: u64
  GUARDED_PAGE :: u64

definition ROOT_LEVEL :: nat where "ROOT_LEVEL = 1"

definition TCR :: u64 where "TCR = push_bit 16 5 OR (64 - 39)"

definition BASE :: "el23_bits \<Rightarrow> u64" where
  "BASE B = USER_RES1 B OR ACCESSED B OR VALID B"

definition BASE_EL3 :: "el23_bits \<Rightarrow> bool \<Rightarrow> u64" where
  "BASE_EL3 B has_rme = (if has_rme then BASE B OR NON_GLOBAL B else BASE B)"

definition MT_DEVICE :: "el23_bits \<Rightarrow> bool \<Rightarrow> u64" where
  "MT_DEVICE B has_rme = ATTRIBUTE_INDEX_1 B OR BASE_EL3 B has_rme OR XN B"

text \<open>\<open>make_memory_attributes!\<close>, for the base attributes of a world.\<close>

definition MT_NON_CACHEABLE :: "el23_bits \<Rightarrow> u64 \<Rightarrow> u64" where
  "MT_NON_CACHEABLE B base = ATTRIBUTE_INDEX_2 B OR base"

definition MT_MEMORY :: "el23_bits \<Rightarrow> u64 \<Rightarrow> u64" where
  "MT_MEMORY B base = ATTRIBUTE_INDEX_0 B OR base OR INNER_SHAREABLE B"

definition MT_RO_DATA :: "el23_bits \<Rightarrow> u64 \<Rightarrow> u64" where
  "MT_RO_DATA B base = MT_MEMORY B base OR READ_ONLY B OR XN B"

definition MT_RW_DATA :: "el23_bits \<Rightarrow> u64 \<Rightarrow> u64" where
  "MT_RW_DATA B base = MT_MEMORY B base OR XN B"

definition MT_CODE :: "el23_bits \<Rightarrow> bool \<Rightarrow> u64 \<Rightarrow> u64" where
  "MT_CODE B bti base =
     (let attrs = MT_MEMORY B base OR READ_ONLY B in if bti then attrs OR GUARDED_PAGE B else attrs)"

definition MT_MEMORY_EL3 :: "el23_bits \<Rightarrow> bool \<Rightarrow> u64" where
  "MT_MEMORY_EL3 B has_rme = MT_MEMORY B (BASE_EL3 B has_rme)"

definition MT_RW_DATA_REALM :: "el23_bits \<Rightarrow> u64" where
  "MT_RW_DATA_REALM B = MT_RW_DATA B (BASE B OR NS_ATTRIBUTE B OR NON_GLOBAL B)"

section \<open>The heap of tables\<close>

text \<open>\<open>IdTranslation\<close>: the address of the first page, the number of pages and which are allocated.\<close>

record IdTranslation =
  pages_base :: nat
  pages_len :: nat
  allocated :: "bool list"

definition TABLE_SIZE :: nat where "TABLE_SIZE = 4096"

fun position_free :: "bool list \<Rightarrow> nat option" where
  "position_free [] = None"
| "position_free (a # as) = (if \<not> a then Some 0 else map_option Suc (position_free as))"

definition virtual_to_physical :: "nat \<Rightarrow> nat" where
  "virtual_to_physical va = va"

definition allocate_table :: "IdTranslation \<Rightarrow> (nat \<times> nat \<times> IdTranslation) option" where
  "allocate_table t =
     do {
       index \<leftarrow> position_free (allocated t);
       allocated' \<leftarrow> checked_update (allocated t) index True;
       assert_that (index < pages_len t);
       let table = pages_base t + index * TABLE_SIZE;
       Some (table, virtual_to_physical table, t\<lparr>allocated := allocated'\<rparr>)
     }"

definition deallocate_table :: "nat \<Rightarrow> IdTranslation \<Rightarrow> IdTranslation option" where
  "deallocate_table page_table t =
     do {
       offset \<leftarrow> checked_minus page_table (pages_base t);
       allocated' \<leftarrow> checked_update (allocated t) (offset div TABLE_SIZE) False;
       Some (t\<lparr>allocated := allocated'\<rparr>)
     }"

definition physical_to_virtual :: "nat \<Rightarrow> nat option" where
  "physical_to_virtual page_table_pa = (if page_table_pa = 0 then None else Some page_table_pa)"

lemma position_free_Some:
  "position_free as = Some i \<Longrightarrow> i < length as \<and> \<not> as ! i \<and> (\<forall>j < i. as ! j)"
  by (induction as arbitrary: i) (auto simp: nth_Cons split: if_splits nat.splits)

text \<open>A table that is handed out was free, is marked, and becomes free again when it is returned.\<close>

lemma allocate_then_deallocate:
  assumes "allocate_table t = Some (va, pa, t')"
  shows "deallocate_table va t' = Some t" "pa = va"
    "\<exists>i < pages_len t. va = pages_base t + i * TABLE_SIZE \<and> \<not> allocated t ! i \<and> allocated t' = (allocated t)[i := True]"
proof -
  obtain i where i: "position_free (allocated t) = Some i" "i < length (allocated t)" "i < pages_len t"
      "va = pages_base t + i * TABLE_SIZE" "pa = va" "t' = t\<lparr>allocated := (allocated t)[i := True]\<rparr>"
    using assms by (auto simp: allocate_table_def bind_eq_Some_conv virtual_to_physical_def Let_def)
  have free: "\<not> allocated t ! i" using position_free_Some [OF i(1)] by blast
  have "(allocated t)[i := False] = allocated t" using free i(2) by (metis list_update_id)
  then show "deallocate_table va t' = Some t"
    using i by (simp add: deallocate_table_def checked_minus_def checked_update_def TABLE_SIZE_def)
  show "pa = va" by (fact i(5))
  show "\<exists>i < pages_len t. va = pages_base t + i * TABLE_SIZE \<and> \<not> allocated t ! i \<and> allocated t' = (allocated t)[i := True]"
    using i free by auto
qed

text \<open>Tables that are in use at the same time are different.\<close>

lemma allocate_distinct:
  assumes "allocate_table t = Some (va, pa, t')" "allocate_table t' = Some (va', pa', t'')"
  shows "va \<noteq> va'"
proof -
  obtain i where i: "position_free (allocated t) = Some i" "va = pages_base t + i * TABLE_SIZE"
      "t' = t\<lparr>allocated := (allocated t)[i := True]\<rparr>"
    using assms(1) by (auto simp: allocate_table_def bind_eq_Some_conv Let_def)
  obtain j where j: "position_free (allocated t') = Some j" "va' = pages_base t' + j * TABLE_SIZE"
    using assms(2) by (auto simp: allocate_table_def bind_eq_Some_conv Let_def)
  have "i \<noteq> j"
    using position_free_Some [OF i(1)] position_free_Some [OF j(1)] i(3) by auto
  then show ?thesis using i j by (simp add: TABLE_SIZE_def)
qed

section \<open>The identity map\<close>

record 'm paging_crate =
  mapping_new :: "IdTranslation \<Rightarrow> nat \<Rightarrow> 'm"
  map_range :: "'m \<Rightarrow> nat \<times> nat \<Rightarrow> nat \<Rightarrow> u64 \<Rightarrow> 'm option"
  compact_subtables :: "'m \<Rightarrow> 'm"
  mark_active :: "'m \<Rightarrow> 'm"
  root_address :: "'m \<Rightarrow> nat"

definition IdMap_new :: "'m paging_crate \<Rightarrow> nat \<Rightarrow> nat \<Rightarrow> nat \<Rightarrow> 'm" where
  "IdMap_new C base len PAGE_HEAP_PAGE_COUNT =
     mapping_new C \<lparr>pages_base = base, pages_len = len, allocated = replicate PAGE_HEAP_PAGE_COUNT False\<rparr> ROOT_LEVEL"

definition map_region :: "'m paging_crate \<Rightarrow> el23_bits \<Rightarrow> nat \<times> nat \<Rightarrow> u64 \<Rightarrow> 'm \<Rightarrow> 'm option" where
  "map_region C B region attributes idmap =
     do {
       assert_that (attributes AND VALID B = VALID B);
       map_range C idmap region (virtual_to_physical (fst region)) attributes
     }"

fun unmap_all :: "'m paging_crate \<Rightarrow> (nat \<times> nat) list \<Rightarrow> 'm \<Rightarrow> 'm option" where
  "unmap_all C [] idmap = Some idmap"
| "unmap_all C (region # regions) idmap = do { idmap' \<leftarrow> map_range C idmap region 0 0; unmap_all C regions idmap' }"

definition unmap_regions :: "'m paging_crate \<Rightarrow> (nat \<times> nat) list \<Rightarrow> 'm \<Rightarrow> 'm option" where
  "unmap_regions C regions idmap = map_option (compact_subtables C) (unmap_all C regions idmap)"

fun map_all :: "'m paging_crate \<Rightarrow> el23_bits \<Rightarrow> ((nat \<times> nat) \<times> u64) list \<Rightarrow> 'm \<Rightarrow> 'm option" where
  "map_all C B [] idmap = Some idmap"
| "map_all C B ((region, attributes) # rest) idmap =
     do { idmap' \<leftarrow> map_region C B region attributes idmap; map_all C B rest idmap' }"

text \<open>The addresses that the linker script and the platform give.\<close>

record image =
  bl31_start :: nat
  bl31_end :: nat
  bl_code_base :: nat
  bl_code_end :: nat
  bl_ro_data_base :: nat
  bl_ro_data_end :: nat
  bss2_start :: nat
  bss2_end :: nat
  secure_entry_pc :: nat
  RMM_SHARED_BUFFER_START :: nat
  extra_regions :: "((nat \<times> nat) \<times> u64) list"

definition initial_regions :: "el23_bits \<Rightarrow> bool \<Rightarrow> bool \<Rightarrow> nat \<Rightarrow> image \<Rightarrow> ((nat \<times> nat) \<times> u64) list" where
  "initial_regions B has_rme bti RMM_SHARED_BUFFER_SIZE I =
     [((bl31_start I, bl31_end I), MT_MEMORY_EL3 B has_rme),
      ((bl_code_base I, bl_code_end I), MT_CODE B bti (BASE_EL3 B has_rme)),
      ((bl_ro_data_base I, bl_ro_data_end I), MT_RO_DATA B (BASE_EL3 B has_rme))] @
     (if bss2_start I \<noteq> bss2_end I then [((bss2_start I, bss2_end I), MT_RW_DATA B (BASE_EL3 B has_rme))] else []) @
     (if has_rme
      then [((RMM_SHARED_BUFFER_START I, RMM_SHARED_BUFFER_START I + RMM_SHARED_BUFFER_SIZE), MT_RW_DATA_REALM B)]
      else []) @
     extra_regions I"

definition init_page_table ::
  "'m paging_crate \<Rightarrow> el23_bits \<Rightarrow> bool \<Rightarrow> bool \<Rightarrow> nat \<Rightarrow> image \<Rightarrow> nat \<Rightarrow> nat \<Rightarrow> nat \<Rightarrow> 'm option" where
  "init_page_table C B has_rme bti RMM_SHARED_BUFFER_SIZE I base len PAGE_HEAP_PAGE_COUNT =
     do {
       assert_that (secure_entry_pc I < bl31_start I \<or> bl31_end I \<le> secure_entry_pc I);
       assert_that (secure_entry_pc I < bss2_start I \<or> bss2_end I \<le> secure_entry_pc I);
       map_all C B (initial_regions B has_rme bti RMM_SHARED_BUFFER_SIZE I) (IdMap_new C base len PAGE_HEAP_PAGE_COUNT)
     }"

section \<open>Enabling the runtime page table\<close>

datatype mmu_op =
    SetPageTableAddr nat | FlushPageTableAddr | DsbSy | IsbOp | WriteTtbr0 u64 | TlbiAlle3 | WriteSctlr u64

record mmu_bits =
  SCTLR_M :: u64
  SCTLR_C :: u64
  SCTLR_WXN :: u64
  TTBR0_CNP :: u64

text \<open>\<open>Once::call_once\<close> runs its closure only when the page table is not there yet.\<close>

definition init_runtime_mapping ::
  "'m paging_crate \<Rightarrow> mmu_bits \<Rightarrow> 'm option \<Rightarrow> u64 \<Rightarrow> 'm option \<Rightarrow> ('m option \<times> mmu_op list) option" where
  "init_runtime_mapping C M idmap sctlr_el3 once =
     (case once of
        Some t \<Rightarrow> Some (Some t, [])
      | None \<Rightarrow> do {
          t \<leftarrow> idmap;
          assert_that (sctlr_el3 AND (SCTLR_C M OR SCTLR_M M) = SCTLR_C M OR SCTLR_M M);
          Some (Some (mark_active C t),
            [SetPageTableAddr (root_address C t), FlushPageTableAddr, DsbSy, IsbOp,
             WriteTtbr0 (of_nat (root_address C t) OR TTBR0_CNP M), TlbiAlle3, IsbOp,
             WriteSctlr (sctlr_el3 OR SCTLR_WXN M), IsbOp, TlbiAlle3, IsbOp]) })"

definition disable_mmu_el3 :: "mmu_bits \<Rightarrow> u64 \<Rightarrow> mmu_op list" where
  "disable_mmu_el3 M sctlr_el3 = [WriteSctlr (flags_minus sctlr_el3 (SCTLR_C M OR SCTLR_M M)), IsbOp, DsbSy]"

text \<open>
  The memory of EL3 that is mapped as code or as read-only data cannot be written, and data, read-only
  data and devices cannot be executed.
\<close>

lemma el3_permissions:
  "MT_CODE B bti base AND READ_ONLY B = READ_ONLY B" "MT_RO_DATA B base AND READ_ONLY B = READ_ONLY B"
  "MT_RO_DATA B base AND XN B = XN B" "MT_RW_DATA B base AND XN B = XN B" "MT_DEVICE B has_rme AND XN B = XN B"
  by (simp_all add: MT_CODE_def MT_RO_DATA_def MT_RW_DATA_def MT_DEVICE_def Let_def bit.conj_disj_distrib2 or.assoc
      bit_eq_iff bit_or_iff bit_and_iff) blast+

text \<open>Every region of the initial map is valid, so that no mapping of it panics for its attributes.\<close>

lemma initial_regions_valid:
  assumes "(region, attributes) \<in> set (initial_regions B has_rme bti n I)"
    "\<forall>(region, attributes) \<in> set (extra_regions I). attributes AND VALID B = VALID B"
  shows "attributes AND VALID B = VALID B"
proof -
  have base: "MT_MEMORY B (BASE_EL3 B has_rme) AND VALID B = VALID B" "MT_RW_DATA_REALM B AND VALID B = VALID B"
    by (auto simp: MT_MEMORY_def BASE_EL3_def BASE_def MT_RW_DATA_REALM_def MT_RW_DATA_def bit_eq_iff bit_or_iff bit_and_iff)
  show ?thesis
    using assms base
    by (auto simp: initial_regions_def MT_MEMORY_EL3_def MT_CODE_def MT_RO_DATA_def MT_RW_DATA_def Let_def
        bit.conj_disj_distrib2 split: if_splits) (auto simp: bit_eq_iff bit_or_iff bit_and_iff)
qed

section \<open>The platforms\<close>

definition qemu_extra_regions :: "el23_bits \<Rightarrow> bool \<Rightarrow> ((nat \<times> nat) \<times> u64) list" where
  "qemu_extra_regions B has_rme =
     [((0x0e000000, 0x0e000000 + 0x00001000), MT_DEVICE B has_rme),
      ((0x08000000, 0x08000000 + 0x01000000), MT_DEVICE B has_rme),
      ((0x09000000, 0x09000000 + 0x00c00000), MT_DEVICE B has_rme)]"

text \<open>The ranges of the FVP are built from the inclusive ranges of its memory map.\<close>

definition from_inclusive_range :: "nat \<times> nat \<Rightarrow> (nat \<times> nat) option" where
  "from_inclusive_range r = (if snd r + 1 < 2 ^ 64 then Some (fst r, snd r + 1) else None)"

definition ALIGN_2MB :: nat where "ALIGN_2MB = 2 ^ 21"

definition aligned_range_covering :: "nat \<times> nat \<Rightarrow> nat \<times> nat \<Rightarrow> (nat \<times> nat) option" where
  "aligned_range_covering start' end' =
     do {
       assert_that (snd start' < fst end');
       Some (fst start' div ALIGN_2MB * ALIGN_2MB, (snd end' + 1 + (ALIGN_2MB - 1)) div ALIGN_2MB * ALIGN_2MB)
     }"

lemma aligned_range_covers:
  assumes "aligned_range_covering s e = Some (a, b)" "fst s \<le> snd s" "fst e \<le> snd e"
  shows "a \<le> fst s" "snd e < b" "ALIGN_2MB dvd a" "ALIGN_2MB dvd b"
proof -
  have ab: "a = fst s div ALIGN_2MB * ALIGN_2MB" "b = (snd e + 1 + (ALIGN_2MB - 1)) div ALIGN_2MB * ALIGN_2MB"
    using assms(1) by (auto simp: aligned_range_covering_def bind_eq_Some_conv)
  show "a \<le> fst s" by (simp add: ab)
  show "snd e < b"
    using dividend_less_div_times [of ALIGN_2MB "snd e + 1 + (ALIGN_2MB - 1)"] by (simp add: ab ALIGN_2MB_def)
  show "ALIGN_2MB dvd a" "ALIGN_2MB dvd b" by (simp_all add: ab)
qed

definition device_regions_include :: "(nat \<times> nat) list \<Rightarrow> nat \<Rightarrow> nat \<Rightarrow> bool" where
  "device_regions_include DEVICE_REGIONS pa size' =
     list_ex (\<lambda>(s, e). s \<le> pa \<and> pa < e \<and> s \<le> pa + size' - 1 \<and> pa + size' - 1 < e) DEVICE_REGIONS"

definition map_peripheral :: "(nat \<times> nat) list \<Rightarrow> nat \<Rightarrow> nat \<Rightarrow> nat option" where
  "map_peripheral DEVICE_REGIONS pa size' =
     do { assert_that (device_regions_include DEVICE_REGIONS pa size'); assert_that (pa \<noteq> 0); Some pa }"

end
