(* ===== verification/Early_Pagetable_Properties.thy ===== *)
theory Early_Pagetable_Properties
  imports Early_Pagetable_Laws Pagetable
begin

text \<open>
  The early page tables as a whole: they map what the regions ask for, the compile-time count is the
  number of ranges that are built, and regions outside the supported ones make the builder describe
  an entry past the end of a table.
\<close>

section \<open>The regions of the platforms\<close>

text \<open>The FVP's ranges of the trusted SRAM and the UART are from its memory map.\<close>

definition fvp_EARLY_REGIONS :: "nat \<times> nat \<Rightarrow> nat \<times> nat \<Rightarrow> el23_bits \<Rightarrow> bool \<Rightarrow> EarlyRegion list" where
  "fvp_EARLY_REGIONS ARM_TRUSTED_SRAM_RANGE UART_RANGE B has_rme =
     [\<lparr>region_start = fst ARM_TRUSTED_SRAM_RANGE, region_end = snd ARM_TRUSTED_SRAM_RANGE,
       region_attributes = MT_MEMORY_EL3 B has_rme\<rparr>,
      \<lparr>region_start = fst UART_RANGE, region_end = snd UART_RANGE, region_attributes = MT_DEVICE B has_rme\<rparr>]"

definition qemu_EARLY_REGIONS :: "el23_bits \<Rightarrow> EarlyRegion list" where
  "qemu_EARLY_REGIONS B =
     [\<lparr>region_start = 0x0e090000, region_end = 0x0e100000, region_attributes = MT_MEMORY_EL3 B False\<rparr>,
      \<lparr>region_start = 0x09000000, region_end = 0x09000000 + 0x00c00000, region_attributes = MT_DEVICE B False\<rparr>]"

text \<open>The bits of a stage 1 descriptor.\<close>

definition stage1_bits :: el23_bits where
  "stage1_bits =
     \<lparr>ATTRIBUTE_INDEX_0 = 0, ATTRIBUTE_INDEX_1 = 4, ATTRIBUTE_INDEX_2 = 8, USER_RES1 = 0x40, ACCESSED = 0x400,
      VALID = 1, NON_GLOBAL = 0x800, XN = 0x0040000000000000, INNER_SHAREABLE = 0x300, READ_ONLY = 0x80,
      NS_ATTRIBUTE = 0x20, GUARDED_PAGE = 0x0004000000000000\<rparr>"

lemma qemu_regions_ok: "regions_ok (qemu_EARLY_REGIONS stage1_bits)"
  by (simp add: regions_ok_def region_ok_def qemu_EARLY_REGIONS_def apart_def level_size_def MT_MEMORY_EL3_def
      MT_MEMORY_def MT_DEVICE_def BASE_EL3_def BASE_def stage1_bits_def)

text \<open>What is built for these regions: a table of the second level and one of the third.\<close>

lemma qemu_early_ranges:
  "early_ranges (qemu_EARLY_REGIONS B) =
    Some (1536,
      [\<lparr>dr_index = 0, step_count = 0, dr_value = 0x1003\<rparr>,
       \<lparr>dr_index = 0x1240, step_count = 0x200006, dr_value = 0x09000000 OR MT_DEVICE B False OR 1\<rparr>,
       \<lparr>dr_index = 0x1380, step_count = 0, dr_value = 0x2003\<rparr>,
       \<lparr>dr_index = 0x2480, step_count = 0x1070, dr_value = 0x0e090000 OR MT_MEMORY_EL3 B False OR 3\<rparr>])"
proof -
  let ?R = "qemu_EARLY_REGIONS B"
  note R = qemu_EARLY_REGIONS_def block_at_def overlaps_def block_range_def table_range_def repeat_count_def GRANULE_SIZE_def
  have third: "table_ranges ?R 1024 0x0e000000 0x1000 512 512 0 =
      Some (512, [\<lparr>dr_index = 0x2480, step_count = 0x1070, dr_value = 0x0e090000 OR MT_MEMORY_EL3 B False OR 3\<rparr>])"
  proof -
    have "table_ranges ?R 1024 0x0e000000 0x1000 512 512 0 = table_ranges ?R 1024 0x0e000000 0x1000 512 512 144"
      by (rule untouched_run) (simp_all add: R)
    also have "table_ranges ?R 1024 0x0e000000 0x1000 512 512 256 = table_ranges ?R 1024 0x0e000000 0x1000 512 512 512"
      by (rule untouched_run) (simp_all add: R)
    then have "table_ranges ?R 1024 0x0e000000 0x1000 512 512 144 =
      Some (512, [\<lparr>dr_index = 0x2480, step_count = 0x1070, dr_value = 0x0e090000 OR MT_MEMORY_EL3 B False OR 3\<rparr>])"
      by (subst table_ranges.simps) (simp add: R table_ranges.simps [of _ _ _ _ 512 _ 512])
    finally show ?thesis .
  qed
  have second: "table_ranges ?R 512 0 0x200000 512 512 0 =
      Some (1024,
        [\<lparr>dr_index = 0x1240, step_count = 0x200006, dr_value = 0x09000000 OR MT_DEVICE B False OR 1\<rparr>,
         \<lparr>dr_index = 0x1380, step_count = 0, dr_value = 0x2003\<rparr>,
         \<lparr>dr_index = 0x2480, step_count = 0x1070, dr_value = 0x0e090000 OR MT_MEMORY_EL3 B False OR 3\<rparr>])"
  proof -
    have runs: "table_ranges ?R 512 0 0x200000 512 512 0 = table_ranges ?R 512 0 0x200000 512 512 72"
      "table_ranges ?R 512 0 0x200000 512 512 78 = table_ranges ?R 512 0 0x200000 512 512 112"
      "table_ranges ?R 512 0 0x200000 512 1024 113 = table_ranges ?R 512 0 0x200000 512 1024 512"
      by (rule untouched_run; simp add: R)+
    have "table_ranges ?R 512 0 0x200000 512 512 112 =
        Some (1024,
          [\<lparr>dr_index = 0x1380, step_count = 0, dr_value = 0x2003\<rparr>,
           \<lparr>dr_index = 0x2480, step_count = 0x1070, dr_value = 0x0e090000 OR MT_MEMORY_EL3 B False OR 3\<rparr>])"
      using overlaps_step(2) [where di = 112 and dc = 512 and regions = ?R and base = 0 and bs = "0x200000" and start = 512 and used = 512] third runs(3)
      by (simp add: R table_ranges.simps [of _ _ _ _ 512 _ 512])
    then show ?thesis
      unfolding runs(1) using runs(2) by (subst table_ranges.simps) (simp add: R)
  qed
  have "table_ranges ?R 0 0 0x40000000 512 1536 1 = table_ranges ?R 0 0 0x40000000 512 1536 512"
    by (rule untouched_run; simp add: R)
  then show ?thesis
    unfolding early_ranges_def TOP_LEVEL_BLOCK_SIZE_def TOP_LEVEL_DESCRIPTOR_COUNT_def
    using overlaps_step(2) [where di = 0 and dc = 512 and regions = ?R and base = 0 and bs = "0x40000000" and start = 0 and used = 512] second
    by (simp add: R table_ranges.simps [of _ _ _ _ 512 _ 512])
qed

section \<open>Translation\<close>

lemma no_table_no_mapping:
  assumes "regions_ok regions" "regions \<noteq> []" "\<forall>a. tb \<le> a \<and> a < tb + 8 * 512 \<longrightarrow> m a = 0"
  shows "\<exists>va < 2 ^ 39. walk m 2 tb va \<noteq> mapping regions va"
proof -
  obtain r where r: "r \<in> set regions" using assms(2) by (cases regions) auto
  let ?va = "region_start r" and ?i = "region_start r div level_size 2"
  have ok: "?va < region_end r" "region_end r \<le> 2 ^ 39"
    using assms(1) r by (auto simp: regions_ok_def region_ok_def list_all_iff)
  then have i: "?i < 512" by (simp add: level_size_def less_mult_imp_div_less)
  have "?va < (?i + 1) * level_size 2"
    using dividend_less_times_div [OF level_size_simps(4) [of 2], of ?va] by (simp add: algebra_simps)
  then have "walk m 2 tb ?va = None"
    using walk_zero [of 2 0 ?i ?va m tb] i assms(3) by (simp add: div_times_less_eq_dividend)
  moreover have "mapping regions ?va \<noteq> None" using mapping_in [OF assms(1) r, of ?va] ok(1) by simp
  ultimately show ?thesis using ok by (intro exI [of _ ?va]) auto
qed

text \<open>
  C39. For supported regions the compile-time functions succeed, and the tables that the assembly
  writes from their result into zeroed memory translate exactly as the regions ask: every address
  of a region translates to itself with the region's attributes and every other address below
  512 GB faults. Nothing outside the computed table size is written. The tables lie at a page
  boundary in the 48 bits of physical addresses.
\<close>

theorem early_tables_map_regions:
  assumes "regions_ok regions" "regions \<noteq> []"
  shows "\<exists>n ranges size'. get_range_count regions = Some n \<and> build_ranges n regions = Some (ranges, size') \<and>
    (\<forall>tb m. 4096 dvd tb \<and> tb + size' \<le> 2 ^ 48 \<and> (\<forall>a. tb \<le> a \<and> a < tb + size' \<longrightarrow> m a = 0) \<longrightarrow>
       (\<exists>m'. init_early_page_tables ranges tb m = Some m' \<and> (\<forall>a. a < tb \<or> tb + size' \<le> a \<longrightarrow> m' a = m a) \<and>
          (\<forall>va < 2 ^ 39. walk m' 2 tb va = mapping regions va)))"
proof (rule early_tables_translate [OF assms(1)])
  fix u rs
  assume u: "early_ranges regions = Some (u, rs)" "512 \<le> u"
    and lay: "\<And>tb m. 4096 dvd tb \<Longrightarrow> tb + 8 * u \<le> 2 ^ 48 \<Longrightarrow> \<forall>a. tb \<le> a \<and> a < tb + 8 * u \<longrightarrow> m a = 0 \<Longrightarrow>
       \<exists>m'. write_ranges tb rs m = Some m' \<and> (\<forall>a. a < tb \<or> tb + 8 * u \<le> a \<longrightarrow> m' a = m a) \<and>
         (\<forall>va < 2 ^ 39. walk m' 2 tb va = mapping regions va)"
  have "\<exists>m'. init_early_page_tables rs tb m = Some m' \<and> (\<forall>a. a < tb \<or> tb + u * 8 \<le> a \<longrightarrow> m' a = m a) \<and>
      (\<forall>va < 2 ^ 39. walk m' 2 tb va = mapping regions va)"
    if tb: "4096 dvd tb" "tb + u * 8 \<le> 2 ^ 48" and zero: "\<forall>a. tb \<le> a \<and> a < tb + u * 8 \<longrightarrow> m a = 0" for tb m
  proof -
    obtain m' where m': "write_ranges tb rs m = Some m'" "\<forall>a. a < tb \<or> tb + 8 * u \<le> a \<longrightarrow> m' a = m a"
        "\<forall>va < 2 ^ 39. walk m' 2 tb va = mapping regions va"
      using lay [OF tb(1) tb(2) [unfolded mult.commute [of u 8]] zero [unfolded mult.commute [of u 8]]] by blast
    have "rs \<noteq> []"
    proof
      assume "rs = []"
      then have "m' = m" using m'(1) by simp
      moreover have "\<forall>a. tb \<le> a \<and> a < tb + 8 * 512 \<longrightarrow> m a = 0" using zero u(2) by auto
      ultimately show False using no_table_no_mapping [OF assms] m'(3) by blast
    qed
    then have "init_early_page_tables rs tb m = Some m'" using m'(1) by (simp add: init_early_page_tables_def)
    with m'(2,3) show ?thesis unfolding mult.commute [of u 8] by blast
  qed
  then show ?thesis
    using u(1) by (simp add: get_range_count_ranges build_ranges_list)
qed

theorem early_tables_map_regions_witness:
  "\<exists>ranges m'. init_early_page_tables ranges 0x0e0a0000 (\<lambda>_. 0) = Some m' \<and>
     walk m' 2 0x0e0a0000 0x0e0ff123 = Some (0x0e0ff123, MT_MEMORY_EL3 stage1_bits False) \<and>
     walk m' 2 0x0e0a0000 0x0e100000 = None"
proof -
  let ?R = "qemu_EARLY_REGIONS stage1_bits" and ?tb = "0x0e0a0000 :: nat"
  have "?R \<noteq> []" by (simp add: qemu_EARLY_REGIONS_def)
  from early_tables_map_regions [OF qemu_regions_ok this] obtain n ranges size' where
    built: "get_range_count ?R = Some n" "build_ranges n ?R = Some (ranges, size')" and
    tables: "\<forall>tb m. 4096 dvd tb \<and> tb + size' \<le> 2 ^ 48 \<and> (\<forall>a. tb \<le> a \<and> a < tb + size' \<longrightarrow> m a = 0) \<longrightarrow>
       (\<exists>m'. init_early_page_tables ranges tb m = Some m' \<and> (\<forall>a. a < tb \<or> tb + size' \<le> a \<longrightarrow> m' a = m a) \<and>
          (\<forall>va < 2 ^ 39. walk m' 2 tb va = mapping ?R va))"
    by (elim exE conjE) (rule that)
  have "size' = 12288"
    using built by (auto simp: build_ranges_list qemu_early_ranges split: if_splits)
  then obtain m' where "init_early_page_tables ranges ?tb (\<lambda>_. 0) = Some m'"
      "\<And>va. va < 2 ^ 39 \<Longrightarrow> walk m' 2 ?tb va = mapping ?R va"
    using tables [rule_format, of ?tb "\<lambda>_. 0"] by auto
  then show ?thesis
    by (intro exI [of _ ranges] exI [of _ m'])
      (simp add: mapping_def qemu_EARLY_REGIONS_def MT_MEMORY_EL3_def MT_MEMORY_def BASE_EL3_def BASE_def stage1_bits_def)
qed

section \<open>Counting\<close>

text \<open>
  C40. The two compile-time passes agree for every list of regions, supported or not. Building the
  ranges into an array of \<open>N\<close> elements panics exactly when counting does or when \<open>N\<close> is less than
  the count; otherwise the array holds the ranges of the reference version, as many as were counted,
  followed by empty ones. With \<open>N\<close> the count, as in \<open>define_early_mapping!\<close>, every element is used.
\<close>

theorem range_count_is_exact:
  "build_ranges N regions =
    (case get_range_count regions of
       None \<Rightarrow> None
     | Some n \<Rightarrow>
         if N < n then None
         else map_option (\<lambda>(used, rs). (rs @ replicate (N - n) DescriptorRange_EMPTY, used * 8)) (early_ranges regions))"
  by (simp add: build_ranges_list get_range_count_ranges split: option.splits)

section \<open>A region that crosses the end of a table\<close>

text \<open>
  The region from the second page to 4 MB is outside the supported ones. Its run of pages in the
  table of the first 2 MB is counted up to and including a page after the end of that table. The
  range of 512 descriptors starts at the second one, so the last is written to offset 0x3000 of
  tables whose computed size is 0x3000.
\<close>

definition crossing_region :: EarlyRegion where
  "crossing_region = \<lparr>region_start = 0x1000, region_end = 0x400000, region_attributes = 0x10\<rparr>"

lemma crossing_region_overruns:
  "build_ranges 4 [crossing_region] =
    Some ([\<lparr>dr_index = 0, step_count = 0, dr_value = 0x1003\<rparr>, \<lparr>dr_index = 0x1000, step_count = 0, dr_value = 0x2003\<rparr>,
           \<lparr>dr_index = 0x2008, step_count = 0x1200, dr_value = 0x1013\<rparr>,
           \<lparr>dr_index = 0x1008, step_count = 0x200001, dr_value = 0x200011\<rparr>], 0x3000) \<and>
   0x2008 + 8 * ((0x1200 :: nat) AND 0xfff) = 0x3000 + 8 \<and> \<not> regions_ok [crossing_region]"
proof -
  let ?R = "[crossing_region]"
  note R = crossing_region_def block_at_def overlaps_def block_range_def table_range_def repeat_count_def GRANULE_SIZE_def
  have third: "table_ranges ?R 1024 0 0x1000 512 512 0 =
      Some (512, [\<lparr>dr_index = 0x2008, step_count = 0x1200, dr_value = 0x1013\<rparr>])"
  proof -
    have "table_ranges ?R 1024 0 0x1000 512 512 0 = table_ranges ?R 1024 0 0x1000 512 512 1"
      by (rule untouched_run) (simp_all add: R)
    also have "\<dots> = Some (512, [\<lparr>dr_index = 0x2008, step_count = 0x1200, dr_value = 0x1013\<rparr>])"
      by (subst table_ranges.simps) (simp add: R table_ranges.simps [of _ _ _ _ 512 _ 513])
    finally show ?thesis .
  qed
  have "table_ranges ?R 512 0 0x200000 512 1024 2 = table_ranges ?R 512 0 0x200000 512 1024 512"
    by (rule untouched_run) (simp_all add: R)
  then have one: "table_ranges ?R 512 0 0x200000 512 1024 1 =
      Some (1024, [\<lparr>dr_index = 0x1008, step_count = 0x200001, dr_value = 0x200011\<rparr>])"
    by (subst table_ranges.simps) (simp add: R numeral_2_eq_2 table_ranges.simps [of _ _ _ _ 512 _ 512])
  have second: "table_ranges ?R 512 0 0x200000 512 512 0 =
      Some (1024, [\<lparr>dr_index = 0x1000, step_count = 0, dr_value = 0x2003\<rparr>,
        \<lparr>dr_index = 0x2008, step_count = 0x1200, dr_value = 0x1013\<rparr>,
        \<lparr>dr_index = 0x1008, step_count = 0x200001, dr_value = 0x200011\<rparr>])"
    using overlaps_step(2) [where di = 0 and dc = 512 and regions = ?R and base = 0 and bs = "0x200000" and start = 512 and used = 512]
      third one by (simp add: R)
  have "table_ranges ?R 0 0 0x40000000 512 1536 1 = table_ranges ?R 0 0 0x40000000 512 1536 512"
    by (rule untouched_run; simp add: R)
  then have "early_ranges ?R = Some (1536, [\<lparr>dr_index = 0, step_count = 0, dr_value = 0x1003\<rparr>,
      \<lparr>dr_index = 0x1000, step_count = 0, dr_value = 0x2003\<rparr>, \<lparr>dr_index = 0x2008, step_count = 0x1200, dr_value = 0x1013\<rparr>,
      \<lparr>dr_index = 0x1008, step_count = 0x200001, dr_value = 0x200011\<rparr>])"
    unfolding early_ranges_def TOP_LEVEL_BLOCK_SIZE_def TOP_LEVEL_DESCRIPTOR_COUNT_def
    using overlaps_step(2) [where di = 0 and dc = 512 and regions = ?R and base = 0 and bs = "0x40000000" and start = 0 and used = 512]
      second by (simp add: R table_ranges.simps [of _ _ _ _ 512 _ 512])
  then show ?thesis
    by (simp add: build_ranges_list regions_ok_def region_ok_def crossing_region_def level_size_def)
qed

end
